(* ===== verification/Prelude.thy ===== *)
theory Prelude
  imports Main "HOL-Library.Char_ord" "HOL-Library.List_Lexorder"
begin

text \<open>
  Shared vocabulary of the development: JavaScript strings and JSON values, the results of
  fallible code, rows of a SQL table as lists, and the generic lemmas about them.

  A JavaScript string is a HOL \<open>string\<close> (a list of 8-bit characters, so a code unit is a
  character of Latin-1). A JSON number is an unbounded integer (\<open>JNum\<close>) or, when it is not
  an integer, its decimal text (\<open>JDec\<close>). Objects keep the order in which their keys were
  inserted; keys are distinct in every object the code builds.
\<close>

section \<open>Collections of facts\<close>

named_theorems row_simps \<open>reading a table after a write to it\<close>
named_theorems spec_defs \<open>definitions of the job specification checks\<close>

section \<open>Results of fallible code\<close>

type_synonym ('e, 'a) result = "'e + 'a"

fun and_then :: "('e, 'a) result \<Rightarrow> ('a \<Rightarrow> ('e, 'b) result) \<Rightarrow> ('e, 'b) result" where
  "and_then (Inl e) k = Inl e"
| "and_then (Inr a) k = k a"

lemma and_then_Inr_iff:
  "and_then m k = Inr b \<longleftrightarrow> (\<exists>a. m = Inr a \<and> k a = Inr b)"
  by (cases m) auto

lemma and_then_Inl_iff:
  "and_then m k = Inl e \<longleftrightarrow> m = Inl e \<or> (\<exists>a. m = Inr a \<and> k a = Inl e)"
  by (cases m) auto

section \<open>Characters and strings\<close>

definition char_between :: "char \<Rightarrow> char \<Rightarrow> char \<Rightarrow> bool" where
  "char_between a b c \<longleftrightarrow> (of_char a :: nat) \<le> of_char c \<and> (of_char c :: nat) \<le> of_char b"

definition is_digit :: "char \<Rightarrow> bool" where
  "is_digit c \<longleftrightarrow> char_between (CHR ''0'') (CHR ''9'') c"

definition is_lower :: "char \<Rightarrow> bool" where
  "is_lower c \<longleftrightarrow> char_between (CHR ''a'') (CHR ''z'') c"

definition is_upper :: "char \<Rightarrow> bool" where
  "is_upper c \<longleftrightarrow> char_between (CHR ''A'') (CHR ''Z'') c"

definition is_space :: "char \<Rightarrow> bool" where
  "is_space c \<longleftrightarrow> c = CHR 0x20 \<or> char_between (CHR 0x09) (CHR 0x0D) c \<or> c = CHR 0xA0"

definition to_lower_char :: "char \<Rightarrow> char" where
  "to_lower_char c = (if is_upper c then char_of ((of_char c :: nat) + 32) else c)"

definition to_lower :: "string \<Rightarrow> string" where
  "to_lower s = map to_lower_char s"

definition str_trim :: "string \<Rightarrow> string" where
  "str_trim s = rev (dropWhile is_space (rev (dropWhile is_space s)))"

definition starts_with :: "string \<Rightarrow> string \<Rightarrow> bool" where
  "starts_with p s \<longleftrightarrow> take (length p) s = p"

definition ends_with :: "string \<Rightarrow> string \<Rightarrow> bool" where
  "ends_with p s \<longleftrightarrow> length p \<le> length s \<and> drop (length s - length p) s = p"

fun str_includes :: "string \<Rightarrow> string \<Rightarrow> bool" where
  "str_includes needle [] = (needle = [])"
| "str_includes needle (c # cs) = (starts_with needle (c # cs) \<or> str_includes needle cs)"

fun str_join :: "string \<Rightarrow> string list \<Rightarrow> string" where
  "str_join sep [] = []"
| "str_join sep [x] = x"
| "str_join sep (x # y # ys) = x @ sep @ str_join sep (y # ys)"

fun split_on :: "char \<Rightarrow> string \<Rightarrow> string list" where
  "split_on d [] = [[]]"
| "split_on d (c # cs) =
     (if c = d then [] # split_on d cs
      else (case split_on d cs of [] \<Rightarrow> [[c]] | w # ws \<Rightarrow> (c # w) # ws))"

lemma starts_with_append [simp]: "starts_with p (p @ s)"
  by (simp add: starts_with_def)

lemma starts_with_iff: "starts_with p s \<longleftrightarrow> (\<exists>r. s = p @ r)"
proof
  assume "starts_with p s"
  then have "take (length p) s @ drop (length p) s = p @ drop (length p) s"
    by (simp add: starts_with_def)
  then have "s = p @ drop (length p) s" by (simp only: append_take_drop_id)
  then show "\<exists>r. s = p @ r" ..
qed auto

lemma ends_with_iff: "ends_with p s \<longleftrightarrow> (\<exists>r. s = r @ p)"
proof
  assume *: "ends_with p s"
  then have "s = take (length s - length p) s @ p"
    unfolding ends_with_def by (metis append_take_drop_id)
  then show "\<exists>r. s = r @ p" ..
qed (auto simp: ends_with_def)

lemma str_includes_iff: "str_includes n s \<longleftrightarrow> (\<exists>a b. s = a @ n @ b)"
proof (induction s)
  case Nil
  then show ?case by simp
next
  case (Cons c cs)
  have "(\<exists>a b. c # cs = a @ n @ b) \<longleftrightarrow> (\<exists>b. c # cs = n @ b) \<or> (\<exists>a b. cs = a @ n @ b)"
    by (metis (no_types, opaque_lifting) append_Cons append_Nil list.exhaust list.inject)
  with Cons show ?case by (simp add: starts_with_iff)
qed

fun nat_str :: "nat \<Rightarrow> string" where
  "nat_str n = (if n < 10 then [''0123456789'' ! n] else nat_str (n div 10) @ [''0123456789'' ! (n mod 10)])"

declare nat_str.simps [simp del]

definition int_str :: "int \<Rightarrow> string" where
  "int_str i = (if i < 0 then CHR ''-'' # nat_str (nat (- i)) else nat_str (nat i))"

fun digits_val :: "nat \<Rightarrow> string \<Rightarrow> nat" where
  "digits_val acc [] = acc"
| "digits_val acc (c # cs) = digits_val (10 * acc + (of_char c - 48)) cs"

definition str_nat :: "string \<Rightarrow> nat" where
  "str_nat s = digits_val 0 s"

lemma digits_val_append: "digits_val a (xs @ ys) = digits_val (digits_val a xs) ys"
  by (induction xs arbitrary: a) auto

lemma digit_nth:
  assumes "n < 10"
  shows "of_char (''0123456789'' ! n) = (48 + n :: nat)" and "is_digit (''0123456789'' ! n)"
proof -
  from assms have "n \<in> {0, 1, 2, 3, 4, 5, 6, 7, 8, 9}" by auto
  then show "of_char (''0123456789'' ! n) = (48 + n :: nat)" and "is_digit (''0123456789'' ! n)"
    by (auto simp: is_digit_def char_between_def)
qed

lemma nat_str_nonempty [simp]: "nat_str n \<noteq> []"
  by (subst nat_str.simps) simp

lemma str_nat_nat_str [simp]: "str_nat (nat_str n) = n"
proof (induction n rule: nat_str.induct)
  case (1 n)
  show ?case
  proof (cases "n < 10")
    case True
    then show ?thesis
      by (subst nat_str.simps) (simp add: str_nat_def digit_nth)
  next
    case False
    with "1.IH" have "str_nat (nat_str (n div 10)) = n div 10" by simp
    with False show ?thesis
      by (subst nat_str.simps) (simp add: str_nat_def digits_val_append digit_nth del: nth_Cons_numeral)
  qed
qed

lemma nat_str_digits: "list_all is_digit (nat_str n)"
proof (induction n rule: nat_str.induct)
  case (1 n)
  then show ?case
    by (subst nat_str.simps) (auto simp: digit_nth simp del: nth_Cons_numeral)
qed

lemma nat_str_inject [simp]: "nat_str m = nat_str n \<longleftrightarrow> m = n"
  by (metis str_nat_nat_str)

section \<open>Tables\<close>

text \<open>
  A SQL table is the list of its rows in insertion (rowid) order. \<open>row_of\<close> is a select by a
  key, \<open>upd_rows\<close> an update with a where clause.
\<close>

definition row_of :: "('r \<Rightarrow> 'k) \<Rightarrow> 'k \<Rightarrow> 'r list \<Rightarrow> 'r option" where
  "row_of key k rows = find (\<lambda>r. key r = k) rows"

definition upd_rows :: "('r \<Rightarrow> bool) \<Rightarrow> ('r \<Rightarrow> 'r) \<Rightarrow> 'r list \<Rightarrow> 'r list" where
  "upd_rows p f rows = map (\<lambda>r. if p r then f r else r) rows"

lemma row_of_simps [simp]:
  "row_of key k [] = None"
  "row_of key k (r # rs) = (if key r = k then Some r else row_of key k rs)"
  by (simp_all add: row_of_def)

lemma upd_rows_simps [simp]:
  "upd_rows p f [] = []"
  "upd_rows p f (r # rs) = (if p r then f r else r) # upd_rows p f rs"
  "length (upd_rows p f rows) = length rows"
  by (simp_all add: upd_rows_def)

lemma upd_rows_append [simp]: "upd_rows p f (xs @ ys) = upd_rows p f xs @ upd_rows p f ys"
  by (simp add: upd_rows_def)

lemma row_of_append [simp]:
  "row_of key k (xs @ ys) = (case row_of key k xs of None \<Rightarrow> row_of key k ys | Some r \<Rightarrow> Some r)"
  by (induction xs) auto

lemma row_of_Some_key: "row_of key k rows = Some r \<Longrightarrow> key r = k"
  by (induction rows) (auto split: if_splits)

lemma row_of_Some_in: "row_of key k rows = Some r \<Longrightarrow> r \<in> set rows"
  by (induction rows) (auto split: if_splits)

lemma row_of_None_iff: "row_of key k rows = None \<longleftrightarrow> k \<notin> key ` set rows"
  by (induction rows) auto

lemma row_of_upd_rows:
  assumes "\<And>r. key (f r) = key r"
  shows "row_of key k (upd_rows p f rows)
    = map_option (\<lambda>r. if p r then f r else r) (row_of key k rows)"
  using assms by (induction rows) auto

lemma row_of_upd_key [row_simps]:
  assumes "\<And>r. key (f r) = key r"
  shows "row_of key k (upd_rows (\<lambda>r. key r = k') f rows)
    = (if k = k' then map_option f (row_of key k rows) else row_of key k rows)"
proof -
  have "row_of key k (upd_rows (\<lambda>r. key r = k') f rows)
      = map_option (\<lambda>r. if key r = k' then f r else r) (row_of key k rows)"
    by (rule row_of_upd_rows [where p = "\<lambda>r. key r = k'"]) (rule assms)
  then show ?thesis by (cases "row_of key k rows") (auto dest: row_of_Some_key)
qed

lemma map_upd_rows:
  assumes "\<And>r. p r \<Longrightarrow> g (f r) = g r"
  shows "map g (upd_rows p f rows) = map g rows"
  using assms by (induction rows) auto

lemma filter_upd_rows:
  assumes "\<And>r. p r \<Longrightarrow> q (f r) = q r"
  shows "filter q (upd_rows p f rows) = upd_rows p f (filter q rows)"
  using assms by (induction rows) auto

lemma upd_rows_none: "(\<And>r. r \<in> set rows \<Longrightarrow> \<not> p r) \<Longrightarrow> upd_rows p f rows = rows"
  by (induction rows) auto

lemma upd_rows_ident: "(\<And>r. r \<in> set rows \<Longrightarrow> p r \<Longrightarrow> f r = r) \<Longrightarrow> upd_rows p f rows = rows"
  by (induction rows) auto

lemma set_upd_rows: "set (upd_rows p f rows) = (\<lambda>r. if p r then f r else r) ` set rows"
  by (auto simp: upd_rows_def)

text \<open>With a primary key, membership and lookup agree.\<close>

lemma row_of_in_iff:
  assumes "distinct (map key rows)"
  shows "row_of key k rows = Some r \<longleftrightarrow> r \<in> set rows \<and> key r = k"
  using assms
  by (induction rows) (auto dest: row_of_Some_key row_of_Some_in simp: image_iff)

section \<open>Transactions\<close>

text \<open>
  \<open>tx(db, fn)\<close>: run the synchronous function inside one immediate transaction; when it throws,
  everything it wrote is rolled back and the error is rethrown.
\<close>

definition tx :: "('d \<Rightarrow> ('e, 'a \<times> 'd) result) \<Rightarrow> 'd \<Rightarrow> ('e, 'a) result \<times> 'd" where
  "tx fn d = (case fn d of Inl e \<Rightarrow> (Inl e, d) | Inr (a, d') \<Rightarrow> (Inr a, d'))"

lemma tx_Inl: "fst (tx fn d) = Inl e \<Longrightarrow> snd (tx fn d) = d"
  by (auto simp: tx_def split: sum.splits)

lemma tx_Inr: "fst (tx fn d) = Inr a \<longleftrightarrow> (\<exists>d'. fn d = Inr (a, d') \<and> snd (tx fn d) = d')"
  by (auto simp: tx_def split: sum.splits)

end
