(* ===== verification/Json.thy ===== *)
theory Json
  imports Prelude "HOL-Library.Multiset"
begin

text \<open>
  JSON values, property lookup, and the two serialisers of the code: the insertion-ordered
  \<open>JSON.stringify\<close> and the key-sorted \<open>stableStringify\<close> of \<open>agent-job-store.js\<close>, whose output
  is what run keys, effect keys and spec hashes are computed from.
\<close>

section \<open>Values\<close>

datatype json =
    JNull
  | JBool bool
  | JNum int
  | JDec string
  | JStr string
  | JArr "json list"
  | JObj "(string \<times> json) list"

definition is_object :: "json \<Rightarrow> bool" where
  "is_object v = (case v of JObj _ \<Rightarrow> True | _ \<Rightarrow> False)"

definition is_obj_or_arr :: "json \<Rightarrow> bool" where
  "is_obj_or_arr v = (case v of JObj _ \<Rightarrow> True | JArr _ \<Rightarrow> True | _ \<Rightarrow> False)"

definition jget :: "json \<Rightarrow> string \<Rightarrow> json option" where
  "jget v k = (case v of JObj kvs \<Rightarrow> map_of kvs k | _ \<Rightarrow> None)"

definition jkeys :: "json \<Rightarrow> string list" where
  "jkeys v = (case v of JObj kvs \<Rightarrow> map fst kvs | _ \<Rightarrow> [])"

definition jstr_opt :: "string option \<Rightarrow> json" where
  "jstr_opt x = (case x of None \<Rightarrow> JNull | Some s \<Rightarrow> JStr s)"

definition jnum_opt :: "int option \<Rightarrow> json" where
  "jnum_opt x = (case x of None \<Rightarrow> JNull | Some n \<Rightarrow> JNum n)"

definition or_null :: "json option \<Rightarrow> json" where
  "or_null x = (case x of None \<Rightarrow> JNull | Some v \<Rightarrow> v)"

text \<open>Truthiness and \<open>String(value)\<close> of the values the code converts.\<close>

definition truthy :: "json \<Rightarrow> bool" where
  "truthy v = (case v of JNull \<Rightarrow> False | JBool b \<Rightarrow> b | JNum n \<Rightarrow> n \<noteq> 0 | JStr s \<Rightarrow> s \<noteq> [] | _ \<Rightarrow> True)"

primrec js_string :: "json \<Rightarrow> string" where
  "js_string JNull = ''null''"
| "js_string (JBool b) = (if b then ''true'' else ''false'')"
| "js_string (JNum n) = int_str n"
| "js_string (JDec d) = d"
| "js_string (JStr s) = s"
| "js_string (JArr xs) = str_join '','' (map2 (\<lambda>v s. if v = JNull then [] else s) xs (map js_string xs))"
| "js_string (JObj kvs) = ''[object Object]''"

section \<open>JSON.stringify\<close>

definition hex_digit :: "nat \<Rightarrow> char" where
  "hex_digit n = ''0123456789abcdef'' ! n"

definition json_escape :: "char \<Rightarrow> string" where
  "json_escape c =
     (if c = CHR 0x22 then [CHR 0x5C, CHR 0x22]
      else if c = CHR 0x5C then [CHR 0x5C, CHR 0x5C]
      else if c = CHR 0x08 then [CHR 0x5C, CHR ''b'']
      else if c = CHR 0x09 then [CHR 0x5C, CHR ''t'']
      else if c = CHR 0x0A then [CHR 0x5C, CHR ''n'']
      else if c = CHR 0x0C then [CHR 0x5C, CHR ''f'']
      else if c = CHR 0x0D then [CHR 0x5C, CHR ''r'']
      else if (of_char c :: nat) < 32
        then CHR 0x5C # ''u00'' @ [hex_digit (of_char c div 16), hex_digit (of_char c mod 16)]
      else [c])"

definition json_quote :: "string \<Rightarrow> string" where
  "json_quote s = CHR 0x22 # concat (map json_escape s) @ [CHR 0x22]"

primrec json_stringify :: "json \<Rightarrow> string" where
  "json_stringify JNull = ''null''"
| "json_stringify (JBool b) = (if b then ''true'' else ''false'')"
| "json_stringify (JNum n) = int_str n"
| "json_stringify (JDec d) = d"
| "json_stringify (JStr s) = json_quote s"
| "json_stringify (JArr xs) = CHR ''['' # str_join '','' (map json_stringify xs) @ '']''"
| "json_stringify (JObj kvs) =
     CHR ''{'' # str_join '',''
       (map (\<lambda>(k, s). json_quote k @ CHR '':'' # s) (map (map_prod id json_stringify) kvs)) @ ''}''"

section \<open>stableStringify\<close>

text \<open>\<open>Object.keys(value).sort()\<close> orders keys by code unit, which is the lexicographic order.\<close>

primrec stable_stringify :: "json \<Rightarrow> string" where
  "stable_stringify JNull = ''null''"
| "stable_stringify (JBool b) = (if b then ''true'' else ''false'')"
| "stable_stringify (JNum n) = int_str n"
| "stable_stringify (JDec d) = d"
| "stable_stringify (JStr s) = json_quote s"
| "stable_stringify (JArr xs) = CHR ''['' # str_join '','' (map stable_stringify xs) @ '']''"
| "stable_stringify (JObj kvs) =
     CHR ''{'' # str_join '',''
       (map (\<lambda>(k, s). json_quote k @ CHR '':'' # s)
          (sort_key fst (map (map_prod id stable_stringify) kvs))) @ ''}''"

text \<open>Objects whose keys are distinct, at every level: what \<open>JSON.parse\<close> and literals give.\<close>

primrec distinct_keys :: "json \<Rightarrow> bool" where
  "distinct_keys JNull = True"
| "distinct_keys (JBool b) = True"
| "distinct_keys (JNum n) = True"
| "distinct_keys (JDec d) = True"
| "distinct_keys (JStr s) = True"
| "distinct_keys (JArr xs) = list_all id (map distinct_keys xs)"
| "distinct_keys (JObj kvs) =
     (distinct (map fst kvs) \<and> list_all snd (map (map_prod id distinct_keys) kvs))"

lemma short_list_mset_eq:
  assumes "mset xs = mset ys" and "length ys \<le> 1"
  shows "xs = ys"
  using assms by (cases ys) (auto simp: Suc_le_eq)

lemma sort_key_fst_unique:
  assumes "mset xs = mset ys" and "distinct (map fst xs)"
  shows "sort_key fst xs = sort_key fst (ys :: ('k::linorder \<times> 'v) list)"
proof (rule properties_for_sort_key)
  show "mset (sort_key fst ys) = mset xs" using assms(1) by simp
  show "sorted (map fst (sort_key fst ys))" by simp
  fix k assume "k \<in> set (sort_key fst ys)"
  have "mset (filter (\<lambda>x. fst k = fst x) (sort_key fst ys)) = mset (filter (\<lambda>x. fst k = fst x) xs)"
    using assms(1) by (simp only: mset_filter mset_sort)
  moreover have "length (filter (\<lambda>x. fst k = fst x) xs) \<le> 1"
    using assms(2) by (induction xs) (auto simp: filter_empty_conv rev_image_eqI image_iff)
  ultimately show "filter (\<lambda>x. fst k = fst x) (sort_key fst ys) = filter (\<lambda>x. fst k = fst x) xs"
    by (rule short_list_mset_eq)
qed

text \<open>Reordering the keys of an object does not change its stable text.\<close>

lemma stable_stringify_perm:
  assumes "mset kvs = mset kvs'" and "distinct (map fst kvs)"
  shows "stable_stringify (JObj kvs) = stable_stringify (JObj kvs')"
proof -
  let ?f = "map_prod id stable_stringify"
  have "mset (map ?f kvs) = mset (map ?f kvs')" using assms(1) by (metis mset_map)
  moreover have "distinct (map fst (map ?f kvs))" using assms(2) by (simp add: comp_def)
  ultimately have "sort_key fst (map ?f kvs) = sort_key fst (map ?f kvs')"
    by (rule sort_key_fst_unique)
  then show ?thesis by simp
qed

end
