(* ===== verification/JobSpec.thy ===== *)
theory JobSpec
  imports Json
begin

text \<open>
  The normalised Agent Job specification (\<open>agent-job-spec.js\<close>): its data types, the JSON form that
  is stored and hashed, durations, and the tool decision (deny, then approval_required, then
  allow, else deny). The validator that produces such specifications is in \<open>SpecCheck\<close>.
\<close>

section \<open>Data\<close>

datatype cadence = Interval | Daily | Weekly

text \<open>Fields that a schedule does not use for its cadence are \<open>None\<close>, as they are absent in the code.\<close>

datatype trigger =
    Schedule cadence "int option" "string option" string
  | Webhook string string "string option"
  | ApiTrigger
  | WhatsApp string "string list" "string option"

record agent_ref =
  ref_provider :: string
  ref_model :: "string option"
  ref_base_url :: "string option"

record tool_perms =
  allow_tools :: "string list"
  deny_tools :: "string list"
  approval_tools :: "string list"

datatype backoff = Fixed | Exponential

record retry_policy =
  retry_backoff :: backoff
  initial_delay_ms :: int
  max_delay_ms :: int

datatype concurrency = Forbid | Queue | Replace

record runtime_policy =
  rt_durable :: bool
  rt_max_attempts :: int
  rt_timeout_ms :: int
  rt_approval_timeout_ms :: int
  rt_concurrency :: concurrency
  rt_retry :: retry_policy

record notify_rule =
  rule_on :: "string list"
  rule_channel :: string
  rule_target :: string

record job_spec =
  spec_name :: string
  spec_description :: string
  spec_labels :: "(string \<times> string) list"
  spec_triggers :: "trigger list"
  spec_agent :: agent_ref
  spec_fallback :: "agent_ref list"
  spec_prompt :: string
  spec_inputs :: json
  spec_output_schema :: "json option"
  spec_tools :: tool_perms
  spec_secrets :: "string list"
  spec_runtime :: runtime_policy
  spec_notifications :: "notify_rule list"

section \<open>The stored form\<close>

definition cadence_str :: "cadence \<Rightarrow> string" where
  "cadence_str c = (case c of Interval \<Rightarrow> ''interval'' | Daily \<Rightarrow> ''daily'' | Weekly \<Rightarrow> ''weekly'')"

definition concurrency_str :: "concurrency \<Rightarrow> string" where
  "concurrency_str c = (case c of Forbid \<Rightarrow> ''forbid'' | Queue \<Rightarrow> ''queue'' | Replace \<Rightarrow> ''replace'')"

definition backoff_str :: "backoff \<Rightarrow> string" where
  "backoff_str b = (case b of Fixed \<Rightarrow> ''fixed'' | Exponential \<Rightarrow> ''exponential'')"

definition jstrs :: "string list \<Rightarrow> json" where
  "jstrs xs = JArr (map JStr xs)"

fun trigger_type :: "trigger \<Rightarrow> string" where
  "trigger_type (Schedule _ _ _ _) = ''schedule''"
| "trigger_type (Webhook _ _ _) = ''webhook''"
| "trigger_type ApiTrigger = ''api''"
| "trigger_type (WhatsApp _ _ _) = ''whatsapp''"

fun trigger_name :: "trigger \<Rightarrow> string option" where
  "trigger_name (Webhook n _ _) = Some n"
| "trigger_name _ = None"

fun trigger_json :: "trigger \<Rightarrow> json" where
  "trigger_json (Schedule c every time tz) = JObj
     ([(''type'', JStr ''schedule''), (''cadence'', JStr (cadence_str c))]
      @ (case every of None \<Rightarrow> [] | Some ms \<Rightarrow> [(''everyMs'', JNum ms)])
      @ (case time of None \<Rightarrow> [] | Some t \<Rightarrow> [(''time'', JStr t)])
      @ [(''timezone'', JStr tz)])"
| "trigger_json (Webhook n ref ev) = JObj
     [(''type'', JStr ''webhook''), (''name'', JStr n), (''secretRef'', JStr ref), (''eventId'', jstr_opt ev)]"
| "trigger_json ApiTrigger = JObj [(''type'', JStr ''api'')]"
| "trigger_json (WhatsApp g ss m) = JObj
     [(''type'', JStr ''whatsapp''), (''group'', JStr g), (''senders'', jstrs ss), (''match'', jstr_opt m)]"

definition agent_ref_fields :: "agent_ref \<Rightarrow> (string \<times> json) list" where
  "agent_ref_fields r =
     [(''provider'', JStr (ref_provider r)), (''model'', jstr_opt (ref_model r))]
     @ (case ref_base_url r of None \<Rightarrow> [] | Some u \<Rightarrow> [(''baseUrl'', JStr u)])"

definition runtime_json :: "runtime_policy \<Rightarrow> json" where
  "runtime_json rt = JObj
     [(''durable'', JBool (rt_durable rt)),
      (''maxAttempts'', JNum (rt_max_attempts rt)),
      (''timeoutMs'', JNum (rt_timeout_ms rt)),
      (''approvalTimeoutMs'', JNum (rt_approval_timeout_ms rt)),
      (''concurrency'', JStr (concurrency_str (rt_concurrency rt))),
      (''retry'', JObj
         [(''backoff'', JStr (backoff_str (retry_backoff (rt_retry rt)))),
          (''initialDelayMs'', JNum (initial_delay_ms (rt_retry rt))),
          (''maxDelayMs'', JNum (max_delay_ms (rt_retry rt)))])]"

definition rule_json :: "notify_rule \<Rightarrow> json" where
  "rule_json r = JObj
     [(''on'', jstrs (rule_on r)), (''channel'', JStr (rule_channel r)), (''target'', JStr (rule_target r))]"

definition spec_json :: "job_spec \<Rightarrow> json" where
  "spec_json s = JObj
     [(''apiVersion'', JStr ''orkestr/v0''),
      (''kind'', JStr ''AgentJob''),
      (''metadata'', JObj
         [(''name'', JStr (spec_name s)), (''description'', JStr (spec_description s)),
          (''labels'', JObj (map (map_prod id JStr) (spec_labels s)))]),
      (''triggers'', JArr (map trigger_json (spec_triggers s))),
      (''agent'', JObj (agent_ref_fields (spec_agent s)
         @ [(''fallback'', JArr (map (\<lambda>r. JObj (agent_ref_fields r)) (spec_fallback s)))])),
      (''task'', JObj
         [(''prompt'', JStr (spec_prompt s)), (''inputs'', spec_inputs s),
          (''outputSchema'', or_null (spec_output_schema s))]),
      (''permissions'', JObj
         [(''tools'', JObj
            [(''allow'', jstrs (allow_tools (spec_tools s))),
             (''deny'', jstrs (deny_tools (spec_tools s))),
             (''approvalRequired'', jstrs (approval_tools (spec_tools s)))]),
          (''secrets'', jstrs (spec_secrets s))]),
      (''runtime'', runtime_json (spec_runtime s)),
      (''notifications'', JArr (map rule_json (spec_notifications s)))]"

section \<open>Durations\<close>

definition all_digits :: "string \<Rightarrow> bool" where
  "all_digits s \<longleftrightarrow> s \<noteq> [] \<and> list_all is_digit s"

text \<open>\<open>DURATION_UNITS\<close>, and \<open>DURATION_RE\<close> as the split into digits and a unit.\<close>

definition duration_unit :: "string \<Rightarrow> int option" where
  "duration_unit u =
     (if u = ''ms'' then Some 1
      else if u = ''s'' then Some 1000
      else if u = ''m'' then Some 60000
      else if u = ''h'' then Some 3600000
      else if u = ''d'' then Some 86400000
      else None)"

definition parse_duration_ms :: "json \<Rightarrow> int option" where
  "parse_duration_ms v =
     (case v of
        JNum n \<Rightarrow> (if 0 \<le> n then Some n else None)
      | JStr t \<Rightarrow>
          (let s = str_trim t; ds = takeWhile is_digit s; u = dropWhile is_digit s
           in if ds = [] then None
              else (case duration_unit u of None \<Rightarrow> None | Some f \<Rightarrow> Some (int (str_nat ds) * f)))
      | _ \<Rightarrow> None)"

lemma parse_duration_nonneg: "parse_duration_ms v = Some ms \<Longrightarrow> 0 \<le> ms"
  by (auto simp: parse_duration_ms_def duration_unit_def Let_def
      split: json.splits if_splits option.splits)

section \<open>The tool decision\<close>

definition tool_matches :: "string \<Rightarrow> string \<Rightarrow> bool" where
  "tool_matches pattern tool =
     (if pattern = ''*'' then True
      else if ends_with ''.*'' pattern
        then tool = take (length pattern - 2) pattern
             \<or> starts_with (take (length pattern - 1) pattern) tool
      else pattern = tool)"

datatype tool_decision = Deny | ApprovalRequired | Allow

definition decision_str :: "tool_decision \<Rightarrow> string" where
  "decision_str d = (case d of Deny \<Rightarrow> ''deny'' | ApprovalRequired \<Rightarrow> ''approval_required'' | Allow \<Rightarrow> ''allow'')"

definition agent_job_tool_decision :: "tool_perms \<Rightarrow> string \<Rightarrow> tool_decision" where
  "agent_job_tool_decision p tool =
     (if list_ex (\<lambda>pat. tool_matches pat tool) (deny_tools p) then Deny
      else if list_ex (\<lambda>pat. tool_matches pat tool) (approval_tools p) then ApprovalRequired
      else if list_ex (\<lambda>pat. tool_matches pat tool) (allow_tools p) then Allow
      else Deny)"

text \<open>Decisions are ordered by how much they permit.\<close>

fun permits :: "tool_decision \<Rightarrow> nat" where
  "permits Deny = 0"
| "permits ApprovalRequired = 1"
| "permits Allow = 2"

instantiation tool_decision :: linorder
begin

definition less_eq_tool_decision :: "tool_decision \<Rightarrow> tool_decision \<Rightarrow> bool" where
  "less_eq_tool_decision a b \<longleftrightarrow> permits a \<le> permits b"

definition less_tool_decision :: "tool_decision \<Rightarrow> tool_decision \<Rightarrow> bool" where
  "less_tool_decision a b \<longleftrightarrow> permits a < permits b"

instance
proof
  fix a b c :: tool_decision
  show "(a < b) = (a \<le> b \<and> \<not> b \<le> a)" and "a \<le> a" and "a \<le> b \<or> b \<le> a"
    by (auto simp: less_eq_tool_decision_def less_tool_decision_def)
  show "a \<le> b \<Longrightarrow> b \<le> c \<Longrightarrow> a \<le> c"
    by (auto simp: less_eq_tool_decision_def)
  show "a \<le> b \<Longrightarrow> b \<le> a \<Longrightarrow> a = b"
    by (cases a; cases b) (auto simp: less_eq_tool_decision_def)
qed

end

lemmas decision_order = less_eq_tool_decision_def less_tool_decision_def

lemma decision_not_deny:
  "agent_job_tool_decision p t \<noteq> Deny \<longleftrightarrow>
     (\<forall>pat \<in> set (deny_tools p). \<not> tool_matches pat t)
     \<and> (\<exists>pat \<in> set (approval_tools p) \<union> set (allow_tools p). tool_matches pat t)"
  by (auto simp: agent_job_tool_decision_def list_ex_iff)

lemma decision_allow:
  "agent_job_tool_decision p t = Allow \<longleftrightarrow>
     (\<forall>pat \<in> set (deny_tools p) \<union> set (approval_tools p). \<not> tool_matches pat t)
     \<and> (\<exists>pat \<in> set (allow_tools p). tool_matches pat t)"
  by (auto simp: agent_job_tool_decision_def list_ex_iff)

lemma decision_approval:
  "agent_job_tool_decision p t = ApprovalRequired \<longleftrightarrow>
     (\<forall>pat \<in> set (deny_tools p). \<not> tool_matches pat t)
     \<and> (\<exists>pat \<in> set (approval_tools p). tool_matches pat t)"
  by (auto simp: agent_job_tool_decision_def list_ex_iff)

text \<open>What a pattern matches, without string surgery.\<close>

lemma tool_matches_prefix:
  "tool_matches (ns @ ''.*'') tool \<longleftrightarrow>
     ns @ ''.*'' = ''*'' \<or> tool = ns \<or> (\<exists>rest. tool = ns @ CHR ''.'' # rest)"
proof -
  have "ends_with ''.*'' (ns @ ''.*'')" by (auto simp: ends_with_iff)
  moreover have "take (length (ns @ ''.*'') - 2) (ns @ ''.*'') = ns" by simp
  moreover have "take (length (ns @ ''.*'') - 1) (ns @ ''.*'') = ns @ [CHR ''.'']" by simp
  ultimately show ?thesis by (auto simp: tool_matches_def starts_with_iff)
qed

end
