(* ===== verification/SpecCheck.thy ===== *)
theory SpecCheck
  imports JobSpec
begin

text \<open>
  The strict validator of Agent Job specifications (\<open>validateAgentJobSpec\<close> in
  \<open>agent-job-spec.js\<close>). The code's mutable error list is the first component of a check's
  result, in the order the code pushes; an error is its path and its code (the message text is
  left out). A value that is \<open>undefined\<close> in the code is \<open>None\<close>. Where a required field failed,
  an error has been recorded and the field holds a placeholder, because the code then discards
  the specification. \<open>RegExp\<close> and \<open>URL\<close> are the platform's: whether a pattern compiles and what
  a URL parses to are arguments.
\<close>

section \<open>Checks that record errors\<close>

type_synonym spec_error = "string \<times> string"
type_synonym 'a chk = "spec_error list \<times> 'a"

definition ok :: "'a \<Rightarrow> 'a chk" where
  [spec_defs]: "ok x = ([], x)"

definition fail_with :: "string \<Rightarrow> string \<Rightarrow> 'a \<Rightarrow> 'a chk" where
  [spec_defs]: "fail_with path code x = ([(path, code)], x)"

definition chk_bind :: "'a chk \<Rightarrow> ('a \<Rightarrow> 'b chk) \<Rightarrow> 'b chk" where
  "chk_bind m k = (fst m @ fst (k (snd m)), snd (k (snd m)))"

definition fail_if :: "bool \<Rightarrow> string \<Rightarrow> string \<Rightarrow> unit chk" where
  [spec_defs]: "fail_if b path code = (if b then fail_with path code () else ok ())"

fun chk_fold :: "('s \<Rightarrow> nat \<Rightarrow> 'a \<Rightarrow> 's chk) \<Rightarrow> 's \<Rightarrow> nat \<Rightarrow> 'a list \<Rightarrow> 's chk" where
  "chk_fold f s i [] = ok s"
| "chk_fold f s i (x # xs) = chk_bind (f s i x) (\<lambda>s'. chk_fold f s' (Suc i) xs)"

lemma chk_bind_ok [simp]:
  "fst (chk_bind m k) = [] \<longleftrightarrow> fst m = [] \<and> fst (k (snd m)) = []"
  "snd (chk_bind m k) = snd (k (snd m))"
  by (auto simp: chk_bind_def)

lemma chk_simps [simp]:
  "fst (ok x) = []" "snd (ok x) = x" "fst (fail_with p c x) \<noteq> []" "snd (fail_with p c x) = x"
  "fst (fail_if b p c) = [] \<longleftrightarrow> \<not> b"
  by (auto simp: spec_defs)

text \<open>A check that recorded nothing did so at every element.\<close>

lemma chk_fold_inv:
  assumes "fst (chk_fold f s i xs) = []" and "P s"
    and "\<And>s i x. P s \<Longrightarrow> x \<in> set xs \<Longrightarrow> fst (f s i x) = [] \<Longrightarrow> P (snd (f s i x))"
  shows "P (snd (chk_fold f s i xs))"
  using assms
proof (induction xs arbitrary: s i)
  case Nil
  then show ?case by simp
next
  case (Cons x xs)
  then show ?case by simp
qed

definition at_index :: "string \<Rightarrow> nat \<Rightarrow> string" where
  "at_index path i = path @ ''['' @ nat_str i @ '']''"

definition at_key :: "string \<Rightarrow> string \<Rightarrow> string" where
  "at_key path k = path @ ''.'' @ k"

section \<open>Character classes and formats\<close>

definition lower_alnum :: "char \<Rightarrow> bool" where
  "lower_alnum c \<longleftrightarrow> is_lower c \<or> is_digit c"

definition alnum :: "char \<Rightarrow> bool" where
  "alnum c \<longleftrightarrow> is_lower c \<or> is_upper c \<or> is_digit c"

definition name_re :: "string \<Rightarrow> bool" where
  "name_re s \<longleftrightarrow> s \<noteq> [] \<and> length s \<le> 63 \<and> lower_alnum (hd s) \<and> lower_alnum (last s)
     \<and> list_all (\<lambda>c. lower_alnum c \<or> c = CHR ''-'') s"

definition label_key_re :: "string \<Rightarrow> bool" where
  "label_key_re s \<longleftrightarrow> s \<noteq> [] \<and> length s \<le> 63 \<and> lower_alnum (hd s) \<and> lower_alnum (last s)
     \<and> list_all (\<lambda>c. lower_alnum c \<or> c \<in> set ''._/-'') s"

definition tool_segment :: "string \<Rightarrow> bool" where
  "tool_segment w \<longleftrightarrow> w \<noteq> [] \<and> list_all (\<lambda>c. lower_alnum c \<or> c \<in> set ''_-'') w"

definition tool_re :: "string \<Rightarrow> bool" where
  "tool_re s \<longleftrightarrow>
     (let ws = split_on (CHR ''.'') s
      in s = ''*'' \<or> list_all tool_segment ws
         \<or> (2 \<le> length ws \<and> last ws = ''*'' \<and> list_all tool_segment (butlast ws)))"

definition secret_ref_re :: "string \<Rightarrow> bool" where
  "secret_ref_re s \<longleftrightarrow> starts_with ''vault://'' s
     \<and> (let r = drop 8 s in r \<noteq> [] \<and> length r \<le> 128 \<and> alnum (hd r)
          \<and> list_all (\<lambda>c. alnum c \<or> c \<in> set ''._/-'') (tl r))"

definition clock_re :: "string \<Rightarrow> bool" where
  "clock_re s \<longleftrightarrow>
     (case s of
        [h1, h2, c, m1, m2] \<Rightarrow>
          c = CHR '':'' \<and> is_digit h2 \<and> is_digit m2 \<and> char_between (CHR ''0'') (CHR ''5'') m1
          \<and> (h1 \<in> set ''01'' \<or> (h1 = CHR ''2'' \<and> char_between (CHR ''0'') (CHR ''3'') h2))
      | _ \<Rightarrow> False)"

definition json_pointer_re :: "string \<Rightarrow> bool" where
  "json_pointer_re s \<longleftrightarrow> starts_with ''/'' s"

definition group_char :: "char \<Rightarrow> bool" where
  "group_char c \<longleftrightarrow> alnum c \<or> c \<in> set ''._-''"

definition whatsapp_group_re :: "string \<Rightarrow> bool" where
  "whatsapp_group_re s \<longleftrightarrow>
     (ends_with ''@g.us'' s
       \<and> (let b = take (length s - 5) s in b \<noteq> [] \<and> length b \<le> 128 \<and> list_all group_char b))
     \<or> (starts_with ''binding:'' s
       \<and> (let b = drop 8 s in b \<noteq> [] \<and> length b \<le> 128 \<and> list_all (\<lambda>c. group_char c \<or> c = CHR '':'') b))"

definition sender_id_re :: "string \<Rightarrow> string \<Rightarrow> bool" where
  "sender_id_re suffix s \<longleftrightarrow> ends_with suffix s
     \<and> (let b = take (length s - length suffix) s
        in 6 \<le> length b \<and> length b \<le> 32 \<and> list_all is_digit b)"

definition whatsapp_sender_re :: "string \<Rightarrow> bool" where
  "whatsapp_sender_re s \<longleftrightarrow>
     (starts_with ''+'' s
       \<and> (let b = drop 1 s in 7 \<le> length b \<and> length b \<le> 15
            \<and> char_between (CHR ''1'') (CHR ''9'') (hd b) \<and> list_all is_digit b))
     \<or> sender_id_re ''@s.whatsapp.net'' s \<or> sender_id_re ''@c.us'' s \<or> sender_id_re ''@lid'' s"

definition url_after :: "string \<Rightarrow> string \<Rightarrow> bool" where
  "url_after scheme s \<longleftrightarrow> starts_with scheme s
     \<and> (let r = drop (length scheme) s in r \<noteq> [] \<and> list_all (\<lambda>c. \<not> is_space c) r)"

definition http_url_re :: "string \<Rightarrow> bool" where
  "http_url_re s \<longleftrightarrow> url_after ''http://'' s \<or> url_after ''https://'' s"

definition webhook_target_re :: "string \<Rightarrow> bool" where
  "webhook_target_re s \<longleftrightarrow> url_after ''https://'' s \<or> starts_with ''vault://'' s"

section \<open>Typed access to the document\<close>

record str_opts =
  so_required :: bool
  so_max :: nat
  so_one_of :: "string list option"
  so_pattern :: "(string \<Rightarrow> bool) option"

definition str_any :: str_opts where
  [spec_defs]: "str_any = \<lparr>so_required = True, so_max = 512, so_one_of = None, so_pattern = None\<rparr>"

definition check_keys :: "json \<Rightarrow> string \<Rightarrow> string list \<Rightarrow> unit chk" where
  "check_keys v path allowed =
     (map (\<lambda>k. (at_key path k, ''unknown_field'')) (filter (\<lambda>k. k \<notin> set allowed) (jkeys v)), ())"

definition object_at :: "json option \<Rightarrow> string \<Rightarrow> string list \<Rightarrow> bool \<Rightarrow> json option chk" where
  "object_at v path allowed required =
     (case v of
        None \<Rightarrow> if required then fail_with path ''required'' None else ok None
      | Some x \<Rightarrow>
          if \<not> is_object x then fail_with path ''invalid_type'' None
          else chk_bind (check_keys x path allowed) (\<lambda>_. ok (Some x)))"

definition string_at :: "json option \<Rightarrow> string \<Rightarrow> str_opts \<Rightarrow> string option chk" where
  "string_at v path opts =
     (if v = None \<or> v = Some JNull
      then (if so_required opts then fail_with path ''required'' None else ok None)
      else case v of
        Some (JStr raw) \<Rightarrow>
          (let text = str_trim raw in
           if text = [] then fail_with path ''invalid_type'' None
           else if so_max opts < length text then fail_with path ''too_long'' None
           else if (case so_one_of opts of None \<Rightarrow> False | Some xs \<Rightarrow> text \<notin> set xs)
             then fail_with path ''invalid_value'' None
           else if (case so_pattern opts of None \<Rightarrow> False | Some p \<Rightarrow> \<not> p text)
             then fail_with path ''invalid_format'' None
           else ok (Some text))
      | _ \<Rightarrow> fail_with path ''invalid_type'' None)"

definition duration_at :: "json option \<Rightarrow> string \<Rightarrow> int option \<Rightarrow> int \<Rightarrow> int option chk" where
  "duration_at v path fallback min_ms =
     (case v of
        None \<Rightarrow> ok fallback
      | Some x \<Rightarrow>
          (case parse_duration_ms x of
             None \<Rightarrow> fail_with path ''invalid_duration'' fallback
           | Some ms \<Rightarrow> if ms < min_ms then fail_with path ''out_of_range'' fallback else ok (Some ms)))"

definition integer_at :: "json option \<Rightarrow> string \<Rightarrow> int \<Rightarrow> int \<Rightarrow> int \<Rightarrow> int chk" where
  "integer_at v path fallback lo hi =
     (case v of
        None \<Rightarrow> ok fallback
      | Some (JNum n) \<Rightarrow> if n < lo \<or> hi < n then fail_with path ''out_of_range'' fallback else ok n
      | Some _ \<Rightarrow> fail_with path ''out_of_range'' fallback)"

definition string_list_entry :: "string \<Rightarrow> str_opts \<Rightarrow> string list \<Rightarrow> nat \<Rightarrow> json \<Rightarrow> string list chk" where
  "string_list_entry path opts out i x =
     chk_bind (string_at (Some x) (at_index path i) opts) (\<lambda>t.
       case t of
         None \<Rightarrow> ok out
       | Some text \<Rightarrow>
           if text \<in> set out then fail_with (at_index path i) ''duplicate'' out
           else ok (out @ [text]))"

definition string_list_at :: "json option \<Rightarrow> string \<Rightarrow> str_opts \<Rightarrow> string list chk" where
  "string_list_at v path opts =
     (case v of
        None \<Rightarrow> ok []
      | Some (JArr xs) \<Rightarrow> chk_fold (string_list_entry path opts) [] 0 xs
      | Some _ \<Rightarrow> fail_with path ''invalid_type'' [])"

definition or_empty :: "string option \<Rightarrow> string" where
  "or_empty x = (case x of None \<Rightarrow> [] | Some s \<Rightarrow> s)"

definition field :: "json option \<Rightarrow> string \<Rightarrow> json option" where
  "field v k = (case v of None \<Rightarrow> None | Some x \<Rightarrow> jget x k)"

text \<open>What the access functions guarantee when they record nothing.\<close>

lemma string_at_JStr:
  "string_at (Some (JStr raw)) path opts =
     (let text = str_trim raw in
      if text = [] then fail_with path ''invalid_type'' None
      else if so_max opts < length text then fail_with path ''too_long'' None
      else if (case so_one_of opts of None \<Rightarrow> False | Some xs \<Rightarrow> text \<notin> set xs)
        then fail_with path ''invalid_value'' None
      else if (case so_pattern opts of None \<Rightarrow> False | Some p \<Rightarrow> \<not> p text)
        then fail_with path ''invalid_format'' None
      else ok (Some text))"
  by (simp add: string_at_def)

lemma string_at_other:
  assumes "\<And>raw. v \<noteq> Some (JStr raw)"
  shows "snd (string_at v path opts) = None"
    and "fst (string_at v path opts) = [] \<Longrightarrow> \<not> so_required opts"
proof -
  have "snd (string_at v path opts) = None \<and> (fst (string_at v path opts) = [] \<longrightarrow> \<not> so_required opts)"
  proof (cases v)
    case (Some x)
    have "x \<noteq> JStr raw" for raw using assms Some by blast
    with Some show ?thesis by (cases x) (auto simp: string_at_def)
  qed (simp add: string_at_def)
  then show "snd (string_at v path opts) = None"
    and "fst (string_at v path opts) = [] \<Longrightarrow> \<not> so_required opts" by auto
qed

lemma string_at_Some:
  assumes "snd (string_at v path opts) = Some t"
  shows "t \<noteq> []" and "length t \<le> so_max opts"
    and "so_one_of opts = Some xs \<Longrightarrow> t \<in> set xs"
    and "so_pattern opts = Some p \<Longrightarrow> p t"
proof -
  from assms string_at_other(1) obtain raw where v: "v = Some (JStr raw)" by fastforce
  show "t \<noteq> []" and "length t \<le> so_max opts"
    and "so_one_of opts = Some xs \<Longrightarrow> t \<in> set xs"
    and "so_pattern opts = Some p \<Longrightarrow> p t"
    using assms unfolding v string_at_JStr Let_def by (simp_all split: if_splits)
qed

lemma string_at_required:
  assumes "fst (string_at v path opts) = []" and "so_required opts"
  shows "\<exists>t. snd (string_at v path opts) = Some t"
proof -
  from assms string_at_other(2) obtain raw where v: "v = Some (JStr raw)" by fastforce
  show ?thesis
    using assms(1) unfolding v string_at_JStr Let_def by (simp split: if_splits)
qed

lemma duration_at_bounds:
  "fst (duration_at v path (Some d) lo) = [] \<Longrightarrow> lo \<le> d \<Longrightarrow>
     \<exists>ms. snd (duration_at v path (Some d) lo) = Some ms \<and> lo \<le> ms"
  by (auto simp: duration_at_def split: option.splits if_splits)

lemma integer_at_bounds:
  "fst (integer_at v path d lo hi) = [] \<Longrightarrow> lo \<le> d \<Longrightarrow> d \<le> hi \<Longrightarrow>
     lo \<le> snd (integer_at v path d lo hi) \<and> snd (integer_at v path d lo hi) \<le> hi"
  by (auto simp: integer_at_def split: option.splits json.splits if_splits)

lemma string_list_entry_inv:
  assumes "distinct out \<and> (\<forall>t \<in> set out. q t)" and "\<And>t. snd (string_at (Some x) (at_index path i) opts) = Some t \<Longrightarrow> q t"
  shows "distinct (snd (string_list_entry path opts out i x))
     \<and> (\<forall>t \<in> set (snd (string_list_entry path opts out i x)). q t)"
proof (cases "snd (string_at (Some x) (at_index path i) opts)")
  case None
  with assms(1) show ?thesis by (simp add: string_list_entry_def)
next
  case (Some t)
  with assms(2) have "q t" by blast
  with Some assms(1) show ?thesis by (simp add: string_list_entry_def)
qed

lemma string_list_at_all:
  assumes "\<And>x i t. snd (string_at (Some x) (at_index path i) opts) = Some t \<Longrightarrow> q t"
  shows "distinct (snd (string_list_at v path opts)) \<and> (\<forall>t \<in> set (snd (string_list_at v path opts)). q t)"
proof -
  have "distinct (snd (chk_fold (string_list_entry path opts) out i xs))
      \<and> (\<forall>t \<in> set (snd (chk_fold (string_list_entry path opts) out i xs)). q t)"
    if "distinct out \<and> (\<forall>t \<in> set out. q t)" for out i xs
    using that
  proof (induction xs arbitrary: out i)
    case (Cons x xs)
    have "distinct (snd (string_list_entry path opts out i x))
        \<and> (\<forall>t \<in> set (snd (string_list_entry path opts out i x)). q t)"
      by (rule string_list_entry_inv [OF Cons.prems assms])
    from Cons.IH [OF this] show ?case by simp
  qed simp
  from this [of "[]"] have arr: "distinct (snd (chk_fold (string_list_entry path opts) [] 0 xs))
      \<and> (\<forall>t \<in> set (snd (chk_fold (string_list_entry path opts) [] 0 xs)). q t)" for xs
    by simp
  show ?thesis
  proof (cases v)
    case (Some x)
    with arr show ?thesis by (cases x) (simp_all add: string_list_at_def)
  qed (simp add: string_list_at_def)
qed

lemma string_list_at_pattern:
  assumes "so_pattern opts = Some p"
  shows "distinct (snd (string_list_at v path opts)) \<and> (\<forall>t \<in> set (snd (string_list_at v path opts)). p t)"
  by (rule string_list_at_all) (rule string_at_Some(4) [OF _ assms])

lemma string_list_at_one_of:
  assumes "so_one_of opts = Some xs"
  shows "distinct (snd (string_list_at v path opts)) \<and> (\<forall>t \<in> set (snd (string_list_at v path opts)). t \<in> set xs)"
  by (rule string_list_at_all) (rule string_at_Some(3) [OF _ assms])

end
