(* ===== verification/SpecNormalize.thy ===== *)
theory SpecNormalize
  imports SpecCheck
begin

text \<open>
  The section normalisers of \<open>agent-job-spec.js\<close> and \<open>validateAgentJobSpec\<close> itself, over the
  checks of \<open>SpecCheck\<close>, and what a specification that passes satisfies (\<open>spec_wf\<close>).
\<close>

section \<open>The platform\<close>

text \<open>
  What \<open>new URL(value)\<close> gives (\<open>None\<close> where it throws), and whether \<open>new RegExp(p, "i")\<close>
  compiles. Both belong to the platform and are arguments of the checks.
\<close>

record url =
  url_protocol :: string
  url_hostname :: string
  url_username :: string
  url_password :: string
  url_search :: string
  url_hash :: string
  url_pathname :: string
  url_href :: string

record platform =
  parse_url :: "string \<Rightarrow> url option"
  regexp_compiles :: "string \<Rightarrow> bool"

definition local_base_url :: "platform \<Rightarrow> string \<Rightarrow> string option" where
  "local_base_url pf v =
     (case parse_url pf v of
        None \<Rightarrow> None
      | Some u \<Rightarrow>
          if url_protocol u \<notin> {''http:'', ''https:''} \<or> url_hostname u \<notin> {''127.0.0.1'', ''[::1]''}
             \<or> url_username u \<noteq> [] \<or> url_password u \<noteq> [] \<or> url_search u \<noteq> [] \<or> url_hash u \<noteq> []
             \<or> url_pathname u \<notin> {''/v1'', ''/v1/''}
          then None
          else Some (if ends_with ''/'' (url_href u) then butlast (url_href u) else url_href u))"

section \<open>Metadata\<close>

definition norm_label :: "(string \<times> string) list \<Rightarrow> nat \<Rightarrow> string \<times> json \<Rightarrow> (string \<times> string) list chk" where
  "norm_label labels i kv =
     (let path = ''metadata.labels.'' @ fst kv in
      chk_bind (fail_if (\<not> label_key_re (fst kv)) path ''invalid_format'') (\<lambda>_.
      chk_bind (string_at (Some (snd kv)) path (str_any\<lparr>so_max := 63\<rparr>)) (\<lambda>t.
      ok (case t of None \<Rightarrow> labels | Some text \<Rightarrow> labels @ [(fst kv, text)]))))"

definition obj_entries :: "json option \<Rightarrow> (string \<times> json) list" where
  "obj_entries v = (case v of Some (JObj kvs) \<Rightarrow> kvs | _ \<Rightarrow> [])"

definition normalize_metadata :: "json option \<Rightarrow> (string option \<times> string \<times> (string \<times> string) list) chk" where
  "normalize_metadata v =
     chk_bind (object_at v ''metadata'' [''name'', ''description'', ''labels''] True) (\<lambda>meta.
     if meta = None then ok (None, [], [])
     else
       chk_bind (object_at (field meta ''labels'') ''metadata.labels''
                   (map fst (obj_entries (field meta ''labels''))) False) (\<lambda>raw.
       chk_bind (chk_fold norm_label [] 0 (obj_entries raw)) (\<lambda>labels.
       chk_bind (string_at (field meta ''name'') ''metadata.name''
                   (str_any\<lparr>so_max := 63, so_pattern := Some name_re\<rparr>)) (\<lambda>name.
       chk_bind (string_at (field meta ''description'') ''metadata.description''
                   (str_any\<lparr>so_required := False, so_max := 1000\<rparr>)) (\<lambda>d.
       ok (name, or_empty d, labels))))))"

section \<open>Triggers\<close>

definition cadence_of :: "string \<Rightarrow> cadence" where
  "cadence_of s = (if s = ''daily'' then Daily else if s = ''weekly'' then Weekly else Interval)"

definition norm_schedule :: "json \<Rightarrow> string \<Rightarrow> trigger chk" where
  "norm_schedule raw path =
     chk_bind (check_keys raw path [''type'', ''cadence'', ''every'', ''time'', ''timezone'']) (\<lambda>_.
     chk_bind (string_at (jget raw ''cadence'') (at_key path ''cadence'')
                 (str_any\<lparr>so_one_of := Some [''interval'', ''daily'', ''weekly'']\<rparr>)) (\<lambda>cad.
     chk_bind
       (if cad = Some ''interval'' then
          chk_bind (fail_if (jget raw ''time'' \<noteq> None) (at_key path ''time'') ''not_allowed'') (\<lambda>_.
          chk_bind (duration_at (jget raw ''every'') (at_key path ''every'') None 60000) (\<lambda>every.
          chk_bind (fail_if (jget raw ''every'' = None) (at_key path ''every'') ''required'') (\<lambda>_.
          ok (every, None))))
        else if cad \<noteq> None then
          chk_bind (fail_if (jget raw ''every'' \<noteq> None) (at_key path ''every'') ''not_allowed'') (\<lambda>_.
          chk_bind (string_at (jget raw ''time'') (at_key path ''time'')
                      (str_any\<lparr>so_pattern := Some clock_re\<rparr>)) (\<lambda>time.
          ok (None, time)))
        else ok (None, None)) (\<lambda>(every, time).
     chk_bind (string_at (jget raw ''timezone'') (at_key path ''timezone'')
                 (str_any\<lparr>so_required := False, so_max := 64\<rparr>)) (\<lambda>tz.
     ok (Schedule (cadence_of (or_empty cad)) every time
           (case tz of None \<Rightarrow> ''UTC'' | Some z \<Rightarrow> z))))))"

definition norm_webhook :: "json \<Rightarrow> string \<Rightarrow> trigger chk" where
  "norm_webhook raw path =
     chk_bind (check_keys raw path [''type'', ''name'', ''secret_ref'', ''event_id'']) (\<lambda>_.
     chk_bind (string_at (jget raw ''name'') (at_key path ''name'')
                 (str_any\<lparr>so_max := 63, so_pattern := Some name_re\<rparr>)) (\<lambda>name.
     chk_bind (string_at (jget raw ''secret_ref'') (at_key path ''secret_ref'')
                 (str_any\<lparr>so_pattern := Some secret_ref_re\<rparr>)) (\<lambda>ref.
     chk_bind (string_at (jget raw ''event_id'') (at_key path ''event_id'')
                 (str_any\<lparr>so_required := False, so_pattern := Some json_pointer_re\<rparr>)) (\<lambda>ev.
     ok (Webhook (or_empty name) (or_empty ref) ev)))))"

definition nonempty_array :: "json option \<Rightarrow> bool" where
  "nonempty_array v = (case v of Some (JArr (_ # _)) \<Rightarrow> True | _ \<Rightarrow> False)"

definition norm_whatsapp :: "platform \<Rightarrow> json \<Rightarrow> string \<Rightarrow> trigger chk" where
  "norm_whatsapp pf raw path =
     chk_bind (check_keys raw path [''type'', ''group'', ''senders'', ''match'']) (\<lambda>_.
     chk_bind (string_list_at (jget raw ''senders'') (at_key path ''senders'')
                 (str_any\<lparr>so_pattern := Some whatsapp_sender_re\<rparr>)) (\<lambda>senders.
     chk_bind (fail_if (\<not> nonempty_array (jget raw ''senders'')) (at_key path ''senders'') ''required'') (\<lambda>_.
     chk_bind (string_at (jget raw ''match'') (at_key path ''match'')
                 (str_any\<lparr>so_required := False, so_max := 200\<rparr>)) (\<lambda>m.
     chk_bind (fail_if (case m of None \<Rightarrow> False | Some p \<Rightarrow> \<not> regexp_compiles pf p)
                 (at_key path ''match'') ''invalid_format'') (\<lambda>_.
     chk_bind (string_at (jget raw ''group'') (at_key path ''group'')
                 (str_any\<lparr>so_max := 160, so_pattern := Some whatsapp_group_re\<rparr>)) (\<lambda>g.
     ok (WhatsApp (or_empty g) senders m)))))))"

definition normalize_trigger :: "platform \<Rightarrow> json \<Rightarrow> string \<Rightarrow> trigger option chk" where
  "normalize_trigger pf raw path =
     (if \<not> is_object raw then fail_with path ''invalid_type'' None
      else
        chk_bind (string_at (jget raw ''type'') (at_key path ''type'')
                    (str_any\<lparr>so_one_of := Some [''schedule'', ''webhook'', ''api'', ''whatsapp'']\<rparr>)) (\<lambda>type.
        if type = Some ''schedule'' then chk_bind (norm_schedule raw path) (\<lambda>t. ok (Some t))
        else if type = Some ''webhook'' then chk_bind (norm_webhook raw path) (\<lambda>t. ok (Some t))
        else if type = Some ''api'' then
          chk_bind (check_keys raw path [''type'']) (\<lambda>_. ok (Some ApiTrigger))
        else if type = Some ''whatsapp'' then chk_bind (norm_whatsapp pf raw path) (\<lambda>t. ok (Some t))
        else ok None))"

definition norm_trigger_entry :: "platform \<Rightarrow> trigger list \<Rightarrow> nat \<Rightarrow> json \<Rightarrow> trigger list chk" where
  "norm_trigger_entry pf ts i raw =
     chk_bind (normalize_trigger pf raw (at_index ''triggers'' i)) (\<lambda>t.
     ok (case t of None \<Rightarrow> ts | Some x \<Rightarrow> ts @ [x]))"

definition check_webhook_name :: "string list \<Rightarrow> nat \<Rightarrow> trigger \<Rightarrow> string list chk" where
  "check_webhook_name seen i t =
     (case t of
        Webhook n _ _ \<Rightarrow>
          if n = [] then ok seen
          else chk_bind (fail_if (n \<in> set seen) (at_key (at_index ''triggers'' i) ''name'') ''duplicate'')
                 (\<lambda>_. ok (n # seen))
      | _ \<Rightarrow> ok seen)"

definition normalize_triggers :: "platform \<Rightarrow> json option \<Rightarrow> trigger list chk" where
  "normalize_triggers pf v =
     (if \<not> nonempty_array v
      then fail_with ''triggers'' (if v = None then ''required'' else ''invalid_type'') []
      else
        chk_bind (chk_fold (norm_trigger_entry pf) [] 0 (case v of Some (JArr xs) \<Rightarrow> xs | _ \<Rightarrow> [])) (\<lambda>ts.
        chk_bind (chk_fold check_webhook_name [] 0 ts) (\<lambda>_.
        chk_bind (fail_if (1 < length (filter (\<lambda>t. t = ApiTrigger) ts)) ''triggers'' ''duplicate'') (\<lambda>_.
        ok ts))))"

section \<open>Agent\<close>

definition agent_job_providers :: "bool \<Rightarrow> string list" where
  "agent_job_providers allow_test =
     [''codex'', ''claude-code'', ''openai-compatible''] @ (if allow_test then [''simulated''] else [])"

definition norm_base_url :: "platform \<Rightarrow> json \<Rightarrow> string \<Rightarrow> string option chk" where
  "norm_base_url pf ref path =
     chk_bind (string_at (jget ref ''base_url'') (at_key path ''base_url'')
                 (str_any\<lparr>so_pattern := Some http_url_re\<rparr>)) (\<lambda>u.
     case u of
       None \<Rightarrow> ok None
     | Some x \<Rightarrow>
         (case local_base_url pf x of
            Some y \<Rightarrow> ok (Some y)
          | None \<Rightarrow> fail_with (at_key path ''base_url'') ''local_endpoint_required'' (Some x)))"

definition normalize_provider_ref ::
  "platform \<Rightarrow> bool \<Rightarrow> json \<Rightarrow> string \<Rightarrow> bool \<Rightarrow> (string option \<times> agent_ref) option chk" where
  "normalize_provider_ref pf allow_test raw path checked =
     chk_bind (object_at (Some raw) path (if checked then jkeys raw else [''provider'', ''model'', ''base_url'']) True)
     (\<lambda>r. case r of None \<Rightarrow> ok None | Some ref \<Rightarrow>
       let test_only = jget ref ''provider'' = Some (JStr ''simulated'') \<and> \<not> allow_test in
       chk_bind (fail_if test_only (at_key path ''provider'') ''test_only_provider'') (\<lambda>_.
       chk_bind (if test_only then ok None
                 else string_at (jget ref ''provider'') (at_key path ''provider'')
                        (str_any\<lparr>so_one_of := Some (agent_job_providers allow_test)\<rparr>)) (\<lambda>provider.
       chk_bind (string_at (jget ref ''model'') (at_key path ''model'')
                   (str_any\<lparr>so_required := False, so_max := 128\<rparr>)) (\<lambda>model.
       chk_bind
         (if provider = Some ''openai-compatible'' then
            chk_bind (fail_if (model = None) (at_key path ''model'') ''required'') (\<lambda>_.
            norm_base_url pf ref path)
          else chk_bind (fail_if (jget ref ''base_url'' \<noteq> None) (at_key path ''base_url'') ''not_allowed'')
                 (\<lambda>_. ok None)) (\<lambda>base.
       ok (Some (provider, \<lparr>ref_provider = or_empty provider, ref_model = model, ref_base_url = base\<rparr>)))))))"

text \<open>The template string \<open>`${provider}|${model}`\<close>, with the texts of \<open>undefined\<close> and \<open>null\<close>.\<close>

definition ref_key :: "(string option \<times> agent_ref) option \<Rightarrow> string" where
  "ref_key r =
     (case r of
        None \<Rightarrow> ''undefined|undefined''
      | Some (p, a) \<Rightarrow>
          (case p of None \<Rightarrow> ''undefined'' | Some s \<Rightarrow> s) @ ''|''
          @ (case ref_model a of None \<Rightarrow> ''null'' | Some m \<Rightarrow> m))"

definition norm_fallback ::
  "platform \<Rightarrow> bool \<Rightarrow> string list \<times> agent_ref list \<Rightarrow> nat \<Rightarrow> json \<Rightarrow> (string list \<times> agent_ref list) chk" where
  "norm_fallback pf allow_test acc i raw =
     chk_bind (normalize_provider_ref pf allow_test raw (at_index ''agent.fallback'' i) False) (\<lambda>r.
     case r of
       None \<Rightarrow> ok acc
     | Some (p, a) \<Rightarrow>
         chk_bind (fail_if (ref_key r \<in> set (fst acc)) (at_index ''agent.fallback'' i) ''duplicate'') (\<lambda>_.
         ok (ref_key r # fst acc, snd acc @ [a])))"

definition blank_ref :: agent_ref where
  "blank_ref = \<lparr>ref_provider = [], ref_model = None, ref_base_url = None\<rparr>"

definition normalize_agent :: "platform \<Rightarrow> bool \<Rightarrow> json option \<Rightarrow> (agent_ref \<times> agent_ref list) chk" where
  "normalize_agent pf allow_test v =
     chk_bind (object_at v ''agent'' [''provider'', ''model'', ''base_url'', ''fallback''] True) (\<lambda>r.
     case r of None \<Rightarrow> ok (blank_ref, []) | Some agent \<Rightarrow>
       let primary_raw = JObj (filter (\<lambda>kv. fst kv \<noteq> ''fallback'') (obj_entries (Some agent))) in
       chk_bind (normalize_provider_ref pf allow_test primary_raw ''agent'' True) (\<lambda>primary.
       chk_bind
         (case jget agent ''fallback'' of
            None \<Rightarrow> ok []
          | Some (JArr xs) \<Rightarrow>
              if 3 < length xs then fail_with ''agent.fallback'' ''too_many'' []
              else chk_bind (chk_fold (norm_fallback pf allow_test) ([ref_key primary], []) 0 xs) (\<lambda>acc. ok (snd acc))
          | Some _ \<Rightarrow> fail_with ''agent.fallback'' ''invalid_type'' []) (\<lambda>fallbacks.
       let a = (case primary of None \<Rightarrow> blank_ref | Some (_, x) \<Rightarrow> x) in
       chk_bind (fail_if (list_ex (\<lambda>x. ref_provider x = ''openai-compatible'') (a # fallbacks) \<and> fallbacks \<noteq> [])
                   ''agent.fallback'' ''local_fallback_not_supported'') (\<lambda>_.
       ok (a, fallbacks)))))"

section \<open>Task\<close>

definition normalize_task :: "json option \<Rightarrow> (string \<times> json \<times> json option) chk" where
  "normalize_task v =
     chk_bind (object_at v ''task'' [''prompt'', ''inputs'', ''output_schema''] True) (\<lambda>task.
     if task = None then ok ([], JObj [], None)
     else
       let inputs = (case field task ''inputs'' of None \<Rightarrow> JObj [] | Some x \<Rightarrow> x);
           schema = or_null (field task ''output_schema'') in
       chk_bind (fail_if (\<not> is_object inputs) ''task.inputs'' ''invalid_type'') (\<lambda>_.
       chk_bind (fail_if (schema \<noteq> JNull \<and> \<not> is_object schema) ''task.output_schema'' ''invalid_type'') (\<lambda>_.
       chk_bind (string_at (field task ''prompt'') ''task.prompt'' (str_any\<lparr>so_max := 32000\<rparr>)) (\<lambda>prompt.
       ok (or_empty prompt, if is_object inputs then inputs else JObj [],
           if is_object schema then Some schema else None)))))"

section \<open>Permissions\<close>

definition check_approval_conflict :: "string list \<Rightarrow> unit \<Rightarrow> nat \<Rightarrow> string \<Rightarrow> unit chk" where
  "check_approval_conflict deny u i tool =
     fail_if (list_ex (\<lambda>pattern. tool_matches pattern tool) deny)
       (at_index ''permissions.tools.approval_required'' i) ''conflict''"

definition check_allow_conflict :: "string list \<Rightarrow> unit \<Rightarrow> nat \<Rightarrow> string \<Rightarrow> unit chk" where
  "check_allow_conflict deny u i tool =
     fail_if (tool \<in> set deny) (at_index ''permissions.tools.allow'' i) ''conflict''"

definition normalize_permissions :: "json option \<Rightarrow> (tool_perms \<times> string list) chk" where
  "normalize_permissions v =
     chk_bind (object_at v ''permissions'' [''tools'', ''secrets''] False) (\<lambda>perms.
     chk_bind (object_at (field perms ''tools'') ''permissions.tools''
                 [''allow'', ''deny'', ''approval_required''] False) (\<lambda>tools.
     chk_bind (string_list_at (field tools ''allow'') ''permissions.tools.allow''
                 (str_any\<lparr>so_pattern := Some tool_re\<rparr>)) (\<lambda>allow.
     chk_bind (string_list_at (field tools ''deny'') ''permissions.tools.deny''
                 (str_any\<lparr>so_pattern := Some tool_re\<rparr>)) (\<lambda>deny.
     chk_bind (string_list_at (field tools ''approval_required'') ''permissions.tools.approval_required''
                 (str_any\<lparr>so_pattern := Some tool_re\<rparr>)) (\<lambda>approval.
     chk_bind (chk_fold (check_approval_conflict deny) () 0 approval) (\<lambda>_.
     chk_bind (chk_fold (check_allow_conflict deny) () 0 allow) (\<lambda>_.
     chk_bind (string_list_at (field perms ''secrets'') ''permissions.secrets''
                 (str_any\<lparr>so_pattern := Some secret_ref_re\<rparr>)) (\<lambda>secrets.
     ok (\<lparr>allow_tools = allow, deny_tools = deny, approval_tools = approval\<rparr>, secrets)))))))))"

section \<open>Runtime\<close>

definition concurrency_of :: "string option \<Rightarrow> concurrency" where
  "concurrency_of s = (case s of None \<Rightarrow> Forbid
     | Some t \<Rightarrow> if t = ''queue'' then Queue else if t = ''replace'' then Replace else Forbid)"

definition backoff_of :: "string option \<Rightarrow> backoff" where
  "backoff_of s = (case s of None \<Rightarrow> Exponential | Some t \<Rightarrow> if t = ''fixed'' then Fixed else Exponential)"

definition is_bool :: "json \<Rightarrow> bool" where
  "is_bool v = (case v of JBool _ \<Rightarrow> True | _ \<Rightarrow> False)"

definition or_zero :: "int option \<Rightarrow> int" where
  "or_zero x = (case x of None \<Rightarrow> 0 | Some n \<Rightarrow> n)"

definition normalize_runtime :: "json option \<Rightarrow> runtime_policy chk" where
  "normalize_runtime v =
     chk_bind (object_at v ''runtime''
       [''durable'', ''max_attempts'', ''timeout'', ''retry'', ''concurrency'', ''approval_timeout''] False) (\<lambda>rt.
     chk_bind (fail_if (case field rt ''durable'' of None \<Rightarrow> False | Some d \<Rightarrow> \<not> is_bool d)
                 ''runtime.durable'' ''invalid_type'') (\<lambda>_.
     chk_bind (object_at (field rt ''retry'') ''runtime.retry''
                 [''backoff'', ''initial_delay'', ''max_delay''] False) (\<lambda>retry.
     chk_bind (integer_at (field rt ''max_attempts'') ''runtime.max_attempts'' 3 1 20) (\<lambda>attempts.
     chk_bind (duration_at (field rt ''timeout'') ''runtime.timeout'' (Some 1800000) 1000) (\<lambda>timeout.
     chk_bind (duration_at (field rt ''approval_timeout'') ''runtime.approval_timeout'' (Some 86400000) 60000) (\<lambda>approval.
     chk_bind (string_at (field rt ''concurrency'') ''runtime.concurrency''
                 (str_any\<lparr>so_required := False, so_one_of := Some [''forbid'', ''queue'', ''replace'']\<rparr>)) (\<lambda>conc.
     chk_bind (string_at (field retry ''backoff'') ''runtime.retry.backoff''
                 (str_any\<lparr>so_required := False, so_one_of := Some [''fixed'', ''exponential'']\<rparr>)) (\<lambda>bo.
     chk_bind (duration_at (field retry ''initial_delay'') ''runtime.retry.initial_delay'' (Some 30000) 0) (\<lambda>initial.
     chk_bind (duration_at (field retry ''max_delay'') ''runtime.retry.max_delay'' (Some 600000) 0) (\<lambda>maxd.
     let durable = (field rt ''durable'' \<noteq> Some (JBool False)) in
     chk_bind (fail_if (or_zero maxd < or_zero initial) ''runtime.retry.max_delay'' ''out_of_range'') (\<lambda>_.
     chk_bind (fail_if (\<not> durable \<and> 1 < attempts) ''runtime.max_attempts'' ''conflict'') (\<lambda>_.
     ok \<lparr>rt_durable = durable, rt_max_attempts = attempts, rt_timeout_ms = or_zero timeout,
         rt_approval_timeout_ms = or_zero approval, rt_concurrency = concurrency_of conc,
         rt_retry = \<lparr>retry_backoff = backoff_of bo, initial_delay_ms = or_zero initial,
                     max_delay_ms = or_zero maxd\<rparr>\<rparr>))))))))))))"

section \<open>Notifications\<close>

definition notify_events :: "string list" where
  "notify_events = [''succeeded'', ''failed'', ''retrying'', ''cancelled'', ''approval_required'', ''approval_expired'']"

definition notify_channels :: "string list" where
  "notify_channels = [''thread'', ''webhook'', ''email'', ''whatsapp'']"

definition norm_notification :: "notify_rule list \<Rightarrow> nat \<Rightarrow> json \<Rightarrow> notify_rule list chk" where
  "norm_notification rules i raw =
     (let path = at_index ''notifications'' i in
      chk_bind (object_at (Some raw) path [''on'', ''channel'', ''target''] True) (\<lambda>e.
      if e = None then ok rules
      else
        chk_bind (string_list_at (field e ''on'') (at_key path ''on'')
                    (str_any\<lparr>so_one_of := Some notify_events\<rparr>)) (\<lambda>on.
        chk_bind (fail_if (on = []) (at_key path ''on'') ''required'') (\<lambda>_.
        chk_bind (string_at (field e ''channel'') (at_key path ''channel'')
                    (str_any\<lparr>so_one_of := Some notify_channels\<rparr>)) (\<lambda>channel.
        chk_bind (string_at (field e ''target'') (at_key path ''target'') (str_any\<lparr>so_max := 256\<rparr>)) (\<lambda>target.
        chk_bind (fail_if (channel = Some ''webhook''
                     \<and> (case target of None \<Rightarrow> False | Some t \<Rightarrow> \<not> webhook_target_re t))
                    (at_key path ''target'') ''invalid_format'') (\<lambda>_.
        ok (rules @ [\<lparr>rule_on = on, rule_channel = or_empty channel, rule_target = or_empty target\<rparr>]))))))))"

definition normalize_notifications :: "json option \<Rightarrow> notify_rule list chk" where
  "normalize_notifications v =
     (case v of
        None \<Rightarrow> ok []
      | Some (JArr xs) \<Rightarrow> chk_fold norm_notification [] 0 xs
      | Some _ \<Rightarrow> fail_with ''notifications'' ''invalid_type'' [])"

section \<open>The validator\<close>

definition assemble_spec ::
  "string option \<times> string \<times> (string \<times> string) list \<Rightarrow> trigger list \<Rightarrow> agent_ref \<times> agent_ref list
   \<Rightarrow> string \<times> json \<times> json option \<Rightarrow> tool_perms \<times> string list \<Rightarrow> runtime_policy \<Rightarrow> notify_rule list \<Rightarrow> job_spec" where
  "assemble_spec meta triggers agent task perms rt notes =
     \<lparr>spec_name = or_empty (fst meta), spec_description = fst (snd meta), spec_labels = snd (snd meta),
      spec_triggers = triggers, spec_agent = fst agent, spec_fallback = snd agent,
      spec_prompt = fst task, spec_inputs = fst (snd task), spec_output_schema = snd (snd task),
      spec_tools = fst perms, spec_secrets = snd perms, spec_runtime = rt, spec_notifications = notes\<rparr>"

definition check_spec :: "platform \<Rightarrow> bool \<Rightarrow> json \<Rightarrow> job_spec chk" where
  "check_spec pf allow_test input =
     chk_bind (check_keys input ''$'' [''apiVersion'', ''kind'', ''metadata'', ''triggers'', ''agent'', ''task'',
                 ''permissions'', ''runtime'', ''notifications'']) (\<lambda>_.
     chk_bind (string_at (jget input ''apiVersion'') ''apiVersion'' (str_any\<lparr>so_one_of := Some [''orkestr/v0'']\<rparr>)) (\<lambda>_.
     chk_bind (string_at (jget input ''kind'') ''kind'' (str_any\<lparr>so_one_of := Some [''AgentJob'']\<rparr>)) (\<lambda>_.
     chk_bind (normalize_metadata (jget input ''metadata'')) (\<lambda>meta.
     chk_bind (normalize_triggers pf (jget input ''triggers'')) (\<lambda>triggers.
     chk_bind (normalize_agent pf allow_test (jget input ''agent'')) (\<lambda>agent.
     chk_bind (normalize_task (jget input ''task'')) (\<lambda>task.
     chk_bind (normalize_permissions (jget input ''permissions'')) (\<lambda>perms.
     chk_bind (normalize_runtime (jget input ''runtime'')) (\<lambda>rt.
     chk_bind (normalize_notifications (jget input ''notifications'')) (\<lambda>notes.
     ok (assemble_spec meta triggers agent task perms rt notes)))))))))))"

definition validate_agent_job_spec :: "platform \<Rightarrow> bool \<Rightarrow> json \<Rightarrow> (spec_error list, job_spec) result" where
  "validate_agent_job_spec pf allow_test input =
     (if \<not> is_object input then Inl [(''$'', ''invalid_type'')]
      else (let r = check_spec pf allow_test input
            in if fst r \<noteq> [] then Inl (fst r) else Inr (snd r)))"

end
