(* ===== verification/SpecSound.thy ===== *)
theory SpecSound
  imports SpecNormalize
begin

text \<open>
  What the validator guarantees: \<open>spec_wf\<close> collects the conditions that it puts on the values of a
  specification, section by section; each section normaliser establishes its part, and a specification
  that \<open>validate_agent_job_spec\<close> accepts satisfies all of them.
\<close>

definition short_text :: "nat \<Rightarrow> string \<Rightarrow> bool" where
  "short_text n s \<longleftrightarrow> s \<noteq> [] \<and> length s \<le> n"

fun trigger_wf :: "platform \<Rightarrow> trigger \<Rightarrow> bool" where
  "trigger_wf pf (Schedule c every time tz) \<longleftrightarrow> short_text 64 tz
     \<and> (if c = Interval then time = None \<and> (\<exists>ms. every = Some ms \<and> 60000 \<le> ms) else every = None \<and> (\<exists>t. time = Some t \<and> clock_re t))"
| "trigger_wf pf (Webhook n ref ev) \<longleftrightarrow> name_re n \<and> secret_ref_re ref \<and> pred_option (\<lambda>e. short_text 512 e \<and> json_pointer_re e) ev"
| "trigger_wf pf ApiTrigger \<longleftrightarrow> True"
| "trigger_wf pf (WhatsApp g senders m) \<longleftrightarrow> whatsapp_group_re g \<and> length g \<le> 160
     \<and> senders \<noteq> [] \<and> distinct senders \<and> list_all whatsapp_sender_re senders
     \<and> pred_option (\<lambda>p. short_text 200 p \<and> regexp_compiles pf p) m"

definition triggers_wf :: "platform \<Rightarrow> trigger list \<Rightarrow> bool" where
  "triggers_wf pf ts \<longleftrightarrow> ts \<noteq> [] \<and> list_all (trigger_wf pf) ts
     \<and> distinct (List.map_filter trigger_name ts) \<and> length (filter (\<lambda>t. t = ApiTrigger) ts) \<le> 1"

definition runtime_wf :: "runtime_policy \<Rightarrow> bool" where
  "runtime_wf rt \<longleftrightarrow>
     1 \<le> rt_max_attempts rt \<and> rt_max_attempts rt \<le> 20
     \<and> 1000 \<le> rt_timeout_ms rt \<and> 60000 \<le> rt_approval_timeout_ms rt
     \<and> 0 \<le> initial_delay_ms (rt_retry rt) \<and> initial_delay_ms (rt_retry rt) \<le> max_delay_ms (rt_retry rt)
     \<and> (rt_durable rt \<or> rt_max_attempts rt = 1)"

definition tool_name_wf :: "string \<Rightarrow> bool" where
  "tool_name_wf t \<longleftrightarrow> tool_re t \<and> short_text 512 t"

definition tools_wf :: "tool_perms \<Rightarrow> bool" where
  "tools_wf p \<longleftrightarrow>
     list_all tool_name_wf (allow_tools p) \<and> list_all tool_name_wf (deny_tools p) \<and> list_all tool_name_wf (approval_tools p)
     \<and> distinct (allow_tools p) \<and> distinct (deny_tools p) \<and> distinct (approval_tools p)
     \<and> (\<forall>t \<in> set (approval_tools p). \<forall>pat \<in> set (deny_tools p). \<not> tool_matches pat t)
     \<and> set (allow_tools p) \<inter> set (deny_tools p) = {}"

text \<open>A local model is served on a numeric loopback address, under \<open>/v1\<close>, without credentials.\<close>

definition loopback_base_url :: "platform \<Rightarrow> string \<Rightarrow> bool" where
  "loopback_base_url pf b \<longleftrightarrow> (\<exists>given u. parse_url pf given = Some u \<and> http_url_re given \<and> short_text 512 given
     \<and> url_protocol u \<in> {''http:'', ''https:''} \<and> url_hostname u \<in> {''127.0.0.1'', ''[::1]''}
     \<and> url_username u = [] \<and> url_password u = [] \<and> url_search u = [] \<and> url_hash u = [] \<and> url_pathname u \<in> {''/v1'', ''/v1/''}
     \<and> (url_href u = b \<or> url_href u = b @ ''/''))"

definition ref_wf :: "platform \<Rightarrow> bool \<Rightarrow> agent_ref \<Rightarrow> bool" where
  "ref_wf pf allow_test r \<longleftrightarrow> ref_provider r \<in> set (agent_job_providers allow_test)
     \<and> pred_option (short_text 128) (ref_model r)
     \<and> (if ref_provider r = ''openai-compatible''
        then ref_model r \<noteq> None \<and> (\<exists>b. ref_base_url r = Some b \<and> loopback_base_url pf b) else ref_base_url r = None)"

definition agent_wf :: "platform \<Rightarrow> bool \<Rightarrow> agent_ref \<Rightarrow> agent_ref list \<Rightarrow> bool" where
  "agent_wf pf allow_test a fallbacks \<longleftrightarrow>
     length fallbacks \<le> 3 \<and> (\<forall>r \<in> set (a # fallbacks). ref_wf pf allow_test r)
     \<and> distinct (map (\<lambda>r. (ref_provider r, ref_model r)) (a # fallbacks))
     \<and> ((\<exists>r \<in> set (a # fallbacks). ref_provider r = ''openai-compatible'') \<longrightarrow> fallbacks = [])"

definition rule_wf :: "notify_rule \<Rightarrow> bool" where
  "rule_wf r \<longleftrightarrow> rule_on r \<noteq> [] \<and> distinct (rule_on r) \<and> set (rule_on r) \<subseteq> set notify_events
     \<and> rule_channel r \<in> set notify_channels \<and> short_text 256 (rule_target r)
     \<and> (rule_channel r = ''webhook'' \<longrightarrow> webhook_target_re (rule_target r))"

definition spec_wf :: "platform \<Rightarrow> bool \<Rightarrow> job_spec \<Rightarrow> bool" where
  "spec_wf pf allow_test s \<longleftrightarrow>
     name_re (spec_name s) \<and> length (spec_description s) \<le> 1000
     \<and> list_all (\<lambda>(k, v). label_key_re k \<and> short_text 63 v) (spec_labels s)
     \<and> triggers_wf pf (spec_triggers s)
     \<and> agent_wf pf allow_test (spec_agent s) (spec_fallback s)
     \<and> short_text 32000 (spec_prompt s) \<and> is_object (spec_inputs s) \<and> pred_option is_object (spec_output_schema s)
     \<and> tools_wf (spec_tools s) \<and> list_all secret_ref_re (spec_secrets s) \<and> distinct (spec_secrets s)
     \<and> runtime_wf (spec_runtime s)
     \<and> list_all rule_wf (spec_notifications s)"

section \<open>Sections\<close>

lemma duration_at_wf:
  assumes "fst (duration_at v path (Some d) lo) = []" and "lo \<le> d"
  shows "lo \<le> or_zero (snd (duration_at v path (Some d) lo))"
  using duration_at_bounds [OF assms] by (auto simp: or_zero_def)

lemma integer_at_wf:
  assumes "fst (integer_at v path d lo hi) = []" and "lo \<le> d" and "d \<le> hi"
  shows "lo \<le> snd (integer_at v path d lo hi)" and "snd (integer_at v path d lo hi) \<le> hi"
  using integer_at_bounds [OF assms] by auto

lemma normalize_runtime_wf:
  assumes "fst (normalize_runtime v) = []"
  shows "runtime_wf (snd (normalize_runtime v))"
proof -
  let ?rt = "snd (object_at v ''runtime''
       [''durable'', ''max_attempts'', ''timeout'', ''retry'', ''concurrency'', ''approval_timeout''] False)"
  let ?retry = "snd (object_at (field ?rt ''retry'') ''runtime.retry'' [''backoff'', ''initial_delay'', ''max_delay''] False)"
  let ?n = "integer_at (field ?rt ''max_attempts'') ''runtime.max_attempts'' 3 1 20"
  let ?t = "duration_at (field ?rt ''timeout'') ''runtime.timeout'' (Some 1800000) 1000"
  let ?a = "duration_at (field ?rt ''approval_timeout'') ''runtime.approval_timeout'' (Some 86400000) 60000"
  let ?i = "duration_at (field ?retry ''initial_delay'') ''runtime.retry.initial_delay'' (Some 30000) 0"
  let ?m = "duration_at (field ?retry ''max_delay'') ''runtime.retry.max_delay'' (Some 600000) 0"
  let ?d = "field ?rt ''durable'' \<noteq> Some (JBool False)"
  from assms have e: "fst ?n = []" "fst ?t = []" "fst ?a = []" "fst ?i = []"
      "\<not> or_zero (snd ?m) < or_zero (snd ?i)" "\<not> (\<not> ?d \<and> 1 < snd ?n)"
    unfolding normalize_runtime_def Let_def chk_bind_ok chk_simps(5) by blast+
  have "1 \<le> snd ?n" "snd ?n \<le> 20" using integer_at_wf [OF e(1)] by simp_all
  moreover from this e(6) have "?d \<or> snd ?n = 1" by linarith
  moreover have "1000 \<le> or_zero (snd ?t)" using duration_at_wf [OF e(2)] by simp
  moreover have "60000 \<le> or_zero (snd ?a)" using duration_at_wf [OF e(3)] by simp
  moreover have "0 \<le> or_zero (snd ?i)" using duration_at_wf [OF e(4)] by simp
  ultimately show ?thesis
    using e(5) unfolding normalize_runtime_def Let_def chk_bind_ok chk_simps(2) runtime_wf_def
    by (simp only: runtime_policy.simps retry_policy.simps not_less)
qed
lemma chk_fold_fail_if:
  "fst (chk_fold (\<lambda>u i x. fail_if (p x) (path i) c) () i xs) = [] \<longleftrightarrow> (\<forall>x \<in> set xs. \<not> p x)"
  by (induction xs arbitrary: i) auto

lemma check_conflict_folds:
  "fst (chk_fold (check_approval_conflict deny) () i xs) = [] \<longleftrightarrow>
     (\<forall>t \<in> set xs. \<forall>pat \<in> set deny. \<not> tool_matches pat t)"
  "fst (chk_fold (check_allow_conflict deny) () i xs) = [] \<longleftrightarrow> (\<forall>t \<in> set xs. t \<notin> set deny)"
  unfolding check_approval_conflict_def check_allow_conflict_def chk_fold_fail_if
  by (auto simp: list_ex_iff)

lemma tool_list_wf:
  "list_all tool_name_wf (snd (string_list_at v path (str_any\<lparr>so_pattern := Some tool_re\<rparr>)))
   \<and> distinct (snd (string_list_at v path (str_any\<lparr>so_pattern := Some tool_re\<rparr>)))"
proof -
  let ?o = "str_any\<lparr>so_pattern := Some tool_re\<rparr>"
  have "tool_name_wf t" if "snd (string_at w p ?o) = Some t" for w p t
    using string_at_Some(1,2) [OF that] string_at_Some(4) [OF that, of tool_re]
    by (simp add: tool_name_wf_def short_text_def str_any_def)
  from string_list_at_all [of path ?o tool_name_wf v, OF this] show ?thesis by (simp add: list_all_iff)
qed

lemma secret_list_wf:
  "list_all secret_ref_re (snd (string_list_at v path (str_any\<lparr>so_pattern := Some secret_ref_re\<rparr>)))
   \<and> distinct (snd (string_list_at v path (str_any\<lparr>so_pattern := Some secret_ref_re\<rparr>)))"
  using string_list_at_pattern [where opts = "str_any\<lparr>so_pattern := Some secret_ref_re\<rparr>" and p = secret_ref_re]
  by (simp add: list_all_iff)

lemma normalize_permissions_wf:
  assumes "fst (normalize_permissions v) = []"
  shows "tools_wf (fst (snd (normalize_permissions v)))
     \<and> list_all secret_ref_re (snd (snd (normalize_permissions v))) \<and> distinct (snd (snd (normalize_permissions v)))"
  using assms
  by (auto simp: normalize_permissions_def tools_wf_def tool_list_wf secret_list_wf check_conflict_folds)

lemma or_empty_required:
  assumes "fst (string_at v path opts) = []" and "so_required opts"
  shows "or_empty (snd (string_at v path opts)) \<noteq> []"
    and "length (or_empty (snd (string_at v path opts))) \<le> so_max opts"
    and "so_pattern opts = Some p \<Longrightarrow> p (or_empty (snd (string_at v path opts)))"
    and "so_one_of opts = Some xs \<Longrightarrow> or_empty (snd (string_at v path opts)) \<in> set xs"
proof -
  from string_at_required [OF assms] obtain t where t: "snd (string_at v path opts) = Some t" by blast
  show "or_empty (snd (string_at v path opts)) \<noteq> []"
    and "length (or_empty (snd (string_at v path opts))) \<le> so_max opts"
    and "so_pattern opts = Some p \<Longrightarrow> p (or_empty (snd (string_at v path opts)))"
    and "so_one_of opts = Some xs \<Longrightarrow> or_empty (snd (string_at v path opts)) \<in> set xs"
    using string_at_Some [OF t] t by (simp_all add: or_empty_def)
qed

lemma object_at_None:
  "fst (object_at v path keys True) = [] \<Longrightarrow> \<exists>x. v = Some x \<and> snd (object_at v path keys True) = Some x"
  by (auto simp: object_at_def split: option.splits if_splits)

lemma or_empty_text:
  assumes "fst (string_at v path opts) = []" and "so_required opts"
  shows "short_text (so_max opts) (or_empty (snd (string_at v path opts)))"
  using or_empty_required(1,2) [OF assms] by (simp add: short_text_def)

lemma or_empty_length: "length (or_empty (snd (string_at v path opts))) \<le> so_max opts"
  by (cases "snd (string_at v path opts)") (simp_all add: or_empty_def string_at_Some(2))

lemma normalize_task_wf:
  assumes "fst (normalize_task v) = []"
  shows "short_text 32000 (fst (snd (normalize_task v))) \<and> is_object (fst (snd (snd (normalize_task v))))
     \<and> pred_option is_object (snd (snd (snd (normalize_task v))))"
proof -
  have "snd (object_at v ''task'' keys True) = None \<Longrightarrow> fst (object_at v ''task'' keys True) \<noteq> []" for keys
    by (auto simp: object_at_def split: option.splits)
  with assms or_empty_text [where opts = "str_any\<lparr>so_max := 32000\<rparr>"] show ?thesis
    by (auto simp: normalize_task_def Let_def str_any_def is_object_def split: if_splits)
qed

lemma norm_label_wf:
  assumes "fst (norm_label labels i kv) = []" and "list_all (\<lambda>(k, v). label_key_re k \<and> short_text 63 v) labels"
  shows "list_all (\<lambda>(k, v). label_key_re k \<and> short_text 63 v) (snd (norm_label labels i kv))"
proof -
  let ?t = "string_at (Some (snd kv)) (''metadata.labels.'' @ fst kv) (str_any\<lparr>so_max := 63\<rparr>)"
  have key: "label_key_re (fst kv)" using assms(1) by (simp add: norm_label_def Let_def)
  show ?thesis
  proof (cases "snd ?t")
    case (Some t)
    with string_at_Some(1,2) [OF Some] key assms(2) show ?thesis
      by (simp add: norm_label_def Let_def short_text_def str_any_def)
  qed (use assms(2) in \<open>simp add: norm_label_def Let_def\<close>)
qed

lemma normalize_metadata_wf:
  assumes "fst (normalize_metadata v) = []"
  shows "name_re (or_empty (fst (snd (normalize_metadata v)))) \<and> length (fst (snd (snd (normalize_metadata v)))) \<le> 1000
     \<and> list_all (\<lambda>(k, v). label_key_re k \<and> short_text 63 v) (snd (snd (snd (normalize_metadata v))))"
proof -
  let ?keys = "[''name'', ''description'', ''labels'']"
  let ?label = "\<lambda>(k, v). label_key_re k \<and> short_text 63 v"
  from assms have "fst (object_at v ''metadata'' ?keys True) = []" by (simp add: normalize_metadata_def)
  from object_at_None [OF this] obtain m where m: "v = Some m" "snd (object_at v ''metadata'' ?keys True) = Some m" by blast
  have d: "length (or_empty (snd (string_at w p (str_any\<lparr>so_required := False, so_max := 1000\<rparr>)))) \<le> 1000" for w p
    using or_empty_length [of w p "str_any\<lparr>so_required := False, so_max := 1000\<rparr>"] by simp
  have labels: "list_all ?label (snd (chk_fold norm_label [] 0 kvs))" if "fst (chk_fold norm_label [] 0 kvs) = []" for kvs
    using that by (rule chk_fold_inv) (simp_all add: norm_label_wf)
  show ?thesis
    using assms m(2) labels d or_empty_required(3) [where opts = "str_any\<lparr>so_max := 63, so_pattern := Some name_re\<rparr>" and p = name_re]
    by (auto simp: normalize_metadata_def str_any_def split: if_splits)
qed

section \<open>Triggers\<close>

lemma optional_text:
  assumes "\<And>t. q t \<longleftrightarrow> short_text (so_max opts) t"
  shows "pred_option q (snd (string_at v path opts))"
  by (cases "snd (string_at v path opts)") (simp_all add: assms short_text_def string_at_Some(1,2))

lemma duration_at_given:
  "fst (duration_at (Some x) path None lo) = [] \<Longrightarrow> \<exists>ms. snd (duration_at (Some x) path None lo) = Some ms \<and> lo \<le> ms"
  by (auto simp: duration_at_def split: option.splits if_splits)

lemma norm_schedule_wf:
  assumes "fst (norm_schedule raw path) = []"
  shows "trigger_wf pf (snd (norm_schedule raw path))"
proof -
  let ?co = "str_any\<lparr>so_one_of := Some [''interval'', ''daily'', ''weekly'']\<rparr>"
  let ?c = "string_at (jget raw ''cadence'') (at_key path ''cadence'') ?co"
  let ?t = "string_at (jget raw ''time'') (at_key path ''time'') (str_any\<lparr>so_pattern := Some clock_re\<rparr>)"
  let ?z = "string_at (jget raw ''timezone'') (at_key path ''timezone'') (str_any\<lparr>so_required := False, so_max := 64\<rparr>)"
  let ?d = "duration_at (jget raw ''every'') (at_key path ''every'') None 60000"
  have e: "fst ?c = []" using assms by (simp add: norm_schedule_def)
  from string_at_required [OF e] obtain c where c: "snd ?c = Some c" by (auto simp: str_any_def)
  have cin: "c \<in> set [''interval'', ''daily'', ''weekly'']" by (rule string_at_Some(3) [OF c]) (simp add: str_any_def)
  have zone: "short_text 64 (case snd ?z of None \<Rightarrow> ''UTC'' | Some z \<Rightarrow> z)"
    using string_at_Some(1,2) [of "jget raw ''timezone''" "at_key path ''timezone''" "str_any\<lparr>so_required := False, so_max := 64\<rparr>"]
    by (auto simp: short_text_def str_any_def split: option.splits)
  show ?thesis
  proof (cases "c = ''interval''")
    case True
    have f: "jget raw ''every'' \<noteq> None" "fst ?d = []" using assms c True by (simp_all add: norm_schedule_def)
    then obtain ms where "snd ?d = Some ms" "60000 \<le> ms" using duration_at_given by (metis option.exhaust)
    with c True zone show ?thesis by (simp add: norm_schedule_def cadence_of_def or_empty_def)
  next
    case False
    have f: "fst ?t = []" using assms c False by (simp add: norm_schedule_def)
    from string_at_required [OF f] obtain t where t: "snd ?t = Some t" by (auto simp: str_any_def)
    have "clock_re t" by (rule string_at_Some(4) [OF t]) (simp add: str_any_def)
    with c cin False t zone show ?thesis by (auto simp: norm_schedule_def cadence_of_def or_empty_def)
  qed
qed

lemma norm_webhook_wf:
  assumes "fst (norm_webhook raw path) = []"
  shows "trigger_wf pf (snd (norm_webhook raw path))"
proof -
  let ?eo = "str_any\<lparr>so_required := False, so_pattern := Some json_pointer_re\<rparr>"
  have "pred_option (\<lambda>e. short_text 512 e \<and> json_pointer_re e) (snd (string_at v p ?eo))" for v p
    using string_at_Some(1,2,4) [of v p ?eo] by (cases "snd (string_at v p ?eo)") (simp_all add: short_text_def str_any_def)
  then show ?thesis
    using assms or_empty_required(3) [where opts = "str_any\<lparr>so_max := 63, so_pattern := Some name_re\<rparr>" and p = name_re]
      or_empty_required(3) [where opts = "str_any\<lparr>so_pattern := Some secret_ref_re\<rparr>" and p = secret_ref_re]
    by (simp add: norm_webhook_def str_any_def)
qed

lemma string_list_grows:
  assumes "fst (chk_fold (string_list_entry path opts) out i xs) = []" and "so_required opts"
  shows "length (snd (chk_fold (string_list_entry path opts) out i xs)) = length out + length xs"
  using assms(1)
proof (induction xs arbitrary: out i)
  case (Cons x xs)
  have e: "fst (string_list_entry path opts out i x) = []" using Cons.prems by simp
  then have "fst (string_at (Some x) (at_index path i) opts) = []" by (simp add: string_list_entry_def)
  from string_at_required [OF this assms(2)] obtain t where "snd (string_at (Some x) (at_index path i) opts) = Some t" by blast
  then have "snd (string_list_entry path opts out i x) = out @ [t]" using e by (auto simp: string_list_entry_def split: if_splits)
  with Cons show ?case by simp
qed simp

lemma norm_whatsapp_wf:
  assumes "fst (norm_whatsapp pf raw path) = []"
  shows "trigger_wf pf (snd (norm_whatsapp pf raw path))"
proof -
  let ?so = "str_any\<lparr>so_pattern := Some whatsapp_sender_re\<rparr>"
  let ?s = "string_list_at (jget raw ''senders'') (at_key path ''senders'') ?so"
  let ?g = "string_at (jget raw ''group'') (at_key path ''group'') (str_any\<lparr>so_max := 160, so_pattern := Some whatsapp_group_re\<rparr>)"
  let ?m = "string_at (jget raw ''match'') (at_key path ''match'') (str_any\<lparr>so_required := False, so_max := 200\<rparr>)"
  have e: "fst ?s = []" "nonempty_array (jget raw ''senders'')" "fst ?g = []" "\<not> (case snd ?m of None \<Rightarrow> False | Some p \<Rightarrow> \<not> regexp_compiles pf p)"
    using assms by (simp_all add: norm_whatsapp_def)
  obtain x xs where arr: "jget raw ''senders'' = Some (JArr (x # xs))"
    using e(2) by (auto simp: nonempty_array_def split: option.splits json.splits list.splits)
  have "length (snd ?s) = Suc (length xs)"
    using string_list_grows [of "at_key path ''senders''" ?so "[]" 0 "x # xs"] e(1)
    by (simp add: string_list_at_def arr str_any_def del: chk_fold.simps)
  then have senders: "snd ?s \<noteq> []" "distinct (snd ?s)" "list_all whatsapp_sender_re (snd ?s)"
    using string_list_at_pattern [where opts = ?so and p = whatsapp_sender_re] by (auto simp: list_all_iff)
  have "whatsapp_group_re (or_empty (snd ?g))" "length (or_empty (snd ?g)) \<le> 160"
    using or_empty_required(2,3) [OF e(3)] by (simp_all add: str_any_def)
  moreover have "pred_option (\<lambda>p. short_text 200 p \<and> regexp_compiles pf p) (snd ?m)"
    using e(4) string_at_Some(1,2) [of "jget raw ''match''" "at_key path ''match''" "str_any\<lparr>so_required := False, so_max := 200\<rparr>"]
    by (cases "snd ?m") (simp_all add: short_text_def)
  ultimately show ?thesis using senders by (simp add: norm_whatsapp_def)
qed

lemma normalize_trigger_Some:
  assumes "fst (normalize_trigger pf raw path) = []"
  shows "\<exists>t. snd (normalize_trigger pf raw path) = Some t \<and> trigger_wf pf t"
proof -
  let ?o = "str_any\<lparr>so_one_of := Some [''schedule'', ''webhook'', ''api'', ''whatsapp'']\<rparr>"
  from assms have obj: "is_object raw" and e: "fst (string_at (jget raw ''type'') (at_key path ''type'') ?o) = []"
    by (auto simp: normalize_trigger_def split: if_splits)
  from string_at_required [OF e] obtain ty where
    ty: "snd (string_at (jget raw ''type'') (at_key path ''type'') ?o) = Some ty"
    by (auto simp: str_any_def)
  have "ty \<in> set [''schedule'', ''webhook'', ''api'', ''whatsapp'']"
    by (rule string_at_Some(3) [OF ty]) (simp add: str_any_def)
  then consider "ty = ''schedule''" | "ty = ''webhook''" | "ty = ''api''" | "ty = ''whatsapp''" by auto
  then show ?thesis
  proof cases
    case 1
    then show ?thesis using obj ty assms norm_schedule_wf [of raw path pf] by (simp add: normalize_trigger_def)
  next
    case 2
    then show ?thesis using obj ty assms norm_webhook_wf [of raw path pf] by (simp add: normalize_trigger_def)
  next
    case 3
    then show ?thesis using obj ty by (simp add: normalize_trigger_def)
  next
    case 4
    then show ?thesis using obj ty assms norm_whatsapp_wf [of pf raw path] by (simp add: normalize_trigger_def)
  qed
qed

lemma norm_trigger_fold:
  assumes "fst (chk_fold (norm_trigger_entry pf) ts i xs) = []" and "list_all (trigger_wf pf) ts"
  shows "length (snd (chk_fold (norm_trigger_entry pf) ts i xs)) = length ts + length xs"
    and "list_all (trigger_wf pf) (snd (chk_fold (norm_trigger_entry pf) ts i xs))"
proof -
  have "length (snd (chk_fold (norm_trigger_entry pf) ts i xs)) = length ts + length xs
      \<and> list_all (trigger_wf pf) (snd (chk_fold (norm_trigger_entry pf) ts i xs))"
    using assms
  proof (induction xs arbitrary: ts i)
    case (Cons x xs)
    from Cons.prems have e: "fst (normalize_trigger pf x (at_index ''triggers'' i)) = []"
      by (simp add: norm_trigger_entry_def)
    then obtain t where "snd (normalize_trigger pf x (at_index ''triggers'' i)) = Some t" "trigger_wf pf t"
      using normalize_trigger_Some by blast
    then have "snd (norm_trigger_entry pf ts i x) = ts @ [t]" "trigger_wf pf t" by (simp_all add: norm_trigger_entry_def)
    with Cons show ?case by simp
  qed simp
  then show "length (snd (chk_fold (norm_trigger_entry pf) ts i xs)) = length ts + length xs"
    and "list_all (trigger_wf pf) (snd (chk_fold (norm_trigger_entry pf) ts i xs))" by blast+
qed

lemma webhook_names_distinct:
  assumes "fst (chk_fold check_webhook_name seen i ts) = []" and "list_all (trigger_wf pf) ts"
  shows "distinct (List.map_filter trigger_name ts) \<and> set (List.map_filter trigger_name ts) \<inter> set seen = {}"
  using assms
proof (induction ts arbitrary: seen i)
  case (Cons t ts)
  show ?case
  proof (cases t)
    case (Webhook n ref ev)
    have "n \<noteq> []" using Cons.prems(2) Webhook by (auto simp: name_re_def)
    then have "check_webhook_name seen i t = chk_bind (fail_if (n \<in> set seen) (at_key (at_index ''triggers'' i) ''name'') ''duplicate'') (\<lambda>_. ok (n # seen))"
      by (simp add: check_webhook_name_def Webhook)
    then have "n \<notin> set seen" "fst (chk_fold check_webhook_name (n # seen) (Suc i) ts) = []"
      using Cons.prems(1) by simp_all
    with Cons.IH [of "n # seen"] Cons.prems(2) show ?thesis by (auto simp: Webhook map_filter_simps)
  next
    case (Schedule c every time tz)
    then have "check_webhook_name seen i t = ok seen" by (simp add: check_webhook_name_def)
    with Cons Schedule show ?thesis by (simp add: map_filter_simps)
  next
    case ApiTrigger
    then have "check_webhook_name seen i t = ok seen" by (simp add: check_webhook_name_def)
    with Cons ApiTrigger show ?thesis by (simp add: map_filter_simps)
  next
    case (WhatsApp g ss m)
    then have "check_webhook_name seen i t = ok seen" by (simp add: check_webhook_name_def)
    with Cons WhatsApp show ?thesis by (simp add: map_filter_simps)
  qed
qed (simp add: map_filter_simps)

lemma normalize_triggers_wf:
  assumes "fst (normalize_triggers pf v) = []"
  shows "triggers_wf pf (snd (normalize_triggers pf v))"
proof -
  from assms have "nonempty_array v" by (auto simp: normalize_triggers_def split: if_splits)
  then obtain x xs where v: "v = Some (JArr (x # xs))"
    by (auto simp: nonempty_array_def split: option.splits json.splits list.splits)
  have ne: "nonempty_array (Some (JArr (x # xs)))" by (simp add: nonempty_array_def)
  let ?ts = "chk_fold (norm_trigger_entry pf) [] 0 (x # xs)"
  from assms v ne have e: "fst ?ts = []" "fst (chk_fold check_webhook_name [] 0 (snd ?ts)) = []"
      and api: "length (filter (\<lambda>t. t = ApiTrigger) (snd ?ts)) \<le> 1"
    unfolding normalize_triggers_def by (simp_all del: chk_fold.simps)
  have all: "list_all (trigger_wf pf) (snd ?ts)" using norm_trigger_fold(2) [OF e(1)] by simp
  have "length (snd ?ts) = Suc (length xs)" using norm_trigger_fold(1) [OF e(1)] by simp
  then have "snd ?ts \<noteq> []" by (metis list.size(3) nat.distinct(1))
  with all api webhook_names_distinct [OF e(2) all] show ?thesis
    using v ne unfolding normalize_triggers_def triggers_wf_def by (simp del: chk_fold.simps)
qed

section \<open>Agent and notifications\<close>

lemma norm_base_url_wf:
  assumes "fst (norm_base_url pf ref path) = []"
  shows "\<exists>b. snd (norm_base_url pf ref path) = Some b \<and> loopback_base_url pf b"
proof -
  let ?o = "str_any\<lparr>so_pattern := Some http_url_re\<rparr>"
  let ?u = "string_at (jget ref ''base_url'') (at_key path ''base_url'') ?o"
  have e: "fst ?u = []" using assms by (simp add: norm_base_url_def)
  from string_at_required [OF e] obtain x where x: "snd ?u = Some x" by (auto simp: str_any_def)
  have given: "http_url_re x" "short_text 512 x"
    using string_at_Some(1,2) [OF x] string_at_Some(4) [OF x, of http_url_re] by (simp_all add: short_text_def str_any_def)
  obtain b where b: "local_base_url pf x = Some b"
    using assms x by (auto simp: norm_base_url_def split: option.splits)
  then obtain u where u: "parse_url pf x = Some u" by (auto simp: local_base_url_def split: option.splits)
  have "url_href u = b \<or> url_href u = b @ ''/''"
    using b u by (auto simp: local_base_url_def ends_with_iff split: if_splits)
  then have "loopback_base_url pf b"
    using b u given by (auto simp: loopback_base_url_def local_base_url_def split: if_splits)
  then show ?thesis using x b by (simp add: norm_base_url_def)
qed

lemma normalize_provider_ref_wf:
  assumes "fst (normalize_provider_ref pf allow_test raw path checked) = []"
  shows "\<exists>p a. snd (normalize_provider_ref pf allow_test raw path checked) = Some (Some p, a) \<and> p = ref_provider a \<and> ref_wf pf allow_test a"
proof -
  let ?keys = "if checked then jkeys raw else [''provider'', ''model'', ''base_url'']"
  let ?o = "str_any\<lparr>so_one_of := Some (agent_job_providers allow_test)\<rparr>"
  let ?p = "string_at (jget raw ''provider'') (at_key path ''provider'') ?o"
  let ?m = "snd (string_at (jget raw ''model'') (at_key path ''model'') (str_any\<lparr>so_required := False, so_max := 128\<rparr>))"
  from assms have "fst (object_at (Some raw) path ?keys True) = []"
    by (simp add: normalize_provider_ref_def)
  from object_at_None [OF this] have o: "snd (object_at (Some raw) path ?keys True) = Some raw" by simp
  from assms o have nt: "\<not> (jget raw ''provider'' = Some (JStr ''simulated'') \<and> \<not> allow_test)"
    by (simp add: normalize_provider_ref_def Let_def)
  with assms o have e: "fst ?p = []" by (simp add: normalize_provider_ref_def Let_def split: if_splits)
  from string_at_required [OF e] obtain p where p: "snd ?p = Some p" by (auto simp: str_any_def)
  have pin: "p \<in> set (agent_job_providers allow_test)"
    by (rule string_at_Some(3) [OF p]) (simp add: str_any_def)
  have model: "pred_option (short_text 128) ?m"
    using string_at_Some(1,2) [of "jget raw ''model''" "at_key path ''model''" "str_any\<lparr>so_required := False, so_max := 128\<rparr>"]
    by (cases ?m) (simp_all add: short_text_def)
  show ?thesis
  proof (cases "p = ''openai-compatible''")
    case True
    then have "?m \<noteq> None" "fst (norm_base_url pf raw path) = []"
      using assms o nt p by (auto simp: normalize_provider_ref_def Let_def)
    with norm_base_url_wf [OF this(2)] o nt p pin model True show ?thesis
      by (auto simp: normalize_provider_ref_def Let_def ref_wf_def or_empty_def)
  next
    case False
    with o nt p pin model show ?thesis
      by (auto simp: normalize_provider_ref_def Let_def ref_wf_def or_empty_def)
  qed
qed

text \<open>The provider and the model of a reference, as the duplicate check compares them.\<close>

definition ref_pair :: "agent_ref \<Rightarrow> string \<times> string option" where
  "ref_pair r = (ref_provider r, ref_model r)"

definition pair_key :: "string \<times> string option \<Rightarrow> string" where
  "pair_key x = ref_key (Some (Some (fst x), \<lparr>ref_provider = fst x, ref_model = snd x, ref_base_url = None\<rparr>))"

lemma ref_key_pair: "p = ref_provider a \<Longrightarrow> ref_key (Some (Some p, a)) = pair_key (ref_pair a)"
  by (simp add: ref_key_def pair_key_def ref_pair_def)

lemma norm_fallback_wf:
  assumes "fst (norm_fallback pf t acc i x) = []"
  shows "\<exists>a. snd (norm_fallback pf t acc i x) = (pair_key (ref_pair a) # fst acc, snd acc @ [a]) \<and> ref_wf pf t a
    \<and> pair_key (ref_pair a) \<notin> set (fst acc)"
proof -
  from assms have "fst (normalize_provider_ref pf t x (at_index ''agent.fallback'' i) False) = []"
    by (simp add: norm_fallback_def)
  from normalize_provider_ref_wf [OF this] obtain p a
    where a: "snd (normalize_provider_ref pf t x (at_index ''agent.fallback'' i) False) = Some (Some p, a)" "p = ref_provider a" "ref_wf pf t a"
    by blast
  then show ?thesis using assms ref_key_pair [OF a(2)] by (auto simp: norm_fallback_def)
qed

lemma norm_fallback_fold_wf:
  assumes "fst (chk_fold (norm_fallback pf t) acc i xs) = []" and "\<forall>r \<in> set (snd acc). ref_wf pf t r"
    and "fst acc = rev (map (pair_key \<circ> ref_pair) (a # snd acc))" "distinct (map ref_pair (a # snd acc))"
  shows "(\<forall>r \<in> set (snd (snd (chk_fold (norm_fallback pf t) acc i xs))). ref_wf pf t r)
    \<and> length (snd (snd (chk_fold (norm_fallback pf t) acc i xs))) \<le> length (snd acc) + length xs
    \<and> distinct (map ref_pair (a # snd (snd (chk_fold (norm_fallback pf t) acc i xs))))"
  using assms
proof (induction xs arbitrary: acc i)
  case (Cons x xs)
  let ?acc = "snd (norm_fallback pf t acc i x)"
  from Cons.prems(1) have e: "fst (norm_fallback pf t acc i x) = []"
      "fst (chk_fold (norm_fallback pf t) ?acc (Suc i) xs) = []" by simp_all
  from norm_fallback_wf [OF e(1)] obtain b where b: "?acc = (pair_key (ref_pair b) # fst acc, snd acc @ [b])" "ref_wf pf t b"
      "pair_key (ref_pair b) \<notin> set (fst acc)" by blast
  have all: "\<forall>r \<in> set (snd ?acc). ref_wf pf t r" unfolding b(1) using b(2) Cons.prems(2) by simp
  have keys: "fst ?acc = rev (map (pair_key \<circ> ref_pair) (a # snd ?acc))" unfolding b(1) using Cons.prems(3) by simp
  have dist: "distinct (map ref_pair (a # snd ?acc))"
    unfolding b(1) using b(3) Cons.prems(3,4) by (auto simp: image_iff)
  have "length (snd ?acc) = Suc (length (snd acc))" unfolding b(1) by simp
  with Cons.IH [OF e(2) all keys dist] show ?case by simp
qed simp

lemma normalize_agent_wf:
  assumes "fst (normalize_agent pf t v) = []"
  shows "agent_wf pf t (fst (snd (normalize_agent pf t v))) (snd (snd (normalize_agent pf t v)))"
proof -
  let ?keys = "[''provider'', ''model'', ''base_url'', ''fallback'']"
  from assms have "fst (object_at v ''agent'' ?keys True) = []" by (simp add: normalize_agent_def)
  from object_at_None [OF this] obtain agent where o: "snd (object_at v ''agent'' ?keys True) = Some agent" by blast
  let ?raw = "JObj (filter (\<lambda>kv. fst kv \<noteq> ''fallback'') (obj_entries (Some agent)))"
  let ?pr = "normalize_provider_ref pf t ?raw ''agent'' True"
  define fb where "fb = (case jget agent ''fallback'' of
            None \<Rightarrow> ok []
          | Some (JArr xs) \<Rightarrow>
              if 3 < length xs then fail_with ''agent.fallback'' ''too_many'' []
              else chk_bind (chk_fold (norm_fallback pf t) ([ref_key (snd ?pr)], []) 0 xs) (\<lambda>acc. ok (snd acc))
          | Some _ \<Rightarrow> fail_with ''agent.fallback'' ''invalid_type'' [])"
  from assms o have e: "fst ?pr = []" by (simp add: normalize_agent_def Let_def)
  from normalize_provider_ref_wf [OF e] obtain p a where pr: "snd ?pr = Some (Some p, a)" "p = ref_provider a" and a: "ref_wf pf t a" by blast
  from assms o pr have f: "fst fb = []"
    and l: "\<not> (list_ex (\<lambda>x. ref_provider x = ''openai-compatible'') (a # snd fb) \<and> snd fb \<noteq> [])"
    unfolding fb_def normalize_agent_def Let_def by simp_all
  have "(\<forall>r \<in> set (snd fb). ref_wf pf t r) \<and> length (snd fb) \<le> 3 \<and> distinct (map ref_pair (a # snd fb))"
  proof (cases "jget agent ''fallback''")
    case None
    then show ?thesis by (simp add: fb_def)
  next
    case (Some x)
    with f obtain xs where x: "x = JArr xs" by (cases x) (auto simp: fb_def)
    have "ref_key (snd ?pr) = pair_key (ref_pair a)" using pr ref_key_pair by simp
    with f Some x norm_fallback_fold_wf [of pf t "([ref_key (snd ?pr)], [])" 0 xs a]
    show ?thesis by (auto simp: fb_def split: if_splits)
  qed
  with a l o pr(1) show ?thesis
    unfolding normalize_agent_def Let_def fb_def [symmetric]
    by (auto simp: agent_wf_def list_ex_iff ref_pair_def [abs_def] fb_def [symmetric])
qed

lemma norm_notification_wf:
  assumes "fst (norm_notification rules i raw) = []" and "list_all rule_wf rules"
  shows "list_all rule_wf (snd (norm_notification rules i raw))"
proof -
  let ?path = "at_index ''notifications'' i"
  let ?keys = "[''on'', ''channel'', ''target'']"
  from assms(1) have "fst (object_at (Some raw) ?path ?keys True) = []"
    by (simp add: norm_notification_def Let_def)
  from object_at_None [OF this] have o: "snd (object_at (Some raw) ?path ?keys True) = Some raw" by simp
  let ?on = "string_list_at (field (Some raw) ''on'') (at_key ?path ''on'') (str_any\<lparr>so_one_of := Some notify_events\<rparr>)"
  let ?ch = "string_at (field (Some raw) ''channel'') (at_key ?path ''channel'') (str_any\<lparr>so_one_of := Some notify_channels\<rparr>)"
  let ?tg = "string_at (field (Some raw) ''target'') (at_key ?path ''target'') (str_any\<lparr>so_max := 256\<rparr>)"
  from assms(1) o have e: "snd ?on \<noteq> []" "fst ?ch = []" "fst ?tg = []"
    and w: "\<not> (snd ?ch = Some ''webhook'' \<and> (case snd ?tg of None \<Rightarrow> False | Some t \<Rightarrow> \<not> webhook_target_re t))"
    by (simp_all add: norm_notification_def Let_def)
  have on: "set (snd ?on) \<subseteq> set notify_events" "distinct (snd ?on)"
    using string_list_at_one_of [where opts = "str_any\<lparr>so_one_of := Some notify_events\<rparr>" and xs = notify_events]
    by auto
  from string_at_required [OF e(2)] obtain c where c: "snd ?ch = Some c" by (auto simp: str_any_def)
  from string_at_required [OF e(3)] obtain t where t: "snd ?tg = Some t" by (auto simp: str_any_def)
  have cin: "c \<in> set notify_channels" by (rule string_at_Some(3) [OF c]) (simp add: str_any_def)
  have "short_text 256 t" using string_at_Some(1,2) [OF t] by (simp add: short_text_def)
  with e(1) on c t cin w have "rule_wf \<lparr>rule_on = snd ?on, rule_channel = or_empty (snd ?ch), rule_target = or_empty (snd ?tg)\<rparr>"
    by (simp add: rule_wf_def or_empty_def)
  with o assms(2) show ?thesis
    by (simp add: norm_notification_def Let_def)
qed

lemma normalize_notifications_wf:
  assumes "fst (normalize_notifications v) = []"
  shows "list_all rule_wf (snd (normalize_notifications v))"
proof (cases v)
  case (Some x)
  with assms obtain xs where "v = Some (JArr xs)" "fst (chk_fold norm_notification [] 0 xs) = []"
    by (cases x) (simp_all add: normalize_notifications_def)
  then show ?thesis
    by (auto simp: normalize_notifications_def
        intro: chk_fold_inv [where P = "list_all rule_wf"] norm_notification_wf)
qed (simp add: normalize_notifications_def)

section \<open>The validator\<close>

lemma check_spec_wf:
  assumes "fst (check_spec pf t input) = []"
  shows "spec_wf pf t (snd (check_spec pf t input))"
proof -
  from assms have e:
    "fst (normalize_metadata (jget input ''metadata'')) = []"
    "fst (normalize_triggers pf (jget input ''triggers'')) = []"
    "fst (normalize_agent pf t (jget input ''agent'')) = []"
    "fst (normalize_task (jget input ''task'')) = []"
    "fst (normalize_permissions (jget input ''permissions'')) = []"
    "fst (normalize_runtime (jget input ''runtime'')) = []"
    "fst (normalize_notifications (jget input ''notifications'')) = []"
    unfolding check_spec_def chk_bind_ok by blast+
  note wf = normalize_metadata_wf [OF e(1)] normalize_triggers_wf [OF e(2)] normalize_agent_wf [OF e(3)]
    normalize_task_wf [OF e(4)] normalize_permissions_wf [OF e(5)] normalize_runtime_wf [OF e(6)]
    normalize_notifications_wf [OF e(7)]
  show ?thesis
    unfolding check_spec_def chk_bind_ok chk_simps(2) assemble_spec_def spec_wf_def job_spec.simps
    using wf by blast
qed

text \<open>
  C18: a specification that the validator accepts satisfies every condition the validator puts on its
  values, as \<open>spec_wf\<close> lists them: the formats and lengths of names, labels, clocks, secret references,
  groups, senders and tools; intervals of at least a minute and the fields of each cadence; distinct
  webhook names, senders, tools, secrets and notification events, and at most one API trigger; 1 to 20
  attempts, one for a job that is not durable, and delays in order; a provider and model that no fallback
  repeats, at most three fallbacks and none beside a local model, which has a loopback address; no
  approval-gated tool that a deny pattern covers; well-formed notification rules.
\<close>

theorem validate_agent_job_spec_wf:
  assumes "validate_agent_job_spec pf t input = Inr s"
  shows "spec_wf pf t s"
  using assms check_spec_wf [of pf t input]
  by (auto simp: validate_agent_job_spec_def Let_def split: if_splits)

text \<open>A time zone is any short text to the validator: whether there is such a zone is not asked.\<close>

lemma any_zone_accepted:
  assumes "str_trim z = z" and "z \<noteq> []" and "length z \<le> 64"
  shows "norm_schedule (JObj [(''type'', JStr ''schedule''), (''cadence'', JStr ''daily''), (''time'', JStr ''09:00''), (''timezone'', JStr z)]) path
    = ok (Schedule Daily None (Some ''09:00'') z)"
proof -
  have "str_trim ''daily'' = ''daily''" "str_trim ''09:00'' = ''09:00''" "clock_re ''09:00''" by code_simp+
  with assms show ?thesis
    by (simp add: norm_schedule_def check_keys_def jkeys_def jget_def string_at_def str_any_def fail_if_def ok_def chk_bind_def
        cadence_of_def or_empty_def Let_def)
qed

text \<open>A small job file that the validator accepts.\<close>

definition sample_platform :: platform where
  "sample_platform = \<lparr>parse_url = (\<lambda>s. None), regexp_compiles = (\<lambda>s. True)\<rparr>"

definition sample_job_file :: json where
  "sample_job_file = JObj [(''apiVersion'', JStr ''orkestr/v0''), (''kind'', JStr ''AgentJob''),
     (''metadata'', JObj [(''name'', JStr ''nightly'')]),
     (''triggers'', JArr [JObj [(''type'', JStr ''api'')]]),
     (''agent'', JObj [(''provider'', JStr ''codex'')]),
     (''task'', JObj [(''prompt'', JStr ''Review'')])]"

lemma sample_job_task:
  "fst (normalize_task (jget sample_job_file ''task'')) = []"
proof -
  have "str_trim ''Review'' = ''Review''" by code_simp
  then show ?thesis
    by (simp add: normalize_task_def sample_job_file_def field_def object_at_def check_keys_def jkeys_def Let_def
        jget_def is_object_def string_at_def str_any_def or_null_def)
qed

lemma sample_job_file_valid:
  "\<exists>s. validate_agent_job_spec sample_platform False sample_job_file = Inr s"
proof -
  have "fst (check_keys sample_job_file ''$'' [''apiVersion'', ''kind'', ''metadata'', ''triggers'', ''agent'', ''task'',
                 ''permissions'', ''runtime'', ''notifications'']) = []"
    by (simp add: sample_job_file_def check_keys_def jkeys_def)
  moreover have "fst (string_at (jget sample_job_file ''apiVersion'') ''apiVersion'' (str_any\<lparr>so_one_of := Some [''orkestr/v0'']\<rparr>)) = []"
    "fst (string_at (jget sample_job_file ''kind'') ''kind'' (str_any\<lparr>so_one_of := Some [''AgentJob'']\<rparr>)) = []"
    "fst (normalize_metadata (jget sample_job_file ''metadata'')) = []"
    "fst (normalize_triggers sample_platform (jget sample_job_file ''triggers'')) = []"
    by code_simp+
  moreover have "fst (normalize_agent sample_platform False (jget sample_job_file ''agent'')) = []"
    "fst (normalize_permissions (jget sample_job_file ''permissions'')) = []"
    "fst (normalize_runtime (jget sample_job_file ''runtime'')) = []"
    "fst (normalize_notifications (jget sample_job_file ''notifications'')) = []"
    by code_simp+
  ultimately have "fst (check_spec sample_platform False sample_job_file) = []"
    using sample_job_task by (simp only: check_spec_def chk_bind_ok chk_simps simp_thms)
  moreover have "is_object sample_job_file" by (simp add: sample_job_file_def is_object_def)
  ultimately show ?thesis by (simp add: validate_agent_job_spec_def Let_def)
qed

lemma validate_agent_job_spec_wf_witness:
  "\<exists>s. validate_agent_job_spec sample_platform False sample_job_file = Inr s \<and> spec_wf sample_platform False s"
  using sample_job_file_valid validate_agent_job_spec_wf by blast

end
