(* ===== verification/JobStore.thy ===== *)
theory JobStore
  imports SpecSound
begin

text \<open>
  The durable store of Agent Job runs (\<open>agent-job-store.js\<close>): pinned specifications, registered
  jobs, runs, attempts, the checkpoint journal and run leases. The SQLite database is a record of
  tables; a table is the list of its rows in rowid order. Every synchronous operation takes the
  instant \<open>now\<close> at which it runs (\<open>nowMs\<close>, \<open>nowIso\<close>); an ISO timestamp is represented by
  its millisecond number, whose order is the text's order. The digest \<open>H\<close> is the SHA-256 of
  \<open>node:crypto\<close>, an argument of the operations that use it, as is the random part of a new id.
\<close>

section \<open>Tables\<close>

datatype run_state =
  Pending | Running | Retrying | AwaitingApproval | Succeeded | Failed | Cancelled | Skipped

definition run_state_str :: "run_state \<Rightarrow> string" where
  "run_state_str s = (case s of
     Pending \<Rightarrow> ''pending'' | Running \<Rightarrow> ''running'' | Retrying \<Rightarrow> ''retrying''
   | AwaitingApproval \<Rightarrow> ''awaiting_approval'' | Succeeded \<Rightarrow> ''succeeded'' | Failed \<Rightarrow> ''failed''
   | Cancelled \<Rightarrow> ''cancelled'' | Skipped \<Rightarrow> ''skipped'')"

definition terminal_run_states :: "run_state list" where
  "terminal_run_states = [Succeeded, Failed, Cancelled, Skipped]"

definition active_run_states :: "run_state list" where
  "active_run_states = [Pending, Running, Retrying, AwaitingApproval]"

definition is_terminal :: "run_state \<Rightarrow> bool" where
  "is_terminal s \<longleftrightarrow> s \<in> set terminal_run_states"

definition is_active :: "run_state \<Rightarrow> bool" where
  "is_active s \<longleftrightarrow> s \<in> set active_run_states"

lemma active_iff_not_terminal: "is_active s \<longleftrightarrow> \<not> is_terminal s"
  by (cases s) (simp_all add: is_active_def is_terminal_def active_run_states_def terminal_run_states_def)

lemma state_class_simps [simp]:
  "is_terminal Pending = False" "is_terminal Running = False" "is_terminal Retrying = False"
  "is_terminal AwaitingApproval = False" "is_terminal Succeeded = True" "is_terminal Failed = True"
  "is_terminal Cancelled = True" "is_terminal Skipped = True"
  by (simp_all add: is_terminal_def terminal_run_states_def)

text \<open>A run as \<open>rowToRun\<close> reads it; SQL nulls are \<open>None\<close>, or \<open>JNull\<close> in a JSON column.\<close>

record run_row =
  run_id :: string
  run_job :: string
  run_key :: string
  run_spec_hash :: string
  run_trigger :: json
  run_state :: run_state
  run_reason :: "string option"
  run_attempt_count :: nat
  run_provider_index :: nat
  run_lease_holder :: "string option"
  run_lease_expires_at :: "int option"
  run_next_attempt_at :: "int option"
  run_cancel_requested_at :: "int option"
  run_cancel_requested_by :: "string option"
  run_output :: json
  run_error :: "string option"
  run_audit :: json
  run_sealed_at :: "int option"
  run_created_at :: int
  run_updated_at :: int
  run_finished_at :: "int option"

datatype attempt_state = Starting | AttemptRunning | Interrupted | TimedOut | AttemptFailed | Completed

definition attempt_state_str :: "attempt_state \<Rightarrow> string" where
  "attempt_state_str s = (case s of
     Starting \<Rightarrow> ''starting'' | AttemptRunning \<Rightarrow> ''running'' | Interrupted \<Rightarrow> ''interrupted''
   | TimedOut \<Rightarrow> ''timed_out'' | AttemptFailed \<Rightarrow> ''failed'' | Completed \<Rightarrow> ''completed'')"

record attempt_row =
  att_run :: string
  att_n :: nat
  att_provider :: string
  att_model :: "string option"
  att_state :: attempt_state
  att_end_reason :: "string option"
  att_error :: "string option"
  att_resumed_from_seq :: "nat option"
  att_last_seq :: "nat option"
  att_started_at :: int
  att_ended_at :: "int option"

record checkpoint_row =
  cp_run :: string
  cp_seq :: nat
  cp_attempt :: "nat option"
  cp_kind :: string
  cp_data :: json
  cp_at :: int

record job_row =
  job_name :: string
  job_spec_hash :: string
  job_source :: string
  job_registered_at :: int
  job_updated_at :: int

record spec_row =
  pin_hash :: string
  pin_job_spec :: job_spec
  pin_created_at :: int

datatype effect_state = Intended | Committed | EffectFailed | Unknown

definition effect_state_str :: "effect_state \<Rightarrow> string" where
  "effect_state_str s = (case s of
     Intended \<Rightarrow> ''intended'' | Committed \<Rightarrow> ''committed'' | EffectFailed \<Rightarrow> ''failed'' | Unknown \<Rightarrow> ''unknown'')"

record effect_row =
  eff_key :: string
  eff_run :: string
  eff_tool :: string
  eff_args_hash :: string
  eff_args :: json
  eff_state :: effect_state
  eff_mode :: string
  eff_dispatched_at :: "int option"
  eff_result :: json
  eff_ref :: "string option"
  eff_outcome :: "string option"
  eff_reconciled :: bool
  eff_error :: "string option"
  eff_created_at :: int
  eff_updated_at :: int

datatype approval_state = ApprovalPending | Approved | Denied | Expired

definition approval_state_str :: "approval_state \<Rightarrow> string" where
  "approval_state_str s = (case s of
     ApprovalPending \<Rightarrow> ''pending'' | Approved \<Rightarrow> ''approved'' | Denied \<Rightarrow> ''denied'' | Expired \<Rightarrow> ''expired'')"

record approval_row =
  apr_id :: string
  apr_run :: string
  apr_effect_key :: string
  apr_args_hash :: string
  apr_tool :: string
  apr_args :: json
  apr_reason :: string
  apr_state :: approval_state
  apr_requested_at :: int
  apr_expires_at :: int
  apr_decided_by :: "string option"
  apr_decided_at :: "int option"
  apr_comment :: "string option"
  apr_consumed_at :: "int option"

record notification_row =
  ntf_key :: string
  ntf_run :: string
  ntf_event :: string
  ntf_channel :: string
  ntf_target :: string
  ntf_payload :: json
  ntf_outbox_job_id :: "string option"
  ntf_created_at :: int
  ntf_relayed_at :: "int option"

record trigger_audit_row =
  ta_job :: "string option"
  ta_type :: string
  ta_outcome :: string
  ta_reason :: "string option"
  ta_source_ref :: "string option"
  ta_sender :: "string option"
  ta_chat :: "string option"
  ta_run :: "string option"
  ta_at :: int

record schedule_row =
  sch_job :: string
  sch_index :: nat
  sch_next_fire_at :: int

record db =
  db_specs :: "spec_row list"
  db_jobs :: "job_row list"
  db_runs :: "run_row list"
  db_attempts :: "attempt_row list"
  db_checkpoints :: "checkpoint_row list"
  db_effects :: "effect_row list"
  db_approvals :: "approval_row list"
  db_notifications :: "notification_row list"
  db_trigger_audit :: "trigger_audit_row list"
  db_schedule :: "schedule_row list"

definition empty_db :: db where
  "empty_db = \<lparr>db_specs = [], db_jobs = [], db_runs = [], db_attempts = [], db_checkpoints = [],
     db_effects = [], db_approvals = [], db_notifications = [], db_trigger_audit = [], db_schedule = []\<rparr>"

section \<open>Errors\<close>

text \<open>
  What the operations throw: an error with a code and an HTTP status, a violated SQL constraint,
  the loss of the run lease, a crash injected at a named point, and the process being killed there.
\<close>

datatype job_error =
    JobError string nat
  | SqlConstraint string
  | LeaseLost
  | InjectedCrash string
  | Killed string

section \<open>Ids, hashes and pinned specifications\<close>

definition new_id :: "string \<Rightarrow> string \<Rightarrow> string" where
  "new_id prefix rnd = prefix @ ''_'' @ rnd"

definition spec_hash :: "(string \<Rightarrow> string) \<Rightarrow> job_spec \<Rightarrow> string" where
  "spec_hash H spec = ''sha256:'' @ H (stable_stringify (spec_json spec))"

definition pin_spec :: "(string \<Rightarrow> string) \<Rightarrow> int \<Rightarrow> job_spec \<Rightarrow> db \<Rightarrow> string \<times> db" where
  "pin_spec H now spec d =
     (let h = spec_hash H spec in
      (h, if row_of pin_hash h (db_specs d) \<noteq> None then d
          else d\<lparr>db_specs := db_specs d @ [\<lparr>pin_hash = h, pin_job_spec = spec, pin_created_at = now\<rparr>]\<rparr>))"

definition register_job_spec :: "(string \<Rightarrow> string) \<Rightarrow> int \<Rightarrow> job_spec \<Rightarrow> string \<Rightarrow> db \<Rightarrow> string \<times> db" where
  "register_job_spec H now spec source d =
     (let (h, d1) = pin_spec H now spec d;
          name = spec_name spec in
      (h, if row_of job_name name (db_jobs d1) \<noteq> None
          then d1\<lparr>db_jobs := upd_rows (\<lambda>j. job_name j = name)
                 (\<lambda>j. j\<lparr>job_spec_hash := h, job_source := source, job_updated_at := now\<rparr>) (db_jobs d1)\<rparr>
          else d1\<lparr>db_jobs := db_jobs d1 @ [\<lparr>job_name = name, job_spec_hash = h, job_source = source,
                 job_registered_at = now, job_updated_at = now\<rparr>]\<rparr>))"

definition get_pinned_spec :: "db \<Rightarrow> string \<Rightarrow> job_spec option" where
  "get_pinned_spec d h = map_option pin_job_spec (row_of pin_hash h (db_specs d))"

text \<open>The join of \<open>jobs\<close> with \<open>job_specs\<close>: the job's hash, source and specification.\<close>

definition get_registered_job :: "db \<Rightarrow> string \<Rightarrow> (string \<times> string \<times> job_spec) option" where
  "get_registered_job d name =
     (case row_of job_name name (db_jobs d) of
        None \<Rightarrow> None
      | Some j \<Rightarrow> map_option (\<lambda>s. (job_spec_hash j, job_source j, s)) (get_pinned_spec d (job_spec_hash j)))"

definition list_registered_jobs :: "db \<Rightarrow> job_row list" where
  "list_registered_jobs d = sort_key job_name (db_jobs d)"

section \<open>Runs\<close>

definition get_run :: "db \<Rightarrow> string \<Rightarrow> run_row option" where
  "get_run d i = row_of run_id i (db_runs d)"

definition upd_run :: "string \<Rightarrow> (run_row \<Rightarrow> run_row) \<Rightarrow> db \<Rightarrow> db" where
  "upd_run i f d = d\<lparr>db_runs := upd_rows (\<lambda>r. run_id r = i) f (db_runs d)\<rparr>"

text \<open>A patch of \<open>updateRunSync\<close> is the list of the columns it sets.\<close>

datatype run_set =
    SetState run_state
  | SetReason "string option"
  | SetAttemptCount nat
  | SetProviderIndex nat
  | SetNextAttemptAt "int option"
  | SetOutput json
  | SetError "string option"
  | SetFinishedAt "int option"
  | SetCancelRequested "int option" "string option"
  | SetAudit json
  | SetSealedAt "int option"

fun apply_set :: "run_set \<Rightarrow> run_row \<Rightarrow> run_row" where
  "apply_set (SetState s) r = r\<lparr>run_state := s\<rparr>"
| "apply_set (SetReason x) r = r\<lparr>run_reason := x\<rparr>"
| "apply_set (SetAttemptCount n) r = r\<lparr>run_attempt_count := n\<rparr>"
| "apply_set (SetProviderIndex n) r = r\<lparr>run_provider_index := n\<rparr>"
| "apply_set (SetNextAttemptAt x) r = r\<lparr>run_next_attempt_at := x\<rparr>"
| "apply_set (SetOutput v) r = r\<lparr>run_output := v\<rparr>"
| "apply_set (SetError x) r = r\<lparr>run_error := x\<rparr>"
| "apply_set (SetFinishedAt x) r = r\<lparr>run_finished_at := x\<rparr>"
| "apply_set (SetCancelRequested a b) r = r\<lparr>run_cancel_requested_at := a, run_cancel_requested_by := b\<rparr>"
| "apply_set (SetAudit v) r = r\<lparr>run_audit := v\<rparr>"
| "apply_set (SetSealedAt x) r = r\<lparr>run_sealed_at := x\<rparr>"

definition update_run :: "int \<Rightarrow> string \<Rightarrow> run_set list \<Rightarrow> db \<Rightarrow> db" where
  "update_run now i patch = upd_run i (\<lambda>r. fold apply_set patch (r\<lparr>run_updated_at := now\<rparr>))"

section \<open>Leases\<close>

text \<open>
  \<open>dead\<close> says which holders are processes of this host that are gone (\<open>holderIsDead\<close>, which asks
  the operating system).
\<close>

definition lease_free :: "(string \<Rightarrow> bool) \<Rightarrow> int \<Rightarrow> string \<Rightarrow> run_row \<Rightarrow> bool" where
  "lease_free dead now holder r \<longleftrightarrow>
     (case run_lease_holder r of
        None \<Rightarrow> True
      | Some h \<Rightarrow> h = holder
          \<or> (case run_lease_expires_at r of None \<Rightarrow> 0 | Some e \<Rightarrow> e) \<le> now
          \<or> dead h)"

definition acquire_lease :: "(string \<Rightarrow> bool) \<Rightarrow> int \<Rightarrow> string \<Rightarrow> string \<Rightarrow> int \<Rightarrow> db \<Rightarrow> bool \<times> db" where
  "acquire_lease dead now i holder ttl d =
     (case get_run d i of
        None \<Rightarrow> (False, d)
      | Some r \<Rightarrow>
          if \<not> lease_free dead now holder r then (False, d)
          else (True, upd_run i (\<lambda>x. x\<lparr>run_lease_holder := Some holder, run_lease_expires_at := Some (now + ttl)\<rparr>) d))"

definition renew_lease :: "int \<Rightarrow> string \<Rightarrow> string \<Rightarrow> int \<Rightarrow> db \<Rightarrow> bool \<times> db" where
  "renew_lease now i holder ttl d =
     (case get_run d i of
        None \<Rightarrow> (False, d)
      | Some r \<Rightarrow>
          if run_lease_holder r = Some holder
          then (True, upd_run i (\<lambda>x. x\<lparr>run_lease_expires_at := Some (now + ttl)\<rparr>) d)
          else (False, d))"

definition release_lease :: "string \<Rightarrow> string \<Rightarrow> db \<Rightarrow> db" where
  "release_lease i holder d =
     d\<lparr>db_runs := upd_rows (\<lambda>r. run_id r = i \<and> run_lease_holder r = Some holder)
          (\<lambda>r. r\<lparr>run_lease_holder := None, run_lease_expires_at := None\<rparr>) (db_runs d)\<rparr>"

text \<open>The write of the crash handler of \<open>driveRun\<close>: the lease expires at once.\<close>

definition expire_lease :: "string \<Rightarrow> string \<Rightarrow> db \<Rightarrow> db" where
  "expire_lease i holder d =
     d\<lparr>db_runs := upd_rows (\<lambda>r. run_id r = i \<and> run_lease_holder r = Some holder)
          (\<lambda>r. r\<lparr>run_lease_expires_at := Some 0\<rparr>) (db_runs d)\<rparr>"

definition holds_lease :: "int \<Rightarrow> string \<Rightarrow> string \<Rightarrow> db \<Rightarrow> bool" where
  "holds_lease now i holder d =
     (case get_run d i of
        None \<Rightarrow> False
      | Some r \<Rightarrow> run_lease_holder r = Some holder
          \<and> now < (case run_lease_expires_at r of None \<Rightarrow> 0 | Some e \<Rightarrow> e))"

section \<open>Attempts\<close>

definition list_attempts :: "db \<Rightarrow> string \<Rightarrow> attempt_row list" where
  "list_attempts d i = sort_key att_n (filter (\<lambda>a. att_run a = i) (db_attempts d))"

definition insert_attempt ::
  "int \<Rightarrow> string \<Rightarrow> nat \<Rightarrow> string \<Rightarrow> string option \<Rightarrow> nat option \<Rightarrow> db \<Rightarrow> (job_error, db) result" where
  "insert_attempt now i n provider model resumed d =
     (if \<exists>a \<in> set (db_attempts d). att_run a = i \<and> att_n a = n then Inl (SqlConstraint ''attempts'')
      else Inr (d\<lparr>db_attempts := db_attempts d @ [\<lparr>att_run = i, att_n = n, att_provider = provider,
             att_model = model, att_state = Starting, att_end_reason = None, att_error = None,
             att_resumed_from_seq = resumed, att_last_seq = None, att_started_at = now, att_ended_at = None\<rparr>]\<rparr>))"

definition upd_attempt :: "string \<Rightarrow> nat \<Rightarrow> (attempt_row \<Rightarrow> attempt_row) \<Rightarrow> db \<Rightarrow> db" where
  "upd_attempt i n f d = d\<lparr>db_attempts := upd_rows (\<lambda>a. att_run a = i \<and> att_n a = n) f (db_attempts d)\<rparr>"

text \<open>
  \<open>updateAttemptSync\<close>: the state, the end reason and the error are each optional; \<open>error\<close> is
  \<open>None\<close> when it is \<open>undefined\<close>, and an error text keeps its first 1000 characters.
\<close>

definition update_attempt ::
  "int \<Rightarrow> string \<Rightarrow> nat \<Rightarrow> attempt_state option \<Rightarrow> string option \<Rightarrow> string option option \<Rightarrow> db \<Rightarrow> db" where
  "update_attempt now i n state end_reason error =
     upd_attempt i n (\<lambda>a.
       let a1 = (case state of None \<Rightarrow> a | Some s \<Rightarrow> a\<lparr>att_state := s\<rparr>);
           a2 = (case end_reason of None \<Rightarrow> a1 | Some e \<Rightarrow> a1\<lparr>att_end_reason := Some e, att_ended_at := Some now\<rparr>)
       in (case error of
             None \<Rightarrow> a2
           | Some None \<Rightarrow> a2\<lparr>att_error := None\<rparr>
           | Some (Some t) \<Rightarrow> a2\<lparr>att_error := (if t = [] then None else Some (take 1000 t))\<rparr>))"

section \<open>The checkpoint journal\<close>

definition last_seq :: "db \<Rightarrow> string \<Rightarrow> nat" where
  "last_seq d i = fold max (map cp_seq (filter (\<lambda>c. cp_run c = i) (db_checkpoints d))) 0"

definition append_checkpoint :: "int \<Rightarrow> string \<Rightarrow> nat option \<Rightarrow> string \<Rightarrow> json \<Rightarrow> db \<Rightarrow> db" where
  "append_checkpoint now i attempt kind data d =
     (let seq = Suc (last_seq d i);
          d1 = d\<lparr>db_checkpoints := db_checkpoints d @ [\<lparr>cp_run = i, cp_seq = seq, cp_attempt = attempt,
                   cp_kind = kind, cp_data = data, cp_at = now\<rparr>]\<rparr>
      in (case attempt of
            None \<Rightarrow> d1
          | Some n \<Rightarrow> if n = 0 then d1 else upd_attempt i n (\<lambda>a. a\<lparr>att_last_seq := Some seq\<rparr>) d1))"

definition list_checkpoints :: "db \<Rightarrow> string \<Rightarrow> checkpoint_row list" where
  "list_checkpoints d i = sort_key cp_seq (filter (\<lambda>c. cp_run c = i) (db_checkpoints d))"

definition list_checkpoints_of :: "db \<Rightarrow> string \<Rightarrow> string list \<Rightarrow> checkpoint_row list" where
  "list_checkpoints_of d i kinds = filter (\<lambda>c. cp_kind c \<in> set kinds) (list_checkpoints d i)"

section \<open>Trigger audit\<close>

text \<open>The defaults of the argument object, and the insert with the instant it runs at.\<close>

definition trigger_note :: "string option \<Rightarrow> string \<Rightarrow> string \<Rightarrow> string option \<Rightarrow> string option \<Rightarrow> trigger_audit_row" where
  "trigger_note job type outcome reason source_ref = \<lparr>ta_job = job, ta_type = type, ta_outcome = outcome,
     ta_reason = reason, ta_source_ref = source_ref, ta_sender = None, ta_chat = None, ta_run = None, ta_at = 0\<rparr>"

definition record_trigger_audit :: "int \<Rightarrow> trigger_audit_row \<Rightarrow> db \<Rightarrow> db" where
  "record_trigger_audit now e d = d\<lparr>db_trigger_audit := db_trigger_audit d @ [e\<lparr>ta_at := now\<rparr>]\<rparr>"

text \<open>The newest entries first, of one type when it is not empty, at most \<open>limit\<close> of them.\<close>

definition list_trigger_audit :: "string \<Rightarrow> nat \<Rightarrow> db \<Rightarrow> trigger_audit_row list" where
  "list_trigger_audit type limit d =
     take limit (filter (\<lambda>e. type = [] \<or> ta_type e = type) (rev (db_trigger_audit d)))"

end
