(* ===== verification/StoreFacts.thy ===== *)
theory StoreFacts
  imports JobStore
begin

text \<open>
  Facts about the store: what a write changes and what it leaves alone, the checkpoint journal as
  an append-only log with gapless sequence numbers, and the run lease as a lock. The journal and
  the lease are stated as interfaces (locales) and interpreted on the operations of \<open>JobStore\<close>.
\<close>

section \<open>Reading after writing\<close>

lemma apply_sets_frame [simp]:
  "run_id (fold apply_set ps r) = run_id r"
  "run_job (fold apply_set ps r) = run_job r"
  "run_key (fold apply_set ps r) = run_key r"
  "run_spec_hash (fold apply_set ps r) = run_spec_hash r"
  "run_trigger (fold apply_set ps r) = run_trigger r"
  "run_created_at (fold apply_set ps r) = run_created_at r"
  "run_lease_holder (fold apply_set ps r) = run_lease_holder r"
  "run_lease_expires_at (fold apply_set ps r) = run_lease_expires_at r"
proof -
  have "run_id (apply_set p r) = run_id r \<and> run_job (apply_set p r) = run_job r
    \<and> run_key (apply_set p r) = run_key r \<and> run_spec_hash (apply_set p r) = run_spec_hash r
    \<and> run_trigger (apply_set p r) = run_trigger r \<and> run_created_at (apply_set p r) = run_created_at r
    \<and> run_lease_holder (apply_set p r) = run_lease_holder r
    \<and> run_lease_expires_at (apply_set p r) = run_lease_expires_at r" for p r
    by (cases p) simp_all
  note one = this
  show "run_id (fold apply_set ps r) = run_id r"
    "run_job (fold apply_set ps r) = run_job r"
    "run_key (fold apply_set ps r) = run_key r"
    "run_spec_hash (fold apply_set ps r) = run_spec_hash r"
    "run_trigger (fold apply_set ps r) = run_trigger r"
    "run_created_at (fold apply_set ps r) = run_created_at r"
    "run_lease_holder (fold apply_set ps r) = run_lease_holder r"
    "run_lease_expires_at (fold apply_set ps r) = run_lease_expires_at r"
    by (induction ps arbitrary: r) (simp_all add: one)
qed

lemma get_run_upd_run [row_simps]:
  assumes "\<And>r. run_id (f r) = run_id r"
  shows "get_run (upd_run i f d) j = (if j = i then map_option f (get_run d j) else get_run d j)"
  using row_of_upd_key [where key = run_id, OF assms] by (simp add: get_run_def upd_run_def)

lemma get_run_update_run [row_simps]:
  "get_run (update_run now i ps d) j =
     (if j = i then map_option (\<lambda>r. fold apply_set ps (r\<lparr>run_updated_at := now\<rparr>)) (get_run d j)
      else get_run d j)"
  by (simp add: update_run_def get_run_upd_run)

lemma get_run_id: "get_run d i = Some r \<Longrightarrow> run_id r = i"
  by (auto simp: get_run_def dest: row_of_Some_key)

lemma upd_run_frame [simp]:
  "db_specs (upd_run i f d) = db_specs d" "db_jobs (upd_run i f d) = db_jobs d"
  "db_attempts (upd_run i f d) = db_attempts d" "db_checkpoints (upd_run i f d) = db_checkpoints d"
  "db_effects (upd_run i f d) = db_effects d" "db_approvals (upd_run i f d) = db_approvals d"
  "db_notifications (upd_run i f d) = db_notifications d"
  "db_trigger_audit (upd_run i f d) = db_trigger_audit d" "db_schedule (upd_run i f d) = db_schedule d"
  by (simp_all add: upd_run_def)

lemma update_run_frame [simp]:
  "db_specs (update_run now i ps d) = db_specs d" "db_jobs (update_run now i ps d) = db_jobs d"
  "db_attempts (update_run now i ps d) = db_attempts d"
  "db_checkpoints (update_run now i ps d) = db_checkpoints d"
  "db_effects (update_run now i ps d) = db_effects d" "db_approvals (update_run now i ps d) = db_approvals d"
  "db_notifications (update_run now i ps d) = db_notifications d"
  "db_trigger_audit (update_run now i ps d) = db_trigger_audit d"
  "db_schedule (update_run now i ps d) = db_schedule d"
  by (simp_all add: update_run_def)

lemma upd_attempt_frame [simp]:
  "db_specs (upd_attempt i n g d) = db_specs d" "db_jobs (upd_attempt i n g d) = db_jobs d"
  "db_runs (upd_attempt i n g d) = db_runs d" "db_checkpoints (upd_attempt i n g d) = db_checkpoints d"
  "db_effects (upd_attempt i n g d) = db_effects d" "db_approvals (upd_attempt i n g d) = db_approvals d"
  "db_notifications (upd_attempt i n g d) = db_notifications d"
  "db_trigger_audit (upd_attempt i n g d) = db_trigger_audit d" "db_schedule (upd_attempt i n g d) = db_schedule d"
  by (simp_all add: upd_attempt_def)

lemma update_attempt_frame [simp]:
  "db_specs (update_attempt now i n s e x d) = db_specs d" "db_jobs (update_attempt now i n s e x d) = db_jobs d"
  "db_runs (update_attempt now i n s e x d) = db_runs d"
  "db_checkpoints (update_attempt now i n s e x d) = db_checkpoints d"
  "db_effects (update_attempt now i n s e x d) = db_effects d"
  "db_approvals (update_attempt now i n s e x d) = db_approvals d"
  "db_notifications (update_attempt now i n s e x d) = db_notifications d"
  "db_trigger_audit (update_attempt now i n s e x d) = db_trigger_audit d"
  "db_schedule (update_attempt now i n s e x d) = db_schedule d"
  by (simp_all add: update_attempt_def)

lemma append_checkpoint_frame [simp]:
  "db_specs (append_checkpoint now i a k v d) = db_specs d" "db_jobs (append_checkpoint now i a k v d) = db_jobs d"
  "db_runs (append_checkpoint now i a k v d) = db_runs d"
  "db_effects (append_checkpoint now i a k v d) = db_effects d"
  "db_approvals (append_checkpoint now i a k v d) = db_approvals d"
  "db_notifications (append_checkpoint now i a k v d) = db_notifications d"
  "db_trigger_audit (append_checkpoint now i a k v d) = db_trigger_audit d"
  "db_schedule (append_checkpoint now i a k v d) = db_schedule d"
  by (simp_all add: append_checkpoint_def Let_def split: option.splits)

lemma append_checkpoint_rows:
  "db_checkpoints (append_checkpoint now i a k v d) = db_checkpoints d @
     [\<lparr>cp_run = i, cp_seq = Suc (last_seq d i), cp_attempt = a, cp_kind = k, cp_data = v, cp_at = now\<rparr>]"
  by (simp add: append_checkpoint_def Let_def split: option.splits)

lemma get_run_frame [simp]:
  "get_run (append_checkpoint now i a k v d) j = get_run d j"
  "get_run (update_attempt now i n s e x d) j = get_run d j"
  by (simp_all add: get_run_def)

section \<open>The journal\<close>

definition journal_seqs :: "db \<Rightarrow> string \<Rightarrow> nat list" where
  "journal_seqs d i = map cp_seq (filter (\<lambda>c. cp_run c = i) (db_checkpoints d))"

definition journal_ok :: "db \<Rightarrow> bool" where
  "journal_ok d \<longleftrightarrow> (\<forall>i. journal_seqs d i = [1..<Suc (length (journal_seqs d i))])"

lemma fold_max_upt: "fold max [1..<Suc n] (0::nat) = n"
  by (induction n) simp_all

lemma journal_ok_last_seq:
  assumes "journal_ok d"
  shows "last_seq d i = length (journal_seqs d i)"
proof -
  have "last_seq d i = fold max (journal_seqs d i) 0"
    by (simp add: last_seq_def journal_seqs_def)
  also have "journal_seqs d i = [1..<Suc (length (journal_seqs d i))]"
    using assms by (simp add: journal_ok_def)
  also have "fold max [1..<Suc (length (journal_seqs d i))] 0 = length (journal_seqs d i)"
    by (rule fold_max_upt)
  finally show ?thesis .
qed

lemma journal_ok_same:
  "db_checkpoints d' = db_checkpoints d \<Longrightarrow> journal_ok d' = journal_ok d"
  by (simp add: journal_ok_def journal_seqs_def)

lemma journal_ok_append:
  assumes "journal_ok d"
  shows "journal_ok (append_checkpoint now i a k v d)"
proof -
  have "journal_seqs (append_checkpoint now i a k v d) j
      = journal_seqs d j @ (if j = i then [Suc (length (journal_seqs d i))] else [])" for j
    using journal_ok_last_seq [OF assms] by (simp add: journal_seqs_def append_checkpoint_rows)
  then show ?thesis
    using assms by (simp add: journal_ok_def del: upt_Suc) (simp add: upt_Suc)
qed

lemma list_checkpoints_insertion_order:
  assumes "journal_ok d"
  shows "list_checkpoints d i = filter (\<lambda>c. cp_run c = i) (db_checkpoints d)"
proof -
  have "sorted (journal_seqs d i)"
    using assms unfolding journal_ok_def by (metis sorted_upt)
  then show ?thesis
    unfolding list_checkpoints_def journal_seqs_def by (rule sort_key_id_if_sorted)
qed

text \<open>
  The interface of an append-only log with one journal per subject: an append adds its entry at
  the end of its own journal and leaves the others alone.
\<close>

locale journal =
  fixes app :: "'i \<Rightarrow> 'e \<Rightarrow> 's \<Rightarrow> 's"
    and entries :: "'s \<Rightarrow> 'i \<Rightarrow> 'e list"
    and ok :: "'s \<Rightarrow> bool"
  assumes ok_app: "ok s \<Longrightarrow> ok (app i e s)"
    and entries_app: "ok s \<Longrightarrow> entries (app i e s) j = (if j = i then entries s j @ [e] else entries s j)"
begin

lemma entries_fold:
  assumes "ok s"
  shows "entries (fold (\<lambda>(i, e). app i e) es s) j = entries s j @ map snd (filter (\<lambda>x. fst x = j) es)"
  using assms
proof (induction es arbitrary: s)
  case (Cons x es)
  then show ?case by (cases x) (simp add: entries_app ok_app)
qed simp

lemma ok_fold: "ok s \<Longrightarrow> ok (fold (\<lambda>(i, e). app i e) es s)"
  by (induction es arbitrary: s) (auto simp: ok_app)

end

type_synonym journal_entry = "int \<times> nat option \<times> string \<times> json"

definition append_entry :: "string \<Rightarrow> journal_entry \<Rightarrow> db \<Rightarrow> db" where
  "append_entry i e d = (case e of (now, a, k, v) \<Rightarrow> append_checkpoint now i a k v d)"

definition journal_entries :: "db \<Rightarrow> string \<Rightarrow> journal_entry list" where
  "journal_entries d i = map (\<lambda>c. (cp_at c, cp_attempt c, cp_kind c, cp_data c)) (list_checkpoints d i)"

interpretation run_journal: journal append_entry journal_entries journal_ok
proof unfold_locales
  fix s i e j
  assume ok: "journal_ok s"
  then show ok': "journal_ok (append_entry i e s)"
    by (cases e) (simp add: append_entry_def journal_ok_append)
  from ok ok' show "journal_entries (append_entry i e s) j
      = (if j = i then journal_entries s j @ [e] else journal_entries s j)"
    by (cases e) (simp add: journal_entries_def list_checkpoints_insertion_order append_entry_def append_checkpoint_rows)
qed

section \<open>The lease as a lock\<close>

text \<open>
  The interface a driver relies on: a successful acquire holds the lease; while a live holder's
  lease runs, nobody else gets it and the holder keeps it.
\<close>

locale lease_lock =
  fixes acquire :: "int \<Rightarrow> 'h \<Rightarrow> int \<Rightarrow> 's \<Rightarrow> bool \<times> 's"
    and held_until :: "'s \<Rightarrow> ('h \<times> int) option"
    and alive :: "'h \<Rightarrow> bool"
  assumes acquire_holds: "acquire now h ttl s = (True, s') \<Longrightarrow> held_until s' = Some (h, now + ttl)"
    and acquire_refused: "acquire now h ttl s = (False, s') \<Longrightarrow> s' = s"
    and acquire_excluded: "held_until s = Some (h, e) \<Longrightarrow> now < e \<Longrightarrow> alive h \<Longrightarrow> h' \<noteq> h \<Longrightarrow>
           fst (acquire now h' ttl s) = False"
begin

lemma others_locked_out:
  assumes "held_until s = Some (h, e)" and "alive h"
    and "\<forall>(now, h', ttl) \<in> set reqs. now < e \<and> h' \<noteq> h"
  shows "fold (\<lambda>(now, h', ttl) s. snd (acquire now h' ttl s)) reqs s = s"
  using assms(3)
proof (induction reqs)
  case (Cons r rs)
  obtain now h' ttl where r: "r = (now, h', ttl)" by (cases r)
  with Cons.prems acquire_excluded [OF assms(1) _ assms(2)] have "fst (acquire now h' ttl s) = False"
    by auto
  then have "snd (acquire now h' ttl s) = s"
    by (metis acquire_refused prod.collapse)
  with r Cons show ?case by simp
qed simp

end

definition lease_of :: "string \<Rightarrow> db \<Rightarrow> (string \<times> int) option" where
  "lease_of i d =
     (case get_run d i of
        None \<Rightarrow> None
      | Some r \<Rightarrow> (case run_lease_holder r of None \<Rightarrow> None
          | Some h \<Rightarrow> Some (h, case run_lease_expires_at r of None \<Rightarrow> 0 | Some e \<Rightarrow> e)))"

lemma holds_lease_iff: "holds_lease now i h d \<longleftrightarrow> (\<exists>e. lease_of i d = Some (h, e) \<and> now < e)"
  by (auto simp: holds_lease_def lease_of_def split: option.splits)

interpretation run_lease: lease_lock "\<lambda>now h ttl d. acquire_lease dead now i h ttl d" "lease_of i"
    "\<lambda>h. \<not> dead h" for dead i
proof unfold_locales
  fix now h ttl s s'
  assume "acquire_lease dead now i h ttl s = (True, s')"
  then show "lease_of i s' = Some (h, now + ttl)"
    by (auto simp: acquire_lease_def lease_of_def get_run_upd_run split: option.splits if_splits)
next
  fix now h ttl s s'
  assume "acquire_lease dead now i h ttl s = (False, s')"
  then show "s' = s" by (auto simp: acquire_lease_def split: option.splits if_splits)
next
  fix s h e now h' ttl
  assume "lease_of i s = Some (h, e)" "now < e" "\<not> dead h" "h' \<noteq> h"
  then show "fst (acquire_lease dead now i h' ttl s) = False"
    by (auto simp: acquire_lease_def lease_of_def lease_free_def split: option.splits if_splits)
qed

lemma release_only_own:
  assumes "lease_of i d = Some (h, e)" and "h' \<noteq> h"
  shows "lease_of i (release_lease i h' d) = Some (h, e)"
proof -
  have "get_run (release_lease i h' d) i =
      map_option (\<lambda>r. if run_id r = i \<and> run_lease_holder r = Some h'
        then r\<lparr>run_lease_holder := None, run_lease_expires_at := None\<rparr> else r) (get_run d i)"
    unfolding get_run_def release_lease_def
    using row_of_upd_rows [where key = run_id and p = "\<lambda>r. run_id r = i \<and> run_lease_holder r = Some h'"
        and f = "\<lambda>r. r\<lparr>run_lease_holder := None, run_lease_expires_at := None\<rparr>"] by simp
  with assms show ?thesis by (auto simp: lease_of_def split: option.splits)
qed

end
