(* ===== verification/JobLedger.thy ===== *)
theory JobLedger
  imports StoreFacts
begin

text \<open>
  The effect ledger and the approval queue of Agent Job runs (\<open>agent-job-ledger.js\<close>), and the
  redaction of values before they are stored. Effects move from intended to committed, failed or
  unknown; approvals are bound to an effect key and an argument hash, are single use, and expire.
\<close>

section \<open>Keys and redaction\<close>

definition effect_key_for :: "(string \<Rightarrow> string) \<Rightarrow> string \<Rightarrow> string \<Rightarrow> json \<Rightarrow> string" where
  "effect_key_for H run tool logical =
     ''eff_'' @ take 40 (H (stable_stringify (JArr [JStr run, JStr tool, logical])))"

definition args_hash_for :: "(string \<Rightarrow> string) \<Rightarrow> json \<Rightarrow> string" where
  "args_hash_for H args = ''sha256:'' @ H (stable_stringify args)"

definition secret_key_words :: "string list" where
  "secret_key_words =
     [''secret'', ''token'', ''password'', ''passwd'', ''apikey'', ''api_key'', ''api-key'', ''authorization'',
      ''credential'', ''cookie'', ''privatekey'', ''private_key'', ''private-key'']"

definition secret_key_re :: "string \<Rightarrow> bool" where
  "secret_key_re k \<longleftrightarrow> list_ex (\<lambda>w. str_includes w (to_lower k)) secret_key_words"

definition has_secret :: "string list \<Rightarrow> string \<Rightarrow> bool" where
  "has_secret secrets s \<longleftrightarrow> list_ex (\<lambda>x. x \<noteq> [] \<and> str_includes x s) secrets"

definition redact_string :: "string list \<Rightarrow> string \<Rightarrow> string" where
  "redact_string secrets s = (if has_secret secrets s then ''[redacted]'' else s)"

text \<open>
  An object member under a secret-looking key is replaced unless it is null, an object or an
  array; redaction keeps these three apart, so the test may look at the redacted member.
\<close>

definition redact_member :: "string \<times> json \<Rightarrow> string \<times> json" where
  "redact_member m =
     (fst m, if secret_key_re (fst m) \<and> snd m \<noteq> JNull \<and> \<not> is_obj_or_arr (snd m)
             then JStr ''[redacted]'' else snd m)"

primrec redact_value :: "string list \<Rightarrow> json \<Rightarrow> json" where
  "redact_value secrets JNull = JNull"
| "redact_value secrets (JBool b) = JBool b"
| "redact_value secrets (JNum n) = JNum n"
| "redact_value secrets (JDec t) = JDec t"
| "redact_value secrets (JStr s) = JStr (redact_string secrets s)"
| "redact_value secrets (JArr xs) = JArr (map (redact_value secrets) xs)"
| "redact_value secrets (JObj kvs) = JObj (map redact_member (map (map_prod id (redact_value secrets)) kvs))"

section \<open>Effects\<close>

definition get_effect :: "db \<Rightarrow> string \<Rightarrow> effect_row option" where
  "get_effect d k = row_of eff_key k (db_effects d)"

definition list_effects :: "db \<Rightarrow> string \<Rightarrow> effect_row list" where
  "list_effects d i = sort_key eff_created_at (filter (\<lambda>e. eff_run e = i) (db_effects d))"

definition upd_effect :: "string \<Rightarrow> (effect_row \<Rightarrow> effect_row) \<Rightarrow> db \<Rightarrow> db" where
  "upd_effect k f d = d\<lparr>db_effects := upd_rows (\<lambda>e. eff_key e = k) f (db_effects d)\<rparr>"

record effect_intent =
  int_key :: string
  int_run :: string
  int_tool :: string
  int_args_hash :: string
  int_args :: json
  int_mode :: string

definition fresh_effect :: "int \<Rightarrow> effect_intent \<Rightarrow> effect_row" where
  "fresh_effect now i = \<lparr>eff_key = int_key i, eff_run = int_run i, eff_tool = int_tool i,
     eff_args_hash = int_args_hash i, eff_args = int_args i, eff_state = Intended, eff_mode = int_mode i,
     eff_dispatched_at = None, eff_result = JNull, eff_ref = None, eff_outcome = None,
     eff_reconciled = False, eff_error = None, eff_created_at = now, eff_updated_at = now\<rparr>"

definition replace_intent :: "int \<Rightarrow> effect_intent \<Rightarrow> effect_row \<Rightarrow> effect_row" where
  "replace_intent now i e = e\<lparr>eff_args_hash := int_args_hash i, eff_args := int_args i, eff_state := Intended,
     eff_dispatched_at := None, eff_outcome := None, eff_error := None, eff_updated_at := now\<rparr>"

definition intend_effect :: "int \<Rightarrow> effect_intent \<Rightarrow> db \<Rightarrow> effect_row \<times> db" where
  "intend_effect now i d =
     (case get_effect d (int_key i) of
        None \<Rightarrow> (fresh_effect now i, d\<lparr>db_effects := db_effects d @ [fresh_effect now i]\<rparr>)
      | Some e \<Rightarrow>
          if eff_args_hash e \<noteq> int_args_hash i \<and> eff_state e \<noteq> Committed
          then (replace_intent now i e, upd_effect (int_key i) (replace_intent now i) d)
          else (e, d))"

definition mark_effect_dispatched :: "int \<Rightarrow> string \<Rightarrow> db \<Rightarrow> db" where
  "mark_effect_dispatched now k = upd_effect k (\<lambda>e.
     if eff_state e = Intended then e\<lparr>eff_dispatched_at := Some now, eff_updated_at := now\<rparr> else e)"

definition commit_effect :: "int \<Rightarrow> string \<Rightarrow> json \<Rightarrow> string option \<Rightarrow> bool \<Rightarrow> db \<Rightarrow> db" where
  "commit_effect now k result ref reconciled = upd_effect k (\<lambda>e.
     e\<lparr>eff_state := Committed, eff_result := result,
       eff_ref := (case ref of None \<Rightarrow> None | Some t \<Rightarrow> if t = [] then None else Some t),
       eff_reconciled := reconciled, eff_outcome := Some ''committed'', eff_updated_at := now\<rparr>)"

definition error_text :: "string option \<Rightarrow> string option" where
  "error_text x = (case x of None \<Rightarrow> None | Some t \<Rightarrow> if t = [] then None else Some (take 1000 t))"

definition fail_effect :: "int \<Rightarrow> string \<Rightarrow> string \<Rightarrow> string option \<Rightarrow> db \<Rightarrow> db" where
  "fail_effect now k outcome error = upd_effect k (\<lambda>e.
     e\<lparr>eff_state := EffectFailed, eff_outcome := Some outcome, eff_error := error_text error, eff_updated_at := now\<rparr>)"

definition mark_effect_unknown :: "int \<Rightarrow> string \<Rightarrow> string option \<Rightarrow> db \<Rightarrow> db" where
  "mark_effect_unknown now k error = upd_effect k (\<lambda>e.
     e\<lparr>eff_state := Unknown, eff_outcome := Some ''unknown'', eff_error := error_text error, eff_updated_at := now\<rparr>)"

definition reopen_effect :: "int \<Rightarrow> string \<Rightarrow> db \<Rightarrow> db" where
  "reopen_effect now k = upd_effect k (\<lambda>e.
     e\<lparr>eff_state := Intended, eff_dispatched_at := None, eff_updated_at := now\<rparr>)"

section \<open>Approvals\<close>

definition get_approval :: "db \<Rightarrow> string \<Rightarrow> approval_row option" where
  "get_approval d a = row_of apr_id a (db_approvals d)"

definition last_opt :: "'a list \<Rightarrow> 'a option" where
  "last_opt xs = (if xs = [] then None else Some (last xs))"

definition first_opt :: "'a list \<Rightarrow> 'a option" where
  "first_opt xs = (case xs of [] \<Rightarrow> None | x # _ \<Rightarrow> Some x)"

definition find_approval :: "db \<Rightarrow> string \<Rightarrow> string \<Rightarrow> approval_row option" where
  "find_approval d k h = last_opt (sort_key apr_requested_at
     (filter (\<lambda>a. apr_effect_key a = k \<and> apr_args_hash a = h) (db_approvals d)))"

definition pending_approval_for_run :: "db \<Rightarrow> string \<Rightarrow> approval_row option" where
  "pending_approval_for_run d i = first_opt (sort_key apr_requested_at
     (filter (\<lambda>a. apr_run a = i \<and> apr_state a = ApprovalPending) (db_approvals d)))"

definition list_approvals_of_run :: "db \<Rightarrow> string \<Rightarrow> approval_row list" where
  "list_approvals_of_run d i = sort_key apr_requested_at (filter (\<lambda>a. apr_run a = i) (db_approvals d))"

definition list_approvals :: "db \<Rightarrow> string option \<Rightarrow> approval_state option \<Rightarrow> approval_row list" where
  "list_approvals d run state = sort_key apr_requested_at (filter (\<lambda>a.
     (case run of None \<Rightarrow> True | Some i \<Rightarrow> apr_run a = i)
     \<and> (case state of None \<Rightarrow> True | Some s \<Rightarrow> apr_state a = s)) (db_approvals d))"

definition upd_approval :: "string \<Rightarrow> (approval_row \<Rightarrow> approval_row) \<Rightarrow> db \<Rightarrow> db" where
  "upd_approval a f d = d\<lparr>db_approvals := upd_rows (\<lambda>x. apr_id x = a) f (db_approvals d)\<rparr>"

record approval_request =
  req_run :: string
  req_effect_key :: string
  req_args_hash :: string
  req_tool :: string
  req_args :: json
  req_reason :: string
  req_ttl_ms :: int

definition fresh_approval :: "int \<Rightarrow> string \<Rightarrow> approval_request \<Rightarrow> approval_row" where
  "fresh_approval now rnd q = \<lparr>apr_id = new_id ''apr'' rnd, apr_run = req_run q,
     apr_effect_key = req_effect_key q, apr_args_hash = req_args_hash q, apr_tool = req_tool q,
     apr_args = req_args q, apr_reason = req_reason q, apr_state = ApprovalPending,
     apr_requested_at = now, apr_expires_at = now + req_ttl_ms q, apr_decided_by = None,
     apr_decided_at = None, apr_comment = None, apr_consumed_at = None\<rparr>"

definition create_approval ::
  "int \<Rightarrow> string \<Rightarrow> approval_request \<Rightarrow> db \<Rightarrow> (job_error, approval_row \<times> db) result" where
  "create_approval now rnd q d =
     (if get_approval d (new_id ''apr'' rnd) \<noteq> None then Inl (SqlConstraint ''approvals'')
      else Inr (fresh_approval now rnd q, d\<lparr>db_approvals := db_approvals d @ [fresh_approval now rnd q]\<rparr>))"

definition may_consume :: "approval_row \<Rightarrow> bool" where
  "may_consume a \<longleftrightarrow> apr_state a = Approved \<and> apr_consumed_at a = None"

definition consume_approval :: "int \<Rightarrow> string \<Rightarrow> db \<Rightarrow> bool \<times> db" where
  "consume_approval now a d =
     (case get_approval d a of
        None \<Rightarrow> (False, d)
      | Some r \<Rightarrow>
          if may_consume r then (True, upd_approval a (\<lambda>x. x\<lparr>apr_consumed_at := Some now\<rparr>) d)
          else (False, d))"

definition expire_row :: "int \<Rightarrow> approval_row \<Rightarrow> approval_row" where
  "expire_row now a =
     (if apr_state a = ApprovalPending then a\<lparr>apr_state := Expired, apr_decided_at := Some now\<rparr> else a)"

definition expire_approval :: "int \<Rightarrow> string \<Rightarrow> db \<Rightarrow> db" where
  "expire_approval now a = upd_approval a (expire_row now)"

datatype decision = DecideApproved | DecideDenied

definition decision_of :: "string \<Rightarrow> decision option" where
  "decision_of s = (if to_lower s = ''approved'' then Some DecideApproved
     else if to_lower s = ''denied'' then Some DecideDenied else None)"

definition decided_state :: "decision \<Rightarrow> approval_state" where
  "decided_state x = (case x of DecideApproved \<Rightarrow> Approved | DecideDenied \<Rightarrow> Denied)"

definition or_unknown :: "string \<Rightarrow> string" where
  "or_unknown s = (if s = [] then ''unknown'' else s)"

definition decide_row :: "int \<Rightarrow> decision \<Rightarrow> string \<Rightarrow> string \<Rightarrow> approval_row \<Rightarrow> approval_row" where
  "decide_row now x by comment a = a\<lparr>apr_state := decided_state x, apr_decided_by := Some (take 200 (or_unknown by)),
     apr_decided_at := Some now, apr_comment := (if comment = [] then None else Some (take 1000 comment))\<rparr>"

text \<open>The errors are returned out of the transaction, so the expiry is kept.\<close>

definition decide_approval ::
  "int \<Rightarrow> string \<Rightarrow> string \<Rightarrow> string \<Rightarrow> string \<Rightarrow> db \<Rightarrow> (job_error, approval_row) result \<times> db" where
  "decide_approval now a decision by comment d =
     (case decision_of decision of
        None \<Rightarrow> (Inl (JobError ''approval_decision_invalid'' 400), d)
      | Some x \<Rightarrow>
          (case get_approval d a of
             None \<Rightarrow> (Inl (JobError ''approval_not_found'' 404), d)
           | Some r \<Rightarrow>
               if apr_state r = ApprovalPending \<and> apr_expires_at r \<le> now
               then (Inl (JobError ''approval_expired'' 410), expire_approval now a d)
               else if apr_state r \<noteq> ApprovalPending
               then (Inl (if apr_state r = Expired then JobError ''approval_expired'' 410
                          else JobError ''approval_already_decided'' 409), d)
               else (Inr (decide_row now x by comment r), upd_approval a (decide_row now x by comment) d)))"

end
