(* ===== verification/LedgerFacts.thy ===== *)
theory LedgerFacts
  imports JobLedger
begin

text \<open>
  Facts about the ledger: what its writes leave alone, how an approval may change, that an approval
  is decided once and spent once, and what redaction removes. Spending an approval is stated as the
  interface of a single-use token (a locale) and interpreted on \<open>consume_approval\<close>.
\<close>

section \<open>Frames\<close>

lemma upd_effect_frame [simp]:
  "db_specs (upd_effect k f d) = db_specs d" "db_jobs (upd_effect k f d) = db_jobs d"
  "db_runs (upd_effect k f d) = db_runs d" "db_attempts (upd_effect k f d) = db_attempts d"
  "db_checkpoints (upd_effect k f d) = db_checkpoints d" "db_approvals (upd_effect k f d) = db_approvals d"
  "db_notifications (upd_effect k f d) = db_notifications d"
  "db_trigger_audit (upd_effect k f d) = db_trigger_audit d" "db_schedule (upd_effect k f d) = db_schedule d"
  by (simp_all add: upd_effect_def)

lemma upd_approval_frame [simp]:
  "db_specs (upd_approval k f d) = db_specs d" "db_jobs (upd_approval k f d) = db_jobs d"
  "db_runs (upd_approval k f d) = db_runs d" "db_attempts (upd_approval k f d) = db_attempts d"
  "db_checkpoints (upd_approval k f d) = db_checkpoints d" "db_effects (upd_approval k f d) = db_effects d"
  "db_notifications (upd_approval k f d) = db_notifications d"
  "db_trigger_audit (upd_approval k f d) = db_trigger_audit d" "db_schedule (upd_approval k f d) = db_schedule d"
  by (simp_all add: upd_approval_def)

lemmas effect_op_defs = mark_effect_dispatched_def commit_effect_def fail_effect_def mark_effect_unknown_def
  reopen_effect_def

definition only_effects :: "db \<Rightarrow> db \<Rightarrow> bool" where
  "only_effects d d' \<longleftrightarrow> (\<exists>es. d' = d\<lparr>db_effects := es\<rparr>)"

definition only_approvals :: "db \<Rightarrow> db \<Rightarrow> bool" where
  "only_approvals d d' \<longleftrightarrow> (\<exists>as. d' = d\<lparr>db_approvals := as\<rparr>)"

lemma only_effects_frame:
  assumes "only_effects d d'"
  shows "db_specs d' = db_specs d" "db_jobs d' = db_jobs d" "db_runs d' = db_runs d"
    "db_attempts d' = db_attempts d" "db_checkpoints d' = db_checkpoints d" "db_approvals d' = db_approvals d"
    "db_notifications d' = db_notifications d" "db_trigger_audit d' = db_trigger_audit d"
    "db_schedule d' = db_schedule d"
  using assms by (auto simp: only_effects_def)

lemma only_approvals_frame:
  assumes "only_approvals d d'"
  shows "db_specs d' = db_specs d" "db_jobs d' = db_jobs d" "db_runs d' = db_runs d"
    "db_attempts d' = db_attempts d" "db_checkpoints d' = db_checkpoints d" "db_effects d' = db_effects d"
    "db_notifications d' = db_notifications d" "db_trigger_audit d' = db_trigger_audit d"
    "db_schedule d' = db_schedule d"
  using assms by (auto simp: only_approvals_def)

lemma only_effects_refl [simp]: "only_effects d d"
  unfolding only_effects_def by (rule exI [of _ "db_effects d"]) simp

lemma only_effects_upd [simp]: "only_effects d (upd_effect k f d)"
  unfolding only_effects_def upd_effect_def by blast

lemma only_effects_ops [simp]:
  "only_effects d (mark_effect_dispatched now k d)" "only_effects d (commit_effect now k v r b d)"
  "only_effects d (fail_effect now k out e d)" "only_effects d (mark_effect_unknown now k e d)"
  "only_effects d (reopen_effect now k d)"
  by (simp_all add: effect_op_defs)

lemma only_effects_intend: "intend_effect now i d = (e, d') \<Longrightarrow> only_effects d d'"
  by (auto simp: intend_effect_def split: option.splits if_splits) (auto simp: only_effects_def)

lemma only_approvals_refl [simp]: "only_approvals d d"
  unfolding only_approvals_def by (rule exI [of _ "db_approvals d"]) simp

lemma only_approvals_upd [simp]: "only_approvals d (upd_approval k f d)"
  unfolding only_approvals_def upd_approval_def by blast

lemma only_approvals_create: "create_approval now rnd q d = Inr (a, d') \<Longrightarrow> only_approvals d d'"
  by (auto simp: create_approval_def split: if_splits) (auto simp: only_approvals_def)

lemma only_approvals_consume: "consume_approval now a d = (b, d') \<Longrightarrow> only_approvals d d'"
  by (auto simp: consume_approval_def split: option.splits if_splits)

lemma only_approvals_expire [simp]: "only_approvals d (expire_approval now a d)"
  by (simp add: expire_approval_def)

lemma only_approvals_decide: "decide_approval now a c b m d = (r, d') \<Longrightarrow> only_approvals d d'"
  by (auto simp: decide_approval_def split: option.splits if_splits)

section \<open>Reading after writing\<close>

lemma get_effect_key: "get_effect d k = Some e \<Longrightarrow> eff_key e = k"
  by (auto simp: get_effect_def dest: row_of_Some_key)

lemma get_effect_upd [row_simps]:
  assumes "\<And>e. eff_key (f e) = eff_key e"
  shows "get_effect (upd_effect k f d) j = (if j = k then map_option f (get_effect d j) else get_effect d j)"
  using row_of_upd_key [where key = eff_key, OF assms] by (simp add: get_effect_def upd_effect_def)

lemma get_effect_commit [row_simps]:
  "get_effect (commit_effect now k v r b d) j =
     (if j = k then map_option (\<lambda>e. e\<lparr>eff_state := Committed, eff_result := v,
        eff_ref := (case r of None \<Rightarrow> None | Some t \<Rightarrow> if t = [] then None else Some t),
        eff_reconciled := b, eff_outcome := Some ''committed'', eff_updated_at := now\<rparr>) (get_effect d j)
      else get_effect d j)"
  by (simp add: commit_effect_def get_effect_upd)

lemma get_effect_fail [row_simps]:
  "get_effect (fail_effect now k out e d) j =
     (if j = k then map_option (\<lambda>x. x\<lparr>eff_state := EffectFailed, eff_outcome := Some out,
        eff_error := error_text e, eff_updated_at := now\<rparr>) (get_effect d j) else get_effect d j)"
  by (simp add: fail_effect_def get_effect_upd)

lemma get_effect_unknown [row_simps]:
  "get_effect (mark_effect_unknown now k e d) j =
     (if j = k then map_option (\<lambda>x. x\<lparr>eff_state := Unknown, eff_outcome := Some ''unknown'',
        eff_error := error_text e, eff_updated_at := now\<rparr>) (get_effect d j) else get_effect d j)"
  by (simp add: mark_effect_unknown_def get_effect_upd)

lemma get_effect_reopen [row_simps]:
  "get_effect (reopen_effect now k d) j =
     (if j = k then map_option (\<lambda>x. x\<lparr>eff_state := Intended, eff_dispatched_at := None,
        eff_updated_at := now\<rparr>) (get_effect d j) else get_effect d j)"
  by (simp add: reopen_effect_def get_effect_upd)

lemma get_effect_dispatched [row_simps]:
  "get_effect (mark_effect_dispatched now k d) j =
     (if j = k then map_option (\<lambda>x. if eff_state x = Intended
        then x\<lparr>eff_dispatched_at := Some now, eff_updated_at := now\<rparr> else x) (get_effect d j) else get_effect d j)"
  by (simp add: mark_effect_dispatched_def get_effect_upd)

lemma get_effect_same: "db_effects d' = db_effects d \<Longrightarrow> get_effect d' k = get_effect d k"
  by (simp add: get_effect_def)

lemma get_approval_same: "db_approvals d' = db_approvals d \<Longrightarrow> get_approval d' k = get_approval d k"
  by (simp add: get_approval_def)

lemma get_run_same: "db_runs d' = db_runs d \<Longrightarrow> get_run d' k = get_run d k"
  by (simp add: get_run_def)

lemma get_approval_id: "get_approval d a = Some r \<Longrightarrow> apr_id r = a"
  by (auto simp: get_approval_def dest: row_of_Some_key)

lemma get_approval_upd [row_simps]:
  assumes "\<And>r. apr_id (f r) = apr_id r"
  shows "get_approval (upd_approval a f d) b
    = (if b = a then map_option f (get_approval d b) else get_approval d b)"
  using row_of_upd_key [where key = apr_id, OF assms] by (simp add: get_approval_def upd_approval_def)

lemma expire_row_simps [simp]:
  "apr_id (expire_row now r) = apr_id r"
  "apr_state (expire_row now r) \<noteq> ApprovalPending"
  "apr_state r \<noteq> ApprovalPending \<Longrightarrow> expire_row now r = r"
  by (auto simp: expire_row_def)

lemma decide_row_simps [simp]:
  "apr_id (decide_row now x b m r) = apr_id r"
  "apr_state (decide_row now x b m r) = decided_state x"
  "decided_state x \<noteq> ApprovalPending"
  by (auto simp: decide_row_def decided_state_def split: decision.splits)

lemma get_approval_expire [row_simps]:
  "get_approval (expire_approval now a d) b
    = (if b = a then map_option (expire_row now) (get_approval d b) else get_approval d b)"
  by (simp add: expire_approval_def get_approval_upd)

text \<open>An intent is recorded under its key; a row under another key is left alone.\<close>

lemma intend_effect_recorded:
  assumes "intend_effect now i d = (e, d')"
  shows "get_effect d' (int_key i) = Some e" and "k \<noteq> int_key i \<Longrightarrow> get_effect d' k = get_effect d k"
  using assms
  by (auto simp: intend_effect_def get_effect_upd replace_intent_def fresh_effect_def
      split: option.splits if_splits) (auto simp: get_effect_def split: option.splits)

lemma intend_effect_cases:
  assumes "intend_effect now i d = (e, d')"
  obtains "get_effect d (int_key i) = None" "e = fresh_effect now i" "eff_state e = Intended" "eff_dispatched_at e = None"
  | e0 where "get_effect d (int_key i) = Some e0" "eff_args_hash e0 \<noteq> int_args_hash i" "eff_state e0 \<noteq> Committed"
      "e = replace_intent now i e0" "eff_state e = Intended" "eff_dispatched_at e = None"
  | "get_effect d (int_key i) = Some e" "d' = d" "eff_args_hash e = int_args_hash i \<or> eff_state e = Committed"
  using assms
  by (fastforce simp: intend_effect_def fresh_effect_def replace_intent_def split: option.splits if_splits)

section \<open>Single-use tokens\<close>

text \<open>
  The interface a caller relies on when it spends something that may be spent once: a success needs
  a usable token and leaves it unusable, and spending never makes another token usable.
\<close>

primrec spend_all :: "('q \<Rightarrow> 't \<Rightarrow> 's \<Rightarrow> bool \<times> 's) \<Rightarrow> ('q \<times> 't) list \<Rightarrow> 's \<Rightarrow> 't list \<times> 's" where
  "spend_all spend [] s = ([], s)"
| "spend_all spend (r # rs) s =
     (let (won, s1) = spend (fst r) (snd r) s;
          (ts, s2) = spend_all spend rs s1
      in (if won then snd r # ts else ts, s2))"

locale single_use =
  fixes spend :: "'q \<Rightarrow> 't \<Rightarrow> 's \<Rightarrow> bool \<times> 's"
    and usable :: "'s \<Rightarrow> 't \<Rightarrow> bool"
  assumes spend_ok: "spend q t s = (True, s') \<Longrightarrow> usable s t \<and> \<not> usable s' t"
    and usable_back: "spend q t s = (b, s') \<Longrightarrow> usable s' u \<Longrightarrow> usable s u"
begin

lemma spent_were_usable:
  "spend_all spend rs s = (ts, s') \<Longrightarrow> distinct ts \<and> (\<forall>t \<in> set ts. usable s t \<and> \<not> usable s' t)
     \<and> (\<forall>t. usable s' t \<longrightarrow> usable s t)"
proof (induction rs arbitrary: s s' ts)
  case (Cons r rs)
  obtain b s1 where 1: "spend (fst r) (snd r) s = (b, s1)" by fastforce
  obtain us s2 where 2: "spend_all spend rs s1 = (us, s2)" by fastforce
  from Cons.prems 1 2 have eq: "ts = (if b then snd r # us else us)" "s' = s2" by auto
  note IH = Cons.IH [OF 2]
  show ?case
  proof (cases b)
    case True
    with 1 have "usable s (snd r) \<and> \<not> usable s1 (snd r)" by (auto dest: spend_ok)
    then show ?thesis using IH eq True usable_back [OF 1] by auto
  next
    case False
    then show ?thesis using IH eq usable_back [OF 1] by auto
  qed
qed simp

end

definition undecided :: "db \<Rightarrow> string \<Rightarrow> bool" where
  "undecided d a = (case get_approval d a of None \<Rightarrow> False | Some r \<Rightarrow> apr_state r = ApprovalPending)"

definition consumable :: "db \<Rightarrow> string \<Rightarrow> bool" where
  "consumable d a = (case get_approval d a of None \<Rightarrow> False | Some r \<Rightarrow> may_consume r)"

text \<open>A decision request: the instant, the decision, who decides and the comment.\<close>

type_synonym decision_request = "int \<times> string \<times> string \<times> string"

definition try_decide :: "decision_request \<Rightarrow> string \<Rightarrow> db \<Rightarrow> bool \<times> db" where
  "try_decide q a d = (case q of (now, decision, by, comment) \<Rightarrow>
     (case decide_approval now a decision by comment d of (r, d') \<Rightarrow> (case r of Inl e \<Rightarrow> False | Inr row \<Rightarrow> True, d')))"

interpretation approval_use: single_use consume_approval consumable
proof unfold_locales
  fix q t s s'
  assume "consume_approval q t s = (True, s')"
  then show "consumable s t \<and> \<not> consumable s' t"
    by (auto simp: consume_approval_def consumable_def get_approval_upd may_consume_def split: option.splits if_splits)
next
  fix q t s b s' u
  assume "consume_approval q t s = (b, s')" "consumable s' u"
  then show "consumable s u"
    by (auto simp: consume_approval_def consumable_def get_approval_upd may_consume_def split: option.splits if_splits)
qed

interpretation approval_decision: single_use try_decide undecided
proof unfold_locales
  fix q t s s'
  assume "try_decide q t s = (True, s')"
  then show "undecided s t \<and> \<not> undecided s' t"
    by (auto simp: try_decide_def decide_approval_def undecided_def get_approval_upd
        split: option.splits if_splits prod.splits sum.splits)
next
  fix q t s b s' u
  assume "try_decide q t s = (b, s')" "undecided s' u"
  then show "undecided s u"
    by (auto simp: try_decide_def decide_approval_def undecided_def get_approval_upd get_approval_expire
        split: option.splits if_splits prod.splits sum.splits)
qed

section \<open>How an approval may change\<close>

text \<open>
  What was asked for never changes; a decision is made once; an approval is only marked consumed
  when it is approved, and stays consumed.
\<close>

definition apr_evolves :: "approval_row \<Rightarrow> approval_row \<Rightarrow> bool" where
  "apr_evolves a b \<longleftrightarrow>
     apr_id b = apr_id a \<and> apr_run b = apr_run a \<and> apr_effect_key b = apr_effect_key a
     \<and> apr_args_hash b = apr_args_hash a \<and> apr_tool b = apr_tool a \<and> apr_args b = apr_args a
     \<and> apr_reason b = apr_reason a \<and> apr_requested_at b = apr_requested_at a
     \<and> apr_expires_at b = apr_expires_at a
     \<and> (apr_state a \<noteq> ApprovalPending \<longrightarrow> apr_state b = apr_state a \<and> apr_decided_by b = apr_decided_by a)
     \<and> (apr_consumed_at b = apr_consumed_at a \<or> apr_consumed_at a = None \<and> apr_state b = Approved)"

definition approvals_evolve :: "db \<Rightarrow> db \<Rightarrow> bool" where
  "approvals_evolve d d' \<longleftrightarrow>
     (\<forall>a r. get_approval d a = Some r \<longrightarrow> (\<exists>r'. get_approval d' a = Some r' \<and> apr_evolves r r'))"

lemma apr_evolves_refl [simp]: "apr_evolves a a"
  by (simp add: apr_evolves_def)

lemma apr_evolves_trans: "apr_evolves a b \<Longrightarrow> apr_evolves b c \<Longrightarrow> apr_evolves a c"
  unfolding apr_evolves_def by auto

lemma approvals_evolve_same: "db_approvals d' = db_approvals d \<Longrightarrow> approvals_evolve d d'"
  by (simp add: approvals_evolve_def get_approval_def)

lemma approvals_evolve_refl [simp]: "approvals_evolve d d"
  by (simp add: approvals_evolve_same)

lemma approvals_evolve_trans: "approvals_evolve a b \<Longrightarrow> approvals_evolve b c \<Longrightarrow> approvals_evolve a c"
  unfolding approvals_evolve_def by (meson apr_evolves_trans)

lemma approvals_evolve_upd:
  assumes "\<And>r. apr_id (f r) = apr_id r" and "\<And>r. get_approval d a = Some r \<Longrightarrow> apr_evolves r (f r)"
  shows "approvals_evolve d (upd_approval a f d)"
  using assms by (auto simp: approvals_evolve_def get_approval_upd)

lemma approvals_evolve_create:
  assumes "create_approval now rnd q d = Inr (a, d')"
  shows "approvals_evolve d d'" and "get_approval d' (apr_id a) = Some a"
  using assms by (auto simp: create_approval_def approvals_evolve_def get_approval_def fresh_approval_def
      split: if_splits option.splits)

lemma approvals_evolve_consume:
  "consume_approval now a d = (b, d') \<Longrightarrow> approvals_evolve d d'"
  by (auto simp: consume_approval_def may_consume_def apr_evolves_def intro!: approvals_evolve_upd
      split: option.splits if_splits)

lemma approvals_evolve_expire [simp]: "approvals_evolve d (expire_approval now a d)"
  unfolding expire_approval_def
  by (rule approvals_evolve_upd) (auto simp: apr_evolves_def expire_row_def)

lemma approvals_evolve_decide:
  assumes "decide_approval now a c b m d = (r, d')"
  shows "approvals_evolve d d'"
  using assms
  by (auto simp: decide_approval_def apr_evolves_def decide_row_def intro!: approvals_evolve_upd
      split: option.splits if_splits)

section \<open>Redaction\<close>

text \<open>A value is clean when no string in it holds a secret and no scalar stands under a secret-looking key.\<close>

definition member_clean :: "string \<times> json \<Rightarrow> bool" where
  "member_clean m \<longleftrightarrow> secret_key_re (fst m) \<longrightarrow>
     snd m = JNull \<or> is_obj_or_arr (snd m) \<or> snd m = JStr ''[redacted]''"

primrec json_clean :: "string list \<Rightarrow> json \<Rightarrow> bool" where
  "json_clean secrets JNull = True"
| "json_clean secrets (JBool b) = True"
| "json_clean secrets (JNum n) = True"
| "json_clean secrets (JDec t) = True"
| "json_clean secrets (JStr s) = (\<not> has_secret secrets s)"
| "json_clean secrets (JArr xs) = list_all id (map (json_clean secrets) xs)"
| "json_clean secrets (JObj kvs) =
     (list_all member_clean kvs \<and> list_all snd (map (map_prod id (json_clean secrets)) kvs))"

lemma redact_value_shape [simp]: "is_obj_or_arr (redact_value s v) = is_obj_or_arr v"
  by (cases v) (simp_all add: is_obj_or_arr_def)

lemma redact_string_idem [simp]: "redact_string s (redact_string s t) = redact_string s t"
  by (simp add: redact_string_def)

lemma redact_member_redacted:
  "redact_member (redact_member m) = redact_member m"
  by (cases m) (simp add: redact_member_def is_obj_or_arr_def)

lemma redact_string_marker [simp]: "redact_string s ''[redacted]'' = ''[redacted]''"
  by (simp add: redact_string_def)

lemma redact_marker [simp]: "redact_value s (JStr ''[redacted]'') = JStr ''[redacted]''"
  by (simp add: redact_string_def)

lemma redact_redact_member:
  assumes "redact_value s (snd m) = snd m"
  shows "map_prod id (redact_value s) (redact_member m) = redact_member m"
  using assms by (cases m) (simp add: redact_member_def)

text \<open>
  Redacting a value that has been redacted changes nothing, whatever the secrets are.
\<close>

theorem redact_value_idem: "redact_value secrets (redact_value secrets v) = redact_value secrets v"
proof (induction v)
  case (JObj kvs)
  have "map_prod id (redact_value secrets) (redact_member (map_prod id (redact_value secrets) m))
      = redact_member (map_prod id (redact_value secrets) m)" if "m \<in> set kvs" for m
    using JObj that by (intro redact_redact_member) (cases m, auto)
  then show ?case by (simp add: redact_member_redacted del: redact_value.simps(5))
qed simp_all

text \<open>
  C21: after redaction no string of the value contains a known secret, and under a key that looks
  like a credential there is no number, boolean or text left, provided no secret is part of the
  marker itself.
\<close>

theorem redact_value_clean:
  assumes "\<not> has_secret secrets ''[redacted]''"
  shows "json_clean secrets (redact_value secrets v)"
proof (induction v)
  case (JStr s)
  then show ?case using assms by (simp add: redact_string_def)
next
  case (JArr xs)
  then show ?case by (simp add: list_all_iff)
next
  case (JObj kvs)
  have "json_clean secrets (snd (redact_member (map_prod id (redact_value secrets) m)))" if "m \<in> set kvs" for m
    using JObj that assms by (cases m) (auto simp: redact_member_def)
  moreover have "member_clean (redact_member m)" for m
    by (simp add: member_clean_def redact_member_def)
  ultimately show ?case by (simp add: list_all_iff)
qed simp_all

lemma redact_value_clean_witness:
  "json_clean [''hunter2''] (redact_value [''hunter2'']
     (JObj [(''apiToken'', JNum 7), (''log'', JStr ''pass hunter2 ok'')]))"
  by (rule redact_value_clean) code_simp

section \<open>Approvals are decided once and spent once\<close>

text \<open>
  In any sequence of approve and deny requests, at any instants, each approval is decided
  successfully at most once, and only approvals that were pending at the start are.
\<close>

theorem approvals_decided_once:
  "distinct (fst (spend_all try_decide reqs d)) \<and> set (fst (spend_all try_decide reqs d)) \<subseteq> {a. undecided d a}"
  using approval_decision.spent_were_usable [where rs = reqs and s = d]
  by (cases "spend_all try_decide reqs d") auto

text \<open>
  In any sequence of attempts to consume approvals, each approval is consumed at most once, and
  only approvals that were approved and unconsumed at the start are.
\<close>

theorem approvals_consumed_once:
  "distinct (fst (spend_all consume_approval reqs d)) \<and>
   set (fst (spend_all consume_approval reqs d)) \<subseteq> {a. consumable d a}"
  using approval_use.spent_were_usable [where rs = reqs and s = d]
  by (cases "spend_all consume_approval reqs d") auto

end
