(* ===== verification/JsDate.thy ===== *)
theory JsDate
  imports Prelude
begin

text \<open>
  The JavaScript \<open>Date\<close> arithmetic the code uses, on UTC: an instant is its number of
  milliseconds since 1970, a calendar day its civil year, month and day. \<open>iso_string\<close> is
  \<open>Date.prototype.toISOString\<close>; \<open>days_of_civil\<close> is the day number that \<open>Date.UTC\<close> computes.
\<close>

section \<open>Calendar days\<close>

definition day_ms :: int where
  "day_ms = 86400000"

text \<open>Years are counted from March in cycles of 400 years, which have 146097 days.\<close>

definition civil_of_days :: "int \<Rightarrow> int \<times> int \<times> int" where
  "civil_of_days z =
     (let s = z + 719468;
          era = s div 146097;
          doe = s mod 146097;
          yoe = (doe - doe div 1460 + doe div 36524 - doe div 146096) div 365;
          doy = doe - (365 * yoe + yoe div 4 - yoe div 100);
          mp = (5 * doy + 2) div 153;
          day = doy - (153 * mp + 2) div 5 + 1;
          month = (if mp < 10 then mp + 3 else mp - 9)
      in (yoe + era * 400 + (if month \<le> 2 then 1 else 0), month, day))"

definition days_of_civil :: "int \<Rightarrow> int \<Rightarrow> int \<Rightarrow> int" where
  "days_of_civil y m d =
     (let y' = (if m \<le> 2 then y - 1 else y);
          era = y' div 400;
          yoe = y' mod 400;
          doy = (153 * (if m > 2 then m - 3 else m + 9) + 2) div 5 + d - 1;
          doe = yoe * 365 + yoe div 4 - yoe div 100 + doy
      in era * 146097 + doe - 719468)"

text \<open>
  Why the civil date is right: \<open>year_start y\<close> is the first day of year \<open>y\<close> of a cycle, and the
  corrected day count \<open>era_count\<close> reaches \<open>365 * y\<close> exactly there.
\<close>

definition era_count :: "int \<Rightarrow> int" where
  "era_count doe = doe - doe div 1460 + doe div 36524 - doe div 146096"

definition year_start :: "int \<Rightarrow> int" where
  "year_start y = 365 * y + y div 4 - y div 100"

lemma era_count_mono:
  assumes "0 \<le> a" and "a \<le> b" and "b < 146097"
  shows "era_count a \<le> era_count b"
proof (cases "b = 146096")
  case True
  show ?thesis
  proof (cases "a = b")
    case False
    with assms True have a: "a < 146096" by simp
    have "a - a div 1460 \<le> 145995 \<or> a div 36524 \<le> 3 \<and> a - a div 1460 \<le> 145996"
      using a assms(1) by linarith
    moreover have "a div 36524 \<le> 4" "0 \<le> a div 146096" using a assms(1) by linarith+
    ultimately have "era_count a \<le> 145999" unfolding era_count_def by linarith
    with True show ?thesis by (simp add: era_count_def)
  qed simp
next
  case False
  with assms have "b < 146096" by simp
  with assms have "a div 146096 = 0" "b div 146096 = 0" by simp_all
  moreover have "a div 36524 \<le> b div 36524" using assms by (intro zdiv_mono1) simp_all
  moreover have "b div 1460 \<le> a div 1460 + (b - a)"
  proof -
    have "b div 1460 \<le> (a + 1460 * (b - a)) div 1460" using assms by (intro zdiv_mono1) simp_all
    also have "\<dots> = a div 1460 + (b - a)" by simp
    finally show ?thesis .
  qed
  ultimately show ?thesis unfolding era_count_def by linarith
qed

lemma year_start_counts:
  assumes "0 \<le> y" and "y < 400"
  shows "365 * y \<le> era_count (year_start y)" and "0 < y \<Longrightarrow> era_count (year_start y - 1) < 365 * y"
proof -
  have "list_all (\<lambda>y. 365 * y \<le> era_count (year_start y) \<and> (y = 0 \<or> era_count (year_start y - 1) < 365 * y)) [0..399]"
    by code_simp
  moreover have "y \<in> set [0..399]" using assms by simp
  ultimately have "365 * y \<le> era_count (year_start y) \<and> (y = 0 \<or> era_count (year_start y - 1) < 365 * y)"
    unfolding list_all_iff by (rule bspec)
  then show "365 * y \<le> era_count (year_start y)" and "0 < y \<Longrightarrow> era_count (year_start y - 1) < 365 * y"
    by linarith+
qed

lemma year_of_era:
  assumes "0 \<le> doe" and "doe < 146097"
  defines "y \<equiv> era_count doe div 365"
  shows "0 \<le> y" "y < 400" "year_start y \<le> doe" "doe < year_start y + 366"
proof -
  have "era_count 0 \<le> era_count doe" "era_count doe \<le> era_count 146096"
    using assms(1,2) by (auto intro!: era_count_mono)
  then have c: "0 \<le> era_count doe" "era_count doe \<le> 145999" by (simp_all add: era_count_def)
  then show y: "0 \<le> y" "y < 400" unfolding y_def by linarith+
  have bracket: "n = 365 * q + r \<Longrightarrow> 0 \<le> r \<Longrightarrow> r < 365 \<Longrightarrow> 365 * q \<le> n \<and> n < 365 * (q + 1)" for n q r :: int
    by simp
  have "365 * y \<le> era_count doe \<and> era_count doe < 365 * (y + 1)"
    by (rule bracket [of _ _ "era_count doe mod 365"]) (simp_all add: y_def)
  then have in_year: "365 * y \<le> era_count doe" "era_count doe < 365 * (y + 1)" by auto
  show "year_start y \<le> doe"
  proof (rule ccontr)
    assume less: "\<not> year_start y \<le> doe"
    then have "0 < y" using y assms(1) by (cases "y = 0") (auto simp: year_start_def)
    moreover have "era_count doe \<le> era_count (year_start y - 1)"
    proof (rule era_count_mono)
      show "year_start y - 1 < 146097" using y unfolding year_start_def by linarith
    qed (use less assms(1) in auto)
    ultimately show False using year_start_counts(2) [OF y] in_year(1) by simp
  qed
  show "doe < year_start y + 366"
  proof (cases "y = 399")
    case True
    then show ?thesis using assms(2) by (simp add: year_start_def)
  next
    case False
    with y have y1: "0 \<le> y + 1" "y + 1 < 400" by auto
    have "doe < year_start (y + 1)"
    proof (rule ccontr)
      assume "\<not> doe < year_start (y + 1)"
      then have "era_count (year_start (y + 1)) \<le> era_count doe"
        using y1 assms(2) by (intro era_count_mono) (auto simp: year_start_def)
      with year_start_counts(1) [OF y1] in_year(2) show False by simp
    qed
    moreover have "(y + 1) div 4 \<le> y div 4 + 1" by presburger
    moreover have "y div 100 \<le> (y + 1) div 100" by (intro zdiv_mono1) simp_all
    ultimately have "doe < year_start y + 366" unfolding year_start_def by (simp add: distrib_left)
    then show ?thesis .
  qed
qed

lemma days_of_civil_of_days:
  "(case civil_of_days z of (y, m, d) \<Rightarrow> days_of_civil y m d) = z"
proof -
  define s where "s = z + 719468"
  define doe where "doe = s mod 146097"
  define yoe where "yoe = era_count doe div 365"
  define doy where "doy = doe - year_start yoe"
  define mp where "mp = (5 * doy + 2) div 153"
  have doe: "0 \<le> doe" "doe < 146097" by (simp_all add: doe_def)
  note yoe = year_of_era [OF doe, folded yoe_def]
  have "0 \<le> doy" "doy < 366" using yoe by (simp_all add: doy_def)
  then have mp: "0 \<le> mp" "mp < 12" unfolding mp_def by linarith+
  have z: "z = s div 146097 * 146097 + doe - 719468" by (simp add: s_def doe_def)
  have civil: "civil_of_days z = (yoe + s div 146097 * 400 + (if (if mp < 10 then mp + 3 else mp - 9) \<le> 2 then 1 else 0),
      if mp < 10 then mp + 3 else mp - 9, doy - (153 * mp + 2) div 5 + 1)"
    unfolding civil_of_days_def Let_def mp_def doy_def year_start_def yoe_def era_count_def doe_def s_def
    by (rule refl)
  have era: "(yoe + s div 146097 * 400) div 400 = s div 146097" "(yoe + s div 146097 * 400) mod 400 = yoe"
    using yoe(1,2) by simp_all
  have small: "yoe mod 400 = yoe" using yoe(1,2) by simp
  show ?thesis
  proof (cases "mp < 10")
    case True
    with mp have "\<not> mp + 3 \<le> 2" by simp
    with True show ?thesis
      unfolding civil by (simp add: days_of_civil_def Let_def era small doy_def year_start_def z)
  next
    case False
    with mp have "mp - 9 \<le> 2" "\<not> 2 < mp - 9" by simp_all
    with False show ?thesis
      unfolding civil by (simp add: days_of_civil_def Let_def era small doy_def year_start_def z)
  qed
qed

lemma civil_of_days_inject: "civil_of_days a = civil_of_days b \<Longrightarrow> a = b"
  by (metis days_of_civil_of_days)

section \<open>toISOString\<close>

text \<open>\<open>pad_left\<close> is \<open>padStart(width, "0")\<close> on a decimal numeral.\<close>

definition pad_left :: "nat \<Rightarrow> string \<Rightarrow> string" where
  "pad_left w s = replicate (w - length s) (CHR ''0'') @ s"

definition pad_int :: "nat \<Rightarrow> int \<Rightarrow> string" where
  "pad_int w n = pad_left w (nat_str (nat n))"

definition iso_year :: "int \<Rightarrow> string" where
  "iso_year y =
     (if 0 \<le> y \<and> y \<le> 9999 then pad_int 4 y
      else if y < 0 then CHR ''-'' # pad_int 6 (- y) else CHR ''+'' # pad_int 6 y)"

definition iso_date :: "int \<times> int \<times> int \<Rightarrow> string" where
  "iso_date c = (case c of (y, m, d) \<Rightarrow> iso_year y @ ''-'' @ pad_int 2 m @ ''-'' @ pad_int 2 d)"

definition iso_string :: "int \<Rightarrow> string" where
  "iso_string ms =
     (let t = ms mod day_ms in
      iso_date (civil_of_days (ms div day_ms)) @ ''T'' @ pad_int 2 (t div 3600000) @ '':''
        @ pad_int 2 (t div 60000 mod 60) @ '':'' @ pad_int 2 (t div 1000 mod 60) @ ''.''
        @ pad_int 3 (t mod 1000) @ ''Z'')"

text \<open>The text of an instant determines it.\<close>

lemma str_nat_pad_int [simp]: "str_nat (pad_int w n) = nat n"
proof -
  have "digits_val 0 (replicate k (CHR ''0'')) = 0" for k by (induction k) simp_all
  then show ?thesis using str_nat_nat_str [of "nat n"]
    by (simp add: pad_int_def pad_left_def str_nat_def digits_val_append)
qed

lemma pad_int_inject: "0 \<le> a \<Longrightarrow> 0 \<le> b \<Longrightarrow> pad_int w a = pad_int w b \<longleftrightarrow> a = b"
  by (metis eq_nat_nat_iff str_nat_pad_int)

lemma length_nat_str_le:
  "n < 10 ^ Suc w \<Longrightarrow> length (nat_str n) \<le> Suc w"
proof (induction w arbitrary: n)
  case 0
  then show ?case by (subst nat_str.simps) simp
next
  case (Suc w)
  then have "n div 10 < 10 ^ Suc w" by simp
  from Suc.IH [OF this] show ?case by (subst nat_str.simps) simp
qed

lemma length_pad_int [simp]:
  assumes "n < 10 ^ Suc w"
  shows "length (pad_int (Suc w) n) = Suc w"
proof -
  have "nat n < 10 ^ Suc w" using assms by (cases "0 \<le> n") (auto simp: nat_less_iff)
  from length_nat_str_le [OF this] show ?thesis by (simp add: pad_int_def pad_left_def)
qed

lemma pad_int_digits: "list_all is_digit (pad_int w n)"
  using nat_str_digits [of "nat n"] by (auto simp: pad_int_def pad_left_def list_all_iff is_digit_def char_between_def)

lemma pad_int_nonempty [simp]: "pad_int w n \<noteq> []"
  by (simp add: pad_int_def pad_left_def)

lemma pad_int_hd: "pad_int w n \<noteq> CHR ''-'' # s" "pad_int w n \<noteq> CHR ''+'' # s"
  using pad_int_digits [of w n] by (auto simp: is_digit_def char_between_def)

lemma iso_year_inject: "iso_year a = iso_year b \<Longrightarrow> a = b"
  using pad_int_hd by (auto simp: iso_year_def pad_int_inject split: if_splits dest: sym)

lemma append_tail_eq: "length c = length d \<Longrightarrow> a @ c = b @ d \<longleftrightarrow> a = b \<and> c = d"
  by simp

lemma civil_fields:
  assumes "civil_of_days z = (y, m, d)"
  shows "0 \<le> m" "m < 100" "0 \<le> d" "d < 100"
proof -
  define doe where "doe = (z + 719468) mod 146097"
  define yoe where "yoe = era_count doe div 365"
  define doy where "doy = doe - year_start yoe"
  define mp where "mp = (5 * doy + 2) div 153"
  have doe: "0 \<le> doe" "doe < 146097" by (simp_all add: doe_def)
  have "0 \<le> doy" "doy < 366" using year_of_era [OF doe] by (simp_all add: doy_def yoe_def)
  note doy = this
  have bracket: "n = 153 * q + r \<Longrightarrow> 0 \<le> r \<Longrightarrow> r < 153 \<Longrightarrow> 153 * q \<le> n \<and> n < 153 * q + 153" for n q r :: int
    by simp
  have "153 * mp \<le> 5 * doy + 2 \<and> 5 * doy + 2 < 153 * mp + 153"
    by (rule bracket [of _ _ "(5 * doy + 2) mod 153"]) (simp_all add: mp_def)
  then have mp: "153 * mp \<le> 5 * doy + 2" "5 * doy + 2 < 153 * mp + 153" by (rule conjunct1, rule conjunct2)
  have mp_range: "0 \<le> mp" "mp < 12" using doy mp by linarith+
  have civil: "civil_of_days z = (yoe + (z + 719468) div 146097 * 400 + (if (if mp < 10 then mp + 3 else mp - 9) \<le> 2 then 1 else 0),
      if mp < 10 then mp + 3 else mp - 9, doy - (153 * mp + 2) div 5 + 1)"
    unfolding civil_of_days_def Let_def mp_def doy_def year_start_def yoe_def era_count_def doe_def by (rule refl)
  have "m = (if mp < 10 then mp + 3 else mp - 9)" and d: "d = doy - (153 * mp + 2) div 5 + 1"
    using assms [unfolded civil] by (simp_all only: prod.inject)
  then have m: "m = mp + 3 \<or> m = mp - 9 \<and> \<not> mp < 10" by (simp split: if_splits)
  show "0 \<le> m" "m < 100" using m mp_range by linarith+
  have "0 \<le> doy - (153 * mp + 2) div 5 + 1 \<and> doy - (153 * mp + 2) div 5 + 1 < 100"
    if "153 * mp \<le> 5 * doy + 2" "5 * doy + 2 < 153 * mp + 153" for mp doy :: int
    using that by linarith
  from this [OF mp] show "0 \<le> d" "d < 100" unfolding d by auto
qed

lemma iso_date_inject:
  assumes "iso_date (civil_of_days a) = iso_date (civil_of_days b)"
  shows "a = b"
proof -
  obtain y m d y' m' d' where c: "civil_of_days a = (y, m, d)" "civil_of_days b = (y', m', d')"
    by (metis prod_cases3)
  note f = civil_fields [OF c(1)] civil_fields [OF c(2)]
  have two: "0 \<le> n \<Longrightarrow> n < 100 \<Longrightarrow> length (pad_int 2 n) = 2" for n
    using length_pad_int [of n 1] by (simp add: numeral_2_eq_2)
  from assms have "iso_year y @ ''-'' @ pad_int 2 m @ ''-'' @ pad_int 2 d
      = iso_year y' @ ''-'' @ pad_int 2 m' @ ''-'' @ pad_int 2 d'"
    by (simp add: c iso_date_def)
  then have "iso_year y = iso_year y'" "pad_int 2 m = pad_int 2 m'" "pad_int 2 d = pad_int 2 d'"
    using f two by (simp_all add: append_tail_eq)
  then show ?thesis
    using f c by (auto simp: pad_int_inject dest!: iso_year_inject intro: civil_of_days_inject)
qed

lemma clock_fields_inject:
  fixes t u :: int
  assumes "t div 3600000 = u div 3600000" "t div 60000 mod 60 = u div 60000 mod 60"
    "t div 1000 mod 60 = u div 1000 mod 60" "t mod 1000 = u mod 1000"
  shows "t = u"
proof -
  have "x div 60000 = x div 3600000 * 60 + x div 60000 mod 60" for x :: int
    using div_mult_mod_eq [of "x div 60000" 60] by (simp add: zdiv_zmult2_eq [symmetric])
  with assms have "t div 60000 = u div 60000" by metis
  moreover have "x div 1000 = x div 60000 * 60 + x div 1000 mod 60" for x :: int
    using div_mult_mod_eq [of "x div 1000" 60] by (simp add: zdiv_zmult2_eq [symmetric])
  ultimately have "t div 1000 = u div 1000" using assms by metis
  with assms show ?thesis by (metis div_mult_mod_eq)
qed

lemma clock_text_inject:
  fixes t u :: int
  assumes "0 \<le> t" "t < 86400000" "0 \<le> u" "u < 86400000"
    and "a @ ''T'' @ pad_int 2 (t div 3600000) @ '':'' @ pad_int 2 (t div 60000 mod 60) @ '':''
        @ pad_int 2 (t div 1000 mod 60) @ ''.'' @ pad_int 3 (t mod 1000) @ ''Z''
      = b @ ''T'' @ pad_int 2 (u div 3600000) @ '':'' @ pad_int 2 (u div 60000 mod 60) @ '':''
        @ pad_int 2 (u div 1000 mod 60) @ ''.'' @ pad_int 3 (u mod 1000) @ ''Z''"
  shows "a = b \<and> t = u"
proof -
  have parts: "a = b \<and> h = h' \<and> m = m' \<and> s = s' \<and> n = n'"
    if "a @ ''T'' @ h @ '':'' @ m @ '':'' @ s @ ''.'' @ n @ ''Z'' = b @ ''T'' @ h' @ '':'' @ m' @ '':'' @ s' @ ''.'' @ n' @ ''Z''"
      "length h = 2" "length h' = 2" "length m = 2" "length m' = 2" "length s = 2" "length s' = 2" "length n = 3" "length n' = 3"
    for a b h h' m m' s s' n n' :: string
    using that by (simp add: append_tail_eq)
  have two: "length (pad_int 2 n) = 2" if "n < 100" for n
    using that length_pad_int [of n 1] by (simp add: numeral_2_eq_2)
  have three: "length (pad_int 3 n) = 3" if "n < 1000" for n
    using that length_pad_int [of n 2] by (simp add: numeral_3_eq_3 numeral_2_eq_2)
  have hour: "0 \<le> x div 3600000" "x div 3600000 < 100" if "0 \<le> x" "x < 86400000" for x :: int
    using that by linarith+
  have sixty: "0 \<le> x mod 60" "x mod 60 < 100" for x :: int
    using pos_mod_bound [of 60 x] by simp_all
  have lens: "length (pad_int 2 (x div 3600000)) = 2" "length (pad_int 2 (x div 60000 mod 60)) = 2"
    "length (pad_int 2 (x div 1000 mod 60)) = 2" "length (pad_int 3 (x mod 1000)) = 3"
    if "0 \<le> x" "x < 86400000" for x :: int
    using hour [OF that] sixty by (simp_all add: two three)
  have "a = b \<and> pad_int 2 (t div 3600000) = pad_int 2 (u div 3600000)
      \<and> pad_int 2 (t div 60000 mod 60) = pad_int 2 (u div 60000 mod 60)
      \<and> pad_int 2 (t div 1000 mod 60) = pad_int 2 (u div 1000 mod 60)
      \<and> pad_int 3 (t mod 1000) = pad_int 3 (u mod 1000)"
    by (rule parts [OF assms(5)]) (rule lens [OF assms(1,2)] lens [OF assms(3,4)])+
  then have "a = b" "t div 3600000 = u div 3600000" "t div 60000 mod 60 = u div 60000 mod 60"
    "t div 1000 mod 60 = u div 1000 mod 60" "t mod 1000 = u mod 1000"
    using hour [OF assms(1,2)] hour [OF assms(3,4)] by (simp_all add: pad_int_inject)
  then show ?thesis using clock_fields_inject by blast
qed

lemma iso_string_inject:
  assumes "iso_string a = iso_string b"
  shows "a = b"
proof -
  have "iso_date (civil_of_days (a div day_ms)) = iso_date (civil_of_days (b div day_ms)) \<and> a mod day_ms = b mod day_ms"
    by (rule clock_text_inject) (use assms in \<open>simp_all add: iso_string_def Let_def day_ms_def\<close>)
  then have "a div day_ms = b div day_ms \<and> a mod day_ms = b mod day_ms" using iso_date_inject by blast
  then show ?thesis by (metis div_mult_mod_eq)
qed

end
