(* ===== verification/JobAudit.thy ===== *)
theory JobAudit
  imports LedgerFacts JsDate
begin

text \<open>
  Sealed audit records and notification intents (\<open>agent-job-audit.js\<close>). A terminal run's audit
  record is built from the journal and the ledger in the transaction that makes it terminal;
  notification intents are inserted under a key made of run, event, channel and target.
\<close>

section \<open>Notification intents\<close>

definition is_list_sep :: "char \<Rightarrow> bool" where
  "is_list_sep c \<longleftrightarrow> c = CHR '','' \<or> is_space c"

function words_by :: "(char \<Rightarrow> bool) \<Rightarrow> string \<Rightarrow> string list" where
  "words_by sep [] = []"
| "words_by sep (c # cs) =
     (if sep c then words_by sep cs
      else (c # takeWhile (\<lambda>x. \<not> sep x) cs) # words_by sep (dropWhile (\<lambda>x. \<not> sep x) cs))"
  by pat_completeness auto
termination
  by (relation "measure (\<lambda>(sep, s). length s)") (auto simp: length_dropWhile_le less_Suc_eq_le)

text \<open>The argument is \<open>ORKESTR_AGENT_JOB_NOTIFY_CHANNELS\<close>, empty when unset.\<close>

definition notification_channels_enabled :: "string \<Rightarrow> string list" where
  "notification_channels_enabled raw =
     words_by is_list_sep (if raw = [] then ''thread,webhook,email,whatsapp'' else raw)"

definition notification_key :: "(string \<Rightarrow> string) \<Rightarrow> string \<Rightarrow> string \<Rightarrow> string \<Rightarrow> string \<Rightarrow> string" where
  "notification_key H run event channel target =
     ''agent-job-notify:'' @ take 48 (H (stable_stringify (jstrs [run, event, channel, target])))"

text \<open>The detail of an event: the approval it is about with its tool, and the attempt.\<close>

record notify_detail =
  det_approval :: "(string \<times> string) option"
  det_attempt :: "nat option"

definition no_detail :: notify_detail where
  "no_detail = \<lparr>det_approval = None, det_attempt = None\<rparr>"

definition notification_extra :: "notify_detail \<Rightarrow> string" where
  \<open>notification_extra x =
     (case det_approval x of
        Some (a, tool) \<Rightarrow>
          '' approval='' @ a @ '' tool='' @ tool @ ''. Approve with `orkestr jobs approve '' @ a
            @ ''` or reply '' @ [CHR 0x22] @ ''approve '' @ a @ [CHR 0x22] @ '' / '' @ [CHR 0x22] @ ''deny '' @ a
            @ [CHR 0x22] @ '' in the job's WhatsApp group''
      | None \<Rightarrow> (case det_attempt x of None \<Rightarrow> [] | Some n \<Rightarrow> if n = 0 then [] else '' attempt='' @ nat_str n))\<close>

definition failure_reason :: "run_row \<Rightarrow> string \<Rightarrow> string option" where
  "failure_reason r event =
     (case run_reason r of None \<Rightarrow> None | Some t \<Rightarrow> if t \<noteq> [] \<and> event = ''failed'' then Some t else None)"

definition notification_text :: "run_row \<Rightarrow> string \<Rightarrow> notify_detail \<Rightarrow> string" where
  "notification_text r event x =
     ''Agent job '' @ run_job r @ '' run '' @ run_id r @ '': '' @ event
       @ (case failure_reason r event of None \<Rightarrow> [] | Some t \<Rightarrow> '' ('' @ t @ '')'') @ notification_extra x"

definition notification_payload :: "run_row \<Rightarrow> notify_rule \<Rightarrow> string \<Rightarrow> notify_detail \<Rightarrow> json" where
  "notification_payload r rule event x = JObj
     ([(''runId'', JStr (run_id r)), (''job'', JStr (run_job r)), (''event'', JStr event),
       (''channel'', JStr (rule_channel rule)), (''target'', JStr (rule_target rule)),
       (''text'', JStr (notification_text r event x))]
      @ (case det_approval x of None \<Rightarrow> []
         | Some (a, tool) \<Rightarrow> [(''approvalId'', JStr a), (''tool'', if tool = [] then JNull else JStr tool)])
      @ (case failure_reason r event of None \<Rightarrow> [] | Some t \<Rightarrow> [(''reason'', JStr t)]))"

text \<open>\<open>insert or ignore\<close> under the primary key.\<close>

definition insert_notification :: "notification_row \<Rightarrow> db \<Rightarrow> db" where
  "insert_notification n d =
     (if row_of ntf_key (ntf_key n) (db_notifications d) \<noteq> None then d
      else d\<lparr>db_notifications := db_notifications d @ [n]\<rparr>)"

definition record_rule ::
  "(string \<Rightarrow> string) \<Rightarrow> int \<Rightarrow> string list \<Rightarrow> run_row \<Rightarrow> string \<Rightarrow> string \<Rightarrow> notify_detail \<Rightarrow> notify_rule \<Rightarrow> db \<Rightarrow> db" where
  "record_rule H now chans r event event_id x rule d =
     (if event \<notin> set (rule_on rule) \<or> rule_channel rule \<notin> set chans then d
      else insert_notification
        \<lparr>ntf_key = notification_key H (run_id r) event_id (rule_channel rule) (rule_target rule),
         ntf_run = run_id r, ntf_event = event_id, ntf_channel = rule_channel rule,
         ntf_target = rule_target rule, ntf_payload = notification_payload r rule event x,
         ntf_outbox_job_id = None, ntf_created_at = now, ntf_relayed_at = None\<rparr> d)"

text \<open>The run is read once, before the rules; every caller passes an existing run.\<close>

definition record_notifications ::
  "(string \<Rightarrow> string) \<Rightarrow> int \<Rightarrow> string list \<Rightarrow> string \<Rightarrow> job_spec \<Rightarrow> string \<Rightarrow> string \<Rightarrow> notify_detail \<Rightarrow> db \<Rightarrow> db" where
  "record_notifications H now chans i spec event event_id x d =
     (case get_run d i of
        None \<Rightarrow> d
      | Some r \<Rightarrow> fold (record_rule H now chans r event event_id x) (spec_notifications spec) d)"

definition list_pending_notifications :: "nat \<Rightarrow> db \<Rightarrow> notification_row list" where
  "list_pending_notifications limit d =
     take limit (sort_key ntf_created_at (filter (\<lambda>n. ntf_relayed_at n = None) (db_notifications d)))"

definition mark_notification_relayed :: "int \<Rightarrow> string \<Rightarrow> string option \<Rightarrow> db \<Rightarrow> db" where
  "mark_notification_relayed now key job d =
     d\<lparr>db_notifications := upd_rows (\<lambda>n. ntf_key n = key \<and> ntf_relayed_at n = None)
          (\<lambda>n. n\<lparr>ntf_relayed_at := Some now,
             ntf_outbox_job_id := (case job of None \<Rightarrow> None | Some t \<Rightarrow> if t = [] then None else Some t)\<rparr>)
          (db_notifications d)\<rparr>"

definition list_run_notifications :: "db \<Rightarrow> string \<Rightarrow> notification_row list" where
  "list_run_notifications d i = sort_key ntf_created_at (filter (\<lambda>n. ntf_run n = i) (db_notifications d))"

section \<open>The audit record\<close>

definition jiso :: "int \<Rightarrow> json" where
  "jiso ms = JStr (iso_string ms)"

definition jiso_opt :: "int option \<Rightarrow> json" where
  "jiso_opt x = (case x of None \<Rightarrow> JNull | Some ms \<Rightarrow> jiso ms)"

definition jnat_opt :: "nat option \<Rightarrow> json" where
  "jnat_opt x = (case x of None \<Rightarrow> JNull | Some n \<Rightarrow> JNum (int n))"

text \<open>\<open>value || null\<close>.\<close>

definition truthy_or_null :: "json option \<Rightarrow> json" where
  "truthy_or_null x = (case x of None \<Rightarrow> JNull | Some v \<Rightarrow> if truthy v then v else JNull)"

definition audit_attempt :: "attempt_row \<Rightarrow> json" where
  "audit_attempt a = JObj
     [(''n'', JNum (int (att_n a))), (''provider'', JStr (att_provider a)),
      (''state'', JStr (attempt_state_str (att_state a))), (''end_reason'', jstr_opt (att_end_reason a)),
      (''resumed_from_seq'', jnat_opt (att_resumed_from_seq a)), (''error'', jstr_opt (att_error a))]"

definition audit_tool_decision :: "checkpoint_row \<Rightarrow> json" where
  "audit_tool_decision c = JObj
     [(''seq'', JNum (int (cp_seq c))), (''tool'', or_null (jget (cp_data c) ''tool'')),
      (''decision'', or_null (jget (cp_data c) ''decision''))]"

definition audit_effect :: "effect_row \<Rightarrow> json" where
  "audit_effect e = JObj
     [(''effect_key'', JStr (eff_key e)), (''tool'', JStr (eff_tool e)), (''args_hash'', JStr (eff_args_hash e)),
      (''state'', JStr (effect_state_str (eff_state e))), (''outcome'', jstr_opt (eff_outcome e)),
      (''ref'', jstr_opt (eff_ref e)), (''reconciled'', JBool (eff_reconciled e))]"

definition audit_approval :: "approval_row \<Rightarrow> json" where
  "audit_approval a = JObj
     [(''approval_id'', JStr (apr_id a)), (''tool'', JStr (apr_tool a)), (''reason'', JStr (apr_reason a)),
      (''args_hash'', JStr (apr_args_hash a)), (''decision'', JStr (approval_state_str (apr_state a))),
      (''by'', jstr_opt (apr_decided_by a)), (''at'', jiso_opt (apr_decided_at a)),
      (''consumed'', JBool (apr_consumed_at a \<noteq> None))]"

definition audit_entry :: "checkpoint_row \<Rightarrow> json" where
  "audit_entry c = JObj
     [(''seq'', JNum (int (cp_seq c))), (''attempt'', jnat_opt (cp_attempt c)), (''kind'', JStr (cp_kind c)),
      (''at'', jiso (cp_at c))]"

definition audit_record :: "db \<Rightarrow> run_row \<Rightarrow> json" where
  "audit_record d r = JObj
     [(''run_id'', JStr (run_id r)), (''job'', JStr (run_job r)), (''spec_hash'', JStr (run_spec_hash r)),
      (''trigger'', JObj [(''type'', or_null (jget (run_trigger r) ''type'')),
         (''name'', truthy_or_null (jget (run_trigger r) ''name'')),
         (''dedupe_key'', truthy_or_null (jget (run_trigger r) ''dedupeKey''))]),
      (''state'', JStr (run_state_str (run_state r))), (''reason'', jstr_opt (run_reason r)),
      (''attempts'', JArr (map audit_attempt (list_attempts d (run_id r)))),
      (''tool_decisions'', JArr (map audit_tool_decision (list_checkpoints_of d (run_id r) [''tool_decision'']))),
      (''effects'', JArr (map audit_effect (list_effects d (run_id r)))),
      (''approvals'', JArr (map audit_approval (list_approvals_of_run d (run_id r)))),
      (''journal'', JArr (map audit_entry (list_checkpoints d (run_id r)))),
      (''output'', run_output r), (''error'', jstr_opt (run_error r)),
      (''started_at'', jiso (run_created_at r)), (''finished_at'', jiso_opt (run_finished_at r))]"

definition build_audit_record :: "db \<Rightarrow> string \<Rightarrow> string list \<Rightarrow> json option" where
  "build_audit_record d i secrets = map_option (\<lambda>r. redact_value secrets (audit_record d r)) (get_run d i)"

definition with_member :: "string \<Rightarrow> json \<Rightarrow> json \<Rightarrow> json" where
  "with_member k v x = (case x of JObj kvs \<Rightarrow> JObj (kvs @ [(k, v)]) | _ \<Rightarrow> x)"

section \<open>Sealing\<close>

record run_result =
  res_state :: run_state
  res_reason :: "string option"
  res_output :: json
  res_error :: "string option"

definition finished :: "run_state \<Rightarrow> run_result" where
  "finished s = \<lparr>res_state = s, res_reason = None, res_output = JNull, res_error = None\<rparr>"

definition final_error :: "string list \<Rightarrow> string option \<Rightarrow> string option \<Rightarrow> string option" where
  "final_error secrets error old =
     (case error of None \<Rightarrow> old | Some t \<Rightarrow> if t = [] then old else Some (take 1000 (redact_string secrets t)))"

text \<open>The patch, the journal entry and the notifications of the terminal state.\<close>

definition finish_run ::
  "(string \<Rightarrow> string) \<Rightarrow> int \<Rightarrow> string list \<Rightarrow> string list \<Rightarrow> run_row \<Rightarrow> run_result \<Rightarrow> job_spec option \<Rightarrow> db \<Rightarrow> db" where
  "finish_run H now chans secrets r q spec d =
     (let i = run_id r;
          d1 = update_run now i
            [SetState (res_state q), SetReason (res_reason q), SetNextAttemptAt None,
             SetOutput (if res_output q = JNull then run_output r else redact_value secrets (res_output q)),
             SetError (final_error secrets (res_error q) (run_error r)), SetFinishedAt (Some now)] d;
          d2 = append_checkpoint now i None ''run_finished''
            (JObj [(''state'', JStr (run_state_str (res_state q))), (''reason'', jstr_opt (res_reason q))]) d1
      in (case spec of None \<Rightarrow> d2
          | Some s \<Rightarrow> record_notifications H now chans i s (run_state_str (res_state q))
                        (run_state_str (res_state q)) no_detail d2))"

definition seal_run :: "int \<Rightarrow> string list \<Rightarrow> string \<Rightarrow> db \<Rightarrow> db" where
  "seal_run now secrets i d =
     (case build_audit_record d i secrets of
        None \<Rightarrow> d
      | Some a \<Rightarrow> update_run now i [SetAudit (with_member ''sealed_at'' (jiso now) a), SetSealedAt (Some now)] d)"

definition finalize_run ::
  "(string \<Rightarrow> string) \<Rightarrow> int \<Rightarrow> string list \<Rightarrow> string list \<Rightarrow> string \<Rightarrow> run_result \<Rightarrow> job_spec option \<Rightarrow> db \<Rightarrow> db" where
  "finalize_run H now chans secrets i q spec d =
     (case get_run d i of
        None \<Rightarrow> d
      | Some r \<Rightarrow> if run_sealed_at r \<noteq> None then d
          else seal_run now secrets i (finish_run H now chans secrets r q spec d))"

definition get_run_audit :: "string \<Rightarrow> db \<Rightarrow> json option" where
  "get_run_audit i d =
     (case get_run d i of
        None \<Rightarrow> None
      | Some r \<Rightarrow> if run_audit r \<noteq> JNull then Some (run_audit r)
          else map_option (with_member ''sealed_at'' JNull) (build_audit_record d i []))"

section \<open>What the writes change\<close>

definition only_notifications :: "db \<Rightarrow> db \<Rightarrow> bool" where
  "only_notifications d d' \<longleftrightarrow> (\<exists>ns. d' = d\<lparr>db_notifications := ns\<rparr>)"

lemma only_notifications_frame:
  assumes "only_notifications d d'"
  shows "db_specs d' = db_specs d" "db_jobs d' = db_jobs d" "db_runs d' = db_runs d"
    "db_attempts d' = db_attempts d" "db_checkpoints d' = db_checkpoints d" "db_effects d' = db_effects d"
    "db_approvals d' = db_approvals d" "db_trigger_audit d' = db_trigger_audit d"
    "db_schedule d' = db_schedule d"
  using assms by (auto simp: only_notifications_def)

lemma only_notifications_refl [simp]: "only_notifications d d"
  unfolding only_notifications_def by (rule exI [of _ "db_notifications d"]) simp

lemma only_notifications_trans:
  "only_notifications a b \<Longrightarrow> only_notifications b c \<Longrightarrow> only_notifications a c"
  by (auto simp: only_notifications_def)

lemma only_notifications_insert [simp]: "only_notifications d (insert_notification n d)"
  by (auto simp: insert_notification_def only_notifications_def intro: exI [of _ "db_notifications d"])

lemma only_notifications_rules: "only_notifications d (fold (record_rule H now chans r ev eid x) rules d)"
proof (induction rules arbitrary: d)
  case (Cons rule rules)
  have "only_notifications d (record_rule H now chans r ev eid x rule d)"
    by (simp add: record_rule_def)
  with Cons show ?case by (auto intro: only_notifications_trans)
qed simp

lemma only_notifications_record [simp]:
  "only_notifications d (record_notifications H now chans i spec ev eid x d)"
  by (simp add: record_notifications_def only_notifications_rules split: option.splits)

lemmas record_notifications_frame [simp] = only_notifications_frame [OF only_notifications_record]

lemma get_run_record_notifications [simp]:
  "get_run (record_notifications H now chans i spec ev eid x d) j = get_run d j"
  by (rule get_run_same) simp

text \<open>Sealing touches the run, the journal and the notifications only.\<close>

lemma finish_run_frame [simp]:
  "db_specs (finish_run H now chans secrets r q spec d) = db_specs d"
  "db_jobs (finish_run H now chans secrets r q spec d) = db_jobs d"
  "db_attempts (finish_run H now chans secrets r q spec d) = db_attempts d"
  "db_effects (finish_run H now chans secrets r q spec d) = db_effects d"
  "db_approvals (finish_run H now chans secrets r q spec d) = db_approvals d"
  "db_trigger_audit (finish_run H now chans secrets r q spec d) = db_trigger_audit d"
  "db_schedule (finish_run H now chans secrets r q spec d) = db_schedule d"
  by (auto simp: finish_run_def Let_def append_checkpoint_def split: option.splits)

lemma seal_run_frame [simp]:
  "db_specs (seal_run now secrets i d) = db_specs d" "db_jobs (seal_run now secrets i d) = db_jobs d"
  "db_attempts (seal_run now secrets i d) = db_attempts d"
  "db_checkpoints (seal_run now secrets i d) = db_checkpoints d"
  "db_effects (seal_run now secrets i d) = db_effects d"
  "db_approvals (seal_run now secrets i d) = db_approvals d"
  "db_notifications (seal_run now secrets i d) = db_notifications d"
  "db_trigger_audit (seal_run now secrets i d) = db_trigger_audit d"
  "db_schedule (seal_run now secrets i d) = db_schedule d"
  by (auto simp: seal_run_def split: option.splits)

lemma finalize_run_frame [simp]:
  "db_specs (finalize_run H now chans secrets i q spec d) = db_specs d"
  "db_jobs (finalize_run H now chans secrets i q spec d) = db_jobs d"
  "db_attempts (finalize_run H now chans secrets i q spec d) = db_attempts d"
  "db_effects (finalize_run H now chans secrets i q spec d) = db_effects d"
  "db_approvals (finalize_run H now chans secrets i q spec d) = db_approvals d"
  "db_trigger_audit (finalize_run H now chans secrets i q spec d) = db_trigger_audit d"
  "db_schedule (finalize_run H now chans secrets i q spec d) = db_schedule d"
  by (auto simp: finalize_run_def split: option.splits)

definition finished_row :: "int \<Rightarrow> string list \<Rightarrow> run_result \<Rightarrow> run_row \<Rightarrow> run_row" where
  "finished_row now secrets q r = r\<lparr>run_state := res_state q, run_reason := res_reason q, run_next_attempt_at := None,
     run_output := (if res_output q = JNull then run_output r else redact_value secrets (res_output q)),
     run_error := final_error secrets (res_error q) (run_error r), run_finished_at := Some now, run_updated_at := now\<rparr>"

lemma finished_row_simps [simp]:
  "run_id (finished_row now secrets q r) = run_id r" "run_state (finished_row now secrets q r) = res_state q"
  "run_reason (finished_row now secrets q r) = res_reason q"
  "run_finished_at (finished_row now secrets q r) = Some now"
  "run_next_attempt_at (finished_row now secrets q r) = None"
  "run_job (finished_row now secrets q r) = run_job r" "run_key (finished_row now secrets q r) = run_key r"
  "run_spec_hash (finished_row now secrets q r) = run_spec_hash r"
  "run_trigger (finished_row now secrets q r) = run_trigger r"
  "run_created_at (finished_row now secrets q r) = run_created_at r"
  "run_lease_holder (finished_row now secrets q r) = run_lease_holder r"
  "run_lease_expires_at (finished_row now secrets q r) = run_lease_expires_at r"
  "run_cancel_requested_at (finished_row now secrets q r) = run_cancel_requested_at r"
  by (simp_all add: finished_row_def)

lemma get_run_finish_run:
  "get_run d (run_id r) = Some r \<Longrightarrow>
     get_run (finish_run H now chans secrets r q spec d) j
       = (if j = run_id r then Some (finished_row now secrets q r) else get_run d j)"
  by (simp add: finish_run_def Let_def get_run_update_run finished_row_def split: option.split)

lemma audit_record_same:
  assumes "db_attempts d' = db_attempts d" "db_checkpoints d' = db_checkpoints d"
    "db_effects d' = db_effects d" "db_approvals d' = db_approvals d"
    "r' = r\<lparr>run_updated_at := u, run_audit := a, run_sealed_at := t\<rparr>"
  shows "audit_record d' r' = audit_record d r"
  using assms by (simp add: audit_record_def list_attempts_def list_checkpoints_of_def list_checkpoints_def
      list_effects_def list_approvals_of_run_def)

lemma get_run_seal_run:
  "get_run (seal_run now secrets i d) j = (if j \<noteq> i then get_run d j
     else map_option (\<lambda>r. r\<lparr>run_updated_at := now, run_sealed_at := Some now,
       run_audit := with_member ''sealed_at'' (jiso now) (redact_value secrets (audit_record d r))\<rparr>) (get_run d i))"
  by (simp add: seal_run_def build_audit_record_def get_run_update_run split: option.split)

definition sealed_row :: "int \<Rightarrow> json \<Rightarrow> run_row \<Rightarrow> run_row" where
  "sealed_row now a r = r\<lparr>run_audit := a, run_sealed_at := Some now\<rparr>"

lemma sealed_row_simps [simp]:
  "run_id (sealed_row now a r) = run_id r" "run_state (sealed_row now a r) = run_state r"
  "run_reason (sealed_row now a r) = run_reason r" "run_finished_at (sealed_row now a r) = run_finished_at r"
  "run_next_attempt_at (sealed_row now a r) = run_next_attempt_at r"
  "run_sealed_at (sealed_row now a r) = Some now" "run_audit (sealed_row now a r) = a"
  "run_job (sealed_row now a r) = run_job r" "run_key (sealed_row now a r) = run_key r"
  "run_spec_hash (sealed_row now a r) = run_spec_hash r" "run_trigger (sealed_row now a r) = run_trigger r"
  "run_created_at (sealed_row now a r) = run_created_at r"
  "run_lease_holder (sealed_row now a r) = run_lease_holder r"
  "run_lease_expires_at (sealed_row now a r) = run_lease_expires_at r"
  "run_cancel_requested_at (sealed_row now a r) = run_cancel_requested_at r"
  by (simp_all add: sealed_row_def)

lemma finalize_run_sealed_id:
  "get_run d i = Some r \<Longrightarrow> run_sealed_at r \<noteq> None \<Longrightarrow> finalize_run H now chans secrets i q spec d = d"
  by (simp add: finalize_run_def)

lemma finalize_run_missing: "get_run d i = None \<Longrightarrow> finalize_run H now chans secrets i q spec d = d"
  by (simp add: finalize_run_def)

lemma get_run_finalize_other:
  assumes "j \<noteq> i"
  shows "get_run (finalize_run H now chans secrets i q spec d) j = get_run d j"
proof (cases "get_run d i")
  case (Some r)
  then have "run_id r = i" by (rule get_run_id)
  with Some assms show ?thesis by (simp add: finalize_run_def get_run_seal_run get_run_finish_run)
qed (simp add: finalize_run_missing)

lemma get_run_finalize_run:
  assumes "get_run d i = Some r" and "run_sealed_at r = None"
    and "d' = finalize_run H now chans secrets i q spec d"
  obtains a where "get_run d' i = Some (sealed_row now a (finished_row now secrets q r))"
    and "a = with_member ''sealed_at'' (jiso now)
           (redact_value secrets (audit_record d' (sealed_row now a (finished_row now secrets q r))))"
proof -
  have i: "run_id r = i" using assms(1) by (rule get_run_id)
  define d3 where "d3 = finish_run H now chans secrets r q spec d"
  define r1 where "r1 = finished_row now secrets q r"
  define a where "a = with_member ''sealed_at'' (jiso now) (redact_value secrets (audit_record d3 r1))"
  have 3: "get_run d3 i = Some r1" using assms(1) i by (simp add: d3_def r1_def get_run_finish_run)
  have d': "d' = seal_run now secrets i d3" by (simp add: assms finalize_run_def d3_def)
  have u: "r1\<lparr>run_updated_at := now\<rparr> = r1" by (simp add: r1_def finished_row_def)
  have "r1\<lparr>run_updated_at := now, run_sealed_at := Some now, run_audit := a\<rparr> = sealed_row now a r1"
    by (simp add: sealed_row_def r1_def finished_row_def)
  with 3 have "get_run d' i = Some (sealed_row now a r1)"
    by (simp add: d' get_run_seal_run a_def)
  moreover have "audit_record d' (sealed_row now a r1) = audit_record d3 r1"
    by (rule audit_record_same [where u = now and a = a and t = "Some now"])
      (use u in \<open>simp_all add: d' sealed_row_def\<close>)
  ultimately show thesis using that [of a] by (simp add: r1_def a_def)
qed

lemma journal_ok_finalize:
  assumes "journal_ok d"
  shows "journal_ok (finalize_run H now chans secrets i q spec d)"
proof -
  have "journal_ok (finish_run H now chans secrets r q spec d)" for r
  proof -
    have "journal_ok (append_checkpoint now i a k v (update_run now i ps d))" for i a k v ps
      by (rule journal_ok_append) (simp add: journal_ok_same [of "update_run now i ps d" d] assms)
    then show ?thesis
      by (cases spec) (simp_all add: finish_run_def Let_def
          journal_ok_same [OF record_notifications_frame(5)])
  qed
  then show ?thesis
    using journal_ok_same [OF seal_run_frame(4)] assms
    by (simp add: finalize_run_def split: option.split)
qed

section \<open>Each notification is recorded once\<close>

definition notification_keys :: "db \<Rightarrow> string list" where
  "notification_keys d = map ntf_key (db_notifications d)"

lemma insert_notification_keys:
  "notification_keys (insert_notification n d) =
     notification_keys d @ (if ntf_key n \<in> set (notification_keys d) then [] else [ntf_key n])"
  by (auto simp: insert_notification_def notification_keys_def row_of_None_iff)

lemma insert_notification_present:
  "ntf_key n \<in> set (notification_keys d) \<Longrightarrow> insert_notification n d = d"
  using row_of_None_iff [of ntf_key "ntf_key n" "db_notifications d"]
  by (auto simp: insert_notification_def notification_keys_def)

lemma record_rule_keys:
  "distinct (notification_keys d) \<Longrightarrow> distinct (notification_keys (record_rule H now chans r ev eid x rule d))"
  "set (notification_keys d) \<subseteq> set (notification_keys (record_rule H now chans r ev eid x rule d))"
  by (auto simp: record_rule_def insert_notification_keys)

lemma record_rules_keys:
  "distinct (notification_keys d) \<Longrightarrow> distinct (notification_keys (fold (record_rule H now chans r ev eid x) rules d))"
  "set (notification_keys d) \<subseteq> set (notification_keys (fold (record_rule H now chans r ev eid x) rules d))"
  by (induction rules arbitrary: d) (auto intro: record_rule_keys subsetD [OF record_rule_keys(2)])

definition rule_done :: "(string \<Rightarrow> string) \<Rightarrow> string list \<Rightarrow> run_row \<Rightarrow> string \<Rightarrow> string \<Rightarrow> db \<Rightarrow> notify_rule \<Rightarrow> bool" where
  "rule_done H chans r ev eid d rule \<longleftrightarrow>
     ev \<in> set (rule_on rule) \<and> rule_channel rule \<in> set chans \<longrightarrow>
     notification_key H (run_id r) eid (rule_channel rule) (rule_target rule) \<in> set (notification_keys d)"

lemma record_rule_done: "rule_done H chans r ev eid (record_rule H now chans r ev eid x rule d) rule"
  by (auto simp: rule_done_def record_rule_def insert_notification_keys)

lemma rule_done_mono: "rule_done H chans r ev eid d rule \<Longrightarrow> set (notification_keys d) \<subseteq> set (notification_keys d')
    \<Longrightarrow> rule_done H chans r ev eid d' rule"
  by (auto simp: rule_done_def)

lemma record_rules_done:
  "rule \<in> set rules \<Longrightarrow> rule_done H chans r ev eid (fold (record_rule H now chans r ev eid x) rules d) rule"
  by (induction rules arbitrary: d) (auto intro: rule_done_mono [OF record_rule_done record_rules_keys(2)])

lemma record_rules_skip:
  "(\<And>rule. rule \<in> set rules \<Longrightarrow> rule_done H chans r ev eid d rule) \<Longrightarrow> fold (record_rule H now chans r ev eid x) rules d = d"
proof (induction rules)
  case (Cons rule rules)
  then have "rule_done H chans r ev eid d rule" by simp
  then have "record_rule H now chans r ev eid x rule d = d"
    by (auto simp: record_rule_def rule_done_def insert_notification_present)
  with Cons show ?case by simp
qed simp

lemma record_notifications_twice:
  "record_notifications H now' chans i spec ev eid x' (record_notifications H now chans i spec ev eid x d)
     = record_notifications H now chans i spec ev eid x d"
proof (cases "get_run d i")
  case (Some r)
  have "get_run (record_notifications H now chans i spec ev eid x d) i = Some r" by (simp add: Some)
  then show ?thesis
    by (simp add: record_notifications_def Some) (rule record_rules_skip, rule record_rules_done)
qed (simp add: record_notifications_def)

lemma record_notifications_distinct:
  "distinct (notification_keys d) \<Longrightarrow> distinct (notification_keys (record_notifications H now chans i spec ev eid x d))"
  by (simp add: record_notifications_def record_rules_keys split: option.split)

section \<open>Properties\<close>

text \<open>
  Sealing an unsealed run makes it terminal in the given state with the given reason, stamps it,
  and stores the audit record that its own rows (attempts, decisions, effects, approvals, journal,
  output) give after the sealing, redacted.
\<close>

theorem finalize_run_seals:
  assumes "get_run d i = Some r" and "run_sealed_at r = None"
    and "d' = finalize_run H now chans secrets i q spec d"
  shows "\<exists>r'. get_run d' i = Some r' \<and> run_state r' = res_state q \<and> run_reason r' = res_reason q
    \<and> run_finished_at r' = Some now \<and> run_sealed_at r' = Some now \<and> run_next_attempt_at r' = None
    \<and> run_audit r' = with_member ''sealed_at'' (jiso now) (redact_value secrets (audit_record d' r'))"
proof -
  obtain a where "get_run d' i = Some (sealed_row now a (finished_row now secrets q r))"
    and "a = with_member ''sealed_at'' (jiso now)
           (redact_value secrets (audit_record d' (sealed_row now a (finished_row now secrets q r))))"
    by (rule get_run_finalize_run [OF assms])
  then show ?thesis by (intro exI [of _ "sealed_row now a (finished_row now secrets q r)"]) simp
qed

text \<open>
  A sealed run is never sealed again: finalizing it changes nothing at all, whatever the state,
  the reason and the instant.
\<close>

theorem finalize_run_once:
  "finalize_run H now' chans' secrets' i q' spec' (finalize_run H now chans secrets i q spec d)
     = finalize_run H now chans secrets i q spec d"
proof (cases "get_run d i")
  case (Some r)
  show ?thesis
  proof (cases "run_sealed_at r")
    case None
    obtain a where "get_run (finalize_run H now chans secrets i q spec d) i
        = Some (sealed_row now a (finished_row now secrets q r))"
      by (rule get_run_finalize_run [OF Some None refl])
    then show ?thesis by (rule finalize_run_sealed_id) simp
  qed (simp add: finalize_run_sealed_id [OF Some])
qed (simp add: finalize_run_missing)

text \<open>
  Recording an event's notifications again, for the same run and event id, adds nothing,
  whatever the instant and the detail of the second time; and no key is ever recorded twice.
\<close>

theorem notifications_recorded_once:
  assumes "distinct (notification_keys d)"
  shows "record_notifications H now' chans i spec ev eid x' (record_notifications H now chans i spec ev eid x d)
      = record_notifications H now chans i spec ev eid x d
    \<and> distinct (notification_keys (record_notifications H now chans i spec ev eid x d))"
  using record_notifications_twice record_notifications_distinct [OF assms] by simp

section \<open>A concrete store\<close>

text \<open>A run and a store with this one run, for concrete instances.\<close>

definition sample_run :: "string \<Rightarrow> run_state \<Rightarrow> run_row" where
  "sample_run i s = \<lparr>run_id = i, run_job = ''nightly'', run_key = ''rk_'' @ i, run_spec_hash = ''sha256:0'',
     run_trigger = JObj [(''type'', JStr ''api'')], run_state = s, run_reason = None, run_attempt_count = 0,
     run_provider_index = 0, run_lease_holder = None, run_lease_expires_at = None, run_next_attempt_at = None,
     run_cancel_requested_at = None, run_cancel_requested_by = None, run_output = JNull, run_error = None,
     run_audit = JNull, run_sealed_at = None, run_created_at = 1000, run_updated_at = 1000, run_finished_at = None\<rparr>"

definition sample_db :: db where
  "sample_db = empty_db\<lparr>db_runs := [sample_run ''run_1'' Running]\<rparr>"

lemma get_run_sample [simp]: "get_run sample_db ''run_1'' = Some (sample_run ''run_1'' Running)"
  by (simp add: get_run_def sample_db_def sample_run_def)

definition sample_spec :: job_spec where
  "sample_spec = \<lparr>spec_name = ''nightly'', spec_description = [], spec_labels = [], spec_triggers = [ApiTrigger],
     spec_agent = \<lparr>ref_provider = ''codex'', ref_model = None, ref_base_url = None\<rparr>, spec_fallback = [],
     spec_prompt = ''Review'', spec_inputs = JObj [], spec_output_schema = None,
     spec_tools = \<lparr>allow_tools = [''demo.repo.read''], deny_tools = [''repo.*''],
       approval_tools = [''demo.pull_request.*'']\<rparr>, spec_secrets = [],
     spec_runtime = \<lparr>rt_durable = True, rt_max_attempts = 2, rt_timeout_ms = 60000,
       rt_approval_timeout_ms = 3600000, rt_concurrency = Forbid,
       rt_retry = \<lparr>retry_backoff = Exponential, initial_delay_ms = 1000, max_delay_ms = 5000\<rparr>\<rparr>,
     spec_notifications = [\<lparr>rule_on = [''failed''], rule_channel = ''thread'', rule_target = ''ops''\<rparr>]\<rparr>"

lemma notifications_recorded_once_witness:
  "distinct (notification_keys sample_db) \<and>
   length (db_notifications (record_notifications id 7 [''thread''] ''run_1'' sample_spec ''failed'' ''failed'' no_detail sample_db)) = 1 \<and>
   record_notifications id 9 [''thread''] ''run_1'' sample_spec ''failed'' ''failed'' no_detail
     (record_notifications id 7 [''thread''] ''run_1'' sample_spec ''failed'' ''failed'' no_detail sample_db)
   = record_notifications id 7 [''thread''] ''run_1'' sample_spec ''failed'' ''failed'' no_detail sample_db"
proof (intro conjI)
  show d: "distinct (notification_keys sample_db)" by code_simp
  show "length (db_notifications (record_notifications id 7 [''thread''] ''run_1'' sample_spec ''failed'' ''failed'' no_detail sample_db)) = 1"
    by code_simp
  show "record_notifications id 9 [''thread''] ''run_1'' sample_spec ''failed'' ''failed'' no_detail
     (record_notifications id 7 [''thread''] ''run_1'' sample_spec ''failed'' ''failed'' no_detail sample_db)
   = record_notifications id 7 [''thread''] ''run_1'' sample_spec ''failed'' ''failed'' no_detail sample_db"
    using notifications_recorded_once [OF d] by (rule conjunct1)
qed

lemma finalize_run_seals_witness:
  "\<exists>r'. get_run (finalize_run id 9000 [] [''k3y''] ''run_1'' (finished Succeeded) None sample_db) ''run_1'' = Some r'
     \<and> run_state r' = Succeeded \<and> run_sealed_at r' = Some 9000"
proof -
  have "run_sealed_at (sample_run ''run_1'' Running) = None" by (simp add: sample_run_def)
  from finalize_run_seals [OF get_run_sample this refl, of id 9000 "[]" "[''k3y'']" "finished Succeeded" None]
  show ?thesis by (auto simp: finished_def)
qed

end
