(* ===== verification/JobProviders.thy ===== *)
theory JobProviders
  imports LedgerFacts
begin

text \<open>
  Provider connectivity (\<open>agent-job-providers.js\<close>) and the classification of an attempt's failure
  (\<open>agent-job-adapters.js\<close>). What a probe answers and what the local model endpoint says is
  outside the repository's control and is an argument.
\<close>

section \<open>Provider status\<close>

record provider_status =
  st_provider :: string
  st_connected :: bool
  st_runnable :: bool
  st_reason :: string

text \<open>
  A probe throws, with its message, or answers: whether \<open>connected === true\<close>, whether
  \<open>runnable !== false\<close>, and a reason.
\<close>

datatype probe_outcome = ProbeThrew string | ProbeSaid bool bool "string option"

text \<open>
  What the process is set up with: the test switch, the Personal Agent switch, the registered
  probes and the discovery of the pinned loopback endpoint.
\<close>

record provider_env =
  pe_test_allowed :: bool
  pe_personal_agent :: bool
  pe_probe :: "string \<Rightarrow> probe_outcome option"
  pe_discover :: "agent_ref \<Rightarrow> bool \<times> bool \<times> string"

definition provider_refused :: "string \<Rightarrow> string \<Rightarrow> provider_status" where
  "provider_refused p reason = \<lparr>st_provider = p, st_connected = False, st_runnable = False, st_reason = reason\<rparr>"

definition nonempty_or :: "string option \<Rightarrow> string \<Rightarrow> string" where
  "nonempty_or x y = (case x of None \<Rightarrow> y | Some t \<Rightarrow> if t = [] then y else t)"

definition probed_status :: "string \<Rightarrow> probe_outcome \<Rightarrow> provider_status" where
  "probed_status p x =
     (case x of
        ProbeThrew msg \<Rightarrow> provider_refused p (take 200 (if msg = [] then ''probe_failed'' else msg))
      | ProbeSaid connected runnable reason \<Rightarrow>
          \<lparr>st_provider = p, st_connected = connected, st_runnable = connected \<and> runnable,
           st_reason = nonempty_or reason
             (if connected \<and> runnable then ''connected''
              else if connected then ''job_executor_unavailable'' else ''provider_not_connected'')\<rparr>)"

definition agent_job_provider_status :: "provider_env \<Rightarrow> agent_ref \<Rightarrow> provider_status" where
  "agent_job_provider_status pe ref =
     (let p = ref_provider ref in
      if p = ''openai-compatible'' \<and> \<not> pe_personal_agent pe then provider_refused p ''personal_agent_disabled''
      else if p = ''openai-compatible'' \<and> pe_probe pe p = None
      then (case pe_discover pe ref of (c, r, reason) \<Rightarrow>
              \<lparr>st_provider = p, st_connected = c, st_runnable = r, st_reason = reason\<rparr>)
      else if p = ''simulated''
      then (if pe_test_allowed pe
            then \<lparr>st_provider = p, st_connected = True, st_runnable = True, st_reason = ''test_fixture''\<rparr>
            else provider_refused p ''test_only_provider'')
      else (case pe_probe pe p of
              None \<Rightarrow> provider_refused p ''provider_not_connected''
            | Some x \<Rightarrow> probed_status p x))"

text \<open>
  A provider with no registered probe is never runnable outside the tests, except the local
  endpoint when the Personal Agent switch is on; and a probed provider is runnable exactly when
  its probe says it is connected and does not refuse to run.
\<close>

theorem provider_status_fails_closed:
  "st_runnable (agent_job_provider_status pe ref) \<longleftrightarrow>
     (if ref_provider ref = ''simulated'' then pe_test_allowed pe
      else if ref_provider ref = ''openai-compatible'' \<and> \<not> pe_personal_agent pe then False
      else (case pe_probe pe (ref_provider ref) of
              None \<Rightarrow> ref_provider ref = ''openai-compatible'' \<and> fst (snd (pe_discover pe ref))
            | Some (ProbeThrew msg) \<Rightarrow> False
            | Some (ProbeSaid connected runnable reason) \<Rightarrow> connected \<and> runnable))"
proof (cases "pe_probe pe (ref_provider ref)")
  case None
  then show ?thesis
    by (cases "pe_discover pe ref") (auto simp: agent_job_provider_status_def Let_def provider_refused_def)
next
  case (Some x)
  then show ?thesis
    by (cases x) (auto simp: agent_job_provider_status_def Let_def provider_refused_def probed_status_def)
qed

section \<open>Failures of an attempt\<close>

datatype failure_kind = ProviderFailure | TaskFailure | TimeoutFailure

definition failure_kind_of :: "string \<Rightarrow> failure_kind option" where
  "failure_kind_of s = (if s = ''provider'' then Some ProviderFailure else if s = ''task'' then Some TaskFailure
     else if s = ''timeout'' then Some TimeoutFailure else None)"

definition failure_kind_str :: "failure_kind \<Rightarrow> string" where
  "failure_kind_str k = (case k of ProviderFailure \<Rightarrow> ''provider'' | TaskFailure \<Rightarrow> ''task'' | TimeoutFailure \<Rightarrow> ''timeout'')"

text \<open>An error value: its kind, whether \<open>retryable !== false\<close>, its message and its HTTP status.\<close>

record raised =
  rz_kind :: string
  rz_retryable :: bool
  rz_message :: string
  rz_status :: int

record failure =
  fl_kind :: failure_kind
  fl_retryable :: bool
  fl_message :: string

definition mentions :: "string list \<Rightarrow> string \<Rightarrow> bool" where
  "mentions ws s \<longleftrightarrow> list_ex (\<lambda>w. str_includes w (to_lower s)) ws"

text \<open>The pattern \<open>rate.?limit\<close>: at most one character in between.\<close>

fun mentions_rate_limit :: "string \<Rightarrow> bool" where
  "mentions_rate_limit s =
     (case s of [] \<Rightarrow> False
      | c # cs \<Rightarrow>
          starts_with ''ratelimit'' s \<or> (starts_with ''rate'' s \<and> drop 4 s \<noteq> [] \<and> hd (drop 4 s) \<notin> set [CHR 0x0A, CHR 0x0D]
            \<and> starts_with ''limit'' (drop 5 s))
          \<or> mentions_rate_limit cs)"

definition transient_words :: "string list" where
  "transient_words = [''429'', ''unavailable'', ''overloaded'', ''econn'', ''etimedout'', ''eai_again'', ''socket hang up'']"

definition auth_words :: "string list" where
  "auth_words = [''auth'', ''unauthorized'', ''unauthorised'', ''forbidden'', ''not_configured'', ''executor_not_found'', ''login'']"

definition classify_adapter_error :: "raised \<Rightarrow> failure" where
  "classify_adapter_error e =
     (case failure_kind_of (rz_kind e) of
        Some k \<Rightarrow> \<lparr>fl_kind = k, fl_retryable = rz_retryable e,
           fl_message = (if rz_message e = [] then rz_kind e else rz_message e)\<rparr>
      | None \<Rightarrow>
          if mentions_rate_limit (to_lower (rz_message e)) \<or> mentions transient_words (rz_message e)
             \<or> rz_status e = 429 \<or> rz_status e \<ge> 500 \<and> rz_status e \<noteq> 501
          then \<lparr>fl_kind = ProviderFailure, fl_retryable = True, fl_message = rz_message e\<rparr>
          else if mentions auth_words (rz_message e) \<or> rz_status e \<in> {401, 403, 501}
          then \<lparr>fl_kind = ProviderFailure, fl_retryable = False, fl_message = rz_message e\<rparr>
          else \<lparr>fl_kind = TaskFailure, fl_retryable = False, fl_message = rz_message e\<rparr>)"

definition max_steps_error :: failure where
  "max_steps_error = classify_adapter_error
     \<lparr>rz_kind = ''task'', rz_retryable = False, rz_message = ''max_steps_exceeded'', rz_status = 0\<rparr>"

end
