(* ===== verification/JobAdmission.thy ===== *)
theory JobAdmission
  imports JobAudit JobProviders
begin

text \<open>
  Admission of trigger events (\<open>agent-job-admission.js\<close>): the run key of an event, the trigger it
  belongs to, the transaction that deduplicates it or inserts a pending run under the concurrency
  policy, and the cancel request.
\<close>

section \<open>Keys and triggers\<close>

definition run_key_for :: "(string \<Rightarrow> string) \<Rightarrow> string \<Rightarrow> string \<Rightarrow> string \<Rightarrow> string" where
  "run_key_for H job label key =
     ''rk_'' @ H (stable_stringify (jstrs [job, label, key]))"

text \<open>A reference token of a JSON pointer: first \<open>~1\<close> is a slash, then \<open>~0\<close> a tilde.\<close>

fun unescape_pair :: "char \<Rightarrow> char \<Rightarrow> string \<Rightarrow> string" where
  "unescape_pair d r (a # b # s) =
     (if a = CHR ''~'' \<and> b = d then r # unescape_pair d r s else a # unescape_pair d r (b # s))"
| "unescape_pair d r s = s"

definition pointer_token :: "string \<Rightarrow> string" where
  "pointer_token raw = unescape_pair (CHR ''0'') (CHR ''~'') (unescape_pair (CHR ''1'') (CHR ''/'') raw)"

text \<open>
  \<open>value[key]\<close> for an own key of an object and an index of an array; \<open>None\<close> is \<open>undefined\<close>.
  Names inherited from the prototypes are not modelled.
\<close>

definition json_member :: "json \<Rightarrow> string \<Rightarrow> json option" where
  "json_member v k =
     (case v of
        JObj kvs \<Rightarrow> map_of kvs k
      | JArr xs \<Rightarrow> if k = ''length'' then Some (JNum (int (length xs)))
          else if k = nat_str (str_nat k) \<and> str_nat k < length xs then Some (xs ! str_nat k) else None
      | _ \<Rightarrow> None)"

fun follow_tokens :: "json \<Rightarrow> string list \<Rightarrow> json option" where
  "follow_tokens v [] = Some v"
| "follow_tokens v (raw # rest) =
     (case json_member v (pointer_token raw) of None \<Rightarrow> None | Some x \<Rightarrow> follow_tokens x rest)"

definition json_pointer :: "json \<Rightarrow> string \<Rightarrow> json option" where
  "json_pointer body pointer = follow_tokens body (tl (split_on (CHR ''/'') pointer))"

record trigger_event =
  ev_type :: string
  ev_name :: string
  ev_index :: "int option"
  ev_dedupe :: string
  ev_body :: json

definition nth_opt :: "'a list \<Rightarrow> int \<Rightarrow> 'a option" where
  "nth_opt xs i = (if 0 \<le> i \<and> i < int (length xs) then Some (xs ! nat i) else None)"

fun trigger_event_id :: "trigger \<Rightarrow> string option" where
  "trigger_event_id (Webhook _ _ ev) = ev"
| "trigger_event_id _ = None"

definition pick_trigger :: "trigger list \<Rightarrow> trigger_event \<Rightarrow> trigger option" where
  "pick_trigger triggers ev =
     (let of_type = filter (\<lambda>t. trigger_type t = ev_type ev) triggers in
      if of_type = [] then None
      else if ev_type ev = ''webhook''
      then find (\<lambda>t. ev_name ev = [] \<or> trigger_name t = Some (ev_name ev)) of_type
      else (case ev_index ev of Some i \<Rightarrow> nth_opt triggers i | None \<Rightarrow> Some (hd of_type)))"

text \<open>The key of a webhook event without an explicit one: the pointed-to value, else the body's digest.\<close>

definition body_key :: "(string \<Rightarrow> string) \<Rightarrow> trigger \<Rightarrow> json \<Rightarrow> string" where
  "body_key H t body =
     (let from = (case trigger_event_id t of None \<Rightarrow> None
                  | Some p \<Rightarrow> if p = [] then None else json_pointer body p)
      in (case from of
            Some v \<Rightarrow> if v \<noteq> JNull \<and> v \<noteq> JStr [] then js_string v else ''body:'' @ H (stable_stringify body)
          | None \<Rightarrow> ''body:'' @ H (stable_stringify body)))"

text \<open>\<open>uuid\<close> is the value of \<open>crypto.randomUUID\<close>.\<close>

definition dedupe_key_of :: "(string \<Rightarrow> string) \<Rightarrow> string \<Rightarrow> trigger \<Rightarrow> trigger_event \<Rightarrow> string" where
  "dedupe_key_of H uuid t ev =
     (let k0 = str_trim (ev_dedupe ev);
          k1 = (if k0 = [] \<and> ev_type ev = ''webhook'' then body_key H t (ev_body ev) else k0)
      in take 512 (if k1 = [] then ''once:'' @ uuid else k1))"

definition trigger_label :: "trigger \<Rightarrow> trigger_event \<Rightarrow> string" where
  "trigger_label t ev =
     (case trigger_name t of
        Some n \<Rightarrow> if n \<noteq> [] then n
          else (case ev_index ev of Some i \<Rightarrow> trigger_type t @ ''-'' @ int_str i | None \<Rightarrow> trigger_type t)
      | None \<Rightarrow> (case ev_index ev of Some i \<Rightarrow> trigger_type t @ ''-'' @ int_str i | None \<Rightarrow> trigger_type t))"

definition resolve_trigger ::
  "(string \<Rightarrow> string) \<Rightarrow> string \<Rightarrow> job_spec \<Rightarrow> trigger_event \<Rightarrow> (job_error, trigger \<times> string \<times> string) result" where
  "resolve_trigger H uuid spec ev =
     (case pick_trigger (spec_triggers spec) ev of
        None \<Rightarrow> Inl (JobError ''trigger_not_declared'' 404)
      | Some t \<Rightarrow> Inr (t, trigger_label t ev, dedupe_key_of H uuid t ev))"

section \<open>The admission transaction\<close>

definition trigger_record :: "trigger \<Rightarrow> string \<Rightarrow> json \<Rightarrow> json" where
  "trigger_record t key body = JObj
     [(''type'', JStr (trigger_type t)), (''name'', jstr_opt (trigger_name t)), (''dedupeKey'', JStr key), (''event'', body)]"

definition fresh_run :: "int \<Rightarrow> string \<Rightarrow> string \<Rightarrow> string \<Rightarrow> string \<Rightarrow> json \<Rightarrow> run_row" where
  "fresh_run now i job key hash trig = \<lparr>run_id = i, run_job = job, run_key = key, run_spec_hash = hash,
     run_trigger = trig, run_state = Pending, run_reason = None, run_attempt_count = 0,
     run_provider_index = 0, run_lease_holder = None, run_lease_expires_at = None, run_next_attempt_at = None,
     run_cancel_requested_at = None, run_cancel_requested_by = None, run_output = JNull, run_error = None,
     run_audit = JNull, run_sealed_at = None, run_created_at = now, run_updated_at = now, run_finished_at = None\<rparr>"

definition active_runs :: "db \<Rightarrow> string \<Rightarrow> run_row list" where
  "active_runs d job = sort_key run_created_at (filter (\<lambda>r. run_job r = job \<and> is_active (run_state r)) (db_runs d))"

definition request_replace :: "int \<Rightarrow> string \<Rightarrow> string \<Rightarrow> db \<Rightarrow> db" where
  "request_replace now by i = update_run now i [SetCancelRequested (Some now) (Some (''replace:'' @ by))]"

definition apply_concurrency :: "(string \<Rightarrow> string) \<Rightarrow> int \<Rightarrow> concurrency \<Rightarrow> string \<Rightarrow> string \<Rightarrow> db \<Rightarrow> db" where
  "apply_concurrency H now policy i job d =
     (let others = filter (\<lambda>r. run_id r \<noteq> i) (active_runs d job) in
      if others = [] then d
      else (case policy of
              Forbid \<Rightarrow> finalize_run H now [] [] i
                \<lparr>res_state = Skipped, res_reason = Some ''concurrency_forbid'', res_output = JNull, res_error = None\<rparr> None d
            | Replace \<Rightarrow> fold (\<lambda>r. request_replace now i (run_id r)) others d
            | Queue \<Rightarrow> d))"

text \<open>The new id is \<open>run_\<close> and random text; a duplicate one violates the primary key.\<close>

definition insert_run :: "run_row \<Rightarrow> db \<Rightarrow> (job_error, db) result" where
  "insert_run r d =
     (if get_run d (run_id r) \<noteq> None \<or> row_of run_key (run_key r) (db_runs d) \<noteq> None
      then Inl (SqlConstraint ''runs'') else Inr (d\<lparr>db_runs := db_runs d @ [r]\<rparr>))"

definition admit_new ::
  "(string \<Rightarrow> string) \<Rightarrow> int \<Rightarrow> string \<Rightarrow> job_spec \<Rightarrow> trigger \<Rightarrow> string \<Rightarrow> string \<Rightarrow> json \<Rightarrow> db \<Rightarrow> (job_error, string \<times> db) result" where
  "admit_new H now rnd spec t rkey key body d =
     (let (hash, d1) = pin_spec H now spec d;
          i = new_id ''run'' rnd;
          job = spec_name spec
      in and_then (insert_run (fresh_run now i job rkey hash (trigger_record t key body)) d1) (\<lambda>d2.
         let d3 = append_checkpoint now i None ''run_admitted''
               (JObj [(''trigger'', JStr (trigger_type t)), (''name'', jstr_opt (trigger_name t)), (''specHash'', JStr hash)]) d2
         in Inr (i, apply_concurrency H now (rt_concurrency (spec_runtime spec)) i job d3)))"

text \<open>The result is the id of the run and whether the event was a duplicate.\<close>

definition admit_tx ::
  "(string \<Rightarrow> string) \<Rightarrow> int \<Rightarrow> string \<Rightarrow> job_spec \<Rightarrow> trigger \<Rightarrow> string \<Rightarrow> string \<Rightarrow> json \<Rightarrow> db \<Rightarrow>
     (job_error, (string \<times> bool) \<times> db) result" where
  "admit_tx H now rnd spec t label key body d =
     (let rkey = run_key_for H (spec_name spec) label key in
      case row_of run_key rkey (db_runs d) of
        Some r \<Rightarrow> Inr ((run_id r, True), d)
      | None \<Rightarrow> and_then (admit_new H now rnd spec t rkey key body d) (\<lambda>(i, d'). Inr ((i, False), d')))"

section \<open>admitRun\<close>

text \<open>An event comes with a specification and its source, or names a registered job.\<close>

datatype job_source = GivenSpec job_spec string | RegisteredJob string

definition source_spec :: "(string \<Rightarrow> string) \<Rightarrow> int \<Rightarrow> job_source \<Rightarrow> db \<Rightarrow> (job_error, job_spec) result \<times> db" where
  "source_spec H now src d =
     (case src of
        GivenSpec spec from \<Rightarrow> (Inr spec, snd (register_job_spec H now spec from d))
      | RegisteredJob job \<Rightarrow>
          ((case get_registered_job d job of
              None \<Rightarrow> Inl (JobError ''job_not_found'' 404)
            | Some (h, s, spec) \<Rightarrow> Inr spec), d))"

definition admit_run ::
  "provider_env \<Rightarrow> (string \<Rightarrow> string) \<Rightarrow> int \<Rightarrow> string \<Rightarrow> string \<Rightarrow> job_source \<Rightarrow> trigger_event \<Rightarrow> db \<Rightarrow>
     (job_error, string \<times> bool) result \<times> db" where
  "admit_run pe H now uuid rnd src ev d =
     (case source_spec H now src d of
        (Inl e, d1) \<Rightarrow> (Inl e, d1)
      | (Inr spec, d1) \<Rightarrow>
          (case resolve_trigger H uuid spec ev of
             Inl e \<Rightarrow> (Inl e, d1)
           | Inr (t, label, key) \<Rightarrow>
               let st = agent_job_provider_status pe (spec_agent spec) in
               if \<not> st_runnable st
               then (Inl (JobError ''provider_not_connected'' 409),
                     record_trigger_audit now (trigger_note (Some (spec_name spec)) (ev_type ev) ''rejected''
                       (Some (''provider_not_connected:'' @ st_reason st)) (Some key)) d1)
               else tx (admit_tx H now rnd spec t label key (ev_body ev)) d1))"

section \<open>Cancel\<close>

definition cancel_by :: "string \<Rightarrow> string" where
  "cancel_by by = take 200 (or_unknown by)"

definition request_cancel :: "int \<Rightarrow> string \<Rightarrow> string \<Rightarrow> db \<Rightarrow> (job_error, run_row) result \<times> db" where
  "request_cancel now i by d =
     (case get_run d i of
        None \<Rightarrow> (Inl (JobError ''run_not_found'' 404), d)
      | Some r \<Rightarrow>
          if \<not> is_active (run_state r) \<or> run_cancel_requested_at r \<noteq> None then (Inr r, d)
          else
            let d1 = update_run now i [SetCancelRequested (Some now) (Some (cancel_by by))] d;
                d2 = append_checkpoint now i None ''cancel_requested'' (JObj [(''by'', JStr (cancel_by by))]) d1
            in (case get_run d2 i of None \<Rightarrow> (Inr r, d2) | Some r' \<Rightarrow> (Inr r', d2)))"

section \<open>Facts\<close>

lemma pin_spec_frame [simp]:
  "db_jobs (snd (pin_spec H now s d)) = db_jobs d" "db_runs (snd (pin_spec H now s d)) = db_runs d"
  "db_attempts (snd (pin_spec H now s d)) = db_attempts d"
  "db_checkpoints (snd (pin_spec H now s d)) = db_checkpoints d"
  "db_effects (snd (pin_spec H now s d)) = db_effects d"
  "db_approvals (snd (pin_spec H now s d)) = db_approvals d"
  "db_notifications (snd (pin_spec H now s d)) = db_notifications d"
  "db_trigger_audit (snd (pin_spec H now s d)) = db_trigger_audit d"
  "db_schedule (snd (pin_spec H now s d)) = db_schedule d"
  by (simp_all add: pin_spec_def Let_def)

lemma pin_spec_fst [simp]: "fst (pin_spec H now s d) = spec_hash H s"
  by (simp add: pin_spec_def Let_def)

lemma pin_spec_keeps:
  "get_pinned_spec d h = Some s \<Longrightarrow> get_pinned_spec (snd (pin_spec H now s' d)) h = Some s"
  by (auto simp: get_pinned_spec_def pin_spec_def Let_def split: option.splits)

lemma pin_spec_pinned: "get_pinned_spec (snd (pin_spec H now s d)) (spec_hash H s) \<noteq> None"
  by (auto simp: get_pinned_spec_def pin_spec_def Let_def split: option.splits)

lemma register_job_spec_frame [simp]:
  "db_specs (snd (register_job_spec H now s from d)) = db_specs (snd (pin_spec H now s d))"
  "db_runs (snd (register_job_spec H now s from d)) = db_runs d"
  "db_attempts (snd (register_job_spec H now s from d)) = db_attempts d"
  "db_checkpoints (snd (register_job_spec H now s from d)) = db_checkpoints d"
  "db_effects (snd (register_job_spec H now s from d)) = db_effects d"
  "db_approvals (snd (register_job_spec H now s from d)) = db_approvals d"
  "db_notifications (snd (register_job_spec H now s from d)) = db_notifications d"
  "db_trigger_audit (snd (register_job_spec H now s from d)) = db_trigger_audit d"
  "db_schedule (snd (register_job_spec H now s from d)) = db_schedule d"
  by (simp_all add: register_job_spec_def Let_def split_beta)

text \<open>The runs that an admission sees: the new one and the old ones.\<close>

definition admitted_db ::
  "(string \<Rightarrow> string) \<Rightarrow> int \<Rightarrow> string \<Rightarrow> job_spec \<Rightarrow> trigger \<Rightarrow> string \<Rightarrow> string \<Rightarrow> json \<Rightarrow> db \<Rightarrow> db" where
  "admitted_db H now i spec t rkey key body d =
     append_checkpoint now i None ''run_admitted''
       (JObj [(''trigger'', JStr (trigger_type t)), (''name'', jstr_opt (trigger_name t)), (''specHash'', JStr (spec_hash H spec))])
       ((snd (pin_spec H now spec d))\<lparr>db_runs := db_runs d
          @ [fresh_run now i (spec_name spec) rkey (spec_hash H spec) (trigger_record t key body)]\<rparr>)"

lemma admit_new_cases:
  assumes "admit_new H now rnd spec t rkey key body d = Inr (i, d')"
  shows "i = new_id ''run'' rnd" "get_run d i = None" "row_of run_key rkey (db_runs d) = None"
    "d' = apply_concurrency H now (rt_concurrency (spec_runtime spec)) i (spec_name spec)
            (admitted_db H now i spec t rkey key body d)"
  using assms
  by (auto simp: admit_new_def Let_def split_beta and_then_Inr_iff insert_run_def admitted_db_def fresh_run_def
      get_run_def split: if_splits)

lemma get_run_admitted_db:
  "get_run (admitted_db H now i spec t rkey key body d) j =
     (case get_run d j of Some r \<Rightarrow> Some r
      | None \<Rightarrow> if j = i then Some (fresh_run now i (spec_name spec) rkey (spec_hash H spec) (trigger_record t key body))
          else None)"
  by (cases "row_of run_id j (db_runs d)") (simp_all add: admitted_db_def get_run_def fresh_run_def)

definition replaced_row :: "int \<Rightarrow> string \<Rightarrow> run_row \<Rightarrow> run_row" where
  "replaced_row now by r =
     r\<lparr>run_updated_at := now, run_cancel_requested_at := Some now, run_cancel_requested_by := Some (''replace:'' @ by)\<rparr>"

lemma get_run_request_replace:
  "get_run (request_replace now by i d) j = (if j = i then map_option (replaced_row now by) (get_run d j) else get_run d j)"
  by (cases "get_run d i") (auto simp: request_replace_def get_run_update_run replaced_row_def)

lemma get_run_fold_replace:
  "get_run (fold (\<lambda>r. request_replace now by (run_id r)) rs d) j
     = (if j \<in> run_id ` set rs then map_option (replaced_row now by) (get_run d j) else get_run d j)"
proof (induction rs arbitrary: d)
  case (Cons r rs)
  have "replaced_row now by (replaced_row now by x) = replaced_row now by x" for x by (simp add: replaced_row_def)
  with Cons show ?case by (auto simp: get_run_request_replace option.map_comp comp_def)
qed simp

lemma request_replace_frame [simp]:
  "db_specs (fold (\<lambda>r. request_replace now by (run_id r)) rs d) = db_specs d"
  "db_checkpoints (fold (\<lambda>r. request_replace now by (run_id r)) rs d) = db_checkpoints d"
  by (induction rs arbitrary: d) (simp_all add: request_replace_def)

lemma set_active_runs:
  "set (active_runs d job) = {r \<in> set (db_runs d). run_job r = job \<and> is_active (run_state r)}"
  by (auto simp: active_runs_def)

lemma other_active_runs:
  assumes "get_run d i = None"
  shows "set (filter (\<lambda>r. run_id r \<noteq> i) (active_runs (admitted_db H now i spec t rkey key body d) job))
    = set (active_runs d job)"
proof -
  have "run_id r \<noteq> i" if "r \<in> set (db_runs d)" for r
    using assms that by (auto simp: get_run_def row_of_None_iff)
  then show ?thesis
    by (auto simp: set_active_runs admitted_db_def fresh_run_def append_checkpoint_frame)
qed

text \<open>What one admission leaves in the store, by the concurrency policy of the job.\<close>

lemma admit_new_runs:
  assumes "admit_new H now rnd spec t rkey key body d = Inr (i, d')"
  shows "get_run d' j =
     (if j = i \<and> \<not> (active_runs d (spec_name spec) \<noteq> [] \<and> rt_concurrency (spec_runtime spec) = Forbid)
      then Some (fresh_run now i (spec_name spec) rkey (spec_hash H spec) (trigger_record t key body))
      else if j = i then get_run d' i
      else if rt_concurrency (spec_runtime spec) = Replace \<and> j \<in> run_id ` set (active_runs d (spec_name spec))
      then map_option (replaced_row now i) (get_run d j)
      else get_run d j)"
proof -
  note c = admit_new_cases [OF assms]
  let ?d = "admitted_db H now i spec t rkey key body d"
  let ?others = "filter (\<lambda>r. run_id r \<noteq> i) (active_runs ?d (spec_name spec))"
  have others: "set ?others = set (active_runs d (spec_name spec))" by (rule other_active_runs [OF c(2)])
  then have empty: "?others = [] \<longleftrightarrow> active_runs d (spec_name spec) = []" by (metis set_empty)
  have "i \<notin> run_id ` set (active_runs d (spec_name spec))"
    using c(2) by (auto simp: set_active_runs get_run_def row_of_None_iff)
  then show ?thesis
    using c(2) others empty unfolding c(4)
    by (cases "rt_concurrency (spec_runtime spec)")
      (auto simp: apply_concurrency_def Let_def get_run_admitted_db get_run_finalize_other get_run_fold_replace
        simp del: set_filter split: option.split)
qed

lemma admit_new_skipped:
  assumes "admit_new H now rnd spec t rkey key body d = Inr (i, d')"
    and "active_runs d (spec_name spec) \<noteq> []" and "rt_concurrency (spec_runtime spec) = Forbid"
  obtains a where "get_run d' i = Some (sealed_row now a (finished_row now []
      \<lparr>res_state = Skipped, res_reason = Some ''concurrency_forbid'', res_output = JNull, res_error = None\<rparr>
      (fresh_run now i (spec_name spec) rkey (spec_hash H spec) (trigger_record t key body))))"
proof -
  note c = admit_new_cases [OF assms(1)]
  let ?d = "admitted_db H now i spec t rkey key body d"
  have "set (filter (\<lambda>r. run_id r \<noteq> i) (active_runs ?d (spec_name spec))) \<noteq> {}"
    unfolding other_active_runs [OF c(2)] using assms(2) by simp
  then have "filter (\<lambda>r. run_id r \<noteq> i) (active_runs ?d (spec_name spec)) \<noteq> []" by force
  then have d': "d' = finalize_run H now [] [] i
      \<lparr>res_state = Skipped, res_reason = Some ''concurrency_forbid'', res_output = JNull, res_error = None\<rparr> None ?d"
    unfolding c(4) apply_concurrency_def Let_def assms(3) by simp
  have "get_run ?d i = Some (fresh_run now i (spec_name spec) rkey (spec_hash H spec) (trigger_record t key body))"
    using c(2) by (simp add: get_run_admitted_db)
  from get_run_finalize_run [OF this _ d'] that show thesis by (auto simp: fresh_run_def)
qed

lemma apply_concurrency_frame [simp]:
  "db_specs (apply_concurrency H now p i job d) = db_specs d"
  by (simp add: apply_concurrency_def Let_def split: concurrency.split)

lemma admit_new_specs:
  assumes "admit_new H now rnd spec t rkey key body d = Inr (i, d')"
  shows "db_specs d' = db_specs (snd (pin_spec H now spec d))"
  unfolding admit_new_cases(4) [OF assms] by (simp add: admitted_db_def)

lemma get_pinned_spec_same: "db_specs d' = db_specs d \<Longrightarrow> get_pinned_spec d' h = get_pinned_spec d h"
  by (simp add: get_pinned_spec_def)

lemma admit_tx_new:
  assumes "admit_tx H now rnd spec t label key body d = Inr ((i, False), d')"
  shows "admit_new H now rnd spec t (run_key_for H (spec_name spec) label key) key body d = Inr (i, d')"
  using assms by (auto simp: admit_tx_def Let_def and_then_Inr_iff split: option.splits)

lemma admit_tx_dup:
  assumes "admit_tx H now rnd spec t label key body d = Inr ((i, True), d')"
  shows "d' = d" "\<exists>r. row_of run_key (run_key_for H (spec_name spec) label key) (db_runs d) = Some r \<and> run_id r = i"
  using assms by (auto simp: admit_tx_def Let_def and_then_Inr_iff split: option.splits)

text \<open>With unique run keys, the run of a key is the one that a lookup by key finds.\<close>

lemma run_by_key:
  assumes "distinct (map run_key (db_runs d))" and "get_run d i = Some r"
  shows "row_of run_key (run_key r) (db_runs d) = Some r"
  using assms(2) row_of_in_iff [OF assms(1)] by (auto simp: get_run_def dest: row_of_Some_in)

text \<open>Admission keeps run ids and run keys unique.\<close>

lemma upd_run_ids:
  assumes "\<And>r. run_id (f r) = run_id r" "\<And>r. run_key (f r) = run_key r"
  shows "map run_id (db_runs (upd_run i f d)) = map run_id (db_runs d)"
    and "map run_key (db_runs (upd_run i f d)) = map run_key (db_runs d)"
  using assms by (simp_all add: upd_run_def map_upd_rows)

lemma update_run_ids [simp]:
  "map run_id (db_runs (update_run now i ps d)) = map run_id (db_runs d)"
  "map run_key (db_runs (update_run now i ps d)) = map run_key (db_runs d)"
  by (simp_all add: update_run_def upd_run_ids)

lemma finalize_run_ids [simp]:
  "map run_id (db_runs (finalize_run H now chans secrets i q spec d)) = map run_id (db_runs d)"
  "map run_key (db_runs (finalize_run H now chans secrets i q spec d)) = map run_key (db_runs d)"
  by (auto simp: finalize_run_def seal_run_def finish_run_def Let_def split: option.split)

lemma fold_replace_ids [simp]:
  "map run_id (db_runs (fold (\<lambda>r. request_replace now by (run_id r)) rs d)) = map run_id (db_runs d)"
  "map run_key (db_runs (fold (\<lambda>r. request_replace now by (run_id r)) rs d)) = map run_key (db_runs d)"
  by (induction rs arbitrary: d) (simp_all add: request_replace_def)

lemma apply_concurrency_ids [simp]:
  "map run_id (db_runs (apply_concurrency H now p i job d)) = map run_id (db_runs d)"
  "map run_key (db_runs (apply_concurrency H now p i job d)) = map run_key (db_runs d)"
  by (simp_all add: apply_concurrency_def Let_def split: concurrency.split)

lemma admit_new_ids:
  assumes "admit_new H now rnd spec t rkey key body d = Inr (i, d')"
  shows "map run_id (db_runs d') = map run_id (db_runs d) @ [i]"
    and "map run_key (db_runs d') = map run_key (db_runs d) @ [rkey]"
  unfolding admit_new_cases(4) [OF assms] by (simp_all add: admitted_db_def fresh_run_def)

lemma admit_new_distinct:
  assumes "admit_new H now rnd spec t rkey key body d = Inr (i, d')"
    and "distinct (map run_id (db_runs d))" "distinct (map run_key (db_runs d))"
  shows "distinct (map run_id (db_runs d'))" "distinct (map run_key (db_runs d'))"
proof -
  have "i \<notin> set (map run_id (db_runs d))"
    using admit_new_cases(2) [OF assms(1)] by (simp add: get_run_def row_of_None_iff)
  then show "distinct (map run_id (db_runs d'))"
    using assms(2) by (simp add: admit_new_ids(1) [OF assms(1)])
  have "rkey \<notin> set (map run_key (db_runs d))"
    using admit_new_cases(3) [OF assms(1)] by (simp add: row_of_None_iff)
  then show "distinct (map run_key (db_runs d'))"
    using assms(3) by (simp add: admit_new_ids(2) [OF assms(1)])
qed

lemma admit_new_row:
  assumes "admit_new H now rnd spec t rkey key body d = Inr (i, d')"
  shows "\<exists>r. get_run d' i = Some r \<and> run_key r = rkey \<and> run_job r = spec_name spec \<and> run_spec_hash r = spec_hash H spec"
proof (cases "active_runs d (spec_name spec) \<noteq> [] \<and> rt_concurrency (spec_runtime spec) = Forbid")
  case True
  obtain a where r: "get_run d' i = Some (sealed_row now a (finished_row now []
      \<lparr>res_state = Skipped, res_reason = Some ''concurrency_forbid'', res_output = JNull, res_error = None\<rparr>
      (fresh_run now i (spec_name spec) rkey (spec_hash H spec) (trigger_record t key body))))"
    by (rule admit_new_skipped [OF assms conjunct1 [OF True] conjunct2 [OF True]])
  show ?thesis unfolding r by (simp add: fresh_run_def)
next
  case False
  with admit_new_runs [OF assms, of i] show ?thesis by (simp add: fresh_run_def)
qed

section \<open>Properties\<close>

text \<open>
  C19: an event that is not a duplicate leaves a run in the store before the admission returns, under
  the event's run key, with the specification pinned; it is pending, except under the policy
  forbid when the job has an active run: then it is skipped and sealed at once.
\<close>

theorem admit_creates_run:
  assumes "admit_tx H now rnd spec t label key body d = Inr ((i, False), d')"
  shows "\<exists>r. get_run d' i = Some r \<and> run_key r = run_key_for H (spec_name spec) label key
    \<and> run_job r = spec_name spec \<and> run_spec_hash r = spec_hash H spec
    \<and> get_pinned_spec d' (spec_hash H spec) \<noteq> None
    \<and> (if active_runs d (spec_name spec) \<noteq> [] \<and> rt_concurrency (spec_runtime spec) = Forbid
       then run_state r = Skipped \<and> run_reason r = Some ''concurrency_forbid'' \<and> run_sealed_at r = Some now
       else run_state r = Pending \<and> run_sealed_at r = None)"
proof -
  note new = admit_tx_new [OF assms]
  have pinned: "get_pinned_spec d' (spec_hash H spec) \<noteq> None"
    using pin_spec_pinned get_pinned_spec_same [OF admit_new_specs [OF new]] by metis
  show ?thesis
  proof (cases "active_runs d (spec_name spec) \<noteq> [] \<and> rt_concurrency (spec_runtime spec) = Forbid")
    case True
    then obtain a where "get_run d' i = Some (sealed_row now a (finished_row now []
      \<lparr>res_state = Skipped, res_reason = Some ''concurrency_forbid'', res_output = JNull, res_error = None\<rparr>
      (fresh_run now i (spec_name spec) (run_key_for H (spec_name spec) label key) (spec_hash H spec)
        (trigger_record t key body))))"
      using admit_new_skipped [OF new] by blast
    with True pinned show ?thesis by (auto simp: fresh_run_def)
  next
    case False
    with admit_new_runs [OF new, of i] pinned show ?thesis by (auto simp: fresh_run_def)
  qed
qed

text \<open>
  An admission touches the other runs only under the policy replace, where exactly the active
  runs of the same job get a cancel request in the name of the new run.
\<close>

theorem admit_touches_others:
  assumes "distinct (map run_id (db_runs d))"
    and "admit_tx H now rnd spec t label key body d = Inr ((i, False), d')" and "get_run d j = Some r"
  shows "get_run d' j = Some
    (if rt_concurrency (spec_runtime spec) = Replace \<and> run_job r = spec_name spec \<and> is_active (run_state r)
     then replaced_row now i r else r)"
proof -
  note new = admit_tx_new [OF assms(2)]
  have "j \<noteq> i" using admit_new_cases(2) [OF new] assms(3) by auto
  moreover have "j \<in> run_id ` set (active_runs d (spec_name spec)) \<longleftrightarrow> run_job r = spec_name spec \<and> is_active (run_state r)"
  proof -
    have "x = r" if "x \<in> set (db_runs d)" "run_id x = j" for x
      using that assms(3) row_of_in_iff [OF assms(1), of j x] by (simp add: get_run_def)
    moreover have "r \<in> set (db_runs d)" "run_id r = j"
      using assms(3) row_of_in_iff [OF assms(1), of j r] by (simp_all add: get_run_def)
    ultimately show ?thesis by (force simp: set_active_runs)
  qed
  ultimately show ?thesis using admit_new_runs [OF new, of j] assms(3) by simp
qed

text \<open>Admitting a key again finds its run.\<close>

lemma admit_tx_again:
  assumes "distinct (map run_key (db_runs d))"
    and "admit_tx H now rnd spec t label key body d = Inr ((i, b), d')" and "spec_name spec' = spec_name spec"
  shows "admit_tx H now' rnd' spec' t' label key body' d' = Inr ((i, True), d')"
proof (cases b)
  case True
  with assms(2,3) show ?thesis
    using admit_tx_dup [of H now rnd spec t label key body d i d'] by (auto simp: admit_tx_def Let_def)
next
  case False
  with assms(2) have new: "admit_new H now rnd spec t (run_key_for H (spec_name spec) label key) key body d = Inr (i, d')"
    using admit_tx_new by simp
  have "distinct (map run_key (db_runs d'))"
    using assms(1) admit_new_cases(3) [OF new] by (simp add: admit_new_ids(2) [OF new] row_of_None_iff)
  moreover obtain r where "get_run d' i = Some r" "run_key r = run_key_for H (spec_name spec) label key"
    using admit_new_row [OF new] by blast
  moreover from this(1) have "run_id r = i" by (rule get_run_id)
  ultimately have "row_of run_key (run_key_for H (spec_name spec) label key) (db_runs d') = Some r"
    using run_by_key by metis
  with assms(3) \<open>run_id r = i\<close> show ?thesis by (simp add: admit_tx_def Let_def)
qed

text \<open>
  A redelivered event is deduplicated: with unique run keys, admitting the same job, trigger and
  dedupe key again gives the first run and writes nothing, even when the specification, the body,
  the instant and the fresh id differ.
\<close>

theorem admit_redelivered:
  assumes "distinct (map run_key (db_runs d))"
    and "admit_tx H now rnd spec t label key body d = Inr ((i, b), d')" and "spec_name spec' = spec_name spec"
  shows "admit_tx H now' rnd' spec' t' label key body' d' = Inr ((i, True), d')"
  by (rule admit_tx_again [OF assms])

text \<open>
  When the provider is not runnable, an event of a registered job admits nothing: the runs, the
  journal and the notifications are unchanged and the error is one of the documented ones.
\<close>

theorem admit_needs_provider:
  assumes "\<not> st_runnable (agent_job_provider_status pe (spec_agent spec))"
    and "get_registered_job d job = Some (h, from, spec)"
    and "admit_run pe H now uuid rnd (RegisteredJob job) ev d = (res, d')"
  shows "res \<in> {Inl (JobError ''provider_not_connected'' 409), Inl (JobError ''trigger_not_declared'' 404)}
    \<and> db_runs d' = db_runs d \<and> db_checkpoints d' = db_checkpoints d \<and> db_notifications d' = db_notifications d"
proof (cases "pick_trigger (spec_triggers spec) ev")
  case None
  then have "admit_run pe H now uuid rnd (RegisteredJob job) ev d = (Inl (JobError ''trigger_not_declared'' 404), d)"
    by (simp add: admit_run_def source_spec_def assms(2) resolve_trigger_def)
  with assms(3) show ?thesis by auto
next
  case (Some t)
  then have "admit_run pe H now uuid rnd (RegisteredJob job) ev d = (Inl (JobError ''provider_not_connected'' 409),
      record_trigger_audit now (trigger_note (Some (spec_name spec)) (ev_type ev) ''rejected''
        (Some (''provider_not_connected:'' @ st_reason (agent_job_provider_status pe (spec_agent spec))))
        (Some (dedupe_key_of H uuid t ev))) d)"
    using assms(1) by (simp add: admit_run_def source_spec_def assms(2) resolve_trigger_def Let_def)
  with assms(3) show ?thesis by (auto simp: record_trigger_audit_def)
qed

text \<open>
  A cancel is recorded once: after a successful request, another request by anyone at any time
  changes nothing, and a run that is already terminal is never marked.
\<close>

theorem request_cancel_once:
  assumes "request_cancel now i by d = (Inr r, d')"
  shows "snd (request_cancel now' i by' d') = d' \<and> (is_terminal (run_state r) \<or> run_cancel_requested_at r \<noteq> None)"
  using assms
  by (auto simp: request_cancel_def Let_def get_run_update_run active_iff_not_terminal split: option.splits if_splits)

section \<open>Admitting an event of a registered job again\<close>

text \<open>What an admission of a registered job leaves as it was.\<close>

lemma apply_concurrency_jobs [simp]: "db_jobs (apply_concurrency H now p i job d) = db_jobs d"
proof -
  have "db_jobs (fold (\<lambda>r. request_replace now x (run_id r)) rs d) = db_jobs d" for x rs d
    by (induction rs arbitrary: d) (simp_all add: request_replace_def)
  note this [simp]
  show ?thesis by (simp add: apply_concurrency_def Let_def split: concurrency.split)
qed

lemma admit_tx_registry:
  assumes "admit_tx H now rnd spec t label key body d = Inr ((i, b), d')"
  shows "db_jobs d' = db_jobs d" and "get_pinned_spec d h = Some s \<Longrightarrow> get_pinned_spec d' h = Some s"
proof -
  consider "d' = d" | "admit_new H now rnd spec t (run_key_for H (spec_name spec) label key) key body d = Inr (i, d')"
  proof (cases b)
    case True
    with assms have "admit_tx H now rnd spec t label key body d = Inr ((i, True), d')" by simp
    from admit_tx_dup(1) [OF this] show ?thesis by (rule that(1))
  next
    case False
    with assms have "admit_tx H now rnd spec t label key body d = Inr ((i, False), d')" by simp
    from admit_tx_new [OF this] show ?thesis by (rule that(2))
  qed
  then have "db_jobs d' = db_jobs d \<and> (get_pinned_spec d h = Some s \<longrightarrow> get_pinned_spec d' h = Some s)"
  proof cases
    case 2
    have "db_jobs d' = db_jobs d"
      unfolding admit_new_cases(4) [OF 2] by (simp add: admitted_db_def)
    moreover have "get_pinned_spec d' h = get_pinned_spec (snd (pin_spec H now spec d)) h"
      by (rule get_pinned_spec_same) (rule admit_new_specs [OF 2])
    ultimately show ?thesis using pin_spec_keeps [of d h s H now spec] by simp
  qed simp
  then show "db_jobs d' = db_jobs d" and "get_pinned_spec d h = Some s \<Longrightarrow> get_pinned_spec d' h = Some s" by auto
qed

lemma admit_tx_registered:
  assumes "admit_tx H now rnd spec t label key body d = Inr ((i, b), d')"
    and "get_registered_job d job = Some x"
  shows "get_registered_job d' job = Some x"
proof -
  from assms(2) obtain j s where "row_of job_name job (db_jobs d) = Some j"
      "get_pinned_spec d (job_spec_hash j) = Some s" "x = (job_spec_hash j, job_source j, s)"
    by (auto simp: get_registered_job_def split: option.splits)
  then show ?thesis
    using admit_tx_registry(1) [OF assms(1)] admit_tx_registry(2) [OF assms(1), of "job_spec_hash j" s] by (simp add: get_registered_job_def)
qed

text \<open>An admission by a registered job, with the parts of the event it resolved.\<close>

lemma admit_run_registered:
  assumes "admit_run pe H now uuid rnd (RegisteredJob job) ev d = (Inr (i, b), d')"
    and "get_registered_job d job = Some (h, source, spec)"
  obtains t label key where "resolve_trigger H uuid spec ev = Inr (t, label, key)"
    "st_runnable (agent_job_provider_status pe (spec_agent spec))"
    "admit_tx H now rnd spec t label key (ev_body ev) d = Inr ((i, b), d')"
  using assms
  by (auto simp: admit_run_def source_spec_def Let_def tx_def split: sum.splits prod.splits if_splits)

lemma admit_run_resolved:
  assumes "get_registered_job d job = Some (h, source, spec)" and "resolve_trigger H uuid spec ev = Inr (t, label, key)"
    and "st_runnable (agent_job_provider_status pe (spec_agent spec))"
  shows "admit_run pe H now uuid rnd (RegisteredJob job) ev d = tx (admit_tx H now rnd spec t label key (ev_body ev)) d"
  using assms by (simp add: admit_run_def source_spec_def Let_def)

section \<open>Concrete instances\<close>

text \<open>A constant digest keeps the concrete instances small.\<close>

definition sample_hash :: "string \<Rightarrow> string" where
  "sample_hash s = ''h''"

definition sample_replacing :: job_spec where
  "sample_replacing = sample_spec\<lparr>spec_runtime := (spec_runtime sample_spec)\<lparr>rt_concurrency := Replace\<rparr>\<rparr>"

lemma sample_admit:
  "\<exists>d'. admit_tx sample_hash 5 ''a'' spec t label key body sample_db = Inr ((''run_a'', False), d')"
  by (simp add: admit_tx_def admit_new_def Let_def split_beta insert_run_def run_key_for_def sample_hash_def
      sample_db_def sample_run_def get_run_def empty_db_def new_id_def fresh_run_def)

lemma admit_creates_run_witness:
  "\<exists>d' r. get_run d' ''run_a'' = Some r \<and> run_state r = Skipped \<and> run_sealed_at r = Some 5
     \<and> run_key r = ''rk_h''"
proof -
  obtain d' where d': "admit_tx sample_hash 5 ''a'' sample_spec ApiTrigger ''api'' ''k1'' JNull sample_db
      = Inr ((''run_a'', False), d')" using sample_admit by blast
  have "active_runs sample_db (spec_name sample_spec) \<noteq> [] \<and> rt_concurrency (spec_runtime sample_spec) = Forbid"
    by code_simp
  then show ?thesis using admit_creates_run [OF d'] by (auto simp: run_key_for_def sample_hash_def)
qed

lemma admit_touches_others_witness:
  "\<exists>d'. get_run d' ''run_1'' = Some (replaced_row 5 ''run_a'' (sample_run ''run_1'' Running))"
proof -
  obtain d' where d': "admit_tx sample_hash 5 ''a'' sample_replacing ApiTrigger ''api'' ''k1'' JNull sample_db
      = Inr ((''run_a'', False), d')" using sample_admit by blast
  have "distinct (map run_id (db_runs sample_db))" by code_simp
  moreover have "rt_concurrency (spec_runtime sample_replacing) = Replace
      \<and> run_job (sample_run ''run_1'' Running) = spec_name sample_replacing
      \<and> is_active (run_state (sample_run ''run_1'' Running))"
    by code_simp
  ultimately show ?thesis using admit_touches_others [OF _ d' get_run_sample] by auto
qed

lemma admit_redelivered_witness:
  "\<exists>d'. admit_tx sample_hash 5 ''a'' sample_spec ApiTrigger ''api'' ''k1'' JNull sample_db = Inr ((''run_a'', False), d')
     \<and> admit_tx sample_hash 777 ''zz'' sample_replacing ApiTrigger ''api'' ''k1'' (JNum 3) d' = Inr ((''run_a'', True), d')"
proof -
  obtain d' where d': "admit_tx sample_hash 5 ''a'' sample_spec ApiTrigger ''api'' ''k1'' JNull sample_db
      = Inr ((''run_a'', False), d')" using sample_admit by blast
  have "distinct (map run_key (db_runs sample_db))" by code_simp
  moreover have "spec_name sample_replacing = spec_name sample_spec" by code_simp
  ultimately show ?thesis using d' admit_redelivered [OF _ d'] by blast
qed

definition sample_env :: provider_env where
  "sample_env = \<lparr>pe_test_allowed = False, pe_personal_agent = False,
     pe_probe = (\<lambda>p. if p = ''codex'' then Some (ProbeSaid True False None) else None), pe_discover = (\<lambda>r. (False, False, []))\<rparr>"

definition sample_event :: trigger_event where
  "sample_event = \<lparr>ev_type = ''api'', ev_name = [], ev_index = None, ev_dedupe = ''k1'', ev_body = JNull\<rparr>"

definition sample_registered :: db where
  "sample_registered = snd (register_job_spec sample_hash 1 sample_spec ''jobs/nightly.yaml'' empty_db)"

lemma admit_needs_provider_witness:
  "db_runs (snd (admit_run sample_env sample_hash 5 ''u'' ''a'' (RegisteredJob ''nightly'') sample_event sample_registered)) = []"
proof -
  have 1: "\<not> st_runnable (agent_job_provider_status sample_env (spec_agent sample_spec))" by code_simp
  have 2: "get_registered_job sample_registered ''nightly''
      = Some (spec_hash sample_hash sample_spec, ''jobs/nightly.yaml'', sample_spec)"
    by (simp add: sample_registered_def register_job_spec_def pin_spec_def Let_def get_registered_job_def
        get_pinned_spec_def empty_db_def sample_spec_def)
  have "db_runs sample_registered = []" by (simp add: sample_registered_def empty_db_def)
  then show ?thesis
    using admit_needs_provider [OF 1 2 surjective_pairing [of "admit_run sample_env sample_hash 5 ''u'' ''a'' (RegisteredJob ''nightly'') sample_event sample_registered"]]
    by auto
qed

lemma request_cancel_once_witness:
  "\<exists>r d'. request_cancel 40 ''run_1'' ''ana'' sample_db = (Inr r, d') \<and> snd (request_cancel 50 ''run_1'' ''bo'' d') = d'
     \<and> run_cancel_requested_at r \<noteq> None"
proof -
  have "\<exists>r. fst (request_cancel 40 ''run_1'' ''ana'' sample_db) = Inr r \<and> run_state r = Running"
    by (simp add: request_cancel_def Let_def get_run_update_run sample_run_def is_active_def active_run_states_def)
  then obtain r where r: "request_cancel 40 ''run_1'' ''ana'' sample_db = (Inr r, snd (request_cancel 40 ''run_1'' ''ana'' sample_db))"
      "run_state r = Running" by (metis prod.collapse)
  from request_cancel_once [OF r(1), of 50 "''bo''"] r show ?thesis by auto
qed

end
