(* ===== verification/JobEffects.thy ===== *)
theory JobEffects
  imports JobAdmission
begin

text \<open>
  The effect executor of Agent Job tool calls (\<open>agent-job-effects.js\<close>) with fault injection
  (\<open>agent-job-faults.js\<close>). A driver's code is a function on the world: the database, the
  external state \<open>'x\<close> that tools act on, and a turn counter. Every transaction of the driver
  takes one turn, in which the clock and the random source are read and before which other
  processes may have changed the database; the clock, the random source and the other processes
  are functions of the turn. A call throws by returning \<open>Inl\<close>; what was written stays written.
\<close>

section \<open>Faults\<close>

record fault =
  fault_at :: string
  fault_attempts :: "nat list option"
  fault_tool :: string
  fault_exit :: bool

definition fault_fires :: "string \<Rightarrow> nat option \<Rightarrow> string \<Rightarrow> fault \<Rightarrow> bool" where
  "fault_fires point attempt tool f \<longleftrightarrow>
     fault_at f = point
     \<and> (case fault_attempts f of None \<Rightarrow> True | Some ns \<Rightarrow> (case attempt of None \<Rightarrow> False | Some n \<Rightarrow> n \<in> set ns))
     \<and> (fault_tool f = [] \<or> fault_tool f = tool)"

definition inject_fault :: "fault list \<Rightarrow> string \<Rightarrow> nat option \<Rightarrow> string \<Rightarrow> (job_error, unit) result" where
  "inject_fault faults point attempt tool =
     (case find (fault_fires point attempt tool) faults of
        None \<Rightarrow> Inr ()
      | Some f \<Rightarrow> Inl (if fault_exit f then Killed point else InjectedCrash point))"

section \<open>Tools\<close>

record tool_ctx =
  cx_inputs :: json
  cx_run :: string
  cx_args :: json
  cx_key :: string

text \<open>What a reconcile hook answers, and what performing an effect ends in.\<close>

datatype verdict = Found json "string option" | Absent | ReconcileThrew string | NoVerdict

datatype performed = Performed json "string option" | PerformFailed string bool | PerformCrashed string

record 'x tool =
  tool_effect :: bool
  tool_logical :: "(tool_ctx \<Rightarrow> json) option"
  tool_reconcile :: "(effect_row \<Rightarrow> tool_ctx \<Rightarrow> 'x \<Rightarrow> verdict \<times> 'x) option"
  tool_perform :: "tool_ctx \<Rightarrow> 'x \<Rightarrow> performed \<times> 'x"

section \<open>Worlds and drivers\<close>

record 'x world =
  w_db :: db
  w_ext :: 'x
  w_turn :: nat

record surroundings =
  clock :: "nat \<Rightarrow> int"
  random_text :: "nat \<Rightarrow> string"
  others :: "nat \<Rightarrow> db \<Rightarrow> db"

text \<open>The \<open>rc\<close> of a drive: the run as it was read last, its pinned specification, the attempt.\<close>

record 'x run_ctx =
  rc_run :: run_row
  rc_spec :: job_spec
  rc_attempt :: "nat option"
  rc_holder :: string
  rc_secrets :: "string list"
  rc_faults :: "fault list"
  rc_channels :: "string list"
  rc_hash :: "string \<Rightarrow> string"
  rc_tools :: "string \<Rightarrow> 'x tool option"
  rc_env :: surroundings

type_synonym ('x, 'a) job = "'x world \<Rightarrow> (job_error, 'a) result \<times> 'x world"

definition job_return :: "'a \<Rightarrow> ('x, 'a) job" where
  "job_return a w = (Inr a, w)"

definition job_throw :: "job_error \<Rightarrow> ('x, 'a) job" where
  "job_throw e w = (Inl e, w)"

definition job_bind :: "('x, 'a) job \<Rightarrow> ('a \<Rightarrow> ('x, 'b) job) \<Rightarrow> ('x, 'b) job" where
  "job_bind m k w = (case m w of (Inl e, w') \<Rightarrow> (Inl e, w') | (Inr a, w') \<Rightarrow> k a w')"

definition job_lift :: "(job_error, 'a) result \<Rightarrow> ('x, 'a) job" where
  "job_lift r w = (r, w)"

text \<open>One transaction of the driver: it sees what the others did, and rolls back when it throws.\<close>

definition atomic :: "'x run_ctx \<Rightarrow> (int \<Rightarrow> string \<Rightarrow> db \<Rightarrow> (job_error, 'a \<times> db) result) \<Rightarrow> ('x, 'a) job" where
  "atomic rc f w =
     (let n = w_turn w;
          d = others (rc_env rc) n (w_db w)
      in (case tx (f (clock (rc_env rc) n) (random_text (rc_env rc) n)) d of
            (r, d') \<Rightarrow> (r, w\<lparr>w_db := d', w_turn := Suc n\<rparr>)))"

definition write_db :: "'x run_ctx \<Rightarrow> (int \<Rightarrow> db \<Rightarrow> db) \<Rightarrow> ('x, unit) job" where
  "write_db rc f = atomic rc (\<lambda>now rnd d. Inr ((), f now d))"

definition read_db :: "'x run_ctx \<Rightarrow> (int \<Rightarrow> db \<Rightarrow> 'a) \<Rightarrow> ('x, 'a) job" where
  "read_db rc f = atomic rc (\<lambda>now rnd d. Inr (f now d, d))"

definition external :: "('x \<Rightarrow> 'a \<times> 'x) \<Rightarrow> ('x, 'a) job" where
  "external f w = (case f (w_ext w) of (a, x) \<Rightarrow> (Inr a, w\<lparr>w_ext := x\<rparr>))"

definition fault_point :: "'x run_ctx \<Rightarrow> string \<Rightarrow> string \<Rightarrow> ('x, unit) job" where
  "fault_point rc point tool = job_lift (inject_fault (rc_faults rc) point (rc_attempt rc) tool)"

section \<open>Reconciliation\<close>

definition tool_context :: "'x run_ctx \<Rightarrow> json \<Rightarrow> string \<Rightarrow> tool_ctx" where
  "tool_context rc args key =
     \<lparr>cx_inputs = spec_inputs (rc_spec rc), cx_run = run_id (rc_run rc), cx_args = args, cx_key = key\<rparr>"

definition add_checkpoint :: "'x run_ctx \<Rightarrow> int \<Rightarrow> string \<Rightarrow> (string \<times> json) list \<Rightarrow> db \<Rightarrow> db" where
  "add_checkpoint rc now kind entry = append_checkpoint now (run_id (rc_run rc)) (rc_attempt rc) kind (JObj entry)"

text \<open>Reading a row that is not there and using it is a \<open>TypeError\<close>.\<close>

definition type_error :: job_error where
  "type_error = JobError ''TypeError'' 0"

definition effect_after :: "string \<Rightarrow> db \<Rightarrow> (job_error, effect_row) result" where
  "effect_after k d = (case get_effect d k of None \<Rightarrow> Inl type_error | Some e \<Rightarrow> Inr e)"

definition ask_tool :: "'x run_ctx \<Rightarrow> effect_row \<Rightarrow> ('x, verdict) job" where
  "ask_tool rc e =
     (case rc_tools rc (eff_tool e) of
        None \<Rightarrow> job_return NoVerdict
      | Some t \<Rightarrow> (case tool_reconcile t of
            None \<Rightarrow> job_return NoVerdict
          | Some f \<Rightarrow> external (f e (tool_context rc (eff_args e) (eff_key e)))))"

definition has_reconcile :: "'x run_ctx \<Rightarrow> string \<Rightarrow> bool" where
  "has_reconcile rc tool =
     (case rc_tools rc tool of None \<Rightarrow> False | Some t \<Rightarrow> tool_reconcile t \<noteq> None)"

definition settle_verdict :: "'x run_ctx \<Rightarrow> effect_row \<Rightarrow> verdict \<Rightarrow> int \<Rightarrow> db \<Rightarrow> db" where
  "settle_verdict rc e v now d =
     (case v of
        Found result ref \<Rightarrow> commit_effect now (eff_key e) (redact_value (rc_secrets rc) result) ref True d
      | Absent \<Rightarrow> fail_effect now (eff_key e) ''absent'' None d
      | ReconcileThrew msg \<Rightarrow> mark_effect_unknown now (eff_key e) (Some (if msg = [] then ''reconcile_failed'' else msg)) d
      | NoVerdict \<Rightarrow> mark_effect_unknown now (eff_key e)
          (Some (if has_reconcile rc (eff_tool e) then ''reconcile_failed'' else ''at_most_once_no_reconcile'')) d)"

definition record_verdict ::
  "'x run_ctx \<Rightarrow> effect_row \<Rightarrow> verdict \<Rightarrow> int \<Rightarrow> string \<Rightarrow> db \<Rightarrow> (job_error, effect_row \<times> db) result" where
  "record_verdict rc e v now rnd d =
     (let d1 = settle_verdict rc e v now d in
      and_then (effect_after (eff_key e) d1) (\<lambda>next.
        Inr (next, add_checkpoint rc now ''effect_reconciled''
          [(''effectKey'', JStr (eff_key e)), (''tool'', JStr (eff_tool e)),
           (''state'', JStr (effect_state_str (eff_state next))), (''outcome'', jstr_opt (eff_outcome next))] d1)))"

definition reconcile_effect :: "'x run_ctx \<Rightarrow> effect_row \<Rightarrow> ('x, effect_row) job" where
  "reconcile_effect rc e = job_bind (ask_tool rc e) (\<lambda>v. atomic rc (record_verdict rc e v))"

definition dispatched_open :: "effect_row \<Rightarrow> bool" where
  "dispatched_open e \<longleftrightarrow> eff_state e = Intended \<and> eff_dispatched_at e \<noteq> None"

fun reconcile_dispatched_effects :: "'x run_ctx \<Rightarrow> effect_row list \<Rightarrow> ('x, effect_row list) job" where
  "reconcile_dispatched_effects rc [] = job_return []"
| "reconcile_dispatched_effects rc (e # es) =
     (if dispatched_open e
      then job_bind (reconcile_effect rc e) (\<lambda>r.
             job_bind (reconcile_dispatched_effects rc es) (\<lambda>rs. job_return (r # rs)))
      else reconcile_dispatched_effects rc es)"

section \<open>Approvals\<close>

datatype gate = GateGo | GatePark approval_row | GateExpired approval_row | GateOutcome string

definition request_approval ::
  "'x run_ctx \<Rightarrow> effect_row \<Rightarrow> string \<Rightarrow> int \<Rightarrow> string \<Rightarrow> db \<Rightarrow> (job_error, approval_row \<times> db) result" where
  "request_approval rc e reason now rnd d =
     and_then (create_approval now rnd
         \<lparr>req_run = run_id (rc_run rc), req_effect_key = eff_key e, req_args_hash = eff_args_hash e,
          req_tool = eff_tool e, req_args = eff_args e, req_reason = reason,
          req_ttl_ms = rt_approval_timeout_ms (spec_runtime (rc_spec rc))\<rparr> d)
       (\<lambda>(a, d1). Inr (a, add_checkpoint rc now ''approval_requested''
          [(''approvalId'', JStr (apr_id a)), (''effectKey'', JStr (eff_key e)), (''tool'', JStr (eff_tool e)),
           (''reason'', JStr reason)] d1))"

definition live_approval :: "effect_row \<Rightarrow> string \<Rightarrow> db \<Rightarrow> approval_row option" where
  "live_approval e reason d =
     (case find_approval d (eff_key e) (eff_args_hash e) of
        None \<Rightarrow> None
      | Some a \<Rightarrow> if apr_reason a = reason \<and> apr_consumed_at a = None then Some a else None)"

definition expired_version :: "int \<Rightarrow> approval_row \<Rightarrow> db \<Rightarrow> approval_row" where
  "expired_version now a d = (case get_approval d (apr_id a) of None \<Rightarrow> a | Some x \<Rightarrow> x)"

definition approval_gate ::
  "'x run_ctx \<Rightarrow> effect_row \<Rightarrow> string \<Rightarrow> int \<Rightarrow> string \<Rightarrow> db \<Rightarrow> (job_error, gate \<times> db) result" where
  "approval_gate rc e reason now rnd d =
     (case live_approval e reason d of
        None \<Rightarrow> and_then (request_approval rc e reason now rnd d) (\<lambda>(a, d1). Inr (GatePark a, d1))
      | Some a \<Rightarrow>
          (case apr_state a of
             ApprovalPending \<Rightarrow>
               if apr_expires_at a \<le> now
               then (let d1 = expire_approval now (apr_id a) d in Inr (GateExpired (expired_version now a d1), d1))
               else Inr (GatePark a, d)
           | Approved \<Rightarrow>
               (case consume_approval now (apr_id a) d of
                  (False, d1) \<Rightarrow> Inr (GatePark a, d1)
                | (True, d1) \<Rightarrow>
                    let d2 = (if reason = ''effect_unknown'' then reopen_effect now (eff_key e) d1 else d1)
                    in Inr (GateGo, add_checkpoint rc now ''approval_consumed''
                         [(''approvalId'', JStr (apr_id a)), (''effectKey'', JStr (eff_key e))] d2))
           | Denied \<Rightarrow>
               let outcome = (if reason = ''effect_unknown'' then ''skipped'' else ''denied'')
               in Inr (GateOutcome outcome, fail_effect now (eff_key e) outcome None d)
           | Expired \<Rightarrow> Inr (GateExpired a, d)))"

text \<open>Recovery: every unknown effect of the run has an approval that a person decides.\<close>

fun ensure_approvals ::
  "'x run_ctx \<Rightarrow> effect_row list \<Rightarrow> int \<Rightarrow> string \<Rightarrow> db \<Rightarrow> (job_error, approval_row list \<times> db) result" where
  "ensure_approvals rc [] now rnd d = Inr ([], d)"
| "ensure_approvals rc (e # es) now rnd d =
     and_then
       (case live_approval e ''effect_unknown'' d of
          Some a \<Rightarrow> Inr (a, d)
        | None \<Rightarrow> request_approval rc e ''effect_unknown'' now (rnd @ ''_'' @ nat_str (length es)) d)
       (\<lambda>(a, d1). and_then (ensure_approvals rc es now rnd d1) (\<lambda>(as, d2). Inr (a # as, d2)))"

definition ensure_unknown_effect_approvals :: "'x run_ctx \<Rightarrow> ('x, approval_row list) job" where
  "ensure_unknown_effect_approvals rc = atomic rc (\<lambda>now rnd d.
     ensure_approvals rc (filter (\<lambda>e. eff_state e = Unknown) (list_effects d (run_id (rc_run rc)))) now rnd d)"

section \<open>Dispatch\<close>

datatype tool_status =
    ToolDenied
  | ToolUnknown
  | ToolCancelled
  | ToolOk json
  | ToolError string
  | ToolDeduplicated json "string option"
  | ToolReconciled json "string option"
  | ToolCommitted json "string option"
  | ToolPark approval_row
  | ToolExpired "approval_row option"
  | ToolRefused string

text \<open>Whether a new effect may start: \<open>Some True\<close> to go on, \<open>Some False\<close> after a cancel, \<open>None\<close> without the lease.\<close>

definition may_dispatch :: "string \<Rightarrow> string \<Rightarrow> int \<Rightarrow> db \<Rightarrow> bool option" where
  "may_dispatch i holder now d =
     (if (case get_run d i of None \<Rightarrow> False | Some r \<Rightarrow> run_cancel_requested_at r \<noteq> None) then Some False
      else if holds_lease now i holder d then Some True else None)"

definition ensure_may_dispatch :: "'x run_ctx \<Rightarrow> ('x, bool) job" where
  "ensure_may_dispatch rc =
     job_bind (read_db rc (may_dispatch (run_id (rc_run rc)) (rc_holder rc))) (\<lambda>x.
       case x of None \<Rightarrow> job_throw LeaseLost | Some go \<Rightarrow> job_return go)"

definition mark_dispatched :: "'x run_ctx \<Rightarrow> effect_row \<Rightarrow> int \<Rightarrow> db \<Rightarrow> db" where
  "mark_dispatched rc e now d = add_checkpoint rc now ''effect_dispatched''
     [(''effectKey'', JStr (eff_key e)), (''tool'', JStr (eff_tool e))] (mark_effect_dispatched now (eff_key e) d)"

definition record_failure :: "'x run_ctx \<Rightarrow> effect_row \<Rightarrow> string \<Rightarrow> bool \<Rightarrow> int \<Rightarrow> db \<Rightarrow> db" where
  "record_failure rc e msg outcome_unknown now d =
     add_checkpoint rc now ''effect_failed''
       [(''effectKey'', JStr (eff_key e)), (''tool'', JStr (eff_tool e)), (''error'', JStr msg)]
       (if outcome_unknown then mark_effect_unknown now (eff_key e) (Some msg) d
        else fail_effect now (eff_key e) ''failed'' (Some msg) d)"

definition record_commit ::
  "'x run_ctx \<Rightarrow> effect_row \<Rightarrow> json \<Rightarrow> string option \<Rightarrow> int \<Rightarrow> string \<Rightarrow> db \<Rightarrow> (job_error, effect_row \<times> db) result" where
  "record_commit rc e result ref now rnd d =
     (let d1 = commit_effect now (eff_key e) (redact_value (rc_secrets rc) result) ref False d in
      and_then (effect_after (eff_key e) d1) (\<lambda>next.
        Inr (next, add_checkpoint rc now ''effect_committed''
          [(''effectKey'', JStr (eff_key e)), (''tool'', JStr (eff_tool e)), (''ref'', jstr_opt (eff_ref next))] d1)))"

text \<open>What happens after the tool returned or threw.\<close>

definition after_perform :: "'x run_ctx \<Rightarrow> effect_row \<Rightarrow> performed \<Rightarrow> ('x, tool_status) job" where
  "after_perform rc e p =
     (case p of
        PerformCrashed point \<Rightarrow> job_throw (InjectedCrash point)
      | PerformFailed msg0 unknown \<Rightarrow>
          (let msg = redact_string (rc_secrets rc) msg0 in
           job_bind (write_db rc (record_failure rc e msg unknown)) (\<lambda>_. job_return (ToolError msg)))
      | Performed result ref \<Rightarrow>
          job_bind (fault_point rc ''effect_performed'' (eff_tool e)) (\<lambda>_.
            job_bind (atomic rc (record_commit rc e result ref)) (\<lambda>c.
              job_bind (fault_point rc ''effect_committed'' (eff_tool e)) (\<lambda>_.
                job_return (ToolCommitted (eff_result c) (eff_ref c))))))"

definition dispatch :: "'x run_ctx \<Rightarrow> 'x tool \<Rightarrow> effect_row \<Rightarrow> json \<Rightarrow> ('x, tool_status) job" where
  "dispatch rc t e args =
     job_bind (ensure_may_dispatch rc) (\<lambda>go.
       if \<not> go then job_return ToolCancelled
       else job_bind (write_db rc (mark_dispatched rc e)) (\<lambda>_.
         job_bind (fault_point rc ''effect_dispatched'' (eff_tool e)) (\<lambda>_.
           job_bind (external (tool_perform t (tool_context rc args (eff_key e)))) (after_perform rc e))))"

section \<open>One tool call\<close>

record tool_call =
  call_tool :: string
  call_args :: json
  call_step :: json

definition call_arguments :: "tool_call \<Rightarrow> json" where
  "call_arguments c = (if is_obj_or_arr (call_args c) then call_args c else JObj [])"

definition note_decision :: "'x run_ctx \<Rightarrow> tool_call \<Rightarrow> tool_decision \<Rightarrow> int \<Rightarrow> db \<Rightarrow> db" where
  "note_decision rc c x now = add_checkpoint rc now ''tool_decision''
     [(''tool'', JStr (call_tool c)), (''decision'', JStr (decision_str x)), (''stepIndex'', call_step c)]"

definition perform_read_only :: "'x run_ctx \<Rightarrow> 'x tool \<Rightarrow> json \<Rightarrow> ('x, tool_status) job" where
  "perform_read_only rc t args =
     job_bind (ensure_may_dispatch rc) (\<lambda>go.
       if \<not> go then job_return ToolCancelled
       else job_bind (external (tool_perform t (tool_context rc args []))) (\<lambda>p.
         job_return (case p of
           Performed result ref \<Rightarrow> ToolOk (redact_value (rc_secrets rc) result)
         | PerformFailed msg u \<Rightarrow> ToolError (redact_string (rc_secrets rc) msg)
         | PerformCrashed point \<Rightarrow> ToolError (redact_string (rc_secrets rc) (''agent_job_injected_crash:'' @ point)))))"

definition logical_key :: "'x run_ctx \<Rightarrow> 'x tool \<Rightarrow> json \<Rightarrow> json" where
  "logical_key rc t args =
     (case tool_logical t of
        Some f \<Rightarrow> f (tool_context rc args [])
      | None \<Rightarrow> JArr [JStr ''args'', JStr (args_hash_for (rc_hash rc) args)])"

definition call_effect_key :: "'x run_ctx \<Rightarrow> 'x tool \<Rightarrow> tool_call \<Rightarrow> string" where
  "call_effect_key rc t c =
     effect_key_for (rc_hash rc) (run_id (rc_run rc)) (call_tool c) (logical_key rc t (call_arguments c))"

definition call_intent :: "'x run_ctx \<Rightarrow> 'x tool \<Rightarrow> tool_call \<Rightarrow> effect_intent" where
  "call_intent rc t c = \<lparr>int_key = call_effect_key rc t c, int_run = run_id (rc_run rc), int_tool = call_tool c,
     int_args_hash = args_hash_for (rc_hash rc) (call_arguments c),
     int_args = redact_value (rc_secrets rc) (call_arguments c),
     int_mode = (if tool_reconcile t = None then ''at_most_once'' else ''reconcilable'')\<rparr>"

definition record_intent ::
  "'x run_ctx \<Rightarrow> effect_intent \<Rightarrow> int \<Rightarrow> string \<Rightarrow> db \<Rightarrow> (job_error, effect_row \<times> db) result" where
  "record_intent rc i now rnd d =
     (case intend_effect now i d of
        (e, d1) \<Rightarrow> Inr (e, add_checkpoint rc now ''effect_intended''
          [(''effectKey'', JStr (int_key i)), (''tool'', JStr (int_tool i)), (''argsHash'', JStr (int_args_hash i)),
           (''state'', JStr (effect_state_str (eff_state e)))] d1))"

definition gate_status :: "gate \<Rightarrow> tool_status" where
  "gate_status g = (case g of
     GatePark a \<Rightarrow> ToolPark a
   | GateExpired a \<Rightarrow> ToolExpired (Some a)
   | GateOutcome s \<Rightarrow> ToolRefused s
   | GateGo \<Rightarrow> ToolRefused [])"

definition reopen :: "string \<Rightarrow> int \<Rightarrow> string \<Rightarrow> db \<Rightarrow> (job_error, effect_row \<times> db) result" where
  "reopen k now rnd d = (let d1 = reopen_effect now k d in and_then (effect_after k d1) (\<lambda>e. Inr (e, d1)))"

definition reread :: "string \<Rightarrow> int \<Rightarrow> string \<Rightarrow> db \<Rightarrow> (job_error, effect_row \<times> db) result" where
  "reread k now rnd d = and_then (effect_after k d) (\<lambda>e. Inr (e, d))"

text \<open>The last check and the dispatch, with the effect row as the gate left it.\<close>

definition dispatch_checked :: "'x run_ctx \<Rightarrow> 'x tool \<Rightarrow> effect_intent \<Rightarrow> effect_row \<Rightarrow> json \<Rightarrow> ('x, tool_status) job" where
  "dispatch_checked rc t i e args =
     job_bind (atomic rc (reread (int_key i))) (\<lambda>now_e.
       if eff_args_hash now_e \<noteq> int_args_hash i then job_return (ToolError ''effect_args_changed'')
       else dispatch rc t e args)"

definition pass_gate ::
  "'x run_ctx \<Rightarrow> 'x tool \<Rightarrow> tool_decision \<Rightarrow> effect_intent \<Rightarrow> effect_row \<Rightarrow> json \<Rightarrow> ('x, tool_status) job" where
  "pass_gate rc t x i e args =
     (if eff_state e = Unknown then
        job_bind (atomic rc (approval_gate rc e ''effect_unknown'')) (\<lambda>g.
          if g \<noteq> GateGo then job_return (gate_status g)
          else job_bind (atomic rc (reread (int_key i))) (\<lambda>e1. dispatch_checked rc t i e1 args))
      else if x = ApprovalRequired then
        job_bind (atomic rc (approval_gate rc e ''approval_required'')) (\<lambda>g.
          if g \<noteq> GateGo then job_return (gate_status g) else dispatch_checked rc t i e args)
      else dispatch_checked rc t i e args)"

definition refusing_outcome :: "string option \<Rightarrow> bool" where
  "refusing_outcome x \<longleftrightarrow> x = Some ''denied'' \<or> x = Some ''skipped'' \<or> x = Some ''expired''"

text \<open>An effect that was refused earlier answers with its outcome, which for an expired one has no approval.\<close>

definition refused_status :: "string \<Rightarrow> tool_status" where
  "refused_status outcome = (if outcome = ''expired'' then ToolExpired None else ToolRefused outcome)"

definition resume_effect ::
  "'x run_ctx \<Rightarrow> 'x tool \<Rightarrow> tool_decision \<Rightarrow> effect_intent \<Rightarrow> effect_row \<Rightarrow> json \<Rightarrow> ('x, tool_status) job" where
  "resume_effect rc t x i e args =
     (if eff_state e = Committed then job_return (ToolReconciled (eff_result e) (eff_ref e))
      else if eff_state e = EffectFailed then
        (if refusing_outcome (eff_outcome e) then job_return (refused_status (case eff_outcome e of None \<Rightarrow> [] | Some s \<Rightarrow> s))
         else job_bind (atomic rc (reopen (int_key i))) (\<lambda>e1. pass_gate rc t x i e1 args))
      else pass_gate rc t x i e args)"

definition execute_effect :: "'x run_ctx \<Rightarrow> 'x tool \<Rightarrow> tool_decision \<Rightarrow> tool_call \<Rightarrow> ('x, tool_status) job" where
  "execute_effect rc t x c =
     (let i = call_intent rc t c; args = call_arguments c in
      job_bind (atomic rc (record_intent rc i)) (\<lambda>e.
        job_bind (fault_point rc ''effect_intended'' (call_tool c)) (\<lambda>_.
          if eff_state e = Committed then
            job_bind (write_db rc (\<lambda>now. add_checkpoint rc now ''effect_deduplicated''
                [(''effectKey'', JStr (int_key i)), (''tool'', JStr (call_tool c))])) (\<lambda>_.
              job_return (ToolDeduplicated (eff_result e) (eff_ref e)))
          else if dispatched_open e then
            job_bind (reconcile_effect rc e) (\<lambda>e1. resume_effect rc t x i e1 args)
          else resume_effect rc t x i e args)))"

definition execute_tool_call :: "'x run_ctx \<Rightarrow> tool_call \<Rightarrow> ('x, tool_status) job" where
  "execute_tool_call rc c =
     (let x = agent_job_tool_decision (spec_tools (rc_spec rc)) (call_tool c) in
      job_bind (write_db rc (note_decision rc c x)) (\<lambda>_.
        if x = Deny then job_return ToolDenied
        else (case rc_tools rc (call_tool c) of
                None \<Rightarrow> job_return ToolUnknown
              | Some t \<Rightarrow>
                  if \<not> tool_effect t \<and> x = Allow then perform_read_only rc t (call_arguments c)
                  else execute_effect rc t x c)))"

end
