(* ===== verification/EffectsOnce.thy ===== *)
theory EffectsOnce
  imports JobEffects
begin

text \<open>
  The executor performs an effect of a reconcilable tool at most once per effect key, over any
  crash at a fault point and any recovery, whatever other processes write apart from the effect
  table. A reconcilable tool is an interface (a locale): performing it leaves one mark under its
  effect key, and reconciling it finds the mark exactly when it is there.
\<close>

section \<open>A Hoare logic over the effect table\<close>

text \<open>Other processes leave the effect table alone: only the lease holder of a run writes it.\<close>

definition quiet :: "surroundings \<Rightarrow> bool" where
  "quiet en \<longleftrightarrow> (\<forall>n d. db_effects (others en n d) = db_effects d)"

type_synonym ('x, 'a) post = "(job_error, 'a) result \<Rightarrow> effect_row list \<Rightarrow> 'x \<Rightarrow> bool"

definition hoare :: "(effect_row list \<Rightarrow> 'x \<Rightarrow> bool) \<Rightarrow> ('x, 'a) job \<Rightarrow> ('x, 'a) post \<Rightarrow> bool" where
  "hoare P m Q \<longleftrightarrow> (\<forall>w. P (db_effects (w_db w)) (w_ext w) \<longrightarrow>
     (case m w of (r, w') \<Rightarrow> Q r (db_effects (w_db w')) (w_ext w')))"

lemma hoare_return: "(\<And>es x. P es x \<Longrightarrow> Q (Inr a) es x) \<Longrightarrow> hoare P (job_return a) Q"
  by (simp add: hoare_def job_return_def)

lemma hoare_throw: "(\<And>es x. P es x \<Longrightarrow> Q (Inl e) es x) \<Longrightarrow> hoare P (job_throw e) Q"
  by (simp add: hoare_def job_throw_def)

lemma hoare_lift: "(\<And>es x. P es x \<Longrightarrow> Q r es x) \<Longrightarrow> hoare P (job_lift r) Q"
  by (simp add: hoare_def job_lift_def)

lemma hoare_bind:
  fixes P :: "effect_row list \<Rightarrow> 'x \<Rightarrow> bool"
  assumes "hoare P m R" and "\<And>e es x. R (Inl e) es x \<Longrightarrow> Q (Inl e) es x"
    and "\<And>a. hoare (R (Inr a)) (k a) Q"
  shows "hoare P (job_bind m k) Q"
  unfolding hoare_def
proof (intro allI impI)
  fix w :: "'x world"
  assume "P (db_effects (w_db w)) (w_ext w)"
  with assms(1) have R: "R (fst (m w)) (db_effects (w_db (snd (m w)))) (w_ext (snd (m w)))"
    unfolding hoare_def by (simp add: split_beta)
  obtain r w' where m: "m w = (r, w')" by fastforce
  show "case job_bind m k w of (r, w') \<Rightarrow> Q r (db_effects (w_db w')) (w_ext w')"
  proof (cases r)
    case (Inl e)
    with R m assms(2) show ?thesis by (simp add: job_bind_def)
  next
    case (Inr a)
    with R m assms(3) show ?thesis unfolding hoare_def by (simp add: job_bind_def)
  qed
qed

lemma hoare_weaken: "hoare P m Q \<Longrightarrow> (\<And>es x. P' es x \<Longrightarrow> P es x) \<Longrightarrow>
    (\<And>r es x. Q r es x \<Longrightarrow> Q' r es x) \<Longrightarrow> hoare P' m Q'"
  unfolding hoare_def by (simp add: split_beta)

lemma hoare_fact:
  fixes P :: "effect_row list \<Rightarrow> 'x \<Rightarrow> bool"
  assumes "\<And>es x. P es x \<Longrightarrow> C" and "C \<Longrightarrow> hoare P m Q"
  shows "hoare P m Q"
  unfolding hoare_def
proof (intro allI impI)
  fix w :: "'x world"
  assume P: "P (db_effects (w_db w)) (w_ext w)"
  have "hoare P m Q" by (rule assms(2), rule assms(1), rule P)
  from this [unfolded hoare_def, rule_format, OF P]
  show "case m w of (r, w') \<Rightarrow> Q r (db_effects (w_db w')) (w_ext w')" .
qed

lemma hoare_atomic:
  fixes P :: "effect_row list \<Rightarrow> 'x \<Rightarrow> bool"
  assumes "quiet (rc_env rc)"
    and "\<And>now rnd d x. P (db_effects d) x \<Longrightarrow>
      (case f now rnd d of Inl e \<Rightarrow> Q (Inl e) (db_effects d) x | Inr (a, d') \<Rightarrow> Q (Inr a) (db_effects d') x)"
  shows "hoare P (atomic rc f) Q"
  unfolding hoare_def
proof (intro allI impI)
  fix w :: "'x world"
  let ?d = "others (rc_env rc) (w_turn w) (w_db w)"
  let ?f = "f (clock (rc_env rc) (w_turn w)) (random_text (rc_env rc) (w_turn w)) ?d"
  assume "P (db_effects (w_db w)) (w_ext w)"
  then have "P (db_effects ?d) (w_ext w)" using assms(1) by (simp add: quiet_def)
  from assms(2) [OF this] have "case ?f of Inl e \<Rightarrow> Q (Inl e) (db_effects ?d) (w_ext w)
      | Inr (a, d') \<Rightarrow> Q (Inr a) (db_effects d') (w_ext w)" .
  then show "case atomic rc f w of (r, w') \<Rightarrow> Q r (db_effects (w_db w')) (w_ext w')"
    by (simp add: atomic_def Let_def tx_def split: sum.splits prod.splits)
qed

lemma hoare_write:
  assumes "quiet (rc_env rc)" and "\<And>now d x. P (db_effects d) x \<Longrightarrow> Q (Inr ()) (db_effects (f now d)) x"
  shows "hoare P (write_db rc f) Q"
  unfolding write_db_def by (rule hoare_atomic) (use assms in simp_all)

lemma hoare_read:
  assumes "quiet (rc_env rc)" and "\<And>a es x. P es x \<Longrightarrow> Q (Inr a) es x"
  shows "hoare P (read_db rc f) Q"
  unfolding read_db_def by (rule hoare_atomic) (use assms in simp_all)

lemma hoare_external:
  "(\<And>es x a x'. P es x \<Longrightarrow> f x = (a, x') \<Longrightarrow> Q (Inr a) es x') \<Longrightarrow> hoare P (external f) Q"
  unfolding hoare_def external_def by (auto split: prod.splits)

lemma hoare_fault:
  "(\<And>r es x. P es x \<Longrightarrow> Q r es x) \<Longrightarrow> hoare P (fault_point rc point tool) Q"
  unfolding fault_point_def by (rule hoare_lift) simp

lemma hoare_ensure_may_dispatch:
  assumes "quiet (rc_env rc)" and "\<And>r es x. P es x \<Longrightarrow> Q r es x"
  shows "hoare P (ensure_may_dispatch rc) Q"
  unfolding ensure_may_dispatch_def
proof (rule hoare_bind [where R = "\<lambda>r. P"])
  show "hoare P (read_db rc (may_dispatch (run_id (rc_run rc)) (rc_holder rc))) (\<lambda>r. P)"
    by (rule hoare_read [OF assms(1)])
  show "hoare P (case a of None \<Rightarrow> job_throw LeaseLost | Some go \<Rightarrow> job_return go) Q" for a
    by (cases a) (auto intro: hoare_throw hoare_return assms(2))
qed (rule assms(2))

section \<open>The effect table\<close>

definition eff_at :: "effect_row list \<Rightarrow> string \<Rightarrow> effect_row option" where
  "eff_at es k = row_of eff_key k es"

lemma eff_at_db: "eff_at (db_effects d) k = get_effect d k"
  by (simp add: eff_at_def get_effect_def)

lemma add_checkpoint_effects [simp]: "db_effects (add_checkpoint rc now kind entry d) = db_effects d"
  by (simp add: add_checkpoint_def)

lemma request_approval_effects:
  "request_approval rc e reason now rnd d = Inr (a, d') \<Longrightarrow> db_effects d' = db_effects d"
  by (auto simp: request_approval_def and_then_Inr_iff dest!: only_approvals_create only_approvals_frame(6))

lemma eff_at_upd:
  assumes "\<And>e. eff_key (f e) = eff_key e"
  shows "eff_at (db_effects (upd_effect k f d)) j
    = (if j = k then map_option f (eff_at (db_effects d) j) else eff_at (db_effects d) j)"
  using get_effect_upd [OF assms] by (simp add: eff_at_db)

text \<open>
  Keys are unique, and a key stands for one tool and one run: \<open>owner\<close> says which, so that its
  existence is the absence of digest collisions. The invariant: under a key at most one mark, only for a marking tool, and only while the
  effect's row says committed, or dispatched and not yet settled.
\<close>

definition table_ok :: "(string \<Rightarrow> string \<times> string) \<Rightarrow> effect_row list \<Rightarrow> bool" where
  "table_ok owner es \<longleftrightarrow> distinct (map eff_key es)
     \<and> (\<forall>k e. eff_at es k = Some e \<longrightarrow> owner k = (eff_tool e, eff_run e))"

definition once_ok :: "(string \<Rightarrow> string \<times> string) \<Rightarrow> (string \<Rightarrow> bool) \<Rightarrow> ('x \<Rightarrow> string \<Rightarrow> nat) \<Rightarrow> effect_row list \<Rightarrow> 'x \<Rightarrow> bool" where
  "once_ok owner marking marks es x \<longleftrightarrow> table_ok owner es \<and>
     (\<forall>k. marks x k \<noteq> 0 \<longrightarrow> marks x k = 1 \<and>
       (\<exists>e. eff_at es k = Some e \<and> marking (eff_tool e) \<and> (eff_state e = Committed \<or> dispatched_open e)))"

definition settled :: "string \<Rightarrow> effect_row list \<Rightarrow> bool" where
  "settled i es \<longleftrightarrow> (\<forall>k e. eff_at es k = Some e \<and> eff_run e = i \<longrightarrow> \<not> dispatched_open e)"

text \<open>One row changes, from \<open>e\<close> to \<open>e'\<close>.\<close>

definition row_changed :: "(string \<Rightarrow> string \<times> string) \<Rightarrow> string \<Rightarrow> effect_row \<Rightarrow> effect_row list \<Rightarrow> effect_row list \<Rightarrow> bool" where
  "row_changed owner k e' es es' \<longleftrightarrow> (\<forall>j. eff_at es' j = (if j = k then Some e' else eff_at es j))
     \<and> (table_ok owner es \<longrightarrow> table_ok owner es')"

lemma once_ok_unmarked:
  assumes "once_ok owner marking marks es x" and "eff_at es k = Some e" and "\<not> dispatched_open e" "eff_state e \<noteq> Committed"
  shows "marks x k = 0"
  using assms by (fastforce simp: once_ok_def)

lemma once_ok_marked:
  assumes "once_ok owner marking marks es x" and "eff_at es k = Some e" and "marks x k \<noteq> 0"
  shows "marking (eff_tool e)" and "marks x k = 1"
  using assms unfolding once_ok_def by (metis option.inject)+

lemma once_ok_fresh:
  assumes "once_ok owner marking marks es x" and "eff_at es k = None"
  shows "marks x k = 0"
  using assms by (fastforce simp: once_ok_def)

lemma once_ok_changed:
  assumes "once_ok owner marking marks es x" and "row_changed owner k e' es es'"
    and "marks x k \<noteq> 0 \<Longrightarrow> marking (eff_tool e') \<and> (eff_state e' = Committed \<or> dispatched_open e')"
  shows "once_ok owner marking marks es' x"
  unfolding once_ok_def
proof (intro conjI allI impI)
  show "table_ok owner es'" using assms(1,2) by (simp add: once_ok_def row_changed_def)
next
  fix j
  assume "marks x j \<noteq> 0"
  then show "marks x j = 1" using assms(1) by (simp add: once_ok_def)
next
  fix j
  assume j: "marks x j \<noteq> 0"
  with assms(1) obtain e where e: "marks x j = 1" "eff_at es j = Some e" "marking (eff_tool e)"
      "eff_state e = Committed \<or> dispatched_open e" unfolding once_ok_def by blast
  show "\<exists>e. eff_at es' j = Some e \<and> marking (eff_tool e) \<and> (eff_state e = Committed \<or> dispatched_open e)"
    using e j assms(2,3) by (cases "j = k") (auto simp: row_changed_def)
qed

lemma upd_effect_keys [simp]:
  assumes "\<And>e. eff_key (f e) = eff_key e"
  shows "map eff_key (db_effects (upd_effect k f d)) = map eff_key (db_effects d)"
  using assms by (simp add: upd_effect_def map_upd_rows)

lemma settled_changed:
  assumes "settled i es" and "row_changed owner k e' es es'" and "\<not> dispatched_open e'"
  shows "settled i es'"
  using assms unfolding settled_def row_changed_def by (metis option.inject)

lemma row_changed_at: "row_changed owner k e' es es' \<Longrightarrow> eff_at es' k = Some e'"
  by (simp add: row_changed_def)

lemma table_ok_mapped:
  assumes "table_ok owner es" and "map eff_key es' = map eff_key es"
    and "\<And>j. eff_at es' j = (if j = k then map_option f (eff_at es j) else eff_at es j)"
    and "\<And>e. eff_at es k = Some e \<Longrightarrow> eff_tool (f e) = eff_tool e \<and> eff_run (f e) = eff_run e"
  shows "table_ok owner es'"
  using assms by (auto simp: table_ok_def split: if_splits)

lemma table_ok_upd:
  assumes "table_ok owner (db_effects d)"
    and "\<And>e. eff_key (f e) = eff_key e" "\<And>e. eff_tool (f e) = eff_tool e" "\<And>e. eff_run (f e) = eff_run e"
  shows "table_ok owner (db_effects (upd_effect k f d))"
  by (rule table_ok_mapped [OF assms(1), where k = k and f = f]) (simp_all add: assms(2-4) eff_at_upd [OF assms(2)])

lemma row_changed_upd:
  assumes "\<And>e. eff_key (f e) = eff_key e" and "eff_at (db_effects d) k = Some e"
    and "\<And>e. eff_tool (f e) = eff_tool e \<and> eff_run (f e) = eff_run e"
  shows "row_changed owner k (f e) (db_effects d) (db_effects (upd_effect k f d))"
proof -
  have "table_ok owner (db_effects (upd_effect k f d))" if "table_ok owner (db_effects d)"
    by (rule table_ok_mapped [OF that, where k = k and f = f]) (simp_all add: assms(1,3) eff_at_upd [OF assms(1)])
  then show ?thesis using assms(2) by (simp add: row_changed_def eff_at_upd [OF assms(1)])
qed

lemma eff_at_key: "eff_at es k = Some e \<Longrightarrow> eff_key e = k"
  by (auto simp: eff_at_def dest: row_of_Some_key)

lemma upd_effect_effects_cong:
  "db_effects d1 = db_effects d \<Longrightarrow> db_effects (upd_effect k f d1) = db_effects (upd_effect k f d)"
  by (simp add: upd_effect_def)

lemma approval_gate_effects:
  assumes "approval_gate rc e reason now rnd d = Inr (g, d')"
  shows "db_effects d' = db_effects d \<and> (g = GateGo \<longrightarrow> reason \<noteq> ''effect_unknown'')
    \<or> db_effects d' = db_effects (reopen_effect now (eff_key e) d) \<and> g = GateGo \<and> reason = ''effect_unknown''
    \<or> (\<exists>outcome. db_effects d' = db_effects (fail_effect now (eff_key e) outcome None d) \<and> g \<noteq> GateGo)"
proof (cases "live_approval e reason d")
  case None
  with assms show ?thesis
    by (auto simp: approval_gate_def and_then_Inr_iff dest: request_approval_effects)
next
  case (Some a)
  show ?thesis
  proof (cases "apr_state a")
    case Approved
    obtain b d1 where c: "consume_approval now (apr_id a) d = (b, d1)" by fastforce
    have same: "db_effects d1 = db_effects d" using only_approvals_frame(6) [OF only_approvals_consume [OF c]] .
    then have "db_effects (reopen_effect now k d1) = db_effects (reopen_effect now k d)" for k
      unfolding reopen_effect_def by (rule upd_effect_effects_cong)
    then show ?thesis
      using assms Some Approved c same by (auto simp: approval_gate_def Let_def split: bool.splits if_splits)
  qed (use assms Some in \<open>auto simp: approval_gate_def Let_def only_approvals_frame(6) [OF only_approvals_expire]
        split: if_splits\<close>)
qed

text \<open>The rows of the run that are still open are among the listed keys.\<close>

definition open_in :: "string \<Rightarrow> string set \<Rightarrow> effect_row list \<Rightarrow> bool" where
  "open_in i ks es \<longleftrightarrow> (\<forall>k e. eff_at es k = Some e \<and> eff_run e = i \<and> dispatched_open e \<longrightarrow> k \<in> ks)"

lemma open_in_settled: "open_in i {} es \<longleftrightarrow> settled i es"
  by (auto simp: open_in_def settled_def)

definition row_there :: "effect_row \<Rightarrow> effect_row list \<Rightarrow> bool" where
  "row_there e es \<longleftrightarrow> eff_at es (eff_key e) = Some e"

section \<open>The effects a recovery reads\<close>

lemma list_effects_rows:
  assumes "distinct (map eff_key (db_effects d))"
  shows "distinct (map eff_key (list_effects d i))"
    and "e \<in> set (list_effects d i) \<Longrightarrow> row_there e (db_effects d) \<and> eff_run e = i"
    and "open_in i (eff_key ` set (list_effects d i)) (db_effects d)"
proof -
  have d: "distinct (db_effects d)" "inj_on eff_key (set (db_effects d))"
    using assms by (simp_all add: distinct_map)
  then show "distinct (map eff_key (list_effects d i))"
    by (auto simp: list_effects_def distinct_map intro: inj_on_subset)
  have at: "eff_at (db_effects d) (eff_key e) = Some e \<longleftrightarrow> e \<in> set (db_effects d)" for e
    using row_of_in_iff [OF assms] by (simp add: eff_at_def)
  then show "e \<in> set (list_effects d i) \<Longrightarrow> row_there e (db_effects d) \<and> eff_run e = i"
    by (auto simp: list_effects_def row_there_def)
  show "open_in i (eff_key ` set (list_effects d i)) (db_effects d)"
    using row_of_in_iff [OF assms] by (auto simp: open_in_def list_effects_def eff_at_def)
qed

section \<open>Attempts\<close>

text \<open>
  One attempt as a driver makes it: first every dispatched but unsettled effect of the run is
  reconciled (\<open>recover\<close>), then the agent's tool calls are executed in order until one of them
  throws. A history is a sequence of such attempts, each cut off at any fault point.
\<close>

definition recover_effects :: "'x run_ctx \<Rightarrow> ('x, effect_row list) job" where
  "recover_effects rc =
     job_bind (read_db rc (\<lambda>now d. list_effects d (run_id (rc_run rc)))) (reconcile_dispatched_effects rc)"

fun run_calls :: "'x run_ctx \<Rightarrow> tool_call list \<Rightarrow> ('x, unit) job" where
  "run_calls rc [] = job_return ()"
| "run_calls rc (c # cs) = job_bind (execute_tool_call rc c) (\<lambda>_. run_calls rc cs)"

definition run_attempt_calls :: "'x run_ctx \<Rightarrow> tool_call list \<Rightarrow> ('x, unit) job" where
  "run_attempt_calls rc cs = job_bind (recover_effects rc) (\<lambda>_. run_calls rc cs)"

fun run_history :: "('x run_ctx \<times> tool_call list) list \<Rightarrow> 'x world \<Rightarrow> 'x world" where
  "run_history [] w = w"
| "run_history ((rc, cs) # h) w = run_history h (snd (run_attempt_calls rc cs w))"

section \<open>The interface of the tools\<close>

locale effect_tools =
  fixes tools :: "string \<Rightarrow> 'x tool option"
    and owner :: "string \<Rightarrow> string \<times> string"
    and inputs :: json
    and marking :: "string \<Rightarrow> bool"
    and marks :: "'x \<Rightarrow> string \<Rightarrow> nat"
  assumes perform_marks: "tools n = Some t \<Longrightarrow> cx_inputs cx = inputs \<Longrightarrow> tool_perform t cx x = (p, x') \<Longrightarrow>
        marks x k \<le> marks x' k \<and> marks x' k \<le> marks x k + (if marking n \<and> k = cx_key cx then 1 else 0)"
    and perform_failed: "tools n = Some t \<Longrightarrow> cx_inputs cx = inputs \<Longrightarrow> tool_perform t cx x = (PerformFailed m u, x') \<Longrightarrow>
        marks x' = marks x \<and> (marking n \<longrightarrow> \<not> u)"
    and reconcile_marks: "tools n = Some t \<Longrightarrow> cx_inputs cx = inputs \<Longrightarrow> tool_reconcile t = Some f \<Longrightarrow> f e cx x = (vd, x') \<Longrightarrow>
        marks x' = marks x"
    and reconcile_absent: "tools n = Some t \<Longrightarrow> cx_inputs cx = inputs \<Longrightarrow> tool_reconcile t = Some f \<Longrightarrow> marking n \<Longrightarrow>
        f e cx x = (vd, x') \<Longrightarrow> (\<exists>result ref. vd = Found result ref) \<or> vd = Absent \<and> marks x (cx_key cx) = 0"
    and marking_reconciles: "marking n \<Longrightarrow> tools n = Some t \<Longrightarrow> tool_reconcile t \<noteq> None"
    and marking_effects: "marking n \<Longrightarrow> \<exists>t. tools n = Some t \<and> tool_effect t"
begin

abbreviation "kept \<equiv> once_ok owner marking marks"

definition fits_rc :: "'x run_ctx \<Rightarrow> bool" where
  "fits_rc rc \<longleftrightarrow> rc_tools rc = tools \<and> spec_inputs (rc_spec rc) = inputs \<and> quiet (rc_env rc)"

lemma fits_context: "fits_rc rc \<Longrightarrow> cx_inputs (tool_context rc args k) = inputs"
  by (simp add: fits_rc_def tool_context_def)

lemma fits_quiet: "fits_rc rc \<Longrightarrow> quiet (rc_env rc)"
  by (simp add: fits_rc_def)

definition at_row :: "string \<Rightarrow> string \<Rightarrow> effect_row \<Rightarrow> effect_row list \<Rightarrow> 'x \<Rightarrow> bool" where
  "at_row i n e es x \<longleftrightarrow> kept es x \<and> settled i es \<and> eff_at es (eff_key e) = Some e \<and> eff_tool e = n \<and> eff_run e = i"

definition all_done :: "string \<Rightarrow> ('x, 'a) post" where
  "all_done i r es x \<longleftrightarrow> kept es x \<and> (case r of Inl err \<Rightarrow> True | Inr a \<Rightarrow> settled i es)"

lemma all_done_simps [simp]:
  "all_done i (Inl err) es x \<longleftrightarrow> kept es x"
  "all_done i (Inr a) es x \<longleftrightarrow> kept es x \<and> settled i es"
  by (simp_all add: all_done_def)

lemma at_row_changed:
  assumes "at_row i n e es x" and "row_changed owner (eff_key e) e' es es'" and "\<not> dispatched_open e'"
    and "eff_state e \<noteq> Committed \<or> eff_state e' = Committed"
    and "eff_key e' = eff_key e" "eff_tool e' = eff_tool e" "eff_run e' = eff_run e"
  shows "at_row i n e' es' x"
proof -
  note a = assms(1) [unfolded at_row_def]
  have not_open: "\<not> dispatched_open e" using a by (auto simp: settled_def)
  have "kept es' x"
  proof (rule once_ok_changed)
    show "kept es x" using a by simp
    show "row_changed owner (eff_key e) e' es es'" by (rule assms(2))
    assume marked: "marks x (eff_key e) \<noteq> 0"
    then have "eff_state e = Committed" using once_ok_unmarked [of owner marking marks es x "eff_key e" e] a not_open by auto
    moreover have "marking (eff_tool e)" using once_ok_marked(1) [of owner marking marks es x "eff_key e" e] marked a by blast
    ultimately show "marking (eff_tool e') \<and> (eff_state e' = Committed \<or> dispatched_open e')"
      using assms(4,6) by auto
  qed
  then show ?thesis
    using a assms row_changed_at [OF assms(2)] settled_changed [OF _ assms(2,3)] by (auto simp: at_row_def)
qed

lemma at_row_done: "at_row i n e es x \<Longrightarrow> all_done i r es x"
  by (cases r) (simp_all add: at_row_def all_done_def)

definition marked_open :: "string \<Rightarrow> effect_row \<Rightarrow> nat \<Rightarrow> effect_row list \<Rightarrow> 'x \<Rightarrow> bool" where
  "marked_open n e m es x \<longleftrightarrow> table_ok owner es \<and> eff_at es (eff_key e) = Some e \<and> eff_tool e = n \<and> dispatched_open e
     \<and> marks x (eff_key e) \<le> m \<and> (\<forall>j. j \<noteq> eff_key e \<longrightarrow> marks x j \<noteq> 0 \<longrightarrow> marks x j = 1 \<and>
         (\<exists>e. eff_at es j = Some e \<and> marking (eff_tool e) \<and> (eff_state e = Committed \<or> dispatched_open e)))
     \<and> (\<forall>j e'. j \<noteq> eff_key e \<and> eff_at es j = Some e' \<and> eff_run e' = eff_run e \<longrightarrow> \<not> dispatched_open e')"

lemma marked_open_kept:
  assumes "marked_open n e m es x" and "m \<le> 1" and "m = 0 \<or> marking n"
  shows "kept es x"
proof -
  have "marks x k = 1 \<and> (\<exists>e. eff_at es k = Some e \<and> marking (eff_tool e) \<and> (eff_state e = Committed \<or> dispatched_open e))"
    if k: "marks x k \<noteq> 0" for k
  proof (cases "k = eff_key e")
    case True
    with k assms have "m = 1" "marks x k = 1" by (auto simp: marked_open_def)
    with True assms show ?thesis by (auto simp: marked_open_def)
  next
    case False
    with k assms(1) show ?thesis by (simp add: marked_open_def)
  qed
  then show ?thesis using assms(1) by (simp add: once_ok_def marked_open_def)
qed

text \<open>Settling the open row: it becomes committed, or failed or unknown when it has no mark.\<close>

lemma marked_open_settled:
  assumes "marked_open n e m es x" and "m \<le> 1" and "m = 0 \<or> marking n"
    and "row_changed owner (eff_key e) e' es es'" and "\<not> dispatched_open e'" "eff_tool e' = eff_tool e"
    and "eff_state e' = Committed \<or> m = 0"
  shows "kept es' x" and "settled (eff_run e) es'"
proof -
  note a = assms(1) [unfolded marked_open_def]
  show "kept es' x"
  proof (rule once_ok_changed [OF marked_open_kept [OF assms(1-3)] assms(4)])
    assume "marks x (eff_key e) \<noteq> 0"
    with a assms(2,3) have "m = 1" "marking n" by auto
    with a assms(6,7) show "marking (eff_tool e') \<and> (eff_state e' = Committed \<or> dispatched_open e')" by auto
  qed
  show "settled (eff_run e) es'"
    using a assms(4,5) unfolding settled_def row_changed_def by (metis option.inject)
qed

lemma hoare_mark_dispatched:
  assumes "fits_rc rc" and "eff_state e = Intended"
  shows "hoare (at_row i n e) (write_db rc (mark_dispatched rc e))
    (\<lambda>r es x. \<exists>now. marked_open n (e\<lparr>eff_dispatched_at := Some now, eff_updated_at := now\<rparr>) 0 es x
       \<and> eff_run e = i)"
proof (rule hoare_write [OF fits_quiet [OF assms(1)]])
  fix now and d :: db and x
  let ?e = "e\<lparr>eff_dispatched_at := Some now, eff_updated_at := now\<rparr>"
  assume "at_row i n e (db_effects d) x"
  then have a: "kept (db_effects d) x" "settled i (db_effects d)" "eff_at (db_effects d) (eff_key e) = Some e"
    "eff_tool e = n" "eff_run e = i" by (auto simp: at_row_def)
  have key: "eff_key (if eff_state y = Intended then y\<lparr>eff_dispatched_at := Some now, eff_updated_at := now\<rparr> else y) = eff_key y" for y
    by simp
  have changed: "row_changed owner (eff_key e) ?e (db_effects d) (db_effects (mark_dispatched rc e now d))"
    using row_changed_upd [OF key a(3), of owner] assms(2) by (simp add: mark_dispatched_def mark_effect_dispatched_def)
  have zero: "marks x (eff_key e) = 0"
    using once_ok_unmarked [OF a(1) a(3)] a(2,3,5) assms(2) by (auto simp: settled_def)
  have "marked_open n ?e 0 (db_effects (mark_dispatched rc e now d)) x"
    using changed zero a assms(2)
    by (auto simp: marked_open_def row_changed_def dispatched_open_def once_ok_def settled_def)
  with a(5) show "\<exists>now'. marked_open n (e\<lparr>eff_dispatched_at := Some now', eff_updated_at := now'\<rparr>) 0
        (db_effects (mark_dispatched rc e now d)) x \<and> eff_run e = i" by blast
qed

lemma hoare_mark_dispatched_row:
  "fits_rc rc \<Longrightarrow> eff_state e = Intended \<Longrightarrow> eff_run e = i \<Longrightarrow>
   hoare (at_row i n e) (write_db rc (mark_dispatched rc e))
    (\<lambda>r es x. \<exists>e1. marked_open n e1 0 es x \<and> eff_run e1 = i \<and> eff_key e1 = eff_key e)"
  by (erule (1) hoare_weaken [OF hoare_mark_dispatched]) (assumption, force)

definition open_row :: "string \<Rightarrow> string \<Rightarrow> string \<Rightarrow> nat \<Rightarrow> effect_row list \<Rightarrow> 'x \<Rightarrow> bool" where
  "open_row i n k m es x \<longleftrightarrow> (\<exists>e. marked_open n e m es x \<and> eff_run e = i \<and> eff_key e = k)"

definition marks_of :: "string \<Rightarrow> nat" where
  "marks_of n = (if marking n then 1 else 0)"

lemma open_row_done:
  "open_row i n k m es x \<Longrightarrow> m \<le> marks_of n \<Longrightarrow> all_done i (Inl e) es x"
  using marked_open_kept by (auto simp: open_row_def all_done_def marks_of_def split: if_splits)

lemma open_row_kept: "open_row i n k m es x \<Longrightarrow> m \<le> marks_of n \<Longrightarrow> kept es x"
  using open_row_done by fastforce

lemma open_row_settle:
  assumes "open_row i n k m es x" and "m \<le> marks_of n"
    and "\<And>e. eff_at es k = Some e \<Longrightarrow> eff_tool (f e) = eff_tool e \<and> eff_run (f e) = eff_run e
      \<and> \<not> dispatched_open (f e) \<and> (eff_state (f e) = Committed \<or> m = 0)"
    and "\<And>j. eff_at es' j = (if j = k then map_option f (eff_at es j) else eff_at es j)"
    and "map eff_key es' = map eff_key es"
  shows "all_done i r es' x"
proof -
  from assms(1) obtain e where e: "marked_open n e m es x" "eff_run e = i" "eff_key e = k"
    by (auto simp: open_row_def)
  then have at: "eff_at es k = Some e" by (auto simp: marked_open_def)
  have m: "m \<le> 1" "m = 0 \<or> marking n" using assms(2) by (auto simp: marks_of_def split: if_splits)
  have "table_ok owner es'" if "table_ok owner es"
    by (rule table_ok_mapped [OF that assms(5,4)]) (use assms(3) in blast)
  then have changed: "row_changed owner (eff_key e) (f e) es es'" using assms(4) at e(3) by (simp add: row_changed_def)
  from assms(3) [OF at] have f: "\<not> dispatched_open (f e)" "eff_tool (f e) = eff_tool e"
    "eff_state (f e) = Committed \<or> m = 0" by auto
  from marked_open_settled [OF e(1) m changed f] e(2) show ?thesis by (cases r) (simp_all add: all_done_def)
qed

lemma hoare_perform:
  assumes "fits_rc rc" and "tools n = Some t"
  shows "hoare (open_row i n k 0) (external (tool_perform t (tool_context rc args k)))
    (\<lambda>r es x. \<exists>p. r = Inr p \<and> (case p of
        Performed v ref \<Rightarrow> open_row i n k (marks_of n) es x
      | PerformFailed msg u \<Rightarrow> open_row i n k 0 es x \<and> (marking n \<longrightarrow> \<not> u)
      | PerformCrashed pt \<Rightarrow> open_row i n k (marks_of n) es x))"
proof (rule hoare_external)
  fix es x p x'
  assume pre: "open_row i n k 0 es x" and run: "tool_perform t (tool_context rc args k) x = (p, x')"
  from pre obtain e where e: "marked_open n e 0 es x" "eff_run e = i" "eff_key e = k" by (auto simp: open_row_def)
  have cx: "cx_inputs (tool_context rc args k) = inputs" "cx_key (tool_context rc args k) = k"
    using fits_context [OF assms(1)] by (auto simp: tool_context_def)
  have open': "open_row i n k m es x'"
    if "marks x' k \<le> m" "\<And>j. j \<noteq> k \<Longrightarrow> marks x' j = marks x j" for m
  proof -
    have "marked_open n e m es x'" using e(1,3) that unfolding marked_open_def by simp blast
    with e(2,3) show ?thesis by (auto simp: open_row_def)
  qed
  have zero: "marks x k = 0" using e by (auto simp: marked_open_def)
  show "\<exists>p'. Inr p = Inr p' \<and> (case p' of
        Performed v ref \<Rightarrow> open_row i n k (marks_of n) es x'
      | PerformFailed msg u \<Rightarrow> open_row i n k 0 es x' \<and> (marking n \<longrightarrow> \<not> u)
      | PerformCrashed pt \<Rightarrow> open_row i n k (marks_of n) es x')"
  proof -
    have bounds: "marks x j \<le> marks x' j \<and> marks x' j \<le> marks x j + (if marking n \<and> j = k then 1 else 0)" for j
      using perform_marks [OF assms(2) cx(1) run] cx(2) by auto
    have "open_row i n k (marks_of n) es x'"
    proof (rule open')
      show "marks x' k \<le> marks_of n" using bounds [of k] zero by (auto simp: marks_of_def split: if_splits)
      show "marks x' j = marks x j" if "j \<noteq> k" for j using bounds [of j] that by auto
    qed
    moreover have "open_row i n k 0 es x' \<and> (marking n \<longrightarrow> \<not> u)" if "p = PerformFailed msg u" for msg u
    proof -
      have "marks x' = marks x \<and> (marking n \<longrightarrow> \<not> u)" using perform_failed [OF assms(2) cx(1)] run that by blast
      then show ?thesis using zero by (auto intro: open')
    qed
    ultimately show ?thesis by (cases p) auto
  qed
qed

lemma settle_rows:
  assumes "\<And>e. eff_key (f e) = eff_key e"
  shows "eff_at (db_effects (upd_effect k f d)) j
    = (if j = k then map_option f (eff_at (db_effects d) j) else eff_at (db_effects d) j)"
  by (rule eff_at_upd) (rule assms)

lemma open_row_at: "open_row i n k m es x \<Longrightarrow> \<exists>e. eff_at es k = Some e \<and> eff_key e = k"
  by (auto simp: open_row_def marked_open_def)

lemma hoare_record_failure:
  assumes "fits_rc rc" and "marking n \<longrightarrow> \<not> u" and "eff_key e = k"
  shows "hoare (open_row i n k 0) (write_db rc (record_failure rc e msg u)) (all_done i)"
proof (rule hoare_write [OF fits_quiet [OF assms(1)]])
  fix now and d :: db and x
  assume pre: "open_row i n k 0 (db_effects d) x"
  show "all_done i (Inr ()) (db_effects (record_failure rc e msg u now d)) x"
  proof (cases u)
    case True
    show ?thesis
      by (rule open_row_settle [OF pre, where f = "\<lambda>y. y\<lparr>eff_state := Unknown, eff_outcome := Some ''unknown'',
            eff_error := error_text (Some msg), eff_updated_at := now\<rparr>"])
        (use True assms(3) in \<open>simp_all add: record_failure_def mark_effect_unknown_def settle_rows dispatched_open_def\<close>)
  next
    case False
    show ?thesis
      by (rule open_row_settle [OF pre, where f = "\<lambda>y. y\<lparr>eff_state := EffectFailed, eff_outcome := Some ''failed'',
            eff_error := error_text (Some msg), eff_updated_at := now\<rparr>"])
        (use False assms(3) in \<open>simp_all add: record_failure_def fail_effect_def settle_rows dispatched_open_def\<close>)
  qed
qed

lemma hoare_record_commit:
  assumes "fits_rc rc" and "eff_key e = k"
  shows "hoare (open_row i n k (marks_of n)) (atomic rc (record_commit rc e result ref)) (all_done i)"
proof (rule hoare_atomic [OF fits_quiet [OF assms(1)]])
  fix now rnd and d :: db and x
  let ?d1 = "commit_effect now k (redact_value (rc_secrets rc) result) ref False d"
  assume pre: "open_row i n k (marks_of n) (db_effects d) x"
  obtain e0 where "eff_at (db_effects d) k = Some e0" using open_row_at [OF pre] by blast
  then obtain e1 where e1: "get_effect ?d1 k = Some e1" by (simp add: get_effect_commit eff_at_db)
  have "all_done i (Inr y) (db_effects ?d1) x" for y
    by (rule open_row_settle [OF pre, where f = "\<lambda>y. y\<lparr>eff_state := Committed,
          eff_result := redact_value (rc_secrets rc) result,
          eff_ref := (case ref of None \<Rightarrow> None | Some t \<Rightarrow> if t = [] then None else Some t),
          eff_reconciled := False, eff_outcome := Some ''committed'', eff_updated_at := now\<rparr>"])
      (simp_all add: commit_effect_def settle_rows dispatched_open_def)
  then show "case record_commit rc e result ref now rnd d of
        Inl err \<Rightarrow> all_done i (Inl err) (db_effects d) x
      | Inr (a, d') \<Rightarrow> all_done i (Inr a) (db_effects d') x"
    by (simp add: record_commit_def Let_def assms(2) effect_after_def e1)
qed

lemma hoare_keep_done: "(\<And>r. Q r = all_done i r) \<Longrightarrow> hoare (all_done i (Inr a)) (job_return b) Q"
  by (rule hoare_return) (simp add: all_done_def)

lemma hoare_after_perform:
  assumes fits: "fits_rc rc" and k: "eff_key e = k"
  shows "hoare (\<lambda>es x. case p of
        Performed v ref \<Rightarrow> open_row i n k (marks_of n) es x
      | PerformFailed msg u \<Rightarrow> open_row i n k 0 es x \<and> (marking n \<longrightarrow> \<not> u)
      | PerformCrashed pt \<Rightarrow> open_row i n k (marks_of n) es x) (after_perform rc e p) (all_done i)"
proof (cases p)
  case (Performed v ref)
  have keep: "open_row i n k (marks_of n) es x \<Longrightarrow> all_done i (Inl err) es x" for es x err
    by (erule open_row_done) simp
  show ?thesis unfolding Performed performed.case after_perform_def
  proof (rule hoare_bind [where R = "\<lambda>r. open_row i n k (marks_of n)"], goal_cases)
    case 1
    show ?case by (rule hoare_fault)
  next
    case (2 err es x)
    then show ?case by (rule keep)
  next
    case (3 a)
    show ?case
    proof (rule hoare_bind [where R = "all_done i"], goal_cases)
      case 1
      show ?case by (rule hoare_record_commit [OF fits k])
    next
      case (3 c)
      show ?case
        by (rule hoare_bind [where R = "\<lambda>r. all_done i (Inr c)"])
          (auto intro!: hoare_fault hoare_return simp: all_done_def)
    qed (simp add: all_done_def)
  qed
next
  case (PerformFailed msg u)
  show ?thesis
  proof (cases "marking n \<longrightarrow> \<not> u")
    case True
    show ?thesis unfolding PerformFailed performed.case after_perform_def Let_def
    proof (rule hoare_bind [where R = "all_done i"], goal_cases)
      case 1
      show ?case by (rule hoare_weaken [OF hoare_record_failure [OF fits True k]]) simp_all
    qed (auto intro!: hoare_return simp: all_done_def)
  next
    case False
    then show ?thesis unfolding PerformFailed by (simp add: hoare_def)
  qed
next
  case (PerformCrashed pt)
  then show ?thesis by (auto simp: after_perform_def intro!: hoare_throw intro: open_row_done)
qed

lemma hoare_dispatch:
  assumes fits: "fits_rc rc" and t: "tools n = Some t" and intended: "eff_state e = Intended"
  shows "hoare (at_row i n e) (dispatch rc t e args) (all_done i)"
proof (cases "eff_run e = i")
  case run: True
  let ?k = "eff_key e"
  have keep: "open_row i n ?k 0 es x \<Longrightarrow> all_done i (Inl err) es x" for es x err
    by (erule open_row_done) simp
  have marked: "hoare (at_row i n e) (write_db rc (mark_dispatched rc e)) (\<lambda>r. open_row i n ?k 0)"
    using hoare_mark_dispatched_row [OF fits intended run] unfolding open_row_def .
  have performed: "hoare (open_row i n ?k 0)
      (job_bind (external (tool_perform t (tool_context rc args ?k))) (after_perform rc e)) (all_done i)"
  proof (rule hoare_bind [OF hoare_perform [OF fits t]], goal_cases)
    case (2 p)
    show ?case by (rule hoare_weaken [OF hoare_after_perform [OF fits refl, where p = p]]) auto
  qed auto
  show ?thesis unfolding dispatch_def
  proof (rule hoare_bind [where R = "\<lambda>r. at_row i n e"], goal_cases)
    case 1
    show ?case by (rule hoare_ensure_may_dispatch [OF fits_quiet [OF fits]])
  next
    case (2 err es x)
    then show ?case by (rule at_row_done)
  next
    case (3 go)
    show ?case
    proof (cases go)
      case True
      have "hoare (at_row i n e) (job_bind (write_db rc (mark_dispatched rc e)) (\<lambda>_.
         job_bind (fault_point rc ''effect_dispatched'' (eff_tool e)) (\<lambda>_.
           job_bind (external (tool_perform t (tool_context rc args (eff_key e)))) (after_perform rc e)))) (all_done i)"
      proof (rule hoare_bind [OF marked], goal_cases)
        case (1 err es x)
        then show ?case by (rule keep)
      next
        case (2 u)
        show ?case by (rule hoare_bind [where R = "\<lambda>r. open_row i n ?k 0", OF hoare_fault _ performed]) (auto intro: open_row_kept)
      qed
      with True show ?thesis by simp
    qed (auto intro!: hoare_return intro: at_row_done)
  qed
qed (simp add: hoare_def at_row_def)

lemma at_row_plain: "at_row i n e es x \<Longrightarrow> eff_at es (eff_key e) = Some e \<and> eff_run e = i \<and> \<not> dispatched_open e"
  by (auto simp: at_row_def settled_def)

lemma at_row_reopened:
  assumes "at_row i n e (db_effects d) x" and "eff_state e \<noteq> Committed"
  shows "at_row i n (e\<lparr>eff_state := Intended, eff_dispatched_at := None, eff_updated_at := now\<rparr>)
    (db_effects (reopen_effect now (eff_key e) d)) x"
proof (rule at_row_changed [OF assms(1)])
  show "row_changed owner (eff_key e) (e\<lparr>eff_state := Intended, eff_dispatched_at := None, eff_updated_at := now\<rparr>)
      (db_effects d) (db_effects (reopen_effect now (eff_key e) d))"
    unfolding reopen_effect_def by (rule row_changed_upd) (use at_row_plain [OF assms(1)] in auto)
qed (use assms(2) in \<open>auto simp: dispatched_open_def\<close>)

lemma at_row_failed:
  assumes "at_row i n e (db_effects d) x" and "eff_state e \<noteq> Committed"
  shows "kept (db_effects (fail_effect now (eff_key e) outcome err d)) x"
    and "settled i (db_effects (fail_effect now (eff_key e) outcome err d))"
proof -
  let ?e = "e\<lparr>eff_state := EffectFailed, eff_outcome := Some outcome, eff_error := error_text err, eff_updated_at := now\<rparr>"
  have "at_row i n ?e (db_effects (fail_effect now (eff_key e) outcome err d)) x"
  proof (rule at_row_changed [OF assms(1)])
    show "row_changed owner (eff_key e) ?e (db_effects d) (db_effects (fail_effect now (eff_key e) outcome err d))"
      unfolding fail_effect_def by (rule row_changed_upd) (use at_row_plain [OF assms(1)] in auto)
  qed (use assms(2) in \<open>auto simp: dispatched_open_def\<close>)
  then show "kept (db_effects (fail_effect now (eff_key e) outcome err d)) x"
    and "settled i (db_effects (fail_effect now (eff_key e) outcome err d))" by (auto simp: at_row_def)
qed

lemma hoare_approval_gate:
  assumes fits: "fits_rc rc" and "eff_state e \<noteq> Committed"
  shows "hoare (at_row i n e) (atomic rc (approval_gate rc e reason))
    (\<lambda>r es x. if r = Inr GateGo
       then \<exists>e'. at_row i n e' es x \<and> eff_key e' = eff_key e
              \<and> (if reason = ''effect_unknown'' then eff_state e' = Intended else e' = e)
       else all_done i r es x)"
proof (rule hoare_atomic [OF fits_quiet [OF fits]])
  fix now rnd and d :: db and x
  assume pre: "at_row i n e (db_effects d) x"
  show "case approval_gate rc e reason now rnd d of
      Inl err \<Rightarrow> if Inl err = Inr GateGo
        then \<exists>e'. at_row i n e' (db_effects d) x \<and> eff_key e' = eff_key e
              \<and> (if reason = ''effect_unknown'' then eff_state e' = Intended else e' = e)
        else all_done i (Inl err) (db_effects d) x
    | Inr (g, d') \<Rightarrow> if Inr g = Inr GateGo
        then \<exists>e'. at_row i n e' (db_effects d') x \<and> eff_key e' = eff_key e
              \<and> (if reason = ''effect_unknown'' then eff_state e' = Intended else e' = e)
        else all_done i (Inr g) (db_effects d') x"
  proof (cases "approval_gate rc e reason now rnd d")
    case (Inl err)
    then show ?thesis using pre by (simp add: at_row_def)
  next
    case (Inr gd)
    obtain g d' where gd: "gd = (g, d')" by fastforce
    from approval_gate_effects [OF Inr [unfolded gd]] show ?thesis
    proof (elim disjE conjE exE)
      assume "db_effects d' = db_effects d" and "g = GateGo \<longrightarrow> reason \<noteq> ''effect_unknown''"
      moreover have "kept (db_effects d) x" "settled i (db_effects d)" using pre by (auto simp: at_row_def)
      ultimately show ?thesis unfolding Inr gd using pre by auto
    next
      assume "db_effects d' = db_effects (reopen_effect now (eff_key e) d)" and "g = GateGo" "reason = ''effect_unknown''"
      then show ?thesis unfolding Inr gd using at_row_reopened [OF pre assms(2), of now]
        by (auto intro!: exI [of _ "e\<lparr>eff_state := Intended, eff_dispatched_at := None, eff_updated_at := now\<rparr>"])
    next
      fix outcome
      assume "db_effects d' = db_effects (fail_effect now (eff_key e) outcome None d)" and "g \<noteq> GateGo"
      then show ?thesis unfolding Inr gd using at_row_failed [OF pre assms(2)] by auto
    qed
  qed
qed

lemma hoare_reread:
  assumes "fits_rc rc"
  shows "hoare (\<lambda>es x. \<exists>e'. at_row i n e' es x \<and> eff_key e' = k \<and> P e') (atomic rc (reread k))
    (\<lambda>r es x. case r of Inl err \<Rightarrow> all_done i r es x | Inr e \<Rightarrow> at_row i n e es x \<and> P e)"
proof (rule hoare_atomic [OF fits_quiet [OF assms]])
  fix now rnd and d :: db and x
  assume "\<exists>e'. at_row i n e' (db_effects d) x \<and> eff_key e' = k \<and> P e'"
  then obtain e' where e': "at_row i n e' (db_effects d) x" "eff_key e' = k" "P e'" by blast
  then have "get_effect d k = Some e'" by (auto simp: at_row_def eff_at_db)
  with e' show "case reread k now rnd d of
      Inl err \<Rightarrow> (case Inl err of Inl err' \<Rightarrow> all_done i (Inl err) (db_effects d) x | Inr e \<Rightarrow> at_row i n e (db_effects d) x \<and> P e)
    | Inr (e, d') \<Rightarrow> (case Inr e of Inl err' \<Rightarrow> all_done i (Inr e) (db_effects d') x | Inr e \<Rightarrow> at_row i n e (db_effects d') x \<and> P e)"
    by (simp add: reread_def effect_after_def)
qed

lemma hoare_dispatch_checked:
  assumes fits: "fits_rc rc" and t: "tools n = Some t" and "eff_state e = Intended" and "eff_key e = int_key q"
  shows "hoare (at_row i n e) (dispatch_checked rc t q e args) (all_done i)"
  unfolding dispatch_checked_def
proof (rule hoare_bind [where R = "\<lambda>r es x. case r of Inl err \<Rightarrow> all_done i r es x
    | Inr e1 \<Rightarrow> at_row i n e1 es x \<and> e1 = e"], goal_cases)
  case 1
  show ?case
    by (rule hoare_weaken [OF hoare_reread [OF fits, where i = i and n = n and P = "\<lambda>e'. e' = e"]])
      (use assms(4) in auto)
next
  case (3 e1)
  show ?case
  proof (rule hoare_fact [where C = "e1 = e"])
    assume "e1 = e"
    then show "hoare (\<lambda>es x. case Inr e1 of Inl err \<Rightarrow> all_done i (Inr e1) es x | Inr e1 \<Rightarrow> at_row i n e1 es x \<and> e1 = e)
        (if eff_args_hash e1 \<noteq> int_args_hash q then job_return (ToolError ''effect_args_changed'') else dispatch rc t e args)
        (all_done i)"
      using hoare_dispatch [OF fits t assms(3)]
      by (auto intro!: hoare_return intro: at_row_done elim: hoare_weaken)
  qed simp
qed simp

lemma hoare_pass_gate:
  assumes fits: "fits_rc rc" and t: "tools n = Some t" and "eff_state e = Intended \<or> eff_state e = Unknown"
    and k: "eff_key e = int_key q"
  shows "hoare (at_row i n e) (pass_gate rc t d q e args) (all_done i)"
proof -
  have nc: "eff_state e \<noteq> Committed" using assms(3) by auto
  show ?thesis
  proof (cases "eff_state e = Unknown")
    case unknown: True
    have "hoare (at_row i n e) (job_bind (atomic rc (approval_gate rc e ''effect_unknown'')) (\<lambda>g.
          if g \<noteq> GateGo then job_return (gate_status g)
          else job_bind (atomic rc (reread (int_key q))) (\<lambda>e1. dispatch_checked rc t q e1 args))) (all_done i)"
    proof (rule hoare_bind [OF hoare_approval_gate [OF fits nc]], goal_cases)
      case (2 g)
      show ?case
      proof (cases "g = GateGo")
        case True
        have "hoare (\<lambda>es x. \<exists>e'. at_row i n e' es x \<and> eff_key e' = int_key q \<and> (eff_state e' = Intended \<and> eff_key e' = int_key q))
            (job_bind (atomic rc (reread (int_key q))) (\<lambda>e1. dispatch_checked rc t q e1 args)) (all_done i)"
        proof (rule hoare_bind [OF hoare_reread [OF fits]], goal_cases)
          case (2 e1)
          show ?case
            by (rule hoare_fact [where C = "eff_state e1 = Intended \<and> eff_key e1 = int_key q"], simp)
              (rule hoare_weaken [OF hoare_dispatch_checked [OF fits t]], auto)
        qed simp
        then show ?thesis using True k by (auto elim!: hoare_weaken)
      qed (auto intro!: hoare_return simp: all_done_def)
    qed simp
    with unknown show ?thesis by (simp add: pass_gate_def)
  next
    case known: False
    with assms(3) have intended: "eff_state e = Intended" by simp
    note direct = hoare_dispatch_checked [OF fits t intended k]
    show ?thesis
    proof (cases "d = ApprovalRequired")
      case True
      have "hoare (at_row i n e) (job_bind (atomic rc (approval_gate rc e ''approval_required'')) (\<lambda>g.
          if g \<noteq> GateGo then job_return (gate_status g) else dispatch_checked rc t q e args)) (all_done i)"
      proof (rule hoare_bind [OF hoare_approval_gate [OF fits nc]], goal_cases)
        case (2 g)
        show ?case
        proof (cases "g = GateGo")
          case True
          then show ?thesis using direct by (auto elim: hoare_weaken)
        qed (auto intro!: hoare_return simp: all_done_def)
      qed simp
      with known True show ?thesis by (simp add: pass_gate_def)
    qed (use known direct in \<open>simp add: pass_gate_def\<close>)
  qed
qed

lemma hoare_resume_effect:
  assumes fits: "fits_rc rc" and t: "tools n = Some t" and k: "eff_key e = int_key q"
  shows "hoare (at_row i n e) (resume_effect rc t d q e args) (all_done i)"
proof (cases "eff_state e = EffectFailed \<and> \<not> refusing_outcome (eff_outcome e)")
  case True
  have "hoare (at_row i n e) (job_bind (atomic rc (reopen (int_key q))) (\<lambda>e1. pass_gate rc t d q e1 args)) (all_done i)"
  proof (rule hoare_bind [where R = "\<lambda>r es x. case r of Inl err \<Rightarrow> all_done i r es x
        | Inr e1 \<Rightarrow> at_row i n e1 es x \<and> eff_state e1 = Intended \<and> eff_key e1 = int_key q"], goal_cases)
    case 1
    show ?case
    proof (rule hoare_atomic [OF fits_quiet [OF fits]], goal_cases)
      case (1 now rnd dd x)
      then have "eff_at (db_effects dd) (int_key q) = Some e" using k by (simp add: at_row_def)
      moreover have "at_row i n (e\<lparr>eff_state := Intended, eff_dispatched_at := None, eff_updated_at := now\<rparr>)
          (db_effects (reopen_effect now (int_key q) dd)) x"
        using at_row_reopened [OF 1, of now] True k by simp
      ultimately show ?case using k
        by (simp add: reopen_def Let_def effect_after_def get_effect_reopen eff_at_db)
    qed
  next
    case (3 e1)
    show ?case
      by (rule hoare_fact [where C = "eff_state e1 = Intended \<and> eff_key e1 = int_key q"], simp)
        (rule hoare_weaken [OF hoare_pass_gate [OF fits t]], auto)
  qed simp
  with True show ?thesis by (simp add: resume_effect_def)
next
  case False
  show ?thesis
  proof (cases "eff_state e")
    case Intended
    then show ?thesis using hoare_pass_gate [OF fits t _ k] by (simp add: resume_effect_def)
  next
    case Unknown
    then show ?thesis using hoare_pass_gate [OF fits t _ k] by (simp add: resume_effect_def)
  qed (use False in \<open>auto simp: resume_effect_def intro!: hoare_return intro: at_row_done\<close>)
qed

text \<open>The key of the call belongs to its tool and this run.\<close>

definition key_fits :: "'x run_ctx \<Rightarrow> 'x tool \<Rightarrow> tool_call \<Rightarrow> bool" where
  "key_fits rc t c \<longleftrightarrow> owner (call_effect_key rc t c) = (call_tool c, run_id (rc_run rc))"

lemma at_row_intended:
  assumes kept: "kept (db_effects d) x" and settled: "settled i (db_effects d)"
    and int: "intend_effect now q d = (e, d')" and "int_tool q = n" "int_run q = i"
    and own: "owner (int_key q) = (n, i)"
  shows "at_row i n e (db_effects d') x" and "eff_key e = int_key q" and "\<not> dispatched_open e"
proof -
  have fits: "case eff_at (db_effects d) (int_key q) of None \<Rightarrow> True | Some e0 \<Rightarrow> eff_tool e0 = n \<and> eff_run e0 = i"
    using kept own by (auto simp: once_ok_def table_ok_def split: option.split)
  have rows: "get_effect d' (int_key q) = Some e" "\<And>k. k \<noteq> int_key q \<Longrightarrow> get_effect d' k = get_effect d k"
    using intend_effect_recorded [OF int] by auto
  have same_tool: "eff_tool e = n \<and> eff_run e = i"
    using int by (cases rule: intend_effect_cases)
      (use fits assms(4,5) in \<open>auto simp: fresh_effect_def replace_intent_def eff_at_db\<close>)
  have "distinct (map eff_key (db_effects d'))" if "distinct (map eff_key (db_effects d))"
    using int that by (auto simp: intend_effect_def get_effect_def row_of_None_iff fresh_effect_def replace_intent_def
        split: option.splits if_splits)
  then have "table_ok owner (db_effects d')" if "table_ok owner (db_effects d)"
  proof -
    have "owner k = (eff_tool y, eff_run y)" if "get_effect d' k = Some y" for k y
    proof (cases "k = int_key q")
      case True
      then show ?thesis using that rows(1) same_tool own by simp
    next
      case False
      then have "get_effect d k = Some y" using that rows(2) by simp
      then show ?thesis using \<open>table_ok owner (db_effects d)\<close> by (simp add: table_ok_def eff_at_db)
    qed
    then show ?thesis using that \<open>distinct (map eff_key (db_effects d)) \<Longrightarrow> distinct (map eff_key (db_effects d'))\<close>
      by (simp add: table_ok_def eff_at_db)
  qed
  with rows have changed: "row_changed owner (int_key q) e (db_effects d) (db_effects d')"
    by (simp add: row_changed_def eff_at_db)
  show key: "eff_key e = int_key q" using rows(1) get_effect_key by blast
  show not_open: "\<not> dispatched_open e"
    using int
  proof (cases rule: intend_effect_cases)
    case 3
    then show ?thesis using settled fits by (auto simp: settled_def eff_at_db)
  qed (auto simp: dispatched_open_def)
  have "kept (db_effects d') x"
  proof (rule once_ok_changed [OF kept changed])
    assume marked: "marks x (int_key q) \<noteq> 0"
    show "marking (eff_tool e) \<and> (eff_state e = Committed \<or> dispatched_open e)"
      using int
    proof (cases rule: intend_effect_cases)
      case 1
      then show ?thesis using once_ok_fresh [OF kept] marked by (simp add: eff_at_db)
    next
      case (2 e0)
      then have "\<not> dispatched_open e0" using settled fits by (auto simp: settled_def eff_at_db)
      then show ?thesis using once_ok_unmarked [OF kept] 2 marked by (auto simp: eff_at_db)
    next
      case 3
      then have "eff_at (db_effects d) (int_key q) = Some e" by (simp add: eff_at_db)
      then show ?thesis
        using once_ok_marked(1) [OF kept _ marked] once_ok_unmarked [OF kept, of "int_key q" e] marked not_open by auto
    qed
  qed
  then show "at_row i n e (db_effects d') x"
    using rows(1) key same_tool settled_changed [OF settled changed not_open] by (simp add: at_row_def eff_at_db)
qed

text \<open>Recovery settles an open row: it is committed, or failed as absent when it left no mark.\<close>

lemma verdict_settles:
  assumes kept: "kept es x" and at: "eff_at es k = Some e" and open_e: "dispatched_open e"
    and changed: "row_changed owner k e' es es'" and "\<not> dispatched_open e'" "eff_tool e' = eff_tool e" "eff_run e' = eff_run e"
    and "marks x k \<noteq> 0 \<Longrightarrow> eff_state e' = Committed"
  shows "kept es' x" and "\<And>k' y. eff_at es' k' = Some y \<Longrightarrow> dispatched_open y \<Longrightarrow> k' \<noteq> k \<and> eff_at es k' = Some y"
proof -
  show "kept es' x"
    by (rule once_ok_changed [OF kept changed]) (use once_ok_marked(1) [OF kept at] assms(6,8) in auto)
  show "k' \<noteq> k \<and> eff_at es k' = Some y" if "eff_at es' k' = Some y" "dispatched_open y" for k' y
    using that changed assms(5) by (auto simp: row_changed_def split: if_splits)
qed

lemma settle_verdict_changed:
  assumes "eff_at (db_effects d) (eff_key e) = Some e"
  obtains e' where "row_changed owner (eff_key e) e' (db_effects d) (db_effects (settle_verdict rc e v now d))"
    "\<not> dispatched_open e'" "eff_tool e' = eff_tool e" "eff_run e' = eff_run e"
    "eff_state e' = Committed \<longleftrightarrow> (\<exists>result ref. v = Found result ref)"
proof (cases v)
  case (Found result ref)
  show thesis
    by (rule that [of "e\<lparr>eff_state := Committed, eff_result := redact_value (rc_secrets rc) result,
          eff_ref := (case ref of None \<Rightarrow> None | Some t \<Rightarrow> if t = [] then None else Some t),
          eff_reconciled := True, eff_outcome := Some ''committed'', eff_updated_at := now\<rparr>"])
      (use Found assms in \<open>auto simp: settle_verdict_def commit_effect_def row_changed_def settle_rows dispatched_open_def intro!: table_ok_upd\<close>)
next
  case Absent
  show thesis
    by (rule that [of "e\<lparr>eff_state := EffectFailed, eff_outcome := Some ''absent'',
          eff_error := error_text None, eff_updated_at := now\<rparr>"])
      (use Absent assms in \<open>auto simp: settle_verdict_def fail_effect_def row_changed_def settle_rows dispatched_open_def intro!: table_ok_upd\<close>)
next
  case (ReconcileThrew m)
  show thesis
    by (rule that [of "e\<lparr>eff_state := Unknown, eff_outcome := Some ''unknown'',
          eff_error := error_text (Some (if m = [] then ''reconcile_failed'' else m)), eff_updated_at := now\<rparr>"])
      (use ReconcileThrew assms in
        \<open>auto simp: settle_verdict_def mark_effect_unknown_def row_changed_def settle_rows dispatched_open_def intro!: table_ok_upd\<close>)
next
  case NoVerdict
  show thesis
    by (rule that [of "e\<lparr>eff_state := Unknown, eff_outcome := Some ''unknown'', eff_error := error_text
          (Some (if has_reconcile rc (eff_tool e) then ''reconcile_failed'' else ''at_most_once_no_reconcile'')),
          eff_updated_at := now\<rparr>"])
      (use NoVerdict assms in
        \<open>auto simp: settle_verdict_def mark_effect_unknown_def row_changed_def settle_rows dispatched_open_def intro!: table_ok_upd\<close>)
qed

lemma hoare_ask_tool:
  assumes fits: "fits_rc rc"
  shows "hoare (\<lambda>es x. P es x) (ask_tool rc e)
    (\<lambda>r es x. \<exists>v x0. r = Inr v \<and> P es x0 \<and> marks x = marks x0
       \<and> (marking (eff_tool e) \<longrightarrow> (\<exists>result ref. v = Found result ref) \<or> marks x0 (eff_key e) = 0))"
proof -
  have tools: "rc_tools rc = tools" using fits by (simp add: fits_rc_def)
  show ?thesis
  proof (cases "tools (eff_tool e)")
    case None
    then have "\<not> marking (eff_tool e)" using marking_effects by fastforce
    with None tools show ?thesis by (auto simp: ask_tool_def intro!: hoare_return)
  next
    case (Some t)
    show ?thesis
    proof (cases "tool_reconcile t")
      case None
      with Some tools marking_reconciles have "\<not> marking (eff_tool e)" by blast
      with None Some tools show ?thesis by (auto simp: ask_tool_def intro!: hoare_return)
    next
      case f: (Some f)
      let ?cx = "tool_context rc (eff_args e) (eff_key e)"
      have cx: "cx_inputs ?cx = inputs" "cx_key ?cx = eff_key e"
        using fits_context [OF fits] by (auto simp: tool_context_def)
      have "hoare P (external (f e ?cx)) (\<lambda>r es x. \<exists>v x0. r = Inr v \<and> P es x0 \<and> marks x = marks x0
       \<and> (marking (eff_tool e) \<longrightarrow> (\<exists>result ref. v = Found result ref) \<or> marks x0 (eff_key e) = 0))"
      proof (rule hoare_external)
        fix es x v x'
        assume "P es x" and run: "f e ?cx x = (v, x')"
        then show "\<exists>v' x0. Inr v = Inr v' \<and> P es x0 \<and> marks x' = marks x0
            \<and> (marking (eff_tool e) \<longrightarrow> (\<exists>result ref. v' = Found result ref) \<or> marks x0 (eff_key e) = 0)"
          using reconcile_marks [OF Some cx(1) f run] reconcile_absent [OF Some cx(1) f _ run] cx(2) by auto
      qed
      with Some f tools show ?thesis by (simp add: ask_tool_def)
    qed
  qed
qed

lemma hoare_reconcile_effect:
  assumes fits: "fits_rc rc" and open_e: "dispatched_open e" and run: "eff_run e = i"
  shows "hoare (\<lambda>es x. kept es x \<and> row_there e es \<and> open_in i ks es \<and> G es) (reconcile_effect rc e)
    (\<lambda>r es x. kept es x \<and> (\<forall>e'. r = Inr e' \<longrightarrow> row_there e' es \<and> eff_key e' = eff_key e \<and> eff_tool e' = eff_tool e
        \<and> eff_run e' = i \<and> open_in i (ks - {eff_key e}) es
        \<and> (\<exists>es0. G es0 \<and> row_changed owner (eff_key e) e' es0 es)))"
  unfolding reconcile_effect_def
proof (rule hoare_bind [OF hoare_ask_tool [OF fits]], goal_cases)
  case (2 v)
  show ?case
  proof (rule hoare_atomic [OF fits_quiet [OF fits]], goal_cases)
    case (1 now rnd d x)
    then obtain x0 where pre: "kept (db_effects d) x0" "row_there e (db_effects d)" "open_in i ks (db_effects d)"
        "G (db_effects d)"
      and m: "marks x = marks x0" and v: "marking (eff_tool e) \<longrightarrow> (\<exists>result ref. v = Found result ref) \<or> marks x0 (eff_key e) = 0"
      by auto
    have kept: "kept (db_effects d) x" using pre(1) m by (simp add: once_ok_def)
    have at: "eff_at (db_effects d) (eff_key e) = Some e" using pre(2) by (simp add: row_there_def)
    obtain e' where e': "row_changed owner (eff_key e) e' (db_effects d) (db_effects (settle_verdict rc e v now d))"
        "\<not> dispatched_open e'" "eff_tool e' = eff_tool e" "eff_run e' = eff_run e"
        "eff_state e' = Committed \<longleftrightarrow> (\<exists>result ref. v = Found result ref)"
      by (rule settle_verdict_changed [OF at, where rc = rc and v = v and now = now])
    have at': "eff_at (db_effects (settle_verdict rc e v now d)) (eff_key e) = Some e'" by (rule row_changed_at [OF e'(1)])
    have committed: "eff_state e' = Committed" if marked: "marks x (eff_key e) \<noteq> 0"
    proof -
      have "marking (eff_tool e)" by (rule once_ok_marked(1) [OF kept at marked])
      moreover have "marks x0 (eff_key e) \<noteq> 0" using m marked by simp
      ultimately show ?thesis using v e'(5) by auto
    qed
    note settles = verdict_settles [OF kept at open_e e'(1-4) committed]
    have "open_in i (ks - {eff_key e}) (db_effects (settle_verdict rc e v now d))"
      using pre(3) settles(2) unfolding open_in_def by blast
    moreover have "row_there e' (db_effects (settle_verdict rc e v now d))" "eff_key e' = eff_key e"
      using at' eff_at_key [OF at'] by (auto simp: row_there_def)
    moreover have "record_verdict rc e v now rnd d = Inr (e', add_checkpoint rc now ''effect_reconciled''
          [(''effectKey'', JStr (eff_key e)), (''tool'', JStr (eff_tool e)),
           (''state'', JStr (effect_state_str (eff_state e'))), (''outcome'', jstr_opt (eff_outcome e'))]
          (settle_verdict rc e v now d))"
      using at' by (simp add: record_verdict_def Let_def effect_after_def eff_at_db)
    moreover have "kept (db_effects (settle_verdict rc e v now d)) x" by (rule settles(1))
    moreover have "\<exists>es0. G es0 \<and> row_changed owner (eff_key e) e' es0 (db_effects (settle_verdict rc e v now d))"
      using pre(4) e'(1) by blast
    ultimately show ?case using e'(3,4) run by simp
  qed
qed (auto simp: once_ok_def)

text \<open>Recovery over the effects of the run, as \<open>recover\<close> lists them.\<close>

lemma hoare_reconcile_dispatched:
  assumes fits: "fits_rc rc"
  shows "distinct (map eff_key effs) \<Longrightarrow>
    hoare (\<lambda>es x. kept es x \<and> (\<forall>e \<in> set effs. row_there e es \<and> eff_run e = i)
        \<and> open_in i (eff_key ` set effs) es)
      (reconcile_dispatched_effects rc effs) (all_done i)"
proof (induction effs)
  case Nil
  then show ?case by (auto intro!: hoare_return simp: open_in_settled)
next
  case (Cons e effs)
  then have d: "distinct (map eff_key effs)" and fresh: "eff_key e \<notin> eff_key ` set effs" by auto
  show ?case
  proof (cases "dispatched_open e")
    case False
    have skip: "reconcile_dispatched_effects rc (e # effs) = reconcile_dispatched_effects rc effs"
      using False by (simp add: fun_eq_iff)
    show ?thesis unfolding skip
    proof (rule hoare_weaken [OF Cons.IH [OF d]], goal_cases)
      case (1 es x)
      have "open_in i (eff_key ` set effs) es"
        using 1 False unfolding open_in_def row_there_def by (auto dest: eff_at_key)
      with 1 show ?case by simp
    qed (use False in simp_all)
  next
    case True
    have pre: "hoare (\<lambda>es x. kept es x \<and> (\<forall>e \<in> set (e # effs). row_there e es \<and> eff_run e = i)
        \<and> open_in i (eff_key ` set (e # effs)) es) (reconcile_effect rc e)
      (\<lambda>r es x. kept es x \<and> (\<forall>a. r = Inr a \<longrightarrow> (\<forall>e \<in> set effs. row_there e es \<and> eff_run e = i) \<and> open_in i (eff_key ` set effs) es))"
    proof (rule hoare_fact [where C = "eff_run e = i"])
      assume run: "eff_run e = i"
      show "hoare (\<lambda>es x. kept es x \<and> (\<forall>e \<in> set (e # effs). row_there e es \<and> eff_run e = i)
          \<and> open_in i (eff_key ` set (e # effs)) es) (reconcile_effect rc e)
        (\<lambda>r es x. kept es x \<and> (\<forall>a. r = Inr a \<longrightarrow> (\<forall>e \<in> set effs. row_there e es \<and> eff_run e = i) \<and> open_in i (eff_key ` set effs) es))"
      proof (rule hoare_weaken [OF hoare_reconcile_effect [OF fits True run,
              where G = "\<lambda>es. \<forall>y \<in> set effs. row_there y es \<and> eff_run y = i"
                and ks = "eff_key ` set (e # effs)"]], goal_cases)
        case (2 r es x)
        show ?case
        proof (intro conjI allI impI ballI)
          show "kept es x" using 2 by blast
        next
          fix a y
          assume r: "r = Inr a" and y: "y \<in> set effs"
          with 2 obtain es0 where es0: "\<forall>y \<in> set effs. row_there y es0 \<and> eff_run y = i" "row_changed owner (eff_key e) a es0 es"
            by blast
          then show "eff_run y = i" using y by blast
          have "eff_key y \<noteq> eff_key e" using fresh y by (metis imageI)
          then show "row_there y es" using es0 y by (simp add: row_there_def row_changed_def)
        next
          fix a
          assume "r = Inr a"
          with 2 have "open_in i (eff_key ` set (e # effs) - {eff_key e}) es" by blast
          then show "open_in i (eff_key ` set effs) es" using fresh by simp
        qed
      qed auto
    qed auto
    have step: "reconcile_dispatched_effects rc (e # effs) = job_bind (reconcile_effect rc e) (\<lambda>r.
             job_bind (reconcile_dispatched_effects rc effs) (\<lambda>rs. job_return (r # rs)))"
      using True by (simp add: fun_eq_iff)
    show ?thesis unfolding step
    proof (rule hoare_bind [OF pre], goal_cases)
      case (2 a)
      show ?case
        by (rule hoare_bind [where R = "all_done i"], rule hoare_weaken [OF Cons.IH [OF d]])
          (auto intro!: hoare_return)
    qed auto
  qed
qed

section \<open>The whole call\<close>

lemma hoare_frame_write:
  assumes "fits_rc rc" and "\<And>now d. db_effects (f now d) = db_effects d" and "\<And>r es x. P es x \<Longrightarrow> Q r es x"
  shows "hoare P (write_db rc f) Q"
  by (rule hoare_write [OF fits_quiet [OF assms(1)]]) (simp add: assms(2,3))

lemma hoare_execute_effect:
  assumes fits: "fits_rc rc" and t: "tools (call_tool c) = Some t" and i: "i = run_id (rc_run rc)"
  shows "hoare (\<lambda>es x. kept es x \<and> settled i es \<and> key_fits rc t c) (execute_effect rc t d c) (all_done i)"
proof -
  let ?q = "call_intent rc t c"
  let ?n = "call_tool c"
  have q: "int_tool ?q = ?n" "int_run ?q = i" "int_key ?q = call_effect_key rc t c"
    by (simp_all add: call_intent_def i)
  have intent: "hoare (\<lambda>es x. kept es x \<and> settled i es \<and> key_fits rc t c) (atomic rc (record_intent rc ?q))
      (\<lambda>r es x. case r of Inl err \<Rightarrow> kept es x
        | Inr e \<Rightarrow> at_row i ?n e es x \<and> eff_key e = int_key ?q \<and> \<not> dispatched_open e)"
  proof (rule hoare_atomic [OF fits_quiet [OF fits]], goal_cases)
    case (1 now rnd dd x)
    obtain e d' where int: "intend_effect now ?q dd = (e, d')" by fastforce
    have "owner (int_key ?q) = (?n, i)"
      using 1 unfolding key_fits_def q(3) i by blast
    moreover have "kept (db_effects dd) x" "settled i (db_effects dd)" using 1 by auto
    ultimately have "at_row i ?n e (db_effects d') x" "eff_key e = int_key ?q" "\<not> dispatched_open e"
      using at_row_intended [OF _ _ int q(1,2)] by blast+
    then show ?case by (simp add: record_intent_def int)
  qed
  show ?thesis unfolding execute_effect_def Let_def
  proof (rule hoare_bind [OF intent], goal_cases)
    case (2 e)
    show ?case
    proof (rule hoare_fact [where C = "eff_key e = int_key ?q \<and> \<not> dispatched_open e"])
      assume e: "eff_key e = int_key ?q \<and> \<not> dispatched_open e"
      have "hoare (at_row i ?n e) (job_bind (fault_point rc ''effect_intended'' (call_tool c)) (\<lambda>_.
          if eff_state e = Committed then
            job_bind (write_db rc (\<lambda>now. add_checkpoint rc now ''effect_deduplicated''
                [(''effectKey'', JStr (int_key ?q)), (''tool'', JStr (call_tool c))])) (\<lambda>_.
              job_return (ToolDeduplicated (eff_result e) (eff_ref e)))
          else if dispatched_open e then
            job_bind (reconcile_effect rc e) (\<lambda>e1. resume_effect rc t d ?q e1 (call_arguments c))
          else resume_effect rc t d ?q e (call_arguments c))) (all_done i)"
      proof (rule hoare_bind [where R = "\<lambda>r. at_row i ?n e"], goal_cases)
        case 1
        show ?case by (rule hoare_fault)
      next
        case (3 u)
        show ?case
        proof (cases "eff_state e = Committed")
          case True
          have "hoare (at_row i ?n e) (job_bind (write_db rc (\<lambda>now. add_checkpoint rc now ''effect_deduplicated''
                [(''effectKey'', JStr (int_key ?q)), (''tool'', JStr (call_tool c))])) (\<lambda>_.
              job_return (ToolDeduplicated (eff_result e) (eff_ref e)))) (all_done i)"
            by (rule hoare_bind [where R = "\<lambda>r. at_row i ?n e"], rule hoare_frame_write [OF fits])
              (auto intro!: hoare_return simp: at_row_def)
          with True show ?thesis by simp
        next
          case False
          then show ?thesis using hoare_resume_effect [OF fits t] e by simp
        qed
      qed (simp add: at_row_def)
      then show "hoare (\<lambda>es x. case Inr e of Inl err \<Rightarrow> kept es x
          | Inr e \<Rightarrow> at_row i ?n e es x \<and> eff_key e = int_key ?q \<and> \<not> dispatched_open e)
        (job_bind (fault_point rc ''effect_intended'' (call_tool c)) (\<lambda>_.
          if eff_state e = Committed then
            job_bind (write_db rc (\<lambda>now. add_checkpoint rc now ''effect_deduplicated''
                [(''effectKey'', JStr (int_key ?q)), (''tool'', JStr (call_tool c))])) (\<lambda>_.
              job_return (ToolDeduplicated (eff_result e) (eff_ref e)))
          else if dispatched_open e then
            job_bind (reconcile_effect rc e) (\<lambda>e1. resume_effect rc t d ?q e1 (call_arguments c))
          else resume_effect rc t d ?q e (call_arguments c))) (all_done i)"
        by (rule hoare_weaken) auto
    qed simp
  qed simp
qed

lemma hoare_read_only:
  assumes fits: "fits_rc rc" and t: "tools n = Some t" and "\<not> tool_effect t"
  shows "hoare (\<lambda>es x. kept es x \<and> settled i es) (perform_read_only rc t args) (all_done i)"
proof -
  have unmarked: "\<not> marking n" using assms(3) t marking_effects by fastforce
  have cx: "cx_inputs (tool_context rc args []) = inputs" by (rule fits_context [OF fits])
  have same: "marks x' = marks x" if run: "tool_perform t (tool_context rc args []) x = (p, x')" for x p x'
    using perform_marks [OF t cx run] unmarked by (fastforce intro: antisym)
  show ?thesis unfolding perform_read_only_def
  proof (rule hoare_bind [where R = "\<lambda>r es x. kept es x \<and> settled i es"], goal_cases)
    case 1
    show ?case by (rule hoare_ensure_may_dispatch [OF fits_quiet [OF fits]])
  next
    case (3 go)
    have "hoare (\<lambda>es x. kept es x \<and> settled i es) (job_bind (external (tool_perform t (tool_context rc args []))) (\<lambda>p.
         job_return (f p))) (all_done i)" for f :: "performed \<Rightarrow> tool_status"
      by (rule hoare_bind [where R = "\<lambda>r es x. kept es x \<and> settled i es"], rule hoare_external)
        (auto intro!: hoare_return simp: once_ok_def dest!: same)
    then show ?case by (cases go) (auto intro!: hoare_return)
  qed simp
qed

definition call_fits :: "'x run_ctx \<Rightarrow> tool_call \<Rightarrow> bool" where
  "call_fits rc c \<longleftrightarrow> (\<forall>t. tools (call_tool c) = Some t \<longrightarrow> key_fits rc t c)"

lemma hoare_execute_tool_call:
  assumes fits: "fits_rc rc" and i: "i = run_id (rc_run rc)"
  shows "hoare (\<lambda>es x. kept es x \<and> settled i es \<and> call_fits rc c) (execute_tool_call rc c) (all_done i)"
  unfolding execute_tool_call_def Let_def
proof (rule hoare_bind [where R = "\<lambda>r es x. kept es x \<and> settled i es \<and> call_fits rc c"], goal_cases)
  case 1
  show ?case by (rule hoare_frame_write [OF fits]) (simp_all add: note_decision_def)
next
  case (3 u)
  have tools: "rc_tools rc = tools" using fits by (simp add: fits_rc_def)
  show ?case
  proof (cases "tools (call_tool c)")
    case None
    then show ?thesis using tools by (auto intro!: hoare_return)
  next
    case (Some t)
    have "hoare (\<lambda>es x. kept es x \<and> settled i es \<and> call_fits rc c) (perform_read_only rc t (call_arguments c)) (all_done i)"
      if "\<not> tool_effect t"
      by (rule hoare_weaken [OF hoare_read_only [OF fits Some that]]) auto
    moreover have "hoare (\<lambda>es x. kept es x \<and> settled i es \<and> call_fits rc c) (execute_effect rc t d c) (all_done i)" for d
      by (rule hoare_weaken [OF hoare_execute_effect [OF fits Some i]]) (auto simp: call_fits_def Some)
    ultimately show ?thesis using tools Some by (auto intro!: hoare_return)
  qed
qed simp

lemma hoare_recover_effects:
  assumes fits: "fits_rc rc" and i: "i = run_id (rc_run rc)"
  shows "hoare kept (recover_effects rc) (all_done i)"
  unfolding recover_effects_def
proof (rule hoare_bind [where R = "\<lambda>r es x. case r of Inl err \<Rightarrow> kept es x
    | Inr effs \<Rightarrow> kept es x \<and> distinct (map eff_key effs) \<and> (\<forall>e \<in> set effs. row_there e es \<and> eff_run e = i)
        \<and> open_in i (eff_key ` set effs) es"], goal_cases)
  case 1
  show ?case unfolding read_db_def
  proof (rule hoare_atomic [OF fits_quiet [OF fits]], goal_cases)
    case (1 now rnd d x)
    then have "distinct (map eff_key (db_effects d))" by (simp add: once_ok_def table_ok_def)
    from list_effects_rows [OF this] 1 show ?case by (simp add: i)
  qed
next
  case (3 effs)
  show ?case
    by (rule hoare_fact [where C = "distinct (map eff_key effs)"], simp)
      (rule hoare_weaken [OF hoare_reconcile_dispatched [OF fits]], auto)
qed simp

lemma hoare_run_calls:
  assumes fits: "fits_rc rc" and i: "i = run_id (rc_run rc)"
  shows "(\<forall>c \<in> set cs. call_fits rc c) \<Longrightarrow> hoare (\<lambda>es x. kept es x \<and> settled i es) (run_calls rc cs) (all_done i)"
proof (induction cs)
  case Nil
  then show ?case by (auto intro!: hoare_return)
next
  case (Cons c cs)
  show ?case unfolding run_calls.simps
  proof (rule hoare_bind [where R = "all_done i"], goal_cases)
    case 1
    show ?case by (rule hoare_weaken [OF hoare_execute_tool_call [OF fits i]]) (use Cons.prems in auto)
  next
    case (3 a)
    show ?case by (rule hoare_weaken [OF Cons.IH]) (use Cons.prems in auto)
  qed simp
qed

lemma hoare_run_attempt_calls:
  assumes fits: "fits_rc rc" and "\<forall>c \<in> set cs. call_fits rc c"
  shows "hoare kept (run_attempt_calls rc cs) (all_done (run_id (rc_run rc)))"
  unfolding run_attempt_calls_def
proof (rule hoare_bind [OF hoare_recover_effects [OF fits refl]], goal_cases)
  case (2 a)
  show ?case by (rule hoare_weaken [OF hoare_run_calls [OF fits refl assms(2)]]) auto
qed simp

lemma run_history_kept:
  "(\<forall>(rc, cs) \<in> set h. fits_rc rc \<and> (\<forall>c \<in> set cs. call_fits rc c)) \<Longrightarrow>
   kept (db_effects (w_db w)) (w_ext w) \<Longrightarrow> kept (db_effects (w_db (run_history h w))) (w_ext (run_history h w))"
proof (induction h arbitrary: w)
  case (Cons a h)
  obtain rc cs where a: "a = (rc, cs)" by (cases a)
  from Cons.prems a have "fits_rc rc" "\<forall>c \<in> set cs. call_fits rc c" by auto
  from hoare_run_attempt_calls [OF this] Cons.prems(2)
  have "kept (db_effects (w_db (snd (run_attempt_calls rc cs w)))) (w_ext (snd (run_attempt_calls rc cs w)))"
    unfolding hoare_def all_done_def by (simp add: split_beta)
  with Cons a show ?case by simp
qed simp

end

end
