(* ===== verification/JobTools.thy ===== *)
theory JobTools
  imports EffectsOnce
begin

text \<open>
  The offline tools of Agent Jobs (\<open>agent-job-tools.js\<close>) over the simulated code host
  (\<open>simulated-pr-sink.js\<close>), which like a real one does not deduplicate by itself. The tools that
  run git as a subprocess (\<open>repo.read\<close>, \<open>repo.branch.push\<close>) are not modelled.
\<close>

section \<open>The simulated code host\<close>

record pull_request =
  pr_number :: nat
  pr_repository :: string
  pr_title :: string
  pr_head :: string
  pr_key :: string
  pr_state :: string
  pr_merges :: nat
  pr_opened_at :: int
  pr_merged_at :: "int option"

text \<open>The external state: the clock, the stored pull requests and the lines of the sent notes.\<close>

record sink =
  sink_now :: int
  sink_prs :: "pull_request list"
  sink_notes :: "json list"

definition pr_json :: "pull_request \<Rightarrow> json" where
  "pr_json p = JObj
     ([(''number'', JNum (int (pr_number p))), (''repository'', JStr (pr_repository p)), (''title'', JStr (pr_title p)),
       (''head'', JStr (pr_head p)), (''idempotencyKey'', JStr (pr_key p)), (''state'', JStr (pr_state p)),
       (''merges'', JNum (int (pr_merges p))), (''openedAt'', jiso (pr_opened_at p))]
      @ (case pr_merged_at p of None \<Rightarrow> [] | Some ms \<Rightarrow> [(''mergedAt'', jiso ms)]))"

definition pr_ref :: "pull_request \<Rightarrow> string" where
  "pr_ref p = ''fake-host://'' @ pr_repository p @ ''/pull/'' @ nat_str (pr_number p)"

text \<open>\<open>String(value || fallback)\<close> of an optional member.\<close>

definition text_or :: "json option \<Rightarrow> string \<Rightarrow> string" where
  "text_or v fallback = (case v of None \<Rightarrow> fallback | Some x \<Rightarrow> if truthy x then js_string x else fallback)"

definition open_simulated_pull_request :: "json \<Rightarrow> string \<Rightarrow> sink \<Rightarrow> pull_request \<times> sink" where
  "open_simulated_pull_request args key s =
     (let p = \<lparr>pr_number = length (sink_prs s) + 1,
               pr_repository = text_or (jget args ''repository'') ''example/repo'',
               pr_title = text_or (jget args ''title'') ''Untitled change'',
               pr_head = text_or (jget args ''head'') ''orkestr/demo'', pr_key = key, pr_state = ''open'',
               pr_merges = 0, pr_opened_at = sink_now s, pr_merged_at = None\<rparr>
      in (p, s\<lparr>sink_prs := sink_prs s @ [p]\<rparr>))"

definition find_simulated_pull_request :: "string \<Rightarrow> sink \<Rightarrow> pull_request option" where
  "find_simulated_pull_request key s = (if key = [] then None else find (\<lambda>p. pr_key p = key) (sink_prs s))"

fun merge_first :: "int \<Rightarrow> nat \<Rightarrow> pull_request list \<Rightarrow> (pull_request \<times> pull_request list) option" where
  "merge_first now n [] = None"
| "merge_first now n (p # ps) =
     (if pr_number p = n
      then (let q = p\<lparr>pr_state := ''merged'', pr_merges := pr_merges p + 1, pr_merged_at := Some now\<rparr> in Some (q, q # ps))
      else map_option (\<lambda>(q, qs). (q, p # qs)) (merge_first now n ps))"

definition merge_simulated_pull_request :: "nat \<Rightarrow> sink \<Rightarrow> (pull_request \<times> sink) option" where
  "merge_simulated_pull_request n s =
     map_option (\<lambda>(q, qs). (q, s\<lparr>sink_prs := qs\<rparr>)) (merge_first (sink_now s) n (sink_prs s))"

section \<open>The tools\<close>

text \<open>\<open>clean(value)\<close>: \<open>String(value ?? "").trim()\<close>.\<close>

definition clean :: "json option \<Rightarrow> string" where
  "clean v = str_trim (case v of None \<Rightarrow> [] | Some x \<Rightarrow> if x = JNull then [] else js_string x)"

definition find_by_head :: "string \<Rightarrow> string \<Rightarrow> sink \<Rightarrow> pull_request option" where
  "find_by_head repository head s = find (\<lambda>p. pr_repository p = repository \<and> pr_head p = head) (sink_prs s)"

definition repo_and_head :: "tool_ctx \<Rightarrow> json" where
  "repo_and_head cx = JArr [JStr (clean (jget (cx_args cx) ''repository'')), JStr (clean (jget (cx_args cx) ''head''))]"

definition pull_request_create :: "sink tool" where
  "pull_request_create = \<lparr>tool_effect = True,
     tool_logical = Some repo_and_head,
     tool_reconcile = Some (\<lambda>e cx s. (case find_simulated_pull_request (cx_key cx) s of
         Some p \<Rightarrow> Found (pr_json p) (Some (pr_ref p)) | None \<Rightarrow> Absent, s)),
     tool_perform = (\<lambda>cx s. case open_simulated_pull_request (cx_args cx) (cx_key cx) s of
         (p, s') \<Rightarrow> (Performed (pr_json p) (Some (pr_ref p)), s'))\<rparr>"

definition pull_request_merge :: "sink tool" where
  "pull_request_merge = \<lparr>tool_effect = True,
     tool_logical = Some repo_and_head,
     tool_reconcile = Some (\<lambda>e cx s.
       (case find_by_head (clean (jget (cx_args cx) ''repository'')) (clean (jget (cx_args cx) ''head'')) s of
          Some p \<Rightarrow> if pr_state p = ''merged'' then Found (pr_json p) (Some (pr_ref p)) else Absent
        | None \<Rightarrow> Absent, s)),
     tool_perform = (\<lambda>cx s.
       case find_by_head (clean (jget (cx_args cx) ''repository'')) (clean (jget (cx_args cx) ''head'')) s of
         None \<Rightarrow> (PerformFailed ''pull_request_not_found'' False, s)
       | Some p \<Rightarrow> (case merge_simulated_pull_request (pr_number p) s of
             None \<Rightarrow> (PerformFailed ''pull_request_not_found'' False, s)
           | Some (q, s') \<Rightarrow> (Performed (pr_json q) (Some (pr_ref q)), s')))\<rparr>"

definition demo_repo_read :: "sink tool" where
  "demo_repo_read = \<lparr>tool_effect = False, tool_logical = None, tool_reconcile = None,
     tool_perform = (\<lambda>cx s.
       (Performed (JObj
          [(''repository'', JStr (let r = clean (jget (cx_args cx) ''repository'') in if r = [] then ''example/repo'' else r)),
           (''files'', jstrs [''package.json'', ''src/index.js'']),
           (''outdated'', jstrs [''example-lib 1.9.0 -> 2.0.1''])]) None, s))\<rparr>"

text \<open>An effect without a reconcile hook: at most once.\<close>

definition demo_notify_send :: "sink tool" where
  "demo_notify_send = \<lparr>tool_effect = True, tool_logical = None, tool_reconcile = None,
     tool_perform = (\<lambda>cx s.
       (Performed (JObj [(''sent'', JBool True)]) None,
        s\<lparr>sink_notes := sink_notes s @ [JObj [(''text'', JStr (clean (jget (cx_args cx) ''text''))), (''effectKey'', JStr (cx_key cx))]]\<rparr>))\<rparr>"

text \<open>\<open>github.*\<close> works on the fake host only when the job opted in; otherwise every call throws.\<close>

definition code_host_error :: string where
  "code_host_error = ''code_host_not_configured: set task.inputs.code_host to fake; a real GitHub connector is not available yet''"

definition fake_host_on :: "json \<Rightarrow> bool" where
  "fake_host_on inputs \<longleftrightarrow> jget inputs ''code_host'' = Some (JStr ''fake'')"

definition fake_host_only :: "sink tool \<Rightarrow> sink tool" where
  "fake_host_only t = t\<lparr>
     tool_reconcile := map_option (\<lambda>f e cx s. if fake_host_on (cx_inputs cx) then f e cx s else (ReconcileThrew code_host_error, s))
        (tool_reconcile t),
     tool_perform := (\<lambda>cx s. if fake_host_on (cx_inputs cx) then tool_perform t cx s else (PerformFailed code_host_error False, s))\<rparr>"

text \<open>The registry, in the order of registration.\<close>

definition registered_tools :: "(string \<times> sink tool) list" where
  "registered_tools =
     [(''demo.repo.read'', demo_repo_read), (''demo.pull_request.create'', pull_request_create),
      (''demo.pull_request.merge'', pull_request_merge), (''demo.notify.send'', demo_notify_send),
      (''github.pull_request.create'', fake_host_only pull_request_create),
      (''github.pull_request.merge'', fake_host_only pull_request_merge)]"

definition agent_job_tools :: "string \<Rightarrow> sink tool option" where
  "agent_job_tools name = map_of registered_tools name"

text \<open>\<open>listAgentJobTools\<close>: name, whether it is an effect, whether it reconciles.\<close>

definition list_agent_job_tools :: "(string \<times> bool \<times> bool) list" where
  "list_agent_job_tools = map (\<lambda>(n, t). (n, tool_effect t, tool_reconcile t \<noteq> None)) registered_tools"

section \<open>The tools as reconcilable effects\<close>

text \<open>The mark of a creation is the pull request that carries the effect key.\<close>

definition pull_requests_of :: "sink \<Rightarrow> string \<Rightarrow> nat" where
  "pull_requests_of s k = (if k = [] then 0 else length (filter (\<lambda>p. pr_key p = k) (sink_prs s)))"

definition creates_pull_request :: "json \<Rightarrow> string \<Rightarrow> bool" where
  "creates_pull_request inputs name \<longleftrightarrow>
     name = ''demo.pull_request.create'' \<or> name = ''github.pull_request.create'' \<and> fake_host_on inputs"

lemma merge_first_keys: "merge_first now n ps = Some (q, qs) \<Longrightarrow> map pr_key qs = map pr_key ps"
  by (induction ps arbitrary: q qs) (auto simp: Let_def split: if_splits)

lemma pull_requests_of_keys:
  "map pr_key (sink_prs s') = map pr_key (sink_prs s) \<Longrightarrow> pull_requests_of s' = pull_requests_of s"
proof -
  assume eq: "map pr_key (sink_prs s') = map pr_key (sink_prs s)"
  have "length (filter (\<lambda>p. pr_key p = k) ps) = length (filter (\<lambda>x. x = k) (map pr_key ps))" for k ps
    by (induction ps) auto
  with eq have "length (filter (\<lambda>p. pr_key p = k) (sink_prs s')) = length (filter (\<lambda>p. pr_key p = k) (sink_prs s))" for k
    by metis
  then show ?thesis by (simp add: fun_eq_iff pull_requests_of_def)
qed

lemma merge_marks:
  assumes "merge_simulated_pull_request n s = Some (q, s')"
  shows "pull_requests_of s' = pull_requests_of s"
  using assms by (auto simp: merge_simulated_pull_request_def dest: merge_first_keys intro!: pull_requests_of_keys)

lemma find_none_unmarked:
  assumes "find_simulated_pull_request k s = None"
  shows "pull_requests_of s k = 0"
  using assms by (auto simp: find_simulated_pull_request_def pull_requests_of_def find_None_iff split: if_splits)

lemma create_marks:
  assumes "tool_perform pull_request_create cx x = (p, x')"
  shows "pull_requests_of x k \<le> pull_requests_of x' k
    \<and> pull_requests_of x' k \<le> pull_requests_of x k + (if k = cx_key cx then 1 else 0)"
    and "\<exists>v r. p = Performed v r"
  using assms by (auto simp: pull_request_create_def open_simulated_pull_request_def Let_def pull_requests_of_def)

lemma merge_tool_marks:
  "tool_perform pull_request_merge cx x = (p, x') \<Longrightarrow>
     pull_requests_of x' = pull_requests_of x \<and> (\<forall>m u. p = PerformFailed m u \<longrightarrow> \<not> u)"
  by (auto simp: pull_request_merge_def split: option.splits dest: merge_marks)

lemma notes_marks [simp]: "pull_requests_of (s\<lparr>sink_notes := ns\<rparr>) = pull_requests_of s"
  by (simp add: fun_eq_iff pull_requests_of_def)

lemma fake_host_perform [simp]:
  "tool_perform (fake_host_only t) cx x =
     (if fake_host_on (cx_inputs cx) then tool_perform t cx x else (PerformFailed code_host_error False, x))"
  by (simp add: fake_host_only_def)

lemma quiet_tools_marks:
  "tool_perform demo_repo_read cx x = (p, x') \<Longrightarrow> pull_requests_of x' = pull_requests_of x \<and> (\<exists>v r. p = Performed v r)"
  "tool_perform demo_notify_send cx x = (p, x') \<Longrightarrow> pull_requests_of x' = pull_requests_of x \<and> (\<exists>v r. p = Performed v r)"
  by (auto simp: demo_repo_read_def demo_notify_send_def)

lemma tool_cases:
  assumes "agent_job_tools n = Some t"
  obtains "n = ''demo.repo.read''" "t = demo_repo_read"
  | "n = ''demo.pull_request.create''" "t = pull_request_create"
  | "n = ''demo.pull_request.merge''" "t = pull_request_merge"
  | "n = ''demo.notify.send''" "t = demo_notify_send"
  | "n = ''github.pull_request.create''" "t = fake_host_only pull_request_create"
  | "n = ''github.pull_request.merge''" "t = fake_host_only pull_request_merge"
proof -
  have "(n, t) \<in> set registered_tools" using assms by (simp add: agent_job_tools_def map_of_SomeD)
  then have "n = ''demo.repo.read'' \<and> t = demo_repo_read
    \<or> n = ''demo.pull_request.create'' \<and> t = pull_request_create
    \<or> n = ''demo.pull_request.merge'' \<and> t = pull_request_merge
    \<or> n = ''demo.notify.send'' \<and> t = demo_notify_send
    \<or> n = ''github.pull_request.create'' \<and> t = fake_host_only pull_request_create
    \<or> n = ''github.pull_request.merge'' \<and> t = fake_host_only pull_request_merge"
    unfolding registered_tools_def by (simp only: set_simps insert_iff empty_iff prod.inject simp_thms)
  then show thesis by (elim disjE conjE) (rule that; assumption)+
qed

lemma not_creating:
  "\<not> creates_pull_request inputs ''demo.repo.read''" "\<not> creates_pull_request inputs ''demo.pull_request.merge''"
  "\<not> creates_pull_request inputs ''demo.notify.send''" "\<not> creates_pull_request inputs ''github.pull_request.merge''"
  "creates_pull_request inputs ''demo.pull_request.create''"
  "creates_pull_request inputs ''github.pull_request.create'' = fake_host_on inputs"
  by (simp_all add: creates_pull_request_def)

interpretation host: effect_tools agent_job_tools owner inputs "creates_pull_request inputs" pull_requests_of
  for owner inputs
proof unfold_locales
  fix n t cx x p x' k
  assume t: "agent_job_tools n = Some t" and cx: "cx_inputs cx = inputs" and run: "tool_perform t cx x = (p, x')"
  from t show "pull_requests_of x k \<le> pull_requests_of x' k \<and> pull_requests_of x' k
      \<le> pull_requests_of x k + (if creates_pull_request inputs n \<and> k = cx_key cx then 1 else 0)"
  proof (cases rule: tool_cases)
    case 1
    then show ?thesis using run quiet_tools_marks(1) by fastforce
  next
    case 2
    then show ?thesis using run create_marks(1) [of cx x p x' k] by (simp add: not_creating)
  next
    case 3
    then show ?thesis using run merge_tool_marks by fastforce
  next
    case 4
    then show ?thesis using run quiet_tools_marks(2) by fastforce
  next
    case 5
    then show ?thesis using run cx create_marks(1) [of cx x p x' k] by (simp add: not_creating split: if_splits)
  next
    case 6
    then show ?thesis using run merge_tool_marks [of cx x p x'] by (auto split: if_splits)
  qed
next
  fix n t cx x m u x'
  assume t: "agent_job_tools n = Some t" and cx: "cx_inputs cx = inputs"
    and run: "tool_perform t cx x = (PerformFailed m u, x')"
  from t show "pull_requests_of x' = pull_requests_of x \<and> (creates_pull_request inputs n \<longrightarrow> \<not> u)"
  proof (cases rule: tool_cases)
    case 1
    then show ?thesis using run quiet_tools_marks(1) by fastforce
  next
    case 2
    then show ?thesis using run create_marks(2) by fastforce
  next
    case 3
    then show ?thesis using run merge_tool_marks by fastforce
  next
    case 4
    then show ?thesis using run quiet_tools_marks(2) by fastforce
  next
    case 5
    then show ?thesis using run create_marks(2) [of cx x] by (auto split: if_splits)
  next
    case 6
    then show ?thesis using run merge_tool_marks [of cx x] by (auto split: if_splits)
  qed
next
  fix n t cx x f e v x'
  assume t: "agent_job_tools n = Some t" and f: "tool_reconcile t = Some f" and run: "f e cx x = (v, x')"
  from t show "pull_requests_of x' = pull_requests_of x"
    by (cases rule: tool_cases)
      (use f run in \<open>auto simp: demo_repo_read_def demo_notify_send_def pull_request_create_def pull_request_merge_def
          fake_host_only_def split: if_splits\<close>)
next
  fix n t cx x f e v x'
  assume t: "agent_job_tools n = Some t" and cx: "cx_inputs cx = inputs" and f: "tool_reconcile t = Some f"
    and marking: "creates_pull_request inputs n" and run: "f e cx x = (v, x')"
  from t show "(\<exists>result ref. v = Found result ref) \<or> v = Absent \<and> pull_requests_of x (cx_key cx) = 0"
    by (cases rule: tool_cases)
      (use f run cx marking find_none_unmarked in \<open>auto simp: not_creating pull_request_create_def
          fake_host_only_def split: if_splits option.splits\<close>)
next
  fix n t
  assume "creates_pull_request inputs n" "agent_job_tools n = Some t"
  then show "tool_reconcile t \<noteq> None"
    by (auto simp: creates_pull_request_def agent_job_tools_def registered_tools_def pull_request_create_def fake_host_only_def)
next
  fix n
  assume "creates_pull_request inputs n"
  then show "\<exists>t. agent_job_tools n = Some t \<and> tool_effect t"
    by (auto simp: creates_pull_request_def agent_job_tools_def registered_tools_def pull_request_create_def fake_host_only_def)
qed

section \<open>Properties\<close>

text \<open>A history fits when its drives use these tools and inputs and every key belongs to its tool and run.\<close>

definition history_fits ::
  "json \<Rightarrow> (string \<Rightarrow> string \<times> string) \<Rightarrow> (sink run_ctx \<times> tool_call list) list \<Rightarrow> bool" where
  "history_fits inputs owner h \<longleftrightarrow> (\<forall>(rc, cs) \<in> set h.
     rc_tools rc = agent_job_tools \<and> spec_inputs (rc_spec rc) = inputs \<and> quiet (rc_env rc)
     \<and> (\<forall>c \<in> set cs. \<forall>t. agent_job_tools (call_tool c) = Some t \<longrightarrow>
          owner (call_effect_key rc t c) = (call_tool c, run_id (rc_run rc))))"

lemma history_fits_host: "history_fits inputs owner h \<longleftrightarrow>
   (\<forall>(rc, cs) \<in> set h. host.fits_rc inputs rc \<and> (\<forall>c \<in> set cs. host.call_fits owner rc c))"
  by (auto simp: history_fits_def host.fits_rc_def host.call_fits_def host.key_fits_def)

lemma empty_table_kept:
  assumes "db_effects (w_db w) = []" and "sink_prs (w_ext w) = []"
  shows "once_ok owner (creates_pull_request inputs) pull_requests_of (db_effects (w_db w)) (w_ext w)"
  using assms by (simp add: once_ok_def table_ok_def eff_at_def pull_requests_of_def)

text \<open>
  C1: over any sequence of attempts, each starting with a recovery and cut off by a crash at any
  fault point (also between the external call and its commit), at most one pull request is opened
  per effect key on a code host that does not deduplicate, as long as other processes leave the
  effect table alone and keys do not collide.
\<close>

theorem pull_request_opened_once:
  assumes "db_effects (w_db w) = []" and "sink_prs (w_ext w) = []" and "history_fits inputs owner h"
  shows "pull_requests_of (w_ext (run_history h w)) k \<le> 1"
proof -
  have "once_ok owner (creates_pull_request inputs) pull_requests_of
      (db_effects (w_db (run_history h w))) (w_ext (run_history h w))"
    by (rule host.run_history_kept [OF assms(3) [unfolded history_fits_host] empty_table_kept [OF assms(1,2)]])
  then show ?thesis unfolding once_ok_def by (cases "pull_requests_of (w_ext (run_history h w)) k = 0") auto
qed

text \<open>
  C2: what the ledger says is what happened: a pull request that carries an effect key has a row in
  the effect table, of a creating tool, that is committed or still to be reconciled; so an effect
  that the ledger calls failed, unknown or not dispatched has left none.
\<close>

theorem pull_request_in_ledger:
  assumes "db_effects (w_db w) = []" and "sink_prs (w_ext w) = []" and "history_fits inputs owner h"
    and "0 < pull_requests_of (w_ext (run_history h w)) k"
  shows "\<exists>e. get_effect (w_db (run_history h w)) k = Some e \<and> creates_pull_request inputs (eff_tool e)
    \<and> (eff_state e = Committed \<or> dispatched_open e)"
proof -
  have "once_ok owner (creates_pull_request inputs) pull_requests_of
      (db_effects (w_db (run_history h w))) (w_ext (run_history h w))"
    by (rule host.run_history_kept [OF assms(3) [unfolded history_fits_host] empty_table_kept [OF assms(1,2)]])
  then show ?thesis using assms(4) unfolding once_ok_def eff_at_db by blast
qed

section \<open>Concrete instances\<close>

definition sample_sink :: sink where
  "sample_sink = \<lparr>sink_now = 500, sink_prs = [], sink_notes = []\<rparr>"

definition sample_leased :: db where
  "sample_leased = empty_db\<lparr>db_runs :=
     [(sample_run ''run_1'' Running)\<lparr>run_lease_holder := Some ''host:1:a'', run_lease_expires_at := Some 90000\<rparr>]\<rparr>"

definition sample_world :: "sink world" where
  "sample_world = \<lparr>w_db = sample_leased, w_ext = sample_sink, w_turn = 0\<rparr>"

definition sample_rc :: "fault list \<Rightarrow> sink run_ctx" where
  "sample_rc faults = \<lparr>rc_run = sample_run ''run_1'' Running,
     rc_spec = sample_spec\<lparr>spec_tools := \<lparr>allow_tools = [''demo.*''], deny_tools = [], approval_tools = []\<rparr>\<rparr>,
     rc_attempt = Some 1, rc_holder = ''host:1:a'', rc_secrets = [], rc_faults = faults, rc_channels = [],
     rc_hash = sample_hash, rc_tools = agent_job_tools,
     rc_env = \<lparr>clock = (\<lambda>n. 1000 + int n), random_text = nat_str, others = (\<lambda>n d. d)\<rparr>\<rparr>"

definition sample_create :: tool_call where
  "sample_create = \<lparr>call_tool = ''demo.pull_request.create'',
     call_args = JObj [(''repository'', JStr ''a/b''), (''head'', JStr ''fix'')], call_step = JNum 0\<rparr>"

definition sample_fault :: fault where
  "sample_fault = \<lparr>fault_at = ''effect_performed'', fault_attempts = None, fault_tool = [], fault_exit = True\<rparr>"

definition sample_history :: "(sink run_ctx \<times> tool_call list) list" where
  "sample_history = [(sample_rc [sample_fault], [sample_create]), (sample_rc [], [sample_create])]"

lemma sample_key: "call_effect_key (sample_rc fs) t sample_create = ''eff_h''"
  by (simp add: call_effect_key_def effect_key_for_def sample_rc_def sample_hash_def)

lemma sample_history_fits:
  "history_fits (JObj []) (\<lambda>k. (''demo.pull_request.create'', ''run_1'')) sample_history"
  by (simp add: history_fits_def sample_history_def sample_key sample_rc_def sample_spec_def quiet_def
      sample_create_def sample_run_def)

text \<open>What evaluating a drive on a concrete world unfolds.\<close>

lemmas drive_eval = run_attempt_calls_def recover_effects_def job_bind_def read_db_def job_return_def job_throw_def job_lift_def
  atomic_def tx_def Let_def write_db_def external_def fault_point_def inject_fault_def fault_fires_def
  list_effects_def execute_tool_call_def execute_effect_def resume_effect_def pass_gate_def dispatch_checked_def dispatch_def
  note_decision_def add_checkpoint_def record_intent_def intend_effect_def fresh_effect_def mark_dispatched_def
  ensure_may_dispatch_def may_dispatch_def reread_def effect_after_def after_perform_def
  reconcile_effect_def ask_tool_def record_verdict_def settle_verdict_def dispatched_open_def
  get_effect_def get_run_def upd_effect_def append_checkpoint_def last_seq_def mark_effect_dispatched_def commit_effect_def
  holds_lease_def call_intent_def

lemma sample_rc_parts [simp]:
  "rc_run (sample_rc fs) = sample_run ''run_1'' Running"
  "spec_tools (rc_spec (sample_rc fs)) = \<lparr>allow_tools = [''demo.*''], deny_tools = [], approval_tools = []\<rparr>"
  "rc_attempt (sample_rc fs) = Some 1" "rc_holder (sample_rc fs) = ''host:1:a''" "rc_secrets (sample_rc fs) = []"
  "rc_faults (sample_rc fs) = fs" "rc_tools (sample_rc fs) = agent_job_tools" 
  "rc_env (sample_rc fs) = \<lparr>clock = (\<lambda>n. 1000 + int n), random_text = nat_str, others = (\<lambda>n d. d)\<rparr>"
  by (simp_all add: sample_rc_def)

lemma sample_parts [simp]:
  "call_tool sample_create = ''demo.pull_request.create''"
  "agent_job_tools ''demo.pull_request.create'' = Some pull_request_create"
  "agent_job_tool_decision \<lparr>allow_tools = [''demo.*''], deny_tools = [], approval_tools = []\<rparr> ''demo.pull_request.create'' = Allow"
  "args_hash_for (rc_hash (sample_rc fs)) a = ''sha256:h''"
  "tool_effect pull_request_create"
  by (simp_all add: sample_create_def agent_job_tools_def registered_tools_def agent_job_tool_decision_def tool_matches_def ends_with_def starts_with_def
    pull_request_create_def args_hash_for_def sample_rc_def sample_hash_def)

lemma sample_performs [simp]:
  "tool_perform pull_request_create cx s = (case open_simulated_pull_request (cx_args cx) (cx_key cx) s of
         (p, s') \<Rightarrow> (Performed (pr_json p) (Some (pr_ref p)), s'))"
  "tool_reconcile pull_request_create = Some (\<lambda>e cx s. (case find_simulated_pull_request (cx_key cx) s of
         Some p \<Rightarrow> Found (pr_json p) (Some (pr_ref p)) | None \<Rightarrow> Absent, s))"
  by (simp_all add: pull_request_create_def)

lemma sample_run_parts [simp]:
  "run_id (sample_run i s) = i" "run_cancel_requested_at (sample_run i s) = None"
  by (simp_all add: sample_run_def)

text \<open>The crash falls between the external call and the commit; the second attempt reconciles.\<close>

lemma sample_history_result:
  "pull_requests_of (w_ext (run_history sample_history sample_world)) ''eff_h'' = 1"
  by (simp add: sample_history_def sample_world_def sample_leased_def empty_db_def drive_eval sample_key sample_fault_def
      open_simulated_pull_request_def find_simulated_pull_request_def sample_sink_def pull_requests_of_def tool_context_def
      del: redact_value.simps)

lemma pull_request_opened_once_witness:
  "pull_requests_of (w_ext (run_history sample_history sample_world)) ''eff_h'' \<le> 1"
  by (rule pull_request_opened_once [OF _ _ sample_history_fits])
    (simp_all add: sample_world_def sample_leased_def empty_db_def sample_sink_def)

lemma pull_request_in_ledger_witness:
  "\<exists>e. get_effect (w_db (run_history sample_history sample_world)) ''eff_h'' = Some e
     \<and> creates_pull_request (JObj []) (eff_tool e) \<and> (eff_state e = Committed \<or> dispatched_open e)"
proof (rule pull_request_in_ledger [OF _ _ sample_history_fits])
  show "0 < pull_requests_of (w_ext (run_history sample_history sample_world)) ''eff_h''"
    using sample_history_result by linarith
qed (simp_all add: sample_world_def sample_leased_def empty_db_def sample_sink_def)

end
