(* ===== verification/JobNative.thy ===== *)
theory JobNative
  imports JobTools
begin

text \<open>
  Attempts that a provider runs with its own tool loop (\<open>agent-job-native-attempt.js\<close>,
  \<open>agent-job-native-effects.js\<close>): the authorization of each native call under the pinned policy,
  the ledger entries of approved calls, the projection of the provider's events into the journal,
  and the mapping of the executor's outcome back to the runner. The executor itself (the Codex
  app-server or the Claude CLI) is a parameter: it answers with its next action given the replies
  to the actions before.
\<close>

section \<open>Sessions\<close>

record native_session =
  ses_ref :: string
  ses_attempt :: "nat option"

text \<open>The session of the most recent attempt on the same provider.\<close>

definition last_native_session :: "db \<Rightarrow> string \<Rightarrow> string \<Rightarrow> native_session option" where
  "last_native_session d i provider =
     (case last_opt (filter (\<lambda>c. jget (cp_data c) ''provider'' = Some (JStr provider))
              (list_checkpoints_of d i [''session_started''])) of
        None \<Rightarrow> None
      | Some c \<Rightarrow> (case jget (cp_data c) ''sessionRef'' of
            Some (JStr s) \<Rightarrow> if s = [] then None else Some \<lparr>ses_ref = s, ses_attempt = cp_attempt c\<rparr>
          | _ \<Rightarrow> None))"

definition resume_reason :: "db \<Rightarrow> string \<Rightarrow> string" where
  "resume_reason d i =
     (case rev (list_attempts d i) of
        _ # a # _ \<Rightarrow>
          (case att_end_reason a of
             None \<Rightarrow> ''new attempt''
           | Some s \<Rightarrow> if s = ''approval_wait'' then ''after an approval decision''
               else if s = [] then ''new attempt'' else ''after the previous attempt ended: '' @ s)
      | _ \<Rightarrow> ''new attempt'')"

section \<open>Ledger entries of approved native calls\<close>

record native_call =
  nc_tool :: string
  nc_args :: json
  nc_call_id :: string

definition nc_arguments :: "native_call \<Rightarrow> json" where
  "nc_arguments c = (if is_obj_or_arr (nc_args c) then nc_args c else JObj [])"

definition call_id_key :: "string \<Rightarrow> string" where
  "call_id_key s = take 120 s"

definition native_args_hash :: "'x run_ctx \<Rightarrow> native_call \<Rightarrow> string" where
  "native_args_hash rc c = args_hash_for (rc_hash rc) (nc_arguments c)"

definition native_effect_key :: "'x run_ctx \<Rightarrow> native_call \<Rightarrow> string" where
  "native_effect_key rc c = effect_key_for (rc_hash rc) (run_id (rc_run rc)) (nc_tool c)
     (JArr [JStr ''native'', JStr (native_args_hash rc c)])"

definition native_intent :: "'x run_ctx \<Rightarrow> native_call \<Rightarrow> effect_intent" where
  "native_intent rc c = \<lparr>int_key = native_effect_key rc c, int_run = run_id (rc_run rc), int_tool = nc_tool c,
     int_args_hash = native_args_hash rc c, int_args = redact_value (rc_secrets rc) (nc_arguments c),
     int_mode = ''native''\<rparr>"

text \<open>What an attempt keeps in memory: the counters of its journal and the granted calls.\<close>

record native_state =
  ns_seq :: nat
  ns_progress :: nat
  ns_grants :: "(string \<times> string) list"

definition fresh_native_state :: native_state where
  "fresh_native_state = \<lparr>ns_seq = 0, ns_progress = 0, ns_grants = []\<rparr>"

definition grant_call :: "string \<Rightarrow> string \<Rightarrow> native_state \<Rightarrow> native_state" where
  "grant_call call_id k st =
     (if call_id_key call_id = [] then st
      else st\<lparr>ns_grants := (call_id_key call_id, k) # filter (\<lambda>g. fst g \<noteq> call_id_key call_id) (ns_grants st)\<rparr>)"

definition native_effect_granted :: "'x run_ctx \<Rightarrow> native_call \<Rightarrow> string \<Rightarrow> int \<Rightarrow> db \<Rightarrow> db" where
  "native_effect_granted rc c approval now d =
     (let k = native_effect_key rc c;
          (e, d1) = intend_effect now (native_intent rc c) d;
          d2 = (if eff_state e = Unknown \<or> eff_state e = EffectFailed then reopen_effect now k d1 else d1);
          d3 = mark_effect_dispatched now k d2;
          d4 = add_checkpoint rc now ''tool_decision''
            [(''tool'', JStr (nc_tool c)), (''decision'', JStr ''approved''), (''native'', JBool True),
             (''approvalId'', JStr approval), (''callId'', JStr (call_id_key (nc_call_id c)))] d3
      in add_checkpoint rc now ''effect_dispatched''
           [(''effectKey'', JStr k), (''tool'', JStr (nc_tool c)), (''native'', JBool True)] d4)"

definition settle_row :: "'x run_ctx \<Rightarrow> string \<Rightarrow> string \<Rightarrow> bool \<Rightarrow> int \<Rightarrow> db \<Rightarrow> db" where
  "settle_row rc k call_id okay now d =
     (case get_effect d k of
        None \<Rightarrow> d
      | Some e \<Rightarrow>
          if eff_state e \<noteq> Intended then d
          else add_checkpoint rc now (if okay then ''effect_committed'' else ''effect_failed'')
                 [(''effectKey'', JStr k), (''tool'', JStr (eff_tool e)), (''native'', JBool True)]
                 (if okay then commit_effect now k (JObj [(''callId'', JStr (call_id_key call_id))]) None False d
                  else fail_effect now k ''failed'' (Some ''the provider reported the call as failed or declined'') d))"

text \<open>A completed call settles the grant that carries its id, once.\<close>

definition settle_native_effect ::
  "'x run_ctx \<Rightarrow> string \<Rightarrow> bool \<Rightarrow> native_state \<Rightarrow> ('x, native_state) job" where
  "settle_native_effect rc call_id okay st =
     (case map_of (ns_grants st) (call_id_key call_id) of
        None \<Rightarrow> job_return st
      | Some k \<Rightarrow> job_bind (write_db rc (settle_row rc k call_id okay)) (\<lambda>_.
          job_return (st\<lparr>ns_grants := filter (\<lambda>g. fst g \<noteq> call_id_key call_id) (ns_grants st)\<rparr>)))"

section \<open>Authorization of native calls\<close>

datatype native_verdict =
    NativeAllow
  | NativeDeny string
  | NativeCancelled
  | NativePending approval_row
  | NativeExpired approval_row

definition note_native_decision :: "'x run_ctx \<Rightarrow> native_call \<Rightarrow> tool_decision \<Rightarrow> int \<Rightarrow> db \<Rightarrow> db" where
  "note_native_decision rc c x now = add_checkpoint rc now ''tool_decision''
     [(''tool'', JStr (nc_tool c)), (''decision'', JStr (decision_str x)), (''native'', JBool True),
      (''callId'', JStr (call_id_key (nc_call_id c)))]"

definition ask_native_approval ::
  "'x run_ctx \<Rightarrow> native_call \<Rightarrow> int \<Rightarrow> string \<Rightarrow> db \<Rightarrow> (job_error, native_verdict \<times> db) result" where
  "ask_native_approval rc c now rnd d =
     and_then (create_approval now rnd
         \<lparr>req_run = run_id (rc_run rc), req_effect_key = native_effect_key rc c, req_args_hash = native_args_hash rc c,
          req_tool = nc_tool c, req_args = redact_value (rc_secrets rc) (nc_arguments c),
          req_reason = ''approval_required'', req_ttl_ms = rt_approval_timeout_ms (spec_runtime (rc_spec rc))\<rparr> d)
       (\<lambda>(a, d1). Inr (NativePending a, add_checkpoint rc now ''approval_requested''
          [(''approvalId'', JStr (apr_id a)), (''effectKey'', JStr (native_effect_key rc c)), (''tool'', JStr (nc_tool c)),
           (''reason'', JStr ''approval_required''), (''native'', JBool True)] d1))"

text \<open>The part of \<open>authorizeNativeToolCall\<close> that handles a call under \<open>approval_required\<close>.\<close>

definition native_approval_step ::
  "'x run_ctx \<Rightarrow> native_call \<Rightarrow> int \<Rightarrow> string \<Rightarrow> db \<Rightarrow> (job_error, native_verdict \<times> db) result" where
  "native_approval_step rc c now rnd d =
     (case find_approval d (native_effect_key rc c) (native_args_hash rc c) of
        None \<Rightarrow> ask_native_approval rc c now rnd d
      | Some a \<Rightarrow>
          if apr_consumed_at a \<noteq> None then ask_native_approval rc c now rnd d
          else (case apr_state a of
             ApprovalPending \<Rightarrow>
               if apr_expires_at a \<le> now
               then (let d1 = expire_approval now (apr_id a) d in Inr (NativeExpired (expired_version now a d1), d1))
               else Inr (NativePending a, d)
           | Approved \<Rightarrow>
               (case consume_approval now (apr_id a) d of
                  (False, d1) \<Rightarrow> ask_native_approval rc c now rnd d1
                | (True, d1) \<Rightarrow> Inr (NativeAllow, native_effect_granted rc c (apr_id a) now
                    (add_checkpoint rc now ''approval_consumed''
                       [(''approvalId'', JStr (apr_id a)), (''effectKey'', JStr (native_effect_key rc c)),
                        (''tool'', JStr (nc_tool c))] d1)))
           | Denied \<Rightarrow> Inr (NativeDeny (''a person denied '' @ nc_tool c @ '' with these arguments''), d)
           | Expired \<Rightarrow> Inr (NativeExpired a, d)))"

definition authorize_native ::
  "'x run_ctx \<Rightarrow> native_call \<Rightarrow> int \<Rightarrow> string \<Rightarrow> db \<Rightarrow> (job_error, native_verdict \<times> db) result" where
  "authorize_native rc c now rnd d =
     (let i = run_id (rc_run rc); x = agent_job_tool_decision (spec_tools (rc_spec rc)) (nc_tool c) in
      if (case get_run d i of None \<Rightarrow> False | Some r \<Rightarrow> run_cancel_requested_at r \<noteq> None) then Inr (NativeCancelled, d)
      else if \<not> holds_lease now i (rc_holder rc) d then Inr (NativeDeny ''the Orkestr run lease was lost'', d)
      else (let d1 = note_native_decision rc c x now d in
        (case x of
           Allow \<Rightarrow> Inr (NativeAllow, d1)
         | Deny \<Rightarrow> Inr (NativeDeny (nc_tool c @ '' is not allowed by this job's permissions.tools''), d1)
         | ApprovalRequired \<Rightarrow> native_approval_step rc c now rnd d1)))"

text \<open>The grant is remembered when the call was allowed by a consumed approval.\<close>

definition authorize_native_tool_call ::
  "'x run_ctx \<Rightarrow> native_call \<Rightarrow> native_state \<Rightarrow> ('x, native_verdict \<times> native_state) job" where
  "authorize_native_tool_call rc c st =
     job_bind (atomic rc (authorize_native rc c)) (\<lambda>v.
       job_return (v, if v = NativeAllow
             \<and> agent_job_tool_decision (spec_tools (rc_spec rc)) (nc_tool c) = ApprovalRequired
           then grant_call (nc_call_id c) (native_effect_key rc c) st else st))"

section \<open>Provider events\<close>

datatype native_event =
    SessionStarted string bool
  | WorkspaceReady string string
  | Usage int int json
  | OutputRepair string
  | MessageDelta string
  | MessageCompleted string
  | ToolRequested string string
  | ToolCompleted string string bool
  | OtherEvent

definition max_progress_per_attempt :: nat where
  "max_progress_per_attempt = 200"

definition journal_text :: "'x run_ctx \<Rightarrow> string \<Rightarrow> nat \<Rightarrow> json" where
  "journal_text rc s n = JStr (take n (redact_string (rc_secrets rc) s))"

text \<open>The events that are always written, with the number of the event and the instant.\<close>

definition pinned_entry ::
  "'x run_ctx \<Rightarrow> string \<Rightarrow> nat \<Rightarrow> int \<Rightarrow> native_event \<Rightarrow> (string \<times> (string \<times> json) list) option" where
  "pinned_entry rc provider seq now ev =
     (case ev of
        SessionStarted r resumed \<Rightarrow> Some (''session_started'',
          [(''seq'', JNum (int seq)), (''at'', jiso now), (''provider'', JStr provider), (''sessionRef'', JStr r),
           (''resumed'', JBool resumed)])
      | WorkspaceReady path kind \<Rightarrow> Some (''workspace'',
          [(''path'', JStr path), (''kind'', JStr (if kind = [] then ''directory'' else kind))])
      | Usage inp out cost \<Rightarrow> Some (''usage'',
          [(''seq'', JNum (int seq)), (''at'', jiso now), (''inputTokens'', JNum inp), (''outputTokens'', JNum out), (''costUsd'', cost)])
      | OutputRepair msg \<Rightarrow> Some (''output_repair'',
          [(''seq'', JNum (int seq)), (''at'', jiso now), (''error'', journal_text rc msg 500)])
      | _ \<Rightarrow> None)"

text \<open>The events that are written as progress, up to the limit.\<close>

definition progress_entry :: "'x run_ctx \<Rightarrow> nat \<Rightarrow> int \<Rightarrow> native_event \<Rightarrow> (string \<times> json) list option" where
  "progress_entry rc seq now ev =
     (case ev of
        MessageDelta t \<Rightarrow> Some [(''seq'', JNum (int seq)), (''at'', jiso now), (''type'', JStr ''message''), (''text'', journal_text rc t 2000)]
      | MessageCompleted t \<Rightarrow> Some [(''seq'', JNum (int seq)), (''at'', jiso now), (''type'', JStr ''message''), (''text'', journal_text rc t 2000)]
      | ToolRequested tool c \<Rightarrow> Some [(''seq'', JNum (int seq)), (''at'', jiso now), (''type'', JStr ''tool''),
          (''tool'', JStr (take 200 tool)), (''callId'', JStr (call_id_key c))]
      | ToolCompleted tool c okay \<Rightarrow> Some [(''seq'', JNum (int seq)), (''at'', jiso now), (''type'', JStr ''tool_result''),
          (''tool'', JStr (take 200 tool)), (''ok'', JBool okay), (''callId'', JStr (call_id_key c))]
      | _ \<Rightarrow> None)"

definition is_pinned :: "native_event \<Rightarrow> bool" where
  "is_pinned ev = (case ev of SessionStarted _ _ \<Rightarrow> True | WorkspaceReady _ _ \<Rightarrow> True | Usage _ _ _ \<Rightarrow> True
     | OutputRepair _ \<Rightarrow> True | _ \<Rightarrow> False)"

definition write_entry :: "'x run_ctx \<Rightarrow> string \<Rightarrow> (string \<times> json) list option \<Rightarrow> int \<Rightarrow> db \<Rightarrow> db" where
  "write_entry rc kind entry now d = (case entry of None \<Rightarrow> d | Some kvs \<Rightarrow> add_checkpoint rc now kind kvs d)"

text \<open>\<open>ctx.emit\<close>.\<close>

definition journal_event :: "'x run_ctx \<Rightarrow> string \<Rightarrow> native_event \<Rightarrow> native_state \<Rightarrow> ('x, native_state) job" where
  "journal_event rc provider ev st0 =
     (let st = st0\<lparr>ns_seq := Suc (ns_seq st0)\<rparr>; n = ns_seq st in
      job_bind (case ev of ToolCompleted tool c okay \<Rightarrow> settle_native_effect rc c okay st | _ \<Rightarrow> job_return st) (\<lambda>st1.
        if is_pinned ev
        then job_bind (write_db rc (\<lambda>now d. case pinned_entry rc provider n now ev of
               None \<Rightarrow> d | Some (kind, kvs) \<Rightarrow> add_checkpoint rc now kind kvs d)) (\<lambda>_. job_return st1)
        else if max_progress_per_attempt \<le> ns_progress st1 then job_return st1
        else (let st2 = st1\<lparr>ns_progress := Suc (ns_progress st1)\<rparr> in
          if progress_entry rc n 0 ev = None then job_return st2
          else job_bind (write_db rc (\<lambda>now. write_entry rc ''progress'' (progress_entry rc n now ev) now)) (\<lambda>_. job_return st2))))"

section \<open>One native attempt\<close>

record attempt_input =
  in_prompt :: string
  in_inputs :: json
  in_trigger_event :: json
  in_output_schema :: json
  in_model :: "string option"
  in_base_url :: "string option"
  in_tools :: tool_perms

record native_input =
  nat_input :: attempt_input
  nat_resume_summary :: "string option"
  nat_approved_calls :: "string option"
  nat_session :: "native_session option"
  nat_resume_reason :: string

datatype native_result = NativeFinal json | NativePark approval_row | NativeExpire approval_row | NativeGaveUp

text \<open>
  The executor's next action. It returns a result, with the reason of the abort signal when that was
  raised meanwhile, or is cut off by the signal (\<open>NativeCutOff\<close>), or throws.
\<close>

datatype native_action =
    NativeAuthorize native_call
  | NativeExecute tool_call
  | NativeEmit native_event
  | NativeFault string string
  | NativeReturn native_result "string option"
  | NativeCutOff string
  | NativeThrow raised

datatype native_reply = ReplyVerdict native_verdict | ReplyStatus tool_status | ReplyNone

datatype attempt_outcome =
    AttemptFinal json
  | AttemptPark approval_row
  | AttemptExpired "approval_row option"
  | AttemptCancelled
  | AttemptRaised raised

definition attempt_timeout :: raised where
  "attempt_timeout = \<lparr>rz_kind = ''timeout'', rz_retryable = True, rz_message = ''attempt_timeout'', rz_status = 0\<rparr>"

text \<open>The outcome by the reason of the abort signal, when there is one.\<close>

definition aborted_outcome :: "string \<Rightarrow> json \<Rightarrow> ('x, attempt_outcome) job" where
  "aborted_outcome reason output =
     (if reason = ''cancelled'' then job_return AttemptCancelled
      else if reason = ''lease_lost'' then job_throw LeaseLost
      else if reason \<noteq> [] then job_return (AttemptRaised attempt_timeout)
      else job_return (AttemptFinal output))"

definition native_outcome :: "native_result \<Rightarrow> string option \<Rightarrow> ('x, attempt_outcome) job" where
  "native_outcome r signal =
     (case r of
        NativePark a \<Rightarrow> job_return (AttemptPark a)
      | NativeExpire a \<Rightarrow> job_return (AttemptExpired (Some a))
      | NativeFinal v \<Rightarrow> aborted_outcome (case signal of None \<Rightarrow> [] | Some s \<Rightarrow> s) v
      | NativeGaveUp \<Rightarrow> aborted_outcome (case signal of None \<Rightarrow> ''cancelled'' | Some s \<Rightarrow> s) JNull)"

definition resume_summary :: "db \<Rightarrow> string \<Rightarrow> string option" where
  "resume_summary d i =
     (let es = filter (\<lambda>e. eff_state e = Committed) (list_effects d i) in
      if es = [] then None
      else Some (str_join [CHR 0x0A] (map (\<lambda>e. eff_tool e @ '': '' @ (case eff_ref e of None \<Rightarrow> ''done'' | Some r \<Rightarrow> if r = [] then ''done'' else r)) es)))"

definition approved_calls :: "db \<Rightarrow> string \<Rightarrow> string option" where
  "approved_calls d i =
     (let as = filter (\<lambda>a. apr_state a = Approved \<and> apr_reason a = ''approval_required'' \<and> apr_consumed_at a = None)
                 (list_approvals_of_run d i) in
      if as = [] then None
      else Some (str_join [CHR 0x0A] (map (\<lambda>a. take 2000 (apr_tool a @ '' '' @ json_stringify (apr_args a))) as)))"

definition native_input_of :: "'x run_ctx \<Rightarrow> string \<Rightarrow> attempt_input \<Rightarrow> int \<Rightarrow> db \<Rightarrow> native_input" where
  "native_input_of rc provider inp now d =
     \<lparr>nat_input = inp, nat_resume_summary = resume_summary d (run_id (rc_run rc)),
      nat_approved_calls = approved_calls d (run_id (rc_run rc)),
      nat_session = last_native_session d (run_id (rc_run rc)) provider,
      nat_resume_reason = resume_reason d (run_id (rc_run rc))\<rparr>"

text \<open>
  The loop over the executor's actions. It may go on for ever; the deadline of the attempt cuts it
  off, after a number of actions that the model is given.
\<close>

fun native_loop ::
  "'x run_ctx \<Rightarrow> string \<Rightarrow> (native_reply list \<Rightarrow> native_action) \<Rightarrow> nat \<Rightarrow> native_state \<Rightarrow> native_reply list
   \<Rightarrow> ('x, attempt_outcome) job" where
  "native_loop rc provider exec 0 st rs = aborted_outcome ''timeout'' JNull"
| "native_loop rc provider exec (Suc n) st rs =
     (case exec rs of
        NativeAuthorize c \<Rightarrow> job_bind (authorize_native_tool_call rc c st) (\<lambda>(v, st1).
          native_loop rc provider exec n st1 (rs @ [ReplyVerdict v]))
      | NativeExecute c \<Rightarrow> job_bind (execute_tool_call rc c) (\<lambda>v.
          native_loop rc provider exec n st (rs @ [ReplyStatus v]))
      | NativeEmit ev \<Rightarrow> job_bind (journal_event rc provider ev st) (\<lambda>st1.
          native_loop rc provider exec n st1 (rs @ [ReplyNone]))
      | NativeFault point tool \<Rightarrow> job_bind (fault_point rc point tool) (\<lambda>_.
          native_loop rc provider exec n st (rs @ [ReplyNone]))
      | NativeReturn r signal \<Rightarrow> native_outcome r signal
      | NativeCutOff reason \<Rightarrow> aborted_outcome reason JNull
      | NativeThrow e \<Rightarrow> job_return (AttemptRaised e))"

definition run_native_attempt ::
  "'x run_ctx \<Rightarrow> (native_input \<Rightarrow> native_reply list \<Rightarrow> native_action) \<Rightarrow> nat \<Rightarrow> string \<Rightarrow> attempt_input
   \<Rightarrow> ('x, attempt_outcome) job" where
  "run_native_attempt rc exec budget provider inp =
     job_bind (read_db rc (native_input_of rc provider inp)) (\<lambda>ni.
       native_loop rc provider (exec ni) budget fresh_native_state [])"

section \<open>Properties\<close>

text \<open>
  A cancelled run and a driver without the lease authorize nothing: the call is refused and
  the database is as it was.
\<close>

theorem native_refused_without_lease:
  "run_cancel_requested_at r \<noteq> None \<or> \<not> holds_lease now (run_id r) (rc_holder rc) d \<Longrightarrow>
     get_run d (run_id r) = Some r \<Longrightarrow> run_id (rc_run rc) = run_id r \<Longrightarrow>
     \<exists>v. authorize_native rc c now rnd d = Inr (v, d) \<and> v \<noteq> NativeAllow"
  by (auto simp: authorize_native_def Let_def)

lemma find_approval_in:
  assumes "find_approval d k h = Some a"
  shows "a \<in> set (db_approvals d)" "apr_effect_key a = k" "apr_args_hash a = h"
proof -
  let ?as = "sort_key apr_requested_at (filter (\<lambda>a. apr_effect_key a = k \<and> apr_args_hash a = h) (db_approvals d))"
  from assms have "?as \<noteq> []" and "a = last ?as" by (simp_all add: find_approval_def last_opt_def split: if_splits)
  then have "a \<in> set ?as" using last_in_set [of ?as] by (rule_tac ssubst) 
  then show "a \<in> set (db_approvals d)" "apr_effect_key a = k" "apr_args_hash a = h" by auto
qed

lemma get_approval_distinct:
  "distinct (map apr_id (db_approvals d)) \<Longrightarrow> a \<in> set (db_approvals d) \<Longrightarrow> get_approval d (apr_id a) = Some a"
  by (simp add: get_approval_def row_of_in_iff)

lemma add_checkpoint_frame [simp]:
  "db_approvals (add_checkpoint rc now kind kvs d) = db_approvals d" "db_runs (add_checkpoint rc now kind kvs d) = db_runs d"
  "get_effect (add_checkpoint rc now kind kvs d) k = get_effect d k"
  "get_approval (add_checkpoint rc now kind kvs d) a = get_approval d a"
  "get_run (add_checkpoint rc now kind kvs d) i = get_run d i"
  by (simp_all add: add_checkpoint_def get_effect_def get_approval_def get_run_def)

lemma granted_approvals [simp]:
  "get_approval (native_effect_granted rc c b now d) a = get_approval d a"
proof (rule get_approval_same)
  obtain e d1 where i: "intend_effect now (native_intent rc c) d = (e, d1)" by fastforce
  show "db_approvals (native_effect_granted rc c b now d) = db_approvals d"
    using only_effects_frame(6) [OF only_effects_intend [OF i]] i
    by (simp add: native_effect_granted_def Let_def effect_op_defs)
qed

lemma granted_effect:
  "\<exists>e. get_effect (native_effect_granted rc c b now d) (native_effect_key rc c) = Some e
     \<and> (eff_state e = Committed \<or> dispatched_open e \<and> eff_args_hash e = native_args_hash rc c)"
proof -
  obtain e d1 where i: "intend_effect now (native_intent rc c) d = (e, d1)" by fastforce
  have key: "int_key (native_intent rc c) = native_effect_key rc c" "int_args_hash (native_intent rc c) = native_args_hash rc c"
    by (simp_all add: native_intent_def)
  have e: "get_effect d1 (native_effect_key rc c) = Some e" using intend_effect_recorded(1) [OF i] key by simp
  have "eff_args_hash e = native_args_hash rc c \<or> eff_state e = Committed"
    using i by (cases rule: intend_effect_cases) (auto simp: key fresh_effect_def replace_intent_def)
  with e show ?thesis
    by (cases "eff_state e") (auto simp: native_effect_granted_def Let_def i mark_effect_dispatched_def get_effect_upd
        get_effect_reopen dispatched_open_def)
qed

text \<open>
  C20: a native call under \<open>approval_required\<close> is allowed only by a person's approval of exactly this
  tool and these arguments, which was approved and unspent before and is spent after; and the ledger
  then holds the call as dispatched (or as committed, when it was before).
\<close>

theorem native_allow_spends_approval:
  assumes "authorize_native rc c now rnd d = Inr (NativeAllow, d')"
    and "agent_job_tool_decision (spec_tools (rc_spec rc)) (nc_tool c) = ApprovalRequired"
    and "distinct (map apr_id (db_approvals d))"
  shows "\<exists>a e. get_approval d (apr_id a) = Some a \<and> apr_effect_key a = native_effect_key rc c
    \<and> apr_args_hash a = native_args_hash rc c \<and> may_consume a
    \<and> get_approval d' (apr_id a) = Some (a\<lparr>apr_consumed_at := Some now\<rparr>)
    \<and> get_effect d' (native_effect_key rc c) = Some e
    \<and> (eff_state e = Committed \<or> dispatched_open e \<and> eff_args_hash e = native_args_hash rc c)"
proof -
  define d1 where "d1 = note_native_decision rc c ApprovalRequired now d"
  have ids: "distinct (map apr_id (db_approvals d1))" using assms(3) by (simp add: d1_def note_native_decision_def)
  from assms(1,2) have step: "native_approval_step rc c now rnd d1 = Inr (NativeAllow, d')"
    by (auto simp: authorize_native_def Let_def d1_def split: if_splits)
  then obtain a where a: "find_approval d1 (native_effect_key rc c) (native_args_hash rc c) = Some a"
    by (cases "find_approval d1 (native_effect_key rc c) (native_args_hash rc c)")
      (auto simp: native_approval_step_def ask_native_approval_def and_then_Inr_iff)
  have get: "get_approval d1 (apr_id a) = Some a" by (rule get_approval_distinct [OF ids find_approval_in(1) [OF a]])
  from step a have consumable: "may_consume a" and d': "d' = native_effect_granted rc c (apr_id a) now
      (add_checkpoint rc now ''approval_consumed'' [(''approvalId'', JStr (apr_id a)),
         (''effectKey'', JStr (native_effect_key rc c)), (''tool'', JStr (nc_tool c))]
       (upd_approval (apr_id a) (\<lambda>x. x\<lparr>apr_consumed_at := Some now\<rparr>) d1))"
    using get by (auto simp: native_approval_step_def ask_native_approval_def and_then_Inr_iff Let_def
        consume_approval_def split: if_splits approval_state.splits)
  obtain e where "get_effect d' (native_effect_key rc c) = Some e"
    "eff_state e = Committed \<or> dispatched_open e \<and> eff_args_hash e = native_args_hash rc c"
    using granted_effect d' by blast
  moreover have "get_approval d (apr_id a) = Some a" using get by (simp add: d1_def note_native_decision_def)
  moreover have "get_approval d' (apr_id a) = Some (a\<lparr>apr_consumed_at := Some now\<rparr>)"
    using get by (simp add: d' get_approval_upd)
  ultimately show ?thesis using find_approval_in(2,3) [OF a] consumable by blast
qed

text \<open>
  A native call that was granted but never reported back (the driver died in between) is not
  repeated silently: recovery cannot ask the provider, so it marks the effect \<open>unknown\<close>, without
  touching anything outside, and a person decides.
\<close>

theorem lost_native_call_is_unknown:
  assumes "dispatched_open e" and "get_effect (w_db w) (eff_key e) = Some e"
    and "rc_tools rc (eff_tool e) = None" and "quiet (rc_env rc)"
  shows "\<exists>e'. fst (reconcile_effect rc e w) = Inr e' \<and> eff_state e' = Unknown
    \<and> get_effect (w_db (snd (reconcile_effect rc e w))) (eff_key e) = Some e'
    \<and> w_ext (snd (reconcile_effect rc e w)) = w_ext w"
proof -
  have "get_effect (others (rc_env rc) n (w_db w)) (eff_key e) = Some e" for n
    using assms(2,4) by (simp add: quiet_def get_effect_def)
  then show ?thesis
    using assms(3) by (simp add: reconcile_effect_def ask_tool_def job_bind_def job_return_def atomic_def tx_def Let_def
        record_verdict_def settle_verdict_def effect_after_def get_effect_unknown)
qed

text \<open>
  A completion event settles a granted call once: what the second event for the same call
  leaves is what the first left.
\<close>

theorem native_settled_once:
  "get_effect (settle_row rc k call_id b now (settle_row rc k call_id a now0 d)) k
     = get_effect (settle_row rc k call_id a now0 d) k"
  by (cases "get_effect d k") (auto simp: settle_row_def get_effect_commit get_effect_fail split: option.splits)

section \<open>Concrete instances\<close>

definition sample_native_call :: native_call where
  "sample_native_call = \<lparr>nc_tool = ''claude.bash'', nc_args = JObj [(''command'', JStr ''ls'')], nc_call_id = ''toolu_1''\<rparr>"

definition sample_native_rc :: "sink run_ctx" where
  "sample_native_rc = (sample_rc [])\<lparr>rc_spec := sample_spec\<lparr>spec_tools :=
     \<lparr>allow_tools = [], deny_tools = [], approval_tools = [''claude.*'']\<rparr>\<rparr>\<rparr>"

definition sample_grant :: approval_row where
  "sample_grant = \<lparr>apr_id = ''apr_1'', apr_run = ''run_1'', apr_effect_key = ''eff_h'', apr_args_hash = ''sha256:h'',
     apr_tool = ''claude.bash'', apr_args = JObj [], apr_reason = ''approval_required'', apr_state = Approved,
     apr_requested_at = 10, apr_expires_at = 9000, apr_decided_by = Some ''owner'', apr_decided_at = Some 20,
     apr_comment = None, apr_consumed_at = None\<rparr>"

definition sample_granted :: db where
  "sample_granted = sample_leased\<lparr>db_approvals := [sample_grant]\<rparr>"

lemma sample_native_keys [simp]:
  "native_effect_key sample_native_rc sample_native_call = ''eff_h''"
  "native_args_hash sample_native_rc sample_native_call = ''sha256:h''"
  "agent_job_tool_decision (spec_tools (rc_spec sample_native_rc)) (nc_tool sample_native_call) = ApprovalRequired"
  by (simp_all add: native_effect_key_def native_args_hash_def effect_key_for_def args_hash_for_def sample_native_rc_def
      sample_rc_def sample_hash_def agent_job_tool_decision_def tool_matches_def ends_with_def starts_with_def
      sample_native_call_def)

lemma sample_native_parts [simp]:
  "run_id (rc_run sample_native_rc) = ''run_1''" "rc_holder sample_native_rc = ''host:1:a''"
  by (simp_all add: sample_native_rc_def)

lemma sample_authorized:
  "\<exists>d'. authorize_native sample_native_rc sample_native_call 1000 ''r'' sample_granted = Inr (NativeAllow, d')"
  by (simp add: authorize_native_def Let_def native_approval_step_def find_approval_def last_opt_def sample_granted_def
      note_native_decision_def get_run_def holds_lease_def sample_leased_def sample_grant_def consume_approval_def
      get_approval_def may_consume_def)

lemma native_allow_spends_approval_witness:
  "\<exists>d'. authorize_native sample_native_rc sample_native_call 1000 ''r'' sample_granted = Inr (NativeAllow, d')
     \<and> (\<exists>a e. get_approval d' (apr_id a) = Some (a\<lparr>apr_consumed_at := Some 1000\<rparr>)
          \<and> get_effect d' (native_effect_key sample_native_rc sample_native_call) = Some e
          \<and> (eff_state e = Committed \<or> dispatched_open e))"
proof -
  obtain d' where d': "authorize_native sample_native_rc sample_native_call 1000 ''r'' sample_granted = Inr (NativeAllow, d')"
    using sample_authorized by blast
  from native_allow_spends_approval [OF this]
  show ?thesis using d' by (auto simp: sample_granted_def)
qed

lemma native_refused_without_lease_witness:
  "\<exists>v. authorize_native sample_native_rc sample_native_call 90000 ''r'' sample_granted = Inr (v, sample_granted) \<and> v \<noteq> NativeAllow"
  by (rule native_refused_without_lease
        [of "(sample_run ''run_1'' Running)\<lparr>run_lease_holder := Some ''host:1:a'', run_lease_expires_at := Some 90000\<rparr>"])
    (simp_all add: holds_lease_def get_run_def sample_granted_def sample_leased_def)

definition sample_lost_effect :: effect_row where
  "sample_lost_effect = (fresh_effect 10 (native_intent sample_native_rc sample_native_call))\<lparr>eff_dispatched_at := Some 20\<rparr>"

definition sample_lost_world :: "sink world" where
  "sample_lost_world = \<lparr>w_db = sample_leased\<lparr>db_effects := [sample_lost_effect]\<rparr>, w_ext = sample_sink, w_turn = 0\<rparr>"

lemma lost_native_call_is_unknown_witness:
  "\<exists>e'. fst (reconcile_effect sample_native_rc sample_lost_effect sample_lost_world) = Inr e' \<and> eff_state e' = Unknown"
proof -
  have "dispatched_open sample_lost_effect" by (simp add: sample_lost_effect_def dispatched_open_def fresh_effect_def)
  moreover have "get_effect (w_db sample_lost_world) (eff_key sample_lost_effect) = Some sample_lost_effect"
    by (simp add: sample_lost_world_def get_effect_def)
  moreover have "rc_tools sample_native_rc (eff_tool sample_lost_effect) = None"
    by (simp add: sample_native_rc_def sample_lost_effect_def fresh_effect_def native_intent_def sample_native_call_def
        agent_job_tools_def registered_tools_def)
  moreover have "quiet (rc_env sample_native_rc)" by (simp add: quiet_def sample_native_rc_def)
  ultimately show ?thesis using lost_native_call_is_unknown [of sample_lost_effect sample_lost_world sample_native_rc] by blast
qed

end
