(* ===== verification/JobOutput.thy ===== *)
theory JobOutput
  imports Json
begin

text \<open>
  The schema checks of Agent Job results: \<open>validateOutput\<close> (\<open>agent-job-output.js\<close>), which the
  runner applies to every final output, and \<open>checkLocalSchema\<close> and \<open>localSchemaMatches\<close>
  (\<open>agent-job-local-schema.js\<close>), which the local adapter applies to tool arguments and outputs.
  Schemas and values are JSON values; looking up a key with \<open>in\<close> also finds the names that every
  object inherits, which the model represents as an inherited function.
\<close>

section \<open>Lookup\<close>

text \<open>The inherited names; \<open>__proto__\<close>, whose value is an object, is left out.\<close>

definition inherited_names :: "string list" where
  "inherited_names = [''constructor'', ''hasOwnProperty'', ''isPrototypeOf'', ''propertyIsEnumerable'',
     ''toLocaleString'', ''toString'', ''valueOf'', ''__defineGetter__'', ''__defineSetter__'',
     ''__lookupGetter__'', ''__lookupSetter__'']"

datatype looked_up = Own json | Inherited

definition in_lookup :: "looked_up \<Rightarrow> string \<Rightarrow> looked_up option" where
  "in_lookup v k =
     (case v of
        Own (JObj kvs) \<Rightarrow> (case map_of kvs k of
            Some x \<Rightarrow> Some (Own x)
          | None \<Rightarrow> if k \<in> set inherited_names then Some Inherited else None)
      | _ \<Rightarrow> None)"

text \<open>\<open>Object.entries(value || {})\<close>; the entries of a text are texts, which no check looks into.\<close>

definition entries_of :: "json option \<Rightarrow> (string \<times> json) list" where
  "entries_of v = (case v of
     Some (JObj kvs) \<Rightarrow> kvs
   | Some (JArr xs) \<Rightarrow> zip (map nat_str [0..<length xs]) xs
   | _ \<Rightarrow> [])"

definition array_of :: "json option \<Rightarrow> json list" where
  "array_of v = (case v of Some (JArr xs) \<Rightarrow> xs | _ \<Rightarrow> [])"

text \<open>\<open>[].concat(value)\<close>.\<close>

definition as_array :: "json \<Rightarrow> json list" where
  "as_array v = (case v of JArr xs \<Rightarrow> xs | _ \<Rightarrow> [v])"

definition first_some :: "'a option list \<Rightarrow> 'a option" where
  "first_some xs = (case dropWhile (\<lambda>x. x = None) xs of [] \<Rightarrow> None | x # _ \<Rightarrow> x)"

lemma first_some_simps [simp]:
  "first_some [] = None" "first_some (None # xs) = first_some xs" "first_some (Some x # xs) = Some x"
  by (simp_all add: first_some_def)

lemma first_some_None [simp]: "first_some xs = None \<longleftrightarrow> (\<forall>x \<in> set xs. x = None)"
proof (induction xs)
  case (Cons x xs)
  then show ?case by (cases x) auto
qed simp

lemma size_member:
  assumes "jget v p = Some x"
  shows "size x < size v"
proof -
  have in_entries: "size y < Suc (size_list (size_prod (\<lambda>_. 0) size) kvs)" if "(k', y) \<in> set kvs"
    for k' and y :: json and kvs :: "(string \<times> json) list"
    using that by (induction kvs) auto
  from assms obtain kvs where "v = JObj kvs" and "map_of kvs p = Some x"
    by (auto simp: jget_def split: json.splits)
  with in_entries [OF map_of_SomeD [of kvs p x]] show ?thesis by simp
qed

lemma size_entry:
  assumes "(k, x) \<in> set (entries_of (jget v p))"
  shows "size x < size v"
proof -
  have in_list: "size y < Suc (size_list size ys)" if "y \<in> set ys" for y :: json and ys
    using that by (induction ys) auto
  have in_entries: "size y < Suc (size_list (size_prod (\<lambda>_. 0) size) kvs)" if "(k', y) \<in> set kvs"
    for k' and y :: json and kvs :: "(string \<times> json) list"
    using that by (induction kvs) auto
  obtain w where w: "jget v p = Some w" using assms by (cases "jget v p") (auto simp: entries_of_def)
  have "size x < size w"
  proof (cases w)
    case (JArr xs)
    with assms w have "x \<in> set xs" by (auto simp: entries_of_def dest: set_zip_rightD)
    with in_list JArr show ?thesis by simp
  next
    case (JObj ls)
    with assms w in_entries show ?thesis by (simp add: entries_of_def)
  qed (use assms w in \<open>auto simp: entries_of_def\<close>)
  with size_member [OF w] show ?thesis by simp
qed

section \<open>The output check\<close>

definition type_of :: "looked_up \<Rightarrow> string" where
  "type_of v = (case v of
     Inherited \<Rightarrow> ''function''
   | Own x \<Rightarrow> (case x of JNull \<Rightarrow> ''null'' | JArr _ \<Rightarrow> ''array'' | JNum _ \<Rightarrow> ''integer'' | JDec _ \<Rightarrow> ''number''
       | JStr _ \<Rightarrow> ''string'' | JBool _ \<Rightarrow> ''boolean'' | JObj _ \<Rightarrow> ''object''))"

definition matches_type :: "json \<Rightarrow> looked_up \<Rightarrow> bool" where
  "matches_type expected v \<longleftrightarrow>
     (let actual = type_of v in
      list_ex (\<lambda>t. t = JStr actual \<or> t = JStr ''number'' \<and> actual = ''integer'') (as_array expected))"

definition same_json :: "json \<Rightarrow> looked_up \<Rightarrow> bool" where
  "same_json entry v = (case v of Inherited \<Rightarrow> False | Own x \<Rightarrow> json_stringify entry = json_stringify x)"

definition type_error_of :: "json \<Rightarrow> looked_up \<Rightarrow> string \<Rightarrow> string option" where
  "type_error_of sc v at =
     (case jget sc ''type'' of
        None \<Rightarrow> None
      | Some t \<Rightarrow> if truthy t \<and> \<not> matches_type t v
          then Some (at @ '': expected '' @ str_join ''|'' (map (\<lambda>x. if x = JNull then [] else js_string x) (as_array t)))
          else None)"

definition enum_error_of :: "json \<Rightarrow> looked_up \<Rightarrow> string \<Rightarrow> string option" where
  "enum_error_of sc v at =
     (case jget sc ''enum'' of
        Some (JArr es) \<Rightarrow> if list_ex (\<lambda>e. same_json e v) es then None else Some (at @ '': not in enum'')
      | _ \<Rightarrow> None)"

definition required_errors :: "json \<Rightarrow> looked_up \<Rightarrow> string \<Rightarrow> string option list" where
  "required_errors sc v at =
     map (\<lambda>key. if in_lookup v (js_string key) = None then Some (at @ ''.'' @ js_string key @ '': required'') else None)
       (array_of (jget sc ''required''))"

definition items_of :: "json \<Rightarrow> json option" where
  "items_of sc = (case jget sc ''items'' of None \<Rightarrow> None | Some x \<Rightarrow> if truthy x then Some x else None)"

definition elements_of :: "looked_up \<Rightarrow> (nat \<times> json) list" where
  "elements_of v = (case v of Own (JArr xs) \<Rightarrow> enumerate 0 xs | _ \<Rightarrow> [])"

function (sequential) schema_check :: "json \<Rightarrow> looked_up \<Rightarrow> string \<Rightarrow> string option" where
  "schema_check sc v at =
     (if \<not> is_obj_or_arr sc then None
      else first_some
        ([type_error_of sc v at, enum_error_of sc v at]
         @ (if type_of v = ''object''
            then required_errors sc v at
              @ map (\<lambda>(key, sub). case in_lookup v key of
                    None \<Rightarrow> None
                  | Some x \<Rightarrow> schema_check sub x (at @ ''.'' @ key)) (entries_of (jget sc ''properties''))
            else [])
         @ (case items_of sc of
              None \<Rightarrow> []
            | Some sub \<Rightarrow> map (\<lambda>(i, x). schema_check sub (Own x) (at @ ''['' @ nat_str i @ '']'')) (elements_of v))))"
  by pat_completeness auto
termination
  by (relation "measure (\<lambda>(sc, v, at). size sc)")
    (auto simp: items_of_def dest: size_entry size_member split: option.splits if_splits)

declare schema_check.simps [simp del]

definition validate_output :: "json \<Rightarrow> json \<Rightarrow> string option" where
  "validate_output sc output = (if \<not> truthy sc then None else schema_check sc (Own output) ''$'')"

section \<open>The local schema subset\<close>

definition schema_keys :: "string list" where
  "schema_keys = [''type'', ''properties'', ''required'', ''items'', ''enum'', ''additionalProperties'', ''description'', ''title'']"

definition schema_types :: "string list" where
  "schema_types = [''object'', ''array'', ''string'', ''integer'', ''number'', ''boolean'', ''null'']"

text \<open>The checks of one level; \<open>True\<close> when none of them fails.\<close>

definition local_level_ok :: "json \<Rightarrow> nat \<Rightarrow> bool" where
  "local_level_ok sc depth \<longleftrightarrow>
     is_object sc \<and> depth \<le> 12 \<and> list_all (\<lambda>k. k \<in> set schema_keys) (jkeys sc)
     \<and> (case jget sc ''type'' of None \<Rightarrow> True | Some t \<Rightarrow> list_all (\<lambda>x. x \<in> set (map JStr schema_types)) (as_array t))
     \<and> (case jget sc ''required'' of None \<Rightarrow> True | Some (JArr ks) \<Rightarrow> list_all (\<lambda>k. case k of JStr _ \<Rightarrow> True | _ \<Rightarrow> False) ks | _ \<Rightarrow> False)
     \<and> (case jget sc ''enum'' of None \<Rightarrow> True | Some (JArr _) \<Rightarrow> True | _ \<Rightarrow> False)
     \<and> (case jget sc ''additionalProperties'' of None \<Rightarrow> True | Some (JBool _) \<Rightarrow> True | _ \<Rightarrow> False)
     \<and> (case jget sc ''properties'' of None \<Rightarrow> True | Some (JObj _) \<Rightarrow> True | _ \<Rightarrow> False)"

text \<open>\<open>checkLocalSchema\<close> returns (\<open>True\<close>) or throws \<open>local_schema_unsupported\<close> (\<open>False\<close>).\<close>

function (sequential) check_local_schema :: "json \<Rightarrow> nat \<Rightarrow> bool" where
  "check_local_schema sc depth \<longleftrightarrow>
     local_level_ok sc depth
     \<and> list_all (\<lambda>(k, sub). check_local_schema sub (Suc depth)) (entries_of (jget sc ''properties''))
     \<and> (case jget sc ''items'' of None \<Rightarrow> True | Some sub \<Rightarrow> check_local_schema sub (Suc depth))"
  by pat_completeness auto
termination
  by (relation "measure (\<lambda>(sc, depth). size sc)") (auto dest: size_entry size_member)

declare check_local_schema.simps [simp del]

text \<open>\<open>isDeepStrictEqual\<close>: objects are equal up to the order of their keys.\<close>

primrec deep_equal :: "json \<Rightarrow> json \<Rightarrow> bool" where
  "deep_equal JNull w = (w = JNull)"
| "deep_equal (JBool b) w = (w = JBool b)"
| "deep_equal (JNum n) w = (w = JNum n)"
| "deep_equal (JDec d) w = (w = JDec d)"
| "deep_equal (JStr s) w = (w = JStr s)"
| "deep_equal (JArr xs) w = (case w of
     JArr ys \<Rightarrow> length xs = length ys \<and> list_all (\<lambda>(f, y). f y) (zip (map deep_equal xs) ys) | _ \<Rightarrow> False)"
| "deep_equal (JObj kvs) w = (case w of
     JObj ls \<Rightarrow> length kvs = length ls
       \<and> list_all (\<lambda>(k, f). case map_of ls k of None \<Rightarrow> False | Some y \<Rightarrow> f y) (map (map_prod id deep_equal) kvs)
   | _ \<Rightarrow> False)"

definition plain_type_of :: "json \<Rightarrow> string" where
  "plain_type_of v = (case v of JNum _ \<Rightarrow> ''number'' | _ \<Rightarrow> type_of (Own v))"

definition local_type_ok :: "json \<Rightarrow> json \<Rightarrow> bool" where
  "local_type_ok sc v \<longleftrightarrow>
     (case jget sc ''type'' of
        None \<Rightarrow> True
      | Some t \<Rightarrow> truthy t \<longrightarrow>
          list_ex (\<lambda>x. x = JStr (plain_type_of v) \<or> x = JStr ''integer'' \<and> type_of (Own v) = ''integer'') (as_array t))"

definition local_enum_ok :: "json \<Rightarrow> json \<Rightarrow> bool" where
  "local_enum_ok sc v \<longleftrightarrow>
     (case jget sc ''enum'' of None \<Rightarrow> True | Some es \<Rightarrow> list_ex (\<lambda>e. deep_equal e v) (array_of (Some es)))"

text \<open>A value is matched against a schema that \<open>checkLocalSchema\<close> accepted.\<close>

function (sequential) local_schema_matches :: "json \<Rightarrow> json \<Rightarrow> bool" where
  "local_schema_matches sc v \<longleftrightarrow>
     local_type_ok sc v \<and> local_enum_ok sc v
     \<and> (plain_type_of v = ''object'' \<longrightarrow>
          list_all (\<lambda>key. js_string key \<in> set (jkeys v)) (array_of (jget sc ''required''))
          \<and> list_all (\<lambda>(k, x). if k \<in> set (map fst (entries_of (jget sc ''properties'')))
                then list_all (\<lambda>(p, sub). p = k \<longrightarrow> local_schema_matches sub x) (entries_of (jget sc ''properties''))
                else jget sc ''additionalProperties'' \<noteq> Some (JBool False)) (entries_of (Some v)))
     \<and> (plain_type_of v = ''array'' \<longrightarrow>
          (case items_of sc of None \<Rightarrow> True | Some sub \<Rightarrow> list_all (local_schema_matches sub) (array_of (Some v))))"
  by pat_completeness auto
termination
  by (relation "measure (\<lambda>(sc, v). size sc)")
    (auto simp: items_of_def dest: size_entry size_member split: option.splits if_splits)

declare local_schema_matches.simps [simp del]

section \<open>The two checks agree\<close>

text \<open>
  Schemas on which the two checks are comparable: enumerated values have no structure (the two
  compare keys in a different way) and no property has the name of an inherited one.
\<close>

function (sequential) plain_schema :: "json \<Rightarrow> bool" where
  "plain_schema sc \<longleftrightarrow>
     list_all (\<lambda>e. \<not> is_obj_or_arr e) (array_of (jget sc ''enum''))
     \<and> list_all (\<lambda>(k, sub). k \<notin> set inherited_names \<and> plain_schema sub) (entries_of (jget sc ''properties''))
     \<and> (case jget sc ''items'' of None \<Rightarrow> True | Some sub \<Rightarrow> plain_schema sub)"
  by pat_completeness auto
termination
  by (relation "measure size") (auto dest: size_entry size_member)

declare plain_schema.simps [simp del]

lemma scalar_deep_equal: "deep_equal e v \<Longrightarrow> \<not> is_obj_or_arr e \<Longrightarrow> e = v"
  by (cases e) (auto simp: is_obj_or_arr_def)

lemma local_type_accepted: "local_type_ok sc v \<Longrightarrow> type_error_of sc (Own v) at = None"
  by (cases v) (auto simp: local_type_ok_def type_error_of_def matches_type_def list_ex_iff plain_type_of_def
      type_of_def Let_def split: option.splits)

lemma local_enum_accepted:
  assumes "local_enum_ok sc v" and "list_all (\<lambda>e. \<not> is_obj_or_arr e) (array_of (jget sc ''enum''))"
  shows "enum_error_of sc (Own v) at = None"
proof (cases "jget sc ''enum''")
  case (Some es)
  show ?thesis
  proof (cases es)
    case (JArr xs)
    with assms Some obtain e where "e \<in> set xs" and "deep_equal e v" and "\<not> is_obj_or_arr e"
      by (auto simp: local_enum_ok_def array_of_def list_ex_iff list_all_iff)
    with JArr Some show ?thesis
      by (auto simp: enum_error_of_def list_ex_iff same_json_def dest: scalar_deep_equal)
  qed (use Some in \<open>simp_all add: enum_error_of_def\<close>)
qed (simp add: enum_error_of_def)

lemma plain_object [simp]: "plain_type_of v = ''object'' \<longleftrightarrow> is_object v" "type_of (Own v) = ''object'' \<longleftrightarrow> is_object v"
  "plain_type_of v = ''array'' \<longleftrightarrow> (\<exists>xs. v = JArr xs)"
  by (cases v; simp add: plain_type_of_def type_of_def is_object_def)+

lemma own_lookup:
  assumes "is_object v" and "k \<in> set (jkeys v)"
  shows "in_lookup (Own v) k \<noteq> None"
  using assms by (cases v) (auto simp: is_object_def jkeys_def in_lookup_def split: option.splits dest!: map_of_eq_None_iff [THEN iffD1])

lemma lookup_entry:
  assumes "in_lookup (Own v) k = Some x" and "k \<notin> set inherited_names"
  obtains y where "x = Own y" "(k, y) \<in> set (entries_of (Some v))"
  using assms by (cases v) (auto simp: in_lookup_def entries_of_def split: option.splits if_splits dest: map_of_SomeD)

lemma local_accepted:
  assumes "check_local_schema sc depth" and "plain_schema sc" and "local_schema_matches sc v"
  shows "schema_check sc (Own v) at = None"
  using assms
proof (induction "size sc" arbitrary: sc depth v at rule: less_induct)
  case less
  note matches = less.prems(3) [unfolded local_schema_matches.simps [of sc]]
    and plain = less.prems(2) [unfolded plain_schema.simps [of sc]]
    and level = less.prems(1) [unfolded check_local_schema.simps [of sc]]
  have member: "schema_check sub (Own y) at' = None"
    if "(k, sub) \<in> set (entries_of (jget sc ''properties''))" and "(k, y) \<in> set (entries_of (Some v))" and "is_object v"
    for k sub y at'
  proof (rule less.hyps [OF size_entry [OF that(1)]])
    show "check_local_schema sub (Suc depth)" using level that(1) by (auto simp: list_all_iff)
    show "plain_schema sub" using plain that(1) by (auto simp: list_all_iff)
    have key: "k \<in> set (map fst (entries_of (jget sc ''properties'')))" using that(1) by force
    have "list_all (\<lambda>(k, x). if k \<in> set (map fst (entries_of (jget sc ''properties'')))
       then list_all (\<lambda>(p, sub). p = k \<longrightarrow> local_schema_matches sub x) (entries_of (jget sc ''properties''))
       else jget sc ''additionalProperties'' \<noteq> Some (JBool False)) (entries_of (Some v))"
      using matches that(3) by (simp only: plain_object simp_thms)
    from this [unfolded list_all_iff, THEN bspec, OF that(2)] key
    have "list_all (\<lambda>(p, sub). p = k \<longrightarrow> local_schema_matches sub y) (entries_of (jget sc ''properties''))"
      by (simp only: prod.case if_True list_all_iff)
    from this [unfolded list_all_iff, THEN bspec, OF that(1)] show "local_schema_matches sub y" by simp
  qed
  have property: "(case in_lookup (Own v) k of None \<Rightarrow> None | Some x \<Rightarrow> schema_check sub x at') = None"
    if "(k, sub) \<in> set (entries_of (jget sc ''properties''))" and "is_object v" for k sub at'
  proof (cases "in_lookup (Own v) k")
    case (Some x)
    have "k \<notin> set inherited_names" using plain that(1) by (auto simp: list_all_iff)
    with Some obtain y where "x = Own y" and "(k, y) \<in> set (entries_of (Some v))" by (rule lookup_entry)
    with member [OF that(1) this(2) that(2)] Some show ?thesis by simp
  qed simp
  have element: "schema_check sub (Own x) at' = None"
    if "items_of sc = Some sub" and "(i, x) \<in> set (elements_of (Own v))" for sub i x at'
  proof -
    from that(1) have "jget sc ''items'' = Some sub" by (auto simp: items_of_def split: option.splits if_splits)
    moreover from that(2) obtain xs where "v = JArr xs" "x \<in> set xs"
      by (cases v) (auto simp: elements_of_def in_set_enumerate_eq)
    moreover then have "local_schema_matches sub x" using matches that(1) by (auto simp: array_of_def list_all_iff)
    ultimately show ?thesis
      using level plain by (auto intro!: less.hyps dest: size_member)
  qed
  have required: "x = None" if "x \<in> set (required_errors sc (Own v) at)" "is_object v" for x
  proof -
    have "list_all (\<lambda>key. js_string key \<in> set (jkeys v)) (array_of (jget sc ''required''))"
      using matches that(2) by (simp only: plain_object simp_thms)
    then show ?thesis using that own_lookup by (fastforce simp: required_errors_def list_all_iff)
  qed
  have "type_error_of sc (Own v) at = None" using matches by (simp add: local_type_accepted)
  moreover have "enum_error_of sc (Own v) at = None" using matches plain by (simp add: local_enum_accepted)
  ultimately show ?case
    unfolding schema_check.simps [of sc] by (auto simp: property element split: option.splits dest: required)
qed

text \<open>
  C22: an output that the local adapter accepted against the job's output schema is never rejected
  as \<open>output_invalid\<close> by the runner afterwards, for schemas whose enumerated values are scalars and
  whose properties are not named like inherited ones (for the first limit see
  \<open>structured_enum_rejected\<close>).
\<close>

theorem local_output_accepted:
  assumes "check_local_schema sc 0" and "plain_schema sc" and "local_schema_matches sc v"
  shows "validate_output sc v = None"
  using local_accepted [OF assms] by (simp add: validate_output_def)

text \<open>
  A required key that every object inherits (\<open>constructor\<close>, \<open>toString\<close>) is not enforced: the
  check looks keys up with \<open>in\<close>, so an object without the key passes; any other missing
  key is reported.
\<close>

theorem required_key_check:
  "validate_output (JObj [(''required'', JArr [JStr k])]) (JObj []) = None \<longleftrightarrow> k \<in> set inherited_names"
  by (simp add: validate_output_def truthy_def schema_check.simps is_obj_or_arr_def type_error_of_def jget_def
      enum_error_of_def required_errors_def array_of_def in_lookup_def items_of_def entries_of_def type_of_def)

text \<open>
  The condition on enumerated values is needed: one adapter compares them up to the order of keys, the
  other check compares their texts.
\<close>

definition structured_enum :: json where
  "structured_enum = JObj [(''enum'', JArr [JObj [(''a'', JNum 1), (''b'', JNum 2)]])]"

lemma structured_enum_rejected:
  "check_local_schema structured_enum 0" "local_schema_matches structured_enum (JObj [(''b'', JNum 2), (''a'', JNum 1)])"
  "validate_output structured_enum (JObj [(''b'', JNum 2), (''a'', JNum 1)]) = Some ''$: not in enum''"
  by code_simp+

definition sample_schema :: json where
  "sample_schema = JObj [(''type'', JStr ''object''), (''required'', JArr [JStr ''summary'']),
     (''properties'', JObj [(''summary'', JObj [(''type'', JStr ''string'')]),
        (''tags'', JObj [(''type'', JStr ''array''), (''items'', JObj [(''enum'', JArr [JStr ''a'', JStr ''b''])])])])]"

definition sample_output :: json where
  "sample_output = JObj [(''tags'', JArr [JStr ''b'', JStr ''a'']), (''summary'', JStr ''done'')]"

lemma local_output_accepted_witness: "validate_output sample_schema sample_output = None"
  by (rule local_output_accepted) code_simp+

end
