(* ===== verification/JobRunner.thy ===== *)
theory JobRunner
  imports JobNative JobOutput
begin

text \<open>
  The durable runner (\<open>agent-job-runner.js\<close>, \<open>agent-job-local-step.js\<close>): one attempt with the
  Orkestr tool loop or a native executor, the recovery of an interrupted attempt, the drive loop
  that ends when the run is terminal or parked, the lease around it, and the sweep over due runs.
  Provider adapters are parameters; a step that exceeds the attempt's deadline is a step that
  throws \<open>attempt_timeout\<close>. A sleep is a turn in which nothing of the driver runs.
\<close>

section \<open>Delays and counts\<close>

text \<open>The argument is the number in \<open>ORKESTR_AGENT_JOB_LEASE_MS\<close>, \<open>None\<close> when it is not one.\<close>

definition agent_job_lease_ms :: "int option \<Rightarrow> int" where
  "agent_job_lease_ms v = (case v of None \<Rightarrow> 30000 | Some n \<Rightarrow> if 20 \<le> n then n else 30000)"

definition backoff_delay_ms :: "retry_policy \<Rightarrow> int \<Rightarrow> int" where
  "backoff_delay_ms p index =
     (let base = (if retry_backoff p = Fixed then initial_delay_ms p else initial_delay_ms p * 2 ^ nat (max 0 index))
      in min (max_delay_ms p) base)"

definition counted :: "attempt_row list \<Rightarrow> attempt_row list" where
  "counted as = filter (\<lambda>a. att_end_reason a \<noteq> Some ''approval_wait'') as"

definition exhausted_reason :: "attempt_row list \<Rightarrow> string" where
  "exhausted_reason as =
     (let interrupted = filter (\<lambda>a. att_end_reason a = Some ''interrupted'') (counted as) in
      if 2 \<le> length interrupted
         \<and> map_option att_end_reason (last_opt (counted as)) = Some (Some ''interrupted'')
         \<and> length (remdups (map (\<lambda>a. case att_error a of None \<Rightarrow> [] | Some t \<Rightarrow> t) interrupted)) = 1
      then ''recovery_loop'' else ''max_attempts_exhausted'')"

definition interruption_point :: "db \<Rightarrow> string \<Rightarrow> attempt_row \<Rightarrow> string" where
  "interruption_point d i a =
     (case last_opt (filter (\<lambda>c. cp_attempt c = Some (att_n a)) (list_checkpoints d i)) of
        None \<Rightarrow> ''attempt_started''
      | Some c \<Rightarrow> cp_kind c @ '':''
          @ (case jget (cp_data c) ''stepIndex'' of
               Some v \<Rightarrow> if v \<noteq> JNull then js_string v else (case jget (cp_data c) ''tool'' of
                   Some t \<Rightarrow> if t \<noteq> JNull then js_string t else [] | None \<Rightarrow> [])
             | None \<Rightarrow> (case jget (cp_data c) ''tool'' of Some t \<Rightarrow> if t \<noteq> JNull then js_string t else [] | None \<Rightarrow> [])))"

section \<open>Ending a drive\<close>

record snapshot =
  sn_run :: string
  sn_state :: "run_state option"
  sn_reason :: "string option"
  sn_output :: json
  sn_extra :: "(string \<times> json) list"

definition snapshot_of :: "string \<Rightarrow> (string \<times> json) list \<Rightarrow> db \<Rightarrow> snapshot" where
  "snapshot_of i extra d =
     \<lparr>sn_run = i, sn_state = map_option run_state (get_run d i),
      sn_reason = (case get_run d i of None \<Rightarrow> None | Some r \<Rightarrow> run_reason r),
      sn_output = (case get_run d i of None \<Rightarrow> JNull | Some r \<Rightarrow> run_output r), sn_extra = extra\<rparr>"

definition take_snapshot :: "'x run_ctx \<Rightarrow> (string \<times> json) list \<Rightarrow> ('x, snapshot) job" where
  "take_snapshot rc extra = read_db rc (\<lambda>now. snapshot_of (run_id (rc_run rc)) extra)"

definition unused_approvals :: "db \<Rightarrow> string \<Rightarrow> approval_row list" where
  "unused_approvals d i = filter (\<lambda>a. apr_state a = Approved \<and> apr_consumed_at a = None) (list_approvals_of_run d i)"

definition finalize_tx :: "'x run_ctx \<Rightarrow> job_spec option \<Rightarrow> run_result \<Rightarrow> int \<Rightarrow> db \<Rightarrow> db" where
  "finalize_tx rc spec q now d =
     finalize_run (rc_hash rc) now (rc_channels rc) (rc_secrets rc) (run_id (rc_run rc)) q spec
       (fold (\<lambda>a. add_checkpoint rc now ''approval_unused'' [(''approvalId'', JStr (apr_id a)), (''tool'', JStr (apr_tool a))])
          (unused_approvals d (run_id (rc_run rc))) d)"

definition finalize :: "'x run_ctx \<Rightarrow> job_spec option \<Rightarrow> run_result \<Rightarrow> ('x, snapshot) job" where
  "finalize rc spec q = job_bind (write_db rc (finalize_tx rc spec q)) (\<lambda>_. take_snapshot rc [])"

definition park_tx :: "'x run_ctx \<Rightarrow> approval_row \<Rightarrow> int \<Rightarrow> db \<Rightarrow> db" where
  "park_tx rc a now d =
     record_notifications (rc_hash rc) now (rc_channels rc) (run_id (rc_run rc)) (rc_spec rc) ''approval_required''
       (''approval_required:'' @ apr_id a) \<lparr>det_approval = Some (apr_id a, apr_tool a), det_attempt = None\<rparr>
       (update_run now (run_id (rc_run rc)) [SetState AwaitingApproval, SetReason (Some (apr_reason a))] d)"

definition park :: "'x run_ctx \<Rightarrow> approval_row \<Rightarrow> ('x, snapshot) job" where
  "park rc a = job_bind (write_db rc (park_tx rc a)) (\<lambda>_. take_snapshot rc [(''approvalId'', JStr (apr_id a))])"

definition expire_tx :: "'x run_ctx \<Rightarrow> approval_row \<Rightarrow> int \<Rightarrow> db \<Rightarrow> db" where
  "expire_tx rc a now d =
     record_notifications (rc_hash rc) now (rc_channels rc) (run_id (rc_run rc)) (rc_spec rc) ''approval_expired''
       (''approval_expired:'' @ apr_id a) no_detail
       (fail_effect now (apr_effect_key a) ''expired'' None (expire_approval now (apr_id a) d))"

text \<open>Without an approval, reading its id throws.\<close>

definition expire_run :: "'x run_ctx \<Rightarrow> approval_row option \<Rightarrow> ('x, snapshot) job" where
  "expire_run rc x =
     (case x of
        None \<Rightarrow> job_throw type_error
      | Some a \<Rightarrow> job_bind (write_db rc (expire_tx rc a)) (\<lambda>_.
          finalize rc (Some (rc_spec rc)) ((finished Failed)\<lparr>res_reason := Some ''approval_expired''\<rparr>)))"

section \<open>One attempt\<close>

text \<open>What an adapter sees in one step, and what it answers.\<close>

record step_query =
  sq_run :: string
  sq_job :: string
  sq_attempt :: "nat option"
  sq_provider :: string
  sq_input :: attempt_input
  sq_transcript :: "json list"

datatype agent_step =
    StepMessage string json
  | StepTool tool_call string
  | StepFinal json
  | StepCancelled
  | StepThrew raised

text \<open>
  The adapters: one with the Orkestr tool loop; the local one, whose step also emits events and may
  be interrupted by the abort signal with a reason; and a native one. The number is the turn in
  which the adapter is asked, so the same question may have different answers.
\<close>

datatype adapter =
    StepAdapter "step_query \<Rightarrow> nat \<Rightarrow> agent_step"
  | LocalAdapter "step_query \<Rightarrow> nat \<Rightarrow> agent_step \<times> string option \<times> native_event list"
  | NativeAdapter "native_input \<Rightarrow> native_reply list \<Rightarrow> native_action" nat

definition job_turn :: "('x, nat) job" where
  "job_turn w = (Inr (w_turn w), w)"

definition status_text :: "tool_status \<Rightarrow> string" where
  "status_text s = (case s of
     ToolDenied \<Rightarrow> ''denied'' | ToolUnknown \<Rightarrow> ''unknown_tool'' | ToolCancelled \<Rightarrow> ''cancelled'' | ToolOk _ \<Rightarrow> ''ok''
   | ToolError _ \<Rightarrow> ''error'' | ToolDeduplicated _ _ \<Rightarrow> ''deduplicated'' | ToolReconciled _ _ \<Rightarrow> ''reconciled''
   | ToolCommitted _ _ \<Rightarrow> ''committed'' | ToolPark _ \<Rightarrow> ''park'' | ToolExpired _ \<Rightarrow> ''expired'' | ToolRefused t \<Rightarrow> t)"

definition status_ref :: "tool_status \<Rightarrow> string option" where
  "status_ref s = (case s of ToolDeduplicated _ r \<Rightarrow> r | ToolReconciled _ r \<Rightarrow> r | ToolCommitted _ r \<Rightarrow> r | _ \<Rightarrow> None)"

definition status_error :: "tool_status \<Rightarrow> string option" where
  "status_error s = (case s of ToolError t \<Rightarrow> Some t | _ \<Rightarrow> None)"

definition status_result :: "tool_status \<Rightarrow> json" where
  "status_result s = (case s of ToolOk v \<Rightarrow> v | ToolDeduplicated v _ \<Rightarrow> v | ToolReconciled v _ \<Rightarrow> v
     | ToolCommitted v _ \<Rightarrow> v | _ \<Rightarrow> JNull)"

definition max_steps :: nat where
  "max_steps = 200"

definition max_steps_raised :: raised where
  "max_steps_raised = \<lparr>rz_kind = ''task'', rz_retryable = False, rz_message = ''max_steps_exceeded'', rz_status = 0\<rparr>"

text \<open>\<open>runLocalJobStep\<close>: what the abort signal's reason makes of the end of a step.\<close>

definition by_abort_reason :: "string option \<Rightarrow> ('x, agent_step) job \<Rightarrow> ('x, agent_step) job" where
  "by_abort_reason reason m =
     (if reason = Some ''cancelled'' then job_return StepCancelled
      else if reason = Some ''lease_lost'' then job_throw LeaseLost
      else if reason = Some ''timeout'' then job_return (StepThrew attempt_timeout)
      else m)"

definition run_is_cancelled :: "db \<Rightarrow> string \<Rightarrow> bool" where
  "run_is_cancelled d i = (case get_run d i of None \<Rightarrow> False | Some r \<Rightarrow> run_cancel_requested_at r \<noteq> None)"

definition run_local_job_step :: "'x run_ctx \<Rightarrow> agent_step \<Rightarrow> string option \<Rightarrow> ('x, agent_step) job" where
  "run_local_job_step rc s reason =
     (case s of
        StepThrew e \<Rightarrow> by_abort_reason reason (job_return s)
      | _ \<Rightarrow> job_bind (read_db rc (\<lambda>now d. (run_is_cancelled d (run_id (rc_run rc)), holds_lease now (run_id (rc_run rc)) (rc_holder rc) d)))
          (\<lambda>(cancelled, leased).
            if cancelled then job_return StepCancelled
            else if \<not> leased then by_abort_reason reason (job_throw LeaseLost)
            else by_abort_reason reason (job_return s)))"

fun journal_events :: "'x run_ctx \<Rightarrow> string \<Rightarrow> native_event list \<Rightarrow> native_state \<Rightarrow> ('x, native_state) job" where
  "journal_events rc provider [] st = job_return st"
| "journal_events rc provider (ev # evs) st = job_bind (journal_event rc provider ev st) (journal_events rc provider evs)"

definition next_step ::
  "'x run_ctx \<Rightarrow> adapter \<Rightarrow> step_query \<Rightarrow> native_state \<Rightarrow> ('x, agent_step \<times> native_state) job" where
  "next_step rc ad q st =
     job_bind job_turn (\<lambda>t.
       case ad of
         StepAdapter f \<Rightarrow> job_return (f q t, st)
       | LocalAdapter f \<Rightarrow> (case f q t of (s, reason, evs) \<Rightarrow>
           job_bind (journal_events rc ''openai-compatible'' evs st) (\<lambda>st1.
             job_bind (run_local_job_step rc s reason) (\<lambda>s1. job_return (s1, st1))))
       | NativeAdapter _ _ \<Rightarrow> job_throw type_error)"

definition is_local :: "adapter \<Rightarrow> bool" where
  "is_local ad = (case ad of LocalAdapter _ \<Rightarrow> True | _ \<Rightarrow> False)"

definition note_message :: "'x run_ctx \<Rightarrow> string \<Rightarrow> json \<Rightarrow> int \<Rightarrow> db \<Rightarrow> db" where
  "note_message rc t index now = add_checkpoint rc now ''message''
     [(''stepIndex'', index), (''text'', JStr (take 4000 (redact_string (rc_secrets rc) t)))]"

definition note_result :: "'x run_ctx \<Rightarrow> bool \<Rightarrow> tool_call \<Rightarrow> string \<Rightarrow> tool_status \<Rightarrow> int \<Rightarrow> db \<Rightarrow> db" where
  "note_result rc local c wire s now = add_checkpoint rc now ''tool_result''
     ([(''stepIndex'', call_step c), (''tool'', JStr (call_tool c)), (''status'', JStr (status_text s)),
       (''ref'', jstr_opt (status_ref s)), (''error'', jstr_opt (status_error s))]
      @ (if local then [(''args'', redact_value (rc_secrets rc) (call_args c)), (''wireName'', JStr wire),
                        (''result'', redact_value (rc_secrets rc) (status_result s))] else []))"

text \<open>\<open>None\<close> to go on with the loop.\<close>

definition stopping_outcome :: "tool_status \<Rightarrow> attempt_outcome option" where
  "stopping_outcome s = (case s of ToolPark a \<Rightarrow> Some (AttemptPark a) | ToolExpired x \<Rightarrow> Some (AttemptExpired x)
     | ToolCancelled \<Rightarrow> Some AttemptCancelled | _ \<Rightarrow> None)"

definition step_query_of :: "'x run_ctx \<Rightarrow> string \<Rightarrow> attempt_input \<Rightarrow> json list \<Rightarrow> step_query" where
  "step_query_of rc provider inp transcript = \<lparr>sq_run = run_id (rc_run rc), sq_job = run_job (rc_run rc),
     sq_attempt = rc_attempt rc, sq_provider = provider, sq_input = inp, sq_transcript = transcript\<rparr>"

text \<open>What the loop reads before a step: whether the run is cancelled, and the transcript.\<close>

definition before_step :: "'x run_ctx \<Rightarrow> int \<Rightarrow> string \<Rightarrow> db \<Rightarrow> (job_error, (bool \<times> json list) \<times> db) result" where
  "before_step rc now rnd d =
     (case get_run d (run_id (rc_run rc)) of
        None \<Rightarrow> Inl type_error
      | Some r \<Rightarrow> Inr ((run_cancel_requested_at r \<noteq> None,
          map cp_data (list_checkpoints_of d (run_id (rc_run rc)) [''message'', ''tool_result''])), d))"

fun step_loop ::
  "'x run_ctx \<Rightarrow> adapter \<Rightarrow> string \<Rightarrow> attempt_input \<Rightarrow> nat \<Rightarrow> native_state \<Rightarrow> ('x, attempt_outcome) job" where
  "step_loop rc ad provider inp 0 st = job_return (AttemptRaised max_steps_raised)"
| "step_loop rc ad provider inp (Suc n) st =
     job_bind (atomic rc (before_step rc)) (\<lambda>(cancelled, transcript).
       if cancelled then job_return AttemptCancelled
       else job_bind (next_step rc ad (step_query_of rc provider inp transcript) st) (\<lambda>(s, st1).
         case s of
           StepCancelled \<Rightarrow> job_return AttemptCancelled
         | StepFinal v \<Rightarrow> job_return (AttemptFinal v)
         | StepThrew e \<Rightarrow> job_return (AttemptRaised e)
         | StepMessage t index \<Rightarrow>
             job_bind (write_db rc (note_message rc t index)) (\<lambda>_. step_loop rc ad provider inp n st1)
         | StepTool c wire \<Rightarrow>
             job_bind (write_db rc (\<lambda>now. add_checkpoint rc now ''tool_requested''
                 [(''stepIndex'', call_step c), (''tool'', JStr (call_tool c))])) (\<lambda>_.
               job_bind (fault_point rc ''tool_requested'' (call_tool c)) (\<lambda>_.
                 job_bind (execute_tool_call rc c) (\<lambda>r.
                   case stopping_outcome r of
                     Some o' \<Rightarrow> job_return o'
                   | None \<Rightarrow> job_bind (write_db rc (note_result rc (is_local ad) c wire r)) (\<lambda>_.
                       step_loop rc ad provider inp n st1))))))"

definition attempt_input_of :: "'x run_ctx \<Rightarrow> agent_ref \<Rightarrow> attempt_input" where
  "attempt_input_of rc ref = \<lparr>in_prompt = spec_prompt (rc_spec rc), in_inputs = spec_inputs (rc_spec rc),
     in_trigger_event = or_null (jget (run_trigger (rc_run rc)) ''event''),
     in_output_schema = or_null (spec_output_schema (rc_spec rc)), in_model = ref_model ref,
     in_base_url = ref_base_url ref, in_tools = spec_tools (rc_spec rc)\<rparr>"

definition run_attempt :: "'x run_ctx \<Rightarrow> adapter \<Rightarrow> agent_ref \<Rightarrow> ('x, attempt_outcome) job" where
  "run_attempt rc ad ref =
     (case ad of
        NativeAdapter exec budget \<Rightarrow> run_native_attempt rc exec budget (ref_provider ref) (attempt_input_of rc ref)
      | _ \<Rightarrow> step_loop rc ad (ref_provider ref) (attempt_input_of rc ref) max_steps fresh_native_state)"

section \<open>Recovery\<close>

definition is_open_attempt :: "attempt_row \<Rightarrow> bool" where
  "is_open_attempt a \<longleftrightarrow> att_state a = Starting \<or> att_state a = AttemptRunning"

definition interrupt_tx :: "'x run_ctx \<Rightarrow> attempt_row \<Rightarrow> int \<Rightarrow> db \<Rightarrow> db" where
  "interrupt_tx rc a now d =
     (let i = run_id (rc_run rc); point = interruption_point d i a in
      append_checkpoint now i (Some (att_n a)) ''attempt_interrupted''
        (JObj [(''n'', JNum (int (att_n a))), (''at'', JStr point)])
        (update_attempt now i (att_n a) (Some Interrupted) (Some ''interrupted'') (Some (Some point)) d))"

definition recover :: "'x run_ctx \<Rightarrow> attempt_row list \<Rightarrow> ('x, unit) job" where
  "recover rc as =
     (case last_opt as of
        None \<Rightarrow> job_return ()
      | Some a \<Rightarrow>
          if \<not> is_open_attempt a then job_return ()
          else job_bind (write_db rc (interrupt_tx rc a)) (\<lambda>_.
            job_bind (recover_effects (rc\<lparr>rc_attempt := Some (att_n a)\<rparr>)) (\<lambda>_. job_return ())))"

section \<open>Starting an attempt\<close>

definition provider_chain :: "job_spec \<Rightarrow> agent_ref list" where
  "provider_chain s = spec_agent s # spec_fallback s"

definition last_n :: "attempt_row list \<Rightarrow> nat option" where
  "last_n as = map_option att_n (last_opt as)"

definition start_tx ::
  "'x run_ctx \<Rightarrow> attempt_row list \<Rightarrow> agent_ref \<Rightarrow> nat \<Rightarrow> int \<Rightarrow> string \<Rightarrow> db \<Rightarrow> (job_error, unit \<times> db) result" where
  "start_tx rc as ref n now rnd d =
     (let i = run_id (rc_run rc) in
      and_then (insert_attempt now i n (ref_provider ref) (ref_model ref)
          (case last_opt as of None \<Rightarrow> None | Some a \<Rightarrow> att_last_seq a) d) (\<lambda>d1.
        Inr ((), append_checkpoint now i (Some n) ''attempt_started''
          (JObj [(''n'', JNum (int n)), (''provider'', JStr (ref_provider ref))])
          (update_run now i [SetState Running, SetReason None, SetAttemptCount (length (counted as) + 1), SetNextAttemptAt None]
            (update_attempt now i n (Some AttemptRunning) None None d1)))))"

record drive_opts =
  do_adapters :: "string \<Rightarrow> adapter option"
  do_providers :: provider_env
  do_wait :: bool
  do_max_wait :: "int option"

definition raised_error :: "string \<Rightarrow> string \<Rightarrow> raised" where
  "raised_error kind msg = \<lparr>rz_kind = kind, rz_retryable = False, rz_message = msg, rz_status = 0\<rparr>"

text \<open>The checks before an adapter runs, inside the \<open>try\<close>.\<close>

definition guarded_attempt :: "'x run_ctx \<Rightarrow> drive_opts \<Rightarrow> agent_ref list \<Rightarrow> agent_ref \<Rightarrow> ('x, attempt_outcome) job" where
  "guarded_attempt rc opts chain ref =
     (let p = ref_provider ref; st = agent_job_provider_status (do_providers opts) ref in
      if list_ex (\<lambda>r. ref_provider r = ''openai-compatible'') chain \<and> 1 < length chain
      then job_return (AttemptRaised (raised_error ''task'' ''local_fallback_not_supported''))
      else if \<not> st_runnable st
      then job_return (AttemptRaised (raised_error ''provider'' (''provider_not_connected:'' @ p @ '':'' @ st_reason st)))
      else (case do_adapters opts p of
              None \<Rightarrow> job_return (AttemptRaised (raised_error ''provider'' (''provider_not_available:'' @ p)))
            | Some ad \<Rightarrow> run_attempt rc ad ref))"

text \<open>The \<open>catch\<close>: a crash and a lost lease go on, everything else is an error of the attempt.\<close>

definition caught :: "job_error \<Rightarrow> raised option" where
  "caught e = (case e of
     JobError code status \<Rightarrow> Some \<lparr>rz_kind = [], rz_retryable = True, rz_message = code, rz_status = int status\<rparr>
   | SqlConstraint t \<Rightarrow> Some \<lparr>rz_kind = [], rz_retryable = True, rz_message = ''UNIQUE constraint failed: '' @ t, rz_status = 0\<rparr>
   | _ \<Rightarrow> None)"

definition catching :: "('x, attempt_outcome) job \<Rightarrow> ('x, attempt_outcome) job" where
  "catching m w =
     (case m w of
        (Inl e, w') \<Rightarrow> (case caught e of Some r \<Rightarrow> (Inr (AttemptRaised r), w') | None \<Rightarrow> (Inl e, w'))
      | (Inr x, w') \<Rightarrow> (Inr x, w'))"

section \<open>Ending an attempt\<close>

datatype 'x drive_next = DriveDone snapshot | DriveAgain "'x run_ctx"

definition end_attempt :: "'x run_ctx \<Rightarrow> nat \<Rightarrow> attempt_state \<Rightarrow> string \<Rightarrow> string option option \<Rightarrow> int \<Rightarrow> db \<Rightarrow> db" where
  "end_attempt rc n s reason error now = update_attempt now (run_id (rc_run rc)) n (Some s) (Some reason) error"

definition final_tx :: "'x run_ctx \<Rightarrow> nat \<Rightarrow> bool \<Rightarrow> int \<Rightarrow> db \<Rightarrow> db" where
  "final_tx rc n valid now d = append_checkpoint now (run_id (rc_run rc)) (Some n) ''final_output''
     (JObj [(''valid'', JBool valid)]) (end_attempt rc n Completed ''completed'' None now d)"

definition failure_end_reason :: "failure_kind \<Rightarrow> string" where
  "failure_end_reason k = (case k of ProviderFailure \<Rightarrow> ''provider_error'' | TimeoutFailure \<Rightarrow> ''timeout'' | TaskFailure \<Rightarrow> ''task_error'')"

definition retry_tx :: "'x run_ctx \<Rightarrow> nat \<Rightarrow> failure_kind \<Rightarrow> bool \<Rightarrow> nat \<Rightarrow> int \<Rightarrow> int \<Rightarrow> db \<Rightarrow> db" where
  "retry_tx rc n kind fallback index delay now d =
     (let i = run_id (rc_run rc) in
      record_notifications (rc_hash rc) now (rc_channels rc) i (rc_spec rc) ''retrying'' (''retrying:'' @ nat_str n)
        \<lparr>det_approval = None, det_attempt = Some n\<rparr>
        (append_checkpoint now i (Some n) ''retry_scheduled''
          (JObj [(''delayMs'', JNum delay), (''fallback'', JBool fallback), (''kind'', JStr (failure_kind_str kind))])
          (update_run now i [SetState Retrying, SetReason (Some (failure_end_reason kind)),
             SetProviderIndex (if fallback then index + 1 else index), SetNextAttemptAt (Some (now + delay))] d)))"

definition can_fall_back :: "'x run_ctx \<Rightarrow> nat \<Rightarrow> failure \<Rightarrow> bool" where
  "can_fall_back rc index f \<longleftrightarrow> fl_kind f = ProviderFailure \<and> index + 1 < length (provider_chain (rc_spec rc))"

text \<open>With the number of attempts used so far: give up, or schedule the next one.\<close>

definition retry_or_fail :: "'x run_ctx \<Rightarrow> nat \<Rightarrow> nat \<Rightarrow> failure \<Rightarrow> nat \<Rightarrow> ('x, 'x drive_next) job" where
  "retry_or_fail rc n index f used =
     (let most = rt_max_attempts (spec_runtime (rc_spec rc)) in
      if \<not> fl_retryable f \<and> \<not> can_fall_back rc index f \<or> most \<le> int used
      then job_bind (finalize rc (Some (rc_spec rc)) ((finished Failed)\<lparr>
             res_reason := Some (if most \<le> int used \<and> fl_retryable f then ''max_attempts_exhausted''
                                 else failure_end_reason (fl_kind f)),
             res_error := Some (redact_string (rc_secrets rc) (fl_message f))\<rparr>)) (\<lambda>s. job_return (DriveDone s))
      else job_bind (write_db rc (retry_tx rc n (fl_kind f) (can_fall_back rc index f) index
             (backoff_delay_ms (rt_retry (spec_runtime (rc_spec rc))) (int used - 1)))) (\<lambda>_. job_return (DriveAgain rc)))"

definition after_failure :: "'x run_ctx \<Rightarrow> nat \<Rightarrow> nat \<Rightarrow> failure \<Rightarrow> ('x, 'x drive_next) job" where
  "after_failure rc n index f =
     job_bind (write_db rc (end_attempt rc n (if fl_kind f = TimeoutFailure then TimedOut else AttemptFailed)
        (failure_end_reason (fl_kind f)) (Some (Some (redact_string (rc_secrets rc) (fl_message f)))))) (\<lambda>_.
       job_bind (read_db rc (\<lambda>now d. length (counted (list_attempts d (run_id (rc_run rc)))))) (retry_or_fail rc n index f))"

definition after_final :: "'x run_ctx \<Rightarrow> nat \<Rightarrow> json \<Rightarrow> ('x, snapshot) job" where
  "after_final rc n output =
     (let invalid = validate_output (or_null (spec_output_schema (rc_spec rc))) output in
      job_bind (write_db rc (final_tx rc n (invalid = None))) (\<lambda>_.
        job_bind (fault_point rc ''final_output'' []) (\<lambda>_.
          finalize rc (Some (rc_spec rc))
            (case invalid of
               None \<Rightarrow> (finished Succeeded)\<lparr>res_output := output\<rparr>
             | Some t \<Rightarrow> (finished Failed)\<lparr>res_reason := Some ''output_invalid'', res_output := output, res_error := Some t\<rparr>))))"

definition after_outcome :: "'x run_ctx \<Rightarrow> nat \<Rightarrow> nat \<Rightarrow> attempt_outcome \<Rightarrow> ('x, 'x drive_next) job" where
  "after_outcome rc n index x =
     (case x of
        AttemptFinal output \<Rightarrow> job_bind (after_final rc n output) (\<lambda>s. job_return (DriveDone s))
      | AttemptPark a \<Rightarrow>
          job_bind (write_db rc (end_attempt rc n Completed ''approval_wait'' None)) (\<lambda>_.
            job_bind (fault_point rc ''approval_requested'' []) (\<lambda>_.
              job_bind (park rc a) (\<lambda>s. job_return (DriveDone s))))
      | AttemptExpired a \<Rightarrow>
          job_bind (write_db rc (end_attempt rc n AttemptFailed ''approval_wait'' None)) (\<lambda>_.
            job_bind (expire_run rc a) (\<lambda>s. job_return (DriveDone s)))
      | AttemptCancelled \<Rightarrow>
          job_bind (write_db rc (end_attempt rc n AttemptFailed ''cancelled'' None)) (\<lambda>_.
            job_bind (finalize rc (Some (rc_spec rc)) ((finished Cancelled)\<lparr>res_reason := Some ''cancel_requested''\<rparr>))
              (\<lambda>s. job_return (DriveDone s)))
      | AttemptRaised e \<Rightarrow> after_failure rc n index (classify_adapter_error e))"

definition start_attempt :: "'x run_ctx \<Rightarrow> drive_opts \<Rightarrow> attempt_row list \<Rightarrow> ('x, 'x drive_next) job" where
  "start_attempt rc0 opts as =
     (let chain = provider_chain (rc_spec rc0);
          index = min (run_provider_index (rc_run rc0)) (length chain - 1);
          ref = chain ! index;
          n = (case last_n as of None \<Rightarrow> 1 | Some m \<Rightarrow> m + 1);
          rc = rc0\<lparr>rc_attempt := Some n\<rparr> in
      job_bind (atomic rc (start_tx rc as ref n)) (\<lambda>_.
        job_bind (fault_point rc ''attempt_started'' []) (\<lambda>_.
          job_bind (catching (guarded_attempt rc opts chain ref)) (after_outcome rc n index))))"

section \<open>The drive loop\<close>

text \<open>The first pending approval: of an unknown effect, else of the run; with the instant it was read.\<close>

definition pending_of :: "'x run_ctx \<Rightarrow> approval_row list \<Rightarrow> int \<Rightarrow> db \<Rightarrow> int \<times> approval_row option" where
  "pending_of rc unknown now d =
     (now, case filter (\<lambda>a. apr_state a = ApprovalPending) unknown of
        a # _ \<Rightarrow> Some a | [] \<Rightarrow> pending_approval_for_run d (run_id (rc_run rc)))"

definition older_active :: "run_row \<Rightarrow> db \<Rightarrow> string option" where
  "older_active r d = map_option run_id (find (\<lambda>x. run_job x = run_job r \<and> run_id x \<noteq> run_id r
     \<and> run_created_at x < run_created_at r \<and> is_active (run_state x)) (db_runs d))"

definition next_attempt_ms :: "run_row \<Rightarrow> int" where
  "next_attempt_ms r = (case run_next_attempt_at r of None \<Rightarrow> 0 | Some t \<Rightarrow> t)"

text \<open>After the approvals: wait for the backoff, queue behind an older run, give up or start.\<close>

definition drive_ready :: "'x run_ctx \<Rightarrow> drive_opts \<Rightarrow> run_row \<Rightarrow> attempt_row list \<Rightarrow> ('x, 'x drive_next) job" where
  "drive_ready rc opts r as =
     job_bind (read_db rc (\<lambda>now d. (now, older_active r d))) (\<lambda>(now, older).
       if run_state r = Retrying \<and> now < next_attempt_ms r
       then (if \<not> do_wait opts \<or> (case do_max_wait opts of None \<Rightarrow> 60000 | Some m \<Rightarrow> m) < next_attempt_ms r - now
             then job_bind (take_snapshot rc [(''nextAttemptAt'', jnum_opt (run_next_attempt_at r))]) (\<lambda>s. job_return (DriveDone s))
             else job_return (DriveAgain rc))
       else if rt_concurrency (spec_runtime (rc_spec rc)) = Queue \<and> older \<noteq> None
       then job_bind (take_snapshot rc [(''queuedBehind'', jstr_opt older)]) (\<lambda>s. job_return (DriveDone s))
       else if rt_max_attempts (spec_runtime (rc_spec rc)) \<le> int (length (counted as))
       then job_bind (finalize rc (Some (rc_spec rc)) ((finished Failed)\<lparr>res_reason := Some (exhausted_reason as)\<rparr>))
              (\<lambda>s. job_return (DriveDone s))
       else start_attempt rc opts as)"

definition drive_active :: "'x run_ctx \<Rightarrow> drive_opts \<Rightarrow> run_row \<Rightarrow> ('x, 'x drive_next) job" where
  "drive_active rc opts r =
     (let attempts = read_db rc (\<lambda>now d. list_attempts d (run_id (rc_run rc))) in
      job_bind attempts (\<lambda>as0. job_bind (recover rc as0) (\<lambda>_. job_bind attempts (\<lambda>as.
        job_bind (ensure_unknown_effect_approvals (rc\<lparr>rc_attempt := last_n as\<rparr>)) (\<lambda>unknown.
          job_bind (read_db rc (pending_of rc unknown)) (\<lambda>(now, pending).
            case pending of
              Some a \<Rightarrow> job_bind (if apr_expires_at a \<le> now then expire_run rc (Some a) else park rc a) (\<lambda>s. job_return (DriveDone s))
            | None \<Rightarrow> drive_ready rc opts r as))))))"

text \<open>
  One round of \<open>driveLeased\<close>. The pinned specification is read with the run; a run whose hash has
  none can only be cancelled, everything else throws.
\<close>

definition drive_round :: "'x run_ctx \<Rightarrow> drive_opts \<Rightarrow> ('x, 'x drive_next) job" where
  "drive_round rc opts =
     job_bind (read_db rc (\<lambda>now d. map_option (\<lambda>r. (r, get_pinned_spec d (run_spec_hash r))) (get_run d (run_id (rc_run rc))))) (\<lambda>x.
       case x of
         None \<Rightarrow> job_throw type_error
       | Some (r, spec) \<Rightarrow>
           let rc1 = rc\<lparr>rc_run := r\<rparr> in
           if is_terminal (run_state r) then job_bind (take_snapshot rc1 []) (\<lambda>s. job_return (DriveDone s))
           else if run_cancel_requested_at r \<noteq> None
           then job_bind (finalize rc1 spec ((finished Cancelled)\<lparr>res_reason := Some ''cancel_requested''\<rparr>)) (\<lambda>s. job_return (DriveDone s))
           else (case spec of
                   None \<Rightarrow> job_throw type_error
                 | Some s \<Rightarrow> drive_active (rc1\<lparr>rc_spec := s\<rparr>) opts r))"

text \<open>The loop, at most as many rounds as the model is given; \<open>None\<close> when they do not suffice.\<close>

fun drive_leased :: "'x run_ctx \<Rightarrow> drive_opts \<Rightarrow> nat \<Rightarrow> ('x, snapshot option) job" where
  "drive_leased rc opts 0 = job_return None"
| "drive_leased rc opts (Suc rounds) =
     job_bind (drive_round rc opts) (\<lambda>x.
       case x of DriveDone s \<Rightarrow> job_return (Some s) | DriveAgain rc1 \<Rightarrow> drive_leased rc1 opts rounds)"

section \<open>The lease around a drive\<close>

definition releasing :: "'x run_ctx \<Rightarrow> ('x, snapshot option) job \<Rightarrow> ('x, snapshot option) job" where
  "releasing rc m w =
     (let i = run_id (rc_run rc); h = rc_holder rc in
      case m w of
        (Inl e, w') \<Rightarrow>
          (case e of
             InjectedCrash _ \<Rightarrow> (Inl e, snd (write_db rc (\<lambda>now. expire_lease i h) w'))
           | LeaseLost \<Rightarrow> (Inl e, w')
           | Killed _ \<Rightarrow> (Inl e, w')
           | _ \<Rightarrow> (Inl e, snd (write_db rc (\<lambda>now. release_lease i h) w')))
      | (Inr x, w') \<Rightarrow> (Inr x, snd (write_db rc (\<lambda>now. release_lease i h) w')))"

definition drive_run ::
  "'x run_ctx \<Rightarrow> drive_opts \<Rightarrow> (string \<Rightarrow> bool) \<Rightarrow> int \<Rightarrow> nat \<Rightarrow> string \<Rightarrow> ('x, snapshot option) job" where
  "drive_run rc opts dead ttl rounds i =
     job_bind (atomic rc (\<lambda>now rnd d. case acquire_lease dead now i (rc_holder rc) ttl d of
         (True, d1) \<Rightarrow> Inr (get_run d1 i, d1) | (False, d1) \<Rightarrow> Inr (None, d1))) (\<lambda>x.
       case x of
         None \<Rightarrow> read_db rc (\<lambda>now d. Some (snapshot_of i [(''leased'', JBool False)] d))
       | Some r \<Rightarrow> (let rc1 = rc\<lparr>rc_run := r, rc_attempt := None\<rparr> in releasing rc1 (drive_leased rc1 opts rounds)))"

section \<open>The sweep\<close>

definition active_run_ids :: "db \<Rightarrow> string list" where
  "active_run_ids d = map run_id (sort_key run_created_at (filter (\<lambda>r. is_active (run_state r)) (db_runs d)))"

text \<open>Whether the sweep leaves a run alone: it waits for a person or for its backoff.\<close>

definition sweep_skips :: "int \<Rightarrow> db \<Rightarrow> string \<Rightarrow> bool" where
  "sweep_skips now d i =
     (case get_run d i of
        None \<Rightarrow> False
      | Some r \<Rightarrow> run_cancel_requested_at r = None
          \<and> (run_state r = AwaitingApproval \<and> (case pending_approval_for_run d i of None \<Rightarrow> False | Some a \<Rightarrow> now < apr_expires_at a)
             \<or> run_state r = Retrying \<and> now < next_attempt_ms r))"

text \<open>A driver that throws (except by an injected crash) is a result with its error.\<close>

datatype sweep_result = Swept "snapshot option" | SweepFailed string job_error

fun sweep_runs ::
  "'x run_ctx \<Rightarrow> drive_opts \<Rightarrow> (string \<Rightarrow> bool) \<Rightarrow> int \<Rightarrow> nat \<Rightarrow> string list \<Rightarrow> ('x, sweep_result list) job" where
  "sweep_runs rc opts dead ttl rounds [] w = (Inr [], w)"
| "sweep_runs rc opts dead ttl rounds (i # is) w =
     (case read_db rc (\<lambda>now d. sweep_skips now d i) w of
        (Inl e, w1) \<Rightarrow> (Inl e, w1)
      | (Inr True, w1) \<Rightarrow> sweep_runs rc opts dead ttl rounds is w1
      | (Inr False, w1) \<Rightarrow>
          (case drive_run rc opts dead ttl rounds i w1 of
             (Inl (InjectedCrash p), w2) \<Rightarrow> (Inl (InjectedCrash p), w2)
           | (Inl (Killed p), w2) \<Rightarrow> (Inl (Killed p), w2)
           | (Inl e, w2) \<Rightarrow> job_bind (sweep_runs rc opts dead ttl rounds is) (\<lambda>rs. job_return (SweepFailed i e # rs)) w2
           | (Inr s, w2) \<Rightarrow> job_bind (sweep_runs rc opts dead ttl rounds is) (\<lambda>rs. job_return (Swept s # rs)) w2))"

definition drive_due_runs :: "'x run_ctx \<Rightarrow> drive_opts \<Rightarrow> (string \<Rightarrow> bool) \<Rightarrow> int \<Rightarrow> nat \<Rightarrow> ('x, sweep_result list) job" where
  "drive_due_runs rc opts dead ttl rounds =
     job_bind (read_db rc (\<lambda>now. active_run_ids)) (sweep_runs rc opts dead ttl rounds)"

end
