(* ===== verification/RunnerFacts.thy ===== *)
theory RunnerFacts
  imports JobRunner
begin

text \<open>
  What a drive leaves alone. The executor of tool calls writes effects, approvals and the journal
  only: the parts of the database that such writes do not reach are an interface (a locale),
  interpreted on the runs, the pinned specifications and the ends of the attempts.
\<close>

section \<open>Computations that keep a part of the database\<close>

definition keeps :: "(db \<Rightarrow> 'b) \<Rightarrow> ('x, 'a) job \<Rightarrow> bool" where
  "keeps f m \<longleftrightarrow> (\<forall>w. f (w_db (snd (m w))) = f (w_db w))"

definition undisturbed :: "(db \<Rightarrow> 'b) \<Rightarrow> surroundings \<Rightarrow> bool" where
  "undisturbed f en \<longleftrightarrow> (\<forall>n d. f (others en n d) = f d)"

named_theorems keeps_rules \<open>computations that keep a part of the database\<close>

lemma keeps_basic [keeps_rules]:
  "keeps f (job_return a)" "keeps f (job_throw e)" "keeps f (job_lift r)" "keeps f (external g)"
  "keeps f (fault_point rc p t)" "keeps f job_turn"
  by (simp_all add: keeps_def job_return_def job_throw_def job_lift_def external_def fault_point_def job_turn_def split_beta)

lemma keeps_bind [keeps_rules]:
  assumes "keeps f m" and "\<And>a. keeps f (k a)"
  shows "keeps f (job_bind m k)"
  unfolding keeps_def
proof
  fix w
  obtain r w' where m: "m w = (r, w')" by fastforce
  have "f (w_db w') = f (w_db w)" using assms(1) m unfolding keeps_def by (metis snd_conv)
  then show "f (w_db (snd (job_bind m k w))) = f (w_db w)"
    using assms(2) m unfolding keeps_def by (cases r) (simp_all add: job_bind_def)
qed

lemma keeps_snd: "keeps f m \<Longrightarrow> m w = (r, w') \<Longrightarrow> f (w_db w') = f (w_db w)"
  unfolding keeps_def by (drule spec [of _ w]) simp

lemma keeps_if [keeps_rules]: "(b \<Longrightarrow> keeps f m) \<Longrightarrow> (\<not> b \<Longrightarrow> keeps f n) \<Longrightarrow> keeps f (if b then m else n)"
  by simp

lemma keeps_option [keeps_rules]:
  "(x = None \<Longrightarrow> keeps f m) \<Longrightarrow> (\<And>y. x = Some y \<Longrightarrow> keeps f (k y)) \<Longrightarrow> keeps f (case x of None \<Rightarrow> m | Some y \<Rightarrow> k y)"
  by (cases x) auto

lemma keeps_prod [keeps_rules]: "(\<And>a b. x = (a, b) \<Longrightarrow> keeps f (k a b)) \<Longrightarrow> keeps f (case x of (a, b) \<Rightarrow> k a b)"
  by (cases x) auto

lemma keeps_let [keeps_rules]: "keeps f (k a) \<Longrightarrow> keeps f (Let a k)"
  by simp

lemma keeps_atomic:
  fixes rc :: "'x run_ctx"
  assumes "undisturbed f (rc_env rc)" and "\<And>now rnd d a d'. g now rnd d = Inr (a, d') \<Longrightarrow> f d' = f d"
  shows "keeps f (atomic rc g)"
  unfolding keeps_def
proof
  fix w :: "'x world"
  let ?d = "others (rc_env rc) (w_turn w) (w_db w)"
  let ?r = "g (clock (rc_env rc) (w_turn w)) (random_text (rc_env rc) (w_turn w)) ?d"
  have "f ?d = f (w_db w)" using assms(1) by (simp add: undisturbed_def)
  then show "f (w_db (snd (atomic rc g w))) = f (w_db w)"
    using assms(2) by (cases ?r) (auto simp: atomic_def tx_def Let_def split_beta)
qed

lemma keeps_write: "undisturbed f (rc_env rc) \<Longrightarrow> (\<And>now d. f (g now d) = f d) \<Longrightarrow> keeps f (write_db rc g)"
  unfolding write_db_def by (rule keeps_atomic) auto

lemma keeps_read [keeps_rules]: "undisturbed f (rc_env rc) \<Longrightarrow> keeps f (read_db rc g)"
  unfolding read_db_def by (rule keeps_atomic) auto

section \<open>What the executor does not reach\<close>

locale executor_frame =
  fixes f :: "db \<Rightarrow> 'b"
  assumes keeps_effects: "f (d\<lparr>db_effects := es\<rparr>) = f d"
    and keeps_approvals: "f (d\<lparr>db_approvals := as\<rparr>) = f d"
    and keeps_journal: "f (append_checkpoint now i n kind v d) = f d"
begin

lemma f_only_effects: "only_effects d d' \<Longrightarrow> f d' = f d"
  by (auto simp: only_effects_def keeps_effects)

lemma f_only_approvals: "only_approvals d d' \<Longrightarrow> f d' = f d"
  by (auto simp: only_approvals_def keeps_approvals)

lemma f_effect_ops [simp]:
  "f (mark_effect_dispatched now k d) = f d" "f (commit_effect now k v r b d) = f d"
  "f (fail_effect now k out e d) = f d" "f (mark_effect_unknown now k e d) = f d" "f (reopen_effect now k d) = f d"
  "f (expire_approval now a d) = f d"
  by (simp_all add: f_only_effects f_only_approvals)

lemma f_add_checkpoint [simp]: "f (add_checkpoint rc now kind kvs d) = f d"
  by (simp add: add_checkpoint_def keeps_journal)

lemma f_settle_verdict [simp]: "f (settle_verdict rc e v now d) = f d"
  by (cases v) (simp_all add: settle_verdict_def)

lemma f_record_verdict: "record_verdict rc e v now rnd d = Inr (x, d') \<Longrightarrow> f d' = f d"
  by (auto simp: record_verdict_def Let_def and_then_Inr_iff)

lemma f_request: "request_approval rc e reason now rnd d = Inr (x, d') \<Longrightarrow> f d' = f d"
  by (auto simp: request_approval_def and_then_Inr_iff dest!: only_approvals_create f_only_approvals)

lemma f_consume: "consume_approval now a d = (b, d') \<Longrightarrow> f d' = f d"
  by (auto dest: only_approvals_consume f_only_approvals)

lemma f_approval_gate:
  assumes "approval_gate rc e reason now rnd d = Inr (g, d')"
  shows "f d' = f d"
proof (cases "live_approval e reason d")
  case None
  with assms show ?thesis by (auto simp: approval_gate_def and_then_Inr_iff dest: f_request)
next
  case (Some a)
  obtain b d1 where "consume_approval now (apr_id a) d = (b, d1)" by fastforce
  with assms Some f_consume [OF this] show ?thesis
    by (cases "apr_state a"; cases b) (auto simp: approval_gate_def Let_def split: if_splits)
qed

lemma f_ensure_approvals: "ensure_approvals rc es now rnd d = Inr (as, d') \<Longrightarrow> f d' = f d"
proof (induction es arbitrary: d as)
  case (Cons e es)
  then show ?case by (auto simp: and_then_Inr_iff split: option.splits dest: f_request)
qed simp

lemma f_record_intent: "record_intent rc i now rnd d = Inr (e, d') \<Longrightarrow> f d' = f d"
  by (auto simp: record_intent_def split: prod.splits dest!: only_effects_intend f_only_effects)

lemma f_reopen: "reopen k now rnd d = Inr (e, d') \<Longrightarrow> f d' = f d"
  by (auto simp: reopen_def Let_def and_then_Inr_iff)

lemma f_reread: "reread k now rnd d = Inr (e, d') \<Longrightarrow> f d' = f d"
  by (auto simp: reread_def and_then_Inr_iff)

lemma f_record_commit: "record_commit rc e v r now rnd d = Inr (x, d') \<Longrightarrow> f d' = f d"
  by (auto simp: record_commit_def Let_def and_then_Inr_iff)

lemma f_writes [simp]:
  "f (mark_dispatched rc e now d) = f d" "f (record_failure rc e m b now d) = f d"
  "f (note_decision rc c x now d) = f d" "f (note_native_decision rc nc x now d) = f d"
  by (simp_all add: mark_dispatched_def record_failure_def note_decision_def note_native_decision_def)

lemma f_ask_native: "ask_native_approval rc c now rnd d = Inr (v, d') \<Longrightarrow> f d' = f d"
  by (auto simp: ask_native_approval_def and_then_Inr_iff dest!: only_approvals_create f_only_approvals)

lemma f_granted [simp]: "f (native_effect_granted rc c a now d) = f d"
proof -
  obtain e d1 where i: "intend_effect now (native_intent rc c) d = (e, d1)" by fastforce
  with f_only_effects [OF only_effects_intend [OF i]] show ?thesis by (simp add: native_effect_granted_def Let_def)
qed

lemma f_authorize:
  assumes "authorize_native rc c now rnd d = Inr (v, d')"
  shows "f d' = f d"
proof -
  have step: "f d2 = f d1" if "native_approval_step rc c now rnd d1 = Inr (v, d2)" for d1 d2
  proof (cases "find_approval d1 (native_effect_key rc c) (native_args_hash rc c)")
    case None
    with that show ?thesis by (auto simp: native_approval_step_def dest: f_ask_native)
  next
    case (Some a)
    obtain b d3 where u: "consume_approval now (apr_id a) d1 = (b, d3)" by fastforce
    from that Some u f_consume [OF u] show ?thesis
      by (cases "apr_state a"; cases b) (auto simp: native_approval_step_def Let_def split: if_splits dest: f_ask_native)
  qed
  from assms show ?thesis
    by (auto simp: authorize_native_def Let_def split: if_splits tool_decision.splits dest!: step)
qed

lemma f_settle_row [simp]: "f (settle_row rc k c b now d) = f d"
  by (auto simp: settle_row_def split: option.splits)


lemma keeps_reconcile: "undisturbed f (rc_env rc) \<Longrightarrow> keeps f (reconcile_effect rc e)"
  unfolding reconcile_effect_def ask_tool_def
  by (intro keeps_rules keeps_atomic; (assumption | erule f_record_verdict))

lemma keeps_reconcile_all: "undisturbed f (rc_env rc) \<Longrightarrow> keeps f (reconcile_dispatched_effects rc es)"
  by (induction es) (auto intro!: keeps_rules keeps_reconcile)

lemma keeps_recover_effects: "undisturbed f (rc_env rc) \<Longrightarrow> keeps f (recover_effects rc)"
  unfolding recover_effects_def by (intro keeps_rules keeps_reconcile_all)

lemma keeps_ensure_unknown: "undisturbed f (rc_env rc) \<Longrightarrow> keeps f (ensure_unknown_effect_approvals rc)"
  unfolding ensure_unknown_effect_approvals_def by (rule keeps_atomic) (auto dest: f_ensure_approvals)

lemma keeps_may_dispatch: "undisturbed f (rc_env rc) \<Longrightarrow> keeps f (ensure_may_dispatch rc)"
  unfolding ensure_may_dispatch_def by (intro keeps_rules)

lemma keeps_after_perform: "undisturbed f (rc_env rc) \<Longrightarrow> keeps f (after_perform rc e p)"
  by (cases p) (auto simp: after_perform_def Let_def intro!: keeps_rules keeps_write keeps_atomic dest: f_record_commit)

lemma keeps_dispatch: "undisturbed f (rc_env rc) \<Longrightarrow> keeps f (dispatch rc t e args)"
  unfolding dispatch_def by (intro keeps_rules keeps_may_dispatch keeps_write keeps_after_perform) simp_all

lemma keeps_dispatch_checked: "undisturbed f (rc_env rc) \<Longrightarrow> keeps f (dispatch_checked rc t i e args)"
  unfolding dispatch_checked_def
  by (intro keeps_rules keeps_dispatch keeps_atomic; (assumption | erule f_reread))

lemma keeps_pass_gate: "undisturbed f (rc_env rc) \<Longrightarrow> keeps f (pass_gate rc t x i e args)"
  unfolding pass_gate_def
  by (intro keeps_rules keeps_dispatch_checked keeps_atomic; (assumption | erule f_approval_gate | erule f_reread))

lemma keeps_resume: "undisturbed f (rc_env rc) \<Longrightarrow> keeps f (resume_effect rc t x i e args)"
  unfolding resume_effect_def
  by (intro keeps_rules keeps_pass_gate keeps_atomic; (assumption | erule f_reopen))

lemma keeps_execute_effect: "undisturbed f (rc_env rc) \<Longrightarrow> keeps f (execute_effect rc t x c)"
  unfolding execute_effect_def
  by (intro keeps_rules keeps_resume keeps_reconcile keeps_atomic keeps_write; (assumption | erule f_record_intent | simp))

lemma keeps_execute: "undisturbed f (rc_env rc) \<Longrightarrow> keeps f (execute_tool_call rc c)"
  unfolding execute_tool_call_def perform_read_only_def
  by (intro keeps_rules keeps_execute_effect keeps_may_dispatch keeps_write; (assumption | simp))

lemma keeps_authorize: "undisturbed f (rc_env rc) \<Longrightarrow> keeps f (authorize_native_tool_call rc c st)"
  unfolding authorize_native_tool_call_def
  by (intro keeps_rules keeps_atomic; (assumption | erule f_authorize))

lemma keeps_event: "undisturbed f (rc_env rc) \<Longrightarrow> keeps f (journal_event rc provider ev st)"
  unfolding journal_event_def settle_native_effect_def
  by (cases ev) (auto intro!: keeps_rules keeps_write simp: write_entry_def is_pinned_def pinned_entry_def split: option.splits)

lemma keeps_events: "undisturbed f (rc_env rc) \<Longrightarrow> keeps f (journal_events rc provider evs st)"
  by (induction evs arbitrary: st) (auto intro!: keeps_rules keeps_event)

lemma keeps_aborted [keeps_rules]: "keeps f (aborted_outcome reason v)"
  unfolding aborted_outcome_def by (intro keeps_rules)

lemma keeps_native_outcome [keeps_rules]: "keeps f (native_outcome r signal)"
  by (cases r) (auto simp: native_outcome_def intro!: keeps_rules)

lemma keeps_native_loop: "undisturbed f (rc_env rc) \<Longrightarrow> keeps f (native_loop rc provider exec n st rs)"
proof (induction n arbitrary: st rs)
  case (Suc n)
  then show ?case
    by (cases "exec rs") (auto intro!: keeps_rules keeps_authorize keeps_execute keeps_event)
qed (auto intro!: keeps_rules)

lemma keeps_local_step: "undisturbed f (rc_env rc) \<Longrightarrow> keeps f (run_local_job_step rc s reason)"
  by (cases s) (auto simp: run_local_job_step_def by_abort_reason_def intro!: keeps_rules)

lemma keeps_next_step: "undisturbed f (rc_env rc) \<Longrightarrow> keeps f (next_step rc ad q st)"
  unfolding next_step_def
  by (cases ad) (auto intro!: keeps_rules keeps_events keeps_local_step)

lemma keeps_step_loop: "undisturbed f (rc_env rc) \<Longrightarrow> keeps f (step_loop rc ad provider inp n st)"
proof (induction n arbitrary: st)
  case (Suc n)
  have read: "keeps f (atomic rc (before_step rc))"
    by (rule keeps_atomic [OF Suc.prems]) (auto simp: before_step_def split: option.splits)
  have step: "keeps f (case s of StepCancelled \<Rightarrow> job_return AttemptCancelled
       | StepFinal v \<Rightarrow> job_return (AttemptFinal v)
       | StepThrew e \<Rightarrow> job_return (AttemptRaised e)
       | StepMessage t index \<Rightarrow>
           job_bind (write_db rc (note_message rc t index)) (\<lambda>_. step_loop rc ad provider inp n st1)
       | StepTool c wire \<Rightarrow>
           job_bind (write_db rc (\<lambda>now. add_checkpoint rc now ''tool_requested''
               [(''stepIndex'', call_step c), (''tool'', JStr (call_tool c))])) (\<lambda>_.
             job_bind (fault_point rc ''tool_requested'' (call_tool c)) (\<lambda>_.
               job_bind (execute_tool_call rc c) (\<lambda>r.
                 case stopping_outcome r of
                   Some o' \<Rightarrow> job_return o'
                 | None \<Rightarrow> job_bind (write_db rc (note_result rc (is_local ad) c wire r)) (\<lambda>_.
                     step_loop rc ad provider inp n st1)))))" for s st1
    using Suc by (cases s) (auto intro!: keeps_rules keeps_write keeps_execute simp: note_message_def note_result_def)
  show ?case
    unfolding step_loop.simps by (intro keeps_rules read step keeps_next_step Suc.prems)
qed (auto intro!: keeps_rules)

lemma keeps_run_attempt: "undisturbed f (rc_env rc) \<Longrightarrow> keeps f (run_attempt rc ad ref)"
  by (cases ad) (auto simp: run_attempt_def run_native_attempt_def intro!: keeps_rules keeps_step_loop keeps_native_loop)

lemma keeps_catching: "keeps f m \<Longrightarrow> keeps f (catching m)"
  unfolding keeps_def catching_def
  by (auto simp: split_beta split: sum.splits option.splits)

lemma keeps_guarded: "undisturbed f (rc_env rc) \<Longrightarrow> keeps f (guarded_attempt rc opts chain ref)"
  unfolding guarded_attempt_def by (intro keeps_rules keeps_run_attempt)

end

section \<open>Interpretations\<close>

definition attempt_ends :: "db \<Rightarrow> (string \<times> nat \<times> attempt_state \<times> string option \<times> string option) list" where
  "attempt_ends d = map (\<lambda>a. (att_run a, att_n a, att_state a, att_end_reason a, att_error a)) (db_attempts d)"

text \<open>How many attempts a run may have, by its pinned specification.\<close>

definition attempt_limit :: "string \<Rightarrow> db \<Rightarrow> int option" where
  "attempt_limit i d = (case get_run d i of
     None \<Rightarrow> None
   | Some r \<Rightarrow> map_option (\<lambda>s. rt_max_attempts (spec_runtime s)) (get_pinned_spec d (run_spec_hash r)))"

lemma ends_upd_attempt:
  assumes "\<And>a. (att_run (g a), att_n (g a), att_state (g a), att_end_reason (g a), att_error (g a))
    = (att_run a, att_n a, att_state a, att_end_reason a, att_error a)"
  shows "attempt_ends (upd_attempt i n g d) = attempt_ends d"
  unfolding attempt_ends_def upd_attempt_def by (simp add: map_upd_rows assms [simplified])

lemma ends_append_checkpoint [simp]: "attempt_ends (append_checkpoint now i n kind v d) = attempt_ends d"
proof -
  have "attempt_ends (d\<lparr>db_checkpoints := cs\<rparr>) = attempt_ends d" for cs by (simp add: attempt_ends_def)
  then show ?thesis by (simp add: append_checkpoint_def Let_def ends_upd_attempt split: option.split)
qed

interpretation run_frame: executor_frame db_runs
  by unfold_locales simp_all

interpretation ends_frame: executor_frame attempt_ends
  by unfold_locales (simp_all add: attempt_ends_def [of "_\<lparr>db_effects := _\<rparr>"] attempt_ends_def [of "_\<lparr>db_approvals := _\<rparr>"]
      attempt_ends_def [symmetric])

interpretation limit_frame: executor_frame "attempt_limit i" for i
  by unfold_locales (simp_all add: attempt_limit_def get_run_def get_pinned_spec_def cong: option.case_cong)

section \<open>Attempts of a drive\<close>

definition counted_of :: "string \<Rightarrow> db \<Rightarrow> nat" where
  "counted_of i d = length (counted (list_attempts d i))"

lemma counted_of_filter:
  "counted_of i d = length (filter (\<lambda>a. att_run a = i \<and> att_end_reason a \<noteq> Some ''approval_wait'') (db_attempts d))"
proof -
  have "length (filter p (sort_key g xs)) = length (filter p xs)" for p xs and g :: "attempt_row \<Rightarrow> nat"
    by (metis mset_filter mset_sort size_mset)
  then show ?thesis by (simp add: counted_of_def counted_def list_attempts_def conj_commute)
qed

lemma counted_of_ends: "attempt_ends d = attempt_ends d' \<Longrightarrow> counted_of i d = counted_of i d'"
proof -
  have "counted_of i d = length (filter (\<lambda>(r, n, s, e, x). r = i \<and> e \<noteq> Some ''approval_wait'') (attempt_ends d))" for d
    by (simp add: counted_of_filter attempt_ends_def filter_map comp_def)
  then show "attempt_ends d = attempt_ends d' \<Longrightarrow> ?thesis" by simp
qed

text \<open>Ending an attempt for a reason other than an approval does not make it uncounted.\<close>

lemma counted_of_update:
  assumes "reason \<noteq> Some ''approval_wait''"
  shows "counted_of i d \<le> counted_of i (update_attempt now j n s reason e d)"
proof -
  let ?p = "\<lambda>a. att_run a = i \<and> att_end_reason a \<noteq> Some ''approval_wait''"
  have rows: "(\<And>a. ?p a \<Longrightarrow> ?p (g a)) \<Longrightarrow> length (filter ?p rows) \<le> length (filter ?p (upd_rows q g rows))" for q g rows
    by (induction rows) auto
  show ?thesis
    unfolding counted_of_filter update_attempt_def upd_attempt_def
    by (simp, rule rows) (use assms in \<open>auto simp: Let_def split: option.splits\<close>)
qed

lemma counted_of_insert:
  "insert_attempt now i n p m s d = Inr d' \<Longrightarrow> counted_of i d' = Suc (counted_of i d)"
  by (auto simp: insert_attempt_def counted_of_filter split: if_splits)

lemma counted_of_append [simp]: "counted_of i (append_checkpoint now j n kind v d) = counted_of i d"
  by (rule counted_of_ends) simp

lemma counted_of_runs [simp]:
  "counted_of i (update_run now j patch d) = counted_of i d"
  "counted_of i (record_notifications H now chans j sp ev eid x d) = counted_of i d"
  by (simp_all add: counted_of_filter)

definition rising :: "string \<Rightarrow> ('x, 'a) job \<Rightarrow> bool" where
  "rising i m \<longleftrightarrow> (\<forall>w. counted_of i (w_db w) \<le> counted_of i (w_db (snd (m w))))"

lemma keeps_rising: "keeps attempt_ends m \<Longrightarrow> rising i m"
  unfolding keeps_def rising_def by (metis counted_of_ends order_refl)

lemma rising_bind:
  assumes "rising i m" and "\<And>a. rising i (k a)"
  shows "rising i (job_bind m k)"
  unfolding rising_def
proof
  fix w
  obtain r w' where m: "m w = (r, w')" by fastforce
  have "counted_of i (w_db w) \<le> counted_of i (w_db w')" using assms(1) m unfolding rising_def by (metis snd_conv)
  then show "counted_of i (w_db w) \<le> counted_of i (w_db (snd (job_bind m k w)))"
    using assms(2) m unfolding rising_def by (cases r) (auto simp: job_bind_def intro: order_trans)
qed

lemma bind_Inr:
  assumes "job_bind m k w = (Inr b, w')"
  obtains a w1 where "m w = (Inr a, w1)" "k a w1 = (Inr b, w')"
  using assms by (cases "m w"; cases "fst (m w)") (auto simp: job_bind_def)

lemma rising_write:
  fixes rc :: "'x run_ctx"
  assumes "undisturbed attempt_ends (rc_env rc)" and "\<And>now d. counted_of i d \<le> counted_of i (g now d)"
  shows "rising i (write_db rc g)"
  unfolding rising_def
proof
  fix w :: "'x world"
  have "counted_of i (others (rc_env rc) (w_turn w) (w_db w)) = counted_of i (w_db w)"
    by (rule counted_of_ends) (use assms(1) in \<open>simp add: undisturbed_def\<close>)
  with assms(2) [of "others (rc_env rc) (w_turn w) (w_db w)"]
  show "counted_of i (w_db w) \<le> counted_of i (w_db (snd (write_db rc g w)))"
    by (simp add: write_db_def atomic_def tx_def Let_def)
qed

lemma rising_Inr: "rising i m \<Longrightarrow> m w = (r, w') \<Longrightarrow> counted_of i (w_db w) \<le> counted_of i (w_db w')"
  unfolding rising_def by (metis snd_conv)

lemma read_db_Inr:
  assumes "read_db rc g w = (Inr a, w')"
  shows "a = g (clock (rc_env rc) (w_turn w)) (w_db w')"
  using assms by (auto simp: read_db_def atomic_def tx_def Let_def)

text \<open>The drive goes another round after an attempt only with attempts left.\<close>

lemma done_not_again [simp]: "job_bind m (\<lambda>s. job_return (DriveDone s)) w \<noteq> (Inr (DriveAgain rc'), w')"
  by (cases "m w"; cases "fst (m w)") (auto simp: job_bind_def job_return_def)

lemma read_keeps_ends: "undisturbed attempt_ends (rc_env rc) \<Longrightarrow> keeps attempt_ends (read_db rc g)"
  by (intro keeps_rules)

lemma end_attempt_rising:
  "undisturbed attempt_ends (rc_env rc) \<Longrightarrow> reason \<noteq> ''approval_wait'' \<Longrightarrow> rising i (write_db rc (end_attempt rc n s reason e))"
  by (rule rising_write) (simp_all add: end_attempt_def counted_of_update)

lemma after_failure_again:
  assumes "after_failure rc n index f w = (Inr (DriveAgain rc'), w')" and q: "undisturbed attempt_ends (rc_env rc)"
  shows "rc' = rc" and "counted_of (run_id (rc_run rc)) (w_db w) \<le> counted_of (run_id (rc_run rc)) (w_db w')"
    and "int (counted_of (run_id (rc_run rc)) (w_db w')) < rt_max_attempts (spec_runtime (rc_spec rc))"
proof -
  let ?i = "run_id (rc_run rc)"
  have reason: "failure_end_reason k \<noteq> ''approval_wait''" for k by (cases k) (simp_all add: failure_end_reason_def)
  from assms(1) obtain u w1 used w2 where
    w1: "write_db rc (end_attempt rc n (if fl_kind f = TimeoutFailure then TimedOut else AttemptFailed)
        (failure_end_reason (fl_kind f)) (Some (Some (redact_string (rc_secrets rc) (fl_message f))))) w = (Inr u, w1)"
    and w2: "read_db rc (\<lambda>now d. length (counted (list_attempts d ?i))) w1 = (Inr used, w2)"
    and tail: "retry_or_fail rc n index f used w2 = (Inr (DriveAgain rc'), w')"
    unfolding after_failure_def by (elim bind_Inr)
  from tail have go: "int used < rt_max_attempts (spec_runtime (rc_spec rc))"
    by (auto simp: retry_or_fail_def Let_def split: if_splits)
  from tail go have w3: "\<exists>delay fb. job_bind (write_db rc (retry_tx rc n (fl_kind f) fb index delay)) (\<lambda>_. job_return (DriveAgain rc)) w2
        = (Inr (DriveAgain rc'), w')"
    by (auto simp: retry_or_fail_def Let_def split: if_splits)
  have used: "used = counted_of ?i (w_db w2)" using read_db_Inr [OF w2] by (simp add: counted_of_def)
  have "counted_of ?i (w_db w) \<le> counted_of ?i (w_db w1)"
    by (rule rising_Inr [OF end_attempt_rising [OF q reason] w1])
  also have "\<dots> \<le> counted_of ?i (w_db w2)" by (rule rising_Inr [OF keeps_rising [OF read_keeps_ends [OF q]] w2])
  finally have 1: "counted_of ?i (w_db w) \<le> counted_of ?i (w_db w2)" .
  from w3 obtain delay fb where "job_bind (write_db rc (retry_tx rc n (fl_kind f) fb index delay)) (\<lambda>_. job_return (DriveAgain rc)) w2
        = (Inr (DriveAgain rc'), w')" by blast
  then obtain v w4 where w4: "write_db rc (retry_tx rc n (fl_kind f) fb index delay) w2 = (Inr v, w4)"
    and again: "job_return (DriveAgain rc) w4 = (Inr (DriveAgain rc'), w')" by (rule bind_Inr)
  from again w4 have same: "rc' = rc" and w3: "write_db rc (retry_tx rc n (fl_kind f) fb index delay) w2 = (Inr v, w')"
    by (simp_all add: job_return_def)
  have keep: "keeps attempt_ends (write_db rc (retry_tx rc n (fl_kind f) fb index delay))"
    by (rule keeps_write [OF q]) (simp add: retry_tx_def Let_def attempt_ends_def [of "update_run _ _ _ _"]
        attempt_ends_def [of "record_notifications _ _ _ _ _ _ _ _ _"] attempt_ends_def [symmetric])
  have "counted_of ?i (w_db w2) = counted_of ?i (w_db w')"
    by (rule counted_of_ends) (use keep w3 in \<open>simp add: keeps_def; metis snd_conv\<close>)
  with 1 go used same show "rc' = rc" "counted_of ?i (w_db w) \<le> counted_of ?i (w_db w')"
    "int (counted_of ?i (w_db w')) < rt_max_attempts (spec_runtime (rc_spec rc))" by simp_all
qed

lemma after_outcome_again:
  assumes "after_outcome rc n index x w = (Inr (DriveAgain rc'), w')" and "undisturbed attempt_ends (rc_env rc)"
  shows "rc' = rc \<and> counted_of (run_id (rc_run rc)) (w_db w) \<le> counted_of (run_id (rc_run rc)) (w_db w')
    \<and> int (counted_of (run_id (rc_run rc)) (w_db w')) < rt_max_attempts (spec_runtime (rc_spec rc))"
proof (cases x)
  case (AttemptRaised e)
  with assms(1) have "after_failure rc n index (classify_adapter_error e) w = (Inr (DriveAgain rc'), w')"
    by (simp add: after_outcome_def)
  from after_failure_again [OF this assms(2)] show ?thesis by blast
qed (use assms in \<open>auto simp: after_outcome_def elim!: bind_Inr simp: job_return_def\<close>)

lemma start_attempt_again:
  assumes "start_attempt rc opts as w = (Inr (DriveAgain rc'), w')" and q: "undisturbed attempt_ends (rc_env rc)"
  shows "run_id (rc_run rc') = run_id (rc_run rc) \<and> rc_env rc' = rc_env rc
    \<and> counted_of (run_id (rc_run rc)) (w_db w) < counted_of (run_id (rc_run rc)) (w_db w')
    \<and> int (counted_of (run_id (rc_run rc)) (w_db w')) < rt_max_attempts (spec_runtime (rc_spec rc))"
proof -
  let ?i = "run_id (rc_run rc)"
  define n where "n = (case last_n as of None \<Rightarrow> 1 | Some m \<Rightarrow> m + 1)"
  define rc1 where "rc1 = rc\<lparr>rc_attempt := Some n\<rparr>"
  define ref where "ref = provider_chain (rc_spec rc) ! min (run_provider_index (rc_run rc)) (length (provider_chain (rc_spec rc)) - 1)"
  have rc1: "run_id (rc_run rc1) = ?i" "rc_env rc1 = rc_env rc" "rc_spec rc1 = rc_spec rc" by (simp_all add: rc1_def)
  from assms(1) obtain w1 w2 x w3 where w1: "atomic rc1 (start_tx rc1 as ref n) w = (Inr (), w1)"
    and w2: "fault_point rc1 ''attempt_started'' [] w1 = (Inr (), w2)"
    and w3: "catching (guarded_attempt rc1 opts (provider_chain (rc_spec rc)) ref) w2 = (Inr x, w3)"
    and w4: "after_outcome rc1 n (min (run_provider_index (rc_run rc)) (length (provider_chain (rc_spec rc)) - 1)) x w3 = (Inr (DriveAgain rc'), w')"
    unfolding start_attempt_def Let_def n_def [symmetric] rc1_def [symmetric] ref_def [symmetric]
    by (elim bind_Inr) auto
  have q1: "undisturbed attempt_ends (rc_env rc1)" using q by (simp add: rc1)
  let ?d = "others (rc_env rc) (w_turn w) (w_db w)"
  have same: "counted_of ?i ?d = counted_of ?i (w_db w)"
    by (rule counted_of_ends) (use q in \<open>simp add: undisturbed_def\<close>)
  from w1 obtain d1 where d1: "start_tx rc1 as ref n (clock (rc_env rc) (w_turn w)) (random_text (rc_env rc) (w_turn w)) ?d = Inr ((), d1)"
    and "w_db w1 = d1"
    by (auto simp: atomic_def tx_def Let_def rc1 split: sum.splits prod.splits)
  from d1 obtain d0 where d0: "insert_attempt (clock (rc_env rc) (w_turn w)) ?i n (ref_provider ref) (ref_model ref)
      (case last_opt as of None \<Rightarrow> None | Some a \<Rightarrow> att_last_seq a) ?d = Inr d0"
    and "counted_of ?i d1 = counted_of ?i (update_attempt (clock (rc_env rc) (w_turn w)) ?i n (Some AttemptRunning) None None d0)"
    by (auto simp: start_tx_def Let_def and_then_Inr_iff rc1)
  with counted_of_insert [OF d0] counted_of_update [where reason = None and i = ?i and d = d0 and now = "clock (rc_env rc) (w_turn w)" and j = ?i and n = n
      and s = "Some AttemptRunning" and e = None]
  have "Suc (counted_of ?i ?d) \<le> counted_of ?i d1" by simp
  with same \<open>w_db w1 = d1\<close> have "counted_of ?i (w_db w) < counted_of ?i (w_db w1)" by simp
  also have "counted_of ?i (w_db w1) \<le> counted_of ?i (w_db w2)"
    by (rule rising_Inr [where m = "fault_point rc1 ''attempt_started'' []", OF keeps_rising [OF keeps_basic(5)] w2])
  also have "\<dots> \<le> counted_of ?i (w_db w3)"
    by (rule rising_Inr [OF keeps_rising [OF ends_frame.keeps_catching [OF ends_frame.keeps_guarded [OF q1]]] w3])
  finally show ?thesis using after_outcome_again [OF w4 q1] by (auto simp: rc1)
qed

lemma drive_ready_again:
  assumes "drive_ready rc opts r as w = (Inr (DriveAgain rc'), w')" and q: "undisturbed attempt_ends (rc_env rc)"
    and "\<not> do_wait opts"
  shows "run_id (rc_run rc') = run_id (rc_run rc) \<and> rc_env rc' = rc_env rc
    \<and> counted_of (run_id (rc_run rc)) (w_db w) < counted_of (run_id (rc_run rc)) (w_db w')
    \<and> int (counted_of (run_id (rc_run rc)) (w_db w')) < rt_max_attempts (spec_runtime (rc_spec rc))"
proof -
  from assms(1) obtain v w1 where w1: "read_db rc (\<lambda>now d. (now, older_active r d)) w = (Inr v, w1)"
    and tail: "(case v of (now, older) \<Rightarrow>
       if run_state r = Retrying \<and> now < next_attempt_ms r
       then (if \<not> do_wait opts \<or> (case do_max_wait opts of None \<Rightarrow> 60000 | Some m \<Rightarrow> m) < next_attempt_ms r - now
             then job_bind (take_snapshot rc [(''nextAttemptAt'', jnum_opt (run_next_attempt_at r))]) (\<lambda>s. job_return (DriveDone s))
             else job_return (DriveAgain rc))
       else if rt_concurrency (spec_runtime (rc_spec rc)) = Queue \<and> older \<noteq> None
       then job_bind (take_snapshot rc [(''queuedBehind'', jstr_opt older)]) (\<lambda>s. job_return (DriveDone s))
       else if rt_max_attempts (spec_runtime (rc_spec rc)) \<le> int (length (counted as))
       then job_bind (finalize rc (Some (rc_spec rc)) ((finished Failed)\<lparr>res_reason := Some (exhausted_reason as)\<rparr>))
              (\<lambda>s. job_return (DriveDone s))
       else start_attempt rc opts as) w1 = (Inr (DriveAgain rc'), w')"
    unfolding drive_ready_def by (rule bind_Inr)
  from tail assms(3) have start: "start_attempt rc opts as w1 = (Inr (DriveAgain rc'), w')"
    by (auto split: prod.splits if_splits)
  have "counted_of (run_id (rc_run rc)) (w_db w) \<le> counted_of (run_id (rc_run rc)) (w_db w1)"
    by (rule rising_Inr [OF keeps_rising [OF read_keeps_ends [OF q]] w1])
  with start_attempt_again [OF start q] show ?thesis by auto
qed

lemma interrupt_rising:
  assumes "undisturbed attempt_ends (rc_env rc)"
  shows "rising i (write_db rc (interrupt_tx rc a))"
  by (rule rising_write [OF assms]) (simp add: interrupt_tx_def Let_def counted_of_update)

lemma recover_rising:
  assumes q: "undisturbed attempt_ends (rc_env rc)"
  shows "rising i (recover rc as)"
proof (cases "last_opt as")
  case None
  then show ?thesis by (simp add: recover_def keeps_rising keeps_basic)
next
  case (Some a)
  have "undisturbed attempt_ends (rc_env (rc\<lparr>rc_attempt := Some (att_n a)\<rparr>))" using q by simp
  note rec = keeps_rising [OF ends_frame.keeps_recover_effects [OF this]]
  have ret: "rising i (job_return ())" by (rule keeps_rising) (rule keeps_basic)
  show ?thesis
    using Some by (auto simp: recover_def intro!: rising_bind interrupt_rising [OF q] rec ret)
qed

lemma drive_active_again:
  assumes "drive_active rc opts r w = (Inr (DriveAgain rc'), w')" and q: "undisturbed attempt_ends (rc_env rc)"
    and nw: "\<not> do_wait opts"
  shows "run_id (rc_run rc') = run_id (rc_run rc) \<and> rc_env rc' = rc_env rc
    \<and> counted_of (run_id (rc_run rc)) (w_db w) < counted_of (run_id (rc_run rc)) (w_db w')
    \<and> int (counted_of (run_id (rc_run rc)) (w_db w')) < rt_max_attempts (spec_runtime (rc_spec rc))"
proof -
  let ?i = "run_id (rc_run rc)"
  let ?l = "read_db rc (\<lambda>now d. list_attempts d ?i)"
  from assms(1) obtain as0 w1 u w2 as w3 unknown w4 p w5 where
    w1: "?l w = (Inr as0, w1)" and w2: "recover rc as0 w1 = (Inr u, w2)" and w3: "?l w2 = (Inr as, w3)"
    and w4: "ensure_unknown_effect_approvals (rc\<lparr>rc_attempt := last_n as\<rparr>) w3 = (Inr unknown, w4)"
    and w5: "read_db rc (pending_of rc unknown) w4 = (Inr p, w5)"
    and tail: "(case p of (now, pending) \<Rightarrow> case pending of
        Some a \<Rightarrow> job_bind (if apr_expires_at a \<le> now then expire_run rc (Some a) else park rc a) (\<lambda>s. job_return (DriveDone s))
      | None \<Rightarrow> drive_ready rc opts r as) w5 = (Inr (DriveAgain rc'), w')"
    unfolding drive_active_def Let_def by (elim bind_Inr) blast
  from tail have ready: "drive_ready rc opts r as w5 = (Inr (DriveAgain rc'), w')"
    by (auto split: prod.splits option.splits)
  have q': "undisturbed attempt_ends (rc_env (rc\<lparr>rc_attempt := last_n as\<rparr>))" using q by simp
  note read = rising_Inr [OF keeps_rising [OF read_keeps_ends [OF q]]]
  have "counted_of ?i (w_db w) \<le> counted_of ?i (w_db w1)" by (rule read [OF w1])
  also have "\<dots> \<le> counted_of ?i (w_db w2)" by (rule rising_Inr [OF recover_rising [OF q] w2])
  also have "\<dots> \<le> counted_of ?i (w_db w3)" by (rule read [OF w3])
  also have "\<dots> \<le> counted_of ?i (w_db w4)"
    by (rule rising_Inr [OF keeps_rising [OF ends_frame.keeps_ensure_unknown [OF q']] w4])
  also have "\<dots> \<le> counted_of ?i (w_db w5)" by (rule read [OF w5])
  finally show ?thesis using drive_ready_again [OF ready q nw] by auto
qed

text \<open>A round keeps the limit, so it is the same in every round.\<close>

lemma limit_updates [simp]:
  "attempt_limit i (update_run now j patch d) = attempt_limit i d"
  "attempt_limit i (record_notifications H now chans j sp ev eid x d) = attempt_limit i d"
  "attempt_limit i (update_attempt now j n s e y d) = attempt_limit i d"
  by (auto simp: attempt_limit_def get_run_update_run get_pinned_spec_def get_run_def [of "update_attempt _ _ _ _ _ _ _"]
      get_run_def [symmetric] cong: option.case_cong split: option.split)

lemma limit_append [simp]: "attempt_limit i (append_checkpoint now j n kind v d) = attempt_limit i d"
  by (rule limit_frame.keeps_journal)

lemma limit_finalize [simp]: "attempt_limit i (finalize_run H now chans secrets j q sp d) = attempt_limit i d"
  by (simp add: finalize_run_def finish_run_def seal_run_def Let_def split: option.split)

lemma limit_insert: "insert_attempt now j n p m s d = Inr d' \<Longrightarrow> attempt_limit i d' = attempt_limit i d"
  by (auto simp: insert_attempt_def attempt_limit_def get_run_def get_pinned_spec_def cong: option.case_cong split: if_splits)

lemma limit_finalize_tx [simp]: "attempt_limit i (finalize_tx rc sp q now d) = attempt_limit i d"
proof -
  have "attempt_limit i (fold (\<lambda>a. add_checkpoint rc now k (g a)) as d) = attempt_limit i d" for k g as
    by (induction as arbitrary: d) simp_all
  then show ?thesis by (simp add: finalize_tx_def)
qed

lemma keeps_limit_ends:
  assumes "undisturbed (attempt_limit i) (rc_env rc)"
  shows "keeps (attempt_limit i) (finalize rc sp q)" "keeps (attempt_limit i) (park rc a)"
    "keeps (attempt_limit i) (expire_run rc x)" "keeps (attempt_limit i) (take_snapshot rc extra)"
proof -
  show snap: "keeps (attempt_limit i) (take_snapshot rc extra)" for extra
    unfolding take_snapshot_def by (intro keeps_rules assms)
  show fin: "keeps (attempt_limit i) (finalize rc sp q)" for sp q
    unfolding finalize_def by (intro keeps_rules keeps_write snap assms) simp
  show "keeps (attempt_limit i) (park rc a)"
    unfolding park_def by (intro keeps_rules keeps_write snap assms) (simp add: park_tx_def)
  show "keeps (attempt_limit i) (expire_run rc x)"
    unfolding expire_run_def by (intro keeps_rules keeps_write fin assms) (simp add: expire_tx_def)
qed

lemma keeps_limit_after:
  assumes q: "undisturbed (attempt_limit i) (rc_env rc)"
  shows "keeps (attempt_limit i) (after_outcome rc n index x)"
proof -
  have ret: "keeps (attempt_limit i) (retry_or_fail rc n index f used)" for f used
    unfolding retry_or_fail_def by (intro keeps_rules keeps_write keeps_limit_ends q) (simp add: retry_tx_def Let_def)
  have fail: "keeps (attempt_limit i) (after_failure rc n index f)" for f
    unfolding after_failure_def by (intro keeps_rules keeps_write ret q) (simp add: end_attempt_def)
  have final: "keeps (attempt_limit i) (after_final rc n v)" for v
    unfolding after_final_def by (intro keeps_rules keeps_write keeps_limit_ends q) (simp add: final_tx_def end_attempt_def)
  show ?thesis
    by (cases x) (auto simp: after_outcome_def end_attempt_def intro!: keeps_rules keeps_write keeps_limit_ends fail final q)
qed

lemma keeps_limit_start:
  assumes q: "undisturbed (attempt_limit i) (rc_env rc)"
  shows "keeps (attempt_limit i) (start_attempt rc opts as)"
proof -
  have q1: "undisturbed (attempt_limit i) (rc_env (rc\<lparr>rc_attempt := Some n\<rparr>))" for n using q by simp
  have start: "attempt_limit i d' = attempt_limit i d" if "start_tx rc' as ref n now rnd d = Inr (u, d')"
    for rc' :: "'x run_ctx" and ref n now rnd d u d'
    using that by (auto simp: start_tx_def Let_def and_then_Inr_iff dest: limit_insert)
  show ?thesis
    unfolding start_attempt_def Let_def
    by (intro keeps_rules keeps_atomic limit_frame.keeps_catching limit_frame.keeps_guarded keeps_limit_after q1) (rule start)
qed

lemma keeps_limit_round:
  assumes q: "undisturbed (attempt_limit i) (rc_env rc)"
  shows "keeps (attempt_limit i) (drive_round rc opts)"
proof -
  have rec: "keeps (attempt_limit i) (recover rc1 as)" if "rc_env rc1 = rc_env rc" for rc1 :: "'x run_ctx" and as
    unfolding recover_def using q that
    by (intro keeps_rules keeps_write limit_frame.keeps_recover_effects; simp add: interrupt_tx_def Let_def)
  have ready: "keeps (attempt_limit i) (drive_ready rc1 opts r as)" if "rc_env rc1 = rc_env rc" for rc1 :: "'x run_ctx" and r as
    unfolding drive_ready_def using q that
    by (intro keeps_rules keeps_limit_ends keeps_limit_start; simp)
  have active: "keeps (attempt_limit i) (drive_active rc1 opts r)" if "rc_env rc1 = rc_env rc" for rc1 :: "'x run_ctx" and r
    unfolding drive_active_def using q that
    by (intro keeps_rules keeps_limit_ends rec ready limit_frame.keeps_ensure_unknown; simp)
  show ?thesis
    unfolding drive_round_def using q by (intro keeps_rules keeps_limit_ends active; simp)
qed

lemma drive_round_again:
  assumes round: "drive_round rc opts w = (Inr (DriveAgain rc'), w')" and q: "undisturbed attempt_ends (rc_env rc)"
    and ql: "undisturbed (attempt_limit i) (rc_env rc)" and nw: "\<not> do_wait opts" and i: "run_id (rc_run rc) = i"
    and lim: "attempt_limit i (w_db w) = Some m"
  shows "run_id (rc_run rc') = i" "rc_env rc' = rc_env rc" "counted_of i (w_db w) < counted_of i (w_db w')"
    "int (counted_of i (w_db w')) < m" "attempt_limit i (w_db w') = Some m"
proof -
  have "attempt_limit i (w_db w') = attempt_limit i (w_db w)"
    by (rule keeps_snd [OF keeps_limit_round [OF ql] round])
  with lim show "attempt_limit i (w_db w') = Some m" by simp
  let ?g = "\<lambda>now d. map_option (\<lambda>r. (r, get_pinned_spec d (run_spec_hash r))) (get_run d (run_id (rc_run rc)))"
  from round obtain x w1 where w1: "read_db rc ?g w = (Inr x, w1)"
    and tail: "(case x of None \<Rightarrow> job_throw type_error
      | Some (r, spec) \<Rightarrow> let rc1 = rc\<lparr>rc_run := r\<rparr> in
          if is_terminal (run_state r) then job_bind (take_snapshot rc1 []) (\<lambda>s. job_return (DriveDone s))
          else if run_cancel_requested_at r \<noteq> None
          then job_bind (finalize rc1 spec ((finished Cancelled)\<lparr>res_reason := Some ''cancel_requested''\<rparr>)) (\<lambda>s. job_return (DriveDone s))
          else (case spec of None \<Rightarrow> job_throw type_error
                | Some s \<Rightarrow> drive_active (rc1\<lparr>rc_spec := s\<rparr>) opts r)) w1 = (Inr (DriveAgain rc'), w')"
    unfolding drive_round_def by (rule bind_Inr)
  from tail obtain r s where x: "x = Some (r, Some s)"
    and act: "drive_active (rc\<lparr>rc_run := r, rc_spec := s\<rparr>) opts r w1 = (Inr (DriveAgain rc'), w')"
    by (auto simp: Let_def job_throw_def split: option.splits if_splits)
  have "map_option (\<lambda>r. (r, get_pinned_spec (w_db w1) (run_spec_hash r))) (get_run (w_db w1) i) = Some (r, Some s)"
    using read_db_Inr [OF w1] unfolding x i by (rule sym)
  then have r: "get_run (w_db w1) i = Some r" and s: "get_pinned_spec (w_db w1) (run_spec_hash r) = Some s" by auto
  have id: "run_id r = i" using get_run_id [OF r] .
  have "attempt_limit i (w_db w1) = attempt_limit i (w_db w)"
  proof (rule keeps_snd)
    show "keeps (attempt_limit i) (read_db rc ?g)" by (intro keeps_rules ql)
  qed (rule w1)
  with lim r s have m: "rt_max_attempts (spec_runtime s) = m" by (simp add: attempt_limit_def)
  have less: "counted_of i (w_db w) \<le> counted_of i (w_db w1)"
    by (rule rising_Inr [OF keeps_rising [OF read_keeps_ends [OF q]] w1])
  have "undisturbed attempt_ends (rc_env (rc\<lparr>rc_run := r, rc_spec := s\<rparr>))" using q by simp
  from drive_active_again [OF act this nw]
  have "run_id (rc_run rc') = i \<and> rc_env rc' = rc_env rc \<and> counted_of i (w_db w1) < counted_of i (w_db w')
    \<and> int (counted_of i (w_db w')) < m" by (simp add: id m)
  with less show "run_id (rc_run rc') = i" "rc_env rc' = rc_env rc" "counted_of i (w_db w) < counted_of i (w_db w')"
    "int (counted_of i (w_db w')) < m" by simp_all
qed

lemma drive_leased_rounds:
  assumes "undisturbed attempt_ends (rc_env rc)" and "undisturbed (attempt_limit i) (rc_env rc)" and "\<not> do_wait opts"
    and "run_id (rc_run rc) = i" and "attempt_limit i (w_db w) = Some m"
    and "m \<le> int (counted_of i (w_db w) + k)" and "k < rounds"
  shows "fst (drive_leased rc opts rounds w) \<noteq> Inr None"
  using assms
proof (induction rounds arbitrary: rc w k)
  case (Suc rounds)
  obtain x w' where x: "drive_round rc opts w = (x, w')" by fastforce
  show ?case
  proof (cases x)
    case (Inr y)
    show ?thesis
    proof (cases y)
      case (DriveAgain rc')
      with x Inr have again: "drive_round rc opts w = (Inr (DriveAgain rc'), w')" by simp
      note facts = drive_round_again [OF again Suc.prems(1-5)]
      from facts(3,4) Suc.prems(6,7) have "0 < k" and "m \<le> int (counted_of i (w_db w') + (k - 1))" and "k - 1 < rounds" by simp_all
      from Suc.IH [of rc' w' "k - 1"] facts(1,2,5) this(2,3) Suc.prems(1-3)
      have "fst (drive_leased rc' opts rounds w') \<noteq> Inr None" by simp
      with again show ?thesis by (simp add: job_bind_def)
    qed (use x Inr in \<open>simp add: job_bind_def job_return_def\<close>)
  qed (use x in \<open>simp add: job_bind_def\<close>)
qed simp

text \<open>
  C4: a drive that does not sleep ends (the run is finished, parked, left to its backoff, or the
  driver threw) after at most one round more than the pinned specification allows attempts,
  whatever the agent, the tools and the providers do, as long as only the driver ends attempts.
\<close>

theorem drive_leased_ends:
  assumes "undisturbed attempt_ends (rc_env rc)" and "undisturbed (attempt_limit (run_id (rc_run rc))) (rc_env rc)"
    and "\<not> do_wait opts" and "attempt_limit (run_id (rc_run rc)) (w_db w) = Some m" and "nat m < rounds"
  shows "fst (drive_leased rc opts rounds w) \<noteq> Inr None"
  using assms(4,5) by (intro drive_leased_rounds [OF assms(1,2,3) refl assms(4), of "nat m"]) linarith+

lemma drive_leased_ends_witness:
  "fst (drive_leased (sample_rc []) \<lparr>do_adapters = (\<lambda>p. None), do_providers = sample_env, do_wait = False, do_max_wait = None\<rparr> 3
     (sample_world\<lparr>w_db := sample_leased\<lparr>db_specs := [\<lparr>pin_hash = ''sha256:0'', pin_job_spec = sample_spec, pin_created_at = 1\<rparr>]\<rparr>\<rparr>)) \<noteq> Inr None"
proof (rule drive_leased_ends)
  show "attempt_limit (run_id (rc_run (sample_rc [])))
      (w_db (sample_world\<lparr>w_db := sample_leased\<lparr>db_specs := [\<lparr>pin_hash = ''sha256:0'', pin_job_spec = sample_spec, pin_created_at = 1\<rparr>]\<rparr>\<rparr>)) = Some 2"
    by (simp add: attempt_limit_def get_run_def get_pinned_spec_def sample_leased_def sample_run_def sample_spec_def)
qed (simp_all add: undisturbed_def)

section \<open>Delays\<close>

text \<open>
  The delay before a retry never exceeds the policy's maximum; under exponential backoff it
  doubles with every retry until it reaches the maximum, under fixed backoff it is the same.
\<close>

theorem backoff_delay_law:
  "backoff_delay_ms p index \<le> max_delay_ms p
   \<and> backoff_delay_ms p (int n + 1)
     = (if retry_backoff p = Fixed then backoff_delay_ms p (int n)
        else min (max_delay_ms p) (2 * (initial_delay_ms p * 2 ^ n)))
   \<and> backoff_delay_ms p (int n)
     = (if retry_backoff p = Fixed then min (max_delay_ms p) (initial_delay_ms p)
        else min (max_delay_ms p) (initial_delay_ms p * 2 ^ n))"
proof -
  have "nat (1 + int n) = Suc n" "nat (int n + 1) = Suc n" by simp_all
  then show ?thesis by (auto simp: backoff_delay_ms_def Let_def)
qed

end
