(* ===== verification/JobTriggers.thy ===== *)
theory JobTriggers
  imports JobAdmission
begin

text \<open>
  How a request from outside starts a run: the signed webhook (\<open>agent-job-webhook-signature.js\<close>,
  \<open>agent-job-hooks-http.js\<close>, \<open>agent-job-secrets.js\<close>), the trigger endpoint
  (\<open>agent-job-http.js\<close>) and its machine token (\<open>agent-job-trigger-auth.js\<close>).
  A raw body is the string of its bytes. HMAC-SHA256 (\<open>hmac key text\<close>, in hexadecimal), SHA-256
  (\<open>H\<close>) and \<open>JSON.parse\<close> (\<open>None\<close> when it throws) are the platform's, the lookup of a
  secret is the secret manager's: they are arguments. A timer that is armed at once
  (\<open>kickAgentJobRun\<close>) is the list of run ids in the answer.
\<close>

section \<open>Headers\<close>

datatype header_value = One string | Many "string list"

type_synonym headers = "(string \<times> header_value) list"

text \<open>\<open>String(Array.isArray(value) ? value[0] : value || "").trim()\<close>; a first element of an empty array is \<open>undefined\<close>.\<close>

definition header_text :: "header_value option \<Rightarrow> string" where
  "header_text v = str_trim (case v of
     None \<Rightarrow> [] | Some (One s) \<Rightarrow> s | Some (Many []) \<Rightarrow> ''undefined'' | Some (Many (s # _)) \<Rightarrow> s)"

text \<open>The header by its lower-case name, its given name, or any spelling.\<close>

definition webhook_header :: "headers \<Rightarrow> string \<Rightarrow> string" where
  "webhook_header hs name =
     (let lower = to_lower name in
      header_text (case map_of hs lower of
          Some v \<Rightarrow> Some v
        | None \<Rightarrow> (case map_of hs name of
              Some v \<Rightarrow> Some v
            | None \<Rightarrow> map_option snd (find (\<lambda>(k, v). to_lower k = lower) hs))))"

section \<open>Signatures\<close>

text \<open>The number of seconds in \<open>ORKESTR_AGENT_JOB_WEBHOOK_TOLERANCE_S\<close>, \<open>None\<close> when it is not one.\<close>

definition agent_job_webhook_tolerance_ms :: "int option \<Rightarrow> int" where
  "agent_job_webhook_tolerance_ms v = (case v of None \<Rightarrow> 300000 | Some n \<Rightarrow> if 0 < n then n * 1000 else 300000)"

definition is_hex :: "char \<Rightarrow> bool" where
  "is_hex c \<longleftrightarrow> is_digit c \<or> char_between (CHR ''a'') (CHR ''f'') c \<or> char_between (CHR ''A'') (CHR ''F'') c"

text \<open>\<open>SIGNATURE_RE\<close>, which ignores case.\<close>

definition signature_re :: "string \<Rightarrow> bool" where
  "signature_re s \<longleftrightarrow> to_lower (take 7 s) = ''sha256='' \<and> length s = 71 \<and> list_all is_hex (drop 7 s)"

definition timestamp_re :: "string \<Rightarrow> bool" where
  "timestamp_re s \<longleftrightarrow> s \<noteq> [] \<and> length s \<le> 12 \<and> list_all is_digit s"

definition sign_agent_job_webhook :: "(string \<Rightarrow> string \<Rightarrow> string) \<Rightarrow> string \<Rightarrow> string \<Rightarrow> string option \<Rightarrow> string" where
  "sign_agent_job_webhook hmac secret body stamp =
     ''sha256='' @ hmac secret ((case stamp of None \<Rightarrow> [] | Some t \<Rightarrow> t @ ''.'') @ body)"

definition constant_time_equal :: "(string \<Rightarrow> string) \<Rightarrow> string \<Rightarrow> string \<Rightarrow> bool" where
  "constant_time_equal H a b \<longleftrightarrow> H a = H b \<and> length a = length b"

datatype webhook_style = OrkestrStyle | GithubStyle

record webhook_env =
  we_tolerance :: "int option"
  we_require_timestamp :: bool
  we_hmac :: "string \<Rightarrow> string \<Rightarrow> string"
  we_hash :: "string \<Rightarrow> string"

definition check_digest :: "webhook_env \<Rightarrow> string \<Rightarrow> string \<Rightarrow> string option \<Rightarrow> string \<Rightarrow> webhook_style \<Rightarrow> (string, webhook_style) result" where
  "check_digest we secret body stamp signature style =
     (if \<not> signature_re signature then Inl ''webhook_signature_malformed''
      else if constant_time_equal (we_hash we) (to_lower signature) (sign_agent_job_webhook (we_hmac we) secret body stamp)
      then Inr style else Inl ''webhook_signature_mismatch'')"

text \<open>The secret and the body are \<open>None\<close> when they are missing; an empty secret counts as missing.\<close>

definition verify_agent_job_webhook_signature ::
  "webhook_env \<Rightarrow> string option \<Rightarrow> string option \<Rightarrow> headers \<Rightarrow> int \<Rightarrow> (string, webhook_style) result" where
  "verify_agent_job_webhook_signature we secret body hs now =
     (case secret of None \<Rightarrow> Inl ''webhook_secret_unavailable'' | Some key \<Rightarrow>
      if key = [] then Inl ''webhook_secret_unavailable'' else
      (case body of None \<Rightarrow> Inl ''webhook_raw_body_unavailable'' | Some raw \<Rightarrow>
        let orkestr = webhook_header hs ''X-Orkestr-Signature-256'';
            github = webhook_header hs ''X-Hub-Signature-256'' in
        if orkestr \<noteq> [] then
          (let stamp = webhook_header hs ''X-Orkestr-Timestamp'' in
           if \<not> timestamp_re stamp then Inl ''webhook_timestamp_missing''
           else if agent_job_webhook_tolerance_ms (we_tolerance we) < \<bar>now - int (str_nat stamp) * 1000\<bar>
           then Inl ''webhook_timestamp_outside_window''
           else check_digest we key raw (Some stamp) orkestr OrkestrStyle)
        else if github \<noteq> [] then
          (if we_require_timestamp we then Inl ''webhook_timestamp_missing''
           else check_digest we key raw None github GithubStyle)
        else Inl ''webhook_signature_missing''))"

section \<open>Secrets\<close>

text \<open>The secret of a \<open>vault://\<close> reference; an unknown or empty one is none.\<close>

definition is_agent_job_secret_ref :: "string \<Rightarrow> bool" where
  "is_agent_job_secret_ref ref = secret_ref_re (str_trim ref)"

definition resolve_agent_job_secret :: "(string \<Rightarrow> string option) \<Rightarrow> string \<Rightarrow> string option" where
  "resolve_agent_job_secret lookup ref =
     (if \<not> secret_ref_re (str_trim ref) then None
      else (case lookup (drop 8 (str_trim ref)) of None \<Rightarrow> None | Some v \<Rightarrow> if v = [] then None else Some v))"

section \<open>The signed webhook\<close>

record http_answer =
  http_status :: nat
  http_body :: json
  http_kicked :: "string list"

definition answer :: "nat \<Rightarrow> json \<Rightarrow> http_answer" where
  "answer status body = \<lparr>http_status = status, http_body = body, http_kicked = []\<rparr>"

definition error_body :: "string \<Rightarrow> json" where
  "error_body code = JObj [(''ok'', JBool False), (''error'', JStr code)]"

definition unauthorized :: http_answer where
  "unauthorized = answer 401 (error_body ''agent_job_webhook_unauthorized'')"

text \<open>The reply to an admission: 202 for a new run, which is also kicked, 200 for a known one.\<close>

definition admitted_answer :: "db \<Rightarrow> string \<times> bool \<Rightarrow> http_answer" where
  "admitted_answer d x = (case x of (i, dup) \<Rightarrow>
     \<lparr>http_status = (if dup then 200 else 202),
      http_body = JObj [(''ok'', JBool True), (''runId'', JStr i),
        (''job'', jstr_opt (map_option run_job (get_run d i))),
        (''state'', jstr_opt (map_option (\<lambda>r. run_state_str (run_state r)) (get_run d i))),
        (''deduplicated'', JBool dup)],
      http_kicked = (if dup then [] else [i])\<rparr>)"

definition failed_answer :: "job_error \<Rightarrow> http_answer" where
  "failed_answer e = (case e of
     JobError code status \<Rightarrow> answer (if 400 \<le> status \<and> status < 600 then status else 500) (error_body code)
   | SqlConstraint _ \<Rightarrow> answer 500 (error_body ''ERR_SQLITE_ERROR'')
   | _ \<Rightarrow> answer 500 (error_body ''agent_job_trigger_failed''))"

definition answer_admission :: "(job_error, string \<times> bool) result \<times> db \<Rightarrow> http_answer \<times> db" where
  "answer_admission x = (case x of (Inl e, d) \<Rightarrow> (failed_answer e, d) | (Inr a, d) \<Rightarrow> (admitted_answer d a, d))"

definition parse_body :: "(string \<Rightarrow> json option) \<Rightarrow> string \<Rightarrow> json option" where
  "parse_body parse raw = (if str_trim raw = [] then Some (JObj []) else parse raw)"

record hook_env =
  he_providers :: provider_env
  he_hash :: "string \<Rightarrow> string"
  he_webhook :: webhook_env
  he_secret :: "string \<Rightarrow> string option"
  he_parse :: "string \<Rightarrow> json option"

definition hook_refused :: "int \<Rightarrow> string option \<Rightarrow> string option \<Rightarrow> string \<Rightarrow> db \<Rightarrow> db" where
  "hook_refused now job hook reason =
     record_trigger_audit now (trigger_note job ''webhook'' ''rejected'' (Some reason) hook)"

fun hook_secret_ref :: "trigger \<Rightarrow> string" where
  "hook_secret_ref (Webhook n ref ev) = ref"
| "hook_secret_ref _ = []"

definition find_hook :: "job_spec \<Rightarrow> string \<Rightarrow> trigger option" where
  "find_hook spec hook = find (\<lambda>t. trigger_type t = ''webhook'' \<and> trigger_name t = Some hook) (spec_triggers spec)"

definition hook_event :: "string \<Rightarrow> json \<Rightarrow> trigger_event" where
  "hook_event hook body = \<lparr>ev_type = ''webhook'', ev_name = hook, ev_index = None, ev_dedupe = [], ev_body = body\<rparr>"

text \<open>The part after the signature was verified.\<close>

definition hook_admit ::
  "hook_env \<Rightarrow> int \<Rightarrow> string \<Rightarrow> string \<Rightarrow> string \<Rightarrow> string \<Rightarrow> string \<Rightarrow> db \<Rightarrow> http_answer \<times> db" where
  "hook_admit he now uuid rnd job hook raw d =
     (case parse_body (he_parse he) raw of
        None \<Rightarrow> (answer 400 (error_body ''agent_job_webhook_body_not_json''),
                 hook_refused now (Some job) (Some hook) ''webhook_body_not_json'' d)
      | Some body \<Rightarrow> answer_admission
          (admit_run (he_providers he) (he_hash he) now uuid rnd (RegisteredJob job) (hook_event hook body) d))"

definition handle_agent_job_hook ::
  "hook_env \<Rightarrow> int \<Rightarrow> string \<Rightarrow> string \<Rightarrow> string \<Rightarrow> string \<Rightarrow> string option \<Rightarrow> headers \<Rightarrow> db \<Rightarrow> http_answer \<times> db" where
  "handle_agent_job_hook he now uuid rnd name hook raw hs d =
     (let job = (if name_re name then Some name else None);
          hook_name = (if name_re hook then Some hook else None);
          refuse = (\<lambda>reason. (unauthorized, hook_refused now job hook_name reason d)) in
      if \<not> name_re name \<or> \<not> name_re hook then refuse ''webhook_route_invalid''
      else (case get_registered_job d name of
          None \<Rightarrow> refuse ''job_not_found''
        | Some (h, source, spec) \<Rightarrow>
            (case find_hook spec hook of
               None \<Rightarrow> refuse ''webhook_hook_not_declared''
             | Some t \<Rightarrow>
                 (case verify_agent_job_webhook_signature (he_webhook he)
                     (resolve_agent_job_secret (he_secret he) (hook_secret_ref t)) raw hs now of
                    Inl reason \<Rightarrow> refuse reason
                  | Inr style \<Rightarrow> hook_admit he now uuid rnd name hook (case raw of None \<Rightarrow> [] | Some r \<Rightarrow> r) d))))"

section \<open>The trigger token\<close>

fun split_where :: "(char \<Rightarrow> bool) \<Rightarrow> string \<Rightarrow> string list" where
  "split_where p [] = [[]]"
| "split_where p (c # cs) =
     (if p c then [] # split_where p cs
      else (case split_where p cs of [] \<Rightarrow> [[c]] | w # ws \<Rightarrow> (c # w) # ws))"

text \<open>The two settings, split at white space and commas, without empty parts.\<close>

definition agent_job_trigger_tokens :: "string \<Rightarrow> string \<Rightarrow> string list" where
  "agent_job_trigger_tokens token tokens =
     filter (\<lambda>w. w \<noteq> []) (map str_trim (concat (map (split_where (\<lambda>c. is_space c \<or> c = CHR '','')) [token, tokens])))"

definition trigger_path_re :: "string \<Rightarrow> bool" where
  "trigger_path_re s \<longleftrightarrow> starts_with ''/api/jobs/'' s \<and> ends_with ''/trigger'' s
     \<and> 18 \<le> length s \<and> name_re (take (length s - 18) (drop 10 s))"

record http_request =
  req_method :: string
  req_url :: string
  req_authorization :: string

definition is_agent_job_trigger_route :: "http_request \<Rightarrow> bool" where
  "is_agent_job_trigger_route q \<longleftrightarrow>
     to_lower (if req_method q = [] then ''GET'' else req_method q) = ''post''
     \<and> trigger_path_re (hd (split_on (CHR ''?'') (req_url q)))"

text \<open>The token of \<open>Bearer <token>\<close>, which the trimmed header must be as a whole, on one line.\<close>

definition bearer_token :: "string \<Rightarrow> string" where
  "bearer_token header =
     (let h = str_trim header; rest = dropWhile is_space (drop 6 h) in
      if to_lower (take 6 h) = ''bearer'' \<and> drop 6 h \<noteq> [] \<and> is_space (hd (drop 6 h))
         \<and> rest \<noteq> [] \<and> list_all (\<lambda>c. c \<noteq> CHR 0x0A \<and> c \<noteq> CHR 0x0D) rest
      then str_trim rest else [])"

text \<open>Whether the request is authorised as the machine \<open>agent_job_trigger\<close>; otherwise it falls through to the other schemes.\<close>

definition authorize_agent_job_trigger_request :: "(string \<Rightarrow> string) \<Rightarrow> string list \<Rightarrow> http_request \<Rightarrow> bool" where
  "authorize_agent_job_trigger_request H tokens q \<longleftrightarrow>
     is_agent_job_trigger_route q
     \<and> (let token = bearer_token (req_authorization q) in
        token \<noteq> [] \<and> list_ex (\<lambda>x. H token = H x) tokens)"

section \<open>The trigger endpoint\<close>

definition trigger_header :: "headers \<Rightarrow> string \<Rightarrow> string" where
  "trigger_header hs name = header_text (case map_of hs name of Some v \<Rightarrow> Some v | None \<Rightarrow> map_of hs (to_lower name))"

definition first_truthy :: "json option list \<Rightarrow> string" where
  "first_truthy vs = (case find (\<lambda>v. case v of None \<Rightarrow> False | Some x \<Rightarrow> truthy x) vs of
     Some (Some x) \<Rightarrow> js_string x | _ \<Rightarrow> [])"

record trigger_call =
  tc_name :: string
  tc_hook :: "json option"
  tc_body :: json
  tc_headers :: headers
  tc_machine :: bool
  tc_admin :: bool
  tc_anonymous :: bool

definition trigger_call_event :: "trigger_call \<Rightarrow> trigger_event" where
  "trigger_call_event c =
     (let payload = (if is_object (tc_body c) then tc_body c else JObj []);
          hook = str_trim (first_truthy [tc_hook c, jget payload ''hook'']);
          key = trigger_header (tc_headers c) ''Idempotency-Key'';
          dedupe = (if key \<noteq> [] then key
                    else str_trim (first_truthy [jget payload ''idempotency_key'', jget payload ''idempotencyKey''])) in
      if hook \<noteq> []
      then \<lparr>ev_type = ''webhook'', ev_name = hook, ev_index = None, ev_dedupe = dedupe, ev_body = payload\<rparr>
      else \<lparr>ev_type = ''api'', ev_name = [], ev_index = None, ev_dedupe = dedupe, ev_body = or_null (jget payload ''event'')\<rparr>)"

definition handle_agent_job_trigger ::
  "hook_env \<Rightarrow> int \<Rightarrow> string \<Rightarrow> string \<Rightarrow> trigger_call \<Rightarrow> db \<Rightarrow> http_answer \<times> db" where
  "handle_agent_job_trigger he now uuid rnd c d =
     (if \<not> (tc_machine c \<or> \<not> tc_anonymous c \<and> tc_admin c)
      then (answer 403 (error_body ''agent_job_trigger_forbidden''), d)
      else answer_admission (admit_run (he_providers he) (he_hash he) now uuid rnd (RegisteredJob (tc_name c)) (trigger_call_event c) d))"

section \<open>Signed requests\<close>

text \<open>What HMAC-SHA256 gives: 64 lower-case hexadecimal digits.\<close>

definition hex_digest :: "(string \<Rightarrow> string \<Rightarrow> string) \<Rightarrow> bool" where
  "hex_digest hmac \<longleftrightarrow> (\<forall>k m. length (hmac k m) = 64
     \<and> list_all (\<lambda>c. is_digit c \<or> char_between (CHR ''a'') (CHR ''f'') c) (hmac k m))"

lemma not_space_trim: "list_all (\<lambda>c. \<not> is_space c) s \<Longrightarrow> str_trim s = s"
proof -
  assume s: "list_all (\<lambda>c. \<not> is_space c) s"
  have "dropWhile is_space xs = xs" if "list_all (\<lambda>c. \<not> is_space c) xs" for xs
    using that by (cases xs) simp_all
  with s show ?thesis by (simp add: str_trim_def)
qed

lemma not_upper_lower: "list_all (\<lambda>c. \<not> is_upper c) s \<Longrightarrow> to_lower s = s"
  by (induction s) (simp_all add: to_lower_def to_lower_char_def)

lemma hex_char_plain:
  assumes "is_digit c \<or> char_between (CHR ''a'') (CHR ''f'') c"
  shows "\<not> is_space c" "\<not> is_upper c" "is_hex c"
  using assms by (auto simp: is_digit_def is_space_def is_upper_def is_hex_def char_between_def)

lemma signed_text:
  assumes "hex_digest hmac"
  shows "str_trim (sign_agent_job_webhook hmac k m t) = sign_agent_job_webhook hmac k m t"
    and "to_lower (sign_agent_job_webhook hmac k m t) = sign_agent_job_webhook hmac k m t"
    and "signature_re (sign_agent_job_webhook hmac k m t)"
proof -
  obtain x where x: "sign_agent_job_webhook hmac k m t = ''sha256='' @ x" "length x = 64"
      "list_all (\<lambda>c. is_digit c \<or> char_between (CHR ''a'') (CHR ''f'') c) x"
    using assms by (auto simp: sign_agent_job_webhook_def hex_digest_def)
  have plain: "list_all (\<lambda>c. \<not> is_space c) x" "list_all (\<lambda>c. \<not> is_upper c) x" "list_all is_hex x"
    using x(3) by (auto simp: list_all_iff hex_char_plain)
  have pre: "list_all (\<lambda>c. \<not> is_space c \<and> \<not> is_upper c) ''sha256=''" by code_simp
  show "str_trim (sign_agent_job_webhook hmac k m t) = sign_agent_job_webhook hmac k m t"
    unfolding x(1) by (rule not_space_trim) (use plain(1) pre in \<open>auto simp: list_all_iff\<close>)
  show "to_lower (sign_agent_job_webhook hmac k m t) = sign_agent_job_webhook hmac k m t"
    unfolding x(1) by (rule not_upper_lower) (use plain(2) pre in \<open>auto simp: list_all_iff\<close>)
  have "to_lower ''sha256='' = ''sha256=''" by code_simp
  with x plain(3) show "signature_re (sign_agent_job_webhook hmac k m t)"
    unfolding x(1) by (simp add: signature_re_def)
qed

text \<open>A request with the two Orkestr headers.\<close>

definition signed_headers :: "(string \<Rightarrow> string \<Rightarrow> string) \<Rightarrow> string \<Rightarrow> string \<Rightarrow> nat \<Rightarrow> headers" where
  "signed_headers hmac secret body t =
     [(''x-orkestr-timestamp'', One (nat_str t)),
      (''x-orkestr-signature-256'', One (sign_agent_job_webhook hmac secret body (Some (nat_str t))))]"

lemma header_names:
  "to_lower ''X-Orkestr-Signature-256'' = ''x-orkestr-signature-256''"
  "to_lower ''X-Orkestr-Timestamp'' = ''x-orkestr-timestamp''"
  "to_lower ''X-Hub-Signature-256'' = ''x-hub-signature-256''"
  by code_simp+

lemma digits_plain: "list_all is_digit s \<Longrightarrow> str_trim s = s"
  by (rule not_space_trim) (auto simp: list_all_iff hex_char_plain)

lemma signed_headers_read:
  assumes "hex_digest hmac"
  shows "webhook_header (signed_headers hmac k m t) ''X-Orkestr-Timestamp'' = nat_str t"
    and "webhook_header (signed_headers hmac k m t) ''X-Orkestr-Signature-256'' = sign_agent_job_webhook hmac k m (Some (nat_str t))"
  using nat_str_digits [of t] signed_text(1) [OF assms]
  by (simp_all add: webhook_header_def Let_def header_names signed_headers_def header_text_def digits_plain)

text \<open>
  C31: a request signed with the shared secret is refused when its timestamp lies outside the replay
  window; inside it, the body that arrives is accepted exactly when the HMAC, under the secret, of
  the timestamp, a dot and this body is that of the timestamp, a dot and the signed body (up to a
  collision of the digests that the comparison takes). So the signed body is accepted, and a body
  with another HMAC is refused. The HMAC is 64 lower-case hexadecimal digits, the secret is not empty
  and the timestamp has at most 12 digits.
\<close>

theorem webhook_sign_verify:
  assumes "hex_digest (we_hmac we)" and "key \<noteq> []" and "t < 10 ^ 12"
  shows "verify_agent_job_webhook_signature we (Some key) (Some body') (signed_headers (we_hmac we) key body t) now =
     (if agent_job_webhook_tolerance_ms (we_tolerance we) < \<bar>now - int t * 1000\<bar> then Inl ''webhook_timestamp_outside_window''
      else if we_hash we (''sha256='' @ we_hmac we key (nat_str t @ ''.'' @ body))
            = we_hash we (''sha256='' @ we_hmac we key (nat_str t @ ''.'' @ body'))
      then Inr OrkestrStyle else Inl ''webhook_signature_mismatch'')"
proof -
  have len: "length (nat_str t) \<le> 12"
    using length_nat_str_le [of t 11] assms(3) by simp
  have eq: "length (sign_agent_job_webhook (we_hmac we) key body s) = length (sign_agent_job_webhook (we_hmac we) key body' s)" for s
    using assms(1) by (simp add: sign_agent_job_webhook_def hex_digest_def)
  have signed: "''sha256='' @ we_hmac we key (nat_str t @ ''.'' @ b) = sign_agent_job_webhook (we_hmac we) key b (Some (nat_str t))" for b
    by (simp add: sign_agent_job_webhook_def)
  have "sign_agent_job_webhook (we_hmac we) key body s \<noteq> []" for s by (simp add: sign_agent_job_webhook_def)
  then show ?thesis
    unfolding signed
    using signed_headers_read [OF assms(1)] signed_text(2,3) [OF assms(1)] len nat_str_digits [of t] assms(2) eq
    by (simp add: verify_agent_job_webhook_signature_def Let_def timestamp_re_def check_digest_def constant_time_equal_def)
qed

definition sample_webhook :: webhook_env where
  "sample_webhook = \<lparr>we_tolerance = None, we_require_timestamp = False,
     we_hmac = (\<lambda>k m. replicate 63 (CHR ''0'') @ (if length m = 16 then ''a'' else ''b'')), we_hash = id\<rparr>"

lemma sample_webhook_hex: "hex_digest (we_hmac sample_webhook)"
  by (simp add: hex_digest_def sample_webhook_def is_digit_def char_between_def list_all_iff)

lemma webhook_sign_verify_witness:
  "verify_agent_job_webhook_signature sample_webhook (Some ''k'') (Some ''{}'') (signed_headers (we_hmac sample_webhook) ''k'' ''{}'' 1000) 1200000
     = Inr OrkestrStyle
   \<and> verify_agent_job_webhook_signature sample_webhook (Some ''k'') (Some ''{}'') (signed_headers (we_hmac sample_webhook) ''k'' ''{}'' 1000) 1300001
     = Inl ''webhook_timestamp_outside_window''"
  using webhook_sign_verify [OF sample_webhook_hex, of "''k''" 1000 "''{}''" "''{}''" 1200000]
    webhook_sign_verify [OF sample_webhook_hex, of "''k''" 1000 "''{}''" "''{}''" 1300001]
  by (simp add: agent_job_webhook_tolerance_ms_def sample_webhook_def)

section \<open>The webhook endpoint\<close>

text \<open>What makes a request authentic under a secret.\<close>

definition authentic :: "webhook_env \<Rightarrow> string \<Rightarrow> string \<Rightarrow> headers \<Rightarrow> int \<Rightarrow> bool" where
  "authentic we key body hs now \<longleftrightarrow>
     (let s = webhook_header hs ''X-Orkestr-Signature-256''; g = webhook_header hs ''X-Hub-Signature-256'';
          stamp = webhook_header hs ''X-Orkestr-Timestamp'' in
      key \<noteq> []
      \<and> (if s \<noteq> []
         then timestamp_re stamp \<and> \<bar>now - int (str_nat stamp) * 1000\<bar> \<le> agent_job_webhook_tolerance_ms (we_tolerance we)
              \<and> we_hash we (to_lower s) = we_hash we (sign_agent_job_webhook (we_hmac we) key body (Some stamp))
         else g \<noteq> [] \<and> \<not> we_require_timestamp we
              \<and> we_hash we (to_lower g) = we_hash we (sign_agent_job_webhook (we_hmac we) key body None)))"

lemma check_digest_Inr:
  "check_digest we key body t sig style = Inr x \<Longrightarrow>
     we_hash we (to_lower sig) = we_hash we (sign_agent_job_webhook (we_hmac we) key body t)"
  by (auto simp: check_digest_def constant_time_equal_def split: if_splits)

lemma verified_authentic:
  assumes "verify_agent_job_webhook_signature we secret raw hs now = Inr style"
  shows "\<exists>key body. secret = Some key \<and> raw = Some body \<and> authentic we key body hs now"
  using assms
  by (auto simp: verify_agent_job_webhook_signature_def authentic_def Let_def dest: check_digest_Inr
      split: option.splits if_splits)

lemma find_hook_declared:
  assumes "find_hook spec hook = Some t"
  shows "\<exists>ref ev. t = Webhook hook ref ev \<and> t \<in> set (spec_triggers spec)"
proof -
  have "t \<in> set (spec_triggers spec)" "trigger_type t = ''webhook''" "trigger_name t = Some hook"
    using assms by (auto simp: find_hook_def find_Some_iff)
  note t = this
  show ?thesis by (cases t) (use t in auto)
qed

lemma hook_cases:
  "(\<exists>reason. handle_agent_job_hook he now uuid rnd name hook raw hs d =
      (unauthorized, hook_refused now (if name_re name then Some name else None) (if name_re hook then Some hook else None) reason d))
   \<or> (\<exists>h source spec ref ev key body. get_registered_job d name = Some (h, source, spec)
        \<and> find_hook spec hook = Some (Webhook hook ref ev)
        \<and> resolve_agent_job_secret (he_secret he) ref = Some key \<and> raw = Some body
        \<and> authentic (he_webhook he) key body hs now
        \<and> handle_agent_job_hook he now uuid rnd name hook raw hs d = hook_admit he now uuid rnd name hook body d)"
proof (cases "name_re name \<and> name_re hook")
  case names: True
  show ?thesis
  proof (cases "get_registered_job d name")
    case (Some x)
    then obtain h source spec where x: "get_registered_job d name = Some (h, source, spec)" by (cases x) auto
    show ?thesis
    proof (cases "find_hook spec hook")
      case (Some t)
      with find_hook_declared obtain ref ev where t: "find_hook spec hook = Some (Webhook hook ref ev)" by metis
      let ?v = "verify_agent_job_webhook_signature (he_webhook he) (resolve_agent_job_secret (he_secret he) ref) raw hs now"
      show ?thesis
      proof (cases ?v)
        case (Inl reason)
        with names x t show ?thesis by (auto simp: handle_agent_job_hook_def)
      next
        case (Inr style)
        from verified_authentic [OF this] obtain key body where
          "resolve_agent_job_secret (he_secret he) ref = Some key" "raw = Some body" "authentic (he_webhook he) key body hs now"
          by blast
        with names x t Inr show ?thesis by (simp add: handle_agent_job_hook_def)
      qed
    qed (use names x in \<open>auto simp: handle_agent_job_hook_def\<close>)
  qed (use names in \<open>auto simp: handle_agent_job_hook_def\<close>)
qed (auto simp: handle_agent_job_hook_def Let_def)

text \<open>
  C27: the webhook endpoint acts only on an authentic request for a declared hook of a registered
  job: every other request gets the same answer, kicks no run, and leaves one audit entry as its
  only trace.
\<close>

theorem hook_acts_on_authentic_only:
  "(\<exists>reason. handle_agent_job_hook he now uuid rnd name hook raw hs d = (unauthorized,
       d\<lparr>db_trigger_audit := db_trigger_audit d @ [\<lparr>ta_job = (if name_re name then Some name else None), ta_type = ''webhook'',
         ta_outcome = ''rejected'', ta_reason = Some reason, ta_source_ref = (if name_re hook then Some hook else None),
         ta_sender = None, ta_chat = None, ta_run = None, ta_at = now\<rparr>]\<rparr>))
   \<or> (\<exists>h source spec ref ev key body. get_registered_job d name = Some (h, source, spec)
        \<and> Webhook hook ref ev \<in> set (spec_triggers spec)
        \<and> resolve_agent_job_secret (he_secret he) ref = Some key \<and> raw = Some body
        \<and> authentic (he_webhook he) key body hs now)"
  using hook_cases [of he now uuid rnd name hook raw hs d] find_hook_declared
  unfolding hook_refused_def record_trigger_audit_def trigger_note_def by fastforce

section \<open>Replays\<close>

lemma hook_admit_accepted:
  assumes "hook_admit he now uuid rnd name hook raw d = (a, d')" and "http_status a = 200 \<or> http_status a = 202"
  obtains body i b where "parse_body (he_parse he) raw = Some body"
    "admit_run (he_providers he) (he_hash he) now uuid rnd (RegisteredJob name) (hook_event hook body) d = (Inr (i, b), d')"
    "a = admitted_answer d' (i, b)"
proof (cases "parse_body (he_parse he) raw")
  case None
  with assms show ?thesis by (auto simp: hook_admit_def answer_def)
next
  case (Some body)
  obtain x d1 where x: "admit_run (he_providers he) (he_hash he) now uuid rnd (RegisteredJob name) (hook_event hook body) d = (x, d1)"
    by fastforce
  show ?thesis
  proof (cases x)
    case (Inl e)
    with Some x assms show ?thesis
      by (cases e) (auto simp: hook_admit_def answer_admission_def failed_answer_def answer_def split: if_splits)
  next
    case (Inr y)
    with Some x assms that show ?thesis by (cases y) (auto simp: hook_admit_def answer_admission_def)
  qed
qed

text \<open>The event of a hook: its key depends on the body alone, unless the body's key is empty.\<close>

lemma resolve_hook:
  assumes "resolve_trigger H uuid spec (hook_event hook body) = Inr (t, label, key)" and "body_key H t body \<noteq> []"
  shows "resolve_trigger H uuid' spec (hook_event hook body) = Inr (t, label, key)"
  using assms by (auto simp: resolve_trigger_def dedupe_key_of_def hook_event_def Let_def split: option.splits)

lemma find_filter: "find p (filter q xs) = find (\<lambda>x. q x \<and> p x) xs"
  by (induction xs) auto

lemma pick_hook:
  assumes "find_hook spec hook = Some t" and "hook \<noteq> []"
  shows "pick_trigger (spec_triggers spec) (hook_event hook body) = Some t"
proof -
  have "find (\<lambda>t. trigger_name t = Some hook) (filter (\<lambda>t. trigger_type t = ''webhook'') (spec_triggers spec)) = Some t"
    using assms(1) by (simp add: find_hook_def find_filter)
  moreover from this have "filter (\<lambda>t. trigger_type t = ''webhook'') (spec_triggers spec) \<noteq> []" by auto
  ultimately show ?thesis using assms(2) by (simp add: pick_trigger_def hook_event_def Let_def)
qed

text \<open>What a later admission of the same event answers, as long as the run of its key is there.\<close>

lemma hook_admit_known:
  assumes "get_registered_job e name = Some (h, source, spec)" and "parse_body (he_parse he) raw = Some body"
    and "resolve_trigger (he_hash he) uuid spec (hook_event hook body) = Inr (t, label, key)"
    and "row_of run_key (run_key_for (he_hash he) (spec_name spec) label key) (db_runs e) = Some r"
    and "hook_admit he now uuid rnd name hook raw e = (a, e')"
  shows "(a = failed_answer (JobError ''provider_not_connected'' 409) \<or> a = admitted_answer e (run_id r, True))
    \<and> db_runs e' = db_runs e"
proof (cases "st_runnable (agent_job_provider_status (he_providers he) (spec_agent spec))")
  case True
  with assms show ?thesis
    by (auto simp: hook_admit_def admit_run_resolved [OF assms(1,3) True] admit_tx_def tx_def answer_admission_def)
next
  case False
  with assms show ?thesis
    by (auto simp: hook_admit_def admit_run_def source_spec_def answer_admission_def Let_def record_trigger_audit_def)
qed

text \<open>The key of the first delivery is the key of its run.\<close>

lemma admitted_run_key:
  assumes "admit_tx H now rnd spec t label key body d = Inr ((i, b), d')"
  shows "(i, run_key_for H (spec_name spec) label key) \<in> set (map (\<lambda>r. (run_id r, run_key r)) (db_runs d'))"
proof (cases b)
  case True
  with assms have "admit_tx H now rnd spec t label key body d = Inr ((i, True), d')" by simp
  from admit_tx_dup [OF this] obtain r where "d' = d"
      "row_of run_key (run_key_for H (spec_name spec) label key) (db_runs d) = Some r" "run_id r = i" by blast
  with row_of_Some_in [OF this(2)] row_of_Some_key [OF this(2)] show ?thesis by force
next
  case False
  with assms have "admit_new H now rnd spec t (run_key_for H (spec_name spec) label key) key body d = Inr (i, d')"
    using admit_tx_new by simp
  from admit_new_row [OF this] obtain r where "row_of run_id i (db_runs d') = Some r"
      "run_key r = run_key_for H (spec_name spec) label key" by (auto simp: get_run_def)
  with row_of_Some_in [OF this(1)] row_of_Some_key [OF this(1)] show ?thesis by force
qed

text \<open>
  C28: replaying a captured webhook cannot start a second run. After a delivery that was answered
  with 202, let the database have moved on in any way that keeps the ids and the keys of its runs
  (the store never deletes a run and its run keys are unique), the job registered now under this
  name, if any, having the same name and the same declaration of the hook. Then the same body sent
  again to the same hook, with any headers, at any time, is answered with 401, with the first run
  (200), or, when the agent's provider is not connected, with 409; it kicks nothing and changes no
  run. The event's key must not be empty: with an empty one each delivery gets a fresh key
  (\<open>hook_replay_of_empty_event_id\<close>).
\<close>

theorem hook_replay_deduplicated:
  assumes "handle_agent_job_hook he now uuid rnd name hook raw hs d = (a, d')" and "http_status a = 202"
    and "\<And>h source spec t body. get_registered_job d name = Some (h, source, spec) \<Longrightarrow> find_hook spec hook = Some t
      \<Longrightarrow> parse_body (he_parse he) (the raw) = Some body \<Longrightarrow> body_key (he_hash he) t body \<noteq> []"
    and "set (map (\<lambda>r. (run_id r, run_key r)) (db_runs d')) \<subseteq> set (map (\<lambda>r. (run_id r, run_key r)) (db_runs e))"
    and "distinct (map run_key (db_runs e))"
    and "\<And>h source spec h2 source2 spec2. get_registered_job d name = Some (h, source, spec)
      \<Longrightarrow> get_registered_job e name = Some (h2, source2, spec2)
      \<Longrightarrow> spec_name spec2 = spec_name spec \<and> find_hook spec2 hook = find_hook spec hook"
    and "handle_agent_job_hook he now' uuid' rnd' name hook raw hs' e = (a', e')"
  shows "(a' = unauthorized \<or> a' = failed_answer (JobError ''provider_not_connected'' 409)
      \<or> http_status a' = 200 \<and> jget (http_body a') ''runId'' = jget (http_body a) ''runId'')
    \<and> http_kicked a' = [] \<and> db_runs e' = db_runs e"
proof -
  from assms(1,2) obtain h source spec ref ev where reg: "get_registered_job d name = Some (h, source, spec)"
      and hook: "find_hook spec hook = Some (Webhook hook ref ev)"
      and "\<exists>raw'. raw = Some raw' \<and> hook_admit he now uuid rnd name hook raw' d = (a, d')"
    using hook_cases [of he now uuid rnd name hook raw hs d] by (auto simp: unauthorized_def answer_def)
  then obtain raw' where raw: "raw = Some raw'" and admit: "hook_admit he now uuid rnd name hook raw' d = (a, d')" by blast
  obtain body i b where body: "parse_body (he_parse he) raw' = Some body"
      and run: "admit_run (he_providers he) (he_hash he) now uuid rnd (RegisteredJob name) (hook_event hook body) d = (Inr (i, b), d')"
      and a: "a = admitted_answer d' (i, b)"
    using hook_admit_accepted [OF admit] assms(2) by blast
  obtain t label key where res: "resolve_trigger (he_hash he) uuid spec (hook_event hook body) = Inr (t, label, key)"
      and tx: "admit_tx (he_hash he) now rnd spec t label key (ev_body (hook_event hook body)) d = Inr ((i, b), d')"
    by (rule admit_run_registered [OF run reg])
  have name: "hook \<noteq> []"
    using assms(1,2) by (auto simp: handle_agent_job_hook_def name_re_def unauthorized_def answer_def Let_def)
  have t: "t = Webhook hook ref ev"
    using res pick_hook [OF hook name, of body] by (simp add: resolve_trigger_def)
  with assms(3) [OF reg hook] raw body have "body_key (he_hash he) t body \<noteq> []" by simp
  from resolve_hook [OF res this] have res': "resolve_trigger (he_hash he) uuid' spec (hook_event hook body) = Inr (t, label, key)" .
  from admitted_run_key [OF tx] assms(4) obtain r where "r \<in> set (db_runs e)"
      "run_key r = run_key_for (he_hash he) (spec_name spec) label key" and id: "run_id r = i" by auto
  then have row: "row_of run_key (run_key_for (he_hash he) (spec_name spec) label key) (db_runs e) = Some r"
    using row_of_in_iff [OF assms(5)] by auto
  from hook_cases [of he now' uuid' rnd' name hook raw hs' e] show ?thesis
  proof
    assume "\<exists>reason. handle_agent_job_hook he now' uuid' rnd' name hook raw hs' e =
      (unauthorized, hook_refused now' (if name_re name then Some name else None) (if name_re hook then Some hook else None) reason e)"
    with assms(7) show ?thesis by (auto simp: unauthorized_def answer_def hook_refused_def record_trigger_audit_def)
  next
    assume "\<exists>h source spec ref ev key body. get_registered_job e name = Some (h, source, spec)
        \<and> find_hook spec hook = Some (Webhook hook ref ev)
        \<and> resolve_agent_job_secret (he_secret he) ref = Some key \<and> raw = Some body
        \<and> authentic (he_webhook he) key body hs' now'
        \<and> handle_agent_job_hook he now' uuid' rnd' name hook raw hs' e = hook_admit he now' uuid' rnd' name hook body e"
    then obtain h2 source2 spec2 where reg2: "get_registered_job e name = Some (h2, source2, spec2)"
        and again: "hook_admit he now' uuid' rnd' name hook raw' e = (a', e')"
      using raw assms(7) by auto
    note same = assms(6) [OF reg reg2]
    from same hook have hook2: "find_hook spec2 hook = Some t" by (simp add: t)
    have "resolve_trigger (he_hash he) uuid' spec2 (hook_event hook body) = Inr (t, label, key)"
      using res' pick_hook [OF hook name, of body] pick_hook [OF hook2 name, of body] by (simp add: resolve_trigger_def t)
    from hook_admit_known [OF reg2 body this _ again, of r] row same id a show ?thesis
      by (auto simp: admitted_answer_def jget_def failed_answer_def answer_def)
  qed
qed

text \<open>A registered job with a webhook, and two deliveries of one event at different times.\<close>

definition sample_hooked :: job_spec where
  "sample_hooked = sample_spec\<lparr>spec_triggers := [Webhook ''push'' ''vault://hook'' None]\<rparr>"

definition sample_hook_env :: hook_env where
  "sample_hook_env = \<lparr>he_providers = sample_env\<lparr>pe_probe := \<lambda>p. Some (ProbeSaid True True None)\<rparr>, he_hash = sample_hash,
     he_webhook = sample_webhook, he_secret = (\<lambda>n. if n = ''hook'' then Some ''k'' else None), he_parse = (\<lambda>s. None)\<rparr>"

definition sample_hook_db :: db where
  "sample_hook_db = snd (register_job_spec sample_hash 1 sample_hooked ''jobs/nightly.yaml'' sample_db)"

lemma sample_hooked_parts:
  "db_runs sample_hook_db = [sample_run ''run_1'' Running]"
  "get_registered_job sample_hook_db ''nightly'' = Some (spec_hash sample_hash sample_hooked, ''jobs/nightly.yaml'', sample_hooked)"
  "find_hook sample_hooked ''push'' = Some (Webhook ''push'' ''vault://hook'' None)"
  by (simp_all add: sample_hook_db_def sample_hooked_def register_job_spec_def pin_spec_def Let_def get_registered_job_def
      get_pinned_spec_def sample_db_def empty_db_def sample_spec_def find_hook_def)

lemma sample_hook_accepted:
  "\<exists>d'. handle_agent_job_hook sample_hook_env 1200000 ''u'' ''a'' ''nightly'' ''push'' (Some [])
      (signed_headers (we_hmac sample_webhook) ''k'' [] 1200) sample_hook_db = (admitted_answer d' (''run_a'', False), d')
      \<and> ''run_a'' \<in> set (map run_id (db_runs d')) \<and> distinct (map run_key (db_runs d'))
      \<and> get_registered_job d' ''nightly'' = get_registered_job sample_hook_db ''nightly''"
proof -
  have trim: "str_trim [] = []" by code_simp
  have names: "name_re ''nightly''" "name_re ''push''" by code_simp+
  have secret: "resolve_agent_job_secret (he_secret sample_hook_env) ''vault://hook'' = Some ''k''" by code_simp
  have sig: "verify_agent_job_webhook_signature sample_webhook (Some ''k'') (Some [])
      (signed_headers (we_hmac sample_webhook) ''k'' [] 1200) 1200000 = Inr OrkestrStyle"
  proof -
    have we: "we_tolerance sample_webhook = None" by (simp add: sample_webhook_def)
    have "timestamp_re (nat_str 1200)" "str_nat (nat_str 1200) = 1200"
      using nat_str_digits [of 1200] length_nat_str_le [of 1200 11] by (simp_all add: timestamp_re_def)
    moreover have "sign_agent_job_webhook h k m s \<noteq> []" for h k m s by (simp add: sign_agent_job_webhook_def)
    ultimately show ?thesis
      by (simp add: verify_agent_job_webhook_signature_def Let_def check_digest_def constant_time_equal_def
        agent_job_webhook_tolerance_ms_def we signed_headers_read [OF sample_webhook_hex] signed_text(2,3) [OF sample_webhook_hex])
  qed
  obtain key where res: "resolve_trigger sample_hash ''u'' sample_hooked (hook_event ''push'' (JObj [])) = Inr (Webhook ''push'' ''vault://hook'' None, ''push'', key)"
    by (simp add: resolve_trigger_def pick_trigger_def hook_event_def trigger_label_def Let_def sample_hooked_def)
  have run: "st_runnable (agent_job_provider_status (he_providers sample_hook_env) (spec_agent sample_hooked))"
    by (simp add: sample_hook_env_def agent_job_provider_status_def sample_hooked_def sample_spec_def sample_env_def probed_status_def)
  have "\<exists>d'. admit_tx sample_hash 1200000 ''a'' sample_hooked (Webhook ''push'' ''vault://hook'' None) ''push'' key (JObj []) sample_hook_db = Inr ((''run_a'', False), d')"
    by (simp add: admit_tx_def admit_new_def Let_def split_beta insert_run_def run_key_for_def sample_hash_def sample_hooked_parts
      sample_run_def get_run_def new_id_def fresh_run_def)
  then obtain d' where tx: "admit_tx sample_hash 1200000 ''a'' sample_hooked (Webhook ''push'' ''vault://hook'' None) ''push'' key (JObj []) sample_hook_db = Inr ((''run_a'', False), d')" ..
  from tx have "hook_admit sample_hook_env 1200000 ''u'' ''a'' ''nightly'' ''push'' [] sample_hook_db = (admitted_answer d' (''run_a'', False), d')"
    using admit_run_resolved [OF sample_hooked_parts(2) res run, of 1200000 "''a''"]
    by (simp add: hook_admit_def parse_body_def trim answer_admission_def sample_hook_env_def hook_event_def tx_def)
  moreover have "''run_a'' \<in> set (map run_id (db_runs d'))"
    using admit_new_cases(4) [OF admit_tx_new [OF tx]] by (simp add: admitted_db_def fresh_run_def)
  moreover have "distinct (map run_key (db_runs d'))"
    by (rule admit_new_distinct(2) [OF admit_tx_new [OF tx]]) (simp_all add: sample_hooked_parts)
  moreover have "get_registered_job d' ''nightly'' = get_registered_job sample_hook_db ''nightly''"
    unfolding sample_hooked_parts(2) by (rule admit_tx_registered [OF tx sample_hooked_parts(2)])
  moreover have "he_webhook sample_hook_env = sample_webhook" by (simp add: sample_hook_env_def)
  ultimately show ?thesis
    using names secret sig by (intro exI [of _ d']) (simp add: handle_agent_job_hook_def sample_hooked_parts)
qed

lemma hook_replay_deduplicated_witness:
  "\<exists>d' a' d''. handle_agent_job_hook sample_hook_env 1250000 ''v'' ''b'' ''nightly'' ''push'' (Some [])
      (signed_headers (we_hmac sample_webhook) ''k'' [] 1200) d' = (a', d'')
    \<and> http_kicked a' = [] \<and> db_runs d'' = db_runs d' \<and> ''run_a'' \<in> set (map run_id (db_runs d'))"
proof -
  obtain d' where first: "handle_agent_job_hook sample_hook_env 1200000 ''u'' ''a'' ''nightly'' ''push'' (Some [])
      (signed_headers (we_hmac sample_webhook) ''k'' [] 1200) sample_hook_db = (admitted_answer d' (''run_a'', False), d')"
    and mem: "''run_a'' \<in> set (map run_id (db_runs d'))" and keys: "distinct (map run_key (db_runs d'))"
    and reg: "get_registered_job d' ''nightly'' = get_registered_job sample_hook_db ''nightly''"
    using sample_hook_accepted by blast
  have key: "body_key (he_hash sample_hook_env) t body \<noteq> []"
    if "get_registered_job sample_hook_db ''nightly'' = Some (h, source, spec)" "find_hook spec ''push'' = Some t"
      "parse_body (he_parse sample_hook_env) (the (Some [])) = Some body" for h source spec t body
    using that(1,2) by (auto simp: sample_hooked_parts body_key_def)
  let ?x = "handle_agent_job_hook sample_hook_env 1250000 ''v'' ''b'' ''nightly'' ''push'' (Some [])
      (signed_headers (we_hmac sample_webhook) ''k'' [] 1200) d'"
  have again: "spec_name spec2 = spec_name spec \<and> find_hook spec2 ''push'' = find_hook spec ''push''"
    if "get_registered_job sample_hook_db ''nightly'' = Some (h, source, spec)" "get_registered_job d' ''nightly'' = Some (h2, source2, spec2)"
    for h source spec h2 source2 spec2
    using that reg by simp
  have new: "http_status (admitted_answer d' (''run_a'', False)) = 202" by (simp add: admitted_answer_def)
  have "http_kicked (fst ?x) = [] \<and> db_runs (snd ?x) = db_runs d'"
    by (rule conjunct2 [OF hook_replay_deduplicated [OF first new key subset_refl keys again surjective_pairing [of ?x]]])
  with mem show ?thesis by (metis prod.collapse)
qed

text \<open>
  The exception is real: when the event id of a hook points to an empty array, whose text is
  empty, the key of an event is fresh randomness, so that the same signed body starts a run each time.
\<close>

theorem hook_replay_of_empty_event_id:
  "dedupe_key_of H uuid (Webhook hook ref (Some ''/id'')) (hook_event hook (JObj [(''id'', JArr [])]))
   = take 512 (''once:'' @ uuid)"
proof -
  have "tl (split_on (CHR ''/'') ''/id'') = [''id'']" "pointer_token ''id'' = ''id''" "str_trim [] = []" by code_simp+
  then show ?thesis
    by (simp add: dedupe_key_of_def hook_event_def body_key_def json_pointer_def json_member_def Let_def)
qed

section \<open>The machine token\<close>

lemma split_on_nonempty: "split_on c s \<noteq> []"
  by (induction s) (auto split: list.split)

lemma split_on_head: "split_on c s = p # ps \<Longrightarrow> s = p \<or> (\<exists>rest. s = p @ c # rest)"
proof (induction s arbitrary: p ps)
  case (Cons x s)
  show ?case
  proof (cases "x = c")
    case False
    obtain q qs where q: "split_on c s = q # qs" using split_on_nonempty by (metis neq_Nil_conv)
    with Cons.prems False have "p = x # q" by simp
    with Cons.IH [OF q] show ?thesis by auto
  qed (use Cons.prems in auto)
qed auto

lemma trigger_path:
  assumes "trigger_path_re p"
  shows "\<exists>job. p = ''/api/jobs/'' @ job @ ''/trigger'' \<and> name_re job"
proof -
  let ?job = "take (length p - 18) (drop 10 p)"
  from assms have pre: "take 10 p = ''/api/jobs/''" and suf: "drop (length p - 8) p = ''/trigger''" and len: "18 \<le> length p"
    by (simp_all add: trigger_path_re_def starts_with_def ends_with_def numeral_eq_Suc)
  have "p = take 10 p @ drop 10 p" by simp
  also have "drop 10 p = ?job @ drop (length p - 18) (drop 10 p)" by (simp only: append_take_drop_id)
  also have "drop (length p - 18) (drop 10 p) = drop (length p - 8) p" using len by simp
  finally have "p = ''/api/jobs/'' @ ?job @ ''/trigger''" unfolding pre suf .
  with assms show ?thesis by (auto simp: trigger_path_re_def)
qed

text \<open>
  The trigger token opens nothing but a POST to the trigger path of one job: an authorised
  request has this method and path, whatever its query, and carries a bearer token whose digest is
  that of a configured token.
\<close>

theorem trigger_token_scope:
  assumes "authorize_agent_job_trigger_request H (agent_job_trigger_tokens x y) q"
  shows "to_lower (req_method q) = ''post''
    \<and> (\<exists>job. name_re job \<and> (req_url q = ''/api/jobs/'' @ job @ ''/trigger''
         \<or> (\<exists>query. req_url q = ''/api/jobs/'' @ job @ ''/trigger?'' @ query)))
    \<and> bearer_token (req_authorization q) \<noteq> []
    \<and> H (bearer_token (req_authorization q)) \<in> H ` (set (agent_job_trigger_tokens x y) - {[]})"
proof -
  let ?token = "bearer_token (req_authorization q)"
  obtain p ps where p: "split_on (CHR ''?'') (req_url q) = p # ps" using split_on_nonempty by (metis neq_Nil_conv)
  from assms have route: "is_agent_job_trigger_route q" and token: "?token \<noteq> []"
      and known: "\<exists>w \<in> set (agent_job_trigger_tokens x y). H ?token = H w"
    by (auto simp: authorize_agent_job_trigger_request_def Let_def list_ex_iff)
  from route p have post: "to_lower (if req_method q = [] then ''GET'' else req_method q) = ''post''" and path: "trigger_path_re p"
    by (auto simp: is_agent_job_trigger_route_def)
  have "to_lower ''GET'' \<noteq> ''post''" by code_simp
  with post have "to_lower (req_method q) = ''post''" by (cases "req_method q = []") auto
  moreover from trigger_path [OF path] obtain job where job: "p = ''/api/jobs/'' @ job @ ''/trigger''" "name_re job" by blast
  from split_on_head [OF p] have "req_url q = ''/api/jobs/'' @ job @ ''/trigger''
      \<or> (\<exists>query. req_url q = ''/api/jobs/'' @ job @ ''/trigger?'' @ query)"
    unfolding job(1) by simp
  with job(2) have "\<exists>job. name_re job \<and> (req_url q = ''/api/jobs/'' @ job @ ''/trigger''
      \<or> (\<exists>query. req_url q = ''/api/jobs/'' @ job @ ''/trigger?'' @ query))" by blast
  moreover have "[] \<notin> set (agent_job_trigger_tokens x y)" by (simp add: agent_job_trigger_tokens_def)
  ultimately show ?thesis using token known by auto
qed

definition sample_request :: http_request where
  "sample_request = \<lparr>req_method = ''post'', req_url = ''/api/jobs/nightly/trigger?x=1'', req_authorization = ''Bearer  t0k''\<rparr>"

lemma trigger_token_scope_witness:
  "bearer_token (req_authorization sample_request) = ''t0k''
   \<and> (\<exists>job. name_re job \<and> (req_url sample_request = ''/api/jobs/'' @ job @ ''/trigger''
         \<or> (\<exists>query. req_url sample_request = ''/api/jobs/'' @ job @ ''/trigger?'' @ query)))"
proof -
  have tokens: "agent_job_trigger_tokens ''t0k, other'' [] = [''t0k'', ''other'']" by code_simp
  have token: "bearer_token (req_authorization sample_request) = ''t0k''" by code_simp
  have "is_agent_job_trigger_route sample_request" by code_simp
  then have "authorize_agent_job_trigger_request id (agent_job_trigger_tokens ''t0k, other'' []) sample_request"
    by (simp add: authorize_agent_job_trigger_request_def token tokens)
  from trigger_token_scope [OF this] token show ?thesis by auto
qed

end
