(* ===== verification/Timers.thy ===== *)
theory Timers
  imports JsDate
begin

text \<open>
  The cadence arithmetic of \<open>timers.js\<close>, which schedule triggers share, and the retry guard of
  \<open>timer-run-guard.js\<close>. An instant is its number of milliseconds (\<open>JsDate\<close>). A time zone is
  what \<open>Intl.DateTimeFormat\<close> knows of it: its offset (local time minus UTC, in milliseconds) at
  every instant; \<open>zones\<close> gives the zone of a name, \<open>None\<close> when \<open>Intl\<close> throws. Years are those of
  the common era after 100, where \<open>Date.UTC\<close> reads them as they are.
\<close>

section \<open>Clocks and intervals\<close>

definition hour_ms :: int where
  "hour_ms = 3600000"

text \<open>\<open>HH:MM\<close> with one or two digits of the hour, each part cut to its range; else 09:00.\<close>

definition parse_clock :: "string \<Rightarrow> int \<times> int" where
  "parse_clock s =
     (case split_on (CHR '':'') s of
        [h, m] \<Rightarrow> if h \<noteq> [] \<and> length h \<le> 2 \<and> list_all is_digit h \<and> length m = 2 \<and> list_all is_digit m
          then (min 23 (int (str_nat h)), min 59 (int (str_nat m))) else (9, 0)
      | _ \<Rightarrow> (9, 0))"

definition parse_interval_ms :: "string \<Rightarrow> int" where
  "parse_interval_ms v =
     (let s = str_trim v; ds = takeWhile is_digit s; u = to_lower (dropWhile is_space (dropWhile is_digit s));
          amount = max 1 (int (str_nat ds)) in
      if ds = [] then day_ms
      else if u = ''m'' then amount * 60 * 1000
      else if u = ''h'' then amount * hour_ms
      else if u = ''d'' then amount * day_ms
      else day_ms)"

text \<open>A leading word and the white space after it, once.\<close>

definition drop_word :: "string \<Rightarrow> string \<Rightarrow> string" where
  "drop_word w s =
     (if starts_with w s \<and> drop (length w) s \<noteq> [] \<and> is_space (hd (drop (length w) s))
      then dropWhile is_space (drop (length w) s) else s)"

text \<open>\<open>None\<close> is \<open>null\<close> (no delay given); an unknown form throws.\<close>

definition parse_timer_delay_ms :: "string \<Rightarrow> (string, int option) result" where
  "parse_timer_delay_ms v =
     (let s = drop_word ''after'' (drop_word ''in'' (to_lower (str_trim v)));
          ds = takeWhile is_digit s; u = dropWhile is_space (dropWhile is_digit s);
          amount = max 1 (int (str_nat ds)) in
      if s = [] then Inr None
      else if ds = [] then Inl ''invalid_timer_delay''
      else if u \<in> {''m'', ''min'', ''mins'', ''minute'', ''minutes''} then Inr (Some (amount * 60 * 1000))
      else if u \<in> {''h'', ''hr'', ''hrs'', ''hour'', ''hours''} then Inr (Some (amount * hour_ms))
      else if u \<in> {''d'', ''day'', ''days''} then Inr (Some (amount * day_ms))
      else Inl ''invalid_timer_delay'')"

definition timer_run_at_from_delay :: "string \<Rightarrow> int \<Rightarrow> (string, string) result" where
  "timer_run_at_from_delay v from =
     and_then (parse_timer_delay_ms v) (\<lambda>x. Inr (case x of None \<Rightarrow> [] | Some ms \<Rightarrow> iso_string (from + ms)))"

text \<open>\<open>Math.round\<close> of a quotient, which rounds halves up.\<close>

definition round_div :: "int \<Rightarrow> int \<Rightarrow> int" where
  "round_div a b = (2 * a + b) div (2 * b)"

definition interval_text :: "int \<Rightarrow> string" where
  "interval_text milliseconds =
     (let ms = max 60000 milliseconds in
      if ms mod day_ms = 0 then int_str (ms div day_ms) @ ''d''
      else if ms mod hour_ms = 0 then int_str (ms div hour_ms) @ ''h''
      else int_str (max 1 (round_div ms 60000)) @ ''m'')"

section \<open>Wall clocks in a time zone\<close>

type_synonym zone = "int \<Rightarrow> int"

record wall_clock =
  wc_year :: int
  wc_month :: int
  wc_day :: int
  wc_hour :: int
  wc_minute :: int
  wc_second :: int

definition time_zone_parts :: "zone \<Rightarrow> int \<Rightarrow> wall_clock" where
  "time_zone_parts z t =
     (let s = (t + z t) div 1000; (y, m, d) = civil_of_days (s div 86400); r = s mod 86400 in
      \<lparr>wc_year = y, wc_month = m, wc_day = d, wc_hour = r div 3600, wc_minute = r div 60 mod 60, wc_second = r mod 60\<rparr>)"

text \<open>\<open>Date.UTC\<close> with the month counted from 1 and a given number of seconds.\<close>

definition date_utc :: "wall_clock \<Rightarrow> int \<Rightarrow> int" where
  "date_utc p seconds = days_of_civil (wc_year p) (wc_month p) (wc_day p) * day_ms
     + wc_hour p * hour_ms + wc_minute p * 60000 + seconds * 1000"

definition time_zone_offset_ms :: "zone \<Rightarrow> int \<Rightarrow> int" where
  "time_zone_offset_ms z t = (let p = time_zone_parts z t in date_utc p (wc_second p)) - t"

text \<open>Three steps of the iteration that looks for the instant with a given local time.\<close>

definition zoned_wall_clock_to_utc :: "zone \<Rightarrow> wall_clock \<Rightarrow> int" where
  "zoned_wall_clock_to_utc z p =
     (let local = date_utc p 0 in ((\<lambda>utc. local - time_zone_offset_ms z utc) ^^ 3) local)"

definition add_local_days :: "wall_clock \<Rightarrow> int \<Rightarrow> wall_clock" where
  "add_local_days p days =
     (let t = date_utc (p\<lparr>wc_day := wc_day p + days\<rparr>) 0; (y, m, d) = civil_of_days (t div day_ms); r = t mod day_ms in
      \<lparr>wc_year = y, wc_month = m, wc_day = d, wc_hour = r div hour_ms, wc_minute = r div 60000 mod 60, wc_second = 0\<rparr>)"

section \<open>The next run of a timer\<close>

text \<open>The cadence in lower case, with the fields that the cadence uses; \<open>tm_run_at\<close> is the instant of its text.\<close>

record timer =
  tm_cadence :: string
  tm_every :: "string option"
  tm_time :: string
  tm_timezone :: string
  tm_run_at :: "int option"

definition default_clock :: "string \<Rightarrow> string" where
  "default_clock s = (if s = [] then ''09:00'' else s)"

definition normalize_timer_timezone :: "(string \<Rightarrow> zone option) \<Rightarrow> string \<Rightarrow> (string, string) result" where
  "normalize_timer_timezone zones v =
     (let tz = take 80 (str_trim v) in
      if tz = [] then Inr [] else case zones tz of None \<Rightarrow> Inl ''invalid_timer_timezone'' | Some _ \<Rightarrow> Inr tz)"

definition stored_timer_timezone :: "(string \<Rightarrow> zone option) \<Rightarrow> string \<Rightarrow> string" where
  "stored_timer_timezone zones v = (case normalize_timer_timezone zones v of Inl _ \<Rightarrow> [] | Inr tz \<Rightarrow> tz)"

definition next_in_zone :: "zone \<Rightarrow> string \<Rightarrow> string \<Rightarrow> int \<Rightarrow> int" where
  "next_in_zone z cadence clock from =
     (let (hour, minute) = parse_clock (default_clock clock);
          p = (time_zone_parts z from)\<lparr>wc_hour := hour, wc_minute := minute\<rparr>;
          candidate = zoned_wall_clock_to_utc z p in
      if candidate \<le> from
      then zoned_wall_clock_to_utc z (add_local_days p (if cadence = ''weekly'' then 7 else 1))
      else candidate)"

text \<open>A zone name that is only white space is no name for \<open>Intl\<close>.\<close>

definition next_zoned_clock_run_at :: "(string \<Rightarrow> zone option) \<Rightarrow> timer \<Rightarrow> int \<Rightarrow> (string, int) result" where
  "next_zoned_clock_run_at zones t from =
     and_then (normalize_timer_timezone zones (tm_timezone t)) (\<lambda>tz.
       case zones tz of
         None \<Rightarrow> Inl ''RangeError''
       | Some z \<Rightarrow> Inr (next_in_zone z (tm_cadence t) (tm_time t) from))"

text \<open>
  The server's own zone, for a timer without a zone: the offset, and the instant that the language
  gives a local time (\<open>setHours\<close>, \<open>setDate\<close>).
\<close>

record local_zone =
  lz_offset :: zone
  lz_instant :: "int \<Rightarrow> int"

definition next_local_run_at :: "local_zone \<Rightarrow> timer \<Rightarrow> int \<Rightarrow> int" where
  "next_local_run_at lz t from =
     (let (hour, minute) = parse_clock (default_clock (tm_time t));
          clock = hour * hour_ms + minute * 60000;
          next = lz_instant lz ((from + lz_offset lz from) div day_ms * day_ms + clock) in
      if next \<le> from
      then lz_instant lz (next + lz_offset lz next + (if tm_cadence t = ''weekly'' then 7 else 1) * day_ms)
      else next)"

definition next_run_at :: "local_zone \<Rightarrow> (string \<Rightarrow> zone option) \<Rightarrow> timer \<Rightarrow> int \<Rightarrow> (string, int) result" where
  "next_run_at lz zones t from =
     (if tm_cadence t = ''once'' then Inr (case tm_run_at t of None \<Rightarrow> from + hour_ms | Some x \<Rightarrow> x)
      else if tm_cadence t = ''interval''
      then Inr (from + parse_interval_ms (case tm_every t of None \<Rightarrow> ''1d'' | Some e \<Rightarrow> if e = [] then ''1d'' else e))
      else if tm_timezone t \<noteq> [] then next_zoned_clock_run_at zones t from
      else Inr (next_local_run_at lz t from))"

section \<open>Retries\<close>

definition timer_retry_at :: "nat \<Rightarrow> int \<Rightarrow> int" where
  "timer_retry_at failures now = now + min 3600000 (60000 * 2 ^ ((if failures = 0 then 1 else failures) - 1))"

definition timer_waiting_for_retry :: "int option \<Rightarrow> int \<Rightarrow> bool" where
  "timer_waiting_for_retry retry_at now = (case retry_at of None \<Rightarrow> False | Some t \<Rightarrow> now < t)"

section \<open>Facts\<close>

lemma amount_times: "0 \<le> k \<Longrightarrow> k \<le> max 1 x * (k :: int)"
  using mult_right_mono [of 1 "max 1 x" k] by simp

lemma parse_interval_minimum: "60000 \<le> parse_interval_ms v"
proof -
  have "60000 \<le> max 1 x * 60 * (1000 :: int)" "60000 \<le> max 1 x * hour_ms" "60000 \<le> max 1 x * day_ms" for x
    using amount_times [of 60000 x] amount_times [of hour_ms x] amount_times [of day_ms x]
    unfolding hour_ms_def day_ms_def by linarith+
  then show ?thesis by (simp only: parse_interval_ms_def Let_def split: if_split) (simp add: day_ms_def)
qed

lemma parse_clock_range:
  "0 \<le> fst (parse_clock s)" "fst (parse_clock s) \<le> 23" "0 \<le> snd (parse_clock s)" "snd (parse_clock s) \<le> 59"
  by (simp_all add: parse_clock_def split: list.split)

lemma days_of_civil_add: "days_of_civil y m (d + k) = days_of_civil y m d + k"
  by (simp add: days_of_civil_def Let_def)

lemma civil_days: "civil_of_days n = (y, m, d) \<Longrightarrow> days_of_civil y m d = n"
  using days_of_civil_of_days [of n] by simp

text \<open>The wall clock of an instant and its instant as if it were UTC.\<close>

lemma date_utc_parts:
  fixes z :: zone and t :: int
  shows "date_utc ((time_zone_parts z t)\<lparr>wc_hour := h, wc_minute := m\<rparr>) s
    = (t + z t) div 1000 div 86400 * day_ms + h * hour_ms + m * 60000 + s * 1000"
  by (auto simp: date_utc_def time_zone_parts_def Let_def dest: civil_days split: prod.split)

lemma second_of_day:
  fixes s :: int
  shows "s = s div 86400 * 86400 + s mod 86400 div 3600 * 3600 + s mod 86400 div 60 mod 60 * 60 + s mod 86400 mod 60"
proof -
  have r: "r div 60 = r div 3600 * 60 + r div 60 mod 60" "r = r div 60 * 60 + r mod 60" for r :: int
    using div_mult_mod_eq [of "r div 60" 60] by (simp_all add: zdiv_zmult2_eq [symmetric])
  show ?thesis
    using r [of "s mod 86400"] div_mult_mod_eq [of s 86400] by linarith
qed

lemma offset_exact:
  assumes "1000 dvd t + z t"
  shows "time_zone_offset_ms z t = z t"
proof -
  let ?s = "(t + z t) div 1000"
  let ?p = "time_zone_parts z t"
  have "?p = ?p\<lparr>wc_hour := ?s mod 86400 div 3600, wc_minute := ?s mod 86400 div 60 mod 60\<rparr>"
    by (simp add: time_zone_parts_def Let_def split: prod.split)
  then have "date_utc ?p (wc_second ?p)
      = date_utc (?p\<lparr>wc_hour := ?s mod 86400 div 3600, wc_minute := ?s mod 86400 div 60 mod 60\<rparr>) (wc_second ?p)"
    by (rule arg_cong)
  also have "\<dots> = ?s div 86400 * day_ms + ?s mod 86400 div 3600 * hour_ms + ?s mod 86400 div 60 mod 60 * 60000 + wc_second ?p * 1000"
    by (rule date_utc_parts)
  finally have utc: "date_utc ?p (wc_second ?p) = \<dots>" .
  have sec: "wc_second ?p = ?s mod 86400 mod 60" by (simp add: time_zone_parts_def Let_def split: prod.split)
  have "?s div 86400 * day_ms + ?s mod 86400 div 3600 * hour_ms + ?s mod 86400 div 60 mod 60 * 60000
      + ?s mod 86400 mod 60 * 1000 = ?s * 1000"
    using second_of_day [of ?s] unfolding day_ms_def hour_ms_def by linarith
  moreover have "?s * 1000 = t + z t" using assms by simp
  ultimately show ?thesis unfolding time_zone_offset_ms_def Let_def utc unfolding sec by linarith
qed

text \<open>
  A zone whose offset is the same whole number of seconds, at most a day, for ten days around an
  instant.
\<close>

definition steady :: "zone \<Rightarrow> int \<Rightarrow> int \<Rightarrow> bool" where
  "steady z from c \<longleftrightarrow> 1000 dvd c \<and> \<bar>c\<bar> \<le> day_ms \<and> (\<forall>t. \<bar>t - from\<bar> \<le> 10 * day_ms \<longrightarrow> z t = c)"

lemma steady_offset:
  assumes "steady z from c" and "\<bar>t - from\<bar> \<le> 10 * day_ms" and "1000 dvd t"
  shows "time_zone_offset_ms z t = c"
proof -
  have c: "z t = c" "1000 dvd c" using assms(1,2) by (auto simp: steady_def)
  then have "1000 dvd t + z t" using assms(3) by simp
  from offset_exact [of t z, OF this] c(1) show ?thesis by simp
qed

lemma steady_wall_clock:
  assumes "steady z from c" and "1000 dvd date_utc p 0" and "\<bar>date_utc p 0 - from\<bar> \<le> 9 * day_ms"
  shows "zoned_wall_clock_to_utc z p = date_utc p 0 - c"
proof -
  let ?l = "date_utc p 0"
  have c: "1000 dvd c" "\<bar>c\<bar> \<le> day_ms" using assms(1) by (auto simp: steady_def)
  have "0 \<le> day_ms" by (simp add: day_ms_def)
  with assms(3) c(2) have "\<bar>?l - from\<bar> \<le> 10 * day_ms" "\<bar>?l - c - from\<bar> \<le> 10 * day_ms" by linarith+
  moreover have "1000 dvd ?l - c" using assms(2) c(1) by simp
  ultimately have "time_zone_offset_ms z ?l = c" "time_zone_offset_ms z (?l - c) = c"
    using steady_offset [OF assms(1)] assms(2) by auto
  then show ?thesis by (simp add: zoned_wall_clock_to_utc_def Let_def numeral_3_eq_3)
qed

lemma add_local_days_utc: "date_utc (add_local_days p k) 0 = date_utc (p\<lparr>wc_day := wc_day p + k\<rparr>) 0"
  if "60000 dvd date_utc p 0"
proof -
  let ?t = "date_utc (p\<lparr>wc_day := wc_day p + k\<rparr>) 0"
  have t: "?t = date_utc p 0 + k * day_ms" by (simp add: date_utc_def days_of_civil_add distrib_right)
  have "60000 dvd k * day_ms" by (simp add: day_ms_def)
  with that have "60000 dvd ?t" unfolding t by (rule dvd_add)
  then have r: "60000 dvd ?t mod day_ms" by (simp add: day_ms_def dvd_mod)
  have "r = r div hour_ms * hour_ms + r div 60000 mod 60 * 60000" if "60000 dvd r" for r :: int
  proof -
    from that obtain k where "r = 60000 * k" by (elim dvdE)
    then have "r div hour_ms = k div 60" "r div 60000 = k"
      using zdiv_zmult2_eq [of 60 r 60000] by (simp_all add: hour_ms_def)
    moreover have "k * 60000 = k div 60 * 3600000 + k mod 60 * 60000" using div_mult_mod_eq [of k 60] by linarith
    ultimately show ?thesis using \<open>r = 60000 * k\<close> by (simp only: hour_ms_def)
  qed
  note r' = this [OF r]
  obtain y m d where c: "civil_of_days (?t div day_ms) = (y, m, d)" by (cases "civil_of_days (?t div day_ms)")
  have "date_utc (add_local_days p k) 0
      = days_of_civil y m d * day_ms + ?t mod day_ms div hour_ms * hour_ms + ?t mod day_ms div 60000 mod 60 * 60000"
    by (simp add: add_local_days_def Let_def c
        date_utc_def [of "\<lparr>wc_year = _, wc_month = _, wc_day = _, wc_hour = _, wc_minute = _, wc_second = _\<rparr>"])
  moreover have "days_of_civil y m d * day_ms = ?t div day_ms * day_ms" using civil_days [OF c] by simp
  ultimately show ?thesis using r' div_mult_mod_eq [of ?t day_ms] by linarith
qed

section \<open>The next run\<close>

text \<open>The local clock time of a timer, in milliseconds since local midnight.\<close>

definition clock_ms :: "string \<Rightarrow> int" where
  "clock_ms s = fst (parse_clock (default_clock s)) * hour_ms + snd (parse_clock (default_clock s)) * 60000"

lemma clock_ms_range: "0 \<le> clock_ms s" "clock_ms s < day_ms" "60000 dvd clock_ms s"
proof -
  note r = parse_clock_range [of "default_clock s"]
  show "0 \<le> clock_ms s" "clock_ms s < day_ms" using r unfolding clock_ms_def hour_ms_def day_ms_def by linarith+
  have "60000 dvd hour_ms" by (simp add: hour_ms_def)
  then show "60000 dvd clock_ms s" by (simp add: clock_ms_def)
qed

lemma next_in_steady_zone:
  assumes "steady z from c"
  shows "next_in_zone z cadence s from =
    (let t = (from + c) div day_ms * day_ms + clock_ms s - c in
     if from < t then t else t + (if cadence = ''weekly'' then 7 else 1) * day_ms)"
proof -
  let ?h = "fst (parse_clock (default_clock s))" and ?m = "snd (parse_clock (default_clock s))"
  let ?p = "(time_zone_parts z from)\<lparr>wc_hour := ?h, wc_minute := ?m\<rparr>"
  let ?k = "if cadence = ''weekly'' then 7 else 1 :: int"
  have zf: "z from = c" and c: "\<bar>c\<bar> \<le> day_ms" using assms by (auto simp: steady_def day_ms_def)
  have day: "(from + c) div 1000 div 86400 = (from + c) div day_ms"
    by (simp add: day_ms_def zdiv_zmult2_eq [symmetric])
  have l: "date_utc ?p 0 = (from + c) div day_ms * day_ms + clock_ms s"
    unfolding date_utc_parts zf day clock_ms_def by simp
  have "60000 dvd (from + c) div day_ms * day_ms" by (simp add: day_ms_def)
  then have dvd: "60000 dvd date_utc ?p 0" unfolding l using clock_ms_range(3) by (rule dvd_add)
  then have dvd': "1000 dvd date_utc ?p 0" by (rule dvd_trans [rotated]) simp
  have d: "0 < day_ms" by (simp add: day_ms_def)
  have "(from + c) div day_ms * day_ms \<le> from + c" "from + c < (from + c) div day_ms * day_ms + day_ms"
    using d div_mult_mod_eq [of "from + c" day_ms] pos_mod_bound [of day_ms "from + c"] pos_mod_sign [of day_ms "from + c"] by linarith+
  then have near: "\<bar>date_utc ?p 0 - from\<bar> \<le> 2 * day_ms"
    using c clock_ms_range(1,2) [of s] unfolding l by linarith
  have first: "zoned_wall_clock_to_utc z ?p = date_utc ?p 0 - c"
    using near d by (intro steady_wall_clock [OF assms dvd']) linarith
  have next': "date_utc (add_local_days ?p ?k) 0 = date_utc ?p 0 + ?k * day_ms"
    unfolding add_local_days_utc [OF dvd] by (simp add: date_utc_def days_of_civil_add distrib_right)
  have "1000 dvd date_utc ?p 0 + ?k * day_ms" using dvd' by (simp add: day_ms_def)
  moreover have "0 \<le> ?k * day_ms" "?k * day_ms \<le> 7 * day_ms" using d by simp_all
  then have "\<bar>date_utc ?p 0 + ?k * day_ms - from\<bar> \<le> 9 * day_ms" using near by linarith
  ultimately have second: "zoned_wall_clock_to_utc z (add_local_days ?p ?k) = date_utc ?p 0 + ?k * day_ms - c"
    using steady_wall_clock [OF assms, of "add_local_days ?p ?k"] unfolding next' by simp
  have "next_in_zone z cadence s from
      = (if zoned_wall_clock_to_utc z ?p \<le> from then zoned_wall_clock_to_utc z (add_local_days ?p ?k) else zoned_wall_clock_to_utc z ?p)"
    by (simp only: next_in_zone_def Let_def case_prod_unfold)
  then show ?thesis unfolding first second l Let_def by auto
qed

text \<open>The zone of a timer: its own, or the server's when it names none.\<close>

definition timer_zone :: "local_zone \<Rightarrow> (string \<Rightarrow> zone option) \<Rightarrow> timer \<Rightarrow> zone option" where
  "timer_zone lz zones t =
     (let tz = take 80 (str_trim (tm_timezone t)) in
      if tm_timezone t = [] then Some (lz_offset lz) else if tz = [] then None else zones tz)"

text \<open>Around an instant the language reads a local time of the server with the offset \<open>c\<close>.\<close>

definition steady_local :: "local_zone \<Rightarrow> int \<Rightarrow> int \<Rightarrow> bool" where
  "steady_local lz from c \<longleftrightarrow> (\<forall>l. \<bar>l - c - from\<bar> \<le> 10 * day_ms \<longrightarrow> lz_instant lz l = l - c)"

lemma next_local_steady:
  assumes "steady (lz_offset lz) from c" and "steady_local lz from c"
  shows "next_local_run_at lz t from =
    (let n = (from + c) div day_ms * day_ms + clock_ms (tm_time t) - c in
     if from < n then n else n + (if tm_cadence t = ''weekly'' then 7 else 1) * day_ms)"
proof -
  let ?l = "(from + c) div day_ms * day_ms + clock_ms (tm_time t)"
  let ?k = "if tm_cadence t = ''weekly'' then 7 else 1 :: int"
  have d: "0 < day_ms" by (simp add: day_ms_def)
  have zf: "lz_offset lz from = c" using assms(1) by (simp add: steady_def day_ms_def)
  have "(from + c) div day_ms * day_ms \<le> from + c" "from + c < (from + c) div day_ms * day_ms + day_ms"
    using d div_mult_mod_eq [of "from + c" day_ms] pos_mod_bound [of day_ms "from + c"] pos_mod_sign [of day_ms "from + c"] by linarith+
  then have near: "\<bar>?l - c - from\<bar> \<le> day_ms"
    using clock_ms_range(1,2) [of "tm_time t"] by linarith
  then have ten: "\<bar>?l - c - from\<bar> \<le> 10 * day_ms" using d by linarith
  then have first: "lz_instant lz ?l = ?l - c" and offset: "lz_offset lz (?l - c) = c"
    using assms by (simp_all add: steady_local_def steady_def)
  have "0 \<le> ?k * day_ms" "?k * day_ms \<le> 7 * day_ms" using d by simp_all
  with near have "\<bar>?l + ?k * day_ms - c - from\<bar> \<le> 10 * day_ms" using d by linarith
  then have second: "lz_instant lz (?l + ?k * day_ms) = ?l + ?k * day_ms - c" using assms(2) by (simp only: steady_local_def)
  have "next_local_run_at lz t from =
      (if lz_instant lz ?l \<le> from then lz_instant lz (lz_instant lz ?l + lz_offset lz (lz_instant lz ?l) + ?k * day_ms) else lz_instant lz ?l)"
    by (simp only: next_local_run_at_def Let_def case_prod_unfold zf clock_ms_def)
  also have "lz_instant lz ?l + lz_offset lz (lz_instant lz ?l) + ?k * day_ms = ?l + ?k * day_ms" unfolding first offset by simp
  finally show ?thesis unfolding first second Let_def by auto
qed

text \<open>
  C38: a daily or weekly timer whose zone (its own, or the server's when it names none) keeps its
  offset for ten days around the given instant runs next strictly after this instant, at its local
  clock time, at most one period later: a daily timer at the first such instant, a weekly one on the
  same day when the time is still to come and seven days later otherwise. (Around an offset change
  this can fail, see \<open>next_run_in_the_past\<close>.)
\<close>

theorem next_run_in_steady_zone:
  assumes "timer_zone lz zones t = Some z" and "steady z from c" and "tm_timezone t = [] \<Longrightarrow> steady_local lz from c"
    and "tm_cadence t \<in> {''daily'', ''weekly''}"
  shows "\<exists>n. next_run_at lz zones t from = Inr n \<and> from < n
    \<and> n \<le> from + (if tm_cadence t = ''weekly'' then 7 else 1) * day_ms
    \<and> (n + c) mod day_ms = clock_ms (tm_time t)
    \<and> (tm_cadence t = ''daily'' \<longrightarrow> (\<forall>u. from < u \<longrightarrow> (u + c) mod day_ms = clock_ms (tm_time t) \<longrightarrow> n \<le> u))
    \<and> (tm_cadence t = ''weekly'' \<longrightarrow> (n + c) div day_ms \<in> {(from + c) div day_ms, (from + c) div day_ms + 7})"
proof -
  let ?q = "(from + c) div day_ms * day_ms" and ?s = "clock_ms (tm_time t)"
  let ?k = "if tm_cadence t = ''weekly'' then 7 else 1 :: int"
  let ?t = "?q + ?s - c"
  define n where "n = (if from < ?t then ?t else ?t + ?k * day_ms)"
  have d: "0 < day_ms" by (simp add: day_ms_def)
  have q: "?q \<le> from + c" "from + c < ?q + day_ms"
    using d div_mult_mod_eq [of "from + c" day_ms] pos_mod_bound [of day_ms "from + c"] pos_mod_sign [of day_ms "from + c"] by linarith+
  note s = clock_ms_range(1,2) [of "tm_time t"]
  have run: "next_run_at lz zones t from = Inr n"
  proof (cases "tm_timezone t = []")
    case True
    with assms(1) have "z = lz_offset lz" by (simp add: timer_zone_def)
    then have "next_local_run_at lz t from = n"
      using next_local_steady [OF _ assms(3) [OF True], of t] assms(2) unfolding n_def Let_def by blast
    with True assms(4) show ?thesis by (auto simp: next_run_at_def)
  next
    case False
    then have "next_run_at lz zones t from = next_zoned_clock_run_at zones t from"
      using assms(4) by (auto simp: next_run_at_def)
    also have "\<dots> = Inr (next_in_zone z (tm_cadence t) (tm_time t) from)"
      using assms(1) False by (simp add: timer_zone_def next_zoned_clock_run_at_def normalize_timer_timezone_def Let_def split: if_splits)
    also have "next_in_zone z (tm_cadence t) (tm_time t) from = n"
      unfolding next_in_steady_zone [OF assms(2)] n_def Let_def by (rule refl)
    finally show ?thesis .
  qed
  have k: "day_ms \<le> ?k * day_ms" using d by simp
  have cases: "n = ?t \<and> from < ?t \<or> n = ?t + ?k * day_ms \<and> ?t \<le> from" unfolding n_def by auto
  then have bounds: "from < n" "n \<le> from + ?k * day_ms" using q s k by linarith+
  have day: "n + c = ?s + ((from + c) div day_ms + (if from < ?t then 0 else ?k)) * day_ms"
    unfolding n_def by (simp add: distrib_right)
  then have "(n + c) mod day_ms = ?s mod day_ms" by (simp only: mod_mult_self1)
  also have "?s mod day_ms = ?s" using s by simp
  finally have local: "(n + c) mod day_ms = ?s" .
  have "(n + c) div day_ms = (from + c) div day_ms + (if from < ?t then 0 else ?k)"
    using s d day by simp
  then have same_day: "tm_cadence t = ''weekly'' \<longrightarrow> (n + c) div day_ms \<in> {(from + c) div day_ms, (from + c) div day_ms + 7}" by auto
  have least: "n \<le> u" if "(u + c) mod day_ms = ?s" "tm_cadence t = ''daily''" "from < u" for u
  proof -
    let ?m = "(u + c) div day_ms" and ?n = "(from + c) div day_ms"
    have u: "u + c = ?m * day_ms + ?s" using div_mult_mod_eq [of "u + c" day_ms] that(1) by simp
    have k1: "?k = 1" using that(2) by simp
    have step: "(a + 1) * day_ms \<le> b * day_ms" if "a < b" for a b :: int
      using that d by (intro mult_right_mono) simp_all
    from cases show ?thesis
    proof
      assume "n = ?t \<and> from < ?t"
      moreover have "?n \<le> ?m"
        using step [of ?m ?n] q s u that(3) by (cases "?n \<le> ?m") (simp_all add: distrib_right)
      then have "?n * day_ms \<le> ?m * day_ms" using d by (intro mult_right_mono) simp_all
      ultimately show ?thesis using u by linarith
    next
      assume n: "n = ?t + ?k * day_ms \<and> ?t \<le> from"
      have "?n < ?m"
      proof (rule ccontr)
        assume "\<not> ?n < ?m"
        then have "?m * day_ms \<le> ?n * day_ms" using d by (intro mult_right_mono) simp_all
        with n u that(3) show False by linarith
      qed
      then have "?n * day_ms + day_ms \<le> ?m * day_ms" using step [of ?n ?m] by (simp add: distrib_right)
      with n show ?thesis using u k1 by simp
    qed
  qed
  show ?thesis using run bounds local least same_day by auto
qed

text \<open>The zone UTC+1 all year, and a timer at 09:00 there.\<close>

definition sample_timer :: "string \<Rightarrow> string \<Rightarrow> timer" where
  "sample_timer cadence at = \<lparr>tm_cadence = cadence, tm_every = None, tm_time = at, tm_timezone = ''X/Y'', tm_run_at = None\<rparr>"

lemma next_run_in_steady_zone_witness:
  "let lz = \<lparr>lz_offset = \<lambda>_. hour_ms, lz_instant = \<lambda>l. l - hour_ms\<rparr>;
       t = (sample_timer ''daily'' ''09:00'')\<lparr>tm_timezone := []\<rparr> in
   \<exists>n. next_run_at lz Map.empty t 1750000000000 = Inr n
     \<and> 1750000000000 < n \<and> n \<le> 1750000000000 + day_ms \<and> (n + hour_ms) mod day_ms = 9 * hour_ms"
proof -
  let ?lz = "\<lparr>lz_offset = \<lambda>_. hour_ms, lz_instant = \<lambda>l. l - hour_ms\<rparr>"
  let ?t = "(sample_timer ''daily'' ''09:00'')\<lparr>tm_timezone := []\<rparr>"
  have zone: "timer_zone ?lz Map.empty ?t = Some (\<lambda>_. hour_ms)" by (simp add: timer_zone_def)
  have st: "steady (\<lambda>_. hour_ms) 1750000000000 hour_ms" by (simp add: steady_def hour_ms_def day_ms_def)
  have "steady_local ?lz 1750000000000 hour_ms" by (simp add: steady_local_def)
  moreover have "tm_cadence ?t = ''daily''" "clock_ms (tm_time ?t) = 9 * hour_ms" by code_simp+
  ultimately show ?thesis
    using next_run_in_steady_zone [OF zone st] unfolding Let_def by auto
qed

section \<open>Zones whose clocks change at midnight\<close>

text \<open>Lebanon in spring 2026: UTC+2, and UTC+3 from 28 March, 22:00 UTC, when midnight becomes 01:00.\<close>

definition beirut_2026 :: zone where
  "beirut_2026 t = (if t < 1774735200000 then 2 * hour_ms else 3 * hour_ms)"

text \<open>
  Around an offset change the next run can lie in the past: for a daily timer at 00:15, which
  that night does not have, the iteration ends before the change, at 23:15 of the evening before, so
  the run computed at 23:30 is fifteen minutes earlier than the instant it was computed at.
\<close>

theorem next_run_in_the_past:
  "next_run_at lz [''Asia/Beirut'' \<mapsto> beirut_2026] ((sample_timer ''daily'' ''00:15'')\<lparr>tm_timezone := ''Asia/Beirut''\<rparr>) 1774733400000
   = Inr 1774732500000"
proof -
  have "take 80 (str_trim ''Asia/Beirut'') = ''Asia/Beirut''" by code_simp
  moreover have "next_in_zone beirut_2026 ''daily'' ''00:15'' 1774733400000 = 1774732500000"
  proof -
    have days: "civil_of_days 20540 = (2026, 3, 28)" "civil_of_days 20541 = (2026, 3, 29)"
      "days_of_civil 2026 3 28 = 20540" "days_of_civil 2026 3 29 = 20541"
      by code_simp+
    have now: "(time_zone_parts beirut_2026 1774733400000)\<lparr>wc_hour := 0, wc_minute := 15\<rparr>
        = \<lparr>wc_year = 2026, wc_month = 3, wc_day = 28, wc_hour = 0, wc_minute = 15, wc_second = 0\<rparr>" (is "_ = ?p")
      by (simp add: time_zone_parts_def beirut_2026_def hour_ms_def days Let_def)
    have later: "add_local_days ?p 1 = \<lparr>wc_year = 2026, wc_month = 3, wc_day = 29, wc_hour = 0, wc_minute = 15, wc_second = 0\<rparr>" (is "_ = ?q")
      by (simp add: add_local_days_def date_utc_def days hour_ms_def day_ms_def Let_def)
    have offset: "time_zone_offset_ms beirut_2026 t = beirut_2026 t" if "1000 dvd t" for t
      using that by (intro offset_exact) (simp add: beirut_2026_def hour_ms_def)
    have utc: "date_utc ?p 0 = 1774656900000" "date_utc ?q 0 = 1774743300000"
      by (simp_all add: date_utc_def days hour_ms_def day_ms_def)
    have "zoned_wall_clock_to_utc beirut_2026 ?p = 1774649700000" "zoned_wall_clock_to_utc beirut_2026 ?q = 1774732500000"
      unfolding zoned_wall_clock_to_utc_def utc Let_def by (simp_all add: numeral_3_eq_3 offset beirut_2026_def hour_ms_def)
    moreover have "parse_clock (default_clock ''00:15'') = (0, 15)" by code_simp
    ultimately show ?thesis by (simp add: next_in_zone_def now later)
  qed
  ultimately show ?thesis
    by (simp add: next_run_at_def next_zoned_clock_run_at_def normalize_timer_timezone_def Let_def sample_timer_def)
qed

end
