(* ===== verification/JobScheduler.thy ===== *)
theory JobScheduler
  imports JobRunner Timers
begin

text \<open>
  The background driver of the server (\<open>agent-job-scheduler.js\<close>): schedule triggers whose slot is
  due are admitted, then the runs that can make progress are driven, one drive per run at a time.
  Also the read-only rows that schedules have in the timer list (\<open>agent-job-timer-entries.js\<close>).
  The instant of a tick is also that of the admissions it makes; the registration of job files at the
  start of a tick, whose errors are caught, is left out.
\<close>

section \<open>Schedules\<close>

text \<open>The number in \<open>ORKESTR_AGENT_JOB_SWEEP_MS\<close>, \<open>None\<close> when it is not one.\<close>

definition agent_job_sweep_interval_ms :: "int option \<Rightarrow> int" where
  "agent_job_sweep_interval_ms v = (case v of None \<Rightarrow> 5000 | Some n \<Rightarrow> if 100 \<le> n then n else 5000)"

definition interval_label :: "int option \<Rightarrow> string" where
  "interval_label every = (case every of None \<Rightarrow> ''NaNm'' | Some ms \<Rightarrow> int_str (max 1 (round_div ms 60000)) @ ''m'')"

fun schedule_timer :: "trigger \<Rightarrow> timer" where
  "schedule_timer (Schedule c every time tz) = \<lparr>tm_cadence = cadence_str c,
     tm_every = (if c = Interval then Some (interval_label every) else None),
     tm_time = default_clock (case time of None \<Rightarrow> [] | Some t \<Rightarrow> t),
     tm_timezone = (if tz = [] then ''UTC'' else tz), tm_run_at = None\<rparr>"
| "schedule_timer _ = \<lparr>tm_cadence = [], tm_every = None, tm_time = [], tm_timezone = [], tm_run_at = None\<rparr>"

record sched_env =
  se_providers :: provider_env
  se_hash :: "string \<Rightarrow> string"
  se_zones :: "string \<Rightarrow> zone option"
  se_local :: local_zone
  se_random :: "string \<Rightarrow> nat \<Rightarrow> string"

definition schedule_next_fire_ms :: "sched_env \<Rightarrow> trigger \<Rightarrow> int \<Rightarrow> (string, int) result" where
  "schedule_next_fire_ms se t from = next_run_at (se_local se) (se_zones se) (schedule_timer t) from"

definition next_fire_at :: "db \<Rightarrow> string \<Rightarrow> nat \<Rightarrow> int option" where
  "next_fire_at d job i = map_option sch_next_fire_at (row_of (\<lambda>r. (sch_job r, sch_index r)) (job, i) (db_schedule d))"

text \<open>\<open>insert or ignore\<close>, and the update after a slot was handled.\<close>

definition insert_fire :: "string \<Rightarrow> nat \<Rightarrow> int \<Rightarrow> db \<Rightarrow> db" where
  "insert_fire job i t d =
     (if next_fire_at d job i \<noteq> None then d
      else d\<lparr>db_schedule := db_schedule d @ [\<lparr>sch_job = job, sch_index = i, sch_next_fire_at = t\<rparr>]\<rparr>)"

definition update_fire :: "string \<Rightarrow> nat \<Rightarrow> int \<Rightarrow> db \<Rightarrow> db" where
  "update_fire job i t d =
     d\<lparr>db_schedule := upd_rows (\<lambda>r. (sch_job r, sch_index r) = (job, i)) (\<lambda>r. r\<lparr>sch_next_fire_at := t\<rparr>) (db_schedule d)\<rparr>"

record fired =
  fd_job :: string
  fd_index :: nat
  fd_slot :: string
  fd_run :: string
  fd_deduplicated :: bool

definition slot_event :: "nat \<Rightarrow> int \<Rightarrow> trigger_event" where
  "slot_event i slot = \<lparr>ev_type = ''schedule'', ev_name = [], ev_index = Some (int i),
     ev_dedupe = ''slot:'' @ iso_string slot, ev_body = JNull\<rparr>"

definition error_code :: "job_error \<Rightarrow> string" where
  "error_code e = (case e of JobError code _ \<Rightarrow> code | SqlConstraint _ \<Rightarrow> ''ERR_SQLITE_ERROR'' | _ \<Rightarrow> ''admit_failed'')"

text \<open>The admission of a due slot; a refusal other than that of the provider is audited.\<close>

definition admit_slot :: "sched_env \<Rightarrow> int \<Rightarrow> string \<Rightarrow> nat \<Rightarrow> int \<Rightarrow> db \<Rightarrow> (string \<times> bool) option \<times> db" where
  "admit_slot se now job i slot d =
     (case admit_run (se_providers se) (se_hash se) now [] (se_random se job i) (RegisteredJob job) (slot_event i slot) d of
        (Inr x, d1) \<Rightarrow> (Some x, d1)
      | (Inl e, d1) \<Rightarrow> (None,
          if error_code e = ''provider_not_connected'' then d1
          else record_trigger_audit now (trigger_note (Some job) ''schedule'' ''rejected'' (Some (error_code e)) (Some (iso_string slot))) d1))"

text \<open>One trigger of a job; a time zone that the platform does not know throws out of the loop.\<close>

definition fire_trigger :: "sched_env \<Rightarrow> int \<Rightarrow> string \<Rightarrow> nat \<Rightarrow> trigger \<Rightarrow> db \<Rightarrow> (string, fired list) result \<times> db" where
  "fire_trigger se now job i t d =
     (if trigger_type t \<noteq> ''schedule'' then (Inr [], d)
      else (case next_fire_at d job i of
          None \<Rightarrow>
            (case schedule_next_fire_ms se t now of
               Inl e \<Rightarrow> (Inl e, d)
             | Inr n \<Rightarrow> (Inr [], insert_fire job i n d))
        | Some slot \<Rightarrow>
            if now < slot then (Inr [], d)
            else (let (admitted, d1) = admit_slot se now job i slot d in
              case schedule_next_fire_ms se t now of
                Inl e \<Rightarrow> (Inl e, d1)
              | Inr n \<Rightarrow> (Inr (case admitted of None \<Rightarrow> []
                  | Some (r, dup) \<Rightarrow> [\<lparr>fd_job = job, fd_index = i, fd_slot = iso_string slot, fd_run = r, fd_deduplicated = dup\<rparr>]),
                  update_fire job i n d1))))"

fun fire_triggers :: "sched_env \<Rightarrow> int \<Rightarrow> string \<Rightarrow> nat \<Rightarrow> trigger list \<Rightarrow> db \<Rightarrow> (string, fired list) result \<times> db" where
  "fire_triggers se now job i [] d = (Inr [], d)"
| "fire_triggers se now job i (t # ts) d =
     (case fire_trigger se now job i t d of
        (Inl e, d1) \<Rightarrow> (Inl e, d1)
      | (Inr fs, d1) \<Rightarrow>
          (case fire_triggers se now job (Suc i) ts d1 of
             (Inl e, d2) \<Rightarrow> (Inl e, d2)
           | (Inr gs, d2) \<Rightarrow> (Inr (fs @ gs), d2)))"

definition registered_triggers :: "db \<Rightarrow> string \<Rightarrow> trigger list" where
  "registered_triggers d job = (case get_registered_job d job of None \<Rightarrow> [] | Some (h, source, spec) \<Rightarrow> spec_triggers spec)"

fun fire_jobs :: "sched_env \<Rightarrow> int \<Rightarrow> string list \<Rightarrow> db \<Rightarrow> (string, fired list) result \<times> db" where
  "fire_jobs se now [] d = (Inr [], d)"
| "fire_jobs se now (job # jobs) d =
     (case fire_triggers se now job 0 (registered_triggers d job) d of
        (Inl e, d1) \<Rightarrow> (Inl e, d1)
      | (Inr fs, d1) \<Rightarrow>
          (case fire_jobs se now jobs d1 of
             (Inl e, d2) \<Rightarrow> (Inl e, d2)
           | (Inr gs, d2) \<Rightarrow> (Inr (fs @ gs), d2)))"

definition fire_due_schedules :: "sched_env \<Rightarrow> int \<Rightarrow> db \<Rightarrow> (string, fired list) result \<times> db" where
  "fire_due_schedules se now d = fire_jobs se now (map job_name (list_registered_jobs d)) d"

section \<open>Due runs and the tick\<close>

definition run_due :: "int \<Rightarrow> db \<Rightarrow> run_row \<Rightarrow> bool" where
  "run_due now d r =
     (if run_cancel_requested_at r \<noteq> None then True
      else if run_state r = Retrying then next_attempt_ms r \<le> now
      else if run_state r = AwaitingApproval
      then (case pending_approval_for_run d (run_id r) of None \<Rightarrow> True | Some a \<Rightarrow> apr_expires_at a \<le> now)
      else True)"

definition due_run_ids :: "int \<Rightarrow> db \<Rightarrow> string list" where
  "due_run_ids now d = map run_id (filter (run_due now d) (sort_key run_created_at (filter (\<lambda>r. is_active (run_state r)) (db_runs d))))"

text \<open>The work of one tick: the ids it hands to the driver, or the error that ends it before.\<close>

definition tick_work :: "sched_env \<Rightarrow> int \<Rightarrow> db \<Rightarrow> (string, string list) result \<times> db" where
  "tick_work se now d =
     (case fire_due_schedules se now d of
        (Inl e, d1) \<Rightarrow> (Inl e, d1)
      | (Inr fs, d1) \<Rightarrow> (Inr (due_run_ids now d1), d1))"

section \<open>The scheduler process\<close>

text \<open>
  \<open>sc_running\<close> are the drives that were started and have not ended: not a variable of the code, but
  what its promises are.
\<close>

record scheduler =
  sc_in_flight :: "string list"
  sc_ticking :: bool
  sc_stopped :: bool
  sc_running :: "string list"

definition scheduler_start :: scheduler where
  "scheduler_start = \<lparr>sc_in_flight = [], sc_ticking = False, sc_stopped = False, sc_running = []\<rparr>"

definition start_drive :: "string \<Rightarrow> scheduler \<Rightarrow> scheduler" where
  "start_drive i s =
     (if i \<in> set (sc_in_flight s) \<or> sc_stopped s then s
      else s\<lparr>sc_in_flight := sc_in_flight s @ [i], sc_running := sc_running s @ [i]\<rparr>)"

definition drive_ended :: "string \<Rightarrow> scheduler \<Rightarrow> scheduler" where
  "drive_ended i s = s\<lparr>sc_in_flight := removeAll i (sc_in_flight s), sc_running := remove1 i (sc_running s)\<rparr>"

inductive scheduler_step :: "scheduler \<Rightarrow> scheduler \<Rightarrow> bool" where
  kick: "scheduler_step s (start_drive i s)"
| tick_starts: "\<not> sc_ticking s \<Longrightarrow> \<not> sc_stopped s \<Longrightarrow> scheduler_step s (s\<lparr>sc_ticking := True\<rparr>)"
| tick_drives: "sc_ticking s \<Longrightarrow> scheduler_step s (fold start_drive is s)"
| tick_ends: "sc_ticking s \<Longrightarrow> scheduler_step s (s\<lparr>sc_ticking := False\<rparr>)"
| drive_ends: "i \<in> set (sc_running s) \<Longrightarrow> scheduler_step s (drive_ended i s)"
| stop: "scheduler_step s (s\<lparr>sc_stopped := True\<rparr>)"

section \<open>Schedules in the timer list\<close>

record timer_entry =
  te_id :: string
  te_owner :: string
  te_label :: string
  te_target :: string
  te_cadence :: cadence
  te_time :: "string option"
  te_timezone :: string
  te_every :: "string option"
  te_next_run_at :: string

definition every_label :: "cadence \<Rightarrow> int option \<Rightarrow> string option" where
  "every_label c every =
     (if c \<noteq> Interval then None
      else (let minutes = max 1 (round_div (case every of None \<Rightarrow> 0 | Some ms \<Rightarrow> ms) 60000) in
        Some (if minutes mod 60 = 0 then int_str (minutes div 60) @ ''h'' else int_str minutes @ ''m'')))"

fun schedule_entry :: "sched_env \<Rightarrow> int \<Rightarrow> string \<Rightarrow> db \<Rightarrow> string \<Rightarrow> nat \<Rightarrow> trigger \<Rightarrow> (string, timer_entry list) result" where
  "schedule_entry se now owner d job i (Schedule c every time tz) =
     and_then (case next_fire_at d job i of Some n \<Rightarrow> Inr n | None \<Rightarrow> schedule_next_fire_ms se (Schedule c every time tz) now) (\<lambda>n.
       Inr [\<lparr>te_id = ''agent-job:'' @ job @ '':schedule-'' @ nat_str i, te_owner = owner, te_label = ''Agent job '' @ job,
         te_target = ''agent_job:'' @ job, te_cadence = c,
         te_time = (if c = Interval then None else case time of None \<Rightarrow> None | Some t \<Rightarrow> if t = [] then None else Some t),
         te_timezone = (if tz = [] then ''UTC'' else tz), te_every = every_label c every, te_next_run_at = iso_string n\<rparr>])"
| "schedule_entry se now owner d job i _ = Inr []"

fun job_entries :: "sched_env \<Rightarrow> int \<Rightarrow> string \<Rightarrow> db \<Rightarrow> string \<Rightarrow> nat \<Rightarrow> trigger list \<Rightarrow> (string, timer_entry list) result" where
  "job_entries se now owner d job i [] = Inr []"
| "job_entries se now owner d job i (t # ts) =
     and_then (schedule_entry se now owner d job i t) (\<lambda>xs.
       and_then (job_entries se now owner d job (Suc i) ts) (\<lambda>ys. Inr (xs @ ys)))"

fun all_entries :: "sched_env \<Rightarrow> int \<Rightarrow> string \<Rightarrow> db \<Rightarrow> string list \<Rightarrow> (string, timer_entry list) result" where
  "all_entries se now owner d [] = Inr []"
| "all_entries se now owner d (job # jobs) =
     and_then (job_entries se now owner d job 0 (registered_triggers d job)) (\<lambda>xs.
       and_then (all_entries se now owner d jobs) (\<lambda>ys. Inr (xs @ ys)))"

definition list_agent_job_schedule_timers :: "bool \<Rightarrow> sched_env \<Rightarrow> int \<Rightarrow> string \<Rightarrow> db \<Rightarrow> (string, timer_entry list) result" where
  "list_agent_job_schedule_timers enabled se now owner d =
     (if \<not> enabled then Inr [] else all_entries se now owner d (map job_name (list_registered_jobs d)))"

definition list_schedule_timers_for :: "bool \<Rightarrow> bool \<Rightarrow> sched_env \<Rightarrow> int \<Rightarrow> string \<Rightarrow> db \<Rightarrow> timer_entry list" where
  "list_schedule_timers_for admin enabled se now owner d =
     (if \<not> admin then [] else case list_agent_job_schedule_timers enabled se now owner d of Inl e \<Rightarrow> [] | Inr xs \<Rightarrow> xs)"

definition assert_timer_writable :: "string \<Rightarrow> (job_error, unit) result" where
  "assert_timer_writable i = (if starts_with ''agent-job:'' i then Inl (JobError ''agent_job_schedule_read_only'' 409) else Inr ())"

section \<open>One drive per run\<close>

inductive_cases scheduler_stepE: "scheduler_step s s'"

definition single_flight :: "scheduler \<Rightarrow> bool" where
  "single_flight s \<longleftrightarrow> distinct (sc_running s) \<and> set (sc_running s) = set (sc_in_flight s)"

lemma start_drive_keeps: "single_flight s \<Longrightarrow> single_flight (start_drive i s)"
  by (auto simp: single_flight_def start_drive_def)

lemma fold_start_drive_keeps: "single_flight s \<Longrightarrow> single_flight (fold start_drive is s)"
  by (induction "is" arbitrary: s) (auto intro: start_drive_keeps)

lemma fold_start_drive_stopped: "sc_stopped s \<Longrightarrow> fold start_drive is s = s"
  by (induction "is") (simp_all add: start_drive_def)

lemma scheduler_step_keeps:
  assumes "scheduler_step s s'" and "single_flight s"
  shows "single_flight s'"
  using assms
  by (cases rule: scheduler_stepE)
    (auto intro: start_drive_keeps fold_start_drive_keeps, auto simp: single_flight_def drive_ended_def)

lemma scheduler_step_stopped:
  assumes "scheduler_step s s'" and "sc_stopped s"
  shows "sc_stopped s' \<and> set (sc_running s') \<subseteq> set (sc_running s)"
  using assms(1)
  by (cases rule: scheduler_stepE)
    (use assms(2) in \<open>auto simp: fold_start_drive_stopped start_drive_def drive_ended_def dest: subsetD [OF set_remove1_subset]\<close>)

text \<open>
  C26: in every reachable state of the scheduler each run is driven at most once, exactly the runs
  marked in flight are driven, and from the moment it is stopped no further drive starts.
\<close>

theorem scheduler_single_flight:
  assumes "rtranclp scheduler_step scheduler_start s"
  shows "distinct (sc_running s) \<and> set (sc_running s) = set (sc_in_flight s)
    \<and> (\<forall>s'. sc_stopped s \<longrightarrow> rtranclp scheduler_step s s' \<longrightarrow> set (sc_running s') \<subseteq> set (sc_running s))"
proof -
  have "single_flight scheduler_start" by (simp add: single_flight_def scheduler_start_def)
  with assms have "single_flight s" by (induction rule: rtranclp_induct) (auto intro: scheduler_step_keeps)
  moreover have "sc_stopped s' \<and> set (sc_running s') \<subseteq> set (sc_running s)" if "rtranclp scheduler_step s s'" "sc_stopped s" for s'
    using that
  proof (induction rule: rtranclp_induct)
    case (step y z)
    then have "sc_stopped y" "set (sc_running y) \<subseteq> set (sc_running s)" by auto
    with scheduler_step_stopped [OF step(2)] show ?case by blast
  qed simp
  ultimately show ?thesis by (auto simp: single_flight_def)
qed

lemma scheduler_single_flight_witness:
  "\<exists>s. sc_stopped s \<and> sc_running s = [''run_1''] \<and> (\<forall>s'. rtranclp scheduler_step s s' \<longrightarrow> set (sc_running s') \<subseteq> {''run_1''})"
proof -
  let ?s1 = "start_drive ''run_1'' scheduler_start"
  let ?s = "(start_drive ''run_1'' ?s1)\<lparr>sc_stopped := True\<rparr>"
  have "rtranclp scheduler_step scheduler_start ?s1" by (rule r_into_rtranclp) (rule kick)
  then have "rtranclp scheduler_step scheduler_start (start_drive ''run_1'' ?s1)"
    by (rule rtranclp.rtrancl_into_rtrancl) (rule kick)
  then have "rtranclp scheduler_step scheduler_start ?s"
    by (rule rtranclp.rtrancl_into_rtrancl) (rule stop)
  moreover have "sc_stopped ?s" by simp
  ultimately have "\<forall>s'. rtranclp scheduler_step ?s s' \<longrightarrow> set (sc_running s') \<subseteq> set (sc_running ?s)"
    using scheduler_single_flight [of ?s] by blast
  moreover have "sc_running ?s = [''run_1'']" by (simp add: start_drive_def scheduler_start_def)
  ultimately show ?thesis by (intro exI [of _ ?s]) simp
qed

section \<open>The two filters of due runs\<close>

text \<open>
  The scheduler and the sweep of the runner agree on which runs can make progress: the ids the
  scheduler drives are those of the active runs that the sweep does not skip, in the same order.
\<close>

theorem due_run_ids_sweep:
  assumes "distinct (map run_id (db_runs d))"
  shows "due_run_ids now d = filter (\<lambda>i. \<not> sweep_skips now d i) (active_run_ids d)"
proof -
  have "run_due now d r \<longleftrightarrow> \<not> sweep_skips now d (run_id r)" if "r \<in> set (db_runs d)" for r
  proof -
    have "get_run d (run_id r) = Some r"
      using that row_of_in_iff [OF assms, of "run_id r" r] by (simp add: get_run_def)
    then show ?thesis by (auto simp: run_due_def sweep_skips_def not_less split: option.split)
  qed
  then have "filter (run_due now d) (sort_key run_created_at (filter (\<lambda>r. is_active (run_state r)) (db_runs d)))
      = filter (\<lambda>r. \<not> sweep_skips now d (run_id r)) (sort_key run_created_at (filter (\<lambda>r. is_active (run_state r)) (db_runs d)))"
    by (intro filter_cong) auto
  then show ?thesis by (simp add: due_run_ids_def active_run_ids_def filter_map comp_def)
qed

lemma due_run_ids_sweep_witness: "due_run_ids 5 sample_db = [''run_1'']"
proof -
  have "distinct (map run_id (db_runs sample_db))" by code_simp
  moreover have "\<not> sweep_skips 5 sample_db ''run_1''" by (simp add: sweep_skips_def sample_run_def)
  moreover have "active_run_ids sample_db = [''run_1'']"
    by (simp add: active_run_ids_def sample_db_def sample_run_def is_active_def active_run_states_def)
  ultimately show ?thesis using due_run_ids_sweep [of sample_db 5] by simp
qed

section \<open>Interval texts\<close>

lemma take_digits: "list_all is_digit ds \<Longrightarrow> \<not> is_digit c \<Longrightarrow> takeWhile is_digit (ds @ c # s) = ds \<and> dropWhile is_digit (ds @ c # s) = c # s"
  by (induction ds) auto

lemma parse_interval_text:
  assumes "1 \<le> k" and "u \<in> set ''mhd''"
  shows "parse_interval_ms (int_str k @ [u]) = k * (if u = CHR ''m'' then 60000 else if u = CHR ''h'' then hour_ms else day_ms)"
proof -
  have k: "int_str k = nat_str (nat k)" using assms(1) by (simp add: int_str_def)
  have u: "\<not> is_digit u" "\<not> is_space u" "to_lower [u] = [u]"
    using assms(2) by (auto simp: is_digit_def is_space_def char_between_def to_lower_def to_lower_char_def is_upper_def)
  have "list_all (\<lambda>c. \<not> is_space c) (int_str k @ [u])"
    using nat_str_digits [of "nat k"] u(2) unfolding k
    by (auto simp: list_all_iff is_digit_def is_space_def char_between_def)
  then have trim: "str_trim (int_str k @ [u]) = int_str k @ [u]"
  proof -
    have "dropWhile is_space xs = xs" if "list_all (\<lambda>c. \<not> is_space c) xs" for xs
      using that by (cases xs) simp_all
    with \<open>list_all (\<lambda>c. \<not> is_space c) (int_str k @ [u])\<close> show ?thesis by (simp add: str_trim_def)
  qed
  have split: "takeWhile is_digit (int_str k @ [u]) = int_str k" "dropWhile is_digit (int_str k @ [u]) = [u]"
    using take_digits [OF nat_str_digits u(1), of "nat k" "[]"] unfolding k by auto
  have amount: "max 1 (int (str_nat (int_str k))) = k" using assms(1) by (simp add: k)
  have "int_str k \<noteq> []" "dropWhile is_space [u] = [u]" using u(2) by (simp_all add: k)
  then have "parse_interval_ms (int_str k @ [u])
      = (if [u] = ''m'' then k * 60 * 1000 else if [u] = ''h'' then k * hour_ms else if [u] = ''d'' then k * day_ms else day_ms)"
    by (simp only: parse_interval_ms_def Let_def trim split u(3) amount if_False refl)
  then show ?thesis using assms(2) by auto
qed

text \<open>
  The texts in which intervals are stored parse back: the label of an interval trigger is the
  nearest number of minutes, at least one, so an interval schedule fires again that long after the
  tick; and the text of a stored timer's interval of whole minutes is that interval.
\<close>

theorem interval_texts_roundtrip:
  "parse_interval_ms (interval_label (Some ms)) = max 1 (round_div ms 60000) * 60000
   \<and> schedule_next_fire_ms se (Schedule Interval (Some ms) time tz) now = Inr (now + max 1 (round_div ms 60000) * 60000)
   \<and> parse_interval_ms (interval_text (60000 * n)) = max 60000 (60000 * n)"
proof (intro conjI)
  show label: "parse_interval_ms (interval_label (Some ms)) = max 1 (round_div ms 60000) * 60000"
    using parse_interval_text [of "max 1 (round_div ms 60000)" "CHR ''m''"] by (simp add: interval_label_def)
  have "interval_label (Some ms) \<noteq> []" by (simp add: interval_label_def)
  then show "schedule_next_fire_ms se (Schedule Interval (Some ms) time tz) now = Inr (now + max 1 (round_div ms 60000) * 60000)"
    using label by (simp add: schedule_next_fire_ms_def next_run_at_def cadence_str_def)
  let ?m = "max 60000 (60000 * n)"
  have "60000 dvd ?m" by (simp add: max_def)
  then have m: "?m = round_div ?m 60000 * 60000" "1 \<le> round_div ?m 60000"
    by (auto simp: round_div_def elim!: dvdE)
  have d: "?m = ?m div day_ms * day_ms" if "?m mod day_ms = 0" using div_mult_mod_eq [of ?m day_ms] that by simp
  have h: "?m = ?m div hour_ms * hour_ms" if "?m mod hour_ms = 0" using div_mult_mod_eq [of ?m hour_ms] that by simp
  have one: "1 \<le> q" if "?m = q * b" "0 < b" for q b :: int
  proof (rule ccontr)
    assume "\<not> 1 \<le> q"
    then have "q * b \<le> 0" using that(2) by (intro mult_nonpos_nonneg) simp_all
    then show False using that(1) by simp
  qed
  show "parse_interval_ms (interval_text (60000 * n)) = ?m"
  proof (cases "?m mod day_ms = 0")
    case True
    have "1 \<le> ?m div day_ms" by (rule one [OF d [OF True]]) (simp add: day_ms_def)
    from parse_interval_text [OF this, of "CHR ''d''"] True d show ?thesis by (simp add: interval_text_def Let_def)
  next
    case nd: False
    show ?thesis
    proof (cases "?m mod hour_ms = 0")
      case True
      have "1 \<le> ?m div hour_ms" by (rule one [OF h [OF True]]) (simp add: hour_ms_def)
      from parse_interval_text [OF this, of "CHR ''h''"] True nd h show ?thesis by (simp add: interval_text_def Let_def)
    next
      case False
      from parse_interval_text [OF m(2), of "CHR ''m''"] False nd m show ?thesis by (simp add: interval_text_def Let_def)
    qed
  qed
qed

section \<open>What firing a schedule leaves as it was\<close>

lemma apply_concurrency_schedule [simp]: "db_schedule (apply_concurrency H now p i job d) = db_schedule d"
proof -
  have "db_schedule (fold (\<lambda>r. request_replace now x (run_id r)) rs d) = db_schedule d" for x rs d
    by (induction rs arbitrary: d) (simp_all add: request_replace_def)
  note this [simp]
  show ?thesis by (simp add: apply_concurrency_def Let_def split: concurrency.split)
qed

lemma admit_tx_schedule:
  assumes "admit_tx H now rnd spec t label key body d = Inr ((i, b), d')"
  shows "db_schedule d' = db_schedule d"
proof (cases b)
  case True
  with assms have "admit_tx H now rnd spec t label key body d = Inr ((i, True), d')" by simp
  from admit_tx_dup(1) [OF this] show ?thesis by simp
next
  case False
  with assms have "admit_tx H now rnd spec t label key body d = Inr ((i, False), d')" by simp
  from admit_new_cases(4) [OF admit_tx_new [OF this]] show ?thesis by (simp add: admitted_db_def)
qed

lemma registered_same:
  "db_jobs d' = db_jobs d \<Longrightarrow> db_specs d' = db_specs d \<Longrightarrow> get_registered_job d' job = get_registered_job d job"
  by (simp add: get_registered_job_def get_pinned_spec_def cong: option.case_cong)

definition keeps_schedules :: "string \<Rightarrow> db \<Rightarrow> db \<Rightarrow> bool" where
  "keeps_schedules job d d' \<longleftrightarrow> db_schedule d' = db_schedule d
     \<and> (\<forall>x. get_registered_job d job = Some x \<longrightarrow> get_registered_job d' job = Some x)"

lemma keeps_schedules_audit [simp]: "keeps_schedules job d (record_trigger_audit now e d') \<longleftrightarrow> keeps_schedules job d d'"
  using registered_same [of "record_trigger_audit now e d'" d' job]
  by (simp add: keeps_schedules_def record_trigger_audit_def)

lemma keeps_schedules_refl [simp]: "keeps_schedules job d d"
  by (simp add: keeps_schedules_def)

lemma admit_tx_keeps: "keeps_schedules job d (snd (tx (admit_tx H now rnd spec t label key body) d))"
proof (cases "admit_tx H now rnd spec t label key body d")
  case (Inr y)
  obtain i b d1 where y: "y = ((i, b), d1)" by (metis prod.collapse)
  note tx = Inr [unfolded y]
  show ?thesis
    using admit_tx_schedule [OF tx] admit_tx_registered [OF tx] by (simp add: tx_def Inr y keeps_schedules_def)
qed (simp add: tx_def)

lemma admit_run_keeps: "keeps_schedules job d (snd (admit_run pe H now uuid rnd (RegisteredJob j) ev d))"
  using admit_tx_keeps
  by (auto simp: admit_run_def source_spec_def Let_def split: option.split sum.split)

lemma admit_slot_keeps: "keeps_schedules job d (snd (admit_slot se now j k slot d))"
  using admit_run_keeps [of job d "se_providers se" "se_hash se" now "[]" "se_random se j k" j "slot_event k slot"]
  by (auto simp: admit_slot_def split: prod.split sum.split)

lemma next_fire_keeps:
  "(j, k) \<noteq> (job, i) \<Longrightarrow> next_fire_at (insert_fire j k n d) job i = next_fire_at d job i"
  "(j, k) \<noteq> (job, i) \<Longrightarrow> next_fire_at (update_fire j k n d) job i = next_fire_at d job i"
  by (auto simp: next_fire_at_def insert_fire_def update_fire_def row_of_upd_rows option.map_comp comp_def
      dest: row_of_Some_key split: option.split intro!: option.map_cong)

lemma registered_schedule [simp]:
  "get_registered_job (insert_fire j k n d) job = get_registered_job d job"
  "get_registered_job (update_fire j k n d) job = get_registered_job d job"
  by (rule registered_same; simp add: insert_fire_def update_fire_def)+

lemma fire_trigger_keeps:
  assumes "fire_trigger se now j k t d = (x, d')"
  shows "(j, k) \<noteq> (job, i) \<Longrightarrow> next_fire_at d' job i = next_fire_at d job i"
    and "get_registered_job d job = Some y \<Longrightarrow> get_registered_job d' job = Some y"
proof -
  have s: "next_fire_at (snd (admit_slot se now j k slot d)) job i = next_fire_at d job i"
      "get_registered_job d job = Some y \<Longrightarrow> get_registered_job (snd (admit_slot se now j k slot d)) job = Some y" for slot
    using admit_slot_keeps [of job d se now j k slot] by (simp_all add: next_fire_at_def keeps_schedules_def)
  show "next_fire_at d' job i = next_fire_at d job i" if "(j, k) \<noteq> (job, i)"
    using assms next_fire_keeps [OF that] s(1)
    by (auto simp: fire_trigger_def Let_def case_prod_unfold split: option.splits sum.splits if_splits)
  show "get_registered_job d' job = Some y" if "get_registered_job d job = Some y"
    using assms that s(2) [OF that]
    by (auto simp: fire_trigger_def Let_def case_prod_unfold split: option.splits sum.splits if_splits)
qed

lemma fire_triggers_keeps:
  assumes "fire_triggers se now j k ts d = (x, d')" and "j \<noteq> job"
  shows "next_fire_at d' job i = next_fire_at d job i"
    and "get_registered_job d job = Some y \<Longrightarrow> get_registered_job d' job = Some y"
proof -
  have "next_fire_at d' job i = next_fire_at d job i
      \<and> (get_registered_job d job = Some y \<longrightarrow> get_registered_job d' job = Some y)"
    using assms
  proof (induction ts arbitrary: k d x d')
    case (Cons t ts)
    obtain a d1 where t: "fire_trigger se now j k t d = (a, d1)" by fastforce
    obtain b d2 where ts: "fire_triggers se now j (Suc k) ts d1 = (b, d2)" by fastforce
    note keep = fire_trigger_keeps [OF t, where job = job]
    show ?case
      using Cons.prems Cons.IH [OF ts Cons.prems(2)] t ts keep by (cases a; cases b) auto
  qed auto
  then show "next_fire_at d' job i = next_fire_at d job i"
    and "get_registered_job d job = Some y \<Longrightarrow> get_registered_job d' job = Some y" by auto
qed

section \<open>A schedule in an unknown zone\<close>

lemma unknown_zone_throws:
  assumes "c \<noteq> Interval" and "se_zones se (take 80 (str_trim tz)) = None" and "str_trim tz \<noteq> []"
  shows "schedule_next_fire_ms se (Schedule c every time tz) now = Inl ''invalid_timer_timezone''"
proof -
  have "tz \<noteq> []" using assms(3) by (auto simp: str_trim_def)
  then show ?thesis
    using assms by (cases c) (simp_all add: schedule_next_fire_ms_def next_run_at_def cadence_str_def
        next_zoned_clock_run_at_def normalize_timer_timezone_def Let_def)
qed

text \<open>A schedule without a slot, of a job that stays registered.\<close>

definition unslotted :: "string \<Rightarrow> nat \<Rightarrow> (string \<times> string \<times> job_spec) \<Rightarrow> db \<Rightarrow> bool" where
  "unslotted job i x d \<longleftrightarrow> get_registered_job d job = Some x \<and> next_fire_at d job i = None"

lemma unknown_zone_triggers:
  assumes "k \<le> i" and "i - k < length ts" and "ts ! (i - k) = Schedule c every time tz" and "unslotted job i x d"
    and z: "c \<noteq> Interval" "se_zones se (take 80 (str_trim tz)) = None" "str_trim tz \<noteq> []"
  shows "\<exists>e d'. fire_triggers se now job k ts d = (Inl e, d') \<and> unslotted job i x d'"
  using assms(1-4)
proof (induction ts arbitrary: k d)
  case (Cons t ts)
  obtain a d1 where t: "fire_trigger se now job k t d = (a, d1)" by fastforce
  show ?case
  proof (cases "k = i")
    case True
    with Cons.prems t have "a = Inl ''invalid_timer_timezone''" "d1 = d"
      by (simp_all add: fire_trigger_def unslotted_def unknown_zone_throws [OF z])
    with t Cons.prems(4) show ?thesis by simp
  next
    case False
    with Cons.prems(1-3) have "Suc k \<le> i" "i - Suc k < length ts" "ts ! (i - Suc k) = Schedule c every time tz"
      by (auto simp: Suc_diff_le nth_Cons' le_eq_less_or_eq)
    moreover have d1: "unslotted job i x d1"
      using fire_trigger_keeps [OF t, where job = job] False Cons.prems(4) by (auto simp: unslotted_def)
    ultimately obtain e d2 where "fire_triggers se now job (Suc k) ts d1 = (Inl e, d2)" "unslotted job i x d2"
      using Cons.IH by blast
    with t d1 show ?thesis by (cases a) auto
  qed
qed simp

lemma unknown_zone_jobs:
  assumes "job \<in> set jobs" and "unslotted job i (h, source, spec) d"
    and "i < length (spec_triggers spec)" "spec_triggers spec ! i = Schedule c every time tz"
    and z: "c \<noteq> Interval" "se_zones se (take 80 (str_trim tz)) = None" "str_trim tz \<noteq> []"
  shows "\<exists>e d'. fire_jobs se now jobs d = (Inl e, d') \<and> unslotted job i (h, source, spec) d'"
  using assms(1,2)
proof (induction jobs arbitrary: d)
  case (Cons j jobs)
  obtain a d1 where t: "fire_triggers se now j 0 (registered_triggers d j) d = (a, d1)" by fastforce
  show ?case
  proof (cases "j = job")
    case True
    with Cons.prems have "registered_triggers d j = spec_triggers spec" by (simp add: registered_triggers_def unslotted_def)
    with True unknown_zone_triggers [of 0 i "spec_triggers spec" c every time tz job "(h, source, spec)" d se now] assms(3,4) Cons.prems(2) z t
    show ?thesis by auto
  next
    case False
    note keep = fire_triggers_keeps [OF t False]
    have d1: "unslotted job i (h, source, spec) d1"
      using keep Cons.prems(2) by (auto simp: unslotted_def)
    with Cons.IH [of d1] Cons.prems(1) False obtain e d2 where
      "fire_jobs se now jobs d1 = (Inl e, d2)" "unslotted job i (h, source, spec) d2" by auto
    with t d1 show ?thesis by (cases a) auto
  qed
qed simp

lemma unslotted_listed: "unslotted job i x d \<Longrightarrow> job \<in> set (map job_name (list_registered_jobs d))"
proof -
  assume "unslotted job i x d"
  then obtain j where "row_of job_name job (db_jobs d) = Some j"
    by (auto simp: unslotted_def get_registered_job_def split: option.splits)
  with row_of_Some_in [OF this] row_of_Some_key [OF this] show ?thesis by (auto simp: list_registered_jobs_def)
qed

lemma unknown_zone_tick:
  assumes "unslotted job i (h, source, spec) d"
    and "i < length (spec_triggers spec)" "spec_triggers spec ! i = Schedule c every time tz"
    and "c \<noteq> Interval" "se_zones se (take 80 (str_trim tz)) = None" "str_trim tz \<noteq> []"
  shows "\<exists>e d'. tick_work se now d = (Inl e, d') \<and> unslotted job i (h, source, spec) d'"
proof -
  from unknown_zone_jobs [OF unslotted_listed [OF assms(1)] assms]
  obtain e d' where "fire_due_schedules se now d = (Inl e, d')" "unslotted job i (h, source, spec) d'"
    unfolding fire_due_schedules_def by blast
  then show ?thesis by (auto simp: tick_work_def)
qed

text \<open>
  What happens to the store over the ticks of a server with these zones, at any instants: its own
  ticks, and in between any work that neither registers the job anew nor touches the slot of the
  schedule (no operation but a tick stores a slot).
\<close>

inductive ticked :: "(string \<Rightarrow> zone option) \<Rightarrow> string \<Rightarrow> nat \<Rightarrow> db \<Rightarrow> db \<Rightarrow> bool" for zones job i d where
  start: "ticked zones job i d d"
| tick: "ticked zones job i d d1 \<Longrightarrow> se_zones se = zones \<Longrightarrow> ticked zones job i d (snd (tick_work se now d1))"
| other: "ticked zones job i d d1 \<Longrightarrow> get_registered_job d2 job = get_registered_job d1 job
    \<Longrightarrow> next_fire_at d2 job i = next_fire_at d1 job i \<Longrightarrow> ticked zones job i d d2"

text \<open>
  C39: a registered job whose daily or weekly schedule names a time zone the platform does not know,
  and has no stored slot yet, stalls the scheduler for good: now and at every later tick, whatever
  else the server does and whatever other jobs and runs there are, the tick ends with an error
  before any due run is handed to the driver, and the schedule still has no slot.
\<close>

theorem unknown_zone_stalls_tick:
  assumes "get_registered_job d job = Some (h, source, spec)"
    and "i < length (spec_triggers spec)" "spec_triggers spec ! i = Schedule c every time tz" "next_fire_at d job i = None"
    and "c \<noteq> Interval" "zones (take 80 (str_trim tz)) = None" "str_trim tz \<noteq> []"
    and "ticked zones job i d d'" and "se_zones se = zones"
  shows "(\<exists>e. fst (tick_work se now d') = Inl e) \<and> next_fire_at (snd (tick_work se now d')) job i = None"
proof -
  have step: "\<exists>e d'. tick_work se now d = (Inl e, d') \<and> unslotted job i (h, source, spec) d'"
    if "unslotted job i (h, source, spec) d" "se_zones se = zones" for se now d
    using unknown_zone_tick [OF that(1) assms(2,3,5) _ assms(7)] assms(6) that(2) by simp
  from assms(8) have "unslotted job i (h, source, spec) d'"
  proof induction
    case start
    with assms(1,4) show ?case by (simp add: unslotted_def)
  next
    case (tick d1 se now)
    from step [OF tick.IH tick.hyps(2), of now] show ?case by auto
  qed (simp add: unslotted_def)
  from step [OF this assms(9), of now] show ?thesis by (auto simp: unslotted_def)
qed

text \<open>A registered job with a schedule, beside an active run of it.\<close>

definition sample_sched_env :: sched_env where
  "sample_sched_env = \<lparr>se_providers = sample_env\<lparr>pe_probe := (\<lambda>p. Some (ProbeSaid True True None))\<rparr>, se_hash = sample_hash, se_zones = [''UTC'' \<mapsto> \<lambda>_. 0],
     se_local = \<lparr>lz_offset = \<lambda>_. 0, lz_instant = id\<rparr>, se_random = (\<lambda>j k. ''s'')\<rparr>"

definition sample_scheduled :: "trigger \<Rightarrow> db" where
  "sample_scheduled t = snd (register_job_spec sample_hash 1 (sample_spec\<lparr>spec_triggers := [t]\<rparr>) ''jobs/nightly.yaml'' sample_db)"

lemma sample_scheduled_parts:
  "map job_name (db_jobs (sample_scheduled t)) = [''nightly'']" "db_schedule (sample_scheduled t) = []"
  "db_runs (sample_scheduled t) = [sample_run ''run_1'' Running]"
  "get_registered_job (sample_scheduled t) ''nightly'' = Some (spec_hash sample_hash (sample_spec\<lparr>spec_triggers := [t]\<rparr>), ''jobs/nightly.yaml'', sample_spec\<lparr>spec_triggers := [t]\<rparr>)"
  by (simp_all add: sample_scheduled_def register_job_spec_def pin_spec_def Let_def get_registered_job_def
      get_pinned_spec_def sample_db_def empty_db_def sample_spec_def)

lemma unknown_zone_stalls_tick_witness:
  "due_run_ids 5 (sample_scheduled (Schedule Daily None (Some ''09:00'') ''Mars/Base'')) = [''run_1'']
   \<and> (let d = sample_scheduled (Schedule Daily None (Some ''09:00'') ''Mars/Base'') in
       \<exists>e. fst (tick_work sample_sched_env 9 (snd (tick_work sample_sched_env 5 d))) = Inl e)"
  unfolding Let_def
proof
  let ?d = "sample_scheduled (Schedule Daily None (Some ''09:00'') ''Mars/Base'')"
  show "due_run_ids 5 ?d = [''run_1'']"
    by (simp add: due_run_ids_def sample_scheduled_parts) (simp add: sample_run_def run_due_def is_active_def active_run_states_def)
  have trim: "str_trim ''Mars/Base'' = ''Mars/Base''" by code_simp
  have "ticked (se_zones sample_sched_env) ''nightly'' 0 ?d (snd (tick_work sample_sched_env 5 ?d))"
    by (rule ticked.tick [OF ticked.start refl])
  from unknown_zone_stalls_tick [OF sample_scheduled_parts(4) _ _ _ _ _ _ this refl, of Daily None "Some ''09:00''" "''Mars/Base''" 9]
  show "\<exists>e. fst (tick_work sample_sched_env 9 (snd (tick_work sample_sched_env 5 ?d))) = Inl e"
    by (simp add: sample_scheduled_parts next_fire_at_def sample_sched_env_def trim)
qed

section \<open>One run per slot\<close>

lemma admit_slot_Some:
  "admit_slot se now job i slot d = (Some x, d') \<Longrightarrow>
     admit_run (se_providers se) (se_hash se) now [] (se_random se job i) (RegisteredJob job) (slot_event i slot) d = (Inr x, d')"
  by (auto simp: admit_slot_def split: prod.splits sum.splits if_splits)

text \<open>
  C37: a slot starts one run even when the server stops between admitting it and moving the schedule
  on: the next tick, whenever it comes and whatever random ids it draws, finds the same run, reports
  it as a duplicate, and only moves the schedule.
\<close>

theorem slot_fires_once:
  assumes "distinct (map run_key (db_runs d))" and "trigger_type t = ''schedule''" and "next_fire_at d job i = Some slot"
    and "admit_slot se now job i slot d = (Some (r, b), d')"
    and "slot \<le> now'" and "schedule_next_fire_ms se t now' = Inr n"
  shows "fire_trigger (se\<lparr>se_random := rnd'\<rparr>) now' job i t d' =
    (Inr [\<lparr>fd_job = job, fd_index = i, fd_slot = iso_string slot, fd_run = r, fd_deduplicated = True\<rparr>], update_fire job i n d')"
proof -
  note run = admit_slot_Some [OF assms(4)]
  obtain h source spec where reg: "get_registered_job d job = Some (h, source, spec)"
    using run by (cases "get_registered_job d job") (auto simp: admit_run_def source_spec_def)
  obtain t' label key where res: "resolve_trigger (se_hash se) [] spec (slot_event i slot) = Inr (t', label, key)"
      and ok: "st_runnable (agent_job_provider_status (se_providers se) (spec_agent spec))"
      and tx: "admit_tx (se_hash se) now (se_random se job i) spec t' label key (ev_body (slot_event i slot)) d = Inr ((r, b), d')"
    by (rule admit_run_registered [OF run reg])
  have "keeps_schedules job d d'" using admit_slot_keeps [of job d se now job i slot] assms(4) by simp
  then have reg': "get_registered_job d' job = Some (h, source, spec)" and "next_fire_at d' job i = Some slot"
    using reg assms(3) by (auto simp: keeps_schedules_def next_fire_at_def)
  have "admit_run (se_providers se) (se_hash se) now' [] (rnd' job i) (RegisteredJob job) (slot_event i slot) d' = (Inr (r, True), d')"
    using admit_run_resolved [OF reg' res ok, of now' "rnd' job i"] admit_tx_again [OF assms(1) tx refl] by (simp add: tx_def)
  then have "admit_slot (se\<lparr>se_random := rnd'\<rparr>) now' job i slot d' = (Some (r, True), d')"
    by (simp add: admit_slot_def)
  then show ?thesis
    using assms(2,5,6) \<open>next_fire_at d' job i = Some slot\<close>
    by (simp add: fire_trigger_def Let_def schedule_next_fire_ms_def)
qed

lemma slot_fires_once_witness:
  "\<exists>d' r. fire_trigger (sample_sched_env\<lparr>se_random := \<lambda>j k. ''other''\<rparr>) 90 ''nightly'' 0 (Schedule Interval (Some 60000) None ''UTC'') d'
     = (Inr [\<lparr>fd_job = ''nightly'', fd_index = 0, fd_slot = iso_string 7, fd_run = r, fd_deduplicated = True\<rparr>],
        update_fire ''nightly'' 0 60090 d') \<and> r \<in> set (map run_id (db_runs d'))"
proof -
  let ?t = "Schedule Interval (Some 60000) None ''UTC''"
  let ?spec = "sample_spec\<lparr>spec_triggers := [?t]\<rparr>"
  let ?d = "insert_fire ''nightly'' 0 7 (sample_scheduled ?t)"
  have runs: "db_runs ?d = [sample_run ''run_1'' Running]" by (simp add: insert_fire_def sample_scheduled_parts)
  then have keys: "distinct (map run_key (db_runs ?d))" by simp
  have fire: "next_fire_at ?d ''nightly'' 0 = Some 7"
    by (simp add: next_fire_at_def insert_fire_def sample_scheduled_parts)
  have run: "st_runnable (agent_job_provider_status (se_providers sample_sched_env) (spec_agent ?spec))"
    by (simp add: sample_sched_env_def agent_job_provider_status_def sample_spec_def sample_env_def probed_status_def)
  have "int_str 0 = ''0''" by code_simp
  then have "\<exists>key. resolve_trigger (se_hash sample_sched_env) [] ?spec (slot_event 0 7) = Inr (?t, ''schedule-0'', key)"
    by (simp add: resolve_trigger_def pick_trigger_def slot_event_def trigger_label_def Let_def nth_opt_def)
  then obtain key where res: "resolve_trigger (se_hash sample_sched_env) [] ?spec (slot_event 0 7) = Inr (?t, ''schedule-0'', key)" ..
  have "\<exists>d'. admit_tx sample_hash 5 ''s'' ?spec ?t ''schedule-0'' key JNull ?d = Inr ((''run_s'', False), d')"
    by (simp add: admit_tx_def admit_new_def Let_def split_beta insert_run_def run_key_for_def sample_hash_def runs
      sample_run_def get_run_def new_id_def fresh_run_def)
  then obtain d' where tx: "admit_tx sample_hash 5 ''s'' ?spec ?t ''schedule-0'' key JNull ?d = Inr ((''run_s'', False), d')" ..
  have reg: "get_registered_job ?d ''nightly'' = Some (spec_hash sample_hash ?spec, ''jobs/nightly.yaml'', ?spec)"
    by (simp add: sample_scheduled_parts)
  have slot: "admit_slot sample_sched_env 5 ''nightly'' 0 7 ?d = (Some (''run_s'', False), d')"
    using admit_run_resolved [OF reg res run, of 5 "''s''"] tx
    by (simp add: admit_slot_def sample_sched_env_def slot_event_def tx_def)
  have "interval_label (Some 60000) = ''1m''" by code_simp
  moreover have "parse_interval_ms ''1m'' = 60000" by code_simp
  ultimately have at: "schedule_next_fire_ms sample_sched_env ?t 90 = Inr 60090"
    by (simp add: schedule_next_fire_ms_def next_run_at_def cadence_str_def)
  have "''run_s'' \<in> set (map run_id (db_runs d'))"
    using admit_new_cases(4) [OF admit_tx_new [OF tx]] by (simp add: admitted_db_def fresh_run_def)
  then show ?thesis
    using slot_fires_once [OF keys _ fire slot _ at, of "\<lambda>j k. ''other''"] by (intro exI [of _ d'] exI [of _ "''run_s''"]) simp
qed

section \<open>Rows in the timer list\<close>

text \<open>
  The rows that schedules have in the timer list are views: every operation that would change
  one of them is refused as read-only, and principals that are not administrators see none.
\<close>

theorem schedule_rows_read_only:
  "list_all (\<lambda>x. assert_timer_writable (te_id x) = Inl (JobError ''agent_job_schedule_read_only'' 409))
     (list_schedule_timers_for admin enabled se now owner d)
   \<and> list_schedule_timers_for False enabled se now owner d = []"
proof -
  let ?ok = "\<lambda>x. starts_with ''agent-job:'' (te_id x)"
  have entry: "schedule_entry se now owner d job i t = Inr xs \<Longrightarrow> list_all ?ok xs" for job i t xs
    by (cases t) (auto simp: and_then_Inr_iff starts_with_iff)
  have job: "job_entries se now owner d job i ts = Inr xs \<Longrightarrow> list_all ?ok xs" for job i ts xs
    by (induction ts arbitrary: i xs) (auto simp: and_then_Inr_iff dest: entry)
  have "all_entries se now owner d jobs = Inr xs \<Longrightarrow> list_all ?ok xs" for jobs xs
    by (induction jobs arbitrary: xs) (auto simp: and_then_Inr_iff dest: job)
  then have "list_all ?ok (list_schedule_timers_for admin enabled se now owner d)"
    by (auto simp: list_schedule_timers_for_def list_agent_job_schedule_timers_def split: sum.split)
  then show ?thesis by (simp add: list_all_iff assert_timer_writable_def list_schedule_timers_for_def)
qed

end
