(* ===== verification/JobBroker.thy ===== *)
theory JobBroker
  imports JobTools JobNative
begin

text \<open>
  What every native executor of Agent Jobs shares: the interface (\<open>agent-job-native-interface.js\<close>)
  and the permission broker, which answers the hook of the provider's process before each of its tool
  calls (\<open>agent-job-permission-broker.js\<close>). The socket is the sequence of the chunks it delivers.
\<close>

section \<open>Tool names\<close>

definition slug_char :: "char \<Rightarrow> bool" where
  "slug_char c \<longleftrightarrow> lower_alnum c \<or> c = CHR ''_'' \<or> c = CHR ''-''"

text \<open>Each maximal run of other characters becomes one dash.\<close>

fun dashed :: "string \<Rightarrow> string" where
  "dashed [] = []"
| "dashed [c] = (if slug_char c then [c] else ''-'')"
| "dashed (c # d # s) =
     (if slug_char c then c # dashed (d # s)
      else if slug_char d then CHR ''-'' # dashed (d # s) else dashed (d # s))"

definition strip_dashes :: "string \<Rightarrow> string" where
  "strip_dashes s = rev (dropWhile (\<lambda>c. c = CHR ''-'') (rev (dropWhile (\<lambda>c. c = CHR ''-'') s)))"

definition slug :: "string \<Rightarrow> string" where
  "slug s = (let x = strip_dashes (dashed (to_lower s)) in if x = [] then ''unknown'' else x)"

text \<open>\<open>raw.split("__")\<close>, from the left.\<close>

fun split_underscores :: "string \<Rightarrow> string list" where
  "split_underscores [] = [[]]"
| "split_underscores [c] = [[c]]"
| "split_underscores (c # d # s) =
     (if c = CHR ''_'' \<and> d = CHR ''_'' then [] # split_underscores s
      else (case split_underscores (d # s) of [] \<Rightarrow> [[c]] | w # ws \<Rightarrow> (c # w) # ws))"

definition native_tool_name :: "string \<Rightarrow> string" where
  "native_tool_name raw =
     (if starts_with ''mcp__'' raw
      then (let ws = drop 1 (split_underscores raw); server = (case ws of [] \<Rightarrow> [] | w # _ \<Rightarrow> w) in
        ''mcp.'' @ slug server @ ''.'' @ slug (str_join ''__'' (drop 1 ws)))
      else ''claude.'' @ slug raw)"

section \<open>The broker\<close>

text \<open>What \<open>authorize\<close> comes to for one call: it throws with a message, or answers.\<close>

datatype broker_verdict = VerdictThrew string | VerdictSaid string string

record broker_call =
  bc_tool :: string
  bc_raw_tool :: string
  bc_args :: json
  bc_call_id :: string

record broker =
  br_decided :: "string \<Rightarrow> bool option"
  br_anonymous :: "(string \<times> bool) list"

definition empty_broker :: broker where
  "empty_broker = \<lparr>br_decided = (\<lambda>_. None), br_anonymous = []\<rparr>"

text \<open>The reply to the hook: whether the call is allowed, and the reason.\<close>

type_synonym broker_reply = "bool \<times> string"

definition broker_call_of :: "json \<Rightarrow> broker_call" where
  "broker_call_of request =
     (let raw = text_or (jget request ''tool_name'') [] in
      \<lparr>bc_tool = native_tool_name raw, bc_raw_tool = raw,
       bc_args = (case jget request ''tool_input'' of Some a \<Rightarrow> if is_obj_or_arr a then a else JObj [] | None \<Rightarrow> JObj []),
       bc_call_id = text_or (jget request ''tool_use_id'') []\<rparr>)"

definition broker_decision :: "broker_call \<Rightarrow> broker_verdict \<Rightarrow> broker_reply" where
  "broker_decision c v =
     (case v of
        VerdictThrew msg \<Rightarrow> (False, ''orkestr_permission_error: '' @ take 200 msg)
      | VerdictSaid decision reason \<Rightarrow>
          (let allowed = (decision = ''allow'') in
           (allowed, if reason \<noteq> [] then reason
             else if allowed then ''allowed by the Orkestr job policy''
             else bc_tool c @ '' is denied by the Orkestr job policy'')))"

definition record_decision :: "broker_call \<Rightarrow> bool \<Rightarrow> broker \<Rightarrow> broker" where
  "record_decision c allowed b =
     (if bc_call_id c \<noteq> [] then b\<lparr>br_decided := (br_decided b)(bc_call_id c \<mapsto> allowed)\<rparr>
      else b\<lparr>br_anonymous := br_anonymous b @ [(bc_raw_tool c, allowed)]\<rparr>)"

definition tokens_equal :: "string \<Rightarrow> string \<Rightarrow> bool" where
  "tokens_equal a b \<longleftrightarrow> length a = length b \<and> a = b"

text \<open>A request that is not JSON is \<open>null\<close>. \<open>String(token || "")\<close> is compared with the token.\<close>

definition broker_answer :: "string \<Rightarrow> (broker_call \<Rightarrow> broker_verdict) \<Rightarrow> json option \<Rightarrow> broker \<Rightarrow> broker_reply \<times> broker" where
  "broker_answer token authorize request b =
     (let r = or_null request in
      if \<not> tokens_equal (text_or (jget r ''token'') []) token then ((False, ''orkestr_permission_token_invalid''), b)
      else (let c = broker_call_of r; reply = broker_decision c (authorize c) in
        (reply, record_decision c (fst reply) b)))"

text \<open>\<open>decisionFor\<close>: a call without an id in the hook's input is matched by the name of its tool.\<close>

fun take_anonymous :: "string \<Rightarrow> (string \<times> bool) list \<Rightarrow> (bool \<times> (string \<times> bool) list) option" where
  "take_anonymous raw [] = None"
| "take_anonymous raw ((r, x) # es) =
     (if r = raw then Some (x, es)
      else (case take_anonymous raw es of None \<Rightarrow> None | Some (y, fs) \<Rightarrow> Some (y, (r, x) # fs)))"

definition decision_for :: "string \<Rightarrow> string \<Rightarrow> broker \<Rightarrow> bool option \<times> broker" where
  "decision_for call_id raw b =
     (case br_decided b call_id of
        Some x \<Rightarrow> (Some x, b)
      | None \<Rightarrow>
          (case take_anonymous raw (br_anonymous b) of
             None \<Rightarrow> (None, b)
           | Some (x, es) \<Rightarrow> (Some x, \<lparr>br_decided = (br_decided b)(call_id \<mapsto> x), br_anonymous = es\<rparr>)))"

section \<open>Reading a request from the socket\<close>

definition max_request_bytes :: nat where
  "max_request_bytes = 1048576"

record sock =
  sk_buffer :: string
  sk_handled :: bool

datatype sock_event = SockWait | SockTooLarge | SockRequest string

definition sock_data :: "nat \<Rightarrow> string \<Rightarrow> sock \<Rightarrow> sock_event \<times> sock" where
  "sock_data limit chunk s =
     (if sk_handled s then (SockWait, s)
      else (let buffer = sk_buffer s @ chunk in
        if limit < length buffer then (SockTooLarge, \<lparr>sk_buffer = buffer, sk_handled = True\<rparr>)
        else if CHR 0x0A \<notin> set buffer then (SockWait, \<lparr>sk_buffer = buffer, sk_handled = False\<rparr>)
        else (SockRequest (takeWhile (\<lambda>c. c \<noteq> CHR 0x0A) buffer), \<lparr>sk_buffer = buffer, sk_handled = True\<rparr>)))"

text \<open>What the connection comes to after some chunks.\<close>

fun sock_run :: "nat \<Rightarrow> string list \<Rightarrow> sock \<Rightarrow> sock_event list" where
  "sock_run limit [] s = []"
| "sock_run limit (chunk # chunks) s =
     (case sock_data limit chunk s of (ev, s1) \<Rightarrow> (if ev = SockWait then [] else [ev]) @ sock_run limit chunks s1)"

definition sock_reply ::
  "(string \<Rightarrow> json option) \<Rightarrow> string \<Rightarrow> (broker_call \<Rightarrow> broker_verdict) \<Rightarrow> sock_event \<Rightarrow> broker \<Rightarrow> broker_reply option \<times> broker" where
  "sock_reply parse token authorize ev b =
     (case ev of
        SockWait \<Rightarrow> (None, b)
      | SockTooLarge \<Rightarrow> (Some (False, ''orkestr_permission_request_too_large''), b)
      | SockRequest line \<Rightarrow> (case broker_answer token authorize (parse line) b of (r, b1) \<Rightarrow> (Some r, b1)))"

section \<open>The executor interface\<close>

definition native_executor_switch :: "string \<Rightarrow> string" where
  "native_executor_switch provider =
     (if provider = ''codex'' then ''ORKESTR_AGENT_JOB_CODEX_EXECUTOR''
      else if provider = ''claude-code'' then ''ORKESTR_AGENT_JOB_CLAUDE_CODE_EXECUTOR'' else [])"

definition executors_off_by_default :: "string list" where
  "executors_off_by_default = [''claude-code'']"

type_synonym environment = "string \<Rightarrow> string option"

definition env_text :: "environment \<Rightarrow> string \<Rightarrow> string" where
  "env_text env name = (if name = [] then [] else case env name of None \<Rightarrow> [] | Some v \<Rightarrow> v)"

definition native_executor_enabled :: "environment \<Rightarrow> string \<Rightarrow> bool" where
  "native_executor_enabled env provider =
     (let value = to_lower (str_trim (env_text env (native_executor_switch provider))) in
      if provider \<in> set executors_off_by_default then value \<in> set [''1'', ''true'', ''yes'', ''on'']
      else value \<notin> set [''0'', ''false'', ''no'', ''off''])"

text \<open>The class of a turn error, and the error of the attempt that the runner sees.\<close>

record turn_class =
  tc_class :: string
  tc_code :: string
  tc_retryable :: bool
  tc_retry_after :: "int option"
  tc_hint :: string

record native_error =
  ne_message :: string
  ne_code :: string
  ne_kind :: string
  ne_retryable :: bool
  ne_retry_after :: "int option"
  ne_class :: string
  ne_session :: string

definition native_attempt_error :: "turn_class \<Rightarrow> string \<Rightarrow> string \<Rightarrow> native_error" where
  "native_attempt_error c message session =
     (let cls = (if tc_class c = [] then ''permanent'' else tc_class c);
          code = (if tc_code c = [] then cls else tc_code c) in
      \<lparr>ne_message = (if message = [] then code else message), ne_code = code,
       ne_kind = (if cls = ''permanent'' then ''task'' else ''provider''),
       ne_retryable = tc_retryable c, ne_retry_after = tc_retry_after c, ne_class = cls, ne_session = session\<rparr>)"

definition native_timeout_error :: native_error where
  "native_timeout_error = \<lparr>ne_message = ''attempt_timeout'', ne_code = ''attempt_timeout'', ne_kind = ''timeout'',
     ne_retryable = True, ne_retry_after = None, ne_class = ''transient'', ne_session = []\<rparr>"

definition raised_native :: "native_error \<Rightarrow> raised" where
  "raised_native e = \<lparr>rz_kind = ne_kind e, rz_retryable = ne_retryable e, rz_message = ne_message e, rz_status = 0\<rparr>"

record executor_shape =
  xs_id :: string
  xs_job_executor :: string
  xs_has_run :: bool
  xs_has_probe :: bool
  xs_tool_loop :: string
  xs_resume :: string
  xs_permission_hook :: string
  xs_streaming :: bool
  xs_interrupt :: string

definition native_executor_problems :: "executor_shape \<Rightarrow> string list" where
  "native_executor_problems x =
     (if xs_id x = [] then [''id''] else [])
     @ (if xs_job_executor x = [] then [''jobExecutor''] else [])
     @ (if xs_has_run x then [] else [''run(ctx, input)''])
     @ (if xs_has_probe x then [] else [''probe(ctx)''])
     @ (if xs_tool_loop x \<noteq> ''native'' then [''capabilities.toolLoop native''] else [])
     @ (if xs_resume x \<noteq> ''session'' then [''capabilities.resume session''] else [])
     @ (if xs_permission_hook x \<noteq> ''pre_call'' then [''capabilities.permissionHook pre_call''] else [])
     @ (if xs_streaming x then [] else [''capabilities.streaming''])
     @ (if xs_interrupt x \<notin> set [''kill'', ''cooperative''] then [''capabilities.interrupt''] else [])
     @ (if native_executor_switch (xs_id x) = [] then [''env switch''] else [])"

definition approved_calls_text :: "string option \<Rightarrow> string" where
  "approved_calls_text calls =
     (case calls of None \<Rightarrow> [] | Some t \<Rightarrow>
        if t = [] then [] else
          ''A person approved these exact calls. If the action is still needed, make the same call again with the same arguments; do not get the same result through a different tool:''
          @ [CHR 0x0A] @ t)"

definition agent_reported_failure :: "string \<Rightarrow> string option" where
  "agent_reported_failure text =
     (let s = dropWhile is_space text in
      if starts_with ''TASK_FAILED:'' s
      then (let reason = take 500 (str_trim (drop 12 s)) in Some (if reason = [] then ''no reason given'' else reason))
      else None)"

definition agent_failure_error :: "string \<Rightarrow> string \<Rightarrow> native_error" where
  "agent_failure_error reason session = native_attempt_error
     \<lparr>tc_class = ''permanent'', tc_code = ''agent_reported_failure'', tc_retryable = False, tc_retry_after = None, tc_hint = []\<rparr>
     (''agent_reported_failure: '' @ reason) session"

section \<open>Fail closed\<close>

text \<open>What happens at a broker: the hook asks about a call, or the adapter looks a decision up.\<close>

datatype broker_event = HookAsks "json option" "broker_call \<Rightarrow> broker_verdict" | AdapterLooks string string

definition broker_event_step :: "string \<Rightarrow> broker_event \<Rightarrow> broker \<Rightarrow> broker" where
  "broker_event_step token ev b = (case ev of
     HookAsks r auth \<Rightarrow> snd (broker_answer token auth r b)
   | AdapterLooks i raw \<Rightarrow> snd (decision_for i raw b))"

definition broker_after :: "string \<Rightarrow> broker_event list \<Rightarrow> broker" where
  "broker_after token evs = fold (broker_event_step token) evs empty_broker"

text \<open>The event asked about a call with the token of the attempt, and the verdict was \<open>x\<close>.\<close>

definition decided_by :: "string \<Rightarrow> broker_event \<Rightarrow> broker_call \<Rightarrow> bool \<Rightarrow> bool" where
  "decided_by token ev c x \<longleftrightarrow> (\<exists>r auth. ev = HookAsks (Some r) auth \<and> text_or (jget r ''token'') [] = token
     \<and> c = broker_call_of r \<and> x = fst (broker_decision c (auth c)))"

definition backs_unnamed :: "string \<Rightarrow> broker_event list \<Rightarrow> string \<Rightarrow> bool \<Rightarrow> bool" where
  "backs_unnamed token evs raw x \<longleftrightarrow>
     (\<exists>ev \<in> set evs. \<exists>c. decided_by token ev c x \<and> bc_call_id c = [] \<and> bc_raw_tool c = raw)"

definition backs :: "string \<Rightarrow> broker_event list \<Rightarrow> string \<Rightarrow> bool \<Rightarrow> bool" where
  "backs token evs i x \<longleftrightarrow>
     (\<exists>ev \<in> set evs. \<exists>c. decided_by token ev c x \<and> bc_call_id c = i)
     \<or> (\<exists>raw. AdapterLooks i raw \<in> set evs \<and> backs_unnamed token evs raw x)"

definition broker_sound :: "string \<Rightarrow> broker_event list \<Rightarrow> broker \<Rightarrow> bool" where
  "broker_sound token evs b \<longleftrightarrow>
     (\<forall>i x. br_decided b i = Some x \<longrightarrow> backs token evs i x)
     \<and> (\<forall>raw x. (raw, x) \<in> set (br_anonymous b) \<longrightarrow> backs_unnamed token evs raw x)"

lemma backs_unnamed_later: "backs_unnamed token evs raw x \<Longrightarrow> backs_unnamed token (evs @ [ev]) raw x"
  by (auto simp: backs_unnamed_def)

lemma backs_later: "backs token evs i x \<Longrightarrow> backs token (evs @ [ev]) i x"
  using backs_unnamed_later by (fastforce simp: backs_def)

lemma take_anonymous_Some:
  assumes "take_anonymous raw es = Some (x, fs)"
  shows "(raw, x) \<in> set es \<and> set fs \<subseteq> set es"
  using assms
proof (induction es arbitrary: fs)
  case (Cons e es)
  then show ?case by (cases e) (auto split: if_splits option.splits)
qed simp

lemma broker_sound_later: "broker_sound token evs b \<Longrightarrow> broker_sound token (evs @ [ev]) b"
  by (simp add: broker_sound_def backs_later backs_unnamed_later)

lemma broker_step_sound:
  assumes "token \<noteq> []" and "broker_sound token evs b"
  shows "broker_sound token (evs @ [ev]) (broker_event_step token ev b)"
proof -
  have b: "broker_sound token (evs @ [ev]) b" by (rule broker_sound_later [OF assms(2)])
  show ?thesis
  proof (cases ev)
    case (HookAsks req auth)
    show ?thesis
    proof (cases "text_or (jget (or_null req) ''token'') [] = token")
      case False
      with b HookAsks show ?thesis by (simp add: broker_event_step_def broker_answer_def tokens_equal_def Let_def)
    next
      case True
      with assms(1) obtain r where r: "req = Some r" by (cases req) (auto simp: or_null_def text_or_def jget_def)
      let ?c = "broker_call_of r" and ?x = "fst (broker_decision (broker_call_of r) (auth (broker_call_of r)))"
      have by_ev: "decided_by token ev ?c ?x"
        using True r HookAsks by (auto simp: decided_by_def or_null_def)
      have step: "broker_event_step token ev b = record_decision ?c ?x b"
        using True r HookAsks by (simp add: broker_event_step_def broker_answer_def tokens_equal_def Let_def or_null_def)
      show ?thesis
      proof (cases "bc_call_id ?c = []")
        case True
        with by_ev have "backs_unnamed token (evs @ [ev]) (bc_raw_tool ?c) ?x" by (auto simp: backs_unnamed_def)
        with b True show ?thesis unfolding step by (simp add: broker_sound_def record_decision_def)
      next
        case False
        from by_ev have "backs token (evs @ [ev]) (bc_call_id ?c) ?x" by (auto simp: backs_def)
        with b False show ?thesis unfolding step by (simp add: broker_sound_def record_decision_def)
      qed
    qed
  next
    case (AdapterLooks i raw)
    show ?thesis
    proof (cases "br_decided b i")
      case (Some x)
      with b AdapterLooks show ?thesis by (simp add: broker_event_step_def decision_for_def)
    next
      case None
      show ?thesis
      proof (cases "take_anonymous raw (br_anonymous b)")
        case n: None
        with b AdapterLooks None show ?thesis by (simp add: broker_event_step_def decision_for_def)
      next
        case (Some y)
        then obtain x es where y: "take_anonymous raw (br_anonymous b) = Some (x, es)" by (cases y) auto
        note t = take_anonymous_Some [OF y]
        have step: "broker_event_step token ev b = \<lparr>br_decided = (br_decided b)(i \<mapsto> x), br_anonymous = es\<rparr>"
          using y None AdapterLooks by (simp add: broker_event_step_def decision_for_def)
        show ?thesis
        proof -
          have "backs_unnamed token (evs @ [ev]) raw x" using b t by (simp add: broker_sound_def)
          then have "backs token (evs @ [ev]) i x" using AdapterLooks by (auto simp: backs_def)
          with b t show ?thesis unfolding step by (auto simp: broker_sound_def)
        qed
      qed
    qed
  qed
qed

lemma broker_after_sound:
  assumes "token \<noteq> []"
  shows "broker_sound token evs (broker_after token evs)"
proof (induction evs rule: rev_induct)
  case Nil
  then show ?case by (simp add: broker_sound_def broker_after_def empty_broker_def)
next
  case (snoc ev evs)
  from broker_step_sound [OF assms this, of ev] show ?case by (simp add: broker_after_def)
qed

text \<open>
  A decision for an unnamed call is spent on one id: the ids that count as allowed although no
  request with the token named them are never more than the unnamed requests that were allowed.
\<close>

definition named_by :: "string \<Rightarrow> broker_event list \<Rightarrow> string \<Rightarrow> bool" where
  "named_by token evs i \<longleftrightarrow> (\<exists>ev \<in> set evs. \<exists>c x. decided_by token ev c x \<and> bc_call_id c = i)"

definition unnamed_allowed :: "string \<Rightarrow> broker_event \<Rightarrow> bool" where
  "unnamed_allowed token ev \<longleftrightarrow> (\<exists>c. decided_by token ev c True \<and> bc_call_id c = [])"

definition borrowed_ids :: "string \<Rightarrow> broker_event list \<Rightarrow> string set" where
  "borrowed_ids token evs = {i. br_decided (broker_after token evs) i = Some True \<and> i \<noteq> [] \<and> \<not> named_by token evs i}"

definition open_allowances :: "(string \<times> bool) list \<Rightarrow> nat" where
  "open_allowances es = length (filter snd es)"

lemma take_anonymous_allowances:
  "take_anonymous raw es = Some (x, fs) \<Longrightarrow> open_allowances es = (if x then 1 else 0) + open_allowances fs"
  by (induction es arbitrary: fs) (auto simp: open_allowances_def split: if_splits option.splits)

lemma named_by_more: "named_by token evs i \<Longrightarrow> named_by token (evs @ [ev]) i"
  by (auto simp: named_by_def)

lemma broker_after_snoc: "broker_after token (evs @ [ev]) = broker_event_step token ev (broker_after token evs)"
  by (simp add: broker_after_def)

lemma borrowed_bound:
  assumes "token \<noteq> []"
  shows "finite (borrowed_ids token evs) \<and> card (borrowed_ids token evs) + open_allowances (br_anonymous (broker_after token evs))
    \<le> length (filter (unnamed_allowed token) evs)"
proof (induction evs rule: rev_induct)
  case Nil
  then show ?case by (simp add: borrowed_ids_def broker_after_def empty_broker_def open_allowances_def)
next
  case (snoc ev evs)
  let ?b = "broker_after token evs" and ?d = "broker_after token (evs @ [ev])"
  let ?N = "length (filter (unnamed_allowed token) evs)" and ?M = "length (filter (unnamed_allowed token) (evs @ [ev]))"
  have step: "?d = broker_event_step token ev ?b" by (rule broker_after_snoc)
  have less: "?N \<le> ?M" by simp
  have keep: ?case if "borrowed_ids token (evs @ [ev]) \<subseteq> borrowed_ids token evs"
      and "open_allowances (br_anonymous ?d) + ?N \<le> open_allowances (br_anonymous ?b) + ?M"
  proof -
    have "finite (borrowed_ids token (evs @ [ev]))" "card (borrowed_ids token (evs @ [ev])) \<le> card (borrowed_ids token evs)"
      using snoc that(1) by (auto intro: finite_subset card_mono)
    with snoc that(2) show ?thesis by linarith
  qed
  have fewer: "borrowed_ids token (evs @ [ev]) \<subseteq> borrowed_ids token evs" if "br_decided ?d = br_decided ?b"
    using that named_by_more by (auto simp: borrowed_ids_def)
  show ?case
  proof (cases ev)
    case (HookAsks req auth)
    show ?thesis
    proof (cases "text_or (jget (or_null req) ''token'') [] = token")
      case False
      then have "?d = ?b" unfolding step by (simp add: HookAsks broker_event_step_def broker_answer_def tokens_equal_def Let_def)
      then show ?thesis using keep fewer less by simp
    next
      case True
      with assms obtain r where r: "req = Some r" by (cases req) (auto simp: or_null_def text_or_def jget_def)
      let ?c = "broker_call_of r" and ?x = "fst (broker_decision (broker_call_of r) (auth (broker_call_of r)))"
      have by_ev: "decided_by token ev ?c ?x" using True r HookAsks by (auto simp: decided_by_def or_null_def)
      have d: "?d = record_decision ?c ?x ?b"
        using True r HookAsks unfolding step by (simp add: broker_event_step_def broker_answer_def tokens_equal_def Let_def or_null_def)
      show ?thesis
      proof (cases "bc_call_id ?c = []")
        case unnamed: True
        have "unnamed_allowed token ev" if ?x using by_ev that unnamed unfolding unnamed_allowed_def by metis
        then have "open_allowances (br_anonymous ?d) + ?N \<le> open_allowances (br_anonymous ?b) + ?M"
          unfolding d by (simp add: unnamed record_decision_def open_allowances_def)
        moreover have "br_decided ?d = br_decided ?b" unfolding d by (simp add: unnamed record_decision_def)
        ultimately show ?thesis using keep fewer by blast
      next
        case False
        have "named_by token (evs @ [ev]) (bc_call_id ?c)" using by_ev by (auto simp: named_by_def)
        then have "borrowed_ids token (evs @ [ev]) \<subseteq> borrowed_ids token evs"
          using named_by_more False unfolding borrowed_ids_def d by (auto simp: record_decision_def split: if_splits)
        moreover have "br_anonymous ?d = br_anonymous ?b" unfolding d by (simp add: False record_decision_def)
        ultimately show ?thesis using keep less by simp
      qed
    qed
  next
    case (AdapterLooks i raw)
    show ?thesis
    proof (cases "br_decided ?b i = None \<and> take_anonymous raw (br_anonymous ?b) \<noteq> None")
      case False
      then have "?d = ?b"
        unfolding step by (auto simp: AdapterLooks broker_event_step_def decision_for_def split: option.split)
      then show ?thesis using keep fewer less by simp
    next
      case True
      then obtain x es where y: "br_decided ?b i = None" "take_anonymous raw (br_anonymous ?b) = Some (x, es)" by auto
      have d: "?d = \<lparr>br_decided = (br_decided ?b)(i \<mapsto> x), br_anonymous = es\<rparr>"
        unfolding step by (simp add: AdapterLooks broker_event_step_def decision_for_def y)
      have sub: "borrowed_ids token (evs @ [ev]) \<subseteq> (if x then insert i (borrowed_ids token evs) else borrowed_ids token evs)"
        using named_by_more y(1) unfolding borrowed_ids_def d by (auto split: if_splits)
      have "card (insert i (borrowed_ids token evs)) \<le> Suc (card (borrowed_ids token evs))"
        using snoc by (simp add: card_insert_if)
      with sub snoc have "finite (borrowed_ids token (evs @ [ev]))"
          "card (borrowed_ids token (evs @ [ev])) \<le> card (borrowed_ids token evs) + (if x then 1 else 0)"
        by (auto intro: finite_subset order_trans [OF card_mono] split: if_splits)
      moreover have "br_anonymous ?d = es" unfolding d by simp
      ultimately show ?thesis using snoc take_anonymous_allowances [OF y(2)] less by (simp split: if_splits)
    qed
  qed
qed

text \<open>
  C32: the broker fails closed. Whatever was asked and looked up before, in any order, a call with
  an id is reported as allowed only when a request with the token of the attempt named this call,
  or named no call at all, its tool being the one under which this id was looked up, and the job's
  authorization said allow to the request. An allowance for an unnamed call is spent on one id:
  the ids that count as allowed without a request that named them are at most as many as the
  unnamed requests that were allowed. (Results without an id share the empty id, see
  \<open>anonymous_decision_reused\<close>.)
\<close>

theorem broker_fails_closed:
  assumes "token \<noteq> []" and "i \<noteq> []" and "fst (decision_for i raw (broker_after token evs)) = Some True"
  shows "(\<exists>r auth reason. HookAsks (Some r) auth \<in> set evs \<and> text_or (jget r ''token'') [] = token
      \<and> auth (broker_call_of r) = VerdictSaid ''allow'' reason
      \<and> (bc_call_id (broker_call_of r) = i
         \<or> bc_call_id (broker_call_of r) = [] \<and> AdapterLooks i (bc_raw_tool (broker_call_of r)) \<in> set (evs @ [AdapterLooks i raw])))
    \<and> (named_by token evs i \<or> i \<in> borrowed_ids token (evs @ [AdapterLooks i raw]))
    \<and> finite (borrowed_ids token (evs @ [AdapterLooks i raw]))
    \<and> card (borrowed_ids token (evs @ [AdapterLooks i raw])) \<le> length (filter (unnamed_allowed token) evs)"
proof -
  let ?evs = "evs @ [AdapterLooks i raw]"
  have look: "\<not> unnamed_allowed token (AdapterLooks i raw)" and unnamed: "named_by token ?evs i \<longleftrightarrow> named_by token evs i"
    by (auto simp: unnamed_allowed_def named_by_def decided_by_def)
  have bound: "finite (borrowed_ids token ?evs)" "card (borrowed_ids token ?evs) \<le> length (filter (unnamed_allowed token) evs)"
    using borrowed_bound [OF assms(1), of ?evs] look by simp_all
  have "br_decided (broker_after token ?evs) i = Some True"
    using assms(3) unfolding broker_after_snoc by (auto simp: broker_event_step_def decision_for_def split: option.splits)
  with assms(2) unnamed have borrowed: "named_by token evs i \<or> i \<in> borrowed_ids token ?evs" by (simp add: borrowed_ids_def)
  note sound = broker_after_sound [OF assms(1), of evs]
  have "backs token (evs @ [AdapterLooks i raw]) i True"
  proof (cases "br_decided (broker_after token evs) i")
    case (Some x)
    with assms(3) sound show ?thesis by (simp add: decision_for_def broker_sound_def backs_later)
  next
    case None
    with assms(3) obtain es where "take_anonymous raw (br_anonymous (broker_after token evs)) = Some (True, es)"
      by (auto simp: decision_for_def split: option.splits)
    from take_anonymous_Some [OF this] sound have "backs_unnamed token evs raw True" by (simp add: broker_sound_def)
    from backs_unnamed_later [OF this] show ?thesis by (auto simp: backs_def)
  qed
  then obtain ev c where ev: "ev \<in> set (evs @ [AdapterLooks i raw])" "decided_by token ev c True"
      "bc_call_id c = i \<or> bc_call_id c = [] \<and> AdapterLooks i (bc_raw_tool c) \<in> set (evs @ [AdapterLooks i raw])"
    by (auto simp: backs_def backs_unnamed_def)
  then obtain r auth where r: "ev = HookAsks (Some r) auth" "text_or (jget r ''token'') [] = token"
      "c = broker_call_of r" "fst (broker_decision c (auth c))"
    by (auto simp: decided_by_def)
  from r(4) obtain reason where "auth c = VerdictSaid ''allow'' reason"
    by (auto simp: broker_decision_def Let_def split: broker_verdict.splits)
  with ev r have "\<exists>r auth reason. HookAsks (Some r) auth \<in> set evs \<and> text_or (jget r ''token'') [] = token
      \<and> auth (broker_call_of r) = VerdictSaid ''allow'' reason
      \<and> (bc_call_id (broker_call_of r) = i
         \<or> bc_call_id (broker_call_of r) = [] \<and> AdapterLooks i (bc_raw_tool (broker_call_of r)) \<in> set ?evs)"
    by (intro exI [of _ r] exI [of _ auth] exI [of _ reason]) simp
  with bound borrowed show ?thesis by blast
qed

definition sample_ask :: json where
  "sample_ask = JObj [(''token'', JStr ''t''), (''tool_name'', JStr ''Bash''), (''tool_input'', JObj [])]"

lemma broker_fails_closed_witness:
  "\<exists>r auth. HookAsks (Some r) auth \<in> set [HookAsks (Some sample_ask) (\<lambda>c. VerdictSaid ''allow'' [])] \<and> text_or (jget r ''token'') [] = ''t''"
proof -
  have "fst (decision_for ''id7'' ''Bash'' (broker_after ''t'' [HookAsks (Some sample_ask) (\<lambda>c. VerdictSaid ''allow'' [])])) = Some True"
    by (simp add: broker_after_def broker_event_step_def broker_answer_def sample_ask_def or_null_def jget_def text_or_def
      tokens_equal_def truthy_def broker_call_of_def Let_def record_decision_def broker_decision_def decision_for_def empty_broker_def)
  from broker_fails_closed [OF _ _ this] show ?thesis by auto
qed

text \<open>
  But the decision for a result without an id is kept under the empty id, so that after one
  unnamed call was allowed, every further result without an id counts as allowed, also that of a
  tool that never asked.
\<close>

theorem anonymous_decision_reused:
  "let b = broker_after ''t'' [HookAsks (Some sample_ask) (\<lambda>c. if bc_tool c = ''claude.bash'' then VerdictSaid ''allow'' [] else VerdictSaid ''deny'' [])]
   in fst (decision_for [] raw b) = (if raw = ''Bash'' then Some True else None)
      \<and> fst (decision_for [] raw (snd (decision_for [] ''Bash'' b))) = Some True"
proof -
  have "native_tool_name ''Bash'' = ''claude.bash''" by code_simp
  then show ?thesis
    by (simp add: broker_after_def broker_event_step_def broker_answer_def sample_ask_def or_null_def jget_def text_or_def
      tokens_equal_def truthy_def broker_call_of_def Let_def record_decision_def broker_decision_def decision_for_def empty_broker_def)
qed

section \<open>Chunks\<close>

lemma sock_run_handled: "sk_handled s \<Longrightarrow> sock_run limit chunks s = []"
  by (induction chunks) (simp_all add: sock_data_def)

lemma takeWhile_newline: "c \<in> set xs \<Longrightarrow> takeWhile (\<lambda>x. x \<noteq> c) (xs @ ys) = takeWhile (\<lambda>x. x \<noteq> c) xs"
  by (induction xs) auto

lemma sock_run_from:
  assumes "length (buf @ concat chunks) \<le> limit" and "CHR 0x0A \<notin> set buf"
  shows "sock_run limit chunks \<lparr>sk_buffer = buf, sk_handled = False\<rparr> =
    (if CHR 0x0A \<in> set (concat chunks) then [SockRequest (takeWhile (\<lambda>c. c \<noteq> CHR 0x0A) (buf @ concat chunks))] else [])"
  using assms
proof (induction chunks arbitrary: buf)
  case (Cons chunk chunks)
  have len: "\<not> limit < length (buf @ chunk)" using Cons.prems(1) by simp
  show ?case
  proof (cases "CHR 0x0A \<in> set chunk")
    case True
    then have "takeWhile (\<lambda>c. c \<noteq> CHR 0x0A) (buf @ concat (chunk # chunks)) = takeWhile (\<lambda>c. c \<noteq> CHR 0x0A) (buf @ chunk)"
      using takeWhile_newline [of "CHR 0x0A" "buf @ chunk" "concat chunks"] by simp
    with True len show ?thesis by (simp add: sock_data_def sock_run_handled Let_def)
  next
    case False
    with Cons.prems have nl: "CHR 0x0A \<notin> set (buf @ chunk)" and "length ((buf @ chunk) @ concat chunks) \<le> limit" by auto
    with Cons.IH [of "buf @ chunk"] len False show ?thesis by (simp add: sock_data_def Let_def)
  qed
qed simp

lemma sock_run_once: "length (sock_run limit chunks s) \<le> 1"
proof (induction chunks arbitrary: s)
  case (Cons chunk chunks)
  obtain ev s1 where e: "sock_data limit chunk s = (ev, s1)" by fastforce
  show ?case
  proof (cases "ev = SockWait")
    case False
    then have "sk_handled s1" using e by (auto simp: sock_data_def Let_def split: if_splits)
    with e show ?thesis by (simp add: sock_run_handled)
  qed (use Cons e in simp)
qed simp

text \<open>
  The broker answers a connection at most once, and what it reads does not depend on how the
  bytes are split into chunks: it is the first line of what was sent, when all of it fits in the limit.
\<close>

theorem socket_chunks_irrelevant:
  "length (sock_run limit chunks s) \<le> 1
   \<and> sock_run (length (concat chunks) + n) chunks \<lparr>sk_buffer = [], sk_handled = False\<rparr>
     = (if CHR 0x0A \<in> set (concat chunks) then [SockRequest (takeWhile (\<lambda>c. c \<noteq> CHR 0x0A) (concat chunks))] else [])"
  using sock_run_once sock_run_from [of "[]" chunks "length (concat chunks) + n"] by simp

section \<open>Names of native tools\<close>

lemma dashed_chars: "list_all slug_char (dashed s)"
  by (induction s rule: dashed.induct) (auto simp: slug_char_def)

lemma set_dropWhile: "set (dropWhile p s) \<subseteq> set s"
  by (induction s) auto

lemma slug_chars: "list_all slug_char (slug s)" and slug_nonempty: "slug s \<noteq> []"
proof -
  have "set (strip_dashes x) \<subseteq> set x" for x
    using set_dropWhile [of _ "rev (dropWhile _ x)"] set_dropWhile [of _ x] by (fastforce simp: strip_dashes_def)
  moreover have "list_all slug_char ''unknown''" by code_simp
  ultimately show "list_all slug_char (slug s)"
    using dashed_chars [of "to_lower s"] by (auto simp: slug_def Let_def list_all_iff)
qed (simp add: slug_def Let_def)

lemma slug_segment: "tool_segment (slug s)" and slug_no_dot: "CHR ''.'' \<notin> set (slug s)"
  using slug_chars [of s] slug_nonempty [of s]
  by (auto simp: tool_segment_def list_all_iff slug_char_def lower_alnum_def is_lower_def is_digit_def char_between_def)

lemma split_on_no: "c \<notin> set s \<Longrightarrow> split_on c s = [s]"
  by (induction s) auto

lemma split_on_sep: "c \<notin> set p \<Longrightarrow> split_on c (p @ c # s) = p # split_on c s"
  by (induction p) auto

text \<open>
  Every call of a native tool is decided under a name that the policy's patterns can match and
  that is never the name of a tool Orkestr runs itself, so that no rule meant for one allows the other.
\<close>

theorem native_names_apart:
  "tool_re (native_tool_name raw) \<and> agent_job_tools (native_tool_name raw) = None"
proof
  have claude: "split_on (CHR ''.'') (''claude.'' @ slug s) = [''claude'', slug s]" for s
    using split_on_sep [of "CHR ''.''" "''claude''" "slug s"] by (simp add: split_on_no slug_no_dot)
  have mcp: "split_on (CHR ''.'') (''mcp.'' @ slug s @ ''.'' @ slug t) = [''mcp'', slug s, slug t]" for s t
    using split_on_sep [of "CHR ''.''" "''mcp''" "slug s @ ''.'' @ slug t"] split_on_sep [of "CHR ''.''" "slug s" "slug t"]
    by (simp add: split_on_no slug_no_dot)
  have seg: "tool_segment ''claude''" "tool_segment ''mcp''" by code_simp+
  have "tool_re (''claude.'' @ slug s)" "tool_re (''mcp.'' @ slug s @ ''.'' @ slug t)" for s t
    unfolding tool_re_def claude mcp Let_def using seg by (simp_all add: slug_segment)
  then show "tool_re (native_tool_name raw)" unfolding native_tool_name_def Let_def by (simp only: if_split simp_thms)
  have "agent_job_tools (''claude.'' @ s) = None" "agent_job_tools (''mcp.'' @ s) = None" for s
    by (simp_all add: agent_job_tools_def registered_tools_def)
  then show "agent_job_tools (native_tool_name raw) = None"
    by (simp add: native_tool_name_def Let_def)
qed

end
