(* ===== verification/ClaudeJob.thy ===== *)
theory ClaudeJob
  imports JobBroker JobTriggers JobOutput
begin

text \<open>
  The Claude Code executor (\<open>agent-job-claude-code.js\<close>), with the hook it installs
  (\<open>agent-job-claude-permission-hook.js\<close>) and the classes of its failures
  (\<open>claude-code-client.js\<close>, \<open>runtime-turn-error-class.js\<close>). The process is the sequence of what it
  sends: hook requests, lines of output, the error stream; and its exit. A hook request is one step:
  the authorization it waits for is not interleaved with other input.
\<close>

section \<open>Classes of failures\<close>

definition js_dot :: "char \<Rightarrow> bool" where
  "js_dot c \<longleftrightarrow> c \<noteq> CHR 0x0A \<and> c \<noteq> CHR 0x0D"

definition word_char :: "char \<Rightarrow> bool" where
  "word_char c \<longleftrightarrow> alnum c \<or> c = CHR ''_''"

text \<open>The patterns \<open>a.?b\<close>, \<open>a.*b\<close> and \<open>\bw\b\<close> anywhere in a text.\<close>

fun has_gap :: "string \<Rightarrow> string \<Rightarrow> string \<Rightarrow> bool" where
  "has_gap a b [] = (a = [] \<and> b = [])"
| "has_gap a b (c # s) = ((let r = drop (length a) (c # s) in
       starts_with a (c # s) \<and> (starts_with b r \<or> (r \<noteq> [] \<and> js_dot (hd r) \<and> starts_with b (tl r))))
     \<or> has_gap a b s)"

fun has_far :: "string \<Rightarrow> string \<Rightarrow> string \<Rightarrow> bool" where
  "has_far a b [] = (a = [] \<and> b = [])"
| "has_far a b (c # s) = ((let r = drop (length a) (c # s) in
       starts_with a (c # s) \<and> (str_includes b (takeWhile js_dot r)))
     \<or> has_far a b s)"

fun has_word_after :: "bool \<Rightarrow> string \<Rightarrow> string \<Rightarrow> bool" where
  "has_word_after prev w [] = False"
| "has_word_after prev w (c # s) =
     ((\<not> prev \<and> starts_with w (c # s) \<and> (case drop (length w) (c # s) of [] \<Rightarrow> True | d # _ \<Rightarrow> \<not> word_char d))
      \<or> has_word_after (word_char c) w s)"

definition has_word :: "string \<Rightarrow> string \<Rightarrow> bool" where
  "has_word w s = has_word_after False w s"

definition classify_claude_code_failure :: "string \<Rightarrow> string" where
  "classify_claude_code_failure value =
     (let text = to_lower (str_trim value) in
      if has_gap ''rate'' ''limit'' text \<or> has_gap ''usage'' ''limit'' text \<or> str_includes ''quota'' text
         \<or> str_includes ''too many requests'' text \<or> has_word ''hit limit'' text \<or> has_word ''hit your limit'' text
         \<or> has_word ''429'' text
      then ''claude_code_rate_limited''
      else if str_includes ''auth'' text \<or> str_includes ''login'' text \<or> has_gap ''sign'' ''in'' text
         \<or> str_includes ''credential'' text \<or> str_includes ''unauthorized'' text \<or> str_includes ''unauthorised'' text
         \<or> str_includes ''forbidden'' text \<or> has_word ''401'' text \<or> has_word ''403'' text
      then ''claude_code_auth_required''
      else if has_gap ''time'' ''out'' text \<or> has_gap ''timed'' ''out'' text then ''claude_code_timeout''
      else if str_includes ''not found'' text \<or> str_includes ''enoent'' text then ''claude_code_cli_missing''
      else if has_far ''output'' ''limit'' text \<or> has_far ''too'' ''large'' text then ''claude_code_output_limit''
      else if str_includes ''interrupt'' text \<or> str_includes ''sigterm'' text \<or> str_includes ''sigkill'' text
         \<or> str_includes ''cancel'' text
      then ''claude_code_interrupted''
      else ''claude_code_failed'')"

definition turn_error_classes :: "string list" where
  "turn_error_classes = [''auth'', ''rate_limit'', ''transient'', ''permanent'']"

definition default_retry_after_ms :: "string \<Rightarrow> int option" where
  "default_retry_after_ms cls = (if cls = ''rate_limit'' then Some 60000 else if cls = ''transient'' then Some 5000 else None)"

definition turn_hint :: "string \<Rightarrow> string" where
  "turn_hint cls =
     (if cls = ''auth'' then ''re-authenticate the provider account, then retry''
      else if cls = ''rate_limit'' then ''provider rate limit or quota reached; retry after the backoff''
      else if cls = ''transient'' then ''temporary provider or network failure; safe to retry''
      else ''the request cannot succeed as sent; change the input before retrying'')"

definition turn_error_classification :: "string \<Rightarrow> string \<Rightarrow> int option \<Rightarrow> turn_class" where
  "turn_error_classification error_class code retry_after =
     (let cls = (if error_class \<in> set turn_error_classes then error_class else ''permanent'');
          retryable = (cls = ''rate_limit'' \<or> cls = ''transient'') in
      \<lparr>tc_class = cls, tc_code = (if str_trim code = [] then cls else str_trim code), tc_retryable = retryable,
       tc_retry_after = (if retryable then (case retry_after of None \<Rightarrow> default_retry_after_ms cls | Some n \<Rightarrow> Some n) else None),
       tc_hint = turn_hint cls\<rparr>)"

definition claude_code_class_by_code :: "string \<Rightarrow> string" where
  "claude_code_class_by_code code =
     (if code = ''claude_code_auth_required'' \<or> code = ''llm_account_profile_login_required'' then ''auth''
      else if code = ''claude_code_rate_limited'' then ''rate_limit''
      else if code = ''claude_code_timeout'' then ''transient'' else ''permanent'')"

definition classify_claude_code_failure_code :: "string \<Rightarrow> turn_class" where
  "classify_claude_code_failure_code code =
     (let normalized = str_trim code in
      turn_error_classification (claude_code_class_by_code normalized)
        (if normalized = [] then ''claude_code_failed'' else normalized) None)"

definition claude_job_error :: "string \<Rightarrow> string \<Rightarrow> native_error" where
  "claude_job_error code session =
     (let cls = (if code = ''claude_code_interrupted'' then turn_error_classification ''transient'' code None
                 else classify_claude_code_failure_code code);
          e = native_attempt_error cls code session in
      if code = ''claude_code_cli_missing'' \<or> code = ''claude_code_permission_hook_bypassed''
      then e\<lparr>ne_kind := ''provider''\<rparr> else e)"

section \<open>The command\<close>

text \<open>\<open>replaceAll\<close> of a quote by a closing quote, an escaped one and an opening one.\<close>

definition shell_quote :: "string \<Rightarrow> string" where
  "shell_quote s = [CHR 0x27] @ concat (map (\<lambda>c. if c = CHR 0x27 then [CHR 0x27, CHR 0x5C, CHR 0x27, CHR 0x27] else [c]) s) @ [CHR 0x27]"

definition hook_command :: "string \<Rightarrow> string \<Rightarrow> string" where
  "hook_command node script = shell_quote node @ '' '' @ shell_quote script"

definition claude_job_settings :: "string \<Rightarrow> json" where
  "claude_job_settings command = JObj [(''hooks'', JObj [(''PreToolUse'', JArr [JObj [(''matcher'', JStr ''*''),
     (''hooks'', JArr [JObj [(''type'', JStr ''command''), (''command'', JStr command), (''timeout'', JNum 3600)]])]])])]"

definition task_failed_instruction :: string where
  "task_failed_instruction = ''If you cannot complete the task, your whole final answer must be `TASK_FAILED: <short reason>` instead of a normal answer.''"

definition job_notice :: string where
  "job_notice = str_join [CHR 0x0A]
     [''You are running an Orkestr Agent Job attempt in a headless process; no person is watching this session.'',
      ''Every tool call is checked against the job'' @ [CHR 0x27] @ ''s tool policy before it runs. A blocked call is final for this attempt: do not try to work around it with other tools.'',
      ''When a call is blocked because it needs approval, stop and end your turn; Orkestr resumes this session after a person decides.'',
      ''Do not start background tasks. Finish with the final answer only.'',
      task_failed_instruction]"

definition claude_model_re :: "string \<Rightarrow> bool" where
  "claude_model_re s \<longleftrightarrow> s \<noteq> [] \<and> length s \<le> 120 \<and> list_all (\<lambda>c. alnum c \<or> c \<in> set ''._:-'') s"

record claude_input =
  ci_native :: native_input
  ci_session :: string
  ci_reason :: string

definition trimmed :: "string option \<Rightarrow> string" where
  "trimmed x = (case x of None \<Rightarrow> [] | Some s \<Rightarrow> str_trim s)"

definition claude_input_of :: "native_input \<Rightarrow> claude_input" where
  "claude_input_of ni = \<lparr>ci_native = ni,
     ci_session = trimmed (map_option ses_ref (nat_session ni)),
     ci_reason = (if nat_session ni = None then [] else str_trim (nat_resume_reason ni))\<rparr>"

definition claude_job_args :: "string \<Rightarrow> claude_input \<Rightarrow> string list" where
  "claude_job_args command inp =
     [''-p'', ''--output-format'', ''stream-json'', ''--verbose'', ''--permission-mode'', ''default'',
      ''--settings'', json_stringify (claude_job_settings command), ''--strict-mcp-config'',
      ''--append-system-prompt'', job_notice]
     @ (let model = trimmed (in_model (nat_input (ci_native inp))) in if claude_model_re model then [''--model'', model] else [])
     @ (if ci_session inp \<noteq> [] then [''--resume'', ci_session inp] else [])"

definition agent_job_claude_config_dir :: "environment \<Rightarrow> string" where
  "agent_job_claude_config_dir env =
     (let own = trimmed (env ''ORKESTR_AGENT_JOB_CLAUDE_CONFIG_DIR'') in
      if own \<noteq> [] then own else trimmed (env ''CLAUDE_CONFIG_DIR''))"

definition inherited_env :: "string list" where
  "inherited_env = [''PATH'', ''LANG'', ''LC_ALL'', ''LC_CTYPE'', ''TERM'', ''USER'', ''LOGNAME'', ''SHELL'', ''TMPDIR'',
     ''SSL_CERT_FILE'', ''SSL_CERT_DIR'', ''NODE_EXTRA_CA_CERTS'', ''CLAUDE_CONFIG_DIR'']"

text \<open>The environment of the child, later entries over earlier ones; \<open>source\<close> is the server's own environment under the job's.\<close>

definition child_env :: "string \<Rightarrow> environment \<Rightarrow> environment \<Rightarrow> string \<Rightarrow> string \<Rightarrow> environment" where
  "child_env homedir process env socket token =
     (let source = (process ++ env); dir = agent_job_claude_config_dir source in
      ([''HOME'' \<mapsto> (if trimmed (env ''HOME'') = [] then homedir else trimmed (env ''HOME''))]
       ++ (source |` set inherited_env)
       ++ (if dir = [] then Map.empty else [''CLAUDE_CONFIG_DIR'' \<mapsto> dir]))
      (''DISABLE_AUTOUPDATER'' \<mapsto> ''1'', ''CLAUDE_CODE_DISABLE_BACKGROUND_TASKS'' \<mapsto> ''1'',
       ''ORKESTR_AGENT_JOB_PERMISSION_SOCKET'' \<mapsto> socket, ''ORKESTR_AGENT_JOB_PERMISSION_TOKEN'' \<mapsto> token))"

section \<open>The prompt\<close>

text \<open>\<open>JSON.stringify(value, null, 2)\<close>.\<close>

definition newline_indent :: "nat \<Rightarrow> string" where
  "newline_indent n = CHR 0x0A # replicate (2 * n) (CHR 0x20)"

fun json_pretty :: "nat \<Rightarrow> json \<Rightarrow> string" where
  "json_pretty n (JArr xs) =
     (if xs = [] then ''[]''
      else ''['' @ newline_indent (Suc n) @ str_join ('','' @ newline_indent (Suc n)) (map (json_pretty (Suc n)) xs)
        @ newline_indent n @ '']'')"
| "json_pretty n (JObj kvs) =
     (if kvs = [] then ''{}''
      else ''{'' @ newline_indent (Suc n)
        @ str_join ('','' @ newline_indent (Suc n)) (map (\<lambda>kv. json_quote (fst kv) @ '': '' @ json_pretty (Suc n) (snd kv)) kvs)
        @ newline_indent n @ ''}'')"
| "json_pretty n v = json_stringify v"

text \<open>A part of a prompt that is there when its value is.\<close>

definition part :: "string \<Rightarrow> string option \<Rightarrow> string" where
  "part heading x = (case x of None \<Rightarrow> [] | Some s \<Rightarrow> if s = [] then [] else heading @ s)"

definition truthy_text :: "(json \<Rightarrow> string) \<Rightarrow> json \<Rightarrow> string option" where
  "truthy_text f v = (if truthy v then Some (f v) else None)"

definition inputs_text :: "json \<Rightarrow> string option" where
  "inputs_text v = (if jkeys v = [] then None else Some (json_pretty 0 v))"

definition nl :: string where
  "nl = [CHR 0x0A]"

definition claude_job_prompt :: "claude_input \<Rightarrow> string" where
  "claude_job_prompt inp =
     (let ni = ci_native inp; base = nat_input ni in
      if ci_session inp \<noteq> [] then
        str_trim (str_join nl
          [''Orkestr resumed this job ('' @ (if ci_reason inp = [] then ''new attempt'' else ci_reason inp) @ '').'',
           ''Continue the original task from where you stopped. If a tool call was blocked for approval, retry it only if it is still needed: Orkestr now applies the person'' @ [CHR 0x27] @ ''s decision.'',
           part nl (Some (approved_calls_text (nat_approved_calls ni))),
           part (nl @ ''Already committed effects:'' @ nl) (nat_resume_summary ni),
           part (nl @ ''End with only a JSON value matching this schema:'' @ nl) (truthy_text json_stringify (in_output_schema base))])
      else
        in_prompt base
        @ part (nl @ nl @ ''Resume context:'' @ nl) (nat_resume_summary ni)
        @ part (nl @ nl @ ''Inputs:'' @ nl) (inputs_text (in_inputs base))
        @ part (nl @ nl @ ''Trigger event:'' @ nl) (truthy_text (json_pretty 0) (in_trigger_event base))
        @ part (nl @ nl @ ''End with only a JSON value matching this schema:'' @ nl) (truthy_text json_stringify (in_output_schema base)))"

section \<open>The answer\<close>

fun take_before :: "string \<Rightarrow> string \<Rightarrow> string option" where
  "take_before mark [] = (if mark = [] then Some [] else None)"
| "take_before mark (c # s) =
     (if starts_with mark (c # s) then Some [] else map_option ((#) c) (take_before mark s))"

definition fence :: string where
  "fence = ''```''"

text \<open>
  After the opening of a fence: \<open>\s*\n\<close> takes as much white space as it can while what remains still
  has a closing fence on a line of its own.
\<close>

definition fence_body :: "string \<Rightarrow> string option" where
  "fence_body s =
     (let w = length (takeWhile is_space s) in
      first_some (map (\<lambda>k. if s ! k = CHR 0x0A then take_before (nl @ fence) (drop (Suc k) s) else None) (rev [0..<w])))"

definition fence_at :: "string \<Rightarrow> string option" where
  "fence_at s =
     (if \<not> starts_with fence s then None
      else (let r = drop 3 s in
        if to_lower (take 4 r) = ''json''
        then (case fence_body (drop 4 r) of None \<Rightarrow> fence_body r | Some b \<Rightarrow> Some b) else fence_body r))"

fun fenced :: "string \<Rightarrow> string option" where
  "fenced [] = None"
| "fenced (c # s) = (case fence_at (c # s) of Some b \<Rightarrow> Some b | None \<Rightarrow> fenced s)"

definition claude_job_output :: "(string \<Rightarrow> json option) \<Rightarrow> string \<Rightarrow> json \<Rightarrow> json" where
  "claude_job_output parse text schema =
     (let value = str_trim text; plain = JObj [(''text'', JStr value)] in
      if \<not> truthy schema then plain
      else (case (if value = [] then None else parse value) of
          Some v \<Rightarrow> v
        | None \<Rightarrow> (case fenced value of None \<Rightarrow> plain
            | Some body \<Rightarrow> if body = [] then plain else (case parse body of None \<Rightarrow> plain | Some v \<Rightarrow> v))))"

section \<open>Events of the process\<close>

definition js_or :: "json option \<Rightarrow> json option \<Rightarrow> json option" where
  "js_or a b = (case a of Some v \<Rightarrow> if truthy v then a else b | None \<Rightarrow> b)"

definition nullish_or :: "json option \<Rightarrow> json option \<Rightarrow> json option" where
  "nullish_or a b = (case a of None \<Rightarrow> b | Some v \<Rightarrow> if v = JNull then b else a)"

definition in_message :: "json \<Rightarrow> string \<Rightarrow> json option" where
  "in_message event k = (case jget event ''message'' of None \<Rightarrow> None | Some m \<Rightarrow> jget m k)"

definition event_type :: "json \<Rightarrow> string" where
  "event_type event = to_lower (clean (jget event ''type''))"

definition claude_code_event_session_id :: "json \<Rightarrow> string" where
  "claude_code_event_session_id event = clean (js_or (jget event ''session_id'') (js_or (jget event ''sessionId'')
     (js_or (in_message event ''session_id'') (in_message event ''sessionId''))))"

definition block_text :: "json \<Rightarrow> string" where
  "block_text b =
     (case b of JStr s \<Rightarrow> s
      | _ \<Rightarrow> if event_type b \<in> set [''text'', ''output_text''] then clean (js_or (jget b ''text'') (jget b ''content'')) else [])"

definition json_array :: "json option \<Rightarrow> json list option" where
  "json_array v = (case v of Some (JArr xs) \<Rightarrow> Some xs | _ \<Rightarrow> None)"

definition claude_code_event_text :: "json \<Rightarrow> string" where
  "claude_code_event_text event =
     (if event_type event = ''result'' then clean (js_or (jget event ''result'') (jget event ''text''))
      else if event_type event \<noteq> ''assistant'' then []
      else (let content = (case json_array (in_message event ''content'') of Some xs \<Rightarrow> xs
                | None \<Rightarrow> (case json_array (jget event ''content'') of Some xs \<Rightarrow> xs | None \<Rightarrow> [])) in
        str_trim (str_join nl (filter (\<lambda>t. t \<noteq> []) (map block_text content)))))"

definition content_blocks :: "json \<Rightarrow> json list" where
  "content_blocks event =
     (case json_array (nullish_or (in_message event ''content'') (jget event ''content'')) of
        None \<Rightarrow> [] | Some xs \<Rightarrow> filter is_obj_or_arr xs)"

text \<open>The pattern of a refusal before any hook, at the start of a text and anywhere in it.\<close>

definition rejection_at :: "string \<Rightarrow> bool" where
  "rejection_at s \<longleftrightarrow> starts_with ''<tool_use_error>'' s
     \<and> (let r = dropWhile is_space (drop 16 s) in
        list_ex (\<lambda>w. starts_with w r \<and> (case drop (length w) r of [] \<Rightarrow> True | c # _ \<Rightarrow> \<not> word_char c))
          [''InputValidationError'', ''Error: No such tool available''])"

fun pre_hook_rejection :: "string \<Rightarrow> bool" where
  "pre_hook_rejection [] = False"
| "pre_hook_rejection (c # s) = (rejection_at (c # s) \<or> pre_hook_rejection s)"

definition is_error_block :: "json \<Rightarrow> bool" where
  "is_error_block b \<longleftrightarrow> jget b ''is_error'' = Some (JBool True)"

definition rejected_before_hook :: "json \<Rightarrow> bool" where
  "rejected_before_hook b \<longleftrightarrow> is_error_block b
     \<and> pre_hook_rejection (case jget b ''content'' of
          Some (JStr s) \<Rightarrow> s
        | Some v \<Rightarrow> if v = JNull then json_stringify (JStr []) else json_stringify v
        | None \<Rightarrow> json_stringify (JStr []))"

section \<open>One attempt\<close>

datatype claude_stop =
    StopPark approval_row
  | StopExpired approval_row
  | StopCancelled
  | StopAborted string
  | StopBypass string
  | StopError string

record claude_state =
  cl_stop :: "claude_stop option"
  cl_tools :: "string \<Rightarrow> string option"
  cl_names :: "string \<Rightarrow> string option"
  cl_session :: string
  cl_announced :: bool
  cl_result :: string
  cl_last :: string
  cl_error :: string
  cl_stderr :: string
  cl_bytes :: nat
  cl_broker :: broker
  cl_events :: "native_event list"

definition claude_start :: "claude_input \<Rightarrow> claude_state" where
  "claude_start inp = \<lparr>cl_stop = None, cl_tools = Map.empty, cl_names = Map.empty, cl_session = ci_session inp,
     cl_announced = False, cl_result = [], cl_last = [], cl_error = [], cl_stderr = [], cl_bytes = 0,
     cl_broker = empty_broker, cl_events = []\<rparr>"

definition claude_emit :: "native_event \<Rightarrow> claude_state \<Rightarrow> claude_state" where
  "claude_emit ev st = st\<lparr>cl_events := cl_events st @ [ev]\<rparr>"

text \<open>The first reason to stop is the one that counts.\<close>

definition terminate :: "claude_stop \<Rightarrow> claude_state \<Rightarrow> claude_state" where
  "terminate reason st = (if cl_stop st = None then st\<lparr>cl_stop := Some reason\<rparr> else st)"

definition claude_authorize :: "broker_call \<Rightarrow> native_verdict \<Rightarrow> claude_state \<Rightarrow> broker_verdict \<times> claude_state" where
  "claude_authorize c verdict st =
     (if cl_stop st \<noteq> None then (VerdictSaid ''deny'' ''the Orkestr job attempt is stopping'', st)
      else (let st1 = claude_emit (ToolRequested (bc_tool c) (bc_call_id c))
                  (st\<lparr>cl_tools := (cl_tools st)(bc_call_id c \<mapsto> bc_tool c)\<rparr>) in
        case verdict of
          NativeAllow \<Rightarrow> (VerdictSaid ''allow'' [], st1)
        | NativePending a \<Rightarrow> (VerdictSaid ''deny'' (bc_tool c @ '' needs approval (Orkestr approval '' @ apr_id a
              @ ''); the job is paused until a person decides. Stop now.''), terminate (StopPark a) st1)
        | NativeExpired a \<Rightarrow> (VerdictSaid ''deny'' (''the approval for '' @ bc_tool c @ '' expired''), terminate (StopExpired a) st1)
        | NativeCancelled \<Rightarrow> (VerdictSaid ''deny'' ''the job run was cancelled'', terminate StopCancelled st1)
        | NativeDeny reason \<Rightarrow> (VerdictSaid ''deny'' (if reason = [] then bc_tool c @ '' is denied by the Orkestr job policy'' else reason), st1)))"

definition claude_hook :: "string \<Rightarrow> json option \<Rightarrow> (broker_call \<Rightarrow> native_verdict) \<Rightarrow> claude_state \<Rightarrow> broker_reply \<times> claude_state" where
  "claude_hook token request policy st =
     (let auth = (\<lambda>c. claude_authorize c (policy c) st);
          (reply, b) = broker_answer token (\<lambda>c. fst (auth c)) request (cl_broker st);
          st1 = (if tokens_equal (text_or (jget (or_null request) ''token'') []) token
                 then snd (auth (broker_call_of (or_null request))) else st) in
      (reply, st1\<lparr>cl_broker := b\<rparr>))"

definition announce :: "string \<Rightarrow> claude_state \<Rightarrow> claude_state" where
  "announce resumed st =
     (if cl_session st \<noteq> [] \<and> \<not> cl_announced st
      then claude_emit (SessionStarted (cl_session st) (cl_session st = resumed)) (st\<lparr>cl_announced := True\<rparr>) else st)"

text \<open>Counts in a usage report are numbers.\<close>

definition count_of :: "json option \<Rightarrow> int" where
  "count_of v = (case v of Some (JNum n) \<Rightarrow> n | _ \<Rightarrow> 0)"

definition on_result :: "json \<Rightarrow> claude_state \<Rightarrow> claude_state" where
  "on_result event st =
     (let text = claude_code_event_text event;
          st1 = (if text = [] then st else st\<lparr>cl_result := text\<rparr>);
          failed = jget event ''is_error'' = Some (JBool True) \<or> jget event ''isError'' = Some (JBool True);
          reason = clean (js_or (jget event ''error'') (jget event ''result''));
          st2 = (if failed then st1\<lparr>cl_error := (if reason = [] then ''claude_code_failed'' else reason)\<rparr> else st1);
          usage = (case jget event ''usage'' of Some u \<Rightarrow> if truthy u then u else JObj [] | None \<Rightarrow> JObj []) in
      if jget usage ''input_tokens'' \<noteq> None \<or> jget usage ''output_tokens'' \<noteq> None
      then claude_emit (Usage (count_of (jget usage ''input_tokens'')) (count_of (jget usage ''output_tokens''))
             (or_null (jget event ''total_cost_usd''))) st2
      else st2)"

definition note_tool_use :: "json \<Rightarrow> claude_state \<Rightarrow> claude_state" where
  "note_tool_use b st =
     (if clean (jget b ''type'') = ''tool_use'' \<and> truthy (or_null (jget b ''id''))
      then st\<lparr>cl_names := (cl_names st)(clean (jget b ''id'') \<mapsto> clean (jget b ''name''))\<rparr> else st)"

definition on_assistant :: "json \<Rightarrow> claude_state \<Rightarrow> claude_state" where
  "on_assistant event st =
     (let st1 = fold note_tool_use (content_blocks event) st; text = claude_code_event_text event in
      if text = [] then st1 else claude_emit (MessageCompleted text) (st1\<lparr>cl_last := text\<rparr>))"

definition name_or_empty :: "string option \<Rightarrow> string" where
  "name_or_empty x = (case x of None \<Rightarrow> [] | Some s \<Rightarrow> s)"

text \<open>The results of tools in one event; one that never passed the hook ends the attempt.\<close>

fun on_tool_results :: "json list \<Rightarrow> claude_state \<Rightarrow> claude_state" where
  "on_tool_results [] st = st"
| "on_tool_results (b # bs) st =
     (if clean (jget b ''type'') \<noteq> ''tool_result'' then on_tool_results bs st
      else (let i = clean (jget b ''tool_use_id'');
                (decision, br) = decision_for i (name_or_empty (cl_names st i)) (cl_broker st);
                st1 = st\<lparr>cl_broker := br\<rparr>;
                tool = (case cl_tools st i of Some t \<Rightarrow> if t = [] then native_tool_name (name_or_empty (cl_names st i)) else t
                        | None \<Rightarrow> native_tool_name (name_or_empty (cl_names st i))) in
        if decision = None \<and> \<not> rejected_before_hook b
        then terminate (StopBypass (if i = [] then ''unknown_call'' else i)) st1
        else on_tool_results bs (claude_emit (ToolCompleted tool i (decision = Some True \<and> \<not> is_error_block b)) st1)))"

definition handle_event :: "string \<Rightarrow> json \<Rightarrow> claude_state \<Rightarrow> claude_state" where
  "handle_event resumed event st =
     (let observed = claude_code_event_session_id event;
          st1 = announce resumed (if observed = [] then st else st\<lparr>cl_session := observed\<rparr>);
          kind = event_type event in
      if kind = ''result'' then on_result event st1
      else if kind = ''assistant'' then on_assistant event st1
      else if kind = ''user'' then on_tool_results (content_blocks event) st1
      else st1)"

definition max_output_bytes :: nat where
  "max_output_bytes = 33554432"

definition claude_line :: "(string \<Rightarrow> json option) \<Rightarrow> string \<Rightarrow> string \<Rightarrow> claude_state \<Rightarrow> claude_state" where
  "claude_line parse resumed line st0 =
     (let st = st0\<lparr>cl_bytes := cl_bytes st0 + length line + 1\<rparr> in
      if max_output_bytes < cl_bytes st then terminate (StopError ''claude_code_output_limit'') st
      else (case parse line of None \<Rightarrow> st | Some event \<Rightarrow> if is_obj_or_arr event then handle_event resumed event st else st))"

datatype claude_event =
    ClaudeHook "json option" "broker_call \<Rightarrow> native_verdict"
  | ClaudeLine string
  | ClaudeStderr string
  | ClaudeAbort string

definition last_bytes :: "nat \<Rightarrow> string \<Rightarrow> string" where
  "last_bytes n s = drop (length s - n) s"

definition on_abort :: "string \<Rightarrow> claude_state \<Rightarrow> claude_state" where
  "on_abort reason = terminate (if reason = ''cancelled'' then StopCancelled
     else StopAborted (if reason = [] then ''aborted'' else reason))"

definition claude_step :: "(string \<Rightarrow> json option) \<Rightarrow> string \<Rightarrow> string \<Rightarrow> claude_event \<Rightarrow> claude_state \<Rightarrow> claude_state" where
  "claude_step parse token resumed ev st = (case ev of
     ClaudeHook request policy \<Rightarrow> snd (claude_hook token request policy st)
   | ClaudeLine line \<Rightarrow> claude_line parse resumed line st
   | ClaudeStderr chunk \<Rightarrow> st\<lparr>cl_stderr := last_bytes 8192 (cl_stderr st @ chunk)\<rparr>
   | ClaudeAbort reason \<Rightarrow> on_abort reason st)"

text \<open>How the process ended: it could not be spawned, or it closed with a code or a signal.\<close>

datatype claude_end = SpawnFailed bool string | Closed "nat option" string

definition close_code :: "nat option \<Rightarrow> string \<Rightarrow> string" where
  "close_code code signal = ''exit_'' @ (case code of None \<Rightarrow> ''null'' | Some n \<Rightarrow> nat_str n) @ ''_'' @ signal"

definition claude_outcome ::
  "(string \<Rightarrow> json option) \<Rightarrow> json \<Rightarrow> claude_end \<Rightarrow> claude_state \<Rightarrow> (native_error, native_result) result" where
  "claude_outcome parse schema e st =
     (case e of
        SpawnFailed missing msg \<Rightarrow> Inl (claude_job_error (if missing then ''claude_code_cli_missing'' else classify_claude_code_failure msg) [])
      | Closed code signal \<Rightarrow>
          (case cl_stop st of
             Some (StopPark a) \<Rightarrow> Inr (NativePark a)
           | Some (StopExpired a) \<Rightarrow> Inr (NativeExpire a)
           | Some StopCancelled \<Rightarrow> Inr NativeGaveUp
           | Some (StopAborted reason) \<Rightarrow> if reason = ''timeout'' then Inl native_timeout_error else Inr NativeGaveUp
           | Some (StopBypass i) \<Rightarrow> Inl (claude_job_error ''claude_code_permission_hook_bypassed'' (cl_session st))
           | Some (StopError reason) \<Rightarrow> Inl (claude_job_error reason (cl_session st))
           | None \<Rightarrow>
               if cl_error st \<noteq> [] then Inl (claude_job_error (classify_claude_code_failure (cl_error st)) (cl_session st))
               else if code \<noteq> Some 0
               then Inl (claude_job_error (classify_claude_code_failure
                      (if cl_stderr st = [] then close_code code signal else cl_stderr st)) (cl_session st))
               else if cl_session st = [] then Inl (claude_job_error ''claude_code_session_missing'' [])
               else (let text = (if cl_result st = [] then cl_last st else cl_result st) in
                 case agent_reported_failure text of
                   Some reason \<Rightarrow> Inl (agent_failure_error reason (cl_session st))
                 | None \<Rightarrow> Inr (NativeFinal (claude_job_output parse text schema)))))"

definition claude_code_shape :: executor_shape where
  "claude_code_shape = \<lparr>xs_id = ''claude-code'', xs_job_executor = ''claude-code-cli'', xs_has_run = True, xs_has_probe = True,
     xs_tool_loop = ''native'', xs_resume = ''session'', xs_permission_hook = ''pre_call'', xs_streaming = True, xs_interrupt = ''kill''\<rparr>"

section \<open>The hook process\<close>

text \<open>
  The exit code of the hook and what it prints: 2 blocks the call. The event on its input and the
  broker's reply are \<open>None\<close> when they could not be read; \<open>in_time\<close> says that the timer did not fire.
\<close>

definition max_hook_input :: nat where
  "max_hook_input = 1048576"

definition hook_request :: "string \<Rightarrow> json \<Rightarrow> json" where
  "hook_request token event = JObj ((''token'', JStr token)
     # concat (map (\<lambda>k. case jget event k of None \<Rightarrow> [] | Some v \<Rightarrow> [(k, v)]) [''tool_name'', ''tool_input'', ''tool_use_id'']))"

definition permission_hook ::
  "(string \<Rightarrow> json option) \<Rightarrow> string \<Rightarrow> string \<Rightarrow> string \<Rightarrow> (json \<Rightarrow> json option) \<Rightarrow> bool \<Rightarrow> nat \<times> json option" where
  "permission_hook parse socket token stdin ask in_time =
     (if \<not> in_time \<or> socket = [] \<or> token = [] \<or> max_hook_input < length stdin then (2, None)
      else (case parse stdin of
          None \<Rightarrow> (2, None)
        | Some event \<Rightarrow>
            if event = JNull then (2, None)
            else (case ask (hook_request token event) of
                None \<Rightarrow> (2, None)
              | Some reply \<Rightarrow>
                  (let allowed = (jget reply ''decision'' = Some (JStr ''allow'')) in
                   (if allowed then 0 else 2,
                    Some (JObj [(''hookSpecificOutput'', JObj [(''hookEventName'', JStr ''PreToolUse''),
                      (''permissionDecision'', JStr (if allowed then ''allow'' else ''deny'')),
                      (''permissionDecisionReason'', JStr (take 1000 (text_or (jget reply ''reason'') [])))])]))))))"

section \<open>The command line of the hook\<close>

text \<open>How a POSIX shell splits a command into words: single quotes, escapes and spaces.\<close>

definition push_char :: "char \<Rightarrow> string list option \<Rightarrow> string list option" where
  "push_char c = map_option (\<lambda>ws. (c # hd ws) # tl ws)"

fun sh_words :: "bool \<Rightarrow> string \<Rightarrow> string list option" where
  "sh_words quoted [] = (if quoted then None else Some [[]])"
| "sh_words True (c # s) = (if c = CHR 0x27 then sh_words False s else push_char c (sh_words True s))"
| "sh_words False [c] = (if c = CHR 0x27 \<or> c = CHR 0x5C then None
     else if c = CHR 0x20 then Some [[], []] else Some [[c]])"
| "sh_words False (c # d # s) =
     (if c = CHR 0x27 then sh_words True (d # s)
      else if c = CHR 0x5C then push_char d (sh_words False s)
      else if c = CHR 0x20 then map_option ((#) []) (sh_words False (d # s))
      else push_char c (sh_words False (d # s)))"

lemma sh_words_nonempty: "sh_words q s = Some ws \<Longrightarrow> ws \<noteq> []"
  by (induction q s arbitrary: ws rule: sh_words.induct) (auto simp: push_char_def split: if_splits)

lemma sh_words_open: "s \<noteq> [] \<Longrightarrow> sh_words False (CHR 0x27 # s) = sh_words True s"
  by (cases s) simp_all

definition quoted_body :: "string \<Rightarrow> string" where
  "quoted_body s = concat (map (\<lambda>c. if c = CHR 0x27 then [CHR 0x27, CHR 0x5C, CHR 0x27, CHR 0x27] else [c]) s)"

lemma sh_words_quoted:
  assumes "sh_words False r = Some ws"
  shows "sh_words True (quoted_body s @ CHR 0x27 # r) = Some ((s @ hd ws) # tl ws)"
proof (induction s)
  case Nil
  then show ?case using assms sh_words_nonempty [OF assms] by (simp add: quoted_body_def)
next
  case (Cons c s)
  have "sh_words False (CHR 0x27 # quoted_body s @ CHR 0x27 # r) = sh_words True (quoted_body s @ CHR 0x27 # r)"
    by (rule sh_words_open) simp
  then show ?case using Cons by (simp add: quoted_body_def push_char_def)
qed

lemma sh_words_shell_quote:
  assumes "sh_words False r = Some ws"
  shows "sh_words False (shell_quote s @ r) = Some ((s @ hd ws) # tl ws)"
proof -
  have "shell_quote s @ r = CHR 0x27 # quoted_body s @ CHR 0x27 # r" by (simp add: shell_quote_def quoted_body_def)
  then show ?thesis using sh_words_quoted [OF assms] sh_words_open [of "quoted_body s @ CHR 0x27 # r"] by simp
qed

text \<open>
  Whatever characters the paths of the interpreter and of the hook script have, the shell splits
  the command of the hook into exactly these two words.
\<close>

theorem hook_command_words: "sh_words False (hook_command node script) = Some [node, script]"
proof -
  have "sh_words False (shell_quote script @ []) = Some [script]" using sh_words_shell_quote [of "[]" "[[]]" script] by simp
  moreover have "shell_quote script \<noteq> []" by (simp add: shell_quote_def)
  ultimately have "sh_words False (CHR 0x20 # shell_quote script) = Some [[], script]"
    by (cases "shell_quote script") simp_all
  from sh_words_shell_quote [OF this, of node] show ?thesis by (simp add: hook_command_def)
qed

section \<open>The first reason to stop counts\<close>

lemma stop_kept:
  "cl_stop (claude_emit ev st) = cl_stop st"
  "cl_stop (announce r st) = cl_stop st"
  "cl_stop (on_result e st) = cl_stop st"
  "cl_stop (note_tool_use b st) = cl_stop st"
  by (simp_all add: claude_emit_def announce_def on_result_def note_tool_use_def Let_def)

lemma stop_kept_fold: "cl_stop (fold note_tool_use bs st) = cl_stop st"
  by (induction bs arbitrary: st) (simp_all add: stop_kept)

lemma stop_kept_assistant: "cl_stop (on_assistant e st) = cl_stop st"
  by (simp add: on_assistant_def Let_def stop_kept stop_kept_fold)

lemma terminate_kept: "cl_stop st = Some s \<Longrightarrow> cl_stop (terminate r st) = Some s"
  by (simp add: terminate_def)

lemma on_tool_results_kept: "cl_stop st = Some s \<Longrightarrow> cl_stop (on_tool_results bs st) = Some s"
  by (induction bs arbitrary: st) (auto simp: Let_def terminate_def stop_kept split: prod.split)

lemma handle_event_kept: "cl_stop st = Some s \<Longrightarrow> cl_stop (handle_event r e st) = Some s"
  by (simp add: handle_event_def Let_def stop_kept stop_kept_assistant on_tool_results_kept)

lemma stopped_hook:
  assumes "cl_stop st = Some s"
  shows "\<not> fst (fst (claude_hook token req policy st))" and "cl_stop (snd (claude_hook token req policy st)) = Some s"
proof -
  have auth: "claude_authorize c v st = (VerdictSaid ''deny'' ''the Orkestr job attempt is stopping'', st)" for c v
    using assms by (simp add: claude_authorize_def)
  show "\<not> fst (fst (claude_hook token req policy st))" and "cl_stop (snd (claude_hook token req policy st)) = Some s"
    using assms by (auto simp: claude_hook_def auth broker_answer_def broker_decision_def Let_def)
qed

lemma claude_step_kept: "cl_stop st = Some s \<Longrightarrow> cl_stop (claude_step parse token r ev st) = Some s"
  by (cases ev) (auto simp: claude_step_def stopped_hook claude_line_def Let_def terminate_def on_abort_def handle_event_kept
      split: option.split)

lemma claude_steps_kept: "cl_stop st = Some s \<Longrightarrow> cl_stop (fold (claude_step parse token r) evs st) = Some s"
  by (induction evs arbitrary: st) (simp_all add: claude_step_kept)

text \<open>
  C33: a call that needs an approval pauses the attempt for good: it is blocked, every call after it
  is blocked, and whatever the process prints, however it ends and even when it is cancelled
  meanwhile, the attempt parks on that approval and never reports an answer.
\<close>

theorem claude_pause_is_final:
  assumes "cl_stop st = None" and "text_or (jget request ''token'') [] = token"
    and "policy (broker_call_of request) = NativePending a"
    and "claude_hook token (Some request) policy st = (reply, st1)" and "st2 = fold (claude_step parse token resumed) evs st1"
  shows "\<not> fst reply \<and> \<not> fst (fst (claude_hook token req' policy' st2))
    \<and> claude_outcome parse schema (Closed code signal) st2 = Inr (NativePark a)"
proof -
  have "\<not> fst reply \<and> cl_stop st1 = Some (StopPark a)"
    using assms(1-4)
    by (auto simp: claude_hook_def claude_authorize_def broker_answer_def broker_decision_def tokens_equal_def or_null_def
        terminate_def claude_emit_def Let_def)
  moreover from this have "cl_stop st2 = Some (StopPark a)" using claude_steps_kept assms(5) by blast
  ultimately show ?thesis using stopped_hook [of st2] by (simp add: claude_outcome_def)
qed

definition sample_claude :: claude_input where
  "sample_claude = \<lparr>ci_native = \<lparr>nat_input = \<lparr>in_prompt = ''Review'', in_inputs = JObj [], in_trigger_event = JNull,
       in_output_schema = JNull, in_model = None, in_base_url = None, in_tools = \<lparr>allow_tools = [], deny_tools = [], approval_tools = []\<rparr>\<rparr>,
     nat_resume_summary = None, nat_approved_calls = None, nat_session = None, nat_resume_reason = []\<rparr>, ci_session = [], ci_reason = []\<rparr>"

lemma claude_pause_is_final_witness:
  "claude_outcome (\<lambda>s. None) JNull (Closed (Some 0) [])
     (fold (claude_step (\<lambda>s. None) ''t'' []) [ClaudeAbort ''cancelled'', ClaudeHook (Some sample_ask) (\<lambda>c. NativeAllow)]
       (snd (claude_hook ''t'' (Some sample_ask) (\<lambda>c. NativePending sample_grant) (claude_start sample_claude))))
   = Inr (NativePark sample_grant)"
proof -
  have "text_or (jget sample_ask ''token'') [] = ''t''" by code_simp
  moreover have "cl_stop (claude_start sample_claude) = None" by (simp add: claude_start_def)
  ultimately show ?thesis
    using claude_pause_is_final [OF _ _ _ surjective_pairing refl, of "claude_start sample_claude" sample_ask "''t''" "\<lambda>c. NativePending sample_grant" sample_grant]
    by blast
qed

text \<open>
  A tool result for a call that never passed the hook fails the attempt: unless it stopped before,
  it ends with an error of the provider, which is not retried on it, and never with an answer.
\<close>

theorem claude_bypass_fails:
  assumes "cl_stop st = None" and "cl_bytes st + length line < max_output_bytes"
    and "parse line = Some event" "event_type event = ''user''" "content_blocks event = b # bs"
    and "clean (jget b ''type'') = ''tool_result''" "\<not> rejected_before_hook b"
    and "fst (decision_for (clean (jget b ''tool_use_id'')) (name_or_empty (cl_names st (clean (jget b ''tool_use_id'')))) (cl_broker st)) = None"
  shows "\<exists>session. claude_outcome parse schema (Closed code signal)
      (fold (claude_step parse token resumed) evs (claude_line parse resumed line st))
    = Inl \<lparr>ne_message = ''claude_code_permission_hook_bypassed'', ne_code = ''claude_code_permission_hook_bypassed'',
        ne_kind = ''provider'', ne_retryable = False, ne_retry_after = None, ne_class = ''permanent'', ne_session = session\<rparr>"
proof -
  let ?i = "clean (jget b ''tool_use_id'')"
  have keep: "cl_names (announce r x) = cl_names x" "cl_broker (announce r x) = cl_broker x" for r x
    by (simp_all add: announce_def claude_emit_def)
  have obj: "is_obj_or_arr event" using assms(4) by (cases event) (auto simp: is_obj_or_arr_def event_type_def clean_def jget_def str_trim_def to_lower_def)
  have "cl_stop (on_tool_results (b # bs) x) = Some (StopBypass (if ?i = [] then ''unknown_call'' else ?i))"
    if "cl_stop x = None" "cl_names x = cl_names st" "cl_broker x = cl_broker st" for x
    using that assms(6-8) by (auto simp: Let_def terminate_def split: prod.split)
  then have "cl_stop (claude_line parse resumed line st) = Some (StopBypass (if ?i = [] then ''unknown_call'' else ?i))"
    using assms(1-5) obj by (simp add: claude_line_def handle_event_def Let_def stop_kept keep)
  note claude_steps_kept [OF this, of parse token resumed evs]
  moreover have "claude_job_error ''claude_code_permission_hook_bypassed'' s
      = \<lparr>ne_message = ''claude_code_permission_hook_bypassed'', ne_code = ''claude_code_permission_hook_bypassed'',
        ne_kind = ''provider'', ne_retryable = False, ne_retry_after = None, ne_class = ''permanent'', ne_session = s\<rparr>" for s
  proof -
    have "str_trim ''claude_code_permission_hook_bypassed'' = ''claude_code_permission_hook_bypassed''" by code_simp
    then show ?thesis
      by (simp add: claude_job_error_def classify_claude_code_failure_code_def turn_error_classification_def
        claude_code_class_by_code_def turn_error_classes_def native_attempt_error_def Let_def)
  qed
  ultimately show ?thesis by (simp add: claude_outcome_def)
qed

definition sample_result_event :: json where
  "sample_result_event = JObj [(''type'', JStr ''user''), (''message'', JObj [(''content'',
     JArr [JObj [(''type'', JStr ''tool_result''), (''tool_use_id'', JStr ''id7''), (''content'', JStr ''done'')]])])]"

lemma claude_bypass_fails_witness:
  "\<exists>session. claude_outcome (\<lambda>s. Some sample_result_event) JNull (Closed (Some 0) [])
      (claude_line (\<lambda>s. Some sample_result_event) [] ''x'' (claude_start sample_claude))
    = Inl \<lparr>ne_message = ''claude_code_permission_hook_bypassed'', ne_code = ''claude_code_permission_hook_bypassed'',
        ne_kind = ''provider'', ne_retryable = False, ne_retry_after = None, ne_class = ''permanent'', ne_session = session\<rparr>"
proof -
  let ?b = "JObj [(''type'', JStr ''tool_result''), (''tool_use_id'', JStr ''id7''), (''content'', JStr ''done'')]"
  have "event_type sample_result_event = ''user''" "content_blocks sample_result_event = [?b]"
    "clean (jget ?b ''type'') = ''tool_result''" "\<not> rejected_before_hook ?b" by code_simp+
  from claude_bypass_fails [OF _ _ _ this(1,2,3,4), where st = "claude_start sample_claude" and line = "''x''" and evs = "[]"]
  show ?thesis by (simp add: claude_start_def max_output_bytes_def decision_for_def empty_broker_def)
qed

end
