(* ===== verification/WhatsAppTriggers.thy ===== *)
theory WhatsAppTriggers
  imports JobScheduler
begin

text \<open>
  WhatsApp messages as triggers of agent jobs (\<open>whatsapp-job-triggers.js\<close>): which message starts a
  run, which one answers an approval, and which is refused and audited. With it the comparable form
  of a participant (\<open>whatsapp-participant-identity.js\<close>) and the test for a group chat
  (\<open>whatsapp-inbound-routing.js\<close>). The binding registry, the regular expression of a trigger and the
  random ids are arguments; one dispatch runs at one instant.
\<close>

section \<open>Participants and chats\<close>

text \<open>The part of an address before a fixed suffix: \<open>[^@]+\<close> and the suffix, and nothing else.\<close>

definition address_part :: "string \<Rightarrow> string \<Rightarrow> string option" where
  "address_part suffix raw =
     (let p = take (length raw - length suffix) raw
      in if ends_with suffix raw \<and> p \<noteq> [] \<and> CHR ''@'' \<notin> set p then Some p else None)"

definition phone_digits :: "string \<Rightarrow> string" where
  "phone_digits raw =
     (let compact = filter (\<lambda>c. \<not> is_space c \<and> c \<notin> set ''().+-'') raw
      in if 5 \<le> length compact \<and> list_all is_digit compact then compact else [])"

record participant_alias =
  pa_kind :: string
  pa_value :: string
  pa_canonical :: string

definition canonical_whatsapp_participant_alias :: "string \<Rightarrow> string \<Rightarrow> participant_alias option" where
  "canonical_whatsapp_participant_alias val explicit_kind =
     (let low = to_lower (str_trim val);
          raw = (if starts_with ''whatsapp:'' low then drop 9 low else low);
          explicit = map (\<lambda>c. if c = CHR ''_'' then CHR ''-'' else c) (to_lower (str_trim explicit_kind));
          lid = address_part ''@lid'' raw;
          jid = (case address_part ''@c.us'' raw of Some p \<Rightarrow> Some p | None \<Rightarrow> address_part ''@s.whatsapp.net'' raw);
          digits = phone_digits raw;
          kind = (if explicit \<noteq> [] then explicit else if lid \<noteq> None then ''lid'' else if jid \<noteq> None then ''jid''
            else if digits \<noteq> [] then ''phone'' else ''opaque'')
      in if raw = [] then None
      else if kind = ''lid'' \<or> lid \<noteq> None then Some
        \<lparr>pa_kind = ''lid'', pa_value = raw, pa_canonical = ''lid:'' @ (case lid of Some p \<Rightarrow> p @ ''@lid'' | None \<Rightarrow> raw)\<rparr>
      else (let address = (case jid of
                Some p \<Rightarrow> if 5 \<le> length p \<and> list_all is_digit p then p else digits
              | None \<Rightarrow> digits)
        in if address \<noteq> [] then Some
          \<lparr>pa_kind = (if kind = ''phone'' then ''phone'' else ''jid''), pa_value = raw, pa_canonical = ''phone:'' @ address\<rparr>
        else Some \<lparr>pa_kind = kind, pa_value = raw, pa_canonical = kind @ '':'' @ raw\<rparr>))"

definition comparable_participant_id :: "string \<Rightarrow> string" where
  "comparable_participant_id val =
     (case canonical_whatsapp_participant_alias val [] of None \<Rightarrow> [] | Some a \<Rightarrow> pa_canonical a)"

definition is_whatsapp_group_chat_id :: "string \<Rightarrow> bool" where
  "is_whatsapp_group_chat_id val \<longleftrightarrow> ends_with ''@g.us'' (to_lower (str_trim val))"

section \<open>The trigger event of a message\<close>

text \<open>\<open>value ?? fallback\<close>, and the first value whose text is not blank.\<close>

definition nullish :: "json option \<Rightarrow> bool" where
  "nullish x \<longleftrightarrow> x = None \<or> x = Some JNull"

definition text_of :: "json option \<Rightarrow> string" where
  "text_of x = (case x of None \<Rightarrow> [] | Some v \<Rightarrow> if v = JNull then [] else js_string v)"

fun pick_text :: "json option list \<Rightarrow> string" where
  "pick_text [] = []"
| "pick_text (v # vs) = (if str_trim (text_of v) \<noteq> [] then str_trim (text_of v) else pick_text vs)"

record wa_quoted =
  wq_message :: "string option"
  wq_sender :: "string option"
  wq_text :: string

record wa_event =
  we_message :: string
  we_chat :: string
  we_account :: string
  we_sender :: string
  we_text :: string
  we_quoted :: "wa_quoted option"
  we_received :: string

definition text_or_body :: "json \<Rightarrow> string" where
  "text_or_body v =
     (if nullish (json_member v ''text'') then text_of (json_member v ''body'') else text_of (json_member v ''text''))"

definition or_none :: "string \<Rightarrow> string option" where
  "or_none s = (if s = [] then None else Some s)"

definition quoted_message :: "json \<Rightarrow> wa_quoted option" where
  "quoted_message input =
     (case json_member input ''quoted'' of
        Some q \<Rightarrow> if is_obj_or_arr q then Some
            \<lparr>wq_message = or_none (pick_text [json_member q ''messageId'', json_member q ''id'']),
             wq_sender = or_none (pick_text [json_member q ''from'', json_member q ''author'', json_member q ''sender'']),
             wq_text = text_or_body q\<rparr>
          else None
      | None \<Rightarrow> None)"

definition whatsapp_trigger_event :: "int \<Rightarrow> json \<Rightarrow> wa_event" where
  "whatsapp_trigger_event now input =
     (let m = json_member input;
          received = pick_text [m ''timestamp'', m ''receivedAt'']
      in \<lparr>we_message = pick_text [m ''eventId'', m ''id'', m ''messageId''],
          we_chat = pick_text [m ''chatId'', (case m ''chat'' of None \<Rightarrow> None | Some c \<Rightarrow> json_member c ''id'')],
          we_account = pick_text [m ''accountId''],
          we_sender = pick_text [m ''author'', m ''from'', m ''sender''],
          we_text = text_or_body input,
          we_quoted = quoted_message input,
          we_received = (if received = [] then iso_string now else received)\<rparr>)"

definition wa_event_json :: "wa_event \<Rightarrow> json" where
  "wa_event_json e = JObj
     [(''source'', JStr ''whatsapp''), (''messageId'', JStr (we_message e)), (''chatId'', JStr (we_chat e)),
      (''accountId'', JStr (we_account e)), (''sender'', JStr (we_sender e)), (''text'', JStr (we_text e)),
      (''quoted'', (case we_quoted e of None \<Rightarrow> JNull | Some q \<Rightarrow> JObj
         [(''messageId'', jstr_opt (wq_message q)), (''sender'', jstr_opt (wq_sender q)), (''text'', JStr (wq_text q))])),
      (''receivedAt'', JStr (we_received e))]"

section \<open>The triggers of the registered jobs\<close>

type_synonym wa_trigger = "string \<times> nat \<times> trigger"

definition wa_job_triggers :: "db \<Rightarrow> string \<Rightarrow> wa_trigger list" where
  "wa_job_triggers d job =
     map (Pair job) (filter (\<lambda>(i, t). trigger_type t = ''whatsapp'') (enumerate 0 (registered_triggers d job)))"

definition whatsapp_triggers :: "db \<Rightarrow> wa_trigger list" where
  "whatsapp_triggers d = concat (map (wa_job_triggers d) (map job_name (list_registered_jobs d)))"

fun trigger_group :: "trigger \<Rightarrow> string" where
  "trigger_group (WhatsApp g senders m) = g"
| "trigger_group _ = []"

fun trigger_senders :: "trigger \<Rightarrow> string list" where
  "trigger_senders (WhatsApp g senders m) = senders"
| "trigger_senders _ = []"

fun trigger_match :: "trigger \<Rightarrow> string option" where
  "trigger_match (WhatsApp g senders m) = m"
| "trigger_match _ = None"

text \<open>
  \<open>wa_bindings\<close> is the list of binding ids with their chats, empty when the registry cannot be read;
  \<open>wa_pattern p t\<close> tells whether the pattern \<open>p\<close>, without regard to case, occurs in \<open>t\<close>, and is
  \<open>None\<close> when \<open>new RegExp\<close> throws.
\<close>

record wa_env =
  wa_providers :: provider_env
  wa_hash :: "string \<Rightarrow> string"
  wa_bindings :: "(string \<times> string) list"
  wa_pattern :: "string \<Rightarrow> string \<Rightarrow> bool option"
  wa_random :: "string \<Rightarrow> nat \<Rightarrow> string"

definition group_chat_id :: "(string \<times> string) list \<Rightarrow> string \<Rightarrow> string" where
  "group_chat_id bindings g =
     (if \<not> starts_with ''binding:'' g then g
      else (case map_of bindings (drop 8 g) of
          Some chat \<Rightarrow> if chat \<noteq> [] \<and> is_whatsapp_group_chat_id chat then chat else []
        | None \<Rightarrow> []))"

definition sender_allowed :: "trigger \<Rightarrow> string \<Rightarrow> bool" where
  "sender_allowed t sender \<longleftrightarrow>
     sender \<noteq> [] \<and> list_ex (\<lambda>x. comparable_participant_id x = sender) (trigger_senders t)"

definition in_group :: "wa_env \<Rightarrow> string \<Rightarrow> wa_trigger \<Rightarrow> bool" where
  "in_group env chat x \<longleftrightarrow> group_chat_id (wa_bindings env) (trigger_group (snd (snd x))) = chat"

definition wa_audit ::
  "int \<Rightarrow> wa_event \<Rightarrow> string option \<Rightarrow> string option \<Rightarrow> string \<Rightarrow> string option \<Rightarrow> string option \<Rightarrow> db \<Rightarrow> db" where
  "wa_audit now e sender job outcome reason run = record_trigger_audit now
     ((trigger_note job ''whatsapp'' outcome reason (Some (we_message e)))
        \<lparr>ta_sender := sender, ta_chat := Some (we_chat e), ta_run := run\<rparr>)"

section \<open>Answers to approvals\<close>

definition approval_char :: "char \<Rightarrow> bool" where
  "approval_char c \<longleftrightarrow> is_lower c \<or> is_upper c \<or> is_digit c \<or> c = CHR ''_'' \<or> c = CHR ''-''"

text \<open>
  The expression of an answer: \<open>approve\<close> or \<open>deny\<close> in any case, white space, and an approval id whose
  4 to 64 characters end where the run of such characters ends. The result is whether it approves,
  and the id as it was written.
\<close>

definition answer_verb :: "string \<Rightarrow> (bool \<times> string) option" where
  "answer_verb s =
     (if to_lower (take 7 s) = ''approve'' then Some (True, drop 7 s)
      else if to_lower (take 4 s) = ''deny'' then Some (False, drop 4 s) else None)"

definition approval_answer :: "string \<Rightarrow> (bool \<times> string) option" where
  "approval_answer s =
     (case answer_verb (dropWhile is_space s) of
        None \<Rightarrow> None
      | Some (yes, rest) \<Rightarrow>
          (let token = dropWhile is_space rest; tail = takeWhile approval_char (drop 4 token)
           in if rest \<noteq> token \<and> to_lower (take 4 token) = ''apr_'' \<and> 4 \<le> length tail \<and> length tail \<le> 64
              then Some (yes, take 4 token @ tail) else None))"

datatype wa_outcome =
    WaSkipped string
  | WaNotAGroup "string list"
  | WaNotDecided string
  | WaDecided string string
  | WaDispatched "(string \<times> string \<times> bool) list" "(string \<times> string) list"

definition answer_allowed :: "wa_env \<Rightarrow> string \<Rightarrow> string \<Rightarrow> run_row option \<Rightarrow> wa_trigger list \<Rightarrow> bool" where
  "answer_allowed env chat sender run triggers \<longleftrightarrow>
     (case run of None \<Rightarrow> False
      | Some r \<Rightarrow> list_ex (\<lambda>x. fst x = run_job r \<and> in_group env chat x \<and> sender_allowed (snd (snd x)) sender) triggers)"

definition handle_approval_reply ::
  "wa_env \<Rightarrow> int \<Rightarrow> wa_event \<Rightarrow> string \<Rightarrow> bool \<times> string \<Rightarrow> wa_trigger list \<Rightarrow> db \<Rightarrow> wa_outcome \<times> db" where
  "handle_approval_reply env now e sender answer triggers d =
     (let approval = get_approval d (snd answer);
          run = (case approval of None \<Rightarrow> None | Some a \<Rightarrow> get_run d (apr_run a));
          decision = (if fst answer then ''approved'' else ''denied'')
      in if \<not> answer_allowed env (we_chat e) sender run triggers
         then (WaNotDecided ''approval_sender_not_allowed'',
           wa_audit now e (Some sender) (map_option run_job run) ''rejected'' (Some ''approval_sender_not_allowed'') None d)
         else (case approval of
             None \<Rightarrow> (WaNotDecided ''approval_failed'', d)
           | Some a \<Rightarrow>
               (case decide_approval now (apr_id a) decision (''whatsapp:'' @ sender) (''whatsapp message '' @ we_message e) d of
                  (Inl err, d1) \<Rightarrow> (WaNotDecided (error_code err), d1)
                | (Inr row, d1) \<Rightarrow> (WaDecided decision (apr_id a), d1))))"

section \<open>Starting runs\<close>

definition message_event :: "nat \<Rightarrow> wa_event \<Rightarrow> trigger_event" where
  "message_event i e = \<lparr>ev_type = ''whatsapp'', ev_name = [], ev_index = Some (int i),
     ev_dedupe = we_message e, ev_body = wa_event_json e\<rparr>"

definition pattern_test :: "wa_env \<Rightarrow> trigger \<Rightarrow> string \<Rightarrow> bool option" where
  "pattern_test env t s =
     (case trigger_match t of None \<Rightarrow> Some True | Some p \<Rightarrow> if p = [] then Some True else wa_pattern env p s)"

datatype offered = Offered string string bool | Rejected string string | NoMatch

definition offer_trigger ::
  "wa_env \<Rightarrow> int \<Rightarrow> wa_event \<Rightarrow> string \<Rightarrow> wa_trigger \<Rightarrow> db \<Rightarrow> (string, offered) result \<times> db" where
  "offer_trigger env now e sender x d =
     (case x of (job, i, t) \<Rightarrow>
       let note = wa_audit now e (or_none sender) (Some job) in
       if \<not> sender_allowed t sender
       then (Inr (Rejected job ''sender_not_allowed''), note ''rejected'' (Some ''sender_not_allowed'') None d)
       else (case pattern_test env t (we_text e) of
           None \<Rightarrow> (Inl ''SyntaxError'', d)
         | Some False \<Rightarrow> (Inr NoMatch, note ''ignored'' (Some ''no_match'') None d)
         | Some True \<Rightarrow>
             (case admit_run (wa_providers env) (wa_hash env) now [] (wa_random env job i) (RegisteredJob job) (message_event i e) d of
                (Inr (r, dup), d1) \<Rightarrow> (Inr (Offered job r dup), if dup then d1 else note ''accepted'' None (Some r) d1)
              | (Inl err, d1) \<Rightarrow> (Inr (Rejected job (error_code err)),
                  if error_code err = ''provider_not_connected'' then d1 else note ''rejected'' (Some (error_code err)) None d1))))"

fun offer_triggers ::
  "wa_env \<Rightarrow> int \<Rightarrow> wa_event \<Rightarrow> string \<Rightarrow> wa_trigger list \<Rightarrow> db \<Rightarrow> (string, offered list) result \<times> db" where
  "offer_triggers env now e sender [] d = (Inr [], d)"
| "offer_triggers env now e sender (x # xs) d =
     (case offer_trigger env now e sender x d of
        (Inl err, d1) \<Rightarrow> (Inl err, d1)
      | (Inr o1, d1) \<Rightarrow>
          (case offer_triggers env now e sender xs d1 of
             (Inl err, d2) \<Rightarrow> (Inl err, d2)
           | (Inr os, d2) \<Rightarrow> (Inr (o1 # os), d2)))"

definition offers_outcome :: "offered list \<Rightarrow> wa_outcome" where
  "offers_outcome os = WaDispatched
     (concat (map (\<lambda>x. case x of Offered job r dup \<Rightarrow> [(job, r, dup)] | _ \<Rightarrow> []) os))
     (concat (map (\<lambda>x. case x of Rejected job reason \<Rightarrow> [(job, reason)] | _ \<Rightarrow> []) os))"

definition audit_direct_message :: "int \<Rightarrow> wa_event \<Rightarrow> string \<Rightarrow> wa_trigger list \<Rightarrow> db \<Rightarrow> db" where
  "audit_direct_message now e sender xs d =
     fold (\<lambda>x. wa_audit now e (or_none sender) (Some (fst x)) ''rejected'' (Some ''dm_not_accepted'') None) xs d"

text \<open>\<open>None\<close> stands for a job store that does not exist yet.\<close>

definition dispatch_message :: "wa_env \<Rightarrow> int \<Rightarrow> json \<Rightarrow> db \<Rightarrow> (string, wa_outcome) result \<times> db" where
  "dispatch_message env now input d =
     (let e = whatsapp_trigger_event now input;
          triggers = whatsapp_triggers d;
          sender = comparable_participant_id (we_sender e);
          relevant = filter (\<lambda>x. sender_allowed (snd (snd x)) sender) triggers;
          inside = filter (in_group env (we_chat e)) triggers
      in if we_message e = [] \<or> we_chat e = [] then (Inr (WaSkipped ''missing_message_id''), d)
         else if triggers = [] then (Inr (WaSkipped ''no_whatsapp_triggers''), d)
         else if json_member input ''fromMe'' = Some (JBool True) then (Inr (WaSkipped ''from_me''), d)
         else if \<not> is_whatsapp_group_chat_id (we_chat e)
         then (Inr (WaNotAGroup (map fst relevant)), audit_direct_message now e sender relevant d)
         else if inside = [] then (Inr (WaSkipped ''group_not_configured''), d)
         else (case approval_answer (we_text e) of
             Some answer \<Rightarrow>
               (case handle_approval_reply env now e sender answer triggers d of (out, d1) \<Rightarrow> (Inr out, d1))
           | None \<Rightarrow>
               (case offer_triggers env now e sender inside d of
                  (Inl err, d1) \<Rightarrow> (Inl err, d1)
                | (Inr os, d1) \<Rightarrow> (Inr (offers_outcome os), d1))))"

definition dispatch_whatsapp_job_triggers ::
  "wa_env \<Rightarrow> int \<Rightarrow> json \<Rightarrow> db option \<Rightarrow> (string, wa_outcome) result \<times> db option" where
  "dispatch_whatsapp_job_triggers env now input store =
     (case store of None \<Rightarrow> (Inr (WaSkipped ''no_agent_jobs''), None)
      | Some d \<Rightarrow> map_prod id Some (dispatch_message env now input d))"

section \<open>What a message may change\<close>

text \<open>The run that holds a key.\<close>

definition key_run :: "db \<Rightarrow> string \<Rightarrow> string option" where
  "key_run d k = map_of (zip (map run_key (db_runs d)) (map run_id (db_runs d))) k"

lemma key_run_row: "key_run d k = map_option run_id (row_of run_key k (db_runs d))"
proof -
  have "map_of (zip (map run_key rs) (map run_id rs)) k = map_option run_id (row_of run_key k rs)" for rs
    by (induction rs) auto
  then show ?thesis by (simp add: key_run_def)
qed

text \<open>
  A step that starts or marks runs of the jobs \<open>J\<close> only: the registry stays, keys keep their runs, and
  approvals are untouched.
\<close>

definition runs_of_only :: "string set \<Rightarrow> db \<Rightarrow> db \<Rightarrow> bool" where
  "runs_of_only J d d' \<longleftrightarrow> db_jobs d' = db_jobs d \<and> db_approvals d' = db_approvals d
     \<and> (\<forall>h s. get_pinned_spec d h = Some s \<longrightarrow> get_pinned_spec d' h = Some s)
     \<and> (\<forall>k i. key_run d k = Some i \<longrightarrow> key_run d' k = Some i)
     \<and> (\<forall>i. get_run d' i \<noteq> get_run d i \<longrightarrow> (\<exists>r. get_run d' i = Some r \<and> run_job r \<in> J))
     \<and> distinct (map run_id (db_runs d'))"

text \<open>Every registered job has its specification pinned, under its own name.\<close>

definition registry_ok :: "db \<Rightarrow> bool" where
  "registry_ok d \<longleftrightarrow> list_all (\<lambda>j. case get_pinned_spec d (job_spec_hash j) of
     None \<Rightarrow> False | Some s \<Rightarrow> spec_name s = job_name j) (db_jobs d)"

lemma registry_ok_spec:
  assumes "registry_ok d" and "get_registered_job d job = Some (h, source, spec)"
  shows "spec_name spec = job"
proof -
  obtain j where j: "row_of job_name job (db_jobs d) = Some j" "get_pinned_spec d (job_spec_hash j) = Some spec"
    using assms(2) by (auto simp: get_registered_job_def split: option.splits)
  then have "j \<in> set (db_jobs d)" "job_name j = job" by (auto dest: row_of_Some_in row_of_Some_key)
  with assms(1) j(2) show ?thesis by (auto simp: registry_ok_def list_all_iff)
qed

lemma registry_ok_kept:
  assumes "registry_ok d" and "db_jobs d' = db_jobs d"
    and "\<And>h s. get_pinned_spec d h = Some s \<Longrightarrow> get_pinned_spec d' h = Some s"
  shows "registry_ok d'" and "get_registered_job d' = get_registered_job d"
proof -
  have same: "get_pinned_spec d' (job_spec_hash j) = get_pinned_spec d (job_spec_hash j)" if "j \<in> set (db_jobs d)" for j
    using assms(1,3) that by (cases "get_pinned_spec d (job_spec_hash j)") (auto simp: registry_ok_def list_all_iff)
  then show "registry_ok d'" using assms(1,2) by (simp add: registry_ok_def list_all_iff)
  show "get_registered_job d' = get_registered_job d"
  proof
    fix job show "get_registered_job d' job = get_registered_job d job"
      using same assms(2) by (cases "row_of job_name job (db_jobs d)") (auto simp: get_registered_job_def dest: row_of_Some_in)
  qed
qed

text \<open>Registering a job keeps the registry in order unless its digest is taken by another name.\<close>

lemma registry_ok_register:
  assumes "registry_ok d" and "\<And>s. get_pinned_spec d (spec_hash H spec) = Some s \<Longrightarrow> spec_name s = spec_name spec"
  shows "registry_ok (snd (register_job_spec H now spec source d))"
proof -
  let ?d = "snd (pin_spec H now spec d)" and ?d' = "snd (register_job_spec H now spec source d)"
  let ?row = "\<lambda>h j. case get_pinned_spec ?d h of None \<Rightarrow> False | Some s \<Rightarrow> spec_name s = j"
  have pinned: "get_pinned_spec ?d' h = get_pinned_spec ?d h" for h
    by (rule get_pinned_spec_same) simp
  have own: "?row (spec_hash H spec) (spec_name spec)"
  proof (cases "row_of pin_hash (spec_hash H spec) (db_specs d)")
    case None
    then show ?thesis by (simp add: get_pinned_spec_def pin_spec_def Let_def)
  next
    case (Some p)
    with assms(2) [of "pin_job_spec p"] show ?thesis by (simp add: get_pinned_spec_def pin_spec_def Let_def)
  qed
  have old: "?row (job_spec_hash j) (job_name j)" if "j \<in> set (db_jobs d)" for j
    using assms(1) that pin_spec_keeps [of d "job_spec_hash j" _ H now spec]
    by (auto simp: registry_ok_def list_all_iff split: option.splits)
  have jobs: "set (db_jobs ?d') \<subseteq> (\<lambda>j. j\<lparr>job_spec_hash := spec_hash H spec, job_source := source, job_updated_at := now\<rparr>)
      ` {j. job_name j = spec_name spec} \<union> set (db_jobs d)
      \<union> {\<lparr>job_name = spec_name spec, job_spec_hash = spec_hash H spec, job_source = source, job_registered_at = now, job_updated_at = now\<rparr>}"
    by (auto simp: register_job_spec_def Let_def split_beta set_upd_rows)
  show ?thesis
    unfolding registry_ok_def list_all_iff pinned
  proof
    fix j assume "j \<in> set (db_jobs ?d')"
    with jobs consider "j \<in> set (db_jobs d)" | "job_spec_hash j = spec_hash H spec" "job_name j = spec_name spec" by auto
    then show "?row (job_spec_hash j) (job_name j)"
    proof cases
      case 2
      show ?thesis unfolding 2 by (rule own)
    qed (rule old)
  qed
qed

lemma runs_of_only_refl: "distinct (map run_id (db_runs d)) \<Longrightarrow> runs_of_only J d d"
  by (simp add: runs_of_only_def)

lemma runs_of_only_trans:
  assumes "runs_of_only J d d1" and "runs_of_only J d1 d2"
  shows "runs_of_only J d d2"
proof -
  have "\<exists>r. get_run d2 i = Some r \<and> run_job r \<in> J" if "get_run d2 i \<noteq> get_run d i" for i
    using assms that by (cases "get_run d2 i = get_run d1 i") (auto simp: runs_of_only_def)
  then show ?thesis using assms by (simp add: runs_of_only_def)
qed

lemma runs_of_only_audit:
  "runs_of_only J d d' \<Longrightarrow> runs_of_only J d (wa_audit now e sender job outcome reason run d')"
  by (simp add: runs_of_only_def wa_audit_def record_trigger_audit_def key_run_def get_run_def get_pinned_spec_def)

lemma runs_of_only_registry:
  "runs_of_only J d d' \<Longrightarrow> registry_ok d \<Longrightarrow> registry_ok d' \<and> get_registered_job d' = get_registered_job d"
  using registry_ok_kept [of d d'] by (auto simp: runs_of_only_def)

lemma finalize_concurrency_approvals [simp]: "db_approvals (apply_concurrency H now p i job d) = db_approvals d"
proof -
  have "db_approvals (fold (\<lambda>r. request_replace now x (run_id r)) rs d) = db_approvals d" for x rs d
    by (induction rs arbitrary: d) (simp_all add: request_replace_def)
  note this [simp]
  show ?thesis by (simp add: apply_concurrency_def Let_def split: concurrency.split)
qed

lemma admit_tx_runs_of:
  assumes "admit_tx H now rnd spec t label key body d = Inr ((i, b), d')" and "distinct (map run_id (db_runs d))"
  shows "runs_of_only {spec_name spec} d d'"
proof (cases b)
  case True
  with assms(1) have "admit_tx H now rnd spec t label key body d = Inr ((i, True), d')" by simp
  from admit_tx_dup(1) [OF this] show ?thesis using runs_of_only_refl [OF assms(2)] by simp
next
  case False
  with assms(1) have tx: "admit_tx H now rnd spec t label key body d = Inr ((i, False), d')" by simp
  note new = admit_tx_new [OF tx]
  note ids = admit_new_ids [OF new]
  have "i \<notin> set (map run_id (db_runs d))"
    using admit_new_cases(2) [OF new] by (simp add: get_run_def row_of_None_iff)
  then have "distinct (map run_id (db_runs d'))" using assms(2) by (simp add: ids(1))
  moreover have "\<exists>r. get_run d' j = Some r \<and> run_job r \<in> {spec_name spec}" if "get_run d' j \<noteq> get_run d j" for j
  proof (cases "j = i")
    case True
    then show ?thesis using admit_new_row [OF new] by auto
  next
    case False
    with that admit_new_runs [OF new, of j] obtain r where r: "get_run d j = Some r"
      by (cases "get_run d j") (auto split: if_splits)
    from that admit_touches_others [OF assms(2) tx r] r show ?thesis by (auto simp: replaced_row_def split: if_splits)
  qed
  moreover have "key_run d' k = Some x" if "key_run d k = Some x" for k x
    using that by (simp add: key_run_def ids)
  moreover have "db_approvals d' = db_approvals d"
    unfolding admit_new_cases(4) [OF new] by (simp add: admitted_db_def)
  ultimately show ?thesis
    using admit_tx_registry [OF tx] unfolding runs_of_only_def by blast
qed

lemma admit_run_runs_of:
  assumes "registry_ok d" and "distinct (map run_id (db_runs d))"
  shows "runs_of_only {job} d (snd (admit_run pe H now uuid rnd (RegisteredJob job) ev d))"
proof (cases "get_registered_job d job")
  case None
  then show ?thesis using runs_of_only_refl [OF assms(2)] by (simp add: admit_run_def source_spec_def)
next
  case (Some x)
  obtain h source spec where x: "x = (h, source, spec)" by (cases x)
  note reg = Some [unfolded x]
  have name: "spec_name spec = job" by (rule registry_ok_spec [OF assms(1) reg])
  have audit: "runs_of_only {job} d (record_trigger_audit now a d)" for a
    using runs_of_only_refl [OF assms(2)]
    by (simp add: runs_of_only_def record_trigger_audit_def key_run_def get_run_def get_pinned_spec_def)
  have "runs_of_only {job} d (snd (tx (admit_tx H now rnd spec t label key body) d))" for t label key body
  proof (cases "admit_tx H now rnd spec t label key body d")
    case (Inr y)
    obtain i b d1 where y: "y = ((i, b), d1)" by (metis prod.collapse)
    from admit_tx_runs_of [OF Inr [unfolded y] assms(2)] show ?thesis by (simp add: tx_def Inr y name)
  qed (simp add: tx_def runs_of_only_refl [OF assms(2)])
  then show ?thesis
    using audit runs_of_only_refl [OF assms(2)]
    by (simp add: admit_run_def source_spec_def reg Let_def split: sum.split)
qed

lemma runs_of_only_mono: "runs_of_only J d d' \<Longrightarrow> J \<subseteq> K \<Longrightarrow> runs_of_only K d d'"
  unfolding runs_of_only_def by blast

lemma offer_trigger_runs_of:
  assumes "registry_ok d" and "distinct (map run_id (db_runs d))" and "offer_trigger env now e sender (job, i, t) d = (out, d')"
  shows "runs_of_only (if sender_allowed t sender then {job} else {}) d d'"
proof (cases "sender_allowed t sender")
  case True
  obtain x d1 where run: "admit_run (wa_providers env) (wa_hash env) now [] (wa_random env job i) (RegisteredJob job) (message_event i e) d = (x, d1)"
    by fastforce
  then have only: "runs_of_only {job} d d1" using admit_run_runs_of [OF assms(1,2)] by (metis snd_conv)
  show ?thesis
    using assms(3) True run only runs_of_only_refl [OF assms(2)]
    by (auto simp: offer_trigger_def Let_def intro: runs_of_only_audit split: option.splits bool.splits sum.splits)
next
  case False
  with assms(3) show ?thesis
    using runs_of_only_refl [OF assms(2)] by (auto simp: offer_trigger_def intro: runs_of_only_audit)
qed

definition allowed_jobs :: "wa_trigger list \<Rightarrow> string \<Rightarrow> string set" where
  "allowed_jobs xs sender = fst ` set (filter (\<lambda>x. sender_allowed (snd (snd x)) sender) xs)"

lemma allowed_jobs_Cons:
  "allowed_jobs ((job, i, t) # xs) sender = (if sender_allowed t sender then {job} else {}) \<union> allowed_jobs xs sender"
  by (simp add: allowed_jobs_def)

lemma offer_triggers_runs_of:
  assumes "registry_ok d" and "distinct (map run_id (db_runs d))" and "offer_triggers env now e sender xs d = (out, d')"
  shows "runs_of_only (allowed_jobs xs sender) d d'"
  using assms
proof (induction xs arbitrary: d out d')
  case Nil
  then show ?case by (simp add: runs_of_only_refl)
next
  case (Cons x xs)
  obtain job i t where x: "x = (job, i, t)" by (cases x)
  obtain a d1 where one: "offer_trigger env now e sender x d = (a, d1)" by fastforce
  have first: "runs_of_only (allowed_jobs (x # xs) sender) d d1"
    using offer_trigger_runs_of [OF Cons.prems(1,2) one [unfolded x]] unfolding x allowed_jobs_Cons
    by (rule runs_of_only_mono) simp
  show ?case
  proof (cases a)
    case (Inl err)
    with Cons.prems(3) one first show ?thesis by simp
  next
    case (Inr o1)
    obtain b d2 where rest: "offer_triggers env now e sender xs d1 = (b, d2)" by fastforce
    have "registry_ok d1" "distinct (map run_id (db_runs d1))"
      using runs_of_only_registry [OF first Cons.prems(1)] first by (simp_all add: runs_of_only_def)
    from Cons.IH [OF this rest] have "runs_of_only (allowed_jobs (x # xs) sender) d1 d2"
      unfolding x allowed_jobs_Cons by (rule runs_of_only_mono) simp
    with first have "runs_of_only (allowed_jobs (x # xs) sender) d d2" by (rule runs_of_only_trans)
    then show ?thesis using Cons.prems(3) one Inr rest by (cases b) auto
  qed
qed

section \<open>Only allowed senders act\<close>

text \<open>The jobs that a message may act on: those with a trigger in its group that allows its sender.\<close>

definition jobs_open_to :: "wa_env \<Rightarrow> db \<Rightarrow> wa_event \<Rightarrow> string set" where
  "jobs_open_to env d e = allowed_jobs (filter (in_group env (we_chat e)) (whatsapp_triggers d)) (comparable_participant_id (we_sender e))"

lemma decide_approval_others:
  assumes "decide_approval now a decision by comment d = (out, d')"
  shows "db_runs d' = db_runs d" and "k \<noteq> a \<Longrightarrow> get_approval d' k = get_approval d k"
    and "map_option apr_run (get_approval d' k) = map_option apr_run (get_approval d k)"
proof -
  have decide: "apr_id (decide_row now x by comment r) = apr_id r" "apr_run (decide_row now x by comment r) = apr_run r" for x r
    by (simp_all add: decide_row_def)
  have expire: "apr_id (expire_row now r) = apr_id r" "apr_run (expire_row now r) = apr_run r" for r
    by (simp_all add: expire_row_def)
  consider "d' = d" | f where "d' = upd_approval a f d" "\<And>r. apr_id (f r) = apr_id r" "\<And>r. apr_run (f r) = apr_run r"
    using assms decide expire unfolding decide_approval_def expire_approval_def
    by (auto split: option.splits if_splits)
  then have "db_runs d' = db_runs d \<and> (k \<noteq> a \<longrightarrow> get_approval d' k = get_approval d k)
      \<and> map_option apr_run (get_approval d' k) = map_option apr_run (get_approval d k)"
  proof cases
    case 2
    then show ?thesis by (simp add: get_approval_upd option.map_comp comp_def)
  qed simp
  then show "db_runs d' = db_runs d" and "k \<noteq> a \<Longrightarrow> get_approval d' k = get_approval d k"
    and "map_option apr_run (get_approval d' k) = map_option apr_run (get_approval d k)" by auto
qed

lemma answer_allowed_job:
  assumes "answer_allowed env (we_chat e) (comparable_participant_id (we_sender e)) (Some r) (whatsapp_triggers d)"
  shows "run_job r \<in> jobs_open_to env d e"
  using assms by (force simp: answer_allowed_def list_ex_iff jobs_open_to_def allowed_jobs_def)

lemma handle_approval_reply_acts:
  fixes e :: wa_event
  defines "sender \<equiv> comparable_participant_id (we_sender e)"
  assumes "handle_approval_reply env now e sender answer (whatsapp_triggers d) d = (out, d')"
  shows "db_runs d' = db_runs d"
    and "get_approval d' k \<noteq> get_approval d k \<Longrightarrow>
      \<exists>row r. get_approval d' k = Some row \<and> get_run d (apr_run row) = Some r \<and> run_job r \<in> jobs_open_to env d e"
proof -
  let ?run = "case get_approval d (snd answer) of None \<Rightarrow> None | Some a \<Rightarrow> get_run d (apr_run a)"
  have "db_runs d' = db_runs d \<and> (get_approval d' k \<noteq> get_approval d k \<longrightarrow>
      (\<exists>row r. get_approval d' k = Some row \<and> get_run d (apr_run row) = Some r \<and> run_job r \<in> jobs_open_to env d e))"
  proof (cases "answer_allowed env (we_chat e) sender ?run (whatsapp_triggers d)")
    case False
    with assms(2) show ?thesis
      by (auto simp: handle_approval_reply_def Let_def wa_audit_def record_trigger_audit_def get_approval_def)
  next
    case True
    then obtain r where r: "?run = Some r" by (cases ?run) (auto simp: answer_allowed_def)
    then obtain a where a: "get_approval d (snd answer) = Some a" "get_run d (apr_run a) = Some r"
      by (cases "get_approval d (snd answer)") auto
    have id: "apr_id a = snd answer" by (rule get_approval_id [OF a(1)])
    have job: "run_job r \<in> jobs_open_to env d e" by (rule answer_allowed_job) (use True r in \<open>simp add: sender_def\<close>)
    obtain x d1 where dec: "decide_approval now (apr_id a) (if fst answer then ''approved'' else ''denied'')
        (''whatsapp:'' @ sender) (''whatsapp message '' @ we_message e) d = (x, d1)" by fastforce
    with assms(2) True r a(1) have "d' = d1"
      by (auto simp: handle_approval_reply_def Let_def split: sum.splits)
    note others = decide_approval_others [OF dec, folded this]
    show ?thesis
    proof (intro conjI impI)
      assume "get_approval d' k \<noteq> get_approval d k"
      with others(2) [of k] id have "k = snd answer" by auto
      with others(3) [of k] a(1) obtain row where "get_approval d' k = Some row" "apr_run row = apr_run a" by auto
      then show "\<exists>row r. get_approval d' k = Some row \<and> get_run d (apr_run row) = Some r \<and> run_job r \<in> jobs_open_to env d e"
        using a(2) job by auto
    qed (rule others(1))
  qed
  then show "db_runs d' = db_runs d"
    and "get_approval d' k \<noteq> get_approval d k \<Longrightarrow>
      \<exists>row r. get_approval d' k = Some row \<and> get_run d (apr_run row) = Some r \<and> run_job r \<in> jobs_open_to env d e" by auto
qed

lemma audit_direct_message_same:
  "db_runs (audit_direct_message now e sender xs d) = db_runs d \<and> db_approvals (audit_direct_message now e sender xs d) = db_approvals d
   \<and> db_jobs (audit_direct_message now e sender xs d) = db_jobs d"
  unfolding audit_direct_message_def
  by (induction xs arbitrary: d) (simp_all add: wa_audit_def record_trigger_audit_def)

text \<open>The branches of the dispatcher.\<close>

lemma dispatch_message_cases:
  assumes "dispatch_message env now input d = (out, d')"
  defines "e \<equiv> whatsapp_trigger_event now input"
  defines "sender \<equiv> comparable_participant_id (we_sender e)"
  obtains "d' = d"
  | xs where "d' = audit_direct_message now e sender xs d"
  | a reply where "json_member input ''fromMe'' \<noteq> Some (JBool True)" "is_whatsapp_group_chat_id (we_chat e)"
      "handle_approval_reply env now e sender a (whatsapp_triggers d) d = (reply, d')" "out = Inr reply"
  | os where "json_member input ''fromMe'' \<noteq> Some (JBool True)" "is_whatsapp_group_chat_id (we_chat e)" "approval_answer (we_text e) = None"
      "offer_triggers env now e sender (filter (in_group env (we_chat e)) (whatsapp_triggers d)) d = (os, d')"
      "out = (case os of Inl err \<Rightarrow> Inl err | Inr xs \<Rightarrow> Inr (offers_outcome xs))"
proof -
  let ?inside = "filter (in_group env (we_chat e)) (whatsapp_triggers d)"
  note run = assms(1) [unfolded dispatch_message_def Let_def, folded e_def, folded sender_def]
  consider "d' = d"
    | "json_member input ''fromMe'' \<noteq> Some (JBool True)" "\<not> is_whatsapp_group_chat_id (we_chat e)" "d' \<noteq> d"
    | "json_member input ''fromMe'' \<noteq> Some (JBool True)" "is_whatsapp_group_chat_id (we_chat e)" "d' \<noteq> d"
    using run by (cases "json_member input ''fromMe'' = Some (JBool True)") (auto split: if_splits)
  then show thesis
  proof cases
    case 1
    then show thesis by (rule that(1))
  next
    case 2
    with run show thesis by (auto split: if_splits intro: that(2))
  next
    case 3
    show thesis
    proof (cases "approval_answer (we_text e)")
      case None
      obtain os d1 where os: "offer_triggers env now e sender ?inside d = (os, d1)" by fastforce
      with run 3 None have "d' = d1" "out = (case os of Inl err \<Rightarrow> Inl err | Inr xs \<Rightarrow> Inr (offers_outcome xs))"
        by (auto split: if_splits sum.splits)
      with 3 None os show thesis by (intro that(4)) simp_all
    next
      case (Some a)
      obtain reply d1 where reply: "handle_approval_reply env now e sender a (whatsapp_triggers d) d = (reply, d1)" by fastforce
      with run 3 Some have "d' = d1" "out = Inr reply" by (auto split: if_splits)
      with 3 reply show thesis by (intro that(3)) simp_all
    qed
  qed
qed

text \<open>
  C29: a WhatsApp message changes the runs and the approvals of jobs only that have a trigger for the
  group it was posted in with its sender on the allowlist; a direct message, and one that the account
  sent itself, changes none.
\<close>

theorem whatsapp_acts_on_allowed_senders:
  assumes "registry_ok d" and "distinct (map run_id (db_runs d))"
    and "dispatch_message env now input d = (out, d')"
  shows "(get_run d' i \<noteq> get_run d i \<longrightarrow>
        (\<exists>r. get_run d' i = Some r \<and> run_job r \<in> jobs_open_to env d (whatsapp_trigger_event now input)))
    \<and> (get_approval d' k \<noteq> get_approval d k \<longrightarrow>
        (\<exists>a r. get_approval d' k = Some a \<and> get_run d (apr_run a) = Some r
           \<and> run_job r \<in> jobs_open_to env d (whatsapp_trigger_event now input)))
    \<and> (\<not> is_whatsapp_group_chat_id (we_chat (whatsapp_trigger_event now input))
       \<or> json_member input ''fromMe'' = Some (JBool True) \<longrightarrow> db_runs d' = db_runs d \<and> db_approvals d' = db_approvals d)"
  using assms(3)
proof (cases rule: dispatch_message_cases)
  case (2 xs)
  then show ?thesis using audit_direct_message_same by (simp add: get_run_def get_approval_def)
next
  case (3 a reply)
  note acts = handle_approval_reply_acts [OF 3(3)]
  show ?thesis using acts(2) [of k] get_run_same [OF acts(1), of i] 3(1,2) by simp
next
  case (4 os)
  have "runs_of_only (jobs_open_to env d (whatsapp_trigger_event now input)) d d'"
    using offer_triggers_runs_of [OF assms(1,2) 4(4)] by (simp add: jobs_open_to_def)
  then have "get_approval d' k = get_approval d k" and
    "get_run d' i \<noteq> get_run d i \<longrightarrow>
       (\<exists>r. get_run d' i = Some r \<and> run_job r \<in> jobs_open_to env d (whatsapp_trigger_event now input))"
    by (simp_all add: runs_of_only_def get_approval_def)
  with 4(1,2) show ?thesis by simp
qed simp

end
