(* ===== verification/WhatsAppOnce.thy ===== *)
theory WhatsAppOnce
  imports WhatsAppTriggers
begin

text \<open>
  Redelivery of a WhatsApp message: the runs it started are found again by their keys, whatever has
  happened to them in between.
\<close>

section \<open>The same message again\<close>

text \<open>What later work may have changed: anything but the registry and the run of a key.\<close>

definition keeps_admissions :: "db \<Rightarrow> db \<Rightarrow> bool" where
  "keeps_admissions d d' \<longleftrightarrow> db_jobs d' = db_jobs d
     \<and> (\<forall>h s. get_pinned_spec d h = Some s \<longrightarrow> get_pinned_spec d' h = Some s)
     \<and> (\<forall>k i. key_run d k = Some i \<longrightarrow> key_run d' k = Some i)"

lemma runs_of_only_keeps: "runs_of_only J d d' \<Longrightarrow> keeps_admissions d d'"
  by (simp add: runs_of_only_def keeps_admissions_def)

lemma keeps_admissions_trans: "keeps_admissions d d1 \<Longrightarrow> keeps_admissions d1 d2 \<Longrightarrow> keeps_admissions d d2"
  by (simp add: keeps_admissions_def)

lemma keeps_admissions_audit [simp]: "keeps_admissions d (d'\<lparr>db_trigger_audit := rows\<rparr>) \<longleftrightarrow> keeps_admissions d d'"
  by (simp add: keeps_admissions_def key_run_def get_pinned_spec_def)

lemma keeps_admissions_registry:
  "keeps_admissions d d' \<Longrightarrow> registry_ok d \<Longrightarrow> registry_ok d' \<and> get_registered_job d' = get_registered_job d"
  using registry_ok_kept [of d d'] by (auto simp: keeps_admissions_def)

lemma wa_audit_rows: "\<exists>rows. wa_audit now e sender job outcome reason run d = d\<lparr>db_trigger_audit := rows\<rparr>"
  unfolding wa_audit_def record_trigger_audit_def by blast

lemma admit_tx_key:
  assumes "admit_tx H now rnd spec t label key body d = Inr ((i, b), d')"
  shows "key_run d' (run_key_for H (spec_name spec) label key) = Some i"
proof (cases b)
  case True
  with assms have "admit_tx H now rnd spec t label key body d = Inr ((i, True), d')" by simp
  from admit_tx_dup [OF this] show ?thesis by (auto simp: key_run_row)
next
  case False
  with assms have "admit_tx H now rnd spec t label key body d = Inr ((i, False), d')" by simp
  note new = admit_tx_new [OF this]
  have "key_run d (run_key_for H (spec_name spec) label key) = None"
    by (simp add: key_run_row admit_new_cases(3) [OF new])
  note none = this [unfolded key_run_def]
  show ?thesis by (simp add: key_run_def admit_new_ids [OF new] map_add_def none)
qed

lemma admit_tx_found:
  assumes "key_run d (run_key_for H (spec_name spec) label key) = Some i"
  shows "admit_tx H now rnd spec t label key body d = Inr ((i, True), d)"
  using assms by (auto simp: key_run_row admit_tx_def Let_def)

lemma admit_run_errors:
  assumes "admit_run pe H now uuid rnd (RegisteredJob job) ev d = (Inl err, d')"
  shows "error_code err \<noteq> ''sender_not_allowed''"
proof -
  have "err = SqlConstraint ''runs''" if "admit_tx H now rnd spec t label key body d = Inl err" for spec t label key body
    using that by (auto simp: admit_tx_def admit_new_def insert_run_def Let_def split_beta and_then_Inl_iff
        split: option.splits if_splits)
  then have "err = JobError ''job_not_found'' 404 \<or> err = JobError ''trigger_not_declared'' 404
      \<or> err = JobError ''provider_not_connected'' 409 \<or> err = SqlConstraint ''runs''"
    using assms
    by (auto simp: admit_run_def source_spec_def resolve_trigger_def tx_def Let_def split: option.splits sum.splits if_splits prod.splits)
  then show ?thesis by (auto simp: error_code_def)
qed

text \<open>Two events of one message differ in the instant they were received at most.\<close>

lemma whatsapp_trigger_event_again:
  "we_message (whatsapp_trigger_event now' input) = we_message (whatsapp_trigger_event now input)"
  "we_chat (whatsapp_trigger_event now' input) = we_chat (whatsapp_trigger_event now input)"
  "we_sender (whatsapp_trigger_event now' input) = we_sender (whatsapp_trigger_event now input)"
  "we_text (whatsapp_trigger_event now' input) = we_text (whatsapp_trigger_event now input)"
  by (simp_all add: whatsapp_trigger_event_def Let_def)

lemma message_event_fields [simp]:
  "ev_type (message_event i e) = ''whatsapp''" "ev_name (message_event i e) = []"
  "ev_index (message_event i e) = Some (int i)" "ev_dedupe (message_event i e) = we_message e"
  by (simp_all add: message_event_def)

lemma resolve_message_again:
  assumes "we_message e' = we_message e"
  shows "resolve_trigger H uuid spec (message_event i e') = resolve_trigger H uuid spec (message_event i e)"
proof -
  have "pick_trigger ts (message_event i e') = pick_trigger ts (message_event i e)" for ts
    by (simp add: pick_trigger_def Let_def)
  moreover have "trigger_label t (message_event i e') = trigger_label t (message_event i e)" for t
    by (simp add: trigger_label_def split: option.split)
  moreover have "dedupe_key_of H uuid t (message_event i e') = dedupe_key_of H uuid t (message_event i e)" for t
    by (simp add: dedupe_key_of_def assms Let_def)
  ultimately show ?thesis by (simp add: resolve_trigger_def split: option.split)
qed

fun again :: "offered \<Rightarrow> offered" where
  "again (Offered job r b) = Offered job r True"
| "again x = x"

text \<open>An answer that a redelivery repeats: not a refusal by the store or the provider.\<close>

fun settled :: "offered \<Rightarrow> bool" where
  "settled (Rejected job reason) = (reason = ''sender_not_allowed'')"
| "settled _ = True"

lemma offer_trigger_again:
  assumes "registry_ok d" and "offer_trigger env now e sender (job, i, t) d = (Inr x, d1)" and "settled x"
    and "keeps_admissions d1 d2" "get_registered_job d2 = get_registered_job d"
    and "we_message e' = we_message e" "we_text e' = we_text e"
  shows "\<exists>rows. offer_trigger (env\<lparr>wa_random := rnd'\<rparr>) now' e' sender (job, i, t) d2 = (Inr (again x), d2\<lparr>db_trigger_audit := rows\<rparr>)"
proof -
  let ?admit = "admit_run (wa_providers env) (wa_hash env) now [] (wa_random env job i) (RegisteredJob job) (message_event i e) d"
  have test: "pattern_test (env\<lparr>wa_random := rnd'\<rparr>) t s = pattern_test env t s" for s
    by (simp add: pattern_test_def split: option.split)
  consider "\<not> sender_allowed t sender" "x = Rejected job ''sender_not_allowed''"
    | "sender_allowed t sender" "pattern_test env t (we_text e) = Some False" "x = NoMatch"
    | r b d3 where "sender_allowed t sender" "pattern_test env t (we_text e) = Some True" "?admit = (Inr (r, b), d3)"
        "x = Offered job r b" "d1 = (if b then d3 else wa_audit now e (or_none sender) (Some job) ''accepted'' None (Some r) d3)"
    | err d3 where "sender_allowed t sender" "?admit = (Inl err, d3)" "x = Rejected job (error_code err)"
    using assms(2) by (auto simp: offer_trigger_def Let_def split: if_splits option.splits bool.splits sum.splits prod.splits)
  then show ?thesis
  proof cases
    case 1
    then show ?thesis using wa_audit_rows by (simp add: offer_trigger_def)
  next
    case 2
    then show ?thesis using wa_audit_rows by (simp add: offer_trigger_def test assms(7))
  next
    case 4
    with assms(3) admit_run_errors show ?thesis by auto
  next
    case (3 r b d3)
    obtain h source spec where reg: "get_registered_job d job = Some (h, source, spec)"
      using 3(3) by (cases "get_registered_job d job") (auto simp: admit_run_def source_spec_def)
    obtain t' label key where res: "resolve_trigger (wa_hash env) [] spec (message_event i e) = Inr (t', label, key)"
      and ok: "st_runnable (agent_job_provider_status (wa_providers env) (spec_agent spec))"
      and tx: "admit_tx (wa_hash env) now (wa_random env job i) spec t' label key (ev_body (message_event i e)) d = Inr ((r, b), d3)"
      by (rule admit_run_registered [OF 3(3) reg])
    have "key_run d1 k = key_run d3 k" for k
      by (simp add: 3(5) wa_audit_def record_trigger_audit_def key_run_def)
    with admit_tx_key [OF tx] assms(4) have found: "key_run d2 (run_key_for (wa_hash env) (spec_name spec) label key) = Some r"
      by (simp add: keeps_admissions_def)
    have "admit_run (wa_providers env) (wa_hash env) now' [] (rnd' job i) (RegisteredJob job) (message_event i e') d2 = (Inr (r, True), d2)"
      using admit_run_resolved [of d2 job h source spec "wa_hash env" "[]" "message_event i e'" t' label key "wa_providers env" now' "rnd' job i"]
        admit_tx_found [OF found] assms(5) reg res resolve_message_again [OF assms(6)] ok
      by (simp add: tx_def)
    then have "offer_trigger (env\<lparr>wa_random := rnd'\<rparr>) now' e' sender (job, i, t) d2 = (Inr (again x), d2)"
      using 3(1,2,4) by (simp add: offer_trigger_def test assms(7))
    then show ?thesis by (metis db.surjective db.update_convs(9))
  qed
qed

lemma offer_triggers_again:
  assumes "registry_ok d" "distinct (map run_id (db_runs d))" and "offer_triggers env now e sender xs d = (Inr os, d1)"
    and "list_all settled os" and "keeps_admissions d1 d2"
    and "we_message e' = we_message e" "we_text e' = we_text e"
  shows "\<exists>rows. offer_triggers (env\<lparr>wa_random := rnd'\<rparr>) now' e' sender xs d2 = (Inr (map again os), d2\<lparr>db_trigger_audit := rows\<rparr>)"
  using assms(1-5)
proof (induction xs arbitrary: d os d2)
  case Nil
  then have "offer_triggers (env\<lparr>wa_random := rnd'\<rparr>) now' e' sender [] d2
      = (Inr (map again os), d2\<lparr>db_trigger_audit := db_trigger_audit d2\<rparr>)" by simp
  then show ?case ..
next
  case (Cons x xs)
  obtain job i t where x: "x = (job, i, t)" by (cases x)
  obtain a da where one: "offer_trigger env now e sender x d = (Inr a, da)"
    and "\<exists>bs. offer_triggers env now e sender xs da = (Inr bs, d1) \<and> os = a # bs"
    using Cons.prems(3) by (auto split: prod.splits sum.splits)
  then obtain bs where rest: "offer_triggers env now e sender xs da = (Inr bs, d1)" and os: "os = a # bs" by blast
  have first: "runs_of_only UNIV d da"
    using offer_trigger_runs_of [OF Cons.prems(1,2) one [unfolded x]] by (rule runs_of_only_mono) simp
  have reg: "registry_ok da" "get_registered_job da = get_registered_job d"
    using runs_of_only_registry [OF first Cons.prems(1)] by simp_all
  have ids: "distinct (map run_id (db_runs da))" using first by (simp add: runs_of_only_def)
  have "runs_of_only UNIV da d1"
    using offer_triggers_runs_of [OF reg(1) ids rest] by (rule runs_of_only_mono) simp
  then have later: "keeps_admissions da d2" using Cons.prems(5) runs_of_only_keeps keeps_admissions_trans by blast
  then have "get_registered_job d2 = get_registered_job d" using keeps_admissions_registry [OF later reg(1)] reg(2) by simp
  moreover have "settled a" "list_all settled bs" using Cons.prems(4) os by simp_all
  ultimately obtain rows where again: "offer_trigger (env\<lparr>wa_random := rnd'\<rparr>) now' e' sender x d2
      = (Inr (again a), d2\<lparr>db_trigger_audit := rows\<rparr>)"
    using offer_trigger_again [OF Cons.prems(1) one [unfolded x] _ later _ assms(6,7)] x by blast
  obtain rows' where "offer_triggers (env\<lparr>wa_random := rnd'\<rparr>) now' e' sender xs (d2\<lparr>db_trigger_audit := rows\<rparr>)
      = (Inr (map again bs), d2\<lparr>db_trigger_audit := rows\<rparr>\<lparr>db_trigger_audit := rows'\<rparr>)"
    using Cons.IH [OF reg(1) ids rest \<open>list_all settled bs\<close>, of "d2\<lparr>db_trigger_audit := rows\<rparr>"] Cons.prems(5) by auto
  with again os have "offer_triggers (env\<lparr>wa_random := rnd'\<rparr>) now' e' sender (x # xs) d2
      = (Inr (map again os), d2\<lparr>db_trigger_audit := rows'\<rparr>)" by simp
  then show ?case ..
qed

lemma offers_outcome_again:
  assumes "offers_outcome os = WaDispatched admitted rejected"
  shows "offers_outcome (map again os) = WaDispatched (map (\<lambda>(job, r, dup). (job, r, True)) admitted) rejected"
    and "(\<forall>x\<in>set rejected. snd x = ''sender_not_allowed'') \<longleftrightarrow> list_all settled os"
proof -
  have "concat (map (\<lambda>x. case x of Offered job r dup \<Rightarrow> [(job, r, dup)] | _ \<Rightarrow> []) (map again os))
      = map (\<lambda>(job, r, dup). (job, r, True)) (concat (map (\<lambda>x. case x of Offered job r dup \<Rightarrow> [(job, r, dup)] | _ \<Rightarrow> []) os))"
    by (induction os) (auto split: offered.splits)
  moreover have "(\<lambda>x. case again x of Rejected job reason \<Rightarrow> [(job, reason)] | _ \<Rightarrow> [])
      = (\<lambda>x. case x of Rejected job reason \<Rightarrow> [(job, reason)] | _ \<Rightarrow> [])"
    by (auto split: offered.splits elim: again.elims)
  ultimately show "offers_outcome (map again os) = WaDispatched (map (\<lambda>(job, r, dup). (job, r, True)) admitted) rejected"
    using assms by (simp add: offers_outcome_def comp_def)
  define refusals where "refusals = concat (map (\<lambda>x. case x of Rejected job reason \<Rightarrow> [(job, reason)] | _ \<Rightarrow> []) os)"
  have "(\<forall>x\<in>set refusals. snd x = ''sender_not_allowed'') \<longleftrightarrow> list_all settled os"
    unfolding refusals_def
  proof (induction os)
    case (Cons a os)
    then show ?case by (cases a) simp_all
  qed simp
  moreover have "rejected = refusals" using assms by (simp add: offers_outcome_def refusals_def)
  ultimately show "(\<forall>x\<in>set rejected. snd x = ''sender_not_allowed'') \<longleftrightarrow> list_all settled os" by simp
qed

lemma whatsapp_triggers_same:
  "db_jobs d' = db_jobs d \<Longrightarrow> get_registered_job d' = get_registered_job d \<Longrightarrow> whatsapp_triggers d' = whatsapp_triggers d"
  by (simp add: whatsapp_triggers_def wa_job_triggers_def registered_triggers_def list_registered_jobs_def cong: map_cong)

text \<open>
  Nothing is settled about a trigger that the provider or the store refused: its job may start
  when the message comes again.
\<close>

fun refused_job :: "offered \<Rightarrow> string set" where
  "refused_job (Rejected job reason) = (if reason = ''sender_not_allowed'' then {} else {job})"
| "refused_job _ = {}"

definition refused_jobs :: "(string \<times> string) list \<Rightarrow> string set" where
  "refused_jobs rejected = fst ` set (filter (\<lambda>x. snd x \<noteq> ''sender_not_allowed'') rejected)"

text \<open>The job of an offer, whatever the provider's state and the fresh ids of the second time.\<close>

lemma offer_trigger_redelivered:
  assumes "registry_ok d2" "distinct (map run_id (db_runs d2))"
    and "offer_trigger env now e sender (job, i, t) d = (Inr x, d1)"
    and "keeps_admissions d1 d2" "get_registered_job d2 = get_registered_job d"
    and "we_message e' = we_message e" "we_text e' = we_text e"
  shows "\<exists>y d3. offer_trigger (env\<lparr>wa_random := rnd', wa_providers := pe'\<rparr>) now' e' sender (job, i, t) d2 = (Inr y, d3)
    \<and> runs_of_only (refused_job x) d2 d3 \<and> (\<forall>j r. y = Offered j r False \<longrightarrow> j \<in> refused_job x)"
proof -
  let ?env = "env\<lparr>wa_random := rnd', wa_providers := pe'\<rparr>"
  let ?admit = "admit_run (wa_providers env) (wa_hash env) now [] (wa_random env job i) (RegisteredJob job) (message_event i e) d"
  have test: "pattern_test ?env t s = pattern_test env t s" for s
    by (simp add: pattern_test_def split: option.split)
  have audit: "runs_of_only J d2 (wa_audit now' e' s j out why run d2)" for J s j out why run
    by (rule runs_of_only_audit [OF runs_of_only_refl [OF assms(2)]])
  consider "\<not> sender_allowed t sender"
    | "sender_allowed t sender" "pattern_test env t (we_text e) = Some False"
    | r b d3 where "sender_allowed t sender" "pattern_test env t (we_text e) = Some True" "?admit = (Inr (r, b), d3)"
        "d1 = (if b then d3 else wa_audit now e (or_none sender) (Some job) ''accepted'' None (Some r) d3)"
    | err d3 where "sender_allowed t sender" "pattern_test env t (we_text e) = Some True" "?admit = (Inl err, d3)"
        "x = Rejected job (error_code err)"
    using assms(3) by (auto simp: offer_trigger_def Let_def split: if_splits option.splits bool.splits sum.splits prod.splits)
  then show ?thesis
  proof cases
    case 1
    then show ?thesis by (simp add: offer_trigger_def audit)
  next
    case 2
    then show ?thesis by (simp add: offer_trigger_def test assms(7) audit)
  next
    case (4 err d3)
    obtain y d4 where y: "offer_trigger ?env now' e' sender (job, i, t) d2 = (y, d4)" by fastforce
    have "refused_job x = {job}" using 4(4) admit_run_errors [OF 4(3)] by simp
    moreover have "runs_of_only {job} d2 d4" using offer_trigger_runs_of [OF assms(1,2) y] 4(1) by simp
    moreover have "\<exists>z. y = Inr z \<and> (\<forall>j r. z = Offered j r False \<longrightarrow> j = job)"
      using y 4(1,2) by (auto simp: offer_trigger_def test assms(7) Let_def split: sum.splits prod.splits)
    ultimately show ?thesis using y by auto
  next
    case (3 r b d3)
    obtain h source spec where reg: "get_registered_job d job = Some (h, source, spec)"
      using 3(3) by (cases "get_registered_job d job") (auto simp: admit_run_def source_spec_def)
    obtain t' label key where res: "resolve_trigger (wa_hash env) [] spec (message_event i e) = Inr (t', label, key)"
      and tx: "admit_tx (wa_hash env) now (wa_random env job i) spec t' label key (ev_body (message_event i e)) d = Inr ((r, b), d3)"
      by (rule admit_run_registered [OF 3(3) reg])
    have "key_run d1 k = key_run d3 k" for k
      by (simp add: 3(4) wa_audit_def record_trigger_audit_def key_run_def)
    with admit_tx_key [OF tx] assms(4) have found: "key_run d2 (run_key_for (wa_hash env) (spec_name spec) label key) = Some r"
      by (simp add: keeps_admissions_def)
    obtain y d4 where y: "admit_run pe' (wa_hash env) now' [] (rnd' job i) (RegisteredJob job) (message_event i e') d2 = (y, d4)" by fastforce
    have "y = Inr (r, True) \<and> d4 = d2 \<or> y = Inl (JobError ''provider_not_connected'' 409) \<and> (\<exists>rows. d4 = d2\<lparr>db_trigger_audit := rows\<rparr>)"
    proof (cases "st_runnable (agent_job_provider_status pe' (spec_agent spec))")
      case True
      with y show ?thesis
        using admit_run_resolved [of d2 job h source spec "wa_hash env" "[]" "message_event i e'" t' label key pe' now' "rnd' job i"]
          admit_tx_found [OF found] assms(5) reg res resolve_message_again [OF assms(6)]
        by (simp add: tx_def)
    next
      case False
      with y show ?thesis
        using assms(5) reg res resolve_message_again [OF assms(6)]
        by (auto simp: admit_run_def source_spec_def record_trigger_audit_def Let_def)
    qed
    moreover have "runs_of_only (refused_job x) d2 (d2\<lparr>db_trigger_audit := rows\<rparr>)" for rows
      using runs_of_only_refl [OF assms(2)] by (simp add: runs_of_only_def key_run_def get_run_def get_pinned_spec_def)
    moreover have "error_code (JobError ''provider_not_connected'' 409) = ''provider_not_connected''" by (simp add: error_code_def)
    ultimately show ?thesis
      using 3(1,2) y runs_of_only_refl [OF assms(2)] by (auto simp: offer_trigger_def test assms(7))
  qed
qed

lemma offer_triggers_redelivered:
  assumes "registry_ok d" "distinct (map run_id (db_runs d))" and "offer_triggers env now e sender xs d = (Inr os, d1)"
    and "keeps_admissions d1 d2" "registry_ok d2" "distinct (map run_id (db_runs d2))"
    and "we_message e' = we_message e" "we_text e' = we_text e"
  shows "\<exists>ys d3. offer_triggers (env\<lparr>wa_random := rnd', wa_providers := pe'\<rparr>) now' e' sender xs d2 = (Inr ys, d3)
    \<and> runs_of_only (\<Union> (refused_job ` set os)) d2 d3
    \<and> (\<forall>j r. Offered j r False \<in> set ys \<longrightarrow> j \<in> \<Union> (refused_job ` set os))"
  using assms(1-6)
proof (induction xs arbitrary: d os d2)
  case Nil
  then show ?case by (simp add: runs_of_only_refl)
next
  case (Cons x xs)
  obtain job i t where x: "x = (job, i, t)" by (cases x)
  obtain a da where one: "offer_trigger env now e sender x d = (Inr a, da)"
    and "\<exists>bs. offer_triggers env now e sender xs da = (Inr bs, d1) \<and> os = a # bs"
    using Cons.prems(3) by (auto split: prod.splits sum.splits)
  then obtain bs where rest: "offer_triggers env now e sender xs da = (Inr bs, d1)" and os: "os = a # bs" by blast
  have first: "runs_of_only UNIV d da"
    using offer_trigger_runs_of [OF Cons.prems(1,2) one [unfolded x]] by (rule runs_of_only_mono) simp
  have reg: "registry_ok da" "get_registered_job da = get_registered_job d"
    using runs_of_only_registry [OF first Cons.prems(1)] by simp_all
  have ids: "distinct (map run_id (db_runs da))" using first by (simp add: runs_of_only_def)
  have "runs_of_only UNIV da d1"
    using offer_triggers_runs_of [OF reg(1) ids rest] by (rule runs_of_only_mono) simp
  then have later: "keeps_admissions da d2" using Cons.prems(4) runs_of_only_keeps keeps_admissions_trans by blast
  then have "get_registered_job d2 = get_registered_job d" using keeps_admissions_registry [OF later reg(1)] reg(2) by simp
  then obtain y d3 where y: "offer_trigger (env\<lparr>wa_random := rnd', wa_providers := pe'\<rparr>) now' e' sender x d2 = (Inr y, d3)"
      "runs_of_only (refused_job a) d2 d3" "\<forall>j r. y = Offered j r False \<longrightarrow> j \<in> refused_job a"
    using offer_trigger_redelivered [OF Cons.prems(5,6) one [unfolded x] later _ assms(7,8), of pe' rnd' now'] x by blast
  have "keeps_admissions d1 d3" "registry_ok d3" "distinct (map run_id (db_runs d3))"
    using keeps_admissions_trans [OF Cons.prems(4) runs_of_only_keeps [OF y(2)]] runs_of_only_registry [OF y(2) Cons.prems(5)] y(2)
    by (simp_all add: runs_of_only_def)
  from Cons.IH [OF reg(1) ids rest this] obtain ys d4 where
      ys: "offer_triggers (env\<lparr>wa_random := rnd', wa_providers := pe'\<rparr>) now' e' sender xs d3 = (Inr ys, d4)"
      "runs_of_only (\<Union> (refused_job ` set bs)) d3 d4" "\<forall>j r. Offered j r False \<in> set ys \<longrightarrow> j \<in> \<Union> (refused_job ` set bs)" by blast
  have "runs_of_only (\<Union> (refused_job ` set os)) d2 d3" "runs_of_only (\<Union> (refused_job ` set os)) d3 d4"
    by (rule runs_of_only_mono [OF y(2)], simp add: os) (rule runs_of_only_mono [OF ys(2)], auto simp: os)
  from runs_of_only_trans [OF this] show ?case using y(1,3) ys(1,3) os by auto
qed

lemma refused_jobs_offers:
  "offers_outcome os = WaDispatched admitted rejected \<Longrightarrow> refused_jobs rejected = \<Union> (refused_job ` set os)"
proof -
  have "fst ` set (filter (\<lambda>x. snd x \<noteq> ''sender_not_allowed'')
      (concat (map (\<lambda>x. case x of Rejected job reason \<Rightarrow> [(job, reason)] | _ \<Rightarrow> []) os))) = \<Union> (refused_job ` set os)"
  proof (induction os)
    case (Cons a os)
    then show ?case by (cases a) (simp_all add: image_Un)
  qed simp
  then show "offers_outcome os = WaDispatched admitted rejected \<Longrightarrow> refused_jobs rejected = \<Union> (refused_job ` set os)"
    by (auto simp: offers_outcome_def refused_jobs_def)
qed

lemma offers_outcome_new:
  "offers_outcome os = WaDispatched admitted rejected \<Longrightarrow> (job, r, False) \<in> set admitted \<longleftrightarrow> Offered job r False \<in> set os"
  by (auto simp: offers_outcome_def split: offered.splits) force+

lemma refused_none:
  "refused_jobs rejected = {} \<longleftrightarrow> (\<forall>x\<in>set rejected. snd x = ''sender_not_allowed'')"
  by (auto simp: refused_jobs_def)

text \<open>What a dispatch is that got as far as the triggers.\<close>

lemma dispatched_offers:
  assumes "dispatch_message env now input d = (Inr (WaDispatched admitted rejected), d')"
  obtains os where
    "offer_triggers env now (whatsapp_trigger_event now input) (comparable_participant_id (we_sender (whatsapp_trigger_event now input)))
       (filter (in_group env (we_chat (whatsapp_trigger_event now input))) (whatsapp_triggers d)) d = (Inr os, d')"
    "offers_outcome os = WaDispatched admitted rejected"
    "\<And>env2 now2 d2. whatsapp_triggers d2 = whatsapp_triggers d \<Longrightarrow> in_group env2 = in_group env \<Longrightarrow>
       dispatch_message env2 now2 input d2 =
         (case offer_triggers env2 now2 (whatsapp_trigger_event now2 input) (comparable_participant_id (we_sender (whatsapp_trigger_event now input)))
            (filter (in_group env (we_chat (whatsapp_trigger_event now input))) (whatsapp_triggers d)) d2 of
            (Inl err, d3) \<Rightarrow> (Inl err, d3) | (Inr ys, d3) \<Rightarrow> (Inr (offers_outcome ys), d3))"
proof -
  let ?e = "whatsapp_trigger_event now input"
  let ?sender = "comparable_participant_id (we_sender ?e)"
  let ?inside = "filter (in_group env (we_chat ?e)) (whatsapp_triggers d)"
  have run: "we_message ?e \<noteq> []" "we_chat ?e \<noteq> []" "whatsapp_triggers d \<noteq> []" "json_member input ''fromMe'' \<noteq> Some (JBool True)"
      "is_whatsapp_group_chat_id (we_chat ?e)" "?inside \<noteq> []"
    using assms by (auto simp: dispatch_message_def Let_def split: if_splits)
  have "approval_answer (we_text ?e) = None"
  proof (cases "approval_answer (we_text ?e)")
    case (Some a)
    obtain out d3 where "handle_approval_reply env now ?e ?sender a (whatsapp_triggers d) d = (out, d3)" by fastforce
    moreover from this have "out \<noteq> WaDispatched admitted rejected"
      by (auto simp: handle_approval_reply_def Let_def split: if_splits option.splits prod.splits sum.splits)
    ultimately show ?thesis using assms run Some by (simp add: dispatch_message_def Let_def)
  qed simp
  note run = run this
  obtain os where os: "offer_triggers env now ?e ?sender ?inside d = (Inr os, d')" "offers_outcome os = WaDispatched admitted rejected"
    using assms run by (auto simp: dispatch_message_def Let_def split: prod.splits sum.splits)
  have "dispatch_message env2 now2 input d2 =
         (case offer_triggers env2 now2 (whatsapp_trigger_event now2 input) ?sender ?inside d2 of
            (Inl err, d3) \<Rightarrow> (Inl err, d3) | (Inr ys, d3) \<Rightarrow> (Inr (offers_outcome ys), d3))"
    if "whatsapp_triggers d2 = whatsapp_triggers d" "in_group env2 = in_group env" for env2 now2 d2
    using run whatsapp_trigger_event_again [of now2 input now] that by (simp add: dispatch_message_def Let_def)
  from that [OF os this] show thesis by blast
qed

lemma dispatched_ids:
  assumes "registry_ok d" "distinct (map run_id (db_runs d))"
    and "dispatch_message env now input d = (Inr (WaDispatched admitted rejected), d')"
  shows "distinct (map run_id (db_runs d'))"
  by (rule dispatched_offers [OF assms(3)], drule offer_triggers_runs_of [OF assms(1,2)]) (simp add: runs_of_only_def)

text \<open>
  C30: a message that the bridge delivers again starts a run only for a job that the provider or the
  store refused the first time, however far the other runs have come, whatever the provider's state,
  the instant and the fresh ids are by then: every run it reports as new, and every run it changes,
  is of such a job. When the first dispatch met no other refusal than of senders and the provider is
  as it was, dispatching again gives the same runs as duplicates, the same refusals, and writes
  audit rows at most. Between the two, the registry and the runs' ids and keys are kept.
\<close>

theorem whatsapp_message_starts_once:
  assumes "registry_ok d" "distinct (map run_id (db_runs d))"
    and "dispatch_message env now input d = (Inr (WaDispatched admitted rejected), d')"
    and "keeps_admissions d' d2" "distinct (map run_id (db_runs d2))"
  shows "\<exists>admitted2 rejected2 d3.
      dispatch_message (env\<lparr>wa_random := rnd', wa_providers := pe'\<rparr>) now' input d2 = (Inr (WaDispatched admitted2 rejected2), d3)
    \<and> runs_of_only (refused_jobs rejected) d2 d3
    \<and> (\<forall>job r. (job, r, False) \<in> set admitted2 \<longrightarrow> job \<in> refused_jobs rejected)
    \<and> (refused_jobs rejected = {} \<and> pe' = wa_providers env \<longrightarrow>
         admitted2 = map (\<lambda>(job, r, dup). (job, r, True)) admitted \<and> rejected2 = rejected
         \<and> (\<exists>rows. d3 = d2\<lparr>db_trigger_audit := rows\<rparr>))"
proof -
  let ?e = "whatsapp_trigger_event now input" and ?e' = "whatsapp_trigger_event now' input"
  let ?sender = "comparable_participant_id (we_sender ?e)"
  let ?inside = "filter (in_group env (we_chat ?e)) (whatsapp_triggers d)"
  let ?env = "env\<lparr>wa_random := rnd', wa_providers := pe'\<rparr>"
  obtain os where os: "offer_triggers env now ?e ?sender ?inside d = (Inr os, d')" "offers_outcome os = WaDispatched admitted rejected"
    and out: "\<And>env2 now2 d2. whatsapp_triggers d2 = whatsapp_triggers d \<Longrightarrow> in_group env2 = in_group env \<Longrightarrow>
       dispatch_message env2 now2 input d2 =
         (case offer_triggers env2 now2 (whatsapp_trigger_event now2 input) ?sender ?inside d2 of
            (Inl err, d3) \<Rightarrow> (Inl err, d3) | (Inr ys, d3) \<Rightarrow> (Inr (offers_outcome ys), d3))"
    by (rule dispatched_offers [OF assms(3)]) blast
  have only: "runs_of_only UNIV d d'"
    using offer_triggers_runs_of [OF assms(1,2) os(1)] by (rule runs_of_only_mono) simp
  have "registry_ok d'" "get_registered_job d' = get_registered_job d" using runs_of_only_registry [OF only assms(1)] by simp_all
  moreover from keeps_admissions_registry [OF assms(4) this(1)] have reg2: "registry_ok d2" "get_registered_job d2 = get_registered_job d'"
    by simp_all
  ultimately have triggers: "whatsapp_triggers d2 = whatsapp_triggers d"
    using only assms(4) by (intro whatsapp_triggers_same) (simp_all add: runs_of_only_def keeps_admissions_def)
  have group: "in_group ?env = in_group env" by (simp add: fun_eq_iff in_group_def)
  note same = whatsapp_trigger_event_again [of now' input now]
  obtain ys d3 where ys: "offer_triggers ?env now' ?e' ?sender ?inside d2 = (Inr ys, d3)"
      "runs_of_only (\<Union> (refused_job ` set os)) d2 d3" "\<forall>j r. Offered j r False \<in> set ys \<longrightarrow> j \<in> \<Union> (refused_job ` set os)"
    using offer_triggers_redelivered [OF assms(1,2) os(1) assms(4) reg2(1) assms(5) same(1,4), of pe' rnd' now'] by (elim exE conjE) (rule that)
  obtain admitted2 rejected2 where two: "offers_outcome ys = WaDispatched admitted2 rejected2" by (simp add: offers_outcome_def)
  have exact: "admitted2 = map (\<lambda>(job, r, dup). (job, r, True)) admitted \<and> rejected2 = rejected
      \<and> (\<exists>rows. d3 = d2\<lparr>db_trigger_audit := rows\<rparr>)" if "refused_jobs rejected = {}" "pe' = wa_providers env"
  proof -
    have "list_all settled os" using that(1) offers_outcome_again(2) [OF os(2)] refused_none by blast
    from offer_triggers_again [OF assms(1,2) os(1) this assms(4) same(1,4), of rnd' now' ] ys(1) that(2)
    have "ys = map again os \<and> (\<exists>rows. d3 = d2\<lparr>db_trigger_audit := rows\<rparr>)" by auto
    with two offers_outcome_again(1) [OF os(2)] show ?thesis by auto
  qed
  have "dispatch_message ?env now' input d2 = (Inr (WaDispatched admitted2 rejected2), d3)"
    using out [OF triggers group, of now'] ys(1) two by simp
  moreover have "\<forall>job r. (job, r, False) \<in> set admitted2 \<longrightarrow> job \<in> refused_jobs rejected"
    using ys(3) offers_outcome_new [OF two] refused_jobs_offers [OF os(2)] by simp
  ultimately show ?thesis using ys(2) refused_jobs_offers [OF os(2)] exact by auto
qed

section \<open>Concrete instances\<close>

definition sample_wa_env :: wa_env where
  "sample_wa_env = \<lparr>wa_providers = sample_env\<lparr>pe_probe := (\<lambda>p. Some (ProbeSaid True True None))\<rparr>, wa_hash = sample_hash,
     wa_bindings = [(''team'', ''120@g.us'')], wa_pattern = (\<lambda>p s. Some (str_includes p s)), wa_random = (\<lambda>j k. ''s'')\<rparr>"

definition sample_wa_db :: db where
  "sample_wa_db = sample_scheduled (WhatsApp ''binding:team'' [''+49 170''] (Some ''report''))"

definition sample_message :: "string \<Rightarrow> json" where
  "sample_message sender = JObj [(''id'', JStr ''m1''), (''chatId'', JStr ''120@g.us''), (''from'', JStr sender),
     (''text'', JStr ''report please''), (''timestamp'', JStr ''1'')]"

abbreviation sample_wa_trigger :: trigger where
  "sample_wa_trigger \<equiv> WhatsApp ''binding:team'' [''+49 170''] (Some ''report'')"

lemma sample_wa_db_ok: "registry_ok sample_wa_db" "distinct (map run_id (db_runs sample_wa_db))"
proof -
  have "registry_ok sample_db" "get_pinned_spec sample_db h = None" for h
    by (simp_all add: registry_ok_def get_pinned_spec_def sample_db_def empty_db_def)
  note facts = this
  show "registry_ok sample_wa_db"
    unfolding sample_wa_db_def sample_scheduled_def by (rule registry_ok_register [OF facts(1)]) (simp add: facts(2))
qed (simp add: sample_wa_db_def sample_scheduled_parts)

lemma sample_wa_triggers: "whatsapp_triggers sample_wa_db = [(''nightly'', 0, sample_wa_trigger)]"
proof -
  obtain j where "db_jobs sample_wa_db = [j]" "job_name j = ''nightly''"
    using sample_scheduled_parts(1) [of sample_wa_trigger] by (auto simp: sample_wa_db_def)
  moreover have "registered_triggers sample_wa_db ''nightly'' = [sample_wa_trigger]"
    by (simp add: registered_triggers_def sample_wa_db_def sample_scheduled_parts)
  ultimately show ?thesis by (simp add: whatsapp_triggers_def list_registered_jobs_def wa_job_triggers_def)
qed

lemma sample_wa_group: "in_group sample_wa_env ''120@g.us'' (''nightly'', 0, sample_wa_trigger)"
  by code_simp

lemma sample_wa_event:
  "we_message (whatsapp_trigger_event now (sample_message sender)) = ''m1''"
  "we_chat (whatsapp_trigger_event now (sample_message sender)) = ''120@g.us''"
  "we_sender (whatsapp_trigger_event now (sample_message sender)) = str_trim sender"
  "we_text (whatsapp_trigger_event now (sample_message sender)) = ''report please''"
proof -
  have "str_trim ''m1'' = ''m1''" "str_trim ''120@g.us'' = ''120@g.us''" "str_trim [] = []" by code_simp+
  then show "we_message (whatsapp_trigger_event now (sample_message sender)) = ''m1''"
    "we_chat (whatsapp_trigger_event now (sample_message sender)) = ''120@g.us''"
    "we_sender (whatsapp_trigger_event now (sample_message sender)) = str_trim sender"
    "we_text (whatsapp_trigger_event now (sample_message sender)) = ''report please''"
    by (simp_all add: whatsapp_trigger_event_def sample_message_def json_member_def text_of_def text_or_body_def nullish_def Let_def)
qed

lemmas participant_defs = comparable_participant_id_def canonical_whatsapp_participant_alias_def to_lower_def
  str_trim_def phone_digits_def address_part_def ends_with_def starts_with_def is_space_def is_digit_def
  is_upper_def char_between_def to_lower_char_def

lemma sample_wa_ids:
  "comparable_participant_id ''+49 170'' = ''phone:49170''"
  "comparable_participant_id (str_trim ''49170@c.us'') = ''phone:49170''"
  "comparable_participant_id (str_trim ''49179@c.us'') = ''phone:49179''"
  by (simp_all add: participant_defs Let_def)

lemma sample_wa_senders:
  "sender_allowed sample_wa_trigger (comparable_participant_id (str_trim ''49170@c.us''))"
  "\<not> sender_allowed sample_wa_trigger (comparable_participant_id (str_trim ''49179@c.us''))"
  by (simp_all add: sender_allowed_def sample_wa_ids)

lemma whatsapp_acts_on_allowed_senders_witness:
  "(\<forall>i. get_run (snd (dispatch_message sample_wa_env 5 (sample_message ''49179@c.us'') sample_wa_db)) i = get_run sample_wa_db i)
   \<and> jobs_open_to sample_wa_env sample_wa_db (whatsapp_trigger_event 5 (sample_message ''49170@c.us'')) = {''nightly''}"
proof
  have none: "jobs_open_to sample_wa_env sample_wa_db (whatsapp_trigger_event 5 (sample_message ''49179@c.us'')) = {}"
    by (simp add: jobs_open_to_def allowed_jobs_def sample_wa_triggers sample_wa_event sample_wa_senders)
  show "\<forall>i. get_run (snd (dispatch_message sample_wa_env 5 (sample_message ''49179@c.us'') sample_wa_db)) i = get_run sample_wa_db i"
    using whatsapp_acts_on_allowed_senders [OF sample_wa_db_ok prod.collapse [symmetric], of sample_wa_env 5 "sample_message ''49179@c.us''"]
    unfolding none by blast
qed (simp add: jobs_open_to_def allowed_jobs_def sample_wa_triggers sample_wa_event sample_wa_senders sample_wa_group)

lemma sample_wa_first:
  "fst (dispatch_message sample_wa_env 5 (sample_message ''49170@c.us'') sample_wa_db)
     = Inr (WaDispatched [(''nightly'', ''run_s'', False)] [])"
proof -
  let ?e = "whatsapp_trigger_event 5 (sample_message ''49170@c.us'')"
  let ?spec = "sample_spec\<lparr>spec_triggers := [sample_wa_trigger]\<rparr>"
  have runs: "db_runs sample_wa_db = [sample_run ''run_1'' Running]" by (simp add: sample_wa_db_def sample_scheduled_parts)
  have ok: "st_runnable (agent_job_provider_status (wa_providers sample_wa_env) (spec_agent ?spec))"
    by (simp add: sample_wa_env_def agent_job_provider_status_def sample_spec_def sample_env_def probed_status_def)
  have "int_str 0 = ''0''" by code_simp
  then have "\<exists>key. resolve_trigger sample_hash [] ?spec (message_event 0 ?e) = Inr (sample_wa_trigger, ''whatsapp-0'', key)"
    by (simp add: resolve_trigger_def pick_trigger_def trigger_label_def Let_def nth_opt_def)
  then obtain key where res: "resolve_trigger sample_hash [] ?spec (message_event 0 ?e) = Inr (sample_wa_trigger, ''whatsapp-0'', key)" ..
  have "\<exists>d'. admit_tx sample_hash 5 ''s'' ?spec sample_wa_trigger ''whatsapp-0'' key (ev_body (message_event 0 ?e)) sample_wa_db = Inr ((''run_s'', False), d')"
    by (simp add: admit_tx_def admit_new_def Let_def split_beta insert_run_def run_key_for_def sample_hash_def runs
      sample_run_def get_run_def new_id_def fresh_run_def)
  then obtain d' where tx: "admit_tx sample_hash 5 ''s'' ?spec sample_wa_trigger ''whatsapp-0'' key (ev_body (message_event 0 ?e)) sample_wa_db
      = Inr ((''run_s'', False), d')" ..
  have reg: "get_registered_job sample_wa_db ''nightly'' = Some (spec_hash sample_hash ?spec, ''jobs/nightly.yaml'', ?spec)"
    by (simp add: sample_wa_db_def sample_scheduled_parts)
  have run: "admit_run (wa_providers sample_wa_env) sample_hash 5 [] ''s'' (RegisteredJob ''nightly'') (message_event 0 ?e) sample_wa_db
      = (Inr (''run_s'', False), d')"
    using admit_run_resolved [OF reg res ok] tx by (simp add: tx_def)
  have small: "is_whatsapp_group_chat_id ''120@g.us''" "approval_answer ''report please'' = None"
      "pattern_test sample_wa_env sample_wa_trigger ''report please'' = Some True" by code_simp+
  have env: "wa_hash sample_wa_env = sample_hash" "wa_random sample_wa_env ''nightly'' 0 = ''s''"
    by (simp_all add: sample_wa_env_def)
  have "json_member (sample_message ''49170@c.us'') ''fromMe'' = None"
    by (simp add: sample_message_def json_member_def)
  then show ?thesis
    by (simp add: dispatch_message_def Let_def sample_wa_event sample_wa_triggers sample_wa_group sample_wa_senders small
        offer_trigger_def env run offers_outcome_def)
qed

lemma whatsapp_message_starts_once_witness:
  "\<exists>d' rows. fst (dispatch_message sample_wa_env 5 (sample_message ''49170@c.us'') sample_wa_db)
       = Inr (WaDispatched [(''nightly'', ''run_s'', False)] [])
     \<and> dispatch_message (sample_wa_env\<lparr>wa_random := \<lambda>j k. ''z''\<rparr>) 90 (sample_message ''49170@c.us'') d'
       = (Inr (WaDispatched [(''nightly'', ''run_s'', True)] []), d'\<lparr>db_trigger_audit := rows\<rparr>)"
proof -
  let ?m = "sample_message ''49170@c.us''"
  let ?d = "snd (dispatch_message sample_wa_env 5 ?m sample_wa_db)"
  have "dispatch_message sample_wa_env 5 ?m sample_wa_db = (Inr (WaDispatched [(''nightly'', ''run_s'', False)] []), ?d)"
    using sample_wa_first by (metis prod.collapse)
  moreover note dispatched_ids [OF sample_wa_db_ok this]
  ultimately obtain a2 r2 d3 where "dispatch_message (sample_wa_env\<lparr>wa_random := \<lambda>j k. ''z'', wa_providers := wa_providers sample_wa_env\<rparr>) 90 ?m ?d
      = (Inr (WaDispatched a2 r2), d3)" "a2 = [(''nightly'', ''run_s'', True)] \<and> r2 = [] \<and> (\<exists>rows. d3 = ?d\<lparr>db_trigger_audit := rows\<rparr>)"
    using whatsapp_message_starts_once [OF sample_wa_db_ok, of sample_wa_env 5 ?m "[(''nightly'', ''run_s'', False)]" "[]" ?d ?d
        "wa_providers sample_wa_env" "\<lambda>j k. ''z''" 90]
    by (auto simp: keeps_admissions_def refused_jobs_def)
  moreover have "sample_wa_env\<lparr>wa_random := \<lambda>j k. ''z'', wa_providers := wa_providers sample_wa_env\<rparr> = sample_wa_env\<lparr>wa_random := \<lambda>j k. ''z''\<rparr>"
    by simp
  ultimately show ?thesis using sample_wa_first by metis
qed

end
