(* ===== verification/EffectFiles.thy ===== *)
theory EffectFiles
  imports JobTools
begin

text \<open>
  The ledger of external side effects of thread executors (\<open>effect-ledger.js\<close>): one file per
  idempotency key. Files, the audit log and the external system make up the world; the process may
  die before any action on it. While a call waits for an approval, decisions of other processes
  come in; otherwise calls do not overlap. The instant of the process is that of the whole call.
\<close>

section \<open>Files\<close>

datatype approval_mark = NoApproval | PendingApproval | ApprovedMark | DeniedMark

record file_effect =
  fe_key :: string
  fe_kind :: string
  fe_job :: "string option"
  fe_payload :: json
  fe_digest :: string
  fe_state :: effect_state
  fe_outcome :: "string option"
  fe_approval :: approval_mark
  fe_decided_by :: "string option"
  fe_reason :: "string option"
  fe_requested_at :: "int option"
  fe_decided_at :: "int option"
  fe_dispatched_at :: "int option"
  fe_attempts :: "(json \<times> int) list"
  fe_result :: json
  fe_committed_at :: "int option"
  fe_reconciled :: "json option"
  fe_created_at :: int
  fe_updated_at :: int

text \<open>The world: what is left of the process's life is a number of actions, or no bound.\<close>

record 'x fx_world =
  fx_files :: "string \<Rightarrow> file_effect option"
  fx_audit :: "(string \<times> string) list"
  fx_ext :: 'x
  fx_left :: "nat option"
  fx_now :: int

datatype fx_error = LedgerError string nat | HookThrew | EngineError | ProcessDied

type_synonym ('x, 'a) fx = "'x fx_world \<Rightarrow> (fx_error, 'a) result \<times> 'x fx_world"

definition fx_return :: "'a \<Rightarrow> ('x, 'a) fx" where
  "fx_return a w = (Inr a, w)"

definition fx_throw :: "fx_error \<Rightarrow> ('x, 'a) fx" where
  "fx_throw e w = (Inl e, w)"

definition fx_bind :: "('x, 'a) fx \<Rightarrow> ('a \<Rightarrow> ('x, 'b) fx) \<Rightarrow> ('x, 'b) fx" where
  "fx_bind m k w = (case m w of (Inl e, w1) \<Rightarrow> (Inl e, w1) | (Inr a, w1) \<Rightarrow> k a w1)"

definition fx_act :: "('x fx_world \<Rightarrow> 'a \<times> 'x fx_world) \<Rightarrow> ('x, 'a) fx" where
  "fx_act f w =
     (case fx_left w of
        None \<Rightarrow> (case f w of (a, w1) \<Rightarrow> (Inr a, w1))
      | Some n \<Rightarrow> if n = 0 then (Inl ProcessDied, w)
                  else (case f (w\<lparr>fx_left := Some (n - 1)\<rparr>) of (a, w1) \<Rightarrow> (Inr a, w1)))"

definition clean_text :: "string option \<Rightarrow> string" where
  "clean_text x = (case x of None \<Rightarrow> [] | Some s \<Rightarrow> str_trim s)"

definition nonempty :: "string \<Rightarrow> string option" where
  "nonempty s = (if s = [] then None else Some s)"

definition effect_path :: "(string \<Rightarrow> string) \<Rightarrow> string \<Rightarrow> string" where
  "effect_path H key = take 32 (H key)"

definition payload_digest :: "(string \<Rightarrow> string) \<Rightarrow> json \<Rightarrow> string" where
  "payload_digest H payload = H (json_stringify payload)"

definition require_key :: "string \<Rightarrow> (fx_error, string) result" where
  "require_key key = (let k = str_trim key in if k = [] then Inl (LedgerError ''effect_key_required'' 400) else Inr k)"

definition read_effect :: "(string \<Rightarrow> string) \<Rightarrow> string \<Rightarrow> ('x, file_effect option) fx" where
  "read_effect H key = fx_act (\<lambda>w. (fx_files w (effect_path H key), w))"

definition put_effect :: "(string \<Rightarrow> string) \<Rightarrow> file_effect \<Rightarrow> 'x fx_world \<Rightarrow> file_effect \<times> 'x fx_world" where
  "put_effect H e w =
     (let e1 = e\<lparr>fe_updated_at := fx_now w\<rparr> in (e1, w\<lparr>fx_files := (fx_files w)(effect_path H (fe_key e) \<mapsto> e1)\<rparr>))"

definition save_effect :: "(string \<Rightarrow> string) \<Rightarrow> file_effect \<Rightarrow> ('x, file_effect) fx" where
  "save_effect H e = fx_act (put_effect H e)"

definition audit_effect_event :: "string \<Rightarrow> file_effect \<Rightarrow> ('x, unit) fx" where
  "audit_effect_event kind e = fx_act (\<lambda>w. ((), w\<lparr>fx_audit := fx_audit w @ [(kind, fe_key e)]\<rparr>))"

text \<open>A call of the caller's code: \<open>None\<close> when it throws.\<close>

definition fx_hook :: "('x \<Rightarrow> 'a option \<times> 'x) \<Rightarrow> ('x, 'a) fx" where
  "fx_hook f = fx_bind (fx_act (\<lambda>w. (fst (f (fx_ext w)), w\<lparr>fx_ext := snd (f (fx_ext w))\<rparr>)))
     (\<lambda>r. case r of None \<Rightarrow> fx_throw HookThrew | Some a \<Rightarrow> fx_return a)"

definition fx_lift :: "(fx_error, 'a) result \<Rightarrow> ('x, 'a) fx" where
  "fx_lift r w = (r, w)"

section \<open>Listing\<close>

record effect_filter =
  ff_job :: "string option"
  ff_state :: "effect_state option"
  ff_approval :: "approval_mark option"

definition passes_filter :: "effect_filter \<Rightarrow> file_effect \<Rightarrow> bool" where
  "passes_filter f e \<longleftrightarrow>
     (case ff_job f of None \<Rightarrow> True | Some j \<Rightarrow> j = [] \<or> fe_job e = Some j)
     \<and> (case ff_state f of None \<Rightarrow> True | Some s \<Rightarrow> fe_state e = s)
     \<and> (case ff_approval f of None \<Rightarrow> True | Some a \<Rightarrow> fe_approval e = a)"

text \<open>The files in the order of the directory; the instants of creation sort as their texts do.\<close>

definition list_file_effects :: "effect_filter \<Rightarrow> file_effect option list \<Rightarrow> file_effect list" where
  "list_file_effects f files = sort_key fe_created_at (filter (passes_filter f) (concat (map (case_option [] (\<lambda>e. [e])) files)))"

section \<open>Decisions\<close>

definition decided_effect :: "string \<Rightarrow> string \<Rightarrow> string \<Rightarrow> int \<Rightarrow> file_effect \<Rightarrow> file_effect" where
  "decided_effect decision who reason now e =
     (let approved = (to_lower (str_trim decision) = ''approved'') in
      e\<lparr>fe_state := (if approved then fe_state e else EffectFailed),
        fe_outcome := (if approved then (case fe_outcome e of Some [] \<Rightarrow> None | x \<Rightarrow> x) else Some ''denied''),
        fe_approval := (if approved then ApprovedMark else DeniedMark),
        fe_decided_by := nonempty (str_trim who), fe_reason := nonempty (str_trim reason), fe_decided_at := Some now\<rparr>)"

definition decide_effect_approval ::
  "(string \<Rightarrow> string) \<Rightarrow> string \<Rightarrow> string \<Rightarrow> string \<Rightarrow> string \<Rightarrow> ('x, file_effect) fx" where
  "decide_effect_approval H key decision who reason =
     fx_bind (fx_lift (require_key key)) (\<lambda>k. fx_bind (read_effect H k) (\<lambda>r. case r of
        None \<Rightarrow> fx_throw (LedgerError ''effect_not_found'' 404)
      | Some e \<Rightarrow>
          if fe_approval e \<noteq> PendingApproval then fx_return e
          else fx_bind (fx_act (\<lambda>w. put_effect H (decided_effect decision who reason (fx_now w) e) w)) (\<lambda>e1.
            fx_bind (audit_effect_event (if fe_approval e1 = ApprovedMark then ''effect_approved'' else ''effect_denied'') e1)
              (\<lambda>_. fx_return e1))))"

text \<open>
  While a call polls, other processes decide; a poll is what they do in one interval, as a key, the
  decision, who decided and why. The call gives up when its polls are over.
\<close>

type_synonym decision_made = "string \<times> string \<times> string \<times> string"

definition decide_in :: "(string \<Rightarrow> string) \<Rightarrow> int \<Rightarrow> decision_made \<Rightarrow> (string \<Rightarrow> file_effect option) \<Rightarrow> string \<Rightarrow> file_effect option" where
  "decide_in H now d files =
     (case d of (key, decision, who, reason) \<Rightarrow>
        (case files (effect_path H (str_trim key)) of
           None \<Rightarrow> files
         | Some e \<Rightarrow> if str_trim key = [] \<or> fe_approval e \<noteq> PendingApproval then files
             else files(effect_path H (fe_key e) \<mapsto> (decided_effect decision who reason now e)\<lparr>fe_updated_at := now\<rparr>)))"

fun wait_for_approval_decision :: "(string \<Rightarrow> string) \<Rightarrow> string \<Rightarrow> decision_made list list \<Rightarrow> ('x, file_effect option) fx" where
  "wait_for_approval_decision H key [] =
     fx_bind (read_effect H key) (\<lambda>r. case r of
        Some e \<Rightarrow> if fe_approval e = PendingApproval then fx_throw (LedgerError ''effect_approval_timeout'' 409) else fx_return r
      | None \<Rightarrow> fx_return r)"
| "wait_for_approval_decision H key (ds # polls) =
     fx_bind (read_effect H key) (\<lambda>r. case r of
        Some e \<Rightarrow> if fe_approval e = PendingApproval
          then fx_bind (fx_act (\<lambda>w. ((), w\<lparr>fx_files := fold (decide_in H (fx_now w)) ds (fx_files w)\<rparr>)))
                 (\<lambda>_. wait_for_approval_decision H key polls)
          else fx_return r
      | None \<Rightarrow> fx_return r)"

section \<open>Performing an effect\<close>

record 'x effect_spec =
  es_key :: string
  es_kind :: string
  es_job :: string
  es_payload :: json
  es_approval :: string
  es_attempt :: json
  es_polls :: "decision_made list list"
  es_requested :: "'x \<Rightarrow> unit option \<times> 'x"
  es_reconcile :: "(file_effect \<Rightarrow> 'x \<Rightarrow> json option \<times> 'x) option"
  es_perform :: "string \<Rightarrow> file_effect \<Rightarrow> 'x \<Rightarrow> json option \<times> 'x"
  es_after :: "json \<Rightarrow> file_effect \<Rightarrow> 'x \<Rightarrow> unit option \<times> 'x"

datatype effect_status = Deduplicated | Reconciled | PerformedNow

definition commit_file_effect :: "(string \<Rightarrow> string) \<Rightarrow> file_effect \<Rightarrow> json \<Rightarrow> json option \<Rightarrow> ('x, file_effect) fx" where
  "commit_file_effect H e result reconciled =
     fx_bind (fx_act (\<lambda>w. put_effect H (e\<lparr>fe_state := Committed, fe_outcome := Some ''committed'', fe_result := result,
         fe_committed_at := Some (fx_now w), fe_reconciled := reconciled\<rparr>) w)) (\<lambda>c.
       fx_bind (audit_effect_event (if reconciled \<noteq> None then ''effect_reconciled'' else ''effect_committed'') c) (\<lambda>_. fx_return c))"

definition new_file_effect :: "(string \<Rightarrow> string) \<Rightarrow> string \<Rightarrow> 'x effect_spec \<Rightarrow> int \<Rightarrow> file_effect" where
  "new_file_effect H key sp now =
     (let required = (to_lower (str_trim (es_approval sp)) = ''required'') in
      \<lparr>fe_key = key, fe_kind = (if str_trim (es_kind sp) = [] then ''effect'' else str_trim (es_kind sp)),
       fe_job = nonempty (str_trim (es_job sp)), fe_payload = es_payload sp, fe_digest = payload_digest H (es_payload sp),
       fe_state = Intended, fe_outcome = None, fe_approval = (if required then PendingApproval else NoApproval),
       fe_decided_by = None, fe_reason = None, fe_requested_at = (if required then Some now else None), fe_decided_at = None,
       fe_dispatched_at = None, fe_attempts = [], fe_result = JNull, fe_committed_at = None, fe_reconciled = None,
       fe_created_at = now, fe_updated_at = now\<rparr>)"

definition denied_error :: fx_error where
  "denied_error = LedgerError ''effect_approval_denied'' 403"

definition ensure_effect :: "(string \<Rightarrow> string) \<Rightarrow> string \<Rightarrow> 'x effect_spec \<Rightarrow> file_effect option \<Rightarrow> ('x, file_effect) fx" where
  "ensure_effect H key sp r =
     (case r of
        Some e \<Rightarrow> fx_return e
      | None \<Rightarrow> fx_bind (fx_act (\<lambda>w. put_effect H (new_file_effect H key sp (fx_now w)) w)) (\<lambda>e.
          fx_bind (audit_effect_event (if fe_approval e = PendingApproval then ''effect_approval_requested'' else ''effect_intended'') e)
            (\<lambda>_. fx_return e)))"

definition await_approval :: "(string \<Rightarrow> string) \<Rightarrow> string \<Rightarrow> 'x effect_spec \<Rightarrow> file_effect \<Rightarrow> ('x, file_effect) fx" where
  "await_approval H key sp e =
     (if fe_approval e \<noteq> PendingApproval then fx_return e
      else fx_bind (fx_hook (es_requested sp)) (\<lambda>_. fx_bind (wait_for_approval_decision H key (es_polls sp)) (\<lambda>r. case r of
          None \<Rightarrow> fx_throw EngineError
        | Some e1 \<Rightarrow> if fe_outcome e1 = Some ''denied'' then fx_throw denied_error else fx_return e1)))"

definition outcome_open :: "file_effect \<Rightarrow> bool" where
  "outcome_open e \<longleftrightarrow> (fe_state e = Intended \<and> fe_dispatched_at e \<noteq> None) \<or> fe_state e = Unknown"

text \<open>The look-up in the external system: a result, or \<open>None\<close> when the effect may be performed.\<close>

definition reconcile_open :: "(string \<Rightarrow> string) \<Rightarrow> 'x effect_spec \<Rightarrow> file_effect \<Rightarrow> ('x, (effect_status \<times> json) option) fx" where
  "reconcile_open H sp e =
     (if \<not> outcome_open e then fx_return None
      else (case es_reconcile sp of
          None \<Rightarrow> fx_bind (save_effect H (e\<lparr>fe_state := Unknown, fe_outcome := Some ''unknown''\<rparr>))
            (\<lambda>_. fx_throw (LedgerError ''effect_outcome_unknown'' 409))
        | Some f \<Rightarrow> fx_bind (fx_hook (f e)) (\<lambda>v.
            if truthy v then fx_bind (commit_file_effect H e v (Some (es_attempt sp))) (\<lambda>c. fx_return (Some (Reconciled, fe_result c)))
            else fx_bind (audit_effect_event ''effect_reconcile_missing'' e) (\<lambda>_. fx_return None))))"

definition dispatch_effect :: "(string \<Rightarrow> string) \<Rightarrow> string \<Rightarrow> 'x effect_spec \<Rightarrow> file_effect \<Rightarrow> ('x, effect_status \<times> json) fx" where
  "dispatch_effect H key sp e =
     fx_bind (fx_act (\<lambda>w. put_effect H (e\<lparr>fe_state := Intended, fe_dispatched_at := Some (fx_now w),
         fe_attempts := fe_attempts e @ [(es_attempt sp, fx_now w)]\<rparr>) w)) (\<lambda>e1.
       fx_bind (audit_effect_event ''effect_dispatched'' e1) (\<lambda>_.
         fx_bind (fx_hook (es_perform sp key e1)) (\<lambda>v.
           fx_bind (fx_hook (es_after sp v e1)) (\<lambda>_.
             fx_bind (commit_file_effect H e1 v None) (\<lambda>c. fx_return (PerformedNow, fe_result c))))))"

text \<open>What an existing file settles already; \<open>None\<close> to go on.\<close>

definition known_effect :: "(string \<Rightarrow> string) \<Rightarrow> 'x effect_spec \<Rightarrow> file_effect option \<Rightarrow> ('x, (effect_status \<times> json) option) fx" where
  "known_effect H sp r =
     (case r of
        None \<Rightarrow> fx_return None
      | Some e \<Rightarrow>
          if fe_digest e \<noteq> payload_digest H (es_payload sp) then fx_throw (LedgerError ''effect_idempotency_conflict'' 409)
          else if fe_state e = Committed
          then fx_bind (audit_effect_event ''effect_deduplicated'' e) (\<lambda>_. fx_return (Some (Deduplicated, fe_result e)))
          else if fe_outcome e = Some ''denied'' then fx_throw denied_error
          else fx_return None)"

definition run_effect :: "(string \<Rightarrow> string) \<Rightarrow> 'x effect_spec \<Rightarrow> ('x, effect_status \<times> json) fx" where
  "run_effect H sp =
     fx_bind (fx_lift (require_key (es_key sp))) (\<lambda>key. fx_bind (read_effect H key) (\<lambda>r.
       fx_bind (known_effect H sp r) (\<lambda>known. case known of
         Some y \<Rightarrow> fx_return y
       | None \<Rightarrow> fx_bind (ensure_effect H key sp r) (\<lambda>e. fx_bind (await_approval H key sp e) (\<lambda>e1.
           fx_bind (reconcile_open H sp e1) (\<lambda>x. case x of
             Some y \<Rightarrow> fx_return y
           | None \<Rightarrow> dispatch_effect H key sp e1))))))"

definition effect_is_terminal :: "file_effect \<Rightarrow> bool" where
  "effect_is_terminal e \<longleftrightarrow> fe_state e = Committed"

section \<open>A Hoare logic over the files and the external system\<close>

type_synonym 'x fx_pred = "(string \<Rightarrow> file_effect option) \<Rightarrow> 'x \<Rightarrow> bool"

text \<open>\<open>I\<close> is what holds wherever the program stops with an error or its process dies.\<close>

definition fx_hoare :: "'x fx_pred \<Rightarrow> 'x fx_pred \<Rightarrow> ('x, 'a) fx \<Rightarrow> ('a \<Rightarrow> 'x fx_pred) \<Rightarrow> bool" where
  "fx_hoare I P m Q \<longleftrightarrow> (\<forall>w. P (fx_files w) (fx_ext w) \<longrightarrow>
     (case m w of (Inl e, w1) \<Rightarrow> I (fx_files w1) (fx_ext w1) | (Inr a, w1) \<Rightarrow> Q a (fx_files w1) (fx_ext w1)))"

lemma fx_hoare_bind:
  fixes P :: "'x fx_pred"
  assumes "fx_hoare I P m R" and "\<And>a. fx_hoare I (R a) (k a) Q"
  shows "fx_hoare I P (fx_bind m k) Q"
  unfolding fx_hoare_def
proof (intro allI impI)
  fix w :: "'x fx_world"
  assume "P (fx_files w) (fx_ext w)"
  with assms(1) have *: "case m w of (Inl e, w1) \<Rightarrow> I (fx_files w1) (fx_ext w1) | (Inr a, w1) \<Rightarrow> R a (fx_files w1) (fx_ext w1)"
    by (simp add: fx_hoare_def)
  show "case fx_bind m k w of (Inl e, w1) \<Rightarrow> I (fx_files w1) (fx_ext w1) | (Inr a, w1) \<Rightarrow> Q a (fx_files w1) (fx_ext w1)"
    using * assms(2) by (cases "m w"; cases "fst (m w)") (auto simp: fx_bind_def fx_hoare_def)
qed

lemma fx_hoare_return: "(\<And>fs x. P fs x \<Longrightarrow> Q a fs x) \<Longrightarrow> fx_hoare I P (fx_return a) Q"
  by (simp add: fx_hoare_def fx_return_def)

lemma fx_hoare_throw: "(\<And>fs x. P fs x \<Longrightarrow> I fs x) \<Longrightarrow> fx_hoare I P (fx_throw e) Q"
  by (simp add: fx_hoare_def fx_throw_def)

lemma fx_hoare_act:
  fixes P :: "'x fx_pred"
  assumes "\<And>fs x. P fs x \<Longrightarrow> I fs x"
    and "\<And>w. P (fx_files w) (fx_ext w) \<Longrightarrow> Q (fst (f w)) (fx_files (snd (f w))) (fx_ext (snd (f w)))"
  shows "fx_hoare I P (fx_act f) Q"
  unfolding fx_hoare_def
proof (intro allI impI)
  fix w :: "'x fx_world"
  assume P: "P (fx_files w) (fx_ext w)"
  show "case fx_act f w of (Inl e, w1) \<Rightarrow> I (fx_files w1) (fx_ext w1) | (Inr a, w1) \<Rightarrow> Q a (fx_files w1) (fx_ext w1)"
  proof (cases "fx_left w")
    case None
    with assms(2) [OF P] show ?thesis by (simp add: fx_act_def split_beta)
  next
    case (Some n)
    have "P (fx_files (w\<lparr>fx_left := Some (n - 1)\<rparr>)) (fx_ext (w\<lparr>fx_left := Some (n - 1)\<rparr>))" using P by simp
    from assms(2) [OF this] assms(1) [OF P] Some show ?thesis by (simp add: fx_act_def split_beta)
  qed
qed

lemma fx_hoare_fact:
  assumes "\<And>fs x. P fs x \<Longrightarrow> C" and "C \<Longrightarrow> fx_hoare I P m Q"
  shows "fx_hoare I P m Q"
  using assms by (fastforce simp: fx_hoare_def)

lemma fx_hoare_weaken: "fx_hoare I P m Q \<Longrightarrow> (\<And>fs x. P' fs x \<Longrightarrow> P fs x) \<Longrightarrow> (\<And>a fs x. Q a fs x \<Longrightarrow> Q' a fs x) \<Longrightarrow> fx_hoare I P' m Q'"
  unfolding fx_hoare_def by (fastforce split: prod.splits sum.splits)

lemma fx_hoare_pre: "fx_hoare I P m Q \<Longrightarrow> (\<And>fs x. P' fs x \<Longrightarrow> P fs x) \<Longrightarrow> fx_hoare I P' m Q"
  by (rule fx_hoare_weaken)

lemma fx_hoare_read:
  assumes "\<And>fs x. P fs x \<Longrightarrow> I fs x"
  shows "fx_hoare I P (read_effect H key) (\<lambda>r fs x. P fs x \<and> fs (effect_path H key) = r)"
  unfolding read_effect_def by (rule fx_hoare_act [OF assms]) simp_all

lemma fx_hoare_audit: "(\<And>fs x. P fs x \<Longrightarrow> I fs x) \<Longrightarrow> fx_hoare I P (audit_effect_event kind e) (\<lambda>_. P)"
  unfolding audit_effect_event_def by (rule fx_hoare_act) simp_all

lemma fx_hoare_hook:
  fixes P :: "'x fx_pred"
  assumes "\<And>fs x. P fs x \<Longrightarrow> I fs x"
    and "\<And>fs x r x'. P fs x \<Longrightarrow> f x = (r, x') \<Longrightarrow> (case r of None \<Rightarrow> I fs x' | Some a \<Rightarrow> Q a fs x')"
  shows "fx_hoare I P (fx_hook f) Q"
  unfolding fx_hook_def
proof (rule fx_hoare_bind [where R = "\<lambda>r fs x. case r of None \<Rightarrow> I fs x | Some a \<Rightarrow> Q a fs x"])
  have step: "case fst (f x) of None \<Rightarrow> I fs (snd (f x)) | Some a \<Rightarrow> Q a fs (snd (f x))" if "P fs x" for fs x
    using assms(2) [OF that surjective_pairing] .
  show "fx_hoare I P (fx_act (\<lambda>w. (fst (f (fx_ext w)), w\<lparr>fx_ext := snd (f (fx_ext w))\<rparr>)))
      (\<lambda>r fs x. case r of None \<Rightarrow> I fs x | Some a \<Rightarrow> Q a fs x)"
    by (rule fx_hoare_act [OF assms(1)]) (auto dest!: step split: option.splits)
qed (auto intro: fx_hoare_return fx_hoare_throw split: option.split)

section \<open>At most once\<close>

text \<open>Whether the effect of a file may have happened at the external system.\<close>

definition may_have_happened :: "file_effect \<Rightarrow> bool" where
  "may_have_happened e \<longleftrightarrow> fe_state e = Committed \<or> outcome_open e"

text \<open>\<open>marks x k\<close> counts how often the effect with the idempotency key \<open>k\<close> happened.\<close>

definition files_sound :: "(string \<Rightarrow> string) \<Rightarrow> ('x \<Rightarrow> string \<Rightarrow> nat) \<Rightarrow> string \<Rightarrow> 'x fx_pred" where
  "files_sound H marks k fs x \<longleftrightarrow>
     marks x k \<le> 1
     \<and> (marks x k = 1 \<longrightarrow> (\<exists>e. fs (effect_path H k) = Some e \<and> may_have_happened e))
     \<and> (\<forall>p e. fs p = Some e \<longrightarrow> effect_path H (fe_key e) = p \<and> (fe_approval e = PendingApproval \<longrightarrow> \<not> may_have_happened e))"

text \<open>
  What the callers' code promises: performing marks its own key only and at most once, nothing else
  marks, and a look-up that answers nothing is right.
\<close>

definition honest :: "('x \<Rightarrow> string \<Rightarrow> nat) \<Rightarrow> 'x effect_spec \<Rightarrow> bool" where
  "honest marks sp \<longleftrightarrow>
     (\<forall>e x k. marks (snd (es_perform sp (str_trim (es_key sp)) e x)) k \<le> marks x k + (if k = str_trim (es_key sp) then 1 else 0))
     \<and> (\<forall>e x k. marks (snd (es_perform sp (str_trim (es_key sp)) e x)) k \<ge> marks x k)
     \<and> (\<forall>f e x. es_reconcile sp = Some f \<longrightarrow> marks (snd (f e x)) = marks x
          \<and> (\<forall>v. fst (f e x) = Some v \<longrightarrow> \<not> truthy v \<longrightarrow> marks x (str_trim (es_key sp)) = 0))
     \<and> (\<forall>x. marks (snd (es_requested sp x)) = marks x) \<and> (\<forall>v e x. marks (snd (es_after sp v e x)) = marks x)"

lemma sound_put:
  assumes "files_sound H marks k fs x" and "fs (effect_path H (fe_key e)) = Some e"
    and "fe_key e' = fe_key e" and "may_have_happened e \<longrightarrow> may_have_happened e'"
    and "fe_approval e' = PendingApproval \<longrightarrow> \<not> may_have_happened e'"
  shows "files_sound H marks k (fs(effect_path H (fe_key e) \<mapsto> e')) x"
proof -
  let ?p = "effect_path H (fe_key e)"
  have "marks x k \<le> 1" using assms(1) by (simp add: files_sound_def)
  moreover have "\<exists>f. (fs(?p \<mapsto> e')) (effect_path H k) = Some f \<and> may_have_happened f" if one: "marks x k = 1"
  proof -
    obtain f where f: "fs (effect_path H k) = Some f" "may_have_happened f" using assms(1) one by (auto simp: files_sound_def)
    show ?thesis
    proof (cases "effect_path H k = ?p")
      case True
      with f assms(2,4) show ?thesis by simp
    qed (use f in simp)
  qed
  moreover have "effect_path H (fe_key f) = p \<and> (fe_approval f = PendingApproval \<longrightarrow> \<not> may_have_happened f)"
    if "(fs(?p \<mapsto> e')) p = Some f" for p f
  proof (cases "p = ?p")
    case True
    with that have "f = e'" by simp
    with True assms(3,5) show ?thesis by simp
  next
    case False
    with that have "fs p = Some f" by simp
    with assms(1) show ?thesis by (simp add: files_sound_def)
  qed
  ultimately show ?thesis unfolding files_sound_def by blast
qed

lemma happened_updated [simp]: "may_have_happened (e\<lparr>fe_updated_at := t\<rparr>) = may_have_happened e"
  by (simp add: may_have_happened_def outcome_open_def)

lemma sound_path: "files_sound H marks k fs x \<Longrightarrow> fs p = Some e \<Longrightarrow> effect_path H (fe_key e) = p"
  by (simp add: files_sound_def)

lemma decided_key [simp]: "fe_key (decided_effect d w r t e) = fe_key e"
  by (simp add: decided_effect_def Let_def)

lemma decided_kept:
  assumes "fe_approval e = PendingApproval" "\<not> may_have_happened e"
  shows "\<not> may_have_happened (decided_effect d w r t e)" "fe_approval (decided_effect d w r t e) \<noteq> PendingApproval"
    "fe_key (decided_effect d w r t e) = fe_key e"
  using assms by (auto simp: decided_effect_def may_have_happened_def outcome_open_def Let_def)

text \<open>During a wait: the file of the call is there and not committed.\<close>

definition waiting :: "(string \<Rightarrow> string) \<Rightarrow> ('x \<Rightarrow> string \<Rightarrow> nat) \<Rightarrow> string \<Rightarrow> string \<Rightarrow> 'x fx_pred" where
  "waiting H marks k key fs x \<longleftrightarrow> files_sound H marks k fs x
     \<and> (\<exists>e. fs (effect_path H key) = Some e \<and> fe_state e \<noteq> Committed)"

lemma decide_in_waiting:
  assumes "waiting H marks k key fs x"
  shows "waiting H marks k key (decide_in H now d fs) x"
proof -
  obtain key' decision who reason where d: "d = (key', decision, who, reason)" by (cases d) auto
  show ?thesis
  proof (cases "fs (effect_path H (str_trim key'))")
    case (Some e)
    let ?e = "(decided_effect decision who reason now e)\<lparr>fe_updated_at := now\<rparr>"
    show ?thesis
    proof (cases "str_trim key' = [] \<or> fe_approval e \<noteq> PendingApproval")
      case False
      have sound: "files_sound H marks k fs x" using assms by (simp add: waiting_def)
      note path = sound_path [OF this Some]
      have e: "\<not> may_have_happened e" using sound Some False by (simp add: files_sound_def)
      note kept = decided_kept [OF _ e, of decision who reason now]
      have sound': "files_sound H marks k (fs(effect_path H (fe_key e) \<mapsto> ?e)) x"
        by (rule sound_put [OF sound]) (use Some path e kept False in auto)
      have "fe_state ?e \<noteq> Committed" using kept(1) False by (simp add: may_have_happened_def)
      with assms sound' show ?thesis
        using Some False path by (simp add: decide_in_def d waiting_def)
    qed (use assms Some d in \<open>auto simp: decide_in_def\<close>)
  qed (use assms d in \<open>simp add: decide_in_def\<close>)
qed

lemma decisions_waiting: "waiting H marks k key fs x \<Longrightarrow> waiting H marks k key (fold (decide_in H now) ds fs) x"
  by (induction ds arbitrary: fs) (simp_all add: decide_in_waiting)

definition ready :: "(string \<Rightarrow> string) \<Rightarrow> ('x \<Rightarrow> string \<Rightarrow> nat) \<Rightarrow> string \<Rightarrow> string \<Rightarrow> file_effect \<Rightarrow> 'x fx_pred" where
  "ready H marks k key e fs x \<longleftrightarrow> files_sound H marks k fs x \<and> fs (effect_path H key) = Some e
     \<and> fe_state e \<noteq> Committed \<and> fe_approval e \<noteq> PendingApproval"

lemma hoare_wait:
  "fx_hoare (files_sound H marks k) (waiting H marks k key) (wait_for_approval_decision H key polls)
     (\<lambda>r fs x. \<exists>e. r = Some e \<and> ready H marks k key e fs x)"
proof (induction polls)
  case Nil
  show ?case
    unfolding wait_for_approval_decision.simps
    by (rule fx_hoare_bind, rule fx_hoare_read)
      (auto simp: waiting_def ready_def intro!: fx_hoare_return fx_hoare_throw split: option.split)
next
  case (Cons ds polls)
  show ?case
    unfolding wait_for_approval_decision.simps
  proof (rule fx_hoare_bind, rule fx_hoare_read)
    fix r :: "file_effect option"
    have go: "fx_hoare (files_sound H marks k) (\<lambda>fs x. waiting H marks k key fs x \<and> fs (effect_path H key) = r)
        (fx_bind (fx_act (\<lambda>w. ((), w\<lparr>fx_files := fold (decide_in H (fx_now w)) ds (fx_files w)\<rparr>)))
          (\<lambda>_. wait_for_approval_decision H key polls)) (\<lambda>r fs x. \<exists>e. r = Some e \<and> ready H marks k key e fs x)"
    proof (rule fx_hoare_bind [where R = "\<lambda>_. waiting H marks k key"])
      show "fx_hoare (files_sound H marks k) (\<lambda>fs x. waiting H marks k key fs x \<and> fs (effect_path H key) = r)
          (fx_act (\<lambda>w. ((), w\<lparr>fx_files := fold (decide_in H (fx_now w)) ds (fx_files w)\<rparr>))) (\<lambda>_. waiting H marks k key)"
        by (rule fx_hoare_act) (simp_all add: decisions_waiting, simp add: waiting_def)
    qed (rule Cons.IH)
    show "fx_hoare (files_sound H marks k) (\<lambda>fs x. waiting H marks k key fs x \<and> fs (effect_path H key) = r)
        (case r of Some e \<Rightarrow> if fe_approval e = PendingApproval
            then fx_bind (fx_act (\<lambda>w. ((), w\<lparr>fx_files := fold (decide_in H (fx_now w)) ds (fx_files w)\<rparr>)))
              (\<lambda>_. wait_for_approval_decision H key polls)
            else fx_return r
          | None \<Rightarrow> fx_return r) (\<lambda>r fs x. \<exists>e. r = Some e \<and> ready H marks k key e fs x)"
      using go by (cases r) (auto simp: waiting_def ready_def intro!: fx_hoare_return)
  qed (simp add: waiting_def)
qed

lemma ready_sound: "ready H marks k key e fs x \<Longrightarrow> files_sound H marks k fs x"
  and ready_file: "ready H marks k key e fs x \<Longrightarrow> fs (effect_path H key) = Some e"
  by (simp_all add: ready_def)

lemma sound_marks: "files_sound H marks k fs x \<Longrightarrow> marks x' k = marks x k \<Longrightarrow> files_sound H marks k fs x'"
  by (simp add: files_sound_def)

lemma hoare_await:
  assumes "honest marks sp"
  shows "fx_hoare (files_sound H marks k)
    (\<lambda>fs x. files_sound H marks k fs x \<and> fs (effect_path H key) = Some e \<and> fe_state e \<noteq> Committed)
    (await_approval H key sp e) (\<lambda>e1. ready H marks k key e1)"
proof (cases "fe_approval e = PendingApproval")
  case False
  then show ?thesis by (auto simp: await_approval_def ready_def intro: fx_hoare_return)
next
  case True
  let ?P = "\<lambda>fs x. files_sound H marks k fs x \<and> fs (effect_path H key) = Some e \<and> fe_state e \<noteq> Committed"
  have "fx_hoare (files_sound H marks k) ?P (fx_hook (es_requested sp)) (\<lambda>_. waiting H marks k key)"
  proof (rule fx_hoare_hook)
    fix fs x r x'
    assume P: "?P fs x" and f: "es_requested sp x = (r, x')"
    have "marks x' k = marks x k" using assms f unfolding honest_def by (metis snd_conv)
    with P sound_marks [of H marks k fs x x'] have "?P fs x'" by simp
    then show "case r of None \<Rightarrow> files_sound H marks k fs x' | Some a \<Rightarrow> waiting H marks k key fs x'"
      by (auto simp: waiting_def split: option.split)
  qed simp
  moreover have "fx_hoare (files_sound H marks k) (waiting H marks k key)
      (fx_bind (wait_for_approval_decision H key (es_polls sp)) (\<lambda>r. case r of
          None \<Rightarrow> fx_throw EngineError
        | Some e1 \<Rightarrow> if fe_outcome e1 = Some ''denied'' then fx_throw denied_error else fx_return e1)) (\<lambda>e1. ready H marks k key e1)"
  proof (rule fx_hoare_bind, rule hoare_wait)
    fix r :: "file_effect option"
    show "fx_hoare (files_sound H marks k) (\<lambda>fs x. \<exists>e. r = Some e \<and> ready H marks k key e fs x)
        (case r of None \<Rightarrow> fx_throw EngineError
        | Some e1 \<Rightarrow> if fe_outcome e1 = Some ''denied'' then fx_throw denied_error else fx_return e1) (\<lambda>e1. ready H marks k key e1)"
      by (cases r) (auto intro: fx_hoare_return fx_hoare_throw ready_sound)
  qed
  ultimately show ?thesis using True by (simp add: await_approval_def fx_hoare_bind)
qed

text \<open>The key of the call may be performed.\<close>

definition clear :: "(string \<Rightarrow> string) \<Rightarrow> ('x \<Rightarrow> string \<Rightarrow> nat) \<Rightarrow> string \<Rightarrow> string \<Rightarrow> file_effect \<Rightarrow> 'x fx_pred" where
  "clear H marks k key e fs x \<longleftrightarrow> ready H marks k key e fs x \<and> (k = key \<longrightarrow> marks x k = 0)"

lemma hoare_commit:
  "fx_hoare (files_sound H marks k)
     (\<lambda>fs x. files_sound H marks k fs x \<and> fs (effect_path H (fe_key e)) = Some e \<and> fe_approval e \<noteq> PendingApproval)
     (commit_file_effect H e v r) (\<lambda>_. files_sound H marks k)"
  unfolding commit_file_effect_def
proof (rule fx_hoare_bind [where R = "\<lambda>_. files_sound H marks k"])
  show "fx_hoare (files_sound H marks k)
     (\<lambda>fs x. files_sound H marks k fs x \<and> fs (effect_path H (fe_key e)) = Some e \<and> fe_approval e \<noteq> PendingApproval)
     (fx_act (\<lambda>w. put_effect H (e\<lparr>fe_state := Committed, fe_outcome := Some ''committed'', fe_result := v,
         fe_committed_at := Some (fx_now w), fe_reconciled := r\<rparr>) w)) (\<lambda>_. files_sound H marks k)"
    by (rule fx_hoare_act) (auto simp: put_effect_def Let_def may_have_happened_def intro!: sound_put)
qed (auto intro!: fx_hoare_bind fx_hoare_audit fx_hoare_return)

lemma hoare_reconcile:
  assumes "honest marks sp" and key: "str_trim (es_key sp) = key"
  shows "fx_hoare (files_sound H marks k) (ready H marks k key e) (reconcile_open H sp e)
    (\<lambda>y fs x. case y of None \<Rightarrow> clear H marks k key e fs x | Some _ \<Rightarrow> files_sound H marks k fs x)"
proof (cases "outcome_open e")
  case False
  have "clear H marks k key e fs x" if r: "ready H marks k key e fs x" for fs x
  proof -
    have "\<not> may_have_happened e" using r False by (simp add: may_have_happened_def ready_def)
    then have "k = key \<Longrightarrow> marks x k \<noteq> 1" using r by (auto simp: ready_def files_sound_def)
    moreover have "marks x k \<le> 1" using r by (simp add: ready_def files_sound_def)
    ultimately show ?thesis using r by (auto simp: clear_def)
  qed
  with False show ?thesis by (auto simp: reconcile_open_def intro: fx_hoare_return)
next
  case True
  show ?thesis
  proof (cases "es_reconcile sp")
    case None
    have "fx_hoare (files_sound H marks k) (ready H marks k key e)
        (save_effect H (e\<lparr>fe_state := Unknown, fe_outcome := Some ''unknown''\<rparr>)) (\<lambda>_. files_sound H marks k)"
      unfolding save_effect_def
    proof (rule fx_hoare_act)
      fix w :: "'a fx_world"
      assume "ready H marks k key e (fx_files w) (fx_ext w)"
      then show "files_sound H marks k (fx_files (snd (put_effect H (e\<lparr>fe_state := Unknown, fe_outcome := Some ''unknown''\<rparr>) w)))
          (fx_ext (snd (put_effect H (e\<lparr>fe_state := Unknown, fe_outcome := Some ''unknown''\<rparr>) w)))"
        using sound_path [of H marks k "fx_files w" "fx_ext w"]
        by (auto simp: put_effect_def Let_def ready_def may_have_happened_def outcome_open_def intro!: sound_put)
    qed (rule ready_sound)
    with True None show ?thesis by (auto simp: reconcile_open_def intro!: fx_hoare_bind fx_hoare_throw)
  next
    case (Some f)
    have hook: "fx_hoare (files_sound H marks k) (ready H marks k key e) (fx_hook (f e))
        (\<lambda>v fs x. ready H marks k key e fs x \<and> (\<not> truthy v \<longrightarrow> marks x key = 0))"
    proof (rule fx_hoare_hook)
      fix fs x r x'
      assume r: "ready H marks k key e fs x" and f: "f e x = (r, x')"
      have same: "marks x' = marks x" using assms(1) Some f by (simp add: honest_def) (metis snd_conv)
      have zero: "r = Some v \<Longrightarrow> \<not> truthy v \<Longrightarrow> marks x key = 0" for v
        using assms(1) Some f key by (simp add: honest_def) (metis fst_conv)
      have "ready H marks k key e fs x'" using r same by (simp add: ready_def files_sound_def)
      then show "case r of None \<Rightarrow> files_sound H marks k fs x' | Some v \<Rightarrow> ready H marks k key e fs x' \<and> (\<not> truthy v \<longrightarrow> marks x' key = 0)"
        using same zero by (auto simp: ready_sound split: option.split)
    qed (rule ready_sound)
    have found: "fx_hoare (files_sound H marks k) (\<lambda>fs x. ready H marks k key e fs x)
        (fx_bind (commit_file_effect H e v (Some (es_attempt sp))) (\<lambda>c. fx_return (Some (Reconciled, fe_result c))))
        (\<lambda>y fs x. case y of None \<Rightarrow> clear H marks k key e fs x | Some _ \<Rightarrow> files_sound H marks k fs x)" for v
    proof (rule fx_hoare_bind [OF fx_hoare_pre [OF hoare_commit]])
      fix fs x
      assume "ready H marks k key e fs x"
      then show "files_sound H marks k fs x \<and> fs (effect_path H (fe_key e)) = Some e \<and> fe_approval e \<noteq> PendingApproval"
        using sound_path [of H marks k fs x] by (auto simp: ready_def)
    qed (auto intro: fx_hoare_return)
    have missing: "fx_hoare (files_sound H marks k) (clear H marks k key e)
        (fx_bind (audit_effect_event ''effect_reconcile_missing'' e) (\<lambda>_. fx_return None))
        (\<lambda>y fs x. case y of None \<Rightarrow> clear H marks k key e fs x | Some _ \<Rightarrow> files_sound H marks k fs x)"
      by (rule fx_hoare_bind [OF fx_hoare_audit]) (auto simp: clear_def ready_def intro: fx_hoare_return)
    have "fx_hoare (files_sound H marks k) (\<lambda>fs x. ready H marks k key e fs x \<and> (\<not> truthy v \<longrightarrow> marks x key = 0))
        (if truthy v then fx_bind (commit_file_effect H e v (Some (es_attempt sp))) (\<lambda>c. fx_return (Some (Reconciled, fe_result c)))
         else fx_bind (audit_effect_event ''effect_reconcile_missing'' e) (\<lambda>_. fx_return None))
        (\<lambda>y fs x. case y of None \<Rightarrow> clear H marks k key e fs x | Some _ \<Rightarrow> files_sound H marks k fs x)" for v
      by (cases "truthy v") (auto intro: fx_hoare_pre [OF found] fx_hoare_pre [OF missing] simp: clear_def)
    with True Some show ?thesis by (simp add: reconcile_open_def fx_hoare_bind [OF hook])
  qed
qed

lemma fx_hoare_dispatch:
  assumes "honest marks sp" and key: "str_trim (es_key sp) = key"
  shows "fx_hoare (files_sound H marks k) (clear H marks k key e) (dispatch_effect H key sp e) (\<lambda>_. files_sound H marks k)"
proof -
  let ?sent = "\<lambda>e1 fs x. files_sound H marks k fs x \<and> fs (effect_path H (fe_key e1)) = Some e1 \<and> fe_approval e1 \<noteq> PendingApproval
      \<and> effect_path H (fe_key e1) = effect_path H key \<and> may_have_happened e1"
  have sent: "fx_hoare (files_sound H marks k) (clear H marks k key e)
      (fx_act (\<lambda>w. put_effect H (e\<lparr>fe_state := Intended, fe_dispatched_at := Some (fx_now w),
         fe_attempts := fe_attempts e @ [(es_attempt sp, fx_now w)]\<rparr>) w))
      (\<lambda>e1 fs x. ?sent e1 fs x \<and> (k = key \<longrightarrow> marks x k = 0))"
  proof (rule fx_hoare_act)
    fix w :: "'a fx_world"
    assume c: "clear H marks k key e (fx_files w) (fx_ext w)"
    then have sound: "files_sound H marks k (fx_files w) (fx_ext w)" and fl: "fx_files w (effect_path H key) = Some e"
      by (simp_all add: clear_def ready_def)
    note path = sound_path [OF sound fl]
    let ?e = "e\<lparr>fe_state := Intended, fe_dispatched_at := Some (fx_now w), fe_attempts := fe_attempts e @ [(es_attempt sp, fx_now w)], fe_updated_at := fx_now w\<rparr>"
    have "files_sound H marks k ((fx_files w)(effect_path H (fe_key e) \<mapsto> ?e)) (fx_ext w)"
      by (rule sound_put [OF sound])
        (use c fl path in \<open>auto simp: clear_def ready_def may_have_happened_def outcome_open_def\<close>)
    then show "?sent (fst (put_effect H (e\<lparr>fe_state := Intended, fe_dispatched_at := Some (fx_now w),
          fe_attempts := fe_attempts e @ [(es_attempt sp, fx_now w)]\<rparr>) w))
        (fx_files (snd (put_effect H (e\<lparr>fe_state := Intended, fe_dispatched_at := Some (fx_now w),
          fe_attempts := fe_attempts e @ [(es_attempt sp, fx_now w)]\<rparr>) w)))
        (fx_ext (snd (put_effect H (e\<lparr>fe_state := Intended, fe_dispatched_at := Some (fx_now w),
          fe_attempts := fe_attempts e @ [(es_attempt sp, fx_now w)]\<rparr>) w)))
      \<and> (k = key \<longrightarrow> marks (fx_ext (snd (put_effect H (e\<lparr>fe_state := Intended, fe_dispatched_at := Some (fx_now w),
          fe_attempts := fe_attempts e @ [(es_attempt sp, fx_now w)]\<rparr>) w))) k = 0)"
      using c path by (simp add: put_effect_def Let_def clear_def ready_def may_have_happened_def outcome_open_def)
  qed (simp add: clear_def ready_def)
  have perform: "fx_hoare (files_sound H marks k) (\<lambda>fs x. ?sent e1 fs x \<and> (k = key \<longrightarrow> marks x k = 0))
      (fx_hook (es_perform sp key e1)) (\<lambda>_. ?sent e1)" for e1
  proof (rule fx_hoare_hook)
    fix fs x r x'
    assume s: "?sent e1 fs x \<and> (k = key \<longrightarrow> marks x k = 0)" and f: "es_perform sp key e1 x = (r, x')"
    have "marks x' k \<le> marks x k + (if k = key then 1 else 0)" "marks x k \<le> marks x' k"
      using assms f unfolding honest_def by (metis snd_conv)+
    then have m: "marks x' k \<le> 1" "k \<noteq> key \<Longrightarrow> marks x' k = marks x k"
      using s by (auto simp: files_sound_def split: if_splits)
    have "?sent e1 fs x'"
    proof (cases "k = key")
      case True
      from s have "effect_path H (fe_key e1) = effect_path H key" "fs (effect_path H (fe_key e1)) = Some e1" "may_have_happened e1" by auto
      with True have "\<exists>e. fs (effect_path H k) = Some e \<and> may_have_happened e" by (intro exI [of _ e1]) simp
      with s m(1) have "files_sound H marks k fs x'" unfolding files_sound_def by blast
      with s show ?thesis by blast
    next
      case False
      have "files_sound H marks k fs x'" by (rule sound_marks [of H marks k fs x]) (use s m(2) [OF False] in simp_all)
      with s show ?thesis by blast
    qed
    then show "case r of None \<Rightarrow> files_sound H marks k fs x' | Some v \<Rightarrow> ?sent e1 fs x'" by (auto split: option.split)
  qed simp
  have after: "fx_hoare (files_sound H marks k) (?sent e1) (fx_hook (es_after sp v e1)) (\<lambda>_. ?sent e1)" for e1 v
  proof (rule fx_hoare_hook)
    fix fs x r x'
    assume s: "?sent e1 fs x" and f: "es_after sp v e1 x = (r, x')"
    have "marks x' = marks x" using assms(1) f unfolding honest_def by (metis snd_conv)
    then have "files_sound H marks k fs x'" using s sound_marks [of H marks k fs x x'] by simp
    with s have "?sent e1 fs x'" by blast
    then show "case r of None \<Rightarrow> files_sound H marks k fs x' | Some v \<Rightarrow> ?sent e1 fs x'" by (auto split: option.split)
  qed simp
  have commit: "fx_hoare (files_sound H marks k) (?sent e1)
      (fx_bind (commit_file_effect H e1 v None) (\<lambda>c. fx_return (PerformedNow, fe_result c))) (\<lambda>_. files_sound H marks k)" for e1 v
    by (rule fx_hoare_bind [OF fx_hoare_pre [OF hoare_commit]]) (auto intro: fx_hoare_return)
  show ?thesis
    unfolding dispatch_effect_def
  proof (rule fx_hoare_bind [OF sent])
    fix e1
    show "fx_hoare (files_sound H marks k) (\<lambda>fs x. ?sent e1 fs x \<and> (k = key \<longrightarrow> marks x k = 0))
        (fx_bind (audit_effect_event ''effect_dispatched'' e1) (\<lambda>_. fx_bind (fx_hook (es_perform sp key e1)) (\<lambda>v.
           fx_bind (fx_hook (es_after sp v e1)) (\<lambda>_. fx_bind (commit_file_effect H e1 v None) (\<lambda>c. fx_return (PerformedNow, fe_result c))))))
        (\<lambda>_. files_sound H marks k)"
      apply (rule fx_hoare_bind [OF fx_hoare_audit])
       apply simp
      apply (rule fx_hoare_bind [OF perform])
      apply (rule fx_hoare_bind [OF after])
      apply (rule commit)
      done
  qed
qed

lemma hoare_run_effect:
  assumes "honest marks sp"
  shows "fx_hoare (files_sound H marks k) (files_sound H marks k) (run_effect H sp) (\<lambda>_. files_sound H marks k)"
  unfolding run_effect_def
proof (rule fx_hoare_bind [where R = "\<lambda>key fs x. files_sound H marks k fs x \<and> str_trim (es_key sp) = key"])
  show "fx_hoare (files_sound H marks k) (files_sound H marks k) (fx_lift (require_key (es_key sp)))
      (\<lambda>key fs x. files_sound H marks k fs x \<and> str_trim (es_key sp) = key)"
    by (auto simp: fx_hoare_def fx_lift_def require_key_def Let_def)
  fix key
  let ?open = "\<lambda>r fs x. files_sound H marks k fs x \<and> str_trim (es_key sp) = key \<and> fs (effect_path H key) = r
      \<and> (case r of None \<Rightarrow> True | Some e \<Rightarrow> fe_state e \<noteq> Committed)"
  have known: "fx_hoare (files_sound H marks k)
      (\<lambda>fs x. (files_sound H marks k fs x \<and> str_trim (es_key sp) = key) \<and> fs (effect_path H key) = r) (known_effect H sp r)
      (\<lambda>y fs x. case y of None \<Rightarrow> ?open r fs x | Some _ \<Rightarrow> files_sound H marks k fs x)" for r
  proof (cases r)
    case None
    then show ?thesis by (auto simp: known_effect_def intro: fx_hoare_return)
  next
    case (Some e)
    then show ?thesis
      by (auto simp: known_effect_def intro!: fx_hoare_return fx_hoare_throw fx_hoare_bind [OF fx_hoare_audit])
  qed
  have ensure: "fx_hoare (files_sound H marks k) (?open r) (ensure_effect H key sp r)
      (\<lambda>e fs x. files_sound H marks k fs x \<and> fs (effect_path H key) = Some e \<and> fe_state e \<noteq> Committed)" for r
  proof (cases r)
    case (Some e)
    then show ?thesis by (auto simp: ensure_effect_def intro: fx_hoare_return)
  next
    case None
    let ?post = "\<lambda>e fs x. files_sound H marks k fs x \<and> fs (effect_path H key) = Some e \<and> fe_state e \<noteq> Committed"
    have "fx_hoare (files_sound H marks k) (?open None) (fx_act (\<lambda>w. put_effect H (new_file_effect H key sp (fx_now w)) w)) ?post"
      by (rule fx_hoare_act)
        (auto simp: put_effect_def new_file_effect_def Let_def files_sound_def may_have_happened_def outcome_open_def)
    then show ?thesis using None by (auto simp: ensure_effect_def intro!: fx_hoare_bind fx_hoare_audit fx_hoare_return)
  qed
  have tail: "fx_hoare (files_sound H marks k) (?open r)
      (fx_bind (ensure_effect H key sp r) (\<lambda>e. fx_bind (await_approval H key sp e) (\<lambda>e1.
           fx_bind (reconcile_open H sp e1) (\<lambda>x. case x of Some y \<Rightarrow> fx_return y | None \<Rightarrow> dispatch_effect H key sp e1))))
      (\<lambda>_. files_sound H marks k)" for r
  proof (rule fx_hoare_fact)
    assume key: "str_trim (es_key sp) = key"
    have last: "fx_hoare (files_sound H marks k) (\<lambda>fs x. case y of None \<Rightarrow> clear H marks k key e1 fs x | Some _ \<Rightarrow> files_sound H marks k fs x)
        (case y of Some z \<Rightarrow> fx_return z | None \<Rightarrow> dispatch_effect H key sp e1) (\<lambda>_. files_sound H marks k)" for y e1
      by (cases y) (auto intro: fx_hoare_return fx_hoare_dispatch [OF assms key])
    show "fx_hoare (files_sound H marks k) (?open r)
      (fx_bind (ensure_effect H key sp r) (\<lambda>e. fx_bind (await_approval H key sp e) (\<lambda>e1.
           fx_bind (reconcile_open H sp e1) (\<lambda>x. case x of Some y \<Rightarrow> fx_return y | None \<Rightarrow> dispatch_effect H key sp e1))))
      (\<lambda>_. files_sound H marks k)"
      by (rule fx_hoare_bind [OF ensure], rule fx_hoare_bind [OF hoare_await [OF assms]],
          rule fx_hoare_bind [OF hoare_reconcile [OF assms key]], rule last)
  qed simp
  show "fx_hoare (files_sound H marks k) (\<lambda>fs x. files_sound H marks k fs x \<and> str_trim (es_key sp) = key)
      (fx_bind (read_effect H key) (\<lambda>r. fx_bind (known_effect H sp r) (\<lambda>known. case known of
         Some y \<Rightarrow> fx_return y
       | None \<Rightarrow> fx_bind (ensure_effect H key sp r) (\<lambda>e. fx_bind (await_approval H key sp e) (\<lambda>e1.
           fx_bind (reconcile_open H sp e1) (\<lambda>x. case x of Some y \<Rightarrow> fx_return y | None \<Rightarrow> dispatch_effect H key sp e1))))))
      (\<lambda>_. files_sound H marks k)"
  proof (rule fx_hoare_bind [OF fx_hoare_read], simp, rule fx_hoare_bind [OF known])
    fix r known
    show "fx_hoare (files_sound H marks k) (\<lambda>fs x. case known of None \<Rightarrow> ?open r fs x | Some _ \<Rightarrow> files_sound H marks k fs x)
        (case known of Some y \<Rightarrow> fx_return y
         | None \<Rightarrow> fx_bind (ensure_effect H key sp r) (\<lambda>e. fx_bind (await_approval H key sp e) (\<lambda>e1.
             fx_bind (reconcile_open H sp e1) (\<lambda>x. case x of Some y \<Rightarrow> fx_return y | None \<Rightarrow> dispatch_effect H key sp e1))))
        (\<lambda>_. files_sound H marks k)"
      by (cases known) (use tail in \<open>auto intro: fx_hoare_return\<close>)
  qed
qed

text \<open>What happens to a ledger: calls, each with the number of actions its process lives and its instant, and decisions.\<close>

datatype 'x ledger_event = CallMade "'x effect_spec" "nat option" int | DecisionMade decision_made int

fun ledger_step :: "(string \<Rightarrow> string) \<Rightarrow> 'x ledger_event \<Rightarrow> 'x fx_world \<Rightarrow> 'x fx_world" where
  "ledger_step H (CallMade sp n t) w = snd (run_effect H sp (w\<lparr>fx_left := n, fx_now := t\<rparr>))"
| "ledger_step H (DecisionMade (key, decision, who, reason) t) w =
     snd (decide_effect_approval H key decision who reason (w\<lparr>fx_left := None, fx_now := t\<rparr>))"

fun honest_event :: "('x \<Rightarrow> string \<Rightarrow> nat) \<Rightarrow> 'x ledger_event \<Rightarrow> bool" where
  "honest_event marks (CallMade sp n t) = honest marks sp"
| "honest_event marks (DecisionMade d t) = True"

lemma hoare_decide:
  "fx_hoare (files_sound H marks k) (files_sound H marks k) (decide_effect_approval H key decision who reason) (\<lambda>_. files_sound H marks k)"
  unfolding decide_effect_approval_def
proof (rule fx_hoare_bind [where R = "\<lambda>_. files_sound H marks k"])
  show "fx_hoare (files_sound H marks k) (files_sound H marks k) (fx_lift (require_key key)) (\<lambda>_. files_sound H marks k)"
    by (auto simp: fx_hoare_def fx_lift_def require_key_def Let_def)
  fix i
  show "fx_hoare (files_sound H marks k) (files_sound H marks k) (fx_bind (read_effect H i) (\<lambda>r. case r of
        None \<Rightarrow> fx_throw (LedgerError ''effect_not_found'' 404)
      | Some e \<Rightarrow>
          if fe_approval e \<noteq> PendingApproval then fx_return e
          else fx_bind (fx_act (\<lambda>w. put_effect H (decided_effect decision who reason (fx_now w) e) w)) (\<lambda>e1.
            fx_bind (audit_effect_event (if fe_approval e1 = ApprovedMark then ''effect_approved'' else ''effect_denied'') e1)
              (\<lambda>_. fx_return e1)))) (\<lambda>_. files_sound H marks k)"
  proof (rule fx_hoare_bind [OF fx_hoare_read])
    fix r
    have put: "fx_hoare (files_sound H marks k) (\<lambda>fs x. files_sound H marks k fs x \<and> fs (effect_path H i) = Some e)
        (fx_act (\<lambda>w. put_effect H (decided_effect decision who reason (fx_now w) e) w)) (\<lambda>_. files_sound H marks k)"
      if "fe_approval e = PendingApproval" for e
    proof (rule fx_hoare_act)
      fix w :: "'a fx_world"
      assume w: "files_sound H marks k (fx_files w) (fx_ext w) \<and> fx_files w (effect_path H i) = Some e"
      then have e: "\<not> may_have_happened e" using that unfolding files_sound_def by blast
      note kept = decided_kept [OF that e, of decision who reason "fx_now w"]
      have "effect_path H (fe_key e) = effect_path H i" by (rule sound_path [OF conjunct1 [OF w] conjunct2 [OF w]])
      then show "files_sound H marks k (fx_files (snd (put_effect H (decided_effect decision who reason (fx_now w) e) w)))
          (fx_ext (snd (put_effect H (decided_effect decision who reason (fx_now w) e) w)))"
      proof -
        have "files_sound H marks k ((fx_files w)(effect_path H (fe_key e) \<mapsto> (decided_effect decision who reason (fx_now w) e)\<lparr>fe_updated_at := fx_now w\<rparr>)) (fx_ext w)"
          by (rule sound_put) (use w e kept \<open>effect_path H (fe_key e) = effect_path H i\<close> in simp_all)
        then show ?thesis by (simp add: put_effect_def Let_def)
      qed
    qed simp
    show "fx_hoare (files_sound H marks k) (\<lambda>fs x. files_sound H marks k fs x \<and> fs (effect_path H i) = r) (case r of
        None \<Rightarrow> fx_throw (LedgerError ''effect_not_found'' 404)
      | Some e \<Rightarrow>
          if fe_approval e \<noteq> PendingApproval then fx_return e
          else fx_bind (fx_act (\<lambda>w. put_effect H (decided_effect decision who reason (fx_now w) e) w)) (\<lambda>e1.
            fx_bind (audit_effect_event (if fe_approval e1 = ApprovedMark then ''effect_approved'' else ''effect_denied'') e1)
              (\<lambda>_. fx_return e1))) (\<lambda>_. files_sound H marks k)"
      by (cases r) (auto intro!: fx_hoare_return fx_hoare_throw fx_hoare_bind [OF put] fx_hoare_bind [OF fx_hoare_audit])
  qed simp
qed

lemma hoare_snd:
  assumes "fx_hoare I P m (\<lambda>_. I)" and "P (fx_files w) (fx_ext w)"
  shows "I (fx_files (snd (m w))) (fx_ext (snd (m w)))"
  using assms unfolding fx_hoare_def by (cases "m w"; cases "fst (m w)") force+

lemma ledger_step_sound:
  assumes "files_sound H marks k (fx_files w) (fx_ext w)" and "honest_event marks ev"
  shows "files_sound H marks k (fx_files (ledger_step H ev w)) (fx_ext (ledger_step H ev w))"
proof (cases ev)
  case (CallMade sp n t)
  with assms hoare_snd [OF hoare_run_effect, of marks sp H k "w\<lparr>fx_left := n, fx_now := t\<rparr>"] show ?thesis by simp
next
  case (DecisionMade d t)
  with assms hoare_snd [OF hoare_decide, of H marks k "w\<lparr>fx_left := None, fx_now := t\<rparr>"] show ?thesis by (cases d) simp
qed

text \<open>
  C23: of calls that follow one another, however many are made for an idempotency key, wherever each of
  their processes dies, whatever is decided about approvals between and during them, and also when
  two keys share a file, the effect happens at most once, provided that the look-up of the external
  system is right. Calls that overlap are not covered: the ledger takes no lock.
\<close>

theorem file_effect_at_most_once:
  assumes "list_all (honest_event marks) evs" and "fx_files w = Map.empty" and "marks (fx_ext w) k = 0"
  shows "marks (fx_ext (fold (ledger_step H) evs w)) k \<le> 1"
proof -
  have "files_sound H marks k (fx_files w) (fx_ext w)" using assms(2,3) by (simp add: files_sound_def)
  with assms(1) have "files_sound H marks k (fx_files (fold (ledger_step H) evs w)) (fx_ext (fold (ledger_step H) evs w))"
    by (induction evs arbitrary: w) (simp_all add: ledger_step_sound)
  then show ?thesis by (simp add: files_sound_def)
qed

text \<open>A host that remembers the keys it performed, and two attempts of which the first dies after performing.\<close>

definition sample_call :: "string list effect_spec" where
  "sample_call = \<lparr>es_key = ''k'', es_kind = [], es_job = [], es_payload = JNull, es_approval = [], es_attempt = JNum 1, es_polls = [],
     es_requested = (\<lambda>x. (Some (), x)),
     es_reconcile = Some (\<lambda>e x. (Some (if fe_key e \<in> set x \<or> ''k'' \<in> set x then JStr ''found'' else JNull), x)),
     es_perform = (\<lambda>key e x. (Some (JStr ''done''), x @ [key])), es_after = (\<lambda>v e x. (Some (), x))\<rparr>"

definition sample_fx :: "string list fx_world" where
  "sample_fx = \<lparr>fx_files = Map.empty, fx_audit = [], fx_ext = [], fx_left = None, fx_now = 0\<rparr>"

lemma sample_call_honest: "honest (\<lambda>x k. length (filter (\<lambda>y. y = k) x)) sample_call"
proof -
  have "str_trim ''k'' = ''k''" by code_simp
  then show ?thesis by (auto simp: honest_def sample_call_def truthy_def filter_empty_conv)
qed

lemma file_effect_at_most_once_witness:
  "length (filter (\<lambda>y. y = ''k'') (fx_ext (fold (ledger_step id)
     [CallMade sample_call (Some 6) 1, CallMade sample_call None 2, CallMade sample_call None 3] sample_fx))) \<le> 1"
  by (rule file_effect_at_most_once) (simp_all add: sample_call_honest sample_fx_def)

lemma second_attempt_reconciles:
  "fst (run_effect id sample_call (ledger_step id (CallMade sample_call (Some 6) 1) sample_fx\<lparr>fx_left := None\<rparr>)) = Inr (Reconciled, JStr ''found'')"
  by code_simp

section \<open>Denied and committed effects\<close>

text \<open>
  A denied effect is never performed: once a pending approval was answered with anything but
  approval, every call for that key, with the same payload or another, ends with an error and
  touches neither the external system nor a file.
\<close>

theorem denied_effect_never_performed:
  assumes "fx_files w (effect_path H (str_trim key)) = Some e" and "fe_approval e = PendingApproval" "fe_state e \<noteq> Committed"
    and "effect_path H (fe_key e) = effect_path H (str_trim key)"
    and "decide_effect_approval H key decision who reason w = (Inr e1, w1)" and "to_lower (str_trim decision) \<noteq> ''approved''"
    and "str_trim (es_key sp) = str_trim key" and "run_effect H sp (w1\<lparr>fx_left := n, fx_now := t\<rparr>) = (r, w2)"
  shows "(\<exists>err. r = Inl err) \<and> fx_ext w2 = fx_ext w \<and> fx_files w2 = fx_files w1"
proof -
  let ?d = "(decided_effect decision who reason (fx_now w) e)\<lparr>fe_updated_at := fx_now w\<rparr>"
  have key: "str_trim key \<noteq> []"
    using assms(5) by (auto simp: decide_effect_approval_def fx_bind_def fx_lift_def require_key_def Let_def)
  have w1: "fx_files w1 (effect_path H (str_trim key)) = Some ?d" "fx_ext w1 = fx_ext w"
    using assms(1,2,4,5) key
    by (auto simp: decide_effect_approval_def fx_bind_def fx_lift_def require_key_def Let_def read_effect_def fx_act_def
        put_effect_def audit_effect_event_def fx_return_def split: option.splits if_splits)
  have d: "fe_state ?d = EffectFailed" "fe_outcome ?d = Some ''denied''"
    using assms(6) by (simp_all add: decided_effect_def)
  show ?thesis
    using assms(7,8) key w1 d
    by (auto simp: run_effect_def fx_bind_def fx_lift_def require_key_def Let_def read_effect_def fx_act_def known_effect_def
        fx_throw_def split: option.splits if_splits)
qed

definition sample_pending :: "string list fx_world" where
  "sample_pending = sample_fx\<lparr>fx_files := [''k'' \<mapsto> (new_file_effect id ''k'' sample_call 0)\<lparr>fe_approval := PendingApproval\<rparr>]\<rparr>"

lemma denied_effect_never_performed_witness:
  "\<exists>err. fst (run_effect id sample_call ((snd (decide_effect_approval id ''k'' ''no'' ''ana'' [] sample_pending))\<lparr>fx_left := None, fx_now := 9\<rparr>)) = Inl err"
proof -
  have k: "str_trim ''k'' = ''k''" "to_lower (str_trim ''no'') \<noteq> ''approved''" by code_simp+
  have "\<exists>e1 w1. decide_effect_approval id ''k'' ''no'' ''ana'' [] sample_pending = (Inr e1, w1)"
    by (simp add: decide_effect_approval_def fx_bind_def fx_lift_def require_key_def Let_def read_effect_def fx_act_def
        put_effect_def audit_effect_event_def fx_return_def k sample_pending_def sample_fx_def effect_path_def)
  then obtain e1 w1 where d: "decide_effect_approval id ''k'' ''no'' ''ana'' [] sample_pending = (Inr e1, w1)" by blast
  let ?e = "(new_file_effect id ''k'' sample_call 0)\<lparr>fe_approval := PendingApproval\<rparr>"
  have e: "fx_files sample_pending (effect_path id (str_trim ''k'')) = Some ?e" "fe_approval ?e = PendingApproval"
    "fe_state ?e \<noteq> Committed" "effect_path id (fe_key ?e) = effect_path id (str_trim ''k'')" "str_trim (es_key sample_call) = str_trim ''k''"
    by (simp_all add: k sample_pending_def effect_path_def new_file_effect_def Let_def sample_call_def)
  have "\<exists>err. fst (run_effect id sample_call (w1\<lparr>fx_left := None, fx_now := 9\<rparr>)) = Inl err"
    using denied_effect_never_performed [OF e(1-4) d k(2) e(5) surjective_pairing] by blast
  then show ?thesis by (simp only: d snd_conv)
qed

text \<open>
  A committed effect is answered from its file, with the result recorded then: the external
  system is not asked, and the same key with another payload is refused.
\<close>

theorem committed_effect_deduplicated:
  assumes "str_trim (es_key sp) \<noteq> []" and "fx_files w (effect_path H (str_trim (es_key sp))) = Some e" and "fe_state e = Committed"
  shows "run_effect H sp (w\<lparr>fx_left := None\<rparr>) =
    (if fe_digest e = payload_digest H (es_payload sp)
     then (Inr (Deduplicated, fe_result e), w\<lparr>fx_left := None, fx_audit := fx_audit w @ [(''effect_deduplicated'', fe_key e)]\<rparr>)
     else (Inl (LedgerError ''effect_idempotency_conflict'' 409), w\<lparr>fx_left := None\<rparr>))"
  using assms
  by (simp add: run_effect_def fx_bind_def fx_lift_def require_key_def Let_def read_effect_def fx_act_def known_effect_def
      fx_throw_def fx_return_def audit_effect_event_def)

lemma committed_effect_deduplicated_witness:
  "fst (run_effect id sample_call (sample_fx\<lparr>fx_files := [''k'' \<mapsto> (new_file_effect id ''k'' sample_call 0)\<lparr>fe_state := Committed, fe_result := JNum 7\<rparr>], fx_left := None\<rparr>))
   = Inr (Deduplicated, JNum 7)"
proof -
  let ?e = "(new_file_effect id ''k'' sample_call 0)\<lparr>fe_state := Committed, fe_result := JNum 7\<rparr>"
  have "str_trim ''k'' = ''k''" by code_simp
  then show ?thesis
    using committed_effect_deduplicated [of sample_call "sample_fx\<lparr>fx_files := [''k'' \<mapsto> ?e]\<rparr>" id ?e]
    by (simp add: sample_call_def effect_path_def new_file_effect_def Let_def)
qed

end
