(* ===== verification/Outbox.thy ===== *)
theory Outbox
  imports JobTools
begin

text \<open>
  The connector outbox (\<open>connector-outbox.js\<close>, \<open>whatsapp-replay-safety.js\<close>, the identity of runtime
  output of \<open>runtime-output-identity.js\<close>, the retry delay of \<open>connector-outbox-retry-policy.js\<close>) over its
  SQLite store. A table is the list of its rows; an operation runs under the outbox lock and in a
  transaction, so it is a function of the table, and \<open>None\<close> is a violated constraint, which rolls
  back. Instants are milliseconds, \<open>None\<close> the empty text. SHA-256, the administrator's id and the
  numbers read from the environment are fields of \<open>outbox_env\<close>. Audit events are left out.
\<close>

section \<open>Rows and the environment\<close>

record outbox_job =
  ob_id :: string
  ob_tenant :: string
  ob_owner :: string
  ob_connector :: string
  ob_account :: string
  ob_chat :: string
  ob_thread :: string
  ob_agent :: string
  ob_source_event :: string
  ob_source_message :: string
  ob_source_revision :: string
  ob_delivery_type :: string
  ob_payload :: json
  ob_payload_hash :: string
  ob_key :: string
  ob_state :: string
  ob_attempts :: nat
  ob_claimed_by :: string
  ob_claimed_at :: "int option"
  ob_claim_expires :: "int option"
  ob_created :: "int option"
  ob_updated :: "int option"
  ob_terminal :: "int option"
  ob_delivered :: "int option"
  ob_failed :: "int option"
  ob_skipped :: "int option"
  ob_error :: string
  ob_ack :: "json option"
  ob_metadata :: "(string \<times> json) list"

type_synonym outbox = "outbox_job list"

text \<open>A number of the environment: not set, or what \<open>Number(text)\<close> gives, \<open>None\<close> for NaN.\<close>

type_synonym env_setting = "int option option"

definition env_number :: "env_setting \<Rightarrow> int \<Rightarrow> int \<Rightarrow> int" where
  "env_number x least fallback = (case x of Some (Some n) \<Rightarrow> max least n | _ \<Rightarrow> fallback)"

record outbox_env =
  oe_hash :: "string \<Rightarrow> string"
  oe_admin :: string
  oe_claim_ttl :: env_setting
  oe_backoff :: env_setting
  oe_backoff_max :: env_setting
  oe_retention :: env_setting
  oe_pid :: string

definition connector_outbox_claim_ttl_ms :: "outbox_env \<Rightarrow> int" where
  "connector_outbox_claim_ttl_ms e = env_number (oe_claim_ttl e) 5000 120000"

definition connector_outbox_retry_backoff_ms :: "outbox_env \<Rightarrow> int" where
  "connector_outbox_retry_backoff_ms e = env_number (oe_backoff e) 0 30000"

definition connector_outbox_retention_limit :: "outbox_env \<Rightarrow> int" where
  "connector_outbox_retention_limit e = env_number (oe_retention e) 1 10000"

text \<open>\<open>envInteger\<close>: negative numbers count as not given.\<close>

definition connector_outbox_backoff_max_ms :: "outbox_env \<Rightarrow> int" where
  "connector_outbox_backoff_max_ms e =
     (case oe_backoff_max e of Some (Some n) \<Rightarrow> if 0 \<le> n then n else 3600000 | _ \<Rightarrow> 3600000)"

definition connector_outbox_retry_delay_ms :: "outbox_env \<Rightarrow> nat \<Rightarrow> int" where
  "connector_outbox_retry_delay_ms e attempts =
     (let base = connector_outbox_retry_backoff_ms e;
          exponent = min 30 ((if attempts = 0 then 1 else attempts) - 1)
      in min (max base (connector_outbox_backoff_max_ms e)) (base * 2 ^ exponent))"

section \<open>Texts, instants, states\<close>

definition txt_or :: "string \<Rightarrow> string \<Rightarrow> string" where
  "txt_or a b = (if a = [] then b else a)"

definition time_or :: "'t option \<Rightarrow> 't option \<Rightarrow> 't option" where
  "time_or a b = (case a of None \<Rightarrow> b | Some _ \<Rightarrow> a)"

definition date_ms :: "int option \<Rightarrow> int" where
  "date_ms t = (case t of None \<Rightarrow> 0 | Some ms \<Rightarrow> ms)"

definition lower_text :: "string \<Rightarrow> string" where
  "lower_text s = to_lower (str_trim s)"

definition terminal_states :: "string list" where
  "terminal_states = [''delivered'', ''skipped'', ''skipped_policy'', ''suppressed'', ''dead_letter'', ''cancelled'',
     ''delivery_uncertain'', ''partial_delivery'', ''archived'']"

definition retention_prunable_states :: "string list" where
  "retention_prunable_states = filter (\<lambda>s. s \<noteq> ''archived'') terminal_states"

definition outbox_terminal :: "string \<Rightarrow> bool" where
  "outbox_terminal s \<longleftrightarrow> lower_text (txt_or s ''pending'') \<in> set terminal_states"

definition status_rank :: "string \<Rightarrow> nat" where
  "status_rank s =
     (let x = lower_text (txt_or s ''pending'')
      in if x = ''delivered'' then 6 else if x \<in> set terminal_states then 5
         else if x \<in> set [''claimed'', ''sent_to_broker''] then 4 else if x = ''failed_retryable'' then 3
         else if x = ''pending'' then 2 else 1)"

text \<open>\<open>{...a, ...b}\<close> on objects without duplicate keys.\<close>

definition spread :: "(string \<times> json) list \<Rightarrow> (string \<times> json) list \<Rightarrow> (string \<times> json) list" where
  "spread a b = map (\<lambda>(k, v). (k, case map_of b k of None \<Rightarrow> v | Some w \<Rightarrow> w)) a
     @ filter (\<lambda>(k, v). k \<notin> fst ` set a) b"

definition meta :: "outbox_job \<Rightarrow> string \<Rightarrow> json option" where
  "meta j k = map_of (ob_metadata j) k"

definition meta_true :: "outbox_job \<Rightarrow> string \<Rightarrow> bool" where
  "meta_true j k \<longleftrightarrow> (case meta j k of None \<Rightarrow> False | Some v \<Rightarrow> truthy v)"

section \<open>The identity of runtime output\<close>

definition json_digest :: "(string \<Rightarrow> string) \<Rightarrow> json \<Rightarrow> string" where
  "json_digest H v = H (json_stringify v)"

fun squeeze :: "bool \<Rightarrow> string \<Rightarrow> string" where
  "squeeze spaced [] = []"
| "squeeze spaced (c # cs) =
     (if is_space c then (if spaced then squeeze True cs else CHR 0x20 # squeeze True cs) else c # squeeze False cs)"

definition body_text :: "json option \<Rightarrow> string" where
  "body_text v = str_trim (squeeze False (text_or v []))"

definition runtime_output_body_key :: "(string \<Rightarrow> string) \<Rightarrow> json option \<Rightarrow> string" where
  "runtime_output_body_key H v =
     (let t = body_text v in if t = [] then [] else json_digest H (JArr [JStr ''final_answer'', JStr t]))"

definition whatsapp_final :: "outbox_job \<Rightarrow> bool" where
  "whatsapp_final j \<longleftrightarrow> ob_connector j = ''whatsapp'' \<and> ob_delivery_type j = ''final'' \<and> ob_thread j \<noteq> []"

definition logical_identity :: "outbox_job \<Rightarrow> json option" where
  "logical_identity j =
     (if meta_true j ''runtimeGeneration'' \<and> meta_true j ''runtimeTurnId'' \<and> meta_true j ''runtimeItemId''
      then Some (JArr [JStr ''item'', or_null (meta j ''runtimeGeneration''), or_null (meta j ''runtimeTurnId''), or_null (meta j ''runtimeItemId'')])
      else if ob_source_event j \<noteq> [] \<and> ob_source_event j \<noteq> ob_source_message j
      then Some (JArr [JStr ''event'', if meta_true j ''runtimeGeneration'' then or_null (meta j ''runtimeGeneration'') else JStr [],
             JStr (ob_source_event j)])
      else None)"

definition logical_output_key :: "(string \<Rightarrow> string) \<Rightarrow> outbox_job \<Rightarrow> string" where
  "logical_output_key H j =
     (if \<not> whatsapp_final j then []
      else (case logical_identity j of
          None \<Rightarrow> []
        | Some identity \<Rightarrow> ''output-v1:'' @ json_digest H (JArr
            [JStr (txt_or (ob_tenant j) (txt_or (ob_owner j) ''admin'')), JStr (txt_or (ob_owner j) (txt_or (ob_tenant j) ''admin'')),
             JStr (ob_connector j), JStr (ob_account j), JStr (ob_chat j), JStr (ob_thread j), identity,
             JStr (str_trim (txt_or (ob_source_revision j) ''1'')), JStr ''final''])))"

definition job_body_key :: "(string \<Rightarrow> string) \<Rightarrow> outbox_job \<Rightarrow> string" where
  "job_body_key H j =
     txt_or (str_trim (text_or (meta j ''runtimeOutputBodyKey'') [])) (runtime_output_body_key H (jget (ob_payload j) ''text''))"

definition turn_scope :: "(string \<Rightarrow> string) \<Rightarrow> outbox_job \<Rightarrow> (json \<times> json) option" where
  "turn_scope H j =
     (if whatsapp_final j \<and> meta_true j ''runtimeGeneration'' \<and> meta_true j ''runtimeTurnId'' \<and> job_body_key H j \<noteq> []
      then Some (or_null (meta j ''runtimeGeneration''), or_null (meta j ''runtimeTurnId'')) else None)"

definition output_fence_applies :: "(string \<Rightarrow> string) \<Rightarrow> outbox_job \<Rightarrow> bool" where
  "output_fence_applies H j \<longleftrightarrow> logical_output_key H j \<noteq> [] \<or> turn_scope H j \<noteq> None"

definition same_turn_output :: "(string \<Rightarrow> string) \<Rightarrow> outbox_job \<Rightarrow> outbox_job \<Rightarrow> bool" where
  "same_turn_output H a b \<longleftrightarrow>
     turn_scope H a \<noteq> None \<and> turn_scope H a = turn_scope H b
     \<and> \<not> (meta_true a ''runtimeItemId'' \<and> meta_true b ''runtimeItemId'') \<and> job_body_key H a = job_body_key H b"

definition scope_agrees :: "outbox_job \<Rightarrow> outbox_job \<Rightarrow> bool" where
  "scope_agrees a b \<longleftrightarrow>
     (let same_message = str_trim (ob_source_message a) \<noteq> [] \<and> str_trim (ob_source_message a) = str_trim (ob_source_message b);
          eq = (\<lambda>f. str_trim (f a) = str_trim (f b))
      in eq ob_tenant \<and> eq ob_owner \<and> eq ob_connector \<and> (same_message \<or> eq ob_account) \<and> eq ob_chat \<and> eq ob_thread
         \<and> (same_message \<or> eq ob_source_revision) \<and> eq ob_delivery_type)"

definition runtime_conflict :: "outbox_job \<Rightarrow> outbox_job \<Rightarrow> bool" where
  "runtime_conflict a b \<longleftrightarrow>
     list_ex (\<lambda>k. meta_true a k \<and> meta_true b k \<and> meta a k \<noteq> meta b k) [''runtimeGeneration'', ''runtimeTurnId'', ''runtimeItemId'']"

definition logical_output_match_reason :: "(string \<Rightarrow> string) \<Rightarrow> outbox_job \<Rightarrow> outbox_job \<Rightarrow> string" where
  "logical_output_match_reason H a b =
     (if \<not> output_fence_applies H b \<or> \<not> scope_agrees a b \<or> runtime_conflict a b then []
      else if ob_source_message a \<noteq> [] \<and> ob_source_message a = ob_source_message b then ''same_source_message''
      else if logical_output_key H b \<noteq> [] \<and> logical_output_key H a = logical_output_key H b then ''same_logical_key''
      else if ob_source_event a \<noteq> [] \<and> ob_source_event a = ob_source_event b then ''same_source_event''
      else if same_turn_output H a b then ''same_turn_output_body'' else [])"

definition same_logical_output :: "(string \<Rightarrow> string) \<Rightarrow> outbox_job \<Rightarrow> outbox_job \<Rightarrow> bool" where
  "same_logical_output H a b \<longleftrightarrow> logical_output_match_reason H a b \<noteq> []"

section \<open>Normal rows\<close>

definition connector_outbox_idempotency_key :: "(string \<Rightarrow> string) \<Rightarrow> outbox_job \<Rightarrow> string" where
  "connector_outbox_idempotency_key H j =
     txt_or (logical_output_key H j)
       (str_join ''|'' [str_trim (txt_or (ob_tenant j) (txt_or (ob_owner j) ''admin'')), str_trim (ob_connector j),
          str_trim (ob_account j), str_trim (ob_chat j), str_trim (ob_thread j), str_trim (ob_source_message j),
          str_trim (txt_or (ob_source_revision j) ''1''), str_trim (ob_delivery_type j)])"

definition connector_outbox_payload_hash :: "(string \<Rightarrow> string) \<Rightarrow> json \<Rightarrow> string" where
  "connector_outbox_payload_hash H p = H (stable_stringify p)"

definition connector_outbox_job_id :: "(string \<Rightarrow> string) \<Rightarrow> outbox_job \<Rightarrow> string" where
  "connector_outbox_job_id H j =
     ''co_'' @ take 32 (H (txt_or (str_trim (ob_key j)) (connector_outbox_idempotency_key H j)))"

definition object_ack :: "json option \<Rightarrow> json option" where
  "object_ack v = (case v of Some (JObj kvs) \<Rightarrow> Some (JObj kvs) | _ \<Rightarrow> None)"

definition normalize_outbox_job :: "outbox_env \<Rightarrow> int \<Rightarrow> outbox_job \<Rightarrow> outbox_job" where
  "normalize_outbox_job e now j =
     (let H = oe_hash e; payload = (if is_obj_or_arr (ob_payload j) then ob_payload j else JObj []);
          admin = txt_or (oe_admin e) ''admin'';
          key = txt_or (str_trim (ob_key j)) (connector_outbox_idempotency_key H (j\<lparr>ob_payload := payload\<rparr>));
          state = txt_or (lower_text (txt_or (ob_state j) ''pending'')) ''pending''
      in \<lparr>ob_id = txt_or (str_trim (ob_id j)) (connector_outbox_job_id H (j\<lparr>ob_key := key\<rparr>)),
          ob_tenant = str_trim (txt_or (ob_tenant j) (txt_or (ob_owner j) admin)),
          ob_owner = str_trim (txt_or (ob_owner j) (txt_or (ob_tenant j) admin)),
          ob_connector = lower_text (ob_connector j), ob_account = str_trim (ob_account j), ob_chat = str_trim (ob_chat j),
          ob_thread = str_trim (ob_thread j), ob_agent = str_trim (ob_agent j),
          ob_source_event = str_trim (txt_or (ob_source_event j) (ob_source_message j)),
          ob_source_message = str_trim (ob_source_message j),
          ob_source_revision = str_trim (txt_or (ob_source_revision j) ''1''),
          ob_delivery_type = str_trim (ob_delivery_type j), ob_payload = payload,
          ob_payload_hash = txt_or (str_trim (ob_payload_hash j)) (connector_outbox_payload_hash H payload),
          ob_key = key, ob_state = state, ob_attempts = ob_attempts j, ob_claimed_by = str_trim (ob_claimed_by j),
          ob_claimed_at = ob_claimed_at j, ob_claim_expires = ob_claim_expires j,
          ob_created = time_or (ob_created j) (Some now), ob_updated = time_or (ob_updated j) (Some now),
          ob_terminal = (if outbox_terminal state then time_or (ob_terminal j) (Some now) else ob_terminal j),
          ob_delivered = ob_delivered j, ob_failed = ob_failed j, ob_skipped = ob_skipped j,
          ob_error = take 1000 (str_trim (ob_error j)), ob_ack = object_ack (ob_ack j), ob_metadata = ob_metadata j\<rparr>)"

definition merge_job :: "(string \<Rightarrow> string) \<Rightarrow> outbox_job \<Rightarrow> outbox_job \<Rightarrow> outbox_job" where
  "merge_job H existing fresh =
     (if same_logical_output H existing fresh \<and> outbox_terminal (ob_state existing) then existing
      else (let new = (if same_logical_output H existing fresh
                then fresh\<lparr>ob_id := ob_id existing, ob_key := ob_key existing, ob_source_message := ob_source_message existing,
                       ob_source_event := ob_source_event existing\<rparr> else fresh);
              wins = (\<lambda>winner loser. winner\<lparr>ob_created := time_or (ob_created existing) (ob_created new),
                       ob_attempts := max (ob_attempts existing) (ob_attempts new),
                       ob_metadata := spread (ob_metadata loser) (ob_metadata winner)\<rparr>);
              stamp = (\<lambda>j. date_ms (time_or (ob_updated j) (time_or (ob_terminal j) (ob_created j))));
              r = status_rank (ob_state existing); r' = status_rank (ob_state new)
            in if r' < r \<and> outbox_terminal (ob_state existing) then existing
               else if r < r' then wins new existing
               else if r' < r then wins existing new
               else if stamp existing \<le> stamp new then wins new existing else wins existing new))"

text \<open>What \<open>connectorOutboxJobChanged\<close> compares: everything but the time of the last update.\<close>

definition comparable :: "outbox_job \<Rightarrow> outbox_job \<times> string list" where
  "comparable j = (j\<lparr>ob_updated := None, ob_payload := JNull, ob_ack := None, ob_metadata := []\<rparr>,
     [stable_stringify (ob_payload j), stable_stringify (or_null (ob_ack j)), stable_stringify (JObj (ob_metadata j))])"

definition outbox_job_changed :: "outbox_job \<Rightarrow> outbox_job \<Rightarrow> bool" where
  "outbox_job_changed a b \<longleftrightarrow> comparable a \<noteq> comparable b"

section \<open>The table\<close>

definition outbox_stamp :: "outbox_job \<Rightarrow> int" where
  "outbox_stamp j = date_ms (time_or (ob_updated j) (time_or (ob_terminal j) (ob_created j)))"

definition get_outbox_row :: "string \<Rightarrow> outbox \<Rightarrow> outbox_job option" where
  "get_outbox_row target rows =
     (let t = str_trim target in if t = [] then None else find (\<lambda>j. ob_id j = t \<or> ob_key j = t) rows)"

definition get_outbox_job :: "outbox_env \<Rightarrow> int \<Rightarrow> string \<Rightarrow> outbox \<Rightarrow> outbox_job option" where
  "get_outbox_job e now target rows = map_option (normalize_outbox_job e now) (get_outbox_row target rows)"

text \<open>\<open>insert ... on conflict(idempotency_key) do update\<close>, where ids are the primary key.\<close>

definition upsert_row :: "outbox_job \<Rightarrow> outbox \<Rightarrow> outbox option" where
  "upsert_row j rows =
     (if list_ex (\<lambda>r. ob_id r = ob_id j \<and> ob_key r \<noteq> ob_key j) rows then None
      else if list_ex (\<lambda>r. ob_key r = ob_key j) rows then Some (upd_rows (\<lambda>r. ob_key r = ob_key j) (\<lambda>_. j) rows)
      else Some (rows @ [j]))"

definition newest_first :: "outbox \<Rightarrow> outbox" where
  "newest_first rows = rev (sort_key outbox_stamp (sort_key ob_id rows))"

definition prune_rows :: "outbox_env \<Rightarrow> outbox \<Rightarrow> outbox" where
  "prune_rows e rows =
     (let old = drop (nat (connector_outbox_retention_limit e))
            (newest_first (filter (\<lambda>j. ob_state j \<in> set retention_prunable_states) rows))
      in filter (\<lambda>j. ob_id j \<notin> ob_id ` set old) rows)"

definition write_row :: "outbox_env \<Rightarrow> outbox_job \<Rightarrow> outbox \<Rightarrow> outbox option" where
  "write_row e j rows = map_option (prune_rows e) (upsert_row j rows)"

record outbox_filters =
  of_connector :: string
  of_tenant :: string
  of_owner :: string
  of_account :: string
  of_chat :: string
  of_thread :: string
  of_delivery_type :: string
  of_states :: "string list"
  of_limit :: nat

definition column_matches :: "string \<Rightarrow> string \<Rightarrow> bool" where
  "column_matches v filter_text \<longleftrightarrow> str_trim filter_text = [] \<or> v = str_trim filter_text"

definition outbox_where :: "outbox_filters \<Rightarrow> outbox_job \<Rightarrow> bool" where
  "outbox_where f j \<longleftrightarrow> column_matches (ob_connector j) (of_connector f) \<and> column_matches (ob_tenant j) (of_tenant f)
     \<and> column_matches (ob_owner j) (of_owner f) \<and> column_matches (ob_account j) (of_account f)
     \<and> column_matches (ob_chat j) (of_chat f) \<and> column_matches (ob_thread j) (of_thread f)
     \<and> column_matches (ob_delivery_type j) (of_delivery_type f)
     \<and> (of_states f = [] \<or> ob_state j \<in> set (of_states f))"

definition list_connector_outbox_jobs :: "outbox_env \<Rightarrow> int \<Rightarrow> outbox_filters \<Rightarrow> outbox \<Rightarrow> outbox" where
  "list_connector_outbox_jobs e now f rows =
     (let found = newest_first (filter (outbox_where f) rows)
      in map (normalize_outbox_job e now) (if of_limit f = 0 then found else take (of_limit f) found))"

section \<open>Enqueueing\<close>

definition retained_logical_output_job :: "outbox_env \<Rightarrow> int \<Rightarrow> outbox_job \<Rightarrow> outbox \<Rightarrow> outbox_job option" where
  "retained_logical_output_job e now j rows =
     (if \<not> output_fence_applies (oe_hash e) j then None
      else (let found = list_connector_outbox_jobs e now
              \<lparr>of_connector = ob_connector j, of_tenant = ob_tenant j, of_owner = ob_owner j, of_account = [], of_chat = ob_chat j,
               of_thread = ob_thread j, of_delivery_type = ob_delivery_type j, of_states = [], of_limit = 0\<rparr> rows;
              matches = filter (\<lambda>r. same_logical_output (oe_hash e) r j) found
            in (case sort_key (\<lambda>r. 6 - status_rank (ob_state r)) (sort_key ob_id matches) of [] \<Rightarrow> None | x # _ \<Rightarrow> Some x)))"

definition outbox_input :: "outbox_env \<Rightarrow> int \<Rightarrow> outbox_job \<Rightarrow> outbox_job" where
  "outbox_input e now input =
     (let logical = logical_output_key (oe_hash e) (normalize_outbox_job e now input)
      in normalize_outbox_job e now
           (if logical = [] then input
            else input\<lparr>ob_key := logical, ob_id := connector_outbox_job_id (oe_hash e) (input\<lparr>ob_key := logical\<rparr>)\<rparr>))"

definition ensure_outbox_job :: "outbox_env \<Rightarrow> int \<Rightarrow> outbox_job \<Rightarrow> outbox \<Rightarrow> ((outbox_job \<times> bool) \<times> outbox) option" where
  "ensure_outbox_job e now input rows =
     (let j = outbox_input e now input;
          existing = (case get_outbox_job e now (ob_key j) rows of Some r \<Rightarrow> Some r | None \<Rightarrow> retained_logical_output_job e now j rows)
      in case existing of
          None \<Rightarrow> map_option (Pair (j, True)) (write_row e j rows)
        | Some r \<Rightarrow> (let merged = merge_job (oe_hash e) r j
            in if outbox_job_changed r merged then map_option (Pair (merged, False)) (write_row e merged rows)
               else Some ((r, False), rows)))"

section \<open>Replay safety of WhatsApp\<close>

definition code_char :: "char \<Rightarrow> bool" where
  "code_char c \<longleftrightarrow> is_lower c \<or> is_digit c \<or> c = CHR ''_''"

fun has_partial_code :: "bool \<Rightarrow> string \<Rightarrow> bool" where
  "has_partial_code inside [] = False"
| "has_partial_code inside (c # cs) =
     (\<not> inside \<and> starts_with ''whatsapp_partial_delivery'' (c # cs)
        \<and> (case drop 25 (c # cs) of [] \<Rightarrow> True | d # _ \<Rightarrow> \<not> code_char d)
      \<or> has_partial_code (code_char c) cs)"

definition partial_code :: "string \<Rightarrow> bool" where
  "partial_code s = has_partial_code False (to_lower s)"

definition diagnostic_fields :: "string list" where
  "diagnostic_fields = [''error'', ''message'', ''code'', ''failureCode'', ''failureReason'', ''lastError'', ''metadata'', ''brokerAck'',
     ''payload'', ''cause'', ''bridgeFailure'', ''responseExcerpt'']"

text \<open>The first argument is how many levels of objects may still be entered.\<close>

fun inspect_partial :: "nat \<Rightarrow> json \<Rightarrow> bool" where
  "inspect_partial n (JStr s) = partial_code (take 131072 s)"
| "inspect_partial (Suc n) (JObj kvs) =
     (lower_text (text_or (jget (JObj kvs) ''state'') []) = ''partial_delivery''
      \<or> (case jget (JObj kvs) ''partialDelivery'' of None \<Rightarrow> False | Some v \<Rightarrow> is_obj_or_arr v)
      \<or> list_ex (\<lambda>k. case jget (JObj kvs) k of None \<Rightarrow> False | Some v \<Rightarrow> inspect_partial n v) diagnostic_fields)"
| "inspect_partial _ _ = False"

definition has_whatsapp_partial_delivery :: "outbox_job \<Rightarrow> bool" where
  "has_whatsapp_partial_delivery j =
     inspect_partial 5 (JObj [(''state'', JStr (ob_state j)), (''payload'', ob_payload j), (''error'', JStr (ob_error j)),
       (''brokerAck'', or_null (ob_ack j)), (''metadata'', JObj (ob_metadata j))])"

definition claim_lapsed :: "int \<Rightarrow> outbox_job \<Rightarrow> bool" where
  "claim_lapsed now j \<longleftrightarrow> (case ob_claim_expires j of None \<Rightarrow> True | Some t \<Rightarrow> t \<le> now)"

definition whatsapp_outbox_quarantine :: "int \<Rightarrow> outbox_job \<Rightarrow> outbox_job option" where
  "whatsapp_outbox_quarantine now j =
     (let state = lower_text (ob_state j); partial = has_whatsapp_partial_delivery j
      in if lower_text (ob_connector j) \<noteq> ''whatsapp''
            \<or> state \<in> set [''delivered'', ''cancelled'', ''suppressed'', ''skipped'', ''skipped_policy'', ''partial_delivery'', ''delivery_uncertain'']
         then None
         else if \<not> partial \<and> \<not> (state \<in> set [''claimed'', ''sent_to_broker''] \<and> claim_lapsed now j) then None
         else Some (j\<lparr>ob_state := (if partial then ''partial_delivery'' else ''delivery_uncertain''),
           ob_error := (if partial then ''whatsapp_partial_delivery'' else ''whatsapp_send_not_confirmed_after_claim_expiry''),
           ob_claimed_by := [], ob_claimed_at := None, ob_claim_expires := None, ob_terminal := Some now, ob_failed := Some now,
           ob_updated := Some now,
           ob_metadata := spread (ob_metadata j)
             ([(''retrySuppressed'', JBool True), (''requiresFreshApproval'', JBool True),
               (''recoveryReason'', JStr (if partial then ''legacy_partial_delivery'' else ''expired_send_claim''))]
              @ (if partial then [(''nonRetryable'', JBool True)] else [(''deliveryUncertain'', JBool True)]))\<rparr>))"

definition requires_whatsapp_uncertain_override :: "int \<Rightarrow> outbox_job \<Rightarrow> bool" where
  "requires_whatsapp_uncertain_override now j \<longleftrightarrow>
     lower_text (ob_state j) = ''delivery_uncertain''
     \<or> lower_text (ob_connector j) = ''whatsapp'' \<and> meta j ''deliveryUncertain'' = Some (JBool True)
     \<or> (case whatsapp_outbox_quarantine now j of None \<Rightarrow> False | Some q \<Rightarrow> ob_state q = ''delivery_uncertain'')"

section \<open>Claims\<close>

record claim_result =
  cr_acquired :: bool
  cr_terminal :: bool
  cr_reason :: string
  cr_job :: "outbox_job option"
  cr_changed :: bool

definition claim_expired :: "int \<Rightarrow> outbox_job \<Rightarrow> bool" where
  "claim_expired now j \<longleftrightarrow>
     (let s = lower_text (ob_state j)
      in if s = ''failed_retryable'' \<and> date_ms (ob_claim_expires j) \<noteq> 0 \<and> now < date_ms (ob_claim_expires j) then False
         else if s \<notin> set [''claimed'', ''sent_to_broker''] then True
         else date_ms (ob_claim_expires j) \<le> now)"

definition decide_claim :: "outbox_env \<Rightarrow> int \<Rightarrow> string \<Rightarrow> outbox_job option \<Rightarrow> claim_result" where
  "decide_claim e now claimant row =
     (case row of
        None \<Rightarrow> \<lparr>cr_acquired = False, cr_terminal = False, cr_reason = ''connector_outbox_job_missing'', cr_job = None, cr_changed = False\<rparr>
      | Some j \<Rightarrow> (case whatsapp_outbox_quarantine now j of
            Some q \<Rightarrow> \<lparr>cr_acquired = False, cr_terminal = True, cr_reason = ''connector_outbox_'' @ ob_state q,
              cr_job = Some (normalize_outbox_job e now q), cr_changed = True\<rparr>
          | None \<Rightarrow>
              if outbox_terminal (ob_state j)
              then \<lparr>cr_acquired = False, cr_terminal = True, cr_reason = ''connector_outbox_'' @ ob_state j, cr_job = Some j, cr_changed = False\<rparr>
              else if \<not> claim_expired now j
              then \<lparr>cr_acquired = False, cr_terminal = False,
                cr_reason = (if lower_text (ob_state j) = ''failed_retryable'' then ''connector_outbox_retry_scheduled''
                  else ''connector_outbox_claim_active''), cr_job = Some j, cr_changed = False\<rparr>
              else \<lparr>cr_acquired = True, cr_terminal = False, cr_reason = [],
                cr_job = Some (normalize_outbox_job e now (j\<lparr>ob_state := ''claimed'',
                  ob_claimed_by := txt_or (str_trim claimant) (''pid:'' @ oe_pid e), ob_claimed_at := Some now,
                  ob_claim_expires := Some (now + connector_outbox_claim_ttl_ms e), ob_attempts := Suc (ob_attempts j),
                  ob_updated := Some now\<rparr>)), cr_changed = True\<rparr>))"

definition claim_outbox_job :: "outbox_env \<Rightarrow> int \<Rightarrow> string \<Rightarrow> string \<Rightarrow> outbox \<Rightarrow> (claim_result \<times> outbox) option" where
  "claim_outbox_job e now target claimant rows =
     (let r = decide_claim e now claimant (get_outbox_job e now target rows)
      in case cr_job r of
          Some j \<Rightarrow> if cr_changed r then map_option (Pair r) (upsert_row j rows) else Some (r, rows)
        | None \<Rightarrow> Some (r, rows))"

definition released_job :: "outbox_env \<Rightarrow> int \<Rightarrow> string \<Rightarrow> outbox_job \<Rightarrow> outbox_job" where
  "released_job e now reason j =
     (if outbox_terminal (ob_state j) then j
      else normalize_outbox_job e now (case whatsapp_outbox_quarantine now j of
          Some q \<Rightarrow> q
        | None \<Rightarrow> j\<lparr>ob_state := ''pending'', ob_claimed_by := [], ob_claimed_at := None, ob_claim_expires := None,
            ob_error := str_trim (txt_or reason (ob_error j)), ob_updated := Some now\<rparr>))"

definition release_outbox_claim :: "outbox_env \<Rightarrow> int \<Rightarrow> string \<Rightarrow> string \<Rightarrow> outbox \<Rightarrow> (outbox_job option \<times> outbox) option" where
  "release_outbox_claim e now target reason rows =
     (case get_outbox_job e now target rows of
        None \<Rightarrow> Some (None, rows)
      | Some j \<Rightarrow>
          if outbox_terminal (ob_state j) then Some (Some j, rows)
          else map_option (Pair (Some (released_job e now reason j))) (upsert_row (released_job e now reason j) rows))"

section \<open>Updates\<close>

text \<open>The patch of an update: a field that is \<open>None\<close> is not in it.\<close>

record outbox_patch =
  pt_state :: "string option"
  pt_claimed_by :: "string option"
  pt_claimed_at :: "int option option"
  pt_claim_expires :: "int option option"
  pt_updated :: "int option"
  pt_terminal :: "int option"
  pt_delivered :: "int option option"
  pt_failed :: "int option option"
  pt_skipped :: "int option option"
  pt_error :: "string option"
  pt_ack :: "json option"
  pt_metadata :: "(string \<times> json) list option"

definition no_patch :: outbox_patch where
  "no_patch = \<lparr>pt_state = None, pt_claimed_by = None, pt_claimed_at = None, pt_claim_expires = None, pt_updated = None, pt_terminal = None,
     pt_delivered = None, pt_failed = None, pt_skipped = None, pt_error = None, pt_ack = None, pt_metadata = None\<rparr>"

definition given :: "'a option \<Rightarrow> 'a \<Rightarrow> 'a" where
  "given x y = (case x of None \<Rightarrow> y | Some v \<Rightarrow> v)"

text \<open>The row a patch must give way to; the update then writes this row instead.\<close>

definition protect_whatsapp_outbox_update :: "int \<Rightarrow> outbox_job \<Rightarrow> outbox_patch \<Rightarrow> int option \<Rightarrow> outbox_job option" where
  "protect_whatsapp_outbox_update now current patch approved =
     (if lower_text (ob_connector current) \<noteq> ''whatsapp''
         \<or> lower_text (given (pt_state patch) []) \<notin> set [''pending'', ''claimed'', ''sent_to_broker'', ''failed_retryable''] then None
      else (let protected = given (whatsapp_outbox_quarantine now current) current
        in if has_whatsapp_partial_delivery protected then Some protected
           else if lower_text (ob_state protected) \<noteq> ''delivery_uncertain''
             \<and> \<not> (meta_true protected ''deliveryUncertain''
                   \<and> lower_text (ob_state protected) \<in> set [''dead_letter'', ''suppressed'', ''cancelled'', ''archived'']) then None
           else if approved \<noteq> None \<and> approved = ob_updated current then None else Some protected))"

definition patch_of :: "outbox_job \<Rightarrow> outbox_patch" where
  "patch_of j = \<lparr>pt_state = Some (ob_state j), pt_claimed_by = Some (ob_claimed_by j), pt_claimed_at = Some (ob_claimed_at j),
     pt_claim_expires = Some (ob_claim_expires j), pt_updated = ob_updated j, pt_terminal = ob_terminal j,
     pt_delivered = Some (ob_delivered j), pt_failed = Some (ob_failed j), pt_skipped = Some (ob_skipped j), pt_error = Some (ob_error j),
     pt_ack = ob_ack j, pt_metadata = Some (ob_metadata j)\<rparr>"

definition marked_job :: "outbox_env \<Rightarrow> int \<Rightarrow> outbox_patch \<Rightarrow> int option \<Rightarrow> outbox_job \<Rightarrow> outbox_job" where
  "marked_job e now patch0 approved current =
     (let protected = protect_whatsapp_outbox_update now current patch0 approved;
          patch = (case protected of None \<Rightarrow> patch0 | Some p \<Rightarrow> patch_of p);
          state = lower_text (txt_or (given (pt_state patch) []) (txt_or (ob_state current) ''pending''));
          closed = outbox_terminal state
      in normalize_outbox_job e now (current\<lparr>ob_state := state,
          ob_claimed_by := (if closed then [] else given (pt_claimed_by patch) (ob_claimed_by current)),
          ob_claimed_at := (if closed then None else given (pt_claimed_at patch) (ob_claimed_at current)),
          ob_claim_expires := (if closed then None else given (pt_claim_expires patch) (ob_claim_expires current)),
          ob_terminal := (if closed then time_or (pt_terminal patch) (Some now) else pt_terminal patch),
          ob_updated := (if state = ''archived'' then time_or (pt_updated patch) (Some now) else Some now),
          ob_delivered := given (pt_delivered patch) (ob_delivered current),
          ob_failed := given (pt_failed patch) (ob_failed current), ob_skipped := given (pt_skipped patch) (ob_skipped current),
          ob_error := given (pt_error patch) (ob_error current), ob_ack := time_or (pt_ack patch) (ob_ack current),
          ob_metadata := given (pt_metadata patch) (ob_metadata current)\<rparr>))"

definition mark_outbox_job ::
  "outbox_env \<Rightarrow> int \<Rightarrow> string \<Rightarrow> outbox_patch \<Rightarrow> int option \<Rightarrow> outbox \<Rightarrow> (outbox_job option \<times> outbox) option" where
  "mark_outbox_job e now target patch approved rows =
     (case get_outbox_job e now target rows of
        None \<Rightarrow> Some (None, rows)
      | Some j \<Rightarrow> map_option (Pair (Some (marked_job e now patch approved j))) (write_row e (marked_job e now patch approved j) rows))"

section \<open>Operator actions\<close>

datatype outbox_error = ActionInvalid | OutboxJobMissing | PartialRetryRefused | UncertainRetryRefused | OutboxConstraint

record action_options =
  ao_reason :: string
  ao_error :: string
  ao_operator :: string
  ao_operator_id :: string
  ao_delivered_at :: "int option"
  ao_ack :: "json option"
  ao_allow_replay :: bool
  ao_confirmation :: string

definition replay_confirmation :: string where
  "replay_confirmation = ''I_UNDERSTAND_THIS_MAY_DUPLICATE_A_MESSAGE''"

definition operator_actions :: "string list" where
  "operator_actions = [''retry'', ''suppress'', ''mark_delivered'', ''mark-delivered'', ''replay'', ''dead_letter'', ''dead-letter'']"

definition normalize_outbox_action :: "string \<Rightarrow> string" where
  "normalize_outbox_action action =
     (let a = map (\<lambda>c. if c = CHR ''-'' then CHR ''_'' else c) (lower_text action) in if a \<in> set operator_actions then a else [])"

definition jtime :: "int \<Rightarrow> json" where
  "jtime t = JStr (iso_string t)"

text \<open>The count is written by this action only, as a number.\<close>

definition replay_count :: "outbox_job \<Rightarrow> int" where
  "replay_count j = (case meta j ''replayCount'' of Some (JNum n) \<Rightarrow> n | _ \<Rightarrow> 0)"

definition reopen_metadata :: "int \<Rightarrow> outbox_job \<Rightarrow> string \<Rightarrow> string \<Rightarrow> string \<Rightarrow> (string \<times> json) list" where
  "reopen_metadata now j a operator reason =
     (if a = ''replay'' then [(''replayCount'', JNum (replay_count j + 1))] else [])
     @ [(a @ ''RequestedAt'', jtime now), (a @ ''RequestedBy'', JStr operator), (a @ ''FromState'', JStr (str_trim (txt_or (ob_state j) ''pending'')))]
     @ (if reason = [] then [] else [(a @ ''Reason'', JStr reason)])
     @ (if requires_whatsapp_uncertain_override now j
        then [(''deliveryUncertainOverride'', JBool True), (''deliveryUncertainOverrideAt'', jtime now),
              (''deliveryUncertainOverrideBy'', JStr operator), (''deliveryUncertainOverrideReason'', JStr reason)] else [])"

definition operator_patch :: "int \<Rightarrow> outbox_job \<Rightarrow> string \<Rightarrow> action_options \<Rightarrow> outbox_patch option" where
  "operator_patch now j a opts =
     (let reason = str_trim (txt_or (ao_reason opts) (ao_error opts));
          operator = str_trim (txt_or (ao_operator opts) (txt_or (ao_operator_id opts) ''operator''));
          cleared = no_patch\<lparr>pt_claimed_by := Some [], pt_claimed_at := Some None, pt_claim_expires := Some None\<rparr>;
          noted = (\<lambda>by when. Some (spread (ob_metadata j) [(by, JStr operator), (when, jtime now)]))
      in if a = ''retry'' \<or> a = ''replay'' then
          Some (cleared\<lparr>pt_state := Some ''pending'', pt_delivered := Some None, pt_failed := Some None, pt_skipped := Some None,
            pt_error := Some [], pt_metadata := Some (spread (ob_metadata j) (reopen_metadata now j a operator reason))\<rparr>)
         else if a = ''suppress'' then
          Some (cleared\<lparr>pt_state := Some ''suppressed'', pt_skipped := Some (Some now), pt_terminal := Some now,
            pt_error := Some (txt_or reason ''operator_suppressed''), pt_metadata := noted ''suppressedBy'' ''suppressedAt''\<rparr>)
         else if a = ''dead_letter'' then
          Some (cleared\<lparr>pt_state := Some ''dead_letter'', pt_failed := Some (time_or (ob_failed j) (Some now)), pt_terminal := Some now,
            pt_error := Some (txt_or reason (txt_or (str_trim (ob_error j)) ''operator_dead_letter'')),
            pt_metadata := noted ''deadLetteredBy'' ''deadLetteredAt''\<rparr>)
         else if a = ''mark_delivered'' then
          Some (cleared\<lparr>pt_state := Some ''delivered'', pt_delivered := Some (time_or (ao_delivered_at opts) (Some now)), pt_terminal := Some now,
            pt_error := Some [],
            pt_ack := Some (case object_ack (ao_ack opts) of Some v \<Rightarrow> v | None \<Rightarrow>
              JObj ([(''operatorMarked'', JBool True), (''operator'', JStr operator)]
                @ (if reason = [] then [] else [(''reason'', JStr reason)]) @ [(''markedAt'', jtime now)])),
            pt_metadata := noted ''markedDeliveredBy'' ''markedDeliveredAt''\<rparr>)
         else None)"

definition apply_outbox_action ::
  "outbox_env \<Rightarrow> int \<Rightarrow> string \<Rightarrow> string \<Rightarrow> action_options \<Rightarrow> outbox \<Rightarrow> (outbox_error, outbox_job option) result \<times> outbox" where
  "apply_outbox_action e now target action opts rows =
     (let a = normalize_outbox_action action
      in if a = [] then (Inl ActionInvalid, rows)
         else (case get_outbox_job e now target rows of
            None \<Rightarrow> (Inl OutboxJobMissing, rows)
          | Some j \<Rightarrow>
              if has_whatsapp_partial_delivery j \<and> a \<in> set [''retry'', ''replay''] then (Inl PartialRetryRefused, rows)
              else (let override = requires_whatsapp_uncertain_override now j \<and> a \<in> set [''retry'', ''replay'']
                in if override \<and> \<not> (ao_allow_replay opts \<and> str_trim (ao_confirmation opts) = replay_confirmation
                       \<and> str_trim (ao_reason opts) \<noteq> []) then (Inl UncertainRetryRefused, rows)
                   else (case operator_patch now j a opts of
                      None \<Rightarrow> (Inl ActionInvalid, rows)
                    | Some p \<Rightarrow> (case mark_outbox_job e now (ob_id j) p (if override then ob_updated j else None) rows of
                          None \<Rightarrow> (Inl OutboxConstraint, rows)
                        | Some (r, rows') \<Rightarrow> (Inr r, rows'))))))"

section \<open>The merge of the JSON store\<close>

fun merge_in :: "outbox_env \<Rightarrow> int \<Rightarrow> outbox \<Rightarrow> outbox \<Rightarrow> outbox" where
  "merge_in e now merged [] = merged"
| "merge_in e now merged (j # js) =
     (let n = normalize_outbox_job e now j
      in merge_in e now
           (if ob_key n = [] then merged
            else (case row_of ob_key (ob_key n) merged of
                None \<Rightarrow> merged @ [n]
              | Some r \<Rightarrow> upd_rows (\<lambda>x. ob_key x = ob_key n) (\<lambda>_. merge_job (oe_hash e) r n) merged)) js)"

definition prune_connector_outbox_jobs :: "outbox_env \<Rightarrow> outbox \<Rightarrow> outbox" where
  "prune_connector_outbox_jobs e rows =
     (let sorted = sort_key (\<lambda>j. date_ms (ob_created j)) rows;
          prunable = (\<lambda>j. lower_text (txt_or (ob_state j) ''pending'') \<in> set retention_prunable_states);
          old = sort_key outbox_stamp (filter prunable sorted);
          kept = filter (\<lambda>j. \<not> prunable j) sorted @ drop (length old - nat (connector_outbox_retention_limit e)) old
      in filter (\<lambda>j. ob_key j \<in> ob_key ` set kept) sorted)"

definition merge_connector_outbox_jobs :: "outbox_env \<Rightarrow> int \<Rightarrow> outbox \<Rightarrow> outbox \<Rightarrow> outbox" where
  "merge_connector_outbox_jobs e now existing fresh = prune_connector_outbox_jobs e (merge_in e now [] (existing @ fresh))"

end
