(* ===== verification/OutboxDispatch.thy ===== *)
theory OutboxDispatch
  imports Outbox
begin

text \<open>
  The relay of notification intents into the connector outbox (\<open>agent-job-notification-relay.js\<close>), the
  dispatcher that delivers them (\<open>agent-job-notification-dispatcher.js\<close>) and the webhook channel
  (\<open>agent-job-webhook-delivery.js\<close>). A dispatcher is a program over the outbox: it returns, runs a
  transaction of the outbox, or calls a transport and goes on with its reply. Any number of processes
  run such programs at the same time, their steps in any order, and each may die between any two.
  Fault points are such deaths; the default transports are the replies of the calls.
\<close>

section \<open>Programs\<close>

datatype dispatch_request =
    AppendThread string "(string \<times> json) list"
  | ResolveBinding string
  | SendWhatsApp string string string string
  | SendEmail string string string
  | ResolveSecret string
  | PostWebhook string string string json

datatype reply = Replied json | Failed string int string

datatype 'a prog =
    Return 'a
  | Atomic "int \<Rightarrow> outbox \<Rightarrow> outbox \<times> 'a prog" "'a prog"
  | Call dispatch_request "reply \<Rightarrow> 'a prog"

primrec prog_bind :: "'a prog \<Rightarrow> ('a \<Rightarrow> 'b prog) \<Rightarrow> 'b prog" where
  "prog_bind (Return a) f = f a"
| "prog_bind (Atomic g p) f = Atomic (\<lambda>now rows. map_prod id (\<lambda>q. prog_bind q f) (g now rows)) (prog_bind p f)"
| "prog_bind (Call r c) f = Call r (\<lambda>x. prog_bind (c x) f)"

text \<open>Programs that may throw; what is thrown does not matter to the dispatcher.\<close>

type_synonym 'a eprog = "(unit + 'a) prog"

definition finish :: "'a \<Rightarrow> 'a eprog" where
  "finish a = Return (Inr a)"

definition ebind :: "'a eprog \<Rightarrow> ('a \<Rightarrow> 'b eprog) \<Rightarrow> 'b eprog" where
  "ebind m f = prog_bind m (\<lambda>r. case r of Inl u \<Rightarrow> Return (Inl u) | Inr a \<Rightarrow> f a)"

definition ask :: "dispatch_request \<Rightarrow> reply eprog" where
  "ask q = Call q (\<lambda>x. finish x)"

text \<open>A transaction: it throws when a constraint is violated, and may throw for any other reason.\<close>

definition txn :: "(int \<Rightarrow> outbox \<Rightarrow> ('a \<times> outbox) option) \<Rightarrow> 'a eprog" where
  "txn f = Atomic (\<lambda>now rows. case f now rows of Some (a, rows') \<Rightarrow> (rows', finish a) | None \<Rightarrow> (rows, Return (Inl ()))) (Return (Inl ()))"

section \<open>Outcomes and texts\<close>

record outcome =
  out_state :: string
  out_error :: "string option"
  out_receipt :: "(string \<times> json) list"
  out_metadata :: "(string \<times> json) list"

definition failed_with :: "string \<Rightarrow> string \<Rightarrow> outcome" where
  "failed_with state error = \<lparr>out_state = state, out_error = Some error, out_receipt = [], out_metadata = []\<rparr>"

definition delivered_with :: "(string \<times> json) list \<Rightarrow> outcome" where
  "delivered_with receipt = \<lparr>out_state = ''delivered'', out_error = None, out_receipt = receipt, out_metadata = []\<rparr>"

definition template :: "json option \<Rightarrow> string" where
  "template v = (case v of None \<Rightarrow> ''undefined'' | Some x \<Rightarrow> js_string x)"

definition truthy_at :: "json \<Rightarrow> string \<Rightarrow> bool" where
  "truthy_at p k \<longleftrightarrow> (case jget p k of None \<Rightarrow> False | Some v \<Rightarrow> truthy v)"

definition agent_job_whatsapp_text :: "json \<Rightarrow> string" where
  "agent_job_whatsapp_text p =
     (let text = text_or (jget p ''text'') (''Agent job '' @ template (jget p ''job'') @ '' run '' @ template (jget p ''runId'') @ '': ''
            @ template (jget p ''event''));
          approve = ''approve '' @ template (jget p ''approvalId''); deny = ''deny '' @ template (jget p ''approvalId'')
      in if jget p ''event'' \<noteq> Some (JStr ''approval_required'') \<or> \<not> truthy_at p ''approvalId'' then text
         else if str_includes approve text \<and> str_includes deny text then text
         else text @ [CHR 0x0A] @ ''Reply '' @ [CHR 0x22] @ approve @ [CHR 0x22] @ '' or '' @ [CHR 0x22] @ deny @ [CHR 0x22] @ '' in this group.'')"

definition email_subject :: "json \<Rightarrow> string" where
  "email_subject p =
     ''[Orkestr] '' @ template (jget p ''job'') @ '': ''
       @ (if jget p ''event'' = Some (JStr ''approval_required'') then ''approval required''
          else map (\<lambda>c. if c = CHR ''_'' then CHR '' '' else c) (text_or (jget p ''event'') ''update''))"

definition at :: "json option \<Rightarrow> string \<Rightarrow> json option" where
  "at v k = (case v of None \<Rightarrow> None | Some x \<Rightarrow> jget x k)"

definition first_of :: "json option \<Rightarrow> json option" where
  "first_of v = (case v of Some (JArr (x # _)) \<Rightarrow> Some x | _ \<Rightarrow> None)"

definition receipt_id :: "json \<Rightarrow> string" where
  "receipt_id ack =
     (let a = Some ack;
          found = find (\<lambda>v. case v of None \<Rightarrow> False | Some x \<Rightarrow> truthy x)
            [at (at a ''id'') ''_serialized'', at a ''id'', first_of (at a ''ids''), at (at (first_of (at a ''sent'')) ''id'') ''_serialized'',
             at (first_of (at a ''sent'')) ''id'', at a ''messageId'', at (at (at a ''message'') ''id'') ''_serialized'', at (at a ''message'') ''id'']
      in case found of Some (Some (JStr s)) \<Rightarrow> s | _ \<Rightarrow> [])"

definition notify_max_attempts :: "env_setting \<Rightarrow> int" where
  "notify_max_attempts raw = (case raw of Some (Some n) \<Rightarrow> if 1 \<le> n then n else 8 | _ \<Rightarrow> 8)"

definition blank_job :: outbox_job where
  "blank_job = \<lparr>ob_id = [], ob_tenant = [], ob_owner = [], ob_connector = [], ob_account = [], ob_chat = [], ob_thread = [], ob_agent = [],
     ob_source_event = [], ob_source_message = [], ob_source_revision = [], ob_delivery_type = [], ob_payload = JObj [], ob_payload_hash = [],
     ob_key = [], ob_state = [], ob_attempts = 0, ob_claimed_by = [], ob_claimed_at = None, ob_claim_expires = None, ob_created = None,
     ob_updated = None, ob_terminal = None, ob_delivered = None, ob_failed = None, ob_skipped = None, ob_error = [], ob_ack = None,
     ob_metadata = []\<rparr>"

section \<open>Channels\<close>

record dispatcher =
  dp_env :: outbox_env
  dp_max_attempts :: env_setting
  dp_parse_url :: "string \<Rightarrow> url option"

definition mark :: "dispatcher \<Rightarrow> string \<Rightarrow> (int \<Rightarrow> outbox_patch) \<Rightarrow> outbox_job option eprog" where
  "mark dp target patch = txn (\<lambda>now. mark_outbox_job (dp_env dp) now target (patch now) None)"

definition claimant :: "dispatcher \<Rightarrow> string" where
  "claimant dp = ''agent-job-notify:'' @ oe_pid (dp_env dp)"

definition deliver_thread :: "outbox_job \<Rightarrow> outcome eprog" where
  "deliver_thread j =
     (let target = text_or (jget (ob_payload j) ''target'') []
      in if target = [] then finish (failed_with ''dead_letter'' ''thread_target_missing'')
         else ebind (ask (AppendThread target [(''role'', JStr ''assistant''), (''source'', JStr ''agent_job''), (''state'', JStr ''completed''),
             (''text'', or_null (jget (ob_payload j) ''text'')), (''clientMessageId'', JStr (ob_key j)),
             (''dedupeAssistantByIdempotencyKey'', JBool True)])) (\<lambda>r. case r of
           Replied m \<Rightarrow> finish (delivered_with [(''messageId'', if truthy_at m ''id'' then or_null (jget m ''id'') else JNull),
             (''duplicate'', JBool (truthy_at m ''duplicate''))])
         | Failed message status name \<Rightarrow> finish (if message = ''thread_not_found'' \<or> status = 404
             then failed_with ''dead_letter'' ''thread_not_found'' else failed_with ''failed_retryable'' ''thread_append_failed'')))"

text \<open>The chat and account a notification goes to; a binding is looked up.\<close>

definition whatsapp_route :: "string \<Rightarrow> (string \<times> string) option eprog" where
  "whatsapp_route target =
     (if starts_with ''binding:'' target
      then ebind (ask (ResolveBinding (drop 8 target))) (\<lambda>r. case r of
          Replied v \<Rightarrow> finish (if truthy_at v ''chatId'' then Some (text_or (jget v ''chatId'') [], text_or (jget v ''accountId'') []) else None)
        | Failed m s n \<Rightarrow> Return (Inl ()))
      else finish (if target = [] then None else Some (target, [])))"

definition inner_job :: "outbox_job \<Rightarrow> string \<Rightarrow> string \<Rightarrow> string \<Rightarrow> outbox_job" where
  "inner_job j chat account text = blank_job\<lparr>ob_connector := ''whatsapp'', ob_account := account, ob_chat := chat,
     ob_delivery_type := ''agent_job_notification'', ob_source_event := ob_key j, ob_source_message := ob_key j,
     ob_key := ob_key j @ '':whatsapp'', ob_payload := JObj [(''text'', JStr text)],
     ob_metadata := [(''source'', JStr ''agent_job''), (''agentJobOutboxId'', JStr (ob_id j))]\<rparr>"

definition uncertain_message :: "string \<Rightarrow> bool" where
  "uncertain_message m \<longleftrightarrow> list_ex (\<lambda>w. str_includes w (to_lower m)) [''not_confirmed'', ''timeout'', ''partial'']"

definition mark_uncertain :: "dispatcher \<Rightarrow> outbox_job \<Rightarrow> string \<Rightarrow> outcome eprog" where
  "mark_uncertain dp inner error =
     ebind (mark dp (ob_id inner) (\<lambda>now. no_patch\<lparr>pt_state := Some ''delivery_uncertain'', pt_error := Some error,
         pt_metadata := Some (spread (ob_metadata inner) [(''deliveryUncertain'', JBool True)])\<rparr>))
       (\<lambda>_. finish (failed_with ''delivery_uncertain'' error))"

definition after_send :: "dispatcher \<Rightarrow> outbox_job \<Rightarrow> reply \<Rightarrow> outcome eprog" where
  "after_send dp inner r =
     (case r of
        Failed message status name \<Rightarrow>
          if uncertain_message message then mark_uncertain dp inner ''whatsapp_send_not_confirmed''
          else ebind (txn (\<lambda>now. release_outbox_claim (dp_env dp) now (ob_id inner) ''whatsapp_send_failed''))
            (\<lambda>_. finish (failed_with ''failed_retryable'' ''whatsapp_send_failed''))
      | Replied ack \<Rightarrow>
          if receipt_id ack = [] \<or> jget ack ''ok'' = Some (JBool False) then mark_uncertain dp inner ''whatsapp_ack_missing''
          else ebind (mark dp (ob_id inner) (\<lambda>now. no_patch\<lparr>pt_state := Some ''delivered'', pt_delivered := Some (Some now),
              pt_ack := Some (JObj [(''id'', JStr (receipt_id ack))])\<rparr>))
            (\<lambda>_. finish (delivered_with [(''whatsappOutboxId'', JStr (ob_id inner)), (''id'', JStr (receipt_id ack))])))"

definition ack_entries :: "outbox_job \<Rightarrow> (string \<times> json) list" where
  "ack_entries j = (case ob_ack j of Some (JObj kvs) \<Rightarrow> kvs | _ \<Rightarrow> [])"

definition send_claimed :: "dispatcher \<Rightarrow> outbox_job \<Rightarrow> string \<Rightarrow> string \<Rightarrow> string \<Rightarrow> claim_result \<Rightarrow> outcome eprog" where
  "send_claimed dp inner chat account text c =
     (let state = (case cr_job c of None \<Rightarrow> [] | Some k \<Rightarrow> ob_state k)
      in if \<not> cr_acquired c then finish
           (if state = ''delivered'' then delivered_with [(''whatsappOutboxId'', JStr (ob_id inner))]
            else if cr_terminal c then failed_with ''delivery_uncertain'' (''whatsapp_'' @ txt_or state ''terminal'')
            else failed_with ''failed_retryable'' (txt_or (cr_reason c) ''whatsapp_claim_busy''))
         else ebind (ask (SendWhatsApp chat account text (ob_id inner))) (after_send dp inner))"

definition deliver_whatsapp :: "dispatcher \<Rightarrow> outbox_job \<Rightarrow> outcome eprog" where
  "deliver_whatsapp dp j =
     ebind (whatsapp_route (str_trim (text_or (jget (ob_payload j) ''target'') []))) (\<lambda>route. case route of
         None \<Rightarrow> finish (failed_with ''dead_letter'' ''whatsapp_target_unresolved'')
       | Some (chat, account) \<Rightarrow> (let text = agent_job_whatsapp_text (ob_payload j) in
           ebind (txn (\<lambda>now. ensure_outbox_job (dp_env dp) now (inner_job j chat account text))) (\<lambda>(inner, created).
             if ob_state inner = ''delivered'' then finish (delivered_with ((''whatsappOutboxId'', JStr (ob_id inner)) # ack_entries inner))
             else ebind (txn (\<lambda>now. claim_outbox_job (dp_env dp) now (ob_id inner) (claimant dp)))
               (send_claimed dp inner chat account text))))"

definition email_address_re :: "string \<Rightarrow> bool" where
  "email_address_re s \<longleftrightarrow> list_all (\<lambda>c. \<not> is_space c) s
     \<and> (case split_on (CHR ''@'') s of [user, host] \<Rightarrow> user \<noteq> [] \<and> host \<noteq> [] | _ \<Rightarrow> False)"

definition fence_cleared :: "(string \<times> json) list" where
  "fence_cleared = [(''emailSendStartedAt'', JNull)]"

definition deliver_email :: "dispatcher \<Rightarrow> outbox_job \<Rightarrow> outcome eprog" where
  "deliver_email dp j =
     (let target = str_trim (text_or (jget (ob_payload j) ''target'') [])
      in if \<not> email_address_re target then finish (failed_with ''dead_letter'' ''email_target_invalid'')
         else if meta_true j ''emailSendStartedAt'' then finish (failed_with ''delivery_uncertain'' ''email_send_interrupted'')
         else ebind (mark dp (ob_id j) (\<lambda>now. no_patch\<lparr>pt_metadata := Some (spread (ob_metadata j) [(''emailSendStartedAt'', jtime now)])\<rparr>)) (\<lambda>_.
           ebind (ask (SendEmail target (email_subject (ob_payload j)) (text_or (jget (ob_payload j) ''text'') []))) (\<lambda>r. case r of
             Failed m s n \<Rightarrow> finish ((failed_with ''failed_retryable'' ''email_send_failed'')\<lparr>out_metadata := fence_cleared\<rparr>)
           | Replied v \<Rightarrow> finish
               (if truthy_at v ''ok'' then delivered_with
                  [(''messageId'', if truthy_at v ''messageId'' then or_null (jget v ''messageId'') else JNull),
                   (''provider'', if truthy_at v ''provider'' then or_null (jget v ''provider'') else JNull)]
                else if jget v ''configured'' = Some (JBool False)
                then failed_with ''skipped'' (text_or (jget v ''skippedReason'') ''email_not_configured'')
                else (failed_with ''failed_retryable'' ''email_send_failed'')\<lparr>out_metadata := fence_cleared\<rparr>))))"

definition https_url :: "dispatcher \<Rightarrow> string \<Rightarrow> url option" where
  "https_url dp v = (case dp_parse_url dp v of
     Some u \<Rightarrow> if url_protocol u = ''https:'' \<and> url_hostname u \<noteq> [] then Some u else None | None \<Rightarrow> None)"

definition resolve_webhook_target :: "dispatcher \<Rightarrow> string \<Rightarrow> url option eprog" where
  "resolve_webhook_target dp target =
     (let raw = str_trim target; checked = (\<lambda>v. if v = [] then None else https_url dp (str_trim v))
      in if starts_with ''vault://'' raw
         then ebind (ask (ResolveSecret raw)) (\<lambda>r. case r of
             Replied (JStr v) \<Rightarrow> finish (checked v) | Replied _ \<Rightarrow> finish None | Failed m s n \<Rightarrow> Return (Inl ()))
         else finish (checked raw))"

definition member :: "string \<Rightarrow> json option \<Rightarrow> (string \<times> json) list" where
  "member k v = (case v of None \<Rightarrow> [] | Some x \<Rightarrow> [(k, x)])"

definition webhook_body :: "outbox_job \<Rightarrow> json" where
  "webhook_body j =
     (let p = ob_payload j
      in JObj ([(''type'', JStr (''agent_job.'' @ template (jget p ''event''))), (''id'', JStr (ob_key j))]
          @ member ''job'' (jget p ''job'') @ member ''run_id'' (jget p ''runId'') @ member ''event'' (jget p ''event'')
          @ member ''text'' (jget p ''text'')
          @ (if truthy_at p ''approvalId'' then [(''approval_id'', or_null (jget p ''approvalId'')),
               (''tool'', if truthy_at p ''tool'' then or_null (jget p ''tool'') else JNull)] else [])
          @ (if truthy_at p ''reason'' then [(''reason'', or_null (jget p ''reason''))] else [])))"

definition webhook_status :: "int \<Rightarrow> outcome" where
  "webhook_status status =
     (if 200 \<le> status \<and> status < 300 then delivered_with [(''status'', JNum status)]
      else if status \<in> set [408, 425, 429] \<or> 500 \<le> status then failed_with ''failed_retryable'' (''webhook_http_'' @ int_str status)
      else failed_with ''dead_letter'' (''webhook_http_'' @ (if status = 0 then ''unknown'' else int_str status)))"

definition deliver_agent_job_webhook :: "dispatcher \<Rightarrow> outbox_job \<Rightarrow> outcome eprog" where
  "deliver_agent_job_webhook dp j =
     ebind (resolve_webhook_target dp (text_or (jget (ob_payload j) ''target'') [])) (\<lambda>u. case u of
         None \<Rightarrow> finish (failed_with ''dead_letter'' ''webhook_target_not_https'')
       | Some url \<Rightarrow> ebind (ask (PostWebhook (url_href url) (ob_key j) (''agent_job.'' @ template (jget (ob_payload j) ''event''))
             (webhook_body j))) (\<lambda>r. case r of
           Failed m s n \<Rightarrow> finish (failed_with ''failed_retryable'' (if n = ''TimeoutError'' then ''webhook_timeout'' else ''webhook_network_error''))
         | Replied v \<Rightarrow> finish (webhook_status (case v of JNum n \<Rightarrow> n | _ \<Rightarrow> 0))))"

definition deliver :: "dispatcher \<Rightarrow> outbox_job \<Rightarrow> outcome eprog" where
  "deliver dp j =
     (let channel = jget (ob_payload j) ''channel''
      in if channel = Some (JStr ''thread'') then deliver_thread j
         else if channel = Some (JStr ''whatsapp'') then deliver_whatsapp dp j
         else if channel = Some (JStr ''email'') then deliver_email dp j
         else if channel = Some (JStr ''webhook'') then deliver_agent_job_webhook dp j
         else finish (failed_with ''dead_letter'' ''notification_channel_unknown''))"

section \<open>The dispatcher\<close>

definition outcome_patch :: "dispatcher \<Rightarrow> outbox_job \<Rightarrow> outcome \<Rightarrow> int \<Rightarrow> outbox_patch" where
  "outcome_patch dp j out now =
     (let meta' = spread (spread (ob_metadata j) (out_metadata out)) [(''lastOutcome'', JStr (out_state out))];
          p = no_patch\<lparr>pt_metadata := Some meta'\<rparr>; error = (case out_error out of None \<Rightarrow> [] | Some x \<Rightarrow> x)
      in if out_state out = ''delivered''
         then p\<lparr>pt_state := Some ''delivered'', pt_delivered := Some (Some now), pt_ack := Some (JObj (out_receipt out)), pt_error := Some []\<rparr>
         else if out_state out = ''failed_retryable''
         then (if notify_max_attempts (dp_max_attempts dp) \<le> int (ob_attempts j)
           then p\<lparr>pt_state := Some ''dead_letter'', pt_failed := Some (Some now), pt_error := Some (error @ '':max_attempts'')\<rparr>
           else p\<lparr>pt_state := Some ''failed_retryable'', pt_failed := Some (Some now),
             pt_claim_expires := Some (Some (now + connector_outbox_retry_delay_ms (dp_env dp) (max 1 (ob_attempts j)))),
             pt_claimed_by := Some [], pt_claimed_at := Some None, pt_error := Some error\<rparr>)
         else (let q = p\<lparr>pt_state := Some (out_state out), pt_error := Some error\<rparr>
           in if out_state out = ''skipped'' then q\<lparr>pt_skipped := Some (Some now)\<rparr> else q\<lparr>pt_failed := Some (Some now)\<rparr>))"

definition record_outcome :: "dispatcher \<Rightarrow> outbox_job \<Rightarrow> outcome \<Rightarrow> outbox_job option eprog" where
  "record_outcome dp j out = mark dp (ob_id j) (outcome_patch dp j out)"

definition dispatch_one :: "dispatcher \<Rightarrow> outbox_job \<Rightarrow> (string \<times> string) list \<Rightarrow> (string \<times> string) list eprog" where
  "dispatch_one dp candidate results =
     ebind (txn (\<lambda>now. claim_outbox_job (dp_env dp) now (ob_id candidate) (claimant dp))) (\<lambda>c.
       case (cr_acquired c, cr_job c) of
         (True, Some j) \<Rightarrow>
           prog_bind (deliver dp j) (\<lambda>r. (let out = (case r of Inl u \<Rightarrow> failed_with ''failed_retryable'' ''notification_dispatch_failed'' | Inr x \<Rightarrow> x)
             in ebind (record_outcome dp j out) (\<lambda>updated.
               finish (results @ [(ob_id j, case updated of Some u \<Rightarrow> ob_state u | None \<Rightarrow> out_state out)]))))
       | _ \<Rightarrow> finish results)"

primrec dispatch_all :: "dispatcher \<Rightarrow> outbox \<Rightarrow> (string \<times> string) list \<Rightarrow> (string \<times> string) list eprog" where
  "dispatch_all dp [] results = finish results"
| "dispatch_all dp (j # js) results = ebind (dispatch_one dp j results) (dispatch_all dp js)"

definition open_filter :: outbox_filters where
  "open_filter = \<lparr>of_connector = ''agent_job'', of_tenant = [], of_owner = [], of_account = [], of_chat = [], of_thread = [],
     of_delivery_type = [], of_states = [''pending'', ''failed_retryable'', ''claimed''], of_limit = 0\<rparr>"

definition dispatch_agent_job_notifications :: "dispatcher \<Rightarrow> nat \<Rightarrow> (string \<times> string) list eprog" where
  "dispatch_agent_job_notifications dp limit =
     ebind (txn (\<lambda>now rows. Some (list_connector_outbox_jobs (dp_env dp) now open_filter rows, rows)))
       (\<lambda>found. dispatch_all dp (take limit (rev found)) [])"

section \<open>The relay\<close>

definition relayed_job :: "notification_row \<Rightarrow> outbox_job" where
  "relayed_job n = blank_job\<lparr>ob_connector := ''agent_job'', ob_delivery_type := ''agent_job.'' @ template (jget (ntf_payload n) ''event''),
     ob_source_event := ntf_key n, ob_source_message := ntf_key n, ob_key := ntf_key n, ob_payload := ntf_payload n,
     ob_metadata := [(''channel'', JStr (ntf_channel n)), (''target'', JStr (ntf_target n)),
       (''approvalChannel'', JBool (ntf_channel n = ''whatsapp''))]\<rparr>"

text \<open>The loop stops where the process dies; the first argument counts the intents it still handles.\<close>

fun relay_intents :: "nat \<Rightarrow> outbox_env \<Rightarrow> int \<Rightarrow> notification_row list \<Rightarrow> db \<Rightarrow> outbox \<Rightarrow> db \<times> outbox" where
  "relay_intents n e now [] d rows = (d, rows)"
| "relay_intents 0 e now (x # xs) d rows = (case ensure_outbox_job e now (relayed_job x) rows of Some (r, rows') \<Rightarrow> (d, rows') | None \<Rightarrow> (d, rows))"
| "relay_intents (Suc n) e now (x # xs) d rows =
     (case ensure_outbox_job e now (relayed_job x) rows of
        None \<Rightarrow> (d, rows)
      | Some ((j, created), rows') \<Rightarrow> relay_intents n e now xs (mark_notification_relayed now (ntf_key x) (Some (ob_id j)) d) rows')"

definition relay_agent_job_notifications :: "nat \<Rightarrow> outbox_env \<Rightarrow> int \<Rightarrow> nat \<Rightarrow> db \<Rightarrow> outbox \<Rightarrow> db \<times> outbox" where
  "relay_agent_job_notifications n e now limit d rows = relay_intents n e now (list_pending_notifications limit d) d rows"

end
