(* ===== verification/OutboxFacts.thy ===== *)
theory OutboxFacts
  imports OutboxDispatch
begin

text \<open>
  Lemmas on the operations of the outbox: what each does to the row of a key, in a table whose rows
  come from the notification relay and from the WhatsApp channel of the dispatcher.
\<close>

section \<open>Texts\<close>

lemma dropWhile_not_hd: "dropWhile p xs = [] \<or> \<not> p (hd (dropWhile p xs))"
  by (induction xs) auto

lemma dropWhile_fixed: "xs = [] \<or> \<not> p (hd xs) \<Longrightarrow> dropWhile p xs = xs"
  by (cases xs) auto

lemma str_trim_idem [simp]: "str_trim (str_trim s) = str_trim s"
proof -
  let ?a = "dropWhile is_space s" let ?b = "dropWhile is_space (rev ?a)"
  have "rev ?b = [] \<or> \<not> is_space (hd (rev ?b))"
  proof (cases "?b = []")
    case False
    then have "last ?b = last (rev ?a)"
      by (metis dropWhile_append1 last_appendR takeWhile_dropWhile_id)
    moreover from False have "?a \<noteq> []" by (metis dropWhile.simps(1) rev.simps(1))
    ultimately show ?thesis using False dropWhile_not_hd [of is_space s] by (auto simp: hd_rev last_rev)
  qed simp
  then have "dropWhile is_space (rev ?b) = rev ?b" by (rule dropWhile_fixed)
  moreover have "dropWhile is_space ?b = ?b" by (rule dropWhile_fixed) (rule dropWhile_not_hd)
  ultimately show ?thesis by (simp add: str_trim_def)
qed

lemma upper_code: "is_upper c \<Longrightarrow> 65 \<le> (of_char c :: nat) \<and> (of_char c :: nat) \<le> 90"
  by (simp add: is_upper_def char_between_def)

lemma is_space_lower [simp]: "is_space (to_lower_char c) = is_space c"
proof (cases "is_upper c")
  case True
  from upper_code [OF this] have c: "65 \<le> (of_char c :: nat)" "(of_char c :: nat) \<le> 90" by auto
  have eq: "d = e \<longleftrightarrow> (of_char d :: nat) = of_char e" for d e :: char by simp
  have code: "is_space d \<longleftrightarrow> (of_char d :: nat) = 32 \<or> 9 \<le> (of_char d :: nat) \<and> (of_char d :: nat) \<le> 13 \<or> (of_char d :: nat) = 160" for d
    unfolding is_space_def char_between_def eq by simp
  show ?thesis using True c by (simp add: to_lower_char_def code)
next
  case False
  then show ?thesis by (simp add: to_lower_char_def)
qed

lemma lower_lower_char [simp]: "to_lower_char (to_lower_char c) = to_lower_char c"
proof (cases "is_upper c")
  case True
  from upper_code [OF this] have c: "65 \<le> (of_char c :: nat)" "(of_char c :: nat) \<le> 90" by auto
  have "\<not> is_upper (char_of ((of_char c :: nat) + 32))" using c by (simp add: is_upper_def char_between_def)
  then show ?thesis using True by (simp add: to_lower_char_def)
qed (simp add: to_lower_char_def)

lemma dropWhile_lower: "dropWhile is_space (to_lower s) = to_lower (dropWhile is_space s)"
  by (induction s) (auto simp: to_lower_def)

lemma str_trim_lower: "str_trim (to_lower s) = to_lower (str_trim s)"
proof -
  have r: "rev (to_lower x) = to_lower (rev x)" for x by (simp add: to_lower_def rev_map)
  show ?thesis unfolding str_trim_def r dropWhile_lower by (simp add: r dropWhile_lower)
qed

lemma lower_text_idem [simp]: "lower_text (lower_text s) = lower_text s"
  by (simp add: lower_text_def str_trim_lower) (simp add: to_lower_def comp_def)

lemma txt_or_simps [simp]: "txt_or [] b = b" "a \<noteq> [] \<Longrightarrow> txt_or a b = a" "txt_or (c # cs) b = c # cs"
  by (simp_all add: txt_or_def)

lemma known_texts [simp]:
  "lower_text ''agent_job'' = ''agent_job''" "lower_text ''whatsapp'' = ''whatsapp''" "lower_text ''pending'' = ''pending''"
  "str_trim ''agent_job_notification'' = ''agent_job_notification''" "lower_text ''claimed'' = ''claimed''"
  "lower_text ''delivered'' = ''delivered''" "lower_text ''delivery_uncertain'' = ''delivery_uncertain''"
  "lower_text ''partial_delivery'' = ''partial_delivery''" "lower_text ''failed_retryable'' = ''failed_retryable''"
  "lower_text ''dead_letter'' = ''dead_letter''"
  by code_simp+

section \<open>The rows of notifications\<close>

text \<open>The keys of intents, and the keys of their WhatsApp rows.\<close>

abbreviation inner_key :: "string \<Rightarrow> string" where
  "inner_key q \<equiv> q @ '':whatsapp''"

definition co_id :: "(string \<Rightarrow> string) \<Rightarrow> string \<Rightarrow> string" where
  "co_id H k = ''co_'' @ take 32 (H k)"

definition all_keys :: "string set \<Rightarrow> string set" where
  "all_keys Q = Q \<union> inner_key ` Q"

text \<open>The keys fit into the retention limit, and the ids that the digest gives them tell them apart.\<close>

definition keys_ok :: "outbox_env \<Rightarrow> string set \<Rightarrow> bool" where
  "keys_ok e Q \<longleftrightarrow> finite Q \<and> int (card (all_keys Q)) \<le> connector_outbox_retention_limit e
     \<and> (\<forall>k \<in> all_keys Q. str_trim k = k \<and> k \<noteq> [] \<and> str_trim (co_id (oe_hash e) k) = co_id (oe_hash e) k)
     \<and> inj_on (co_id (oe_hash e)) (all_keys Q) \<and> co_id (oe_hash e) ` all_keys Q \<inter> all_keys Q = {} \<and> Q \<inter> inner_key ` Q = {}"

definition row_ok :: "outbox_env \<Rightarrow> string set \<Rightarrow> outbox_job \<Rightarrow> bool" where
  "row_ok e Q r \<longleftrightarrow> ob_id r = co_id (oe_hash e) (ob_key r)
     \<and> (ob_connector r = ''agent_job'' \<and> ob_key r \<in> Q
        \<or> ob_connector r = ''whatsapp'' \<and> ob_key r \<in> inner_key ` Q \<and> ob_delivery_type r = ''agent_job_notification'')"

definition state_ok :: "outbox_job \<Rightarrow> bool" where
  "state_ok r \<longleftrightarrow> lower_text (ob_state r) = ob_state r \<and> ob_state r \<noteq> []"

definition outbox_wf :: "outbox_env \<Rightarrow> string set \<Rightarrow> outbox \<Rightarrow> bool" where
  "outbox_wf e Q rows \<longleftrightarrow> distinct (map ob_key rows) \<and> (\<forall>r \<in> set rows. row_ok e Q r \<and> state_ok r)"

lemma row_ok_key: "row_ok e Q r \<Longrightarrow> ob_key r \<in> all_keys Q"
  by (auto simp: row_ok_def all_keys_def)

lemma keys_okD:
  assumes "keys_ok e Q" "k \<in> all_keys Q"
  shows "str_trim k = k" "k \<noteq> []" "str_trim (co_id (oe_hash e) k) = co_id (oe_hash e) k" "co_id (oe_hash e) k \<noteq> []"
  using assms by (auto simp: keys_ok_def co_id_def)

lemma state_ok_normalize [simp]: "state_ok (normalize_outbox_job e now j)"
  by (auto simp: state_ok_def normalize_outbox_job_def Let_def txt_or_def)

lemma normalize_kept:
  assumes "keys_ok e Q" "row_ok e Q j"
  shows "ob_key (normalize_outbox_job e now j) = ob_key j" "ob_id (normalize_outbox_job e now j) = ob_id j"
    "ob_connector (normalize_outbox_job e now j) = ob_connector j"
    "state_ok j \<Longrightarrow> ob_state (normalize_outbox_job e now j) = ob_state j"
    "ob_claim_expires (normalize_outbox_job e now j) = ob_claim_expires j"
    "row_ok e Q (normalize_outbox_job e now j)"
proof -
  note k = keys_okD [OF assms(1) row_ok_key [OF assms(2)]]
  have id: "ob_id j = co_id (oe_hash e) (ob_key j)" using assms(2) by (simp add: row_ok_def)
  have c: "lower_text (ob_connector j) = ob_connector j" using assms(2) by (auto simp: row_ok_def)
  show "ob_key (normalize_outbox_job e now j) = ob_key j" "ob_id (normalize_outbox_job e now j) = ob_id j"
    "ob_connector (normalize_outbox_job e now j) = ob_connector j"
    "ob_claim_expires (normalize_outbox_job e now j) = ob_claim_expires j"
    using k id c by (simp_all add: normalize_outbox_job_def Let_def)
  show "state_ok j \<Longrightarrow> ob_state (normalize_outbox_job e now j) = ob_state j"
    by (simp add: normalize_outbox_job_def Let_def state_ok_def)
  show "row_ok e Q (normalize_outbox_job e now j)"
    using k id c assms(2) by (auto simp: normalize_outbox_job_def Let_def row_ok_def)
qed

section \<open>The table\<close>

lemma find_cong: "(\<And>x. x \<in> set xs \<Longrightarrow> p x = q x) \<Longrightarrow> find p xs = find q xs"
  by (induction xs) auto

lemma get_row_id:
  assumes "keys_ok e Q" "outbox_wf e Q rows" "k \<in> all_keys Q"
  shows "get_outbox_row (co_id (oe_hash e) k) rows = row_of ob_key k rows"
proof -
  have "(ob_id r = co_id (oe_hash e) k \<or> ob_key r = co_id (oe_hash e) k) = (ob_key r = k)" if "r \<in> set rows" for r
  proof -
    have r: "row_ok e Q r" using assms(2) that by (simp add: outbox_wf_def)
    note rk = row_ok_key [OF r]
    have "ob_key r \<noteq> co_id (oe_hash e) k" using assms(1,3) rk by (auto simp: keys_ok_def)
    moreover have "ob_id r = co_id (oe_hash e) k \<longleftrightarrow> ob_key r = k"
      using assms(1,3) rk r by (auto simp: keys_ok_def row_ok_def inj_on_def)
    ultimately show ?thesis by blast
  qed
  then show ?thesis
    using keys_okD [OF assms(1,3)] by (auto simp: get_outbox_row_def Let_def row_of_def intro!: find_cong)
qed

lemma get_row_key:
  assumes "keys_ok e Q" "outbox_wf e Q rows" "k \<in> all_keys Q"
  shows "get_outbox_row k rows = row_of ob_key k rows"
proof -
  have "(ob_id r = k \<or> ob_key r = k) = (ob_key r = k)" if "r \<in> set rows" for r
  proof -
    have r: "row_ok e Q r" using assms(2) that by (simp add: outbox_wf_def)
    have "ob_id r \<noteq> k" using assms(1,3) row_ok_key [OF r] r by (auto simp: keys_ok_def row_ok_def)
    then show ?thesis by blast
  qed
  then show ?thesis
    using keys_okD [OF assms(1,3)] by (auto simp: get_outbox_row_def Let_def row_of_def intro!: find_cong)
qed

lemma wf_row: "outbox_wf e Q rows \<Longrightarrow> row_of ob_key k rows = Some r \<Longrightarrow> row_ok e Q r \<and> state_ok r \<and> ob_key r = k"
  using row_of_Some_in row_of_Some_key by (fastforce simp: outbox_wf_def)

lemma upsert_ok:
  assumes "keys_ok e Q" "outbox_wf e Q rows" "row_ok e Q j" "state_ok j"
  obtains rows' where "upsert_row j rows = Some rows'" "outbox_wf e Q rows'"
    "\<And>k. row_of ob_key k rows' = (if k = ob_key j then Some j else row_of ob_key k rows)"
proof -
  have apart: "\<not> list_ex (\<lambda>r. ob_id r = ob_id j \<and> ob_key r \<noteq> ob_key j) rows"
  proof
    assume "list_ex (\<lambda>r. ob_id r = ob_id j \<and> ob_key r \<noteq> ob_key j) rows"
    then obtain r where r: "r \<in> set rows" "ob_id r = ob_id j" "ob_key r \<noteq> ob_key j" by (auto simp: list_ex_iff)
    then have "row_ok e Q r" using assms(2) by (simp add: outbox_wf_def)
    then show False using r assms(1,3) row_ok_key [of e Q r] row_ok_key [OF assms(3)]
      by (auto simp: keys_ok_def row_ok_def inj_on_def)
  qed
  show ?thesis
  proof (cases "list_ex (\<lambda>r. ob_key r = ob_key j) rows")
    case True
    let ?rows = "upd_rows (\<lambda>r. ob_key r = ob_key j) (\<lambda>_. j) rows"
    have "map ob_key ?rows = map ob_key rows" by (rule map_upd_rows) simp
    then have "outbox_wf e Q ?rows" using assms(2-4) by (auto simp: outbox_wf_def set_upd_rows)
    moreover have "row_of ob_key k ?rows = (if k = ob_key j then Some j else row_of ob_key k rows)" for k
    proof -
      have "row_of ob_key k ?rows = (if k = ob_key j then map_option (\<lambda>_. j) (row_of ob_key k rows) else row_of ob_key k rows)"
        by (induction rows) auto
      moreover have "ob_key j \<in> ob_key ` set rows" using True unfolding list_ex_iff by (metis image_eqI)
      then have "row_of ob_key (ob_key j) rows \<noteq> None" by (simp add: row_of_None_iff)
      ultimately show ?thesis by auto
    qed
    ultimately show ?thesis using that True apart by (simp add: upsert_row_def)
  next
    case False
    then have new: "row_of ob_key (ob_key j) rows = None" "ob_key j \<notin> ob_key ` set rows"
      by (auto simp: row_of_None_iff list_ex_iff)
    then have "outbox_wf e Q (rows @ [j])" using assms(2-4) by (auto simp: outbox_wf_def)
    moreover have "row_of ob_key k (rows @ [j]) = (if k = ob_key j then Some j else row_of ob_key k rows)" for k
      using new by (auto split: option.split)
    ultimately show ?thesis using that False apart by (simp add: upsert_row_def)
  qed
qed

lemma prune_small:
  assumes "keys_ok e Q" "outbox_wf e Q rows"
  shows "prune_rows e rows = rows"
proof -
  have keys: "ob_key ` set rows \<subseteq> all_keys Q" using assms(2) row_ok_key by (auto simp: outbox_wf_def)
  have fin: "finite (all_keys Q)" using assms(1) by (simp add: keys_ok_def all_keys_def)
  have "length rows = card (ob_key ` set rows)"
    using assms(2) distinct_card [of "map ob_key rows"] by (simp add: outbox_wf_def)
  also have "\<dots> \<le> card (all_keys Q)" by (rule card_mono [OF fin keys])
  finally have "length rows \<le> card (all_keys Q)" .
  then have len: "length rows \<le> nat (connector_outbox_retention_limit e)"
    using assms(1) by (simp add: keys_ok_def le_nat_iff)
  have "length (newest_first (filter p rows)) \<le> length rows" for p by (simp add: newest_first_def)
  then have "drop (nat (connector_outbox_retention_limit e)) (newest_first (filter p rows)) = []" for p
    using len order.trans drop_all by blast
  then show ?thesis by (simp add: prune_rows_def)
qed

lemma write_ok:
  assumes "keys_ok e Q" "outbox_wf e Q rows" "row_ok e Q j" "state_ok j"
  obtains rows' where "write_row e j rows = Some rows'" "outbox_wf e Q rows'"
    "\<And>k. row_of ob_key k rows' = (if k = ob_key j then Some j else row_of ob_key k rows)"
  using upsert_ok [OF assms] prune_small [OF assms(1)] by (metis (no_types, lifting) option.simps(9) write_row_def)

section \<open>Claims, releases, updates\<close>

text \<open>A row that may be claimed: it is not there yet, or neither final nor claimed.\<close>

definition claimable :: "outbox_job option \<Rightarrow> bool" where
  "claimable x \<longleftrightarrow> (case x of None \<Rightarrow> True | Some r \<Rightarrow> ob_state r \<notin> set terminal_states \<and> ob_state r \<notin> {''claimed'', ''sent_to_broker''})"

lemma terminal_state: "state_ok r \<Longrightarrow> outbox_terminal (ob_state r) \<longleftrightarrow> ob_state r \<in> set terminal_states"
  by (simp add: outbox_terminal_def state_ok_def)

lemma closed_states [simp]: "''delivered'' \<in> set terminal_states" "''delivery_uncertain'' \<in> set terminal_states"
  "''partial_delivery'' \<in> set terminal_states" "''dead_letter'' \<in> set terminal_states"
  "''pending'' \<notin> set terminal_states" "''claimed'' \<notin> set terminal_states" "''failed_retryable'' \<notin> set terminal_states"
  by (simp_all add: terminal_states_def)

lemma row_ok_updates [simp]:
  "row_ok e Q (j\<lparr>ob_state := s\<rparr>) = row_ok e Q j" "row_ok e Q (j\<lparr>ob_claimed_by := a\<rparr>) = row_ok e Q j"
  "row_ok e Q (j\<lparr>ob_claimed_at := t\<rparr>) = row_ok e Q j" "row_ok e Q (j\<lparr>ob_claim_expires := t\<rparr>) = row_ok e Q j"
  "row_ok e Q (j\<lparr>ob_terminal := t\<rparr>) = row_ok e Q j" "row_ok e Q (j\<lparr>ob_failed := t\<rparr>) = row_ok e Q j"
  "row_ok e Q (j\<lparr>ob_updated := t\<rparr>) = row_ok e Q j" "row_ok e Q (j\<lparr>ob_metadata := m\<rparr>) = row_ok e Q j"
  "row_ok e Q (j\<lparr>ob_error := x\<rparr>) = row_ok e Q j" "row_ok e Q (j\<lparr>ob_attempts := n\<rparr>) = row_ok e Q j"
  "row_ok e Q (j\<lparr>ob_created := t\<rparr>) = row_ok e Q j" "row_ok e Q (j\<lparr>ob_delivered := t\<rparr>) = row_ok e Q j"
  "row_ok e Q (j\<lparr>ob_skipped := t\<rparr>) = row_ok e Q j" "row_ok e Q (j\<lparr>ob_ack := v\<rparr>) = row_ok e Q j"
  by (simp_all add: row_ok_def)

lemma quarantine_ok:
  assumes "whatsapp_outbox_quarantine now j = Some q"
  shows "row_ok e Q q = row_ok e Q j" "ob_key q = ob_key j" "ob_state q \<in> {''partial_delivery'', ''delivery_uncertain''}" "state_ok q"
  using assms by (auto simp: whatsapp_outbox_quarantine_def Let_def state_ok_def split: if_splits)

lemma claimed_is_quarantined:
  assumes "whatsapp_outbox_quarantine now j = None" "ob_connector j = ''whatsapp''" "state_ok j" "ob_state j \<in> {''claimed'', ''sent_to_broker''}"
  shows "\<not> claim_expired now j"
  using assms by (auto simp: whatsapp_outbox_quarantine_def Let_def state_ok_def claim_expired_def claim_lapsed_def date_ms_def
      split: if_splits option.splits)

lemma decide_ok:
  assumes "keys_ok e Q" "row_ok e Q n" "state_ok n" and c: "c = decide_claim e now who (Some n)"
  obtains j where "cr_job c = Some j" "row_ok e Q j" "state_ok j" "ob_key j = ob_key n"
    "\<not> cr_changed c \<Longrightarrow> j = n" "cr_changed c \<Longrightarrow> \<not> claimable (Some j)" "cr_acquired c \<Longrightarrow> cr_changed c"
    "cr_acquired c \<Longrightarrow> ob_connector n = ''whatsapp'' \<Longrightarrow> claimable (Some n)"
proof (cases "whatsapp_outbox_quarantine now n")
  case (Some q)
  note q = quarantine_ok(1) [OF Some, of e Q] quarantine_ok(2-4) [OF Some]
  with assms(2) have r: "row_ok e Q q" by simp
  note k = normalize_kept [OF assms(1) r, of now]
  show ?thesis
    by (rule that [of "normalize_outbox_job e now q"])
      (use c Some q k in \<open>auto simp: decide_claim_def claimable_def\<close>)
next
  case None
  let ?j = "n\<lparr>ob_state := ''claimed'', ob_claimed_by := txt_or (str_trim who) (''pid:'' @ oe_pid e), ob_claimed_at := Some now,
      ob_claim_expires := Some (now + connector_outbox_claim_ttl_ms e), ob_attempts := Suc (ob_attempts n), ob_updated := Some now\<rparr>"
  have r: "row_ok e Q ?j" "state_ok ?j" using assms(2) by (simp_all add: state_ok_def)
  note k = normalize_kept [OF assms(1) r(1), of now]
  show ?thesis
  proof (cases "outbox_terminal (ob_state n) \<or> \<not> claim_expired now n")
    case True
    then show ?thesis by (intro that [of n]) (use c None assms(2,3) in \<open>auto simp: decide_claim_def split: if_splits\<close>)
  next
    case False
    have "claimable (Some n)" if "ob_connector n = ''whatsapp''"
      using that claimed_is_quarantined [OF None that assms(3)] False assms(3) by (auto simp: claimable_def terminal_state)
    then show ?thesis
      by (intro that [of "normalize_outbox_job e now ?j"])
        (use c None False k r in \<open>auto simp: decide_claim_def claimable_def\<close>)
  qed
qed

lemma claim_ok:
  assumes "keys_ok e Q" "outbox_wf e Q rows" "k \<in> all_keys Q"
    and run: "claim_outbox_job e now (co_id (oe_hash e) k) who rows = Some (c, rows')"
  shows "outbox_wf e Q rows'" "k' \<noteq> k \<Longrightarrow> row_of ob_key k' rows' = row_of ob_key k' rows"
    "claimable (row_of ob_key k rows') \<Longrightarrow> claimable (row_of ob_key k rows)"
    "k \<in> inner_key ` Q \<Longrightarrow> cr_acquired c \<Longrightarrow> claimable (row_of ob_key k rows) \<and> \<not> claimable (row_of ob_key k rows')"
    "cr_job c = Some j \<Longrightarrow> row_ok e Q j \<and> ob_key j = k"
proof -
  have "outbox_wf e Q rows' \<and> (k' \<noteq> k \<longrightarrow> row_of ob_key k' rows' = row_of ob_key k' rows)
    \<and> (claimable (row_of ob_key k rows') \<longrightarrow> claimable (row_of ob_key k rows))
    \<and> (k \<in> inner_key ` Q \<longrightarrow> cr_acquired c \<longrightarrow> claimable (row_of ob_key k rows) \<and> \<not> claimable (row_of ob_key k rows'))
    \<and> (cr_job c = Some j \<longrightarrow> row_ok e Q j \<and> ob_key j = k)"
  proof (cases "row_of ob_key k rows")
    case None
    then have "get_outbox_job e now (co_id (oe_hash e) k) rows = None"
      by (simp add: get_outbox_job_def get_row_id [OF assms(1-3)])
    then show ?thesis using run assms(2) by (auto simp: claim_outbox_job_def Let_def decide_claim_def)
  next
    case (Some r)
    note r = wf_row [OF assms(2) Some]
    let ?n = "normalize_outbox_job e now r"
    from r have "row_ok e Q r" by simp
    note k = normalize_kept [OF assms(1) this, of now]
    have g: "get_outbox_job e now (co_id (oe_hash e) k) rows = Some ?n"
      by (simp add: get_outbox_job_def get_row_id [OF assms(1-3)] Some)
    have st: "ob_state ?n = ob_state r" using k(4) r by simp
    then have o: "claimable (Some ?n) = claimable (Some r)" by (simp add: claimable_def)
    obtain m where m: "cr_job (decide_claim e now who (Some ?n)) = Some m" "row_ok e Q m" "state_ok m" "ob_key m = ob_key ?n"
      "\<not> cr_changed (decide_claim e now who (Some ?n)) \<Longrightarrow> m = ?n"
      "cr_changed (decide_claim e now who (Some ?n)) \<Longrightarrow> \<not> claimable (Some m)"
      "cr_acquired (decide_claim e now who (Some ?n)) \<Longrightarrow> cr_changed (decide_claim e now who (Some ?n))"
      "cr_acquired (decide_claim e now who (Some ?n)) \<Longrightarrow> ob_connector ?n = ''whatsapp'' \<Longrightarrow> claimable (Some ?n)"
      by (rule decide_ok [OF assms(1) k(6) state_ok_normalize refl, where now = now and who = who]) blast
    have key: "ob_key m = k" using m(4) k(1) r by simp
    have wa: "ob_connector ?n = ''whatsapp''" if "k \<in> inner_key ` Q"
      using that k(1,3) r assms(1) by (auto simp: keys_ok_def row_ok_def)
    obtain rows1 where u: "upsert_row m rows = Some rows1" "outbox_wf e Q rows1"
      "\<And>q. row_of ob_key q rows1 = (if q = ob_key m then Some m else row_of ob_key q rows)"
      by (rule upsert_ok [OF assms(1,2) m(2,3)]) blast
    show ?thesis
    proof (cases "cr_changed (decide_claim e now who (Some ?n))")
      case True
      then have "c = decide_claim e now who (Some ?n)" "rows' = rows1"
        using run m(1) u(1) by (simp_all add: claim_outbox_job_def Let_def g)
      then show ?thesis using u m key wa o True Some by auto
    next
      case False
      then have "c = decide_claim e now who (Some ?n)" "rows' = rows"
        using run m(1) by (simp_all add: claim_outbox_job_def Let_def g)
      then show ?thesis using m key False assms(2) by auto
    qed
  qed
  then show "outbox_wf e Q rows'" "k' \<noteq> k \<Longrightarrow> row_of ob_key k' rows' = row_of ob_key k' rows"
    "claimable (row_of ob_key k rows') \<Longrightarrow> claimable (row_of ob_key k rows)"
    "k \<in> inner_key ` Q \<Longrightarrow> cr_acquired c \<Longrightarrow> claimable (row_of ob_key k rows) \<and> \<not> claimable (row_of ob_key k rows')"
    "cr_job c = Some j \<Longrightarrow> row_ok e Q j \<and> ob_key j = k" by blast+
qed

lemma release_ok:
  assumes "keys_ok e Q" "outbox_wf e Q rows" "k \<in> all_keys Q"
    and run: "release_outbox_claim e now (co_id (oe_hash e) k) reason rows = Some (x, rows')"
  shows "outbox_wf e Q rows'" "k' \<noteq> k \<Longrightarrow> row_of ob_key k' rows' = row_of ob_key k' rows"
proof -
  have "outbox_wf e Q rows' \<and> (k' \<noteq> k \<longrightarrow> row_of ob_key k' rows' = row_of ob_key k' rows)"
  proof (cases "row_of ob_key k rows")
    case None
    then show ?thesis using run assms(2) by (auto simp: release_outbox_claim_def get_outbox_job_def get_row_id [OF assms(1-3)])
  next
    case (Some r)
    note r = wf_row [OF assms(2) Some]
    let ?n = "normalize_outbox_job e now r"
    from r have "row_ok e Q r" by simp
    note k = normalize_kept [OF assms(1) this, of now]
    have g: "get_outbox_job e now (co_id (oe_hash e) k) rows = Some ?n"
      by (simp add: get_outbox_job_def get_row_id [OF assms(1-3)] Some)
    have m: "row_ok e Q (released_job e now reason ?n)" "ob_key (released_job e now reason ?n) = k" "state_ok (released_job e now reason ?n)"
      using k(1,6) r normalize_kept(1,6) [OF assms(1)] quarantine_ok(1,2)
      by (auto simp: released_job_def split: option.splits)
    obtain rows1 where u: "upsert_row (released_job e now reason ?n) rows = Some rows1" "outbox_wf e Q rows1"
      "\<And>q. row_of ob_key q rows1 = (if q = ob_key (released_job e now reason ?n) then Some (released_job e now reason ?n) else row_of ob_key q rows)"
      by (rule upsert_ok [OF assms(1,2) m(1,3)]) blast
    then show ?thesis using run assms(2) m(2) by (auto simp: release_outbox_claim_def g split: if_splits)
  qed
  then show "outbox_wf e Q rows'" "k' \<noteq> k \<Longrightarrow> row_of ob_key k' rows' = row_of ob_key k' rows" by blast+
qed

text \<open>An update replaces the row of its key, by one in the state it asks for when that is final.\<close>

lemma terminal_fixed: "s \<in> set terminal_states \<Longrightarrow> lower_text s = s \<and> s \<noteq> []"
proof -
  have "list_all (\<lambda>s. lower_text s = s \<and> s \<noteq> []) terminal_states" by code_simp
  then show "s \<in> set terminal_states \<Longrightarrow> lower_text s = s \<and> s \<noteq> []" by (auto simp: list_all_iff)
qed

lemma protect_closed:
  assumes "given (pt_state patch) [] \<in> set terminal_states"
  shows "protect_whatsapp_outbox_update now j patch approved = None"
proof -
  have "given (pt_state patch) [] \<notin> set [''pending'', ''claimed'', ''sent_to_broker'', ''failed_retryable'']"
    using assms by (auto simp: terminal_states_def)
  then show ?thesis using terminal_fixed [OF assms] by (simp add: protect_whatsapp_outbox_update_def)
qed

lemma marked_ok:
  assumes "keys_ok e Q" "row_ok e Q j"
  shows "row_ok e Q (marked_job e now patch approved j)" "ob_key (marked_job e now patch approved j) = ob_key j"
    "state_ok (marked_job e now patch approved j)"
    "given (pt_state patch) [] \<in> set terminal_states \<Longrightarrow> \<not> claimable (Some (marked_job e now patch approved j))"
proof -
  show "row_ok e Q (marked_job e now patch approved j)" "ob_key (marked_job e now patch approved j) = ob_key j"
    "state_ok (marked_job e now patch approved j)"
    unfolding marked_job_def Let_def using normalize_kept(1,6) [OF assms(1)] assms(2) by simp_all
  assume t: "given (pt_state patch) [] \<in> set terminal_states"
  have s: "lower_text (given (pt_state patch) []) = given (pt_state patch) []" "given (pt_state patch) [] \<noteq> []"
    using terminal_fixed [OF t] by simp_all
  have "ob_state (marked_job e now patch approved j) = given (pt_state patch) []"
    unfolding marked_job_def Let_def protect_closed [OF t]
    by (simp add: normalize_outbox_job_def Let_def s)
  then show "\<not> claimable (Some (marked_job e now patch approved j))" using t by (simp add: claimable_def)
qed

lemma mark_ok:
  assumes "keys_ok e Q" "outbox_wf e Q rows" "k \<in> all_keys Q"
    and run: "mark_outbox_job e now (co_id (oe_hash e) k) patch approved rows = Some (x, rows')"
  shows "outbox_wf e Q rows'" "k' \<noteq> k \<Longrightarrow> row_of ob_key k' rows' = row_of ob_key k' rows"
    "given (pt_state patch) [] \<in> set terminal_states \<Longrightarrow> claimable (row_of ob_key k rows') \<Longrightarrow> claimable (row_of ob_key k rows)"
proof -
  have "outbox_wf e Q rows' \<and> (k' \<noteq> k \<longrightarrow> row_of ob_key k' rows' = row_of ob_key k' rows)
    \<and> (given (pt_state patch) [] \<in> set terminal_states \<longrightarrow> claimable (row_of ob_key k rows') \<longrightarrow> claimable (row_of ob_key k rows))"
  proof (cases "row_of ob_key k rows")
    case None
    then show ?thesis using run assms(2) by (auto simp: mark_outbox_job_def get_outbox_job_def get_row_id [OF assms(1-3)])
  next
    case (Some r)
    note r = wf_row [OF assms(2) Some]
    let ?n = "normalize_outbox_job e now r"
    from r have "row_ok e Q r" by simp
    note k = normalize_kept [OF assms(1) this, of now]
    note m = marked_ok [OF assms(1) k(6), where now = now and patch = patch and approved = approved]
    have g: "get_outbox_job e now (co_id (oe_hash e) k) rows = Some ?n"
      by (simp add: get_outbox_job_def get_row_id [OF assms(1-3)] Some)
    obtain rows1 where u: "write_row e (marked_job e now patch approved ?n) rows = Some rows1" "outbox_wf e Q rows1"
      "\<And>q. row_of ob_key q rows1 = (if q = ob_key (marked_job e now patch approved ?n)
         then Some (marked_job e now patch approved ?n) else row_of ob_key q rows)"
      by (rule write_ok [OF assms(1,2) m(1,3)]) blast
    then show ?thesis using run m(2,4) k(1) r by (auto simp: mark_outbox_job_def g)
  qed
  then show "outbox_wf e Q rows'" "k' \<noteq> k \<Longrightarrow> row_of ob_key k' rows' = row_of ob_key k' rows"
    "given (pt_state patch) [] \<in> set terminal_states \<Longrightarrow> claimable (row_of ob_key k rows') \<Longrightarrow> claimable (row_of ob_key k rows)" by blast+
qed

section \<open>Enqueueing\<close>

text \<open>Only final answers to WhatsApp threads have an identity besides their key.\<close>

lemma not_final:
  assumes "row_ok e Q j"
  shows "\<not> whatsapp_final j" "logical_output_key H j = []" "\<not> output_fence_applies H j" "\<not> same_logical_output H x j"
proof -
  show f: "\<not> whatsapp_final j" using assms by (auto simp: row_ok_def whatsapp_final_def)
  then show "logical_output_key H j = []" "\<not> output_fence_applies H j" "\<not> same_logical_output H x j"
    by (simp_all add: logical_output_key_def output_fence_applies_def turn_scope_def same_logical_output_def logical_output_match_reason_def)
qed

lemma merge_ok:
  assumes "row_ok e Q a" "state_ok a" "row_ok e Q b" "ob_key a = ob_key b" "ob_state b = ''pending''"
  shows "row_ok e Q (merge_job H a b)" "ob_key (merge_job H a b) = ob_key a" "state_ok (merge_job H a b)"
    "claimable (Some (merge_job H a b)) \<Longrightarrow> claimable (Some a)"
    "ob_state a \<in> set terminal_states \<Longrightarrow> merge_job H a b = a"
proof -
  have b: "state_ok b" using assms(5) by (simp add: state_ok_def)
  note nf = not_final(4) [OF assms(3), of H a]
  have rank: "status_rank ''pending'' = 2" by (simp add: status_rank_def)
  have high: "2 < status_rank (ob_state a)" if "\<not> claimable (Some a)"
    using that assms(2) by (auto simp: claimable_def status_rank_def Let_def state_ok_def)
  show "row_ok e Q (merge_job H a b)" "ob_key (merge_job H a b) = ob_key a"
    using assms nf by (auto simp: merge_job_def Let_def)
  show "state_ok (merge_job H a b)"
    using assms b nf by (auto simp: merge_job_def Let_def state_ok_def)
  show "claimable (Some (merge_job H a b)) \<Longrightarrow> claimable (Some a)"
  proof (rule ccontr)
    assume o: "claimable (Some (merge_job H a b))" and c: "\<not> claimable (Some a)"
    from high [OF c] have "ob_state (merge_job H a b) = ob_state a" using nf assms(5) rank by (auto simp: merge_job_def Let_def)
    then show False using o c by (simp add: claimable_def)
  qed
  show "ob_state a \<in> set terminal_states \<Longrightarrow> merge_job H a b = a"
    using high nf assms(2,5) rank by (auto simp: merge_job_def Let_def claimable_def terminal_state)
qed

lemma outbox_input_ok:
  assumes "keys_ok e Q" "row_ok e Q (input\<lparr>ob_id := co_id (oe_hash e) (ob_key input)\<rparr>)" "ob_id input = []" "ob_state input = []"
  shows "row_ok e Q (outbox_input e now input)" "ob_key (outbox_input e now input) = ob_key input"
    "ob_state (outbox_input e now input) = ''pending''"
proof -
  let ?j = "normalize_outbox_job e now input"
  have k: "str_trim (ob_key input) = ob_key input" "ob_key input \<noteq> []"
    using keys_okD [OF assms(1) row_ok_key [OF assms(2)]] by simp_all
  have c: "lower_text (ob_connector input) = ob_connector input"
    using assms(2) by (auto simp: row_ok_def)
  have key: "ob_key ?j = ob_key input" and state: "ob_state ?j = ''pending''"
    using k assms(4) by (simp_all add: normalize_outbox_job_def Let_def)
  have "str_trim [] = []" by (simp add: str_trim_def)
  then have id: "ob_id ?j = co_id (oe_hash e) (ob_key input)"
    using k assms(3) by (simp add: normalize_outbox_job_def Let_def connector_outbox_job_id_def co_id_def)
  have con: "ob_connector ?j = ob_connector input" "ob_delivery_type ?j = str_trim (ob_delivery_type input)"
    using c by (simp_all add: normalize_outbox_job_def Let_def)
  have "row_ok e Q ?j" using assms(2) id key con by (auto simp: row_ok_def)
  note j = this key state
  have "outbox_input e now input = ?j" by (simp add: outbox_input_def Let_def not_final(2) [OF j(1)])
  with j show "row_ok e Q (outbox_input e now input)" "ob_key (outbox_input e now input) = ob_key input"
    "ob_state (outbox_input e now input) = ''pending''" by simp_all
qed

lemma ensure_ok:
  assumes "keys_ok e Q" "outbox_wf e Q rows" "row_ok e Q (input\<lparr>ob_id := co_id (oe_hash e) (ob_key input)\<rparr>)"
    "ob_id input = []" "ob_state input = []"
  obtains j created rows' where "ensure_outbox_job e now input rows = Some ((j, created), rows')" "outbox_wf e Q rows'"
    "\<And>k'. k' \<noteq> ob_key input \<Longrightarrow> row_of ob_key k' rows' = row_of ob_key k' rows"
    "claimable (row_of ob_key (ob_key input) rows') \<Longrightarrow> claimable (row_of ob_key (ob_key input) rows)"
    "row_ok e Q j" "ob_key j = ob_key input" "row_of ob_key (ob_key input) rows' \<noteq> None"
    "\<And>r. row_of ob_key (ob_key input) rows = Some r \<Longrightarrow> ob_state r \<in> set terminal_states \<Longrightarrow>
       rows' = rows \<and> j = normalize_outbox_job e now r"
proof -
  let ?k = "ob_key input" let ?j = "outbox_input e now input"
  note j = outbox_input_ok [OF assms(1,3-5), of now]
  have k: "?k \<in> all_keys Q" using row_ok_key [OF j(1)] j(2) by simp
  have g: "get_outbox_job e now ?k rows = map_option (normalize_outbox_job e now) (row_of ob_key ?k rows)"
    by (simp add: get_outbox_job_def get_row_key [OF assms(1,2) k])
  have ret: "retained_logical_output_job e now ?j rows = None"
    by (simp add: retained_logical_output_job_def not_final(3) [OF j(1)])
  have sj: "state_ok ?j" using j(3) by (simp add: state_ok_def)
  show ?thesis
  proof (cases "row_of ob_key ?k rows")
    case None
    obtain rows1 where u: "write_row e ?j rows = Some rows1" "outbox_wf e Q rows1"
      "\<And>q. row_of ob_key q rows1 = (if q = ob_key ?j then Some ?j else row_of ob_key q rows)"
      by (rule write_ok [OF assms(1,2) j(1) sj]) blast
    have run: "ensure_outbox_job e now input rows = Some ((?j, True), rows1)"
      by (simp add: ensure_outbox_job_def Let_def g None ret u j(2))
    show ?thesis by (rule that [OF run u(2)]) (use u(3) j None in \<open>auto simp: claimable_def\<close>)
  next
    case (Some r)
    note r = wf_row [OF assms(2) Some]
    let ?n = "normalize_outbox_job e now r" let ?m = "merge_job (oe_hash e) ?n ?j"
    from r have "row_ok e Q r" by simp
    note n = normalize_kept [OF assms(1) this, of now]
    have st: "ob_state ?n = ob_state r" using n(4) r by simp
    note m = merge_ok [OF n(6) state_ok_normalize j(1), of "oe_hash e"]
    have key: "ob_key ?n = ob_key ?j" using n(1) r j(2) by simp
    note m = m [OF key j(3)]
    obtain rows1 where u: "write_row e ?m rows = Some rows1" "outbox_wf e Q rows1"
      "\<And>q. row_of ob_key q rows1 = (if q = ob_key ?m then Some ?m else row_of ob_key q rows)"
      by (rule write_ok [OF assms(1,2) m(1,3)]) blast
    have o: "claimable (Some ?n) = claimable (Some r)" by (simp add: claimable_def st)
    show ?thesis
    proof (cases "outbox_job_changed ?n ?m")
      case True
      have run: "ensure_outbox_job e now input rows = Some ((?m, False), rows1)"
        by (simp add: ensure_outbox_job_def Let_def g Some u j(2) True)
      have nt: "ob_state r \<notin> set terminal_states"
        using True m(5) st by (auto simp: outbox_job_changed_def)
      show ?thesis
        by (rule that [OF run u(2)]) (use u(3) m key j n o Some nt r in \<open>auto simp: \<close>)
    next
      case False
      have run: "ensure_outbox_job e now input rows = Some ((?n, False), rows)"
        by (simp add: ensure_outbox_job_def Let_def g Some j(2) False)
      show ?thesis by (rule that [OF run assms(2)]) (use n r Some in auto)
    qed
  qed
qed

end
