(* ===== verification/OutboxOnce.thy ===== *)
theory OutboxOnce
  imports OutboxFacts
begin

text \<open>
  At most one WhatsApp message for a notification, with any number of dispatchers running at once.
  A process holds the row of a key from its claim until it sends, releases or gives up; \<open>guarded\<close>
  says that a program never makes a claimed or final row claimable again unless it holds it, and
  sends only while it holds it.
\<close>

section \<open>Guarded programs\<close>

definition sends_to :: "string \<Rightarrow> dispatch_request \<Rightarrow> bool" where
  "sends_to i q \<longleftrightarrow> (case q of SendWhatsApp chat account text request \<Rightarrow> request = i | _ \<Rightarrow> False)"

text \<open>A transport that fails without a sign that the message may have left has not sent it.\<close>

definition refused :: "reply \<Rightarrow> bool" where
  "refused r \<longleftrightarrow> (case r of Failed message status name \<Rightarrow> \<not> uncertain_message message | Replied v \<Rightarrow> False)"

definition moves :: "bool \<Rightarrow> bool \<Rightarrow> outbox_job option \<Rightarrow> outbox_job option \<Rightarrow> bool" where
  "moves b b' x y \<longleftrightarrow> (claimable y \<longrightarrow> claimable x \<or> b \<and> \<not> b') \<and> (\<not> b \<and> b' \<longrightarrow> claimable x \<and> \<not> claimable y)"

lemma moves_same [simp]: "moves b b x x" "moves b False x x"
  by (auto simp: moves_def)

inductive guarded :: "outbox_env \<Rightarrow> string set \<Rightarrow> string \<Rightarrow> (bool \<Rightarrow> 'a \<Rightarrow> bool) \<Rightarrow> bool \<Rightarrow> 'a prog \<Rightarrow> bool"
  for e Q k P where
  returns: "P b a \<Longrightarrow> guarded e Q k P b (Return a)"
| transacts: "(\<And>now rows. outbox_wf e Q rows \<Longrightarrow> outbox_wf e Q (fst (g now rows))
      \<and> (\<exists>b'. moves b b' (row_of ob_key k rows) (row_of ob_key k (fst (g now rows))) \<and> guarded e Q k P b' (snd (g now rows))))
    \<Longrightarrow> guarded e Q k P False p \<Longrightarrow> guarded e Q k P b (Atomic g p)"
| calls: "(sends_to (co_id (oe_hash e) k) q \<Longrightarrow> b)
    \<Longrightarrow> (\<And>r. guarded e Q k P (b \<and> (sends_to (co_id (oe_hash e) k) q \<longrightarrow> refused r)) (c r)) \<Longrightarrow> guarded e Q k P b (Call q c)"

inductive_cases guarded_transacts: "guarded e Q k P b (Atomic g p)"
inductive_cases guarded_calls: "guarded e Q k P b (Call q c)"

lemma guarded_bind:
  assumes "guarded e Q k P b m" and "\<And>b' a. P b' a \<Longrightarrow> guarded e Q k R b' (f a)"
  shows "guarded e Q k R b (prog_bind m f)"
  using assms(1)
proof (induction rule: guarded.induct)
  case (returns b a)
  then show ?case using assms(2) by simp
next
  case (transacts g b p)
  show ?case unfolding prog_bind.simps
  proof (rule guarded.transacts)
    fix now rows
    assume "outbox_wf e Q rows"
    from transacts(1) [OF this, of now] show "outbox_wf e Q (fst (map_prod id (\<lambda>q. prog_bind q f) (g now rows)))
      \<and> (\<exists>b'. moves b b' (row_of ob_key k rows) (row_of ob_key k (fst (map_prod id (\<lambda>q. prog_bind q f) (g now rows))))
           \<and> guarded e Q k R b' (snd (map_prod id (\<lambda>q. prog_bind q f) (g now rows))))"
      by (cases "g now rows") auto
  qed (rule transacts)
next
  case (calls q b c)
  then show ?case by (auto intro: guarded.calls)
qed

lemma guarded_ebind:
  assumes "guarded e Q k P b m" and "\<And>b' a. P b' (Inr a) \<Longrightarrow> guarded e Q k R b' (f a)" and "\<And>b' u. P b' (Inl u) \<Longrightarrow> R b' (Inl u)"
  shows "guarded e Q k R b (ebind m f)"
  unfolding ebind_def by (rule guarded_bind [OF assms(1)]) (auto split: sum.split intro: assms(2) guarded.returns assms(3))

lemma guarded_finish: "P b (Inr a) \<Longrightarrow> guarded e Q k P b (finish a)"
  unfolding finish_def by (rule guarded.returns)

lemma guarded_txn:
  assumes "\<And>now rows a rows'. outbox_wf e Q rows \<Longrightarrow> f now rows = Some (a, rows')
      \<Longrightarrow> outbox_wf e Q rows' \<and> (\<exists>b'. moves b b' (row_of ob_key k rows) (row_of ob_key k rows') \<and> P b' (Inr a))"
    and "P False (Inl ())"
  shows "guarded e Q k P b (txn f)"
  unfolding txn_def
proof (rule guarded.transacts)
  fix now rows
  assume wf: "outbox_wf e Q rows"
  show "outbox_wf e Q (fst (case f now rows of None \<Rightarrow> (rows, Return (Inl ())) | Some (a, rows') \<Rightarrow> (rows', finish a)))
    \<and> (\<exists>b'. moves b b' (row_of ob_key k rows) (row_of ob_key k
          (fst (case f now rows of None \<Rightarrow> (rows, Return (Inl ())) | Some (a, rows') \<Rightarrow> (rows', finish a))))
        \<and> guarded e Q k P b' (snd (case f now rows of None \<Rightarrow> (rows, Return (Inl ())) | Some (a, rows') \<Rightarrow> (rows', finish a))))"
  proof (cases "f now rows")
    case None
    then show ?thesis using wf assms(2) by (auto intro!: exI [of _ False] guarded.returns)
  next
    case (Some x)
    then show ?thesis using assms(1) [OF wf, of now "fst x" "snd x"] by (cases x) (auto intro: guarded_finish)
  qed
qed (rule guarded.returns, rule assms(2))

lemma guarded_ask: "\<not> sends_to (co_id (oe_hash e) k) q \<Longrightarrow> (\<And>r. P b (Inr r)) \<Longrightarrow> guarded e Q k P b (ask q)"
  unfolding ask_def by (rule guarded.calls) (auto intro: guarded_finish)

section \<open>The dispatcher is guarded\<close>

text \<open>The row of an intent, and the WhatsApp key that is watched.\<close>

definition intent_row :: "outbox_env \<Rightarrow> string set \<Rightarrow> outbox_job \<Rightarrow> bool" where
  "intent_row e Q j \<longleftrightarrow> ob_key j \<in> Q \<and> ob_id j = co_id (oe_hash e) (ob_key j)"

abbreviation at_rest :: "bool \<Rightarrow> 'a \<Rightarrow> bool" where
  "at_rest \<equiv> \<lambda>b r. \<not> b"

lemma not_sends [simp]: "\<not> sends_to i (AppendThread a b)" "\<not> sends_to i (ResolveBinding x)" "\<not> sends_to i (SendEmail t s x)"
  "\<not> sends_to i (ResolveSecret x)" "\<not> sends_to i (PostWebhook u x t v)"
  by (simp_all add: sends_to_def)

lemma intent_not_inner: "keys_ok e Q \<Longrightarrow> q \<in> Q \<Longrightarrow> k \<in> inner_key ` Q \<Longrightarrow> q \<noteq> k"
  unfolding keys_ok_def by blast

lemma guarded_mark_intent:
  assumes "keys_ok (dp_env dp) Q" "k \<in> inner_key ` Q" "intent_row (dp_env dp) Q j"
  shows "guarded (dp_env dp) Q k at_rest False (mark dp (ob_id j) patch)"
  unfolding mark_def
proof (rule guarded_txn)
  fix now rows a rows'
  assume wf: "outbox_wf (dp_env dp) Q rows"
    and run: "mark_outbox_job (dp_env dp) now (ob_id j) (patch now) None rows = Some (a, rows')"
  have "ob_key j \<in> Q" using assms(3) by (simp add: intent_row_def)
  with intent_not_inner [OF assms(1) _ assms(2)] have key: "ob_key j \<in> all_keys Q" and ne: "k \<noteq> ob_key j"
    unfolding all_keys_def by blast+
  from run have "mark_outbox_job (dp_env dp) now (co_id (oe_hash (dp_env dp)) (ob_key j)) (patch now) None rows = Some (a, rows')"
    using assms(3) by (simp add: intent_row_def)
  from mark_ok(1) [OF assms(1) wf key this] mark_ok(2) [OF assms(1) wf key this, of k] ne
  show "outbox_wf (dp_env dp) Q rows' \<and> (\<exists>b'. moves False b' (row_of ob_key k rows) (row_of ob_key k rows') \<and> \<not> b')"
    by (auto intro!: exI [of _ False])
qed simp

lemma guarded_close_inner:
  assumes "keys_ok (dp_env dp) Q" "k \<in> inner_key ` Q" "i \<in> all_keys Q"
    and "\<And>now. given (pt_state (patch now)) [] \<in> set terminal_states"
  shows "guarded (dp_env dp) Q k at_rest b (mark dp (co_id (oe_hash (dp_env dp)) i) patch)"
  unfolding mark_def
proof (rule guarded_txn)
  fix now rows a rows'
  assume wf: "outbox_wf (dp_env dp) Q rows"
    and run: "mark_outbox_job (dp_env dp) now (co_id (oe_hash (dp_env dp)) i) (patch now) None rows = Some (a, rows')"
  note m = mark_ok [OF assms(1) wf assms(3) run]
  have "claimable (row_of ob_key k rows') \<longrightarrow> claimable (row_of ob_key k rows)"
    using m(2,3) assms(4) by (cases "k = i") auto
  then show "outbox_wf (dp_env dp) Q rows' \<and> (\<exists>b'. moves b b' (row_of ob_key k rows) (row_of ob_key k rows') \<and> \<not> b')"
    using m(1) by (auto simp: moves_def)
qed simp

lemma guarded_mark_uncertain:
  assumes "keys_ok (dp_env dp) Q" "k \<in> inner_key ` Q" "ob_id inner = co_id (oe_hash (dp_env dp)) i" "i \<in> all_keys Q"
  shows "guarded (dp_env dp) Q k at_rest b (mark_uncertain dp inner error)"
  unfolding mark_uncertain_def assms(3)
  by (rule guarded_ebind [OF guarded_close_inner [OF assms(1,2,4)]]) (auto simp: no_patch_def given_def intro: guarded_finish)

lemma guarded_after_send:
  assumes "keys_ok (dp_env dp) Q" "k \<in> inner_key ` Q" "ob_id inner = co_id (oe_hash (dp_env dp)) i" "i \<in> all_keys Q"
    and "b = (i = k \<and> refused r)"
  shows "guarded (dp_env dp) Q k at_rest b (after_send dp inner r)"
proof (cases "refused r")
  case True
  then obtain m s n where r: "r = Failed m s n" "\<not> uncertain_message m" by (auto simp: refused_def split: reply.splits)
  have "guarded (dp_env dp) Q k at_rest b (txn (\<lambda>now. release_outbox_claim (dp_env dp) now (ob_id inner) ''whatsapp_send_failed''))"
  proof (rule guarded_txn)
    fix now rows a rows'
    assume wf: "outbox_wf (dp_env dp) Q rows"
      and run: "release_outbox_claim (dp_env dp) now (ob_id inner) ''whatsapp_send_failed'' rows = Some (a, rows')"
    note m = release_ok [OF assms(1) wf assms(4) run [unfolded assms(3)]]
    have "moves b False (row_of ob_key k rows) (row_of ob_key k rows')"
      using m(2) [of k] assms(5) True by (cases "k = i") (auto simp: moves_def)
    with m(1) show "outbox_wf (dp_env dp) Q rows' \<and> (\<exists>b'. moves b b' (row_of ob_key k rows) (row_of ob_key k rows') \<and> \<not> b')" by blast
  qed simp
  then show ?thesis unfolding after_send_def r using r(2) by (auto intro!: guarded_ebind guarded_finish)
next
  case False
  have u: "guarded (dp_env dp) Q k at_rest b (mark_uncertain dp inner error)" for error
    by (rule guarded_mark_uncertain [OF assms(1-4)])
  have d: "guarded (dp_env dp) Q k at_rest b (mark dp (ob_id inner) (\<lambda>now. no_patch\<lparr>pt_state := Some ''delivered'', pt_delivered := Some (Some now),
      pt_ack := Some v\<rparr>))" for v
    unfolding assms(3) by (rule guarded_close_inner [OF assms(1,2,4)]) (simp add: no_patch_def given_def)
  show ?thesis
    using False u d by (auto simp: after_send_def refused_def intro!: guarded_ebind [OF d] guarded_finish split: reply.split)
qed

lemma guarded_send_claimed:
  assumes "keys_ok (dp_env dp) Q" "k \<in> inner_key ` Q" "ob_id inner = co_id (oe_hash (dp_env dp)) i" "i \<in> all_keys Q"
    and "b = (i = k \<and> cr_acquired c)"
  shows "guarded (dp_env dp) Q k at_rest b (send_claimed dp inner chat account body c)"
proof (cases "cr_acquired c")
  case False
  then show ?thesis using assms(5) by (simp add: send_claimed_def Let_def guarded_finish)
next
  case True
  have same: "co_id (oe_hash (dp_env dp)) i = co_id (oe_hash (dp_env dp)) k \<longleftrightarrow> i = k"
  proof -
    have "inj_on (co_id (oe_hash (dp_env dp))) (all_keys Q)" using assms(1) by (simp add: keys_ok_def)
    moreover have "k \<in> all_keys Q" using assms(2) by (auto simp: all_keys_def)
    ultimately show ?thesis using assms(4) by (simp add: inj_on_eq_iff)
  qed
  have "guarded (dp_env dp) Q k at_rest b (Call (SendWhatsApp chat account body (ob_id inner)) (\<lambda>r. prog_bind (finish r)
      (\<lambda>r. case r of Inl u \<Rightarrow> Return (Inl u) | Inr a \<Rightarrow> after_send dp inner a)))"
  proof (rule guarded.calls)
    show "sends_to (co_id (oe_hash (dp_env dp)) k) (SendWhatsApp chat account body (ob_id inner)) \<Longrightarrow> b"
      using assms(3,5) same True by (simp add: sends_to_def)
    fix r
    show "guarded (dp_env dp) Q k at_rest
        (b \<and> (sends_to (co_id (oe_hash (dp_env dp)) k) (SendWhatsApp chat account body (ob_id inner)) \<longrightarrow> refused r))
        (prog_bind (finish r) (\<lambda>r. case r of Inl u \<Rightarrow> Return (Inl u) | Inr a \<Rightarrow> after_send dp inner a))"
      unfolding finish_def prog_bind.simps sum.case
      by (rule guarded_after_send [OF assms(1-4)]) (use assms(3,5) same True in \<open>auto simp: sends_to_def\<close>)
  qed
  then show ?thesis by (simp only: send_claimed_def Let_def ask_def ebind_def prog_bind.simps True not_True_eq_False if_False)
qed

lemma guarded_deliver_whatsapp:
  assumes "keys_ok (dp_env dp) Q" "k \<in> inner_key ` Q" "intent_row (dp_env dp) Q j"
  shows "guarded (dp_env dp) Q k at_rest False (deliver_whatsapp dp j)"
proof -
  let ?e = "dp_env dp" let ?i = "inner_key (ob_key j)"
  have i: "?i \<in> inner_key ` Q" "?i \<in> all_keys Q" using assms(3) by (auto simp: intent_row_def all_keys_def)
  have route: "guarded ?e Q k at_rest False (whatsapp_route target)" for target
    unfolding whatsapp_route_def
    by (auto intro!: guarded_ebind [where P = at_rest] guarded_ask guarded_finish guarded.returns split: reply.split)
  have ensured: "guarded ?e Q k (\<lambda>b r. \<not> b \<and> (\<forall>x c. r = Inr (x, c) \<longrightarrow> ob_id x = co_id (oe_hash ?e) ?i)) False
      (txn (\<lambda>now. ensure_outbox_job ?e now (inner_job j chat account body)))" for chat account body
  proof (rule guarded_txn)
    fix now rows a rows'
    assume wf: "outbox_wf ?e Q rows" and run: "ensure_outbox_job ?e now (inner_job j chat account body) rows = Some (a, rows')"
    have ok: "row_ok ?e Q ((inner_job j chat account body)\<lparr>ob_id := co_id (oe_hash ?e) (ob_key (inner_job j chat account body))\<rparr>)"
      "ob_id (inner_job j chat account body) = []" "ob_state (inner_job j chat account body) = []" "ob_key (inner_job j chat account body) = ?i"
      using i by (simp_all add: inner_job_def blank_job_def row_ok_def)
    obtain x c rows1 where x: "ensure_outbox_job ?e now (inner_job j chat account body) rows = Some ((x, c), rows1)" "outbox_wf ?e Q rows1"
      "\<And>k'. k' \<noteq> ob_key (inner_job j chat account body) \<Longrightarrow> row_of ob_key k' rows1 = row_of ob_key k' rows"
      "claimable (row_of ob_key (ob_key (inner_job j chat account body)) rows1) \<Longrightarrow> claimable (row_of ob_key (ob_key (inner_job j chat account body)) rows)"
      "row_ok ?e Q x" "ob_key x = ob_key (inner_job j chat account body)"
      by (rule ensure_ok [OF assms(1) wf ok(1-3), of now]) blast
    have "claimable (row_of ob_key k rows1) \<longrightarrow> claimable (row_of ob_key k rows)"
      using x(3,4) ok(4) by (cases "k = ?i") auto
    moreover have "ob_id x = co_id (oe_hash ?e) ?i" using x(5,6) ok(4) by (simp add: row_ok_def)
    ultimately show "outbox_wf ?e Q rows' \<and> (\<exists>b'. moves False b' (row_of ob_key k rows) (row_of ob_key k rows')
        \<and> \<not> b' \<and> (\<forall>x c. Inr a = Inr (x, c) \<longrightarrow> ob_id x = co_id (oe_hash ?e) ?i))"
      using run x(1,2) by (auto simp: moves_def)
  qed simp
  have claim: "guarded ?e Q k (\<lambda>b r. case r of Inl u \<Rightarrow> \<not> b | Inr c \<Rightarrow> b = (?i = k \<and> cr_acquired c)) False
      (txn (\<lambda>now. claim_outbox_job ?e now (co_id (oe_hash ?e) ?i) (claimant dp)))"
  proof (rule guarded_txn)
    fix now rows c rows'
    assume wf: "outbox_wf ?e Q rows" and run: "claim_outbox_job ?e now (co_id (oe_hash ?e) ?i) (claimant dp) rows = Some (c, rows')"
    note m = claim_ok [OF assms(1) wf i(2) run]
    have "moves False (?i = k \<and> cr_acquired c) (row_of ob_key k rows) (row_of ob_key k rows')"
      using m(2) [of k] m(3) m(4) [OF i(1)] by (cases "k = ?i") (auto simp: moves_def)
    then show "outbox_wf ?e Q rows' \<and> (\<exists>b'. moves False b' (row_of ob_key k rows) (row_of ob_key k rows')
        \<and> (case Inr c of Inl u \<Rightarrow> \<not> b' | Inr c \<Rightarrow> b' = (?i = k \<and> cr_acquired c)))"
      using m(1) by auto
  qed simp
  show ?thesis
    unfolding deliver_whatsapp_def
  proof (rule guarded_ebind [OF route])
    fix b and r :: "(string \<times> string) option"
    assume "\<not> b"
    show "guarded ?e Q k at_rest b (case r of None \<Rightarrow> finish (failed_with ''dead_letter'' ''whatsapp_target_unresolved'')
       | Some (chat, account) \<Rightarrow> (let body = agent_job_whatsapp_text (ob_payload j) in
           ebind (txn (\<lambda>now. ensure_outbox_job ?e now (inner_job j chat account body))) (\<lambda>(inner, created).
             if ob_state inner = ''delivered'' then finish (delivered_with ((''whatsappOutboxId'', JStr (ob_id inner)) # ack_entries inner))
             else ebind (txn (\<lambda>now. claim_outbox_job ?e now (ob_id inner) (claimant dp)))
               (send_claimed dp inner chat account body))))"
    proof (cases r)
      case None
      then show ?thesis using \<open>\<not> b\<close> by (auto intro: guarded_finish)
    next
      case (Some ca)
      have rest: "guarded ?e Q k at_rest False (ebind (txn (\<lambda>now. claim_outbox_job ?e now (ob_id inner) (claimant dp)))
          (send_claimed dp inner chat account body))" if "ob_id inner = co_id (oe_hash ?e) ?i" for inner chat account body
        unfolding that
        by (rule guarded_ebind [OF claim]) (auto intro: guarded_send_claimed [OF assms(1,2) that i(2)])
      show ?thesis
        using \<open>\<not> b\<close> unfolding Some Let_def
        by (cases ca) (auto intro!: guarded_ebind [OF ensured] guarded_finish rest split: prod.split)
    qed
  qed simp
qed

lemma guarded_deliver:
  assumes "keys_ok (dp_env dp) Q" "k \<in> inner_key ` Q" "intent_row (dp_env dp) Q j"
  shows "guarded (dp_env dp) Q k at_rest False (deliver dp j)"
proof -
  have thread: "guarded (dp_env dp) Q k at_rest False (deliver_thread j)"
    unfolding deliver_thread_def Let_def
    by (auto intro!: guarded_ebind [where P = at_rest] guarded_ask guarded_finish split: reply.split)
  have email: "guarded (dp_env dp) Q k at_rest False (deliver_email dp j)"
    unfolding deliver_email_def Let_def
    by (auto intro!: guarded_ebind [where P = at_rest] guarded_mark_intent [OF assms] guarded_ask guarded_finish split: reply.split)
  have target: "guarded (dp_env dp) Q k at_rest False (resolve_webhook_target dp x)" for x
    unfolding resolve_webhook_target_def Let_def
    by (auto intro!: guarded_ebind [where P = at_rest] guarded_ask guarded_finish guarded.returns split: reply.split json.split)
  have webhook: "guarded (dp_env dp) Q k at_rest False (deliver_agent_job_webhook dp j)"
    unfolding deliver_agent_job_webhook_def
    by (auto intro!: guarded_ebind [where P = at_rest] target guarded_ask guarded_finish split: reply.split option.split)
  show ?thesis
    unfolding deliver_def Let_def using thread email webhook guarded_deliver_whatsapp [OF assms] by (auto intro: guarded_finish)
qed

lemma guarded_dispatch_one:
  assumes "keys_ok (dp_env dp) Q" "k \<in> inner_key ` Q" "intent_row (dp_env dp) Q j"
  shows "guarded (dp_env dp) Q k at_rest False (dispatch_one dp j results)"
proof -
  let ?e = "dp_env dp"
  have q: "ob_key j \<in> Q" "ob_id j = co_id (oe_hash ?e) (ob_key j)" "ob_key j \<in> all_keys Q" "k \<noteq> ob_key j"
    using assms(3) intent_not_inner [OF assms(1) _ assms(2)] by (auto simp: intent_row_def all_keys_def)
  have claim: "guarded ?e Q k (\<lambda>b r. \<not> b \<and> (\<forall>c x. r = Inr c \<longrightarrow> cr_job c = Some x \<longrightarrow> intent_row ?e Q x)) False
      (txn (\<lambda>now. claim_outbox_job ?e now (ob_id j) (claimant dp)))"
  proof (rule guarded_txn)
    fix now rows c rows'
    assume wf: "outbox_wf ?e Q rows" and run: "claim_outbox_job ?e now (ob_id j) (claimant dp) rows = Some (c, rows')"
    note m = claim_ok [OF assms(1) wf q(3) run [unfolded q(2)]]
    have "intent_row ?e Q x" if "cr_job c = Some x" for x
      using m(5) [OF that] q(1) by (auto simp: intent_row_def row_ok_def)
    then show "outbox_wf ?e Q rows' \<and> (\<exists>b'. moves False b' (row_of ob_key k rows) (row_of ob_key k rows')
        \<and> \<not> b' \<and> (\<forall>d x. Inr c = Inr d \<longrightarrow> cr_job d = Some x \<longrightarrow> intent_row ?e Q x))"
      using m(1) m(2) [OF q(4)] by (auto intro!: exI [of _ False])
  qed simp
  have rest: "guarded ?e Q k at_rest False (prog_bind (deliver dp x) (\<lambda>r. (let out = (case r of
        Inl u \<Rightarrow> failed_with ''failed_retryable'' ''notification_dispatch_failed'' | Inr y \<Rightarrow> y)
      in ebind (record_outcome dp x out) (\<lambda>updated.
           finish (results @ [(ob_id x, case updated of Some u \<Rightarrow> ob_state u | None \<Rightarrow> out_state out)])))))"
    if x: "intent_row ?e Q x" for x
    unfolding Let_def record_outcome_def
    by (rule guarded_bind [OF guarded_deliver [OF assms(1,2) x]])
      (auto intro!: guarded_ebind [where P = at_rest] guarded_mark_intent [OF assms(1,2) x] guarded_finish)
  show ?thesis
    unfolding dispatch_one_def
    by (rule guarded_ebind [OF claim]) (auto intro!: rest guarded_finish split: bool.split option.split)
qed

lemma guarded_dispatch:
  assumes "keys_ok (dp_env dp) Q" "k \<in> inner_key ` Q"
  shows "guarded (dp_env dp) Q k at_rest False (dispatch_agent_job_notifications dp limit)"
proof -
  let ?e = "dp_env dp"
  have found: "guarded ?e Q k (\<lambda>b r. \<not> b \<and> (\<forall>js. r = Inr js \<longrightarrow> (\<forall>j \<in> set js. intent_row ?e Q j))) False
      (txn (\<lambda>now rows. Some (list_connector_outbox_jobs ?e now open_filter rows, rows)))"
  proof (rule guarded_txn)
    fix now rows a rows'
    assume wf: "outbox_wf ?e Q rows" and run: "Some (list_connector_outbox_jobs ?e now open_filter rows, rows) = Some (a, rows')"
    have set_found: "set (list_connector_outbox_jobs ?e now open_filter rows)
        = normalize_outbox_job ?e now ` {r \<in> set rows. outbox_where open_filter r}"
    proof -
      have "of_limit open_filter = 0" by (simp add: open_filter_def)
      then show ?thesis by (auto simp: list_connector_outbox_jobs_def Let_def newest_first_def)
    qed
    have "intent_row ?e Q j" if "j \<in> set a" for j
    proof -
      have "j \<in> normalize_outbox_job ?e now ` {r \<in> set rows. outbox_where open_filter r}"
        using that run unfolding set_found [symmetric] by auto
      then obtain r where r: "r \<in> set rows" "outbox_where open_filter r" "j = normalize_outbox_job ?e now r" by auto
      then have ok: "row_ok ?e Q r" using wf by (simp add: outbox_wf_def)
      have "str_trim ''agent_job'' = ''agent_job''" by code_simp
      then have "ob_connector r = ''agent_job''" using r(2) by (simp add: outbox_where_def open_filter_def column_matches_def)
      then have "ob_key r \<in> Q" using ok by (simp add: row_ok_def)
      then show ?thesis using normalize_kept(1,2) [OF assms(1) ok, of now] r(3) ok by (simp add: intent_row_def row_ok_def)
    qed
    then show "outbox_wf ?e Q rows' \<and> (\<exists>b'. moves False b' (row_of ob_key k rows) (row_of ob_key k rows')
        \<and> \<not> b' \<and> (\<forall>js. Inr a = Inr js \<longrightarrow> (\<forall>j \<in> set js. intent_row ?e Q j)))"
      using run wf by (auto intro!: exI [of _ False])
  qed simp
  have all: "guarded ?e Q k at_rest False (dispatch_all dp js results)" if "\<forall>j \<in> set js. intent_row ?e Q j" for js results
    using that
  proof (induction js arbitrary: results)
    case Nil
    then show ?case by (simp add: guarded_finish)
  next
    case (Cons j js)
    then show ?case
      by (auto intro!: guarded_ebind [where P = at_rest] guarded_dispatch_one [OF assms])
  qed
  show ?thesis
    unfolding dispatch_agent_job_notifications_def
    by (rule guarded_ebind [OF found]) (auto intro!: all dest: in_set_takeD)
qed

section \<open>Processes side by side\<close>

text \<open>
  The outbox, the dispatchers that run, and how many messages WhatsApp took for each request id.
  What may happen: the relay enqueues an intent, a dispatcher starts, takes its next step, has its
  transaction fail, gets the reply to its call (and whether the transport took the message), or dies.
\<close>

record machine =
  mc_rows :: outbox
  mc_workers :: "(string \<times> string) list eprog list"
  mc_sent :: "string \<Rightarrow> nat"

datatype machine_event =
    Enqueued notification_row int
  | DispatcherStarted nat
  | Stepped nat int
  | StepFailed nat
  | CallReturned nat reply bool
  | Died nat

definition taken :: "dispatch_request \<Rightarrow> bool \<Rightarrow> (string \<Rightarrow> nat) \<Rightarrow> string \<Rightarrow> nat" where
  "taken q accepted sent = (case q of
     SendWhatsApp chat account text request \<Rightarrow> if accepted then sent(request := Suc (sent request)) else sent | _ \<Rightarrow> sent)"

definition worker :: "machine \<Rightarrow> nat \<Rightarrow> (string \<times> string) list eprog option" where
  "worker m i = (if i < length (mc_workers m) then Some (mc_workers m ! i) else None)"

fun machine_step :: "dispatcher \<Rightarrow> machine_event \<Rightarrow> machine \<Rightarrow> machine" where
  "machine_step dp (Enqueued n now) m =
     (case ensure_outbox_job (dp_env dp) now (relayed_job n) (mc_rows m) of None \<Rightarrow> m | Some (r, rows') \<Rightarrow> m\<lparr>mc_rows := rows'\<rparr>)"
| "machine_step dp (DispatcherStarted limit) m =
     m\<lparr>mc_workers := mc_workers m @ [dispatch_agent_job_notifications dp limit]\<rparr>"
| "machine_step dp (Stepped i now) m =
     (case worker m i of
        Some (Atomic g p) \<Rightarrow> (case g now (mc_rows m) of (rows', w) \<Rightarrow> m\<lparr>mc_rows := rows', mc_workers := (mc_workers m)[i := w]\<rparr>)
      | _ \<Rightarrow> m)"
| "machine_step dp (StepFailed i) m =
     (case worker m i of Some (Atomic g p) \<Rightarrow> m\<lparr>mc_workers := (mc_workers m)[i := p]\<rparr> | _ \<Rightarrow> m)"
| "machine_step dp (CallReturned i r accepted) m =
     (case worker m i of
        Some (Call q c) \<Rightarrow> m\<lparr>mc_workers := (mc_workers m)[i := c r], mc_sent := taken q accepted (mc_sent m)\<rparr>
      | _ \<Rightarrow> m)"
| "machine_step dp (Died i) m = m\<lparr>mc_workers := take i (mc_workers m) @ drop (Suc i) (mc_workers m)\<rparr>"

definition machine_start :: machine where
  "machine_start = \<lparr>mc_rows = [], mc_workers = [], mc_sent = (\<lambda>_. 0)\<rparr>"

text \<open>What is assumed of an event: keys of intents are known, and a refusing transport took nothing.\<close>

fun event_ok :: "string set \<Rightarrow> machine_event \<Rightarrow> bool" where
  "event_ok Q (Enqueued n now) = (ntf_key n \<in> Q)"
| "event_ok Q (CallReturned i r accepted) = (accepted \<longrightarrow> \<not> refused r)"
| "event_ok Q _ = True"

definition held :: "bool list \<Rightarrow> nat" where
  "held bs = length (filter id bs)"

lemma held_simps: "held [] = 0" "held (b # bs) = (if b then 1 else 0) + held bs" "held (bs @ cs) = held bs + held cs"
  by (simp_all add: held_def)

lemma held_update: "i < length bs \<Longrightarrow> held (bs[i := b]) + (if bs ! i then 1 else 0) = held bs + (if b then 1 else 0)"
proof (induction bs arbitrary: i)
  case (Cons x bs)
  show ?case
  proof (cases i)
    case (Suc n)
    with Cons.prems have "n < length bs" by simp
    from Cons.IH [OF this] show ?thesis by (simp add: Suc held_simps)
  qed (simp add: held_simps)
qed simp

definition budget :: "outbox_job option \<Rightarrow> bool list \<Rightarrow> nat \<Rightarrow> bool" where
  "budget x bs n \<longleftrightarrow> (if claimable x then held bs = 0 \<and> n = 0 else held bs + n \<le> 1)"

definition machine_ok :: "dispatcher \<Rightarrow> string set \<Rightarrow> string \<Rightarrow> machine \<Rightarrow> bool" where
  "machine_ok dp Q k m \<longleftrightarrow> outbox_wf (dp_env dp) Q (mc_rows m)
     \<and> (\<exists>bs. list_all2 (guarded (dp_env dp) Q k at_rest) bs (mc_workers m)
          \<and> budget (row_of ob_key k (mc_rows m)) bs (mc_sent m (co_id (oe_hash (dp_env dp)) k)))"

lemma budget_step:
  assumes "budget x bs n" "i < length bs" "moves (bs ! i) b' x y"
  shows "budget y (bs[i := b']) n"
proof -
  note h = held_update [OF assms(2), of b']
  show ?thesis using assms(1,3) h by (auto simp: budget_def moves_def split: if_splits)
qed

lemma machine_step_ok:
  assumes "keys_ok (dp_env dp) Q" "k \<in> inner_key ` Q" "machine_ok dp Q k m" "event_ok Q ev"
  shows "machine_ok dp Q k (machine_step dp ev m)"
proof -
  let ?e = "dp_env dp" let ?i = "co_id (oe_hash ?e) k"
  obtain bs where wf: "outbox_wf ?e Q (mc_rows m)" and ws: "list_all2 (guarded ?e Q k at_rest) bs (mc_workers m)"
    and bud: "budget (row_of ob_key k (mc_rows m)) bs (mc_sent m ?i)"
    using assms(3) by (auto simp: machine_ok_def)
  have len: "length bs = length (mc_workers m)" using ws by (rule list_all2_lengthD)
  have at: "i < length bs \<and> guarded ?e Q k at_rest (bs ! i) w" if "worker m i = Some w" for i w
    using that ws len by (auto simp: worker_def list_all2_conv_all_nth split: if_splits)
  show ?thesis
  proof (cases ev)
    case (Enqueued n now)
    have q: "ntf_key n \<in> Q" using assms(4) Enqueued by simp
    have ok: "row_ok ?e Q ((relayed_job n)\<lparr>ob_id := co_id (oe_hash ?e) (ob_key (relayed_job n))\<rparr>)"
      "ob_id (relayed_job n) = []" "ob_state (relayed_job n) = []" "ob_key (relayed_job n) \<noteq> k"
      using q intent_not_inner [OF assms(1) q assms(2)] by (simp_all add: relayed_job_def blank_job_def row_ok_def)
    obtain j c rows' where x: "ensure_outbox_job ?e now (relayed_job n) (mc_rows m) = Some ((j, c), rows')" "outbox_wf ?e Q rows'"
      "\<And>k'. k' \<noteq> ob_key (relayed_job n) \<Longrightarrow> row_of ob_key k' rows' = row_of ob_key k' (mc_rows m)"
      by (rule ensure_ok [OF assms(1) wf ok(1-3), of now]) blast
    show ?thesis using x ok(4) ws bud by (auto simp: machine_ok_def Enqueued)
  next
    case (DispatcherStarted limit)
    have "list_all2 (guarded ?e Q k at_rest) (bs @ [False]) (mc_workers m @ [dispatch_agent_job_notifications dp limit])"
      using ws guarded_dispatch [OF assms(1,2)] len by (simp add: list_all2_append)
    moreover have "budget (row_of ob_key k (mc_rows m)) (bs @ [False]) (mc_sent m ?i)"
      using bud by (cases "claimable (row_of ob_key k (mc_rows m))") (simp_all add: budget_def held_simps)
    ultimately show ?thesis using wf by (auto simp: machine_ok_def DispatcherStarted)
  next
    case (Stepped i now)
    show ?thesis
    proof (cases "\<exists>g p. worker m i = Some (Atomic g p)")
      case True
      then obtain g p where w: "worker m i = Some (Atomic g p)" by blast
      from at [OF w] have i: "i < length bs" and "guarded ?e Q k at_rest (bs ! i) (Atomic g p)" by auto
      from this(2) wf obtain b' where b: "outbox_wf ?e Q (fst (g now (mc_rows m)))"
        "moves (bs ! i) b' (row_of ob_key k (mc_rows m)) (row_of ob_key k (fst (g now (mc_rows m))))"
        "guarded ?e Q k at_rest b' (snd (g now (mc_rows m)))"
        by (auto elim!: guarded_transacts)
      have "list_all2 (guarded ?e Q k at_rest) (bs[i := b']) ((mc_workers m)[i := snd (g now (mc_rows m))])"
        by (rule list_all2_update_cong [OF ws b(3)])
      then show ?thesis using b(1) budget_step [OF bud i b(2)] w
        by (auto simp: machine_ok_def Stepped split: prod.split)
    next
      case False
      then have "machine_step dp ev m = m" by (auto simp: Stepped split: option.split prog.split)
      then show ?thesis using assms(3) by simp
    qed
  next
    case (StepFailed i)
    show ?thesis
    proof (cases "\<exists>g p. worker m i = Some (Atomic g p)")
      case True
      then obtain g p where w: "worker m i = Some (Atomic g p)" by blast
      from at [OF w] have i: "i < length bs" and "guarded ?e Q k at_rest (bs ! i) (Atomic g p)" by auto
      from this(2) have b: "guarded ?e Q k at_rest False p" by (auto elim!: guarded_transacts)
      have "list_all2 (guarded ?e Q k at_rest) (bs[i := False]) ((mc_workers m)[i := p])"
        by (rule list_all2_update_cong [OF ws b])
      moreover have "budget (row_of ob_key k (mc_rows m)) (bs[i := False]) (mc_sent m ?i)"
        by (rule budget_step [OF bud i]) (cases "bs ! i", simp_all)
      ultimately show ?thesis using wf w by (auto simp: machine_ok_def StepFailed)
    next
      case False
      then have "machine_step dp ev m = m" by (auto simp: StepFailed split: option.split prog.split)
      then show ?thesis using assms(3) by simp
    qed
  next
    case (CallReturned i r accepted)
    show ?thesis
    proof (cases "\<exists>q c. worker m i = Some (Call q c)")
      case True
      then obtain q c where w: "worker m i = Some (Call q c)" by blast
      let ?b = "bs ! i \<and> (sends_to ?i q \<longrightarrow> refused r)"
      from at [OF w] have i: "i < length bs" and g: "guarded ?e Q k at_rest (bs ! i) (Call q c)" by auto
      from g have b: "guarded ?e Q k at_rest ?b (c r)" and s: "sends_to ?i q \<Longrightarrow> bs ! i" by (auto elim!: guarded_calls)
      have h: "accepted \<Longrightarrow> \<not> refused r" using assms(4) CallReturned by simp
      have n: "taken q accepted (mc_sent m) ?i = mc_sent m ?i + (if sends_to ?i q \<and> accepted then 1 else 0)"
        by (auto simp: taken_def sends_to_def split: dispatch_request.split)
      have ws': "list_all2 (guarded ?e Q k at_rest) (bs[i := ?b]) ((mc_workers m)[i := c r])"
        by (rule list_all2_update_cong [OF ws b])
      have u: "held (bs[i := ?b]) + (if bs ! i then 1 else 0) = held bs + (if ?b then 1 else 0)"
        by (rule held_update [OF i])
      have pos: "0 < held bs" if "bs ! i"
        using that nth_mem [OF i] by (auto simp: held_def filter_empty_conv)
      have "budget (row_of ob_key k (mc_rows m)) (bs[i := ?b]) (mc_sent m ?i + (if sends_to ?i q \<and> accepted then 1 else 0))"
        using bud u s h pos by (auto simp: budget_def split: if_splits)
      then show ?thesis using wf ws' w n by (auto simp: machine_ok_def CallReturned)
    next
      case False
      then have "machine_step dp ev m = m" by (auto simp: CallReturned split: option.split prog.split)
      then show ?thesis using assms(3) by simp
    qed
  next
    case (Died i)
    have "list_all2 (guarded ?e Q k at_rest) (take i bs @ drop (Suc i) bs) (take i (mc_workers m) @ drop (Suc i) (mc_workers m))"
      using ws len by (auto intro!: list_all2_appendI list_all2_takeI list_all2_dropI)
    moreover have "held (take i bs @ drop (Suc i) bs) \<le> held bs"
    proof (cases "i < length bs")
      case True
      have "held bs = held (take i bs @ bs ! i # drop (Suc i) bs)" using id_take_nth_drop [OF True] by simp
      then show ?thesis by (simp add: held_simps)
    qed (simp add: held_simps)
    then have "budget (row_of ob_key k (mc_rows m)) (take i bs @ drop (Suc i) bs) (mc_sent m ?i)"
      using bud by (auto simp: budget_def split: if_splits)
    ultimately show ?thesis using wf by (auto simp: machine_ok_def Died)
  qed
qed

lemma machine_run_ok:
  assumes "keys_ok (dp_env dp) Q" "k \<in> inner_key ` Q" "list_all (event_ok Q) evs" "machine_ok dp Q k m"
  shows "machine_ok dp Q k (fold (machine_step dp) evs m)"
  using assms(3,4) by (induction evs arbitrary: m) (auto intro: machine_step_ok [OF assms(1,2)])

text \<open>
  C3: WhatsApp takes at most one message for a notification, however many dispatchers run at once,
  in whatever order their steps and the relay's interleave, whatever the clock says, and wherever
  they die or their transactions fail, as long as no operator reopens the row and the rows of the
  notifications fit into the retention limit.
\<close>

theorem whatsapp_notification_sent_once:
  assumes "keys_ok (dp_env dp) Q" and "q \<in> Q" and "list_all (event_ok Q) evs"
  shows "mc_sent (fold (machine_step dp) evs machine_start) (co_id (oe_hash (dp_env dp)) (inner_key q)) \<le> 1"
proof -
  have start: "machine_ok dp Q (inner_key q) machine_start"
    by (auto simp: machine_ok_def machine_start_def outbox_wf_def budget_def held_def claimable_def intro: exI [of _ "[]"])
  have "inner_key q \<in> inner_key ` Q" using assms(2) by blast
  from machine_run_ok [OF assms(1) this assms(3) start]
  show ?thesis by (auto simp: machine_ok_def budget_def split: if_splits)
qed

definition sample_dispatcher :: dispatcher where
  "sample_dispatcher = \<lparr>dp_env = \<lparr>oe_hash = id, oe_admin = [], oe_claim_ttl = None, oe_backoff = None, oe_backoff_max = None,
     oe_retention = Some (Some 2), oe_pid = ''7''\<rparr>, dp_max_attempts = None, dp_parse_url = (\<lambda>_. None)\<rparr>"

definition sample_intent :: notification_row where
  "sample_intent = \<lparr>ntf_key = ''n1'', ntf_run = ''r1'', ntf_event = ''succeeded'', ntf_channel = ''whatsapp'', ntf_target = ''g'',
     ntf_payload = JObj [(''channel'', JStr ''whatsapp''), (''target'', JStr ''g''), (''text'', JStr ''hi'')],
     ntf_outbox_job_id = None, ntf_created_at = 0, ntf_relayed_at = None\<rparr>"

definition sample_events :: "machine_event list" where
  "sample_events = [Enqueued sample_intent 5, DispatcherStarted 9, DispatcherStarted 9, Stepped 0 6, Stepped 1 6, Stepped 0 7, Stepped 0 7,
     Stepped 0 8, CallReturned 0 (Replied (JObj [(''id'', JStr ''m'')])) True, Died 0, Stepped 0 900000, Stepped 0 900000, Stepped 0 900000,
     Stepped 0 900001]"

text \<open>The first dispatcher dies after its message was sent; the second one finds the claim expired.\<close>

lemma whatsapp_notification_sent_once_witness:
  "mc_sent (fold (machine_step sample_dispatcher) sample_events machine_start) (co_id id ''n1:whatsapp'') \<le> 1"
proof -
  have trim: "str_trim ''n1'' = ''n1''" "str_trim ''n1:whatsapp'' = ''n1:whatsapp''" "str_trim ''co_n1'' = ''co_n1''"
    "str_trim ''co_n1:whatsapp'' = ''co_n1:whatsapp''" by code_simp+
  have "keys_ok (dp_env sample_dispatcher) {''n1''}"
    using trim by (simp add: keys_ok_def all_keys_def sample_dispatcher_def co_id_def inj_on_def connector_outbox_retention_limit_def env_number_def)
  moreover have "list_all (event_ok {''n1''}) sample_events"
    by (simp add: sample_events_def sample_intent_def refused_def)
  ultimately show ?thesis
    using whatsapp_notification_sent_once [of sample_dispatcher "{''n1''}" "''n1''" sample_events] by (simp add: sample_dispatcher_def)
qed

end
