(* ===== verification/LegacyBytes.thy ===== *)
theory LegacyBytes
  imports Json
begin

text \<open>
  The canonical bytes of a JSON value (\<open>desktop-lease-canonical.js\<close>), which the digest of retired
  desktop leases is taken over, and the proof that they determine the value: no code is a prefix of
  another, and two values with one code differ in the order of object keys only.
\<close>

section \<open>Bytes of texts and numbers\<close>

text \<open>UTF-8 of the characters below 256; a lone surrogate cannot occur among them.\<close>

definition utf8_char :: "char \<Rightarrow> string" where
  "utf8_char c =
     (let n = of_char c :: nat in if n < 128 then [c] else [char_of (192 + n div 64), char_of (128 + n mod 64)])"

definition legacy_utf8 :: "string \<Rightarrow> string" where
  "legacy_utf8 s = concat (map utf8_char s)"

text \<open>The double of a safe integer: sign, biased exponent and fraction, big-endian in hexadecimal.\<close>

definition max_safe :: int where
  "max_safe = 9007199254740991"

fun exponent :: "nat \<Rightarrow> nat" where
  "exponent m = (if m < 2 then 0 else Suc (exponent (m div 2)))"

declare exponent.simps [simp del]

definition double_bits :: "int \<Rightarrow> nat" where
  "double_bits n =
     (if n = 0 then 0
      else (let m = nat \<bar>n\<bar>; e = exponent m
        in (if n < 0 then 2 ^ 63 else 0) + (e + 1023) * 2 ^ 52 + (m - 2 ^ e) * 2 ^ (52 - e)))"

fun hex_text :: "nat \<Rightarrow> nat \<Rightarrow> string" where
  "hex_text 0 n = []"
| "hex_text (Suc w) n = hex_text w (n div 16) @ [hex_digit (n mod 16)]"

definition double_hex :: "int \<Rightarrow> string" where
  "double_hex n = hex_text 16 (double_bits n)"

text \<open>
  The hexadecimal double of a number that is not an integer is an argument, \<open>None\<close> where the code
  refuses the number.
\<close>

definition number_hex :: "(string \<Rightarrow> string option) \<Rightarrow> json \<Rightarrow> string option" where
  "number_hex dec v =
     (case v of JNum n \<Rightarrow> if \<bar>n\<bar> \<le> max_safe then Some (double_hex n) else None | JDec d \<Rightarrow> dec d | _ \<Rightarrow> None)"

section \<open>The encoding\<close>

definition text_code :: "string \<Rightarrow> string" where
  "text_code s = ''s'' @ nat_str (length (legacy_utf8 s)) @ '':'' @ legacy_utf8 s"

definition given_hex :: "string option \<Rightarrow> string" where
  "given_hex x = (case x of None \<Rightarrow> [] | Some h \<Rightarrow> h)"

primrec legacy_code :: "(string \<Rightarrow> string option) \<Rightarrow> json \<Rightarrow> string" where
  "legacy_code dec JNull = ''n''"
| "legacy_code dec (JBool b) = (if b then ''t'' else ''f'')"
| "legacy_code dec (JNum n) = ''d'' @ given_hex (number_hex dec (JNum n))"
| "legacy_code dec (JDec d) = ''d'' @ given_hex (number_hex dec (JDec d))"
| "legacy_code dec (JStr s) = text_code s"
| "legacy_code dec (JArr xs) = ''a'' @ nat_str (length xs) @ '':['' @ concat (map (legacy_code dec) xs) @ '']''"
| "legacy_code dec (JObj kvs) = ''o'' @ nat_str (length kvs) @ '':{''
     @ concat (map (\<lambda>(k, b). text_code k @ b) (sort_key (legacy_utf8 \<circ> fst) (map (map_prod id (legacy_code dec)) kvs))) @ ''}''"

text \<open>The limits: visited nodes, keys among them, the depth of the deepest one, and the numbers.\<close>

primrec legacy_nodes :: "json \<Rightarrow> nat" where
  "legacy_nodes JNull = 1"
| "legacy_nodes (JBool b) = 1"
| "legacy_nodes (JNum n) = 1"
| "legacy_nodes (JDec d) = 1"
| "legacy_nodes (JStr s) = 1"
| "legacy_nodes (JArr xs) = Suc (sum_list (map legacy_nodes xs))"
| "legacy_nodes (JObj kvs) = Suc (sum_list (map (\<lambda>(k, n). Suc n) (map (map_prod id legacy_nodes) kvs)))"

primrec legacy_depth :: "json \<Rightarrow> nat" where
  "legacy_depth JNull = 0"
| "legacy_depth (JBool b) = 0"
| "legacy_depth (JNum n) = 0"
| "legacy_depth (JDec d) = 0"
| "legacy_depth (JStr s) = 0"
| "legacy_depth (JArr xs) = fold (\<lambda>n m. max (Suc n) m) (map legacy_depth xs) 0"
| "legacy_depth (JObj kvs) = fold (\<lambda>(k, n) m. max (Suc n) m) (map (map_prod id legacy_depth) kvs) 0"

primrec numbers_coded :: "(string \<Rightarrow> string option) \<Rightarrow> json \<Rightarrow> bool" where
  "numbers_coded dec JNull = True"
| "numbers_coded dec (JBool b) = True"
| "numbers_coded dec (JNum n) = (number_hex dec (JNum n) \<noteq> None)"
| "numbers_coded dec (JDec d) = (number_hex dec (JDec d) \<noteq> None)"
| "numbers_coded dec (JStr s) = True"
| "numbers_coded dec (JArr xs) = list_all id (map (numbers_coded dec) xs)"
| "numbers_coded dec (JObj kvs) = list_all snd (map (map_prod id (numbers_coded dec)) kvs)"

definition max_legacy_bytes :: nat where
  "max_legacy_bytes = 8 * 1024 * 1024"

text \<open>The counters only grow, so one of them passes its limit on the way iff it ends beyond it.\<close>

definition canonical_legacy_bytes :: "(string \<Rightarrow> string option) \<Rightarrow> json \<Rightarrow> string option" where
  "canonical_legacy_bytes dec v =
     (if legacy_nodes v \<le> 100000 \<and> legacy_depth v \<le> 64 \<and> numbers_coded dec v
         \<and> length (legacy_code dec v) \<le> max_legacy_bytes
      then Some (legacy_code dec v) else None)"

text \<open>A value with the keys of its objects in the order of the encoding.\<close>

primrec key_sorted :: "json \<Rightarrow> json" where
  "key_sorted JNull = JNull"
| "key_sorted (JBool b) = JBool b"
| "key_sorted (JNum n) = JNum n"
| "key_sorted (JDec d) = JDec d"
| "key_sorted (JStr s) = JStr s"
| "key_sorted (JArr xs) = JArr (map key_sorted xs)"
| "key_sorted (JObj kvs) = JObj (sort_key (legacy_utf8 \<circ> fst) (map (map_prod id key_sorted) kvs))"

section \<open>Texts and numbers are determined by their codes\<close>

lemma utf8_char_prefix:
  assumes "utf8_char a @ x = utf8_char b @ y"
  shows "a = b \<and> x = y"
proof -
  let ?m = "of_char a :: nat" and ?n = "of_char b :: nat"
  have bound: "?m < 256" "?n < 256" by (metis nat_of_char_less_256)+
  have inj: "char_of i = char_of j \<longleftrightarrow> i = j" if "i < 256" "j < 256" for i j :: nat
    using that by (metis char_of_eq_iff of_char_of mod_less)
  have high: "\<not> c < 128 \<Longrightarrow> c < 256 \<Longrightarrow> 192 + c div 64 < 256 \<and> 128 + c mod 64 < 256 \<and> 128 \<le> 192 + c div 64" for c :: nat
    by auto
  have "?m < 128 \<longleftrightarrow> ?n < 128"
  proof (rule ccontr)
    assume "\<not> ?thesis"
    then consider "?m < 128" "\<not> ?n < 128" | "\<not> ?m < 128" "?n < 128" by blast
    then show False
    proof cases
      case 1
      with assms have "a = char_of (192 + ?n div 64)" by (simp add: utf8_char_def Let_def)
      with 1 high [of ?n] bound show False by (metis (no_types, lifting) not_less of_char_of mod_less)
    next
      case 2
      with assms have "b = char_of (192 + ?m div 64)" by (auto simp: utf8_char_def Let_def)
      with 2 high [of ?m] bound show False by (metis (no_types, lifting) not_less of_char_of mod_less)
    qed
  qed
  then show ?thesis
  proof (cases "?m < 128")
    case False
    with assms \<open>?m < 128 \<longleftrightarrow> ?n < 128\<close> have "192 + ?m div 64 = 192 + ?n div 64" "128 + ?m mod 64 = 128 + ?n mod 64" "x = y"
      using inj high [of ?m] high [of ?n] bound by (simp_all add: utf8_char_def Let_def)
    then have "?m = ?n" by (metis add_left_cancel div_mod_decomp)
    with \<open>x = y\<close> show ?thesis by simp
  qed (use assms in \<open>simp add: utf8_char_def\<close>)
qed

lemma legacy_utf8_inject: "legacy_utf8 s = legacy_utf8 t \<Longrightarrow> s = t"
proof (induction s arbitrary: t)
  case Nil
  then show ?case by (cases t) (auto simp: legacy_utf8_def utf8_char_def Let_def split: if_splits)
next
  case (Cons c s)
  then obtain d t' where t: "t = d # t'"
    by (cases t) (auto simp: legacy_utf8_def utf8_char_def Let_def split: if_splits)
  with Cons.prems have "utf8_char c @ legacy_utf8 s = utf8_char d @ legacy_utf8 t'" by (simp add: legacy_utf8_def)
  with utf8_char_prefix Cons.IH t show ?case by blast
qed

lemma nat_str_prefix:
  assumes "nat_str m @ CHR '':'' # x = nat_str n @ CHR '':'' # y"
  shows "m = n \<and> x = y"
proof -
  have "takeWhile is_digit (nat_str k @ CHR '':'' # z) = nat_str k" for k z
  proof (subst takeWhile_append2)
    show "is_digit c" if "c \<in> set (nat_str k)" for c using nat_str_digits [of k] that by (simp add: list_all_iff)
  qed (simp add: is_digit_def char_between_def)
  with assms have "nat_str m = nat_str n" by metis
  with assms show ?thesis by simp
qed

lemma text_code_prefix:
  assumes "text_code s @ x = text_code t @ y"
  shows "s = t \<and> x = y"
proof -
  from assms have "nat_str (length (legacy_utf8 s)) @ CHR '':'' # (legacy_utf8 s @ x)
      = nat_str (length (legacy_utf8 t)) @ CHR '':'' # (legacy_utf8 t @ y)" by (simp add: text_code_def)
  from nat_str_prefix [OF this] show ?thesis by (auto dest: legacy_utf8_inject)
qed

lemma exponent_bounds: "0 < m \<Longrightarrow> 2 ^ exponent m \<le> m \<and> m < 2 * 2 ^ exponent m"
proof (induction m rule: exponent.induct)
  case (1 m)
  then show ?case by (subst (1 2) exponent.simps) auto
qed

lemma low_field: "b < c \<Longrightarrow> (a * c + b) mod c = (b :: nat)"
  by simp

lemma double_bits_fields:
  assumes "n \<noteq> 0" and "\<bar>n\<bar> \<le> max_safe"
  defines "m \<equiv> nat \<bar>n\<bar>"
  shows "double_bits n div 2 ^ 63 = (if n < 0 then 1 else 0)"
    and "double_bits n mod 2 ^ 63 div 2 ^ 52 = exponent m + 1023"
    and "double_bits n mod 2 ^ 52 = (m - 2 ^ exponent m) * 2 ^ (52 - exponent m)"
    and "exponent m \<le> 52"
proof -
  let ?e = "exponent m" and ?f = "(m - 2 ^ exponent m) * 2 ^ (52 - exponent m)"
  have m: "0 < m" "m < 2 ^ 53" using assms by (auto simp: max_safe_def)
  note b = exponent_bounds [OF m(1)]
  have "(2::nat) ^ ?e < 2 ^ 53" using b m(2) by linarith
  then show e: "?e \<le> 52" using power_less_imp_less_exp [of "2::nat" ?e 53] by simp
  have "m - 2 ^ ?e < 2 ^ ?e" using b by linarith
  then have "?f < 2 ^ ?e * 2 ^ (52 - ?e)" by simp
  also have "\<dots> = 2 ^ 52" using e by (simp flip: power_add)
  finally have f: "?f < 2 ^ 52" .
  define s :: nat where "s = (if n < 0 then 1 else 0)"
  have bits: "double_bits n = s * 2 ^ 63 + ((?e + 1023) * 2 ^ 52 + ?f)"
    using assms(1) by (simp add: double_bits_def m_def s_def Let_def)
  have low: "(?e + 1023) * 2 ^ 52 + ?f < 2 ^ 63"
  proof -
    have "(?e + 1023) * 2 ^ 52 \<le> 1075 * 2 ^ 52" using e by (intro mult_right_mono) simp_all
    with f show ?thesis by simp
  qed
  from bits low show "double_bits n div 2 ^ 63 = (if n < 0 then 1 else 0)" by (simp add: s_def)
  have "double_bits n mod 2 ^ 63 = (?e + 1023) * 2 ^ 52 + ?f" using bits low by simp
  with f show "double_bits n mod 2 ^ 63 div 2 ^ 52 = exponent m + 1023" by simp
  have "double_bits n = (s * 2 ^ 11 + (?e + 1023)) * 2 ^ 52 + ?f" unfolding bits by (simp add: algebra_simps)
  then show "double_bits n mod 2 ^ 52 = ?f" using low_field [OF f] by metis
qed

lemma double_bits_less:
  assumes "\<bar>n\<bar> \<le> max_safe"
  shows "double_bits n < 16 ^ 16"
proof (cases "n = 0")
  case False
  have "double_bits n div 2 ^ 63 < 2" using double_bits_fields(1) [OF False assms] by simp
  then have "double_bits n < 2 * 2 ^ 63" by (simp add: div_less_iff_less_mult)
  then show ?thesis by simp
qed (simp add: double_bits_def)

lemma double_bits_inject:
  assumes "\<bar>m\<bar> \<le> max_safe" "\<bar>n\<bar> \<le> max_safe" and "double_bits m = double_bits n"
  shows "m = n"
proof -
  have zero: "double_bits k \<noteq> 0" if "k \<noteq> 0" "\<bar>k\<bar> \<le> max_safe" for k
    using double_bits_fields(2) [OF that] by (intro notI) simp
  show ?thesis
  proof (cases "m = 0 \<or> n = 0")
    case True
    have "double_bits 0 = 0" by (simp add: double_bits_def)
    with True assms zero show ?thesis by metis
  next
    case False
    then have nz: "m \<noteq> 0" "n \<noteq> 0" by auto
    note fm = double_bits_fields [OF nz(1) assms(1)] and fn = double_bits_fields [OF nz(2) assms(2)]
    let ?a = "nat \<bar>m\<bar>" and ?b = "nat \<bar>n\<bar>"
    have e: "exponent ?a = exponent ?b" using fm(2) fn(2) assms(3) by simp
    have "(?a - 2 ^ exponent ?a) * 2 ^ (52 - exponent ?a) = (?b - 2 ^ exponent ?b) * 2 ^ (52 - exponent ?a)"
      using fm(3) fn(3) assms(3) e by metis
    then have "?a - 2 ^ exponent ?a = ?b - 2 ^ exponent ?b" by simp
    moreover have "2 ^ exponent ?a \<le> ?a" "2 ^ exponent ?b \<le> ?b" using exponent_bounds [of ?a] exponent_bounds [of ?b] nz by auto
    ultimately have "?a = ?b" using e by (metis le_add_diff_inverse2)
    moreover have "m < 0 \<longleftrightarrow> n < 0" using fm(1) fn(1) assms(3) by (metis zero_neq_one)
    ultimately show ?thesis by linarith
  qed
qed

lemma hex_text_length [simp]: "length (hex_text w n) = w"
  by (induction w arbitrary: n) simp_all

lemma hex_digit_inject: "m < 16 \<Longrightarrow> n < 16 \<Longrightarrow> hex_digit m = hex_digit n \<Longrightarrow> m = n"
proof -
  have "distinct ''0123456789abcdef''" by simp
  then show "m < 16 \<Longrightarrow> n < 16 \<Longrightarrow> hex_digit m = hex_digit n \<Longrightarrow> m = n"
    unfolding hex_digit_def by (subst (asm) nth_eq_iff_index_eq) simp_all
qed

lemma hex_text_inject: "m < 16 ^ w \<Longrightarrow> n < 16 ^ w \<Longrightarrow> hex_text w m = hex_text w n \<Longrightarrow> m = n"
proof (induction w arbitrary: m n)
  case (Suc w)
  then have "hex_text w (m div 16) = hex_text w (n div 16)" "hex_digit (m mod 16) = hex_digit (n mod 16)" by simp_all
  moreover have "m div 16 < 16 ^ w" "n div 16 < 16 ^ w" using Suc.prems by (simp_all add: less_mult_imp_div_less mult.commute)
  ultimately have "m div 16 = n div 16" "m mod 16 = n mod 16" using Suc.IH hex_digit_inject by simp_all
  then show ?case by (metis div_mod_decomp)
qed simp

lemma double_hex_inject: "\<bar>m\<bar> \<le> max_safe \<Longrightarrow> \<bar>n\<bar> \<le> max_safe \<Longrightarrow> double_hex m = double_hex n \<Longrightarrow> m = n"
  using hex_text_inject [OF double_bits_less double_bits_less] double_bits_inject unfolding double_hex_def by blast

text \<open>
  The doubles of numbers that are not integers: sixteen digits, different for different numbers and
  from those of the integers.
\<close>

definition decimal_codes :: "(string \<Rightarrow> string option) \<Rightarrow> bool" where
  "decimal_codes dec \<longleftrightarrow> (\<forall>d h. dec d = Some h \<longrightarrow> length h = 16 \<and> (\<forall>d'. dec d' = Some h \<longrightarrow> d' = d)
     \<and> (\<forall>n. \<bar>n\<bar> \<le> max_safe \<longrightarrow> double_hex n \<noteq> h))"

lemma number_hex_prefix:
  assumes "decimal_codes dec" and "number_hex dec v = Some h" "number_hex dec w = Some k" and "h @ x = k @ y"
  shows "v = w \<and> x = y"
proof -
  have len: "length h = 16" "length k = 16"
    using assms(1-3) by (auto simp: number_hex_def decimal_codes_def double_hex_def split: json.splits if_splits)
  with assms(4) have same: "h = k" "x = y" by simp_all
  moreover have "v = w"
    using assms(1-3) same(1) double_hex_inject
    by (auto simp: number_hex_def decimal_codes_def split: json.splits if_splits)
  ultimately show ?thesis by simp
qed

section \<open>The code determines the value\<close>

lemma sort_key_map_snd:
  "sort_key (f \<circ> fst) (map (map_prod id g) xs) = map (map_prod id g) (sort_key (f \<circ> fst) xs)"
proof -
  have "insort_key (f \<circ> fst) (map_prod id g x) (map (map_prod id g) ys) = map (map_prod id g) (insort_key (f \<circ> fst) x ys)" for x ys
    by (induction ys) auto
  then show ?thesis by (induction xs) simp_all
qed

lemma codes_prefix:
  assumes "\<And>v w x y. v \<in> set vs \<Longrightarrow> w \<in> set ws \<Longrightarrow> c v @ x = c w @ y \<Longrightarrow> n v = n w \<and> x = y"
    and "length vs = length ws" and "concat (map c vs) @ x = concat (map c ws) @ y"
  shows "map n vs = map n ws \<and> x = y"
  using assms(2,1,3)
proof (induction vs ws rule: list_induct2)
  case (Cons v vs w ws)
  have "c v @ (concat (map c vs) @ x) = c w @ (concat (map c ws) @ y)" using Cons.prems(2) by simp
  with Cons.prems(1) [of v w] have "n v = n w" "concat (map c vs) @ x = concat (map c ws) @ y" by auto
  moreover have "map n vs = map n ws \<and> x = y"
  proof (rule Cons.IH)
    show "n v = n w \<and> x = y" if "v \<in> set vs" "w \<in> set ws" "c v @ x = c w @ y" for v w x y
      using Cons.prems(1) [of v w x y] that by simp
  qed (rule \<open>concat (map c vs) @ x = concat (map c ws) @ y\<close>)
  ultimately show ?case by simp
qed simp

lemma legacy_code_obj:
  "legacy_code dec (JObj kvs) = ''o'' @ nat_str (length kvs) @ '':{''
     @ concat (map (\<lambda>(k, v). text_code k @ legacy_code dec v) (sort_key (legacy_utf8 \<circ> fst) kvs)) @ ''}''"
proof -
  have "(\<lambda>(k, b). text_code k @ b) \<circ> map_prod id (legacy_code dec) = (\<lambda>(k, v). text_code k @ legacy_code dec v)"
    by auto
  then show ?thesis unfolding legacy_code.simps sort_key_map_snd map_map by simp
qed

lemma key_sorted_obj:
  "key_sorted (JObj kvs) = JObj (map (map_prod id key_sorted) (sort_key (legacy_utf8 \<circ> fst) kvs))"
  unfolding key_sorted.simps sort_key_map_snd ..

lemma numbers_coded_members:
  "numbers_coded dec (JArr xs) \<longleftrightarrow> (\<forall>v\<in>set xs. numbers_coded dec v)"
  "numbers_coded dec (JObj kvs) \<longleftrightarrow> (\<forall>p\<in>set kvs. numbers_coded dec (snd p))"
  by (auto simp: list_all_iff)

lemma legacy_code_prefix:
  assumes "decimal_codes dec" and "numbers_coded dec v" "numbers_coded dec w"
    and "legacy_code dec v @ x = legacy_code dec w @ y"
  shows "key_sorted v = key_sorted w \<and> x = y"
  using assms(2-4)
proof (induction v arbitrary: w x y)
  case (JNum n)
  then obtain h where h: "number_hex dec (JNum n) = Some h" by auto
  from JNum.prems(3) obtain k where k: "number_hex dec w = Some k" "h @ x = k @ y"
    using h JNum.prems(2) by (cases w) (auto simp: given_hex_def text_code_def split: if_splits)
  from number_hex_prefix [OF assms(1) h k] show ?case by auto
next
  case (JDec d)
  then obtain h where h: "number_hex dec (JDec d) = Some h" by auto
  from JDec.prems(3) obtain k where k: "number_hex dec w = Some k" "h @ x = k @ y"
    using h JDec.prems(2) by (cases w) (auto simp: given_hex_def text_code_def split: if_splits)
  from number_hex_prefix [OF assms(1) h k] show ?case by auto
next
  case (JStr s)
  from JStr.prems(3) obtain t where "w = JStr t" by (cases w) (auto simp: text_code_def split: if_splits)
  moreover from this JStr.prems(3) have "text_code s @ x = text_code t @ y" by simp
  from text_code_prefix [OF this] have "s = t" "x = y" by simp_all
  ultimately show ?case by simp
next
  case (JArr xs)
  from JArr.prems(3) obtain ys where w: "w = JArr ys" by (cases w) (auto simp: text_code_def split: if_splits)
  let ?c = "legacy_code dec"
  have "nat_str (length xs) @ CHR '':'' # (CHR ''['' # concat (map ?c xs) @ CHR '']'' # x)
      = nat_str (length ys) @ CHR '':'' # (CHR ''['' # concat (map ?c ys) @ CHR '']'' # y)"
    using JArr.prems(3) w by simp
  from nat_str_prefix [OF this] have "length xs = length ys"
      "concat (map ?c xs) @ CHR '']'' # x = concat (map ?c ys) @ CHR '']'' # y" by simp_all
  moreover have "key_sorted a = key_sorted b \<and> u = z"
    if "a \<in> set xs" "b \<in> set ys" "?c a @ u = ?c b @ z" for a b u z
    using JArr.IH [OF that(1) _ _ that(3)] JArr.prems(1,2) that(1,2) unfolding w numbers_coded_members by blast
  ultimately have "map key_sorted xs = map key_sorted ys \<and> CHR '']'' # x = CHR '']'' # y"
    by (intro codes_prefix)
  with w show ?case by simp
next
  case (JObj kvs)
  from JObj.prems(3) obtain kws where w: "w = JObj kws" by (cases w) (auto simp: text_code_def split: if_splits)
  let ?c = "\<lambda>(k, v). text_code k @ legacy_code dec v" and ?s = "sort_key (legacy_utf8 \<circ> fst)"
  have "nat_str (length kvs) @ CHR '':'' # (CHR ''{'' # concat (map ?c (?s kvs)) @ CHR ''}'' # x)
      = nat_str (length kws) @ CHR '':'' # (CHR ''{'' # concat (map ?c (?s kws)) @ CHR ''}'' # y)"
    using JObj.prems(3) unfolding w legacy_code_obj by simp
  from nat_str_prefix [OF this] have "length (?s kvs) = length (?s kws)"
      "concat (map ?c (?s kvs)) @ CHR ''}'' # x = concat (map ?c (?s kws)) @ CHR ''}'' # y" by simp_all
  moreover have "map_prod id key_sorted a = map_prod id key_sorted b \<and> u = z"
    if ab: "a \<in> set (?s kvs)" "b \<in> set (?s kws)" and c: "?c a @ u = ?c b @ z" for a b u z
  proof -
    obtain k v k' v' where p: "a = (k, v)" "b = (k', v')" by (cases a; cases b)
    with c have "text_code k @ (legacy_code dec v @ u) = text_code k' @ (legacy_code dec v' @ z)" by simp
    from text_code_prefix [OF this] have k: "k = k'" and vs: "legacy_code dec v @ u = legacy_code dec v' @ z" by simp_all
    have "numbers_coded dec v" "numbers_coded dec v'" and kv: "(k, v) \<in> set kvs"
      using JObj.prems(1,2) ab p unfolding w numbers_coded_members by auto
    with JObj.IH [OF kv _ _ _ vs] k p show ?thesis by simp
  qed
  ultimately have "map (map_prod id key_sorted) (?s kvs) = map (map_prod id key_sorted) (?s kws) \<and> CHR ''}'' # x = CHR ''}'' # y"
    by (intro codes_prefix)
  then show ?case unfolding w key_sorted_obj by simp
next
  case JNull
  from JNull.prems(3) have "w = JNull" by (cases w) (auto simp: text_code_def split: if_splits)
  with JNull.prems(3) show ?case by simp
next
  case (JBool b)
  from JBool.prems(3) obtain c where "w = JBool c" by (cases w) (auto simp: text_code_def split: if_splits)
  with JBool.prems(3) show ?case by (auto split: if_splits)
qed

end
