(* ===== verification/DesktopLeases.thy ===== *)
theory DesktopLeases
  imports LegacyBytes JsDate
begin

text \<open>
  The store of desktop leases (\<open>desktop-lease-store.js\<close>, \<open>desktop-lease-state.js\<close>,
  \<open>desktop-lease-structure.js\<close>, \<open>desktop-lease-legacy.js\<close>, \<open>desktop-lease-action.js\<close>,
  \<open>desktop-lease-history.js\<close>): a state file that only the holder of a lock reads and rewrites as a
  whole, and the operations on it. What the shape checks of the parsed file guarantee is in the types
  here; the text of the file, its mode and the lock itself are not modelled. SHA-256, \<open>Date.parse\<close>,
  \<open>localeCompare\<close> and the doubles of fractions are arguments.
\<close>

section \<open>Names\<close>

definition canonical_char :: "char \<Rightarrow> bool" where
  "canonical_char c \<longleftrightarrow> is_lower c \<or> is_digit c \<or> c \<in> set ''_.-''"

text \<open>Each maximal run of other characters becomes one dash.\<close>

fun dash_others :: "string \<Rightarrow> string" where
  "dash_others [] = []"
| "dash_others [c] = (if canonical_char c then [c] else ''-'')"
| "dash_others (c # d # s) =
     (if canonical_char c then c # dash_others (d # s)
      else if canonical_char d then CHR ''-'' # dash_others (d # s) else dash_others (d # s))"

definition trim_dashes :: "string \<Rightarrow> string" where
  "trim_dashes s = rev (dropWhile (\<lambda>c. c = CHR ''-'') (rev (dropWhile (\<lambda>c. c = CHR ''-'') s)))"

definition normalize_desktop_slug :: "string \<Rightarrow> string" where
  "normalize_desktop_slug s = trim_dashes (dash_others (to_lower (str_trim s)))"

definition normalize_user_id :: "string \<Rightarrow> string" where
  "normalize_user_id s =
     (let x = take 96 (trim_dashes (dash_others (to_lower (str_trim s)))) in if x = [] then ''admin'' else x)"

section \<open>The state\<close>

record lease =
  ls_id :: string
  ls_slug :: string
  ls_owner :: string
  ls_thread :: string
  ls_codex :: "string option"
  ls_thread_name :: "string option"
  ls_mode :: string
  ls_purpose :: "string option"
  ls_run :: "string option"
  ls_acquired :: string
  ls_heartbeat :: string
  ls_expires :: "string option"
  ls_released :: "string option"
  ls_reason :: "string option"
  ls_updated :: string
  ls_metadata :: json
  ls_token :: string
  ls_version :: int

record cohort =
  co_format :: string
  co_source :: string
  co_floor :: int
  co_ids :: "string list"
  co_digest :: string

record lease_state =
  dl_counter :: int
  dl_leases :: "lease list"
  dl_lock :: "string option"
  dl_cohort :: "cohort option"

record adoption =
  ad_format :: string
  ad_source :: string
  ad_prepared :: string
  ad_cohort :: cohort

definition lease_active :: "lease \<Rightarrow> bool" where
  "lease_active l \<longleftrightarrow> ls_released l = None \<or> ls_released l = Some []"

definition no_leases :: lease_state where
  "no_leases = \<lparr>dl_counter = 0, dl_leases = [], dl_lock = None, dl_cohort = None\<rparr>"

text \<open>\<open>leaseStoreError\<close>: a code and a status.\<close>

datatype lease_error = LeaseError string int

definition store_error :: "string \<Rightarrow> lease_error" where
  "store_error code = LeaseError code 503"

definition lease_json :: "lease \<Rightarrow> json" where
  "lease_json l = JObj
     [(''id'', JStr (ls_id l)), (''desktopSlug'', JStr (ls_slug l)), (''ownerUserId'', JStr (ls_owner l)),
      (''threadId'', JStr (ls_thread l)), (''codexThreadId'', jstr_opt (ls_codex l)),
      (''threadName'', jstr_opt (ls_thread_name l)), (''mode'', JStr (ls_mode l)), (''purpose'', jstr_opt (ls_purpose l)),
      (''runId'', jstr_opt (ls_run l)), (''acquiredAt'', JStr (ls_acquired l)), (''heartbeatAt'', JStr (ls_heartbeat l)),
      (''expiresAt'', jstr_opt (ls_expires l)), (''releasedAt'', jstr_opt (ls_released l)),
      (''releaseReason'', jstr_opt (ls_reason l)), (''updatedAt'', JStr (ls_updated l)), (''metadata'', ls_metadata l),
      (''fencingToken'', JStr (ls_token l)), (''fencingVersion'', JNum (ls_version l))]"

definition cohort_json :: "cohort \<Rightarrow> json" where
  "cohort_json c = JObj
     [(''format'', JStr (co_format c)), (''sourceSha256'', JStr (co_source c)), (''generationFloor'', JNum (co_floor c)),
      (''retiredIds'', JArr (map JStr (co_ids c))), (''retiredSha256'', JStr (co_digest c))]"

definition state_json :: "lease_state \<Rightarrow> json" where
  "state_json st = JObj
     ([(''fencingCounter'', JNum (dl_counter st)), (''desktopLeases'', JArr (map lease_json (dl_leases st)))]
      @ (case dl_cohort st of None \<Rightarrow> [] | Some c \<Rightarrow> [(''legacyRetiredCohort'', cohort_json c)])
      @ (case dl_lock st of None \<Rightarrow> [] | Some i \<Rightarrow> [(''lockIdentity'', JStr i)]))"

record lease_env =
  le_sha :: "string \<Rightarrow> string"
  le_dec :: "string \<Rightarrow> string option"
  le_parse :: "string \<Rightarrow> int option"
  le_locale :: "string \<Rightarrow> string \<Rightarrow> int"

section \<open>Validation\<close>

definition trimmed_text :: "string \<Rightarrow> bool" where
  "trimmed_text s \<longleftrightarrow> s \<noteq> [] \<and> str_trim s = s"

definition canonical_text :: "string \<Rightarrow> bool" where
  "canonical_text s \<longleftrightarrow> trimmed_text s \<and> list_all canonical_char s"

definition lease_modes :: "string list" where
  "lease_modes = [''exclusive'', ''viewOnly'', ''sharedRead'']"

definition lease_well_formed :: "int \<Rightarrow> lease \<Rightarrow> bool" where
  "lease_well_formed counter l \<longleftrightarrow>
     trimmed_text (ls_id l) \<and> canonical_text (ls_slug l) \<and> canonical_text (ls_owner l) \<and> trimmed_text (ls_thread l)
     \<and> trimmed_text (ls_token l) \<and> ls_mode l \<in> set lease_modes \<and> \<bar>ls_version l\<bar> \<le> max_safe \<and> 1 \<le> ls_version l
     \<and> ls_version l \<le> counter \<and> trimmed_text (ls_acquired l) \<and> trimmed_text (ls_heartbeat l)
     \<and> pred_option trimmed_text (ls_expires l) \<and> pred_option trimmed_text (ls_released l)"

definition lease_key :: "lease \<Rightarrow> string \<times> string" where
  "lease_key l = (ls_owner l, ls_slug l)"

fun leases_valid :: "int \<Rightarrow> string list \<Rightarrow> (string \<times> string) list \<Rightarrow> lease list \<Rightarrow> bool" where
  "leases_valid counter ids keys [] = True"
| "leases_valid counter ids keys (l # ls) =
     (lease_well_formed counter l \<and> ls_id l \<notin> set ids \<and> \<not> (lease_active l \<and> lease_key l \<in> set keys)
      \<and> leases_valid counter (ls_id l # ids) (if lease_active l then lease_key l # keys else keys) ls)"

definition validate_lease_structure :: "lease_state \<Rightarrow> bool" where
  "validate_lease_structure st \<longleftrightarrow>
     \<bar>dl_counter st\<bar> \<le> max_safe \<and> 0 \<le> dl_counter st \<and> leases_valid (dl_counter st) [] [] (dl_leases st)"

definition legacy_cohort_format :: string where
  "legacy_cohort_format = ''orkestr-desktop-retired-cohort-v1''"

text \<open>The digest of retired records, in the order of the bytes of their ids; \<open>None\<close> is the error of the encoding.\<close>

definition cohort_document :: "cohort \<Rightarrow> lease list \<Rightarrow> json" where
  "cohort_document c records = JObj
     [(''format'', JStr legacy_cohort_format), (''sourceSha256'', JStr (co_source c)), (''generationFloor'', JNum (co_floor c)),
      (''records'', JArr (map lease_json (sort_key (legacy_utf8 \<circ> ls_id) records)))]"

definition cohort_digest :: "lease_env \<Rightarrow> cohort \<Rightarrow> lease list \<Rightarrow> string option" where
  "cohort_digest env c records = map_option (le_sha env) (canonical_legacy_bytes (le_dec env) (cohort_document c records))"

definition adoption_invalid :: lease_error where
  "adoption_invalid = store_error ''desktop_lease_legacy_adoption_invalid''"

definition encoding_invalid :: lease_error where
  "encoding_invalid = store_error ''desktop_lease_legacy_encoding_invalid''"

definition retired_records :: "cohort \<Rightarrow> lease_state \<Rightarrow> lease list" where
  "retired_records c st = filter (\<lambda>l. ls_id l \<in> set (co_ids c)) (dl_leases st)"

text \<open>The result is the list of the retired ids.\<close>

definition validate_legacy_cohort :: "lease_env \<Rightarrow> lease_state \<Rightarrow> adoption option \<Rightarrow> (lease_error, string list) result" where
  "validate_legacy_cohort env st adoption =
     (case adoption of
        None \<Rightarrow> if dl_cohort st \<noteq> None then Inl adoption_invalid else Inr []
      | Some a \<Rightarrow>
          (let expected = ad_cohort a; bytes = canonical_legacy_bytes (le_dec env); records = retired_records expected st
           in if bytes (state_json st) = None then Inl encoding_invalid
           else (case dl_cohort st of
               None \<Rightarrow> Inl adoption_invalid
             | Some marker \<Rightarrow>
                 if bytes (cohort_json marker) = None \<or> bytes (cohort_json expected) = None then Inl encoding_invalid
                 else if bytes (cohort_json marker) \<noteq> bytes (cohort_json expected) \<or> dl_counter st < co_floor expected
                   \<or> length records \<noteq> length (remdups (co_ids expected))
                   \<or> list_ex (\<lambda>l. lease_active l \<or> co_floor expected \<le> ls_version l) records
                 then Inl adoption_invalid
                 else (case cohort_digest env expected records of
                     None \<Rightarrow> Inl encoding_invalid
                   | Some h \<Rightarrow> if h \<noteq> co_digest expected then Inl adoption_invalid else Inr (co_ids expected)))))"

definition state_invalid :: lease_error where
  "state_invalid = store_error ''desktop_lease_state_invalid''"

text \<open>Fencing versions are unique, and above the floor of an adopted cohort, outside the cohort.\<close>

fun versions_valid :: "string list \<Rightarrow> adoption option \<Rightarrow> int list \<Rightarrow> lease list \<Rightarrow> bool" where
  "versions_valid retired adoption seen [] = True"
| "versions_valid retired adoption seen (l # ls) =
     (if ls_id l \<in> set retired then versions_valid retired adoption seen ls
      else ls_version l \<notin> set seen \<and> (case adoption of None \<Rightarrow> True | Some a \<Rightarrow> co_floor (ad_cohort a) < ls_version l)
        \<and> versions_valid retired adoption (ls_version l # seen) ls)"

definition validate_lease_state :: "lease_env \<Rightarrow> string \<Rightarrow> adoption option \<Rightarrow> lease_state \<Rightarrow> (lease_error, unit) result" where
  "validate_lease_state env identity adoption st =
     (if \<not> validate_lease_structure st then Inl state_invalid
      else if dl_lock st \<noteq> None \<and> dl_lock st \<noteq> Some identity then Inl (store_error ''desktop_lease_lock_identity_changed'')
      else and_then (validate_legacy_cohort env st adoption) (\<lambda>retired.
        if versions_valid retired adoption [] (dl_leases st) then Inr () else Inl state_invalid))"

section \<open>The file under the lock\<close>

text \<open>\<open>JSON.stringify(value, null, 2)\<close>.\<close>

definition spaces :: "nat \<Rightarrow> string" where
  "spaces n = CHR 0x0A # replicate n (CHR 0x20)"

primrec json_indented :: "json \<Rightarrow> nat \<Rightarrow> string" where
  "json_indented JNull n = ''null''"
| "json_indented (JBool b) n = (if b then ''true'' else ''false'')"
| "json_indented (JNum i) n = int_str i"
| "json_indented (JDec d) n = d"
| "json_indented (JStr s) n = json_quote s"
| "json_indented (JArr xs) n =
     (if xs = [] then ''[]''
      else CHR ''['' # str_join '','' (map (\<lambda>f. spaces (n + 2) @ f (n + 2)) (map json_indented xs)) @ spaces n @ '']'')"
| "json_indented (JObj kvs) n =
     (if kvs = [] then ''{}''
      else CHR ''{'' # str_join '','' (map (\<lambda>(k, f). spaces (n + 2) @ json_quote k @ '': '' @ f (n + 2)) (map (map_prod id json_indented) kvs))
        @ spaces n @ ''}'')"

definition state_bytes :: "lease_state \<Rightarrow> string" where
  "state_bytes st = legacy_utf8 (json_indented (state_json st) 0 @ [CHR 0x0A])"

record lease_file =
  lf_sha :: string
  lf_state :: lease_state

record lease_world =
  lw_file :: "lease_file option"
  lw_initialized :: bool
  lw_identity :: string
  lw_archive :: "lease_state list"

record lease_config =
  lc_adoption :: "adoption option"
  lc_retention :: "(nat \<times> nat) option"
  lc_stale_after :: int

definition read_lease_state :: "lease_env \<Rightarrow> lease_config \<Rightarrow> lease_world \<Rightarrow> (lease_error, lease_state option) result" where
  "read_lease_state env cfg w =
     (case lw_file w of
        None \<Rightarrow> if \<not> lw_initialized w \<and> lc_adoption cfg = None then Inr None else Inl (store_error ''desktop_lease_state_unavailable'')
      | Some f \<Rightarrow>
          (let st = lf_state f in
           if lw_initialized w \<and> dl_lock st = None then Inl (store_error ''desktop_lease_lock_identity_missing'')
           else and_then (validate_lease_state env (lw_identity w) (lc_adoption cfg) st) (\<lambda>_.
             case lc_adoption cfg of
               None \<Rightarrow> Inr (Some st)
             | Some a \<Rightarrow>
                 if \<not> lw_initialized w \<and> (lf_sha f \<noteq> ad_prepared a \<or> dl_counter st \<noteq> co_floor (ad_cohort a))
                 then Inl adoption_invalid else Inr (Some st))))"

definition write_lease_state :: "lease_env \<Rightarrow> lease_config \<Rightarrow> lease_state \<Rightarrow> lease_world \<Rightarrow> (lease_error, lease_world) result" where
  "write_lease_state env cfg st w =
     (let persisted = st\<lparr>dl_lock := Some (lw_identity w)\<rparr> in
      and_then (validate_lease_state env (lw_identity w) (lc_adoption cfg) persisted) (\<lambda>_.
        if max_legacy_bytes < length (state_bytes persisted) then Inl (store_error ''desktop_lease_state_too_large'')
        else Inr (w\<lparr>lw_file := Some \<lparr>lf_sha = le_sha env (state_bytes persisted), lf_state = persisted\<rparr>, lw_initialized := True\<rparr>)))"

section \<open>Adopting an old file\<close>

definition legacy_adoption_format :: string where
  "legacy_adoption_format = ''orkestr-desktop-legacy-adoption-v1''"

definition hex64 :: "string \<Rightarrow> bool" where
  "hex64 s \<longleftrightarrow> length s = 64 \<and> list_all (\<lambda>c. is_digit c \<or> char_between (CHR ''a'') (CHR ''f'') c) s"

definition adoption_json :: "adoption \<Rightarrow> json" where
  "adoption_json a = JObj
     [(''format'', JStr (ad_format a)), (''sourceSha256'', JStr (ad_source a)), (''preparedSha256'', JStr (ad_prepared a)),
      (''cohort'', cohort_json (ad_cohort a))]"

text \<open>Retired ids are trimmed, of at most 4096 bytes, and strictly ascending by their bytes.\<close>

fun retired_ids_valid :: "string option \<Rightarrow> string list \<Rightarrow> bool" where
  "retired_ids_valid previous [] = True"
| "retired_ids_valid previous (i # is) =
     (trimmed_text i \<and> length (legacy_utf8 i) \<le> 4096 \<and> (case previous of None \<Rightarrow> True | Some p \<Rightarrow> legacy_utf8 p < legacy_utf8 i)
      \<and> retired_ids_valid (Some i) is)"

definition normalize_legacy_adoption :: "lease_env \<Rightarrow> adoption \<Rightarrow> (lease_error, adoption) result" where
  "normalize_legacy_adoption env a =
     (let c = ad_cohort a in
      if canonical_legacy_bytes (le_dec env) (adoption_json a) = None then Inl encoding_invalid
      else if length (legacy_utf8 (json_stringify (adoption_json a))) \<le> 1024 * 1024 \<and> ad_format a = legacy_adoption_format
        \<and> hex64 (ad_source a) \<and> hex64 (ad_prepared a) \<and> co_format c = legacy_cohort_format \<and> co_source c = ad_source a
        \<and> hex64 (co_digest c) \<and> 1 \<le> co_floor c \<and> co_floor c < max_safe \<and> length (co_ids c) \<le> 10000
        \<and> retired_ids_valid None (co_ids c)
      then Inr a else Inl adoption_invalid)"

definition revoke_lease :: "string \<Rightarrow> lease \<Rightarrow> lease" where
  "revoke_lease at l = (if lease_active l
     then l\<lparr>ls_released := Some at, ls_reason := Some ''legacy_history_retired'', ls_updated := at\<rparr> else l)"

definition prepare_legacy_cohort ::
  "lease_env \<Rightarrow> string \<Rightarrow> string \<Rightarrow> lease_state \<Rightarrow> (lease_error, lease_state \<times> adoption) result" where
  "prepare_legacy_cohort env source_sha revoked source =
     (let bytes = canonical_legacy_bytes (le_dec env);
          leases = map (revoke_lease revoked) (dl_leases source);
          floor = dl_counter source + 1;
          plain = \<lparr>co_format = legacy_cohort_format, co_source = source_sha, co_floor = floor,
            co_ids = sort_key legacy_utf8 (map ls_id leases), co_digest = []\<rparr>
      in if bytes (state_json source) = None then Inl encoding_invalid
      else if \<not> validate_lease_structure source then Inl state_invalid
      else if \<not> hex64 source_sha \<or> (case le_parse env revoked of None \<Rightarrow> True | Some t \<Rightarrow> iso_string t \<noteq> revoked)
        \<or> dl_lock source \<noteq> None \<or> dl_cohort source \<noteq> None \<or> 10000 < length (dl_leases source) \<or> max_safe - 1 \<le> dl_counter source
      then Inl adoption_invalid
      else (case cohort_digest env plain leases of
          None \<Rightarrow> Inl encoding_invalid
        | Some h \<Rightarrow>
            (let c = plain\<lparr>co_digest := h\<rparr>;
                 st = source\<lparr>dl_counter := floor, dl_leases := leases, dl_cohort := Some c\<rparr>
             in if bytes (state_json st) = None then Inl encoding_invalid
             else if max_legacy_bytes < length (state_bytes st) then Inl adoption_invalid
             else and_then (normalize_legacy_adoption env \<lparr>ad_format = legacy_adoption_format, ad_source = source_sha,
                 ad_prepared = le_sha env (state_bytes st), ad_cohort = c\<rparr>) (\<lambda>a.
               and_then (validate_legacy_cohort env st (Some a)) (\<lambda>_. Inr (st, a))))))"

section \<open>Retention of history\<close>

definition parsed :: "lease_env \<Rightarrow> string option \<Rightarrow> int option" where
  "parsed env x = (case x of None \<Rightarrow> None | Some s \<Rightarrow> le_parse env s)"

text \<open>Newest release first; a difference that is not a number, or zero, leaves it to the ids.\<close>

definition release_order :: "lease_env \<Rightarrow> lease \<Rightarrow> lease \<Rightarrow> int" where
  "release_order env a b =
     (case (parsed env (ls_released b), parsed env (ls_released a)) of
        (Some y, Some x) \<Rightarrow> if y - x \<noteq> 0 then y - x else le_locale env (ls_id a) (ls_id b)
      | _ \<Rightarrow> le_locale env (ls_id a) (ls_id b))"

fun insert_by :: "('a \<Rightarrow> 'a \<Rightarrow> int) \<Rightarrow> 'a \<Rightarrow> 'a list \<Rightarrow> 'a list" where
  "insert_by cmp x [] = [x]"
| "insert_by cmp x (y # ys) = (if cmp x y \<le> 0 then x # y # ys else y # insert_by cmp x ys)"

text \<open>A stable sort by a comparator, as \<open>Array.prototype.sort\<close> is for consistent ones.\<close>

definition sort_by :: "('a \<Rightarrow> 'a \<Rightarrow> int) \<Rightarrow> 'a list \<Rightarrow> 'a list" where
  "sort_by cmp xs = foldr (insert_by cmp) xs []"

text \<open>\<open>archived\<close> tells whether writing the archive succeeds; the result has what it wrote.\<close>

definition retain_lease_history ::
  "lease_env \<Rightarrow> (nat \<times> nat) option \<Rightarrow> bool \<Rightarrow> lease_state \<Rightarrow> (lease_error, lease_state \<times> lease_state list) result" where
  "retain_lease_history env policy archived st =
     (case policy of
        None \<Rightarrow> Inr (st, [])
      | Some (keep, threshold) \<Rightarrow>
          (let retired = (case dl_cohort st of None \<Rightarrow> [] | Some c \<Rightarrow> co_ids c);
               candidates = filter (\<lambda>l. \<not> lease_active l \<and> ls_id l \<notin> set retired) (dl_leases st);
               retained = map ls_id (take keep (sort_by (release_order env) candidates))
           in if length (dl_leases st) < threshold \<or> length candidates \<le> keep then Inr (st, [])
           else if \<not> archived then Inl (store_error ''desktop_lease_history_archive_refused'')
           else Inr (st\<lparr>dl_leases := filter (\<lambda>l. lease_active l \<or> ls_id l \<in> set retired \<or> ls_id l \<in> set retained) (dl_leases st)\<rparr>, [st])))"

definition mutate_state ::
  "lease_env \<Rightarrow> lease_config \<Rightarrow> bool \<Rightarrow> (lease_state \<Rightarrow> (lease_error, 'r \<times> lease_state) result) \<Rightarrow> lease_world \<Rightarrow>
     (lease_error, 'r) result \<times> lease_world" where
  "mutate_state env cfg archived mutator w =
     (case read_lease_state env cfg w of
        Inl e \<Rightarrow> (Inl e, w)
      | Inr found \<Rightarrow>
          (case retain_lease_history env (lc_retention cfg) archived (case found of None \<Rightarrow> no_leases | Some st \<Rightarrow> st) of
             Inl e \<Rightarrow> (Inl e, w)
           | Inr (st1, kept) \<Rightarrow>
               (let w1 = w\<lparr>lw_archive := lw_archive w @ kept\<rparr> in
                case mutator st1 of
                  Inl e \<Rightarrow> (Inl e, w1)
                | Inr (r, st2) \<Rightarrow>
                    if dl_counter st2 < dl_counter st1 then (Inl (store_error ''desktop_lease_generation_regressed''), w1)
                    else (case write_lease_state env cfg st2 w1 of Inl e \<Rightarrow> (Inl e, w1) | Inr w2 \<Rightarrow> (Inr r, w2)))))"

text \<open>\<open>init\<close>: the lock identity is added to a file without one; a file that has it is only marked.\<close>

definition init_store :: "lease_env \<Rightarrow> lease_config \<Rightarrow> lease_world \<Rightarrow> (lease_error, unit) result \<times> lease_world" where
  "init_store env cfg w =
     (case read_lease_state env cfg w of
        Inl e \<Rightarrow> (Inl e, w)
      | Inr found \<Rightarrow>
          (let st = (case found of None \<Rightarrow> no_leases | Some st \<Rightarrow> st) in
           if found = None \<or> dl_lock st = None
           then (case write_lease_state env cfg st w of Inl e \<Rightarrow> (Inl e, w) | Inr w' \<Rightarrow> (Inr (), w'))
           else (Inr (), w\<lparr>lw_initialized := True\<rparr>)))"

section \<open>Acquiring, renewing and releasing\<close>

text \<open>What \<open>acquireDesktopLease\<close> passes; an empty text stands for a missing value.\<close>

record lease_input =
  li_slug :: string
  li_owner :: string
  li_thread :: string
  li_codex :: string
  li_thread_name :: string
  li_mode :: string
  li_purpose :: string
  li_run :: string
  li_acquired :: string
  li_heartbeat :: string
  li_expires :: "string option"
  li_metadata :: json

definition trimmed_or_null :: "string \<Rightarrow> string option" where
  "trimmed_or_null s = (if str_trim s = [] then None else Some (str_trim s))"

definition or_default :: "string \<Rightarrow> string \<Rightarrow> string" where
  "or_default x s = (if s = [] then x else s)"

text \<open>\<open>token\<close> and \<open>uuid\<close> are values of \<open>randomUUID\<close>.\<close>

definition normalize_lease :: "int \<Rightarrow> string \<Rightarrow> string \<Rightarrow> lease_input \<Rightarrow> lease option" where
  "normalize_lease now token uuid raw =
     (let slug = normalize_desktop_slug (li_slug raw); thread = str_trim (li_thread raw);
          owner = normalize_user_id (or_default ''admin'' (li_owner raw)); acquired = or_default (iso_string now) (li_acquired raw)
      in if slug = [] \<or> thread = [] then None
      else Some \<lparr>ls_id = str_trim (slug @ '':'' @ owner @ '':'' @ thread @ '':'' @ or_default uuid (li_acquired raw)),
        ls_slug = slug, ls_owner = owner, ls_thread = thread, ls_codex = trimmed_or_null (li_codex raw),
        ls_thread_name = trimmed_or_null (li_thread_name raw),
        ls_mode = (if li_mode raw \<in> set lease_modes then li_mode raw else ''exclusive''),
        ls_purpose = trimmed_or_null (li_purpose raw), ls_run = trimmed_or_null (li_run raw), ls_acquired = acquired,
        ls_heartbeat = or_default acquired (li_heartbeat raw),
        ls_expires = (if li_expires raw = Some [] then None else li_expires raw), ls_released = None, ls_reason = None,
        ls_updated = or_default acquired (li_heartbeat raw),
        ls_metadata = (if is_object (li_metadata raw) then li_metadata raw else JObj []), ls_token = token, ls_version = 1\<rparr>)"

record recovery_candidate =
  rv_id :: string
  rv_thread :: string
  rv_heartbeat :: string
  rv_expires :: "string option"

record acquire_options =
  aw_force :: bool
  aw_reason :: string
  aw_candidate :: "recovery_candidate option"
  aw_reuse :: bool

definition given_text :: "string option \<Rightarrow> string" where
  "given_text x = (case x of None \<Rightarrow> [] | Some s \<Rightarrow> s)"

definition recovery_matches :: "lease \<Rightarrow> recovery_candidate option \<Rightarrow> bool" where
  "recovery_matches active candidate \<longleftrightarrow>
     (case candidate of None \<Rightarrow> False
      | Some c \<Rightarrow> ls_id active = str_trim (rv_id c) \<and> ls_thread active = str_trim (rv_thread c)
          \<and> ls_heartbeat active = rv_heartbeat c \<and> given_text (ls_expires active) = given_text (rv_expires c))"

definition is_active_for :: "string \<Rightarrow> string \<Rightarrow> lease \<Rightarrow> bool" where
  "is_active_for slug owner l \<longleftrightarrow> ls_slug l = slug \<and> ls_owner l = owner \<and> lease_active l"

definition active_for :: "string \<Rightarrow> string \<Rightarrow> lease_state \<Rightarrow> lease option" where
  "active_for slug owner st = find (is_active_for slug owner) (dl_leases st)"

text \<open>\<open>Object.assign\<close> on the first lease that \<open>find\<close> returns.\<close>

fun assign_first :: "('a \<Rightarrow> bool) \<Rightarrow> ('a \<Rightarrow> 'a) \<Rightarrow> 'a list \<Rightarrow> 'a list" where
  "assign_first p f [] = []"
| "assign_first p f (x # xs) = (if p x then f x # xs else x # assign_first p f xs)"

definition assign_active :: "string \<Rightarrow> string \<Rightarrow> (lease \<Rightarrow> lease) \<Rightarrow> lease_state \<Rightarrow> lease_state" where
  "assign_active slug owner f st = st\<lparr>dl_leases := assign_first (is_active_for slug owner) f (dl_leases st)\<rparr>"

definition renewed_lease :: "int \<Rightarrow> lease \<Rightarrow> lease \<Rightarrow> lease" where
  "renewed_lease now n active = n\<lparr>ls_id := ls_id active, ls_acquired := or_default (ls_acquired n) (ls_acquired active),
     ls_heartbeat := iso_string now, ls_updated := iso_string now, ls_released := None, ls_reason := None,
     ls_token := ls_token active, ls_version := ls_version active\<rparr>"

definition released_lease :: "int \<Rightarrow> string \<Rightarrow> lease \<Rightarrow> lease" where
  "released_lease now reason l = l\<lparr>ls_released := Some (iso_string now), ls_reason := Some reason, ls_updated := iso_string now\<rparr>"

definition granted_lease :: "int \<Rightarrow> string \<Rightarrow> string \<Rightarrow> lease_state \<Rightarrow> lease \<Rightarrow> lease" where
  "granted_lease now token uuid st n =
     (let retired = (case dl_cohort st of None \<Rightarrow> False | Some c \<Rightarrow> ls_id n \<in> set (co_ids c)) in
      n\<lparr>ls_id := (if retired then uuid else ls_id n),
        ls_acquired := (if retired then iso_string now else or_default (iso_string now) (ls_acquired n)),
        ls_heartbeat := (if retired then iso_string now else or_default (iso_string now) (ls_heartbeat n)),
        ls_updated := iso_string now, ls_token := token, ls_version := dl_counter st + 1\<rparr>)"

datatype acquired =
    Conflict lease
  | Borrowed lease
  | Renewed lease
  | Granted lease bool "lease option"

definition acquire_mutator ::
  "int \<Rightarrow> string \<Rightarrow> string \<Rightarrow> lease \<Rightarrow> acquire_options \<Rightarrow> lease_state \<Rightarrow> (lease_error, acquired \<times> lease_state) result" where
  "acquire_mutator now token uuid n opts st =
     (let active = active_for (ls_slug n) (ls_owner n) st;
          matches = (case active of None \<Rightarrow> False | Some a \<Rightarrow> recovery_matches a (aw_candidate opts));
          freed = assign_active (ls_slug n) (ls_owner n) (released_lease now (aw_reason opts)) st;
          granted = granted_lease now token uuid st n;
          grant = (\<lambda>st'. if dl_counter st = max_safe then Inl (LeaseError ''desktop_lease_generation_exhausted'' 409)
            else Inr (Granted granted matches (map_option (released_lease now (aw_reason opts)) active),
              st'\<lparr>dl_counter := dl_counter st + 1, dl_leases := granted # dl_leases st'\<rparr>))
      in (case active of
            None \<Rightarrow> grant st
          | Some a \<Rightarrow>
              if ls_thread a \<noteq> ls_thread n \<and> \<not> aw_force opts \<and> \<not> matches then Inr (Conflict a, st)
              else if ls_thread a = ls_thread n
              then (if aw_reuse opts then Inr (Borrowed a, st)
                else Inr (Renewed (renewed_lease now n a), assign_active (ls_slug n) (ls_owner n) (renewed_lease now n) st))
              else grant freed))"

definition acquire_desktop ::
  "lease_env \<Rightarrow> lease_config \<Rightarrow> bool \<Rightarrow> int \<Rightarrow> string \<Rightarrow> string \<Rightarrow> lease_input \<Rightarrow> acquire_options \<Rightarrow> lease_world \<Rightarrow>
     (lease_error, acquired) result \<times> lease_world" where
  "acquire_desktop env cfg archived now token uuid raw opts w =
     (case normalize_lease now token uuid raw of
        None \<Rightarrow> (Inl (LeaseError ''invalid_desktop_lease'' 400), w)
      | Some n \<Rightarrow> mutate_state env cfg archived (acquire_mutator now token uuid n opts) w)"

text \<open>An empty owner matches every owner.\<close>

definition owner_given :: "string \<Rightarrow> string" where
  "owner_given owner = (if owner = [] then [] else normalize_user_id owner)"

definition named_active :: "string \<Rightarrow> string \<Rightarrow> lease \<Rightarrow> bool" where
  "named_active slug owner l \<longleftrightarrow> ls_slug l = slug \<and> (owner = [] \<or> ls_owner l = owner) \<and> lease_active l"

datatype lease_answer = LeaseDone lease | LeaseRefused string "lease option"

definition heartbeat_mutator ::
  "int \<Rightarrow> string \<Rightarrow> string \<Rightarrow> string \<Rightarrow> string \<Rightarrow> lease_state \<Rightarrow> (lease_error, lease_answer \<times> lease_state) result" where
  "heartbeat_mutator now slug thread owner token st =
     (case find (named_active slug owner) (dl_leases st) of
        None \<Rightarrow> Inr (LeaseRefused ''lease_not_found'' None, st)
      | Some a \<Rightarrow>
          if thread \<noteq> [] \<and> ls_thread a \<noteq> thread then Inr (LeaseRefused ''lease_owned_by_other_thread'' (Some a), st)
          else if token \<noteq> [] \<and> ls_token a \<noteq> str_trim token then Inr (LeaseRefused ''lease_fencing_token_invalid'' (Some a), st)
          else (let beat = (\<lambda>l. l\<lparr>ls_heartbeat := iso_string now, ls_updated := iso_string now\<rparr>) in
            Inr (LeaseDone (beat a), st\<lparr>dl_leases := assign_first (named_active slug owner) beat (dl_leases st)\<rparr>)))"

definition heartbeat_desktop ::
  "lease_env \<Rightarrow> lease_config \<Rightarrow> bool \<Rightarrow> int \<Rightarrow> string \<Rightarrow> string \<Rightarrow> string \<Rightarrow> string \<Rightarrow> lease_world \<Rightarrow>
     (lease_error, lease_answer) result \<times> lease_world" where
  "heartbeat_desktop env cfg archived now slug thread owner token =
     mutate_state env cfg archived (heartbeat_mutator now (normalize_desktop_slug slug) (str_trim thread) (owner_given owner) token)"

definition release_mutator ::
  "int \<Rightarrow> string \<Rightarrow> string \<Rightarrow> string \<Rightarrow> string \<Rightarrow> bool \<Rightarrow> string \<Rightarrow> lease_state \<Rightarrow> (lease_error, lease_answer \<times> lease_state) result" where
  "release_mutator now slug thread owner token force reason st =
     (case find (named_active slug owner) (dl_leases st) of
        None \<Rightarrow> Inr (LeaseRefused ''lease_not_found'' None, st)
      | Some a \<Rightarrow>
          if thread \<noteq> [] \<and> ls_thread a \<noteq> thread \<and> \<not> force then Inr (LeaseRefused ''lease_owned_by_other_thread'' (Some a), st)
          else if token \<noteq> [] \<and> ls_token a \<noteq> str_trim token \<and> \<not> force
          then Inr (LeaseRefused ''lease_fencing_token_invalid'' (Some a), st)
          else Inr (LeaseDone (released_lease now reason a),
            st\<lparr>dl_leases := assign_first (named_active slug owner) (released_lease now reason) (dl_leases st)\<rparr>))"

definition release_desktop ::
  "lease_env \<Rightarrow> lease_config \<Rightarrow> bool \<Rightarrow> int \<Rightarrow> string \<Rightarrow> string \<Rightarrow> string \<Rightarrow> string \<Rightarrow> bool \<Rightarrow> string \<Rightarrow> lease_world \<Rightarrow>
     (lease_error, lease_answer) result \<times> lease_world" where
  "release_desktop env cfg archived now slug thread owner token force reason =
     mutate_state env cfg archived
       (release_mutator now (normalize_desktop_slug slug) (str_trim thread) (owner_given owner) token force reason)"

section \<open>Acting under a lease\<close>

record action_binding =
  ab_slug :: string
  ab_owner :: string
  ab_thread :: string
  ab_lease :: string
  ab_version :: int
  ab_token :: string

definition validate_action_binding :: "action_binding \<Rightarrow> bool" where
  "validate_action_binding b \<longleftrightarrow>
     list_all trimmed_text [ab_slug b, ab_owner b, ab_thread b, ab_lease b, ab_token b]
     \<and> list_all canonical_char (ab_slug b) \<and> list_all canonical_char (ab_owner b)
     \<and> \<bar>ab_version b\<bar> \<le> max_safe \<and> 1 \<le> ab_version b"

definition lease_fresh :: "lease_env \<Rightarrow> int \<Rightarrow> int \<Rightarrow> lease \<Rightarrow> lease_error option" where
  "lease_fresh env stale_after now l =
     (case parsed env (ls_expires l) of
        None \<Rightarrow> Some (LeaseError ''desktop_lease_expiry_invalid'' 403)
      | Some expires \<Rightarrow>
          if expires \<le> now then Some (LeaseError ''desktop_lease_expired'' 403)
          else (case le_parse env (ls_heartbeat l) of
              None \<Rightarrow> Some (LeaseError ''desktop_lease_heartbeat_invalid'' 403)
            | Some beat \<Rightarrow>
                if now + 60000 < beat then Some (LeaseError ''desktop_lease_heartbeat_invalid'' 403)
                else if stale_after < now - beat then Some (LeaseError ''desktop_lease_heartbeat_stale'' 403) else None))"

definition current_action_lease ::
  "lease_env \<Rightarrow> lease_state \<Rightarrow> action_binding \<Rightarrow> int \<Rightarrow> int \<Rightarrow> (lease_error, lease) result" where
  "current_action_lease env st b stale_after now =
     (if (case dl_cohort st of None \<Rightarrow> False | Some c \<Rightarrow> ab_lease b \<in> set (co_ids c))
      then Inl (LeaseError ''desktop_lease_action_revoked'' 409)
      else (case active_for (ab_slug b) (ab_owner b) st of
          None \<Rightarrow> Inl (LeaseError ''desktop_lease_action_revoked'' 409)
        | Some l \<Rightarrow>
            if ls_id l \<noteq> ab_lease b \<or> ls_thread l \<noteq> ab_thread b \<or> ls_version l \<noteq> ab_version b \<or> ls_token l \<noteq> ab_token b
            then Inl (LeaseError ''desktop_lease_action_revoked'' 409)
            else if ls_mode l \<noteq> ''exclusive'' then Inl (LeaseError ''desktop_lease_must_be_exclusive'' 409)
            else (case lease_fresh env stale_after now l of Some e \<Rightarrow> Inl e | None \<Rightarrow> Inr l)))"

text \<open>The lease that the callback of \<open>withCurrentLeaseAction\<close> runs under.\<close>

definition with_current_lease_action ::
  "lease_env \<Rightarrow> lease_config \<Rightarrow> action_binding \<Rightarrow> int \<Rightarrow> lease_world \<Rightarrow> (lease_error, lease) result" where
  "with_current_lease_action env cfg b now w =
     (if \<not> validate_action_binding b then Inl (LeaseError ''desktop_lease_action_binding_required'' 403)
      else (case read_lease_state env cfg w of
          Inl e \<Rightarrow> Inl e
        | Inr None \<Rightarrow> Inl (store_error ''desktop_lease_store_uninitialized'')
        | Inr (Some st) \<Rightarrow>
            if dl_lock st \<noteq> Some (lw_identity w) \<or> \<not> lw_initialized w
            then Inl (store_error ''desktop_lease_store_uninitialized'')
            else current_action_lease env st b (lc_stale_after cfg) now))"

end
