(* ===== verification/ResourcePolicy.thy ===== *)
theory ResourcePolicy
  imports DesktopLeases
begin

text \<open>
  The policy of thread resources (\<open>thread-resource-policy-model.js\<close>, \<open>thread-resource-policy-access.js\<close>):
  resources, grants of threads on them, the ceilings that child threads inherit under, and the access
  decision. A record stands for a row or a request whose aliases for a field (\<open>resourceKey\<close>, \<open>key\<close>,
  \<open>slug\<close>, ...) are already collapsed to the first that is given; an empty text is a missing value.
  \<open>Date.parse\<close>, \<open>JSON.parse\<close>, the clock, random ids and the list of threads are arguments.
\<close>

section \<open>Names, types and permissions\<close>

definition segment_char :: "char \<Rightarrow> bool" where
  "segment_char c \<longleftrightarrow> is_lower c \<or> is_digit c \<or> c \<in> set ''_.:-''"

fun dash_runs :: "(char \<Rightarrow> bool) \<Rightarrow> string \<Rightarrow> string" where
  "dash_runs p [] = []"
| "dash_runs p [c] = (if p c then [c] else ''-'')"
| "dash_runs p (c # d # s) =
     (if p c then c # dash_runs p (d # s) else if p d then CHR ''-'' # dash_runs p (d # s) else dash_runs p (d # s))"

definition safe_segment :: "string \<Rightarrow> string \<Rightarrow> string" where
  "safe_segment s fallback = or_default fallback (take 160 (trim_dashes (dash_runs segment_char (to_lower (str_trim s)))))"

definition resource_types :: "string list" where
  "resource_types = [''desktop'', ''oxrm'', ''mailbox'']"

definition normalize_resource_type :: "string \<Rightarrow> string" where
  "normalize_resource_type s = (let t = to_lower (str_trim s) in if t \<in> set resource_types then t else [])"

definition resource_permissions :: "string \<Rightarrow> string list" where
  "resource_permissions t =
     (if t = ''desktop'' then [''discover'', ''acquire'', ''operate'', ''share'']
      else if t = ''oxrm'' then [''discover'', ''read'', ''write'', ''execute'']
      else if t = ''mailbox'' then [''discover'', ''read'', ''subscribe'', ''process'', ''manage''] else [])"

text \<open>\<open>[...new Set(xs)]\<close>: the first of equal elements stays.\<close>

definition distinct_first :: "'a list \<Rightarrow> 'a list" where
  "distinct_first xs = rev (remdups (rev xs))"

definition clean_lower :: "string \<Rightarrow> string" where
  "clean_lower s = to_lower (str_trim s)"

definition normalize_permissions_of :: "string \<Rightarrow> string list \<Rightarrow> string list" where
  "normalize_permissions_of t vs =
     distinct_first (filter (\<lambda>v. v \<in> set (resource_permissions (normalize_resource_type t))) (map clean_lower vs))"

definition permission_for :: "string \<Rightarrow> string \<Rightarrow> string" where
  "permission_for t action =
     (let r = clean_lower action in
      if r \<in> set (resource_permissions t) then r
      else if r \<in> set [''list'', ''status'', ''discover'', ''whereiam'', ''inventory''] then ''discover''
      else if t = ''desktop'' \<and> r \<in> set [''lease'', ''heartbeat'', ''release''] then ''acquire''
      else if t = ''desktop'' \<and> r \<in> set [''proxy'', ''open_share'', ''approve_share''] then ''share''
      else if t = ''oxrm'' \<and> r \<in> set [''operate'', ''call'', ''skill''] then ''execute''
      else if t = ''mailbox'' \<and> r \<in> set [''listener'', ''listen'', ''create_listener'', ''subscribe''] then ''subscribe''
      else if t = ''mailbox'' \<and> r \<in> set [''revoke_listener'', ''listeners'', ''manage''] then ''manage'' else [])"

section \<open>The environment and the access mode\<close>

record policy_env =
  pe_parse :: "string \<Rightarrow> int option"
  pe_json :: "string \<Rightarrow> json option"
  pe_boundary :: string
  pe_admin :: string
  pe_mode :: "string \<Rightarrow> string"
  pe_write_mode :: "string \<Rightarrow> string"
  pe_desktop_enforced :: string
  pe_bindings :: string
  pe_auth_window :: "int option"
  pe_glass_ttl :: "int option"

definition boundary_of :: "string \<Rightarrow> string" where
  "boundary_of raw = safe_segment (or_default ''local'' raw) ''local''"

definition resource_boundary_id :: "policy_env \<Rightarrow> string" where
  "resource_boundary_id env = boundary_of (pe_boundary env)"

definition owner_of :: "policy_env \<Rightarrow> string \<Rightarrow> string" where
  "owner_of env owner = normalize_user_id (or_default (or_default ''admin'' (pe_admin env)) owner)"

definition thread_resource_id :: "policy_env \<Rightarrow> string \<Rightarrow> string \<Rightarrow> string \<Rightarrow> string \<Rightarrow> string" where
  "thread_resource_id env boundary t key owner =
     (let ty = normalize_resource_type t; k = safe_segment key [] in
      if ty = [] \<or> k = [] then []
      else if ty = ''desktop'' then boundary_of boundary @ '':'' @ owner_of env owner @ '':'' @ k
      else boundary_of boundary @ '':'' @ owner_of env owner @ '':'' @ ty @ '':'' @ k)"

definition access_mode :: "policy_env \<Rightarrow> string \<Rightarrow> string" where
  "access_mode env t =
     (let ty = normalize_resource_type t; configured = clean_lower (pe_mode env ty) in
      if ty = [] then ''enforce''
      else if configured \<in> set [''off'', ''shadow'', ''enforce''] then configured
      else if ty = ''desktop'' \<and> clean_lower (pe_desktop_enforced env) \<in> set [''1'', ''true'', ''yes'', ''on''] then ''enforce''
      else if ty = ''desktop'' \<or> ty = ''oxrm'' then ''shadow'' else ''off'')"

text \<open>\<open>clean(value)\<close> of a member, \<open>a || b\<close> on members.\<close>

definition clean_json :: "json option \<Rightarrow> string" where
  "clean_json x = (case x of None \<Rightarrow> [] | Some v \<Rightarrow> if truthy v then str_trim (js_string v) else [])"

definition either_member :: "json \<Rightarrow> string \<Rightarrow> string \<Rightarrow> json option" where
  "either_member v a b = (case jget v a of Some x \<Rightarrow> if truthy x then Some x else jget v b | None \<Rightarrow> jget v b)"

definition binding_of_item :: "json \<Rightarrow> string \<times> string" where
  "binding_of_item v = (clean_json (jget v ''threadId''), clean_json (either_member v ''resourceId'' ''desktopId''))"

text \<open>\<open>None\<close> is the \<open>null\<close> of a configuration that is not valid.\<close>

definition desktop_enforced_bindings :: "policy_env \<Rightarrow> (string \<times> string) list option" where
  "desktop_enforced_bindings env =
     (let raw = str_trim (pe_bindings env) in
      if raw = [] then Some []
      else (case pe_json env raw of
          Some (JArr items) \<Rightarrow>
            (let bs = filter (\<lambda>(t, r). t \<noteq> [] \<and> r \<noteq> []) (map binding_of_item items) in
             if length bs = length items then Some bs else None)
        | _ \<Rightarrow> None))"

definition access_mode_for :: "policy_env \<Rightarrow> string \<Rightarrow> string \<Rightarrow> string \<Rightarrow> string" where
  "access_mode_for env t thread resource =
     (let ty = normalize_resource_type t; configured = access_mode env ty in
      if ty \<noteq> ''desktop'' \<or> configured \<noteq> ''shadow'' then configured
      else (case desktop_enforced_bindings env of
          None \<Rightarrow> ''enforce''
        | Some bs \<Rightarrow>
            if list_ex (\<lambda>(bt, br). (str_trim thread \<noteq> [] \<and> bt = str_trim thread) \<or> (str_trim resource \<noteq> [] \<and> br = str_trim resource)) bs
            then ''enforce'' else configured))"

section \<open>The state\<close>

record resource =
  rs_id :: string
  rs_native :: string
  rs_type :: string
  rs_key :: string
  rs_owner :: string
  rs_boundary :: string
  rs_generation :: int
  rs_status :: string
  rs_backend :: string
  rs_created :: string
  rs_updated :: string
  rs_retired :: "string option"

record grant =
  gr_id :: string
  gr_thread :: string
  gr_type :: string
  gr_resource :: string
  gr_key :: string
  gr_owner :: string
  gr_boundary :: string
  gr_permissions :: "string list"
  gr_revision :: int
  gr_source :: string
  gr_created :: string
  gr_updated :: string
  gr_expires :: "string option"
  gr_revoked :: "string option"
  gr_revoked_by :: "string option"
  gr_reason :: "string option"

record thread_policy =
  pl_thread :: string
  pl_type :: string
  pl_revision :: int
  pl_empty :: bool
  pl_mode :: string
  pl_snapshot :: int
  pl_created :: string
  pl_updated :: string

record ceiling =
  cl_thread :: string
  cl_type :: string
  cl_resource :: string
  cl_permissions :: "string list"
  cl_parent :: string
  cl_created :: string

text \<open>A bearer of one resource action, and the connector operation it is bound to.\<close>

record connector_target =
  ct_service :: string
  ct_account :: string
  ct_conversation :: string
  ct_binding :: string
  ct_thread :: string
  ct_operation :: string
  ct_tool :: string
  ct_action :: string

record bearer =
  br_jti :: string
  br_token :: string
  br_hash :: string
  br_audience :: string
  br_issued :: string
  br_expires :: string

record bearer_holder =
  bh_scopes :: "string list"
  bh_kind :: string
  bh_principal :: string
  bh_owner :: string
  bh_instance :: string
  bh_account :: string
  bh_service :: string

record resource_session =
  ss_id :: string
  ss_bearer :: bearer
  ss_holder :: bearer_holder
  ss_type :: string
  ss_resource :: string
  ss_actions :: "string list"
  ss_target :: connector_target
  ss_thread :: string
  ss_grant_thread :: string
  ss_root :: string
  ss_boundary :: string
  ss_policy :: int
  ss_grant :: int
  ss_generation :: int
  ss_state :: string
  ss_epoch :: int
  ss_used :: "string option"
  ss_created :: string
  ss_updated :: string
  ss_invalidated :: "string option"
  ss_reason :: "string option"

text \<open>The members of mailbox deliveries that the changes of the policy read or write.\<close>

record mailbox_delivery =
  md_thread :: "string option"
  md_state :: string
  md_epoch :: int
  md_claim :: "string option"
  md_claim_expires :: "string option"
  md_reason :: "string option"
  md_updated :: string

datatype mutation_result = RegisteredResource resource | ReplacedGrants "grant list" thread_policy

record mutation =
  mu_action :: string
  mu_key :: string
  mu_result :: mutation_result
  mu_revision :: int
  mu_created :: string

record audit_row =
  ar_id :: string
  ar_action :: string
  ar_type :: string
  ar_resource :: string
  ar_thread :: string
  ar_permission :: string
  ar_boundary :: string
  ar_owner :: string
  ar_change :: string
  ar_outcome :: string
  ar_actor :: string
  ar_reason :: string
  ar_expires :: "string option"
  ar_revision :: int
  ar_state :: string
  ar_claim :: "string option"
  ar_claim_expires :: "string option"
  ar_delivered :: "string option"
  ar_created :: string

record policy_state =
  ps_revision :: int
  ps_resources :: "resource list"
  ps_grants :: "grant list"
  ps_policies :: "thread_policy list"
  ps_ceilings :: "ceiling list"
  ps_mutations :: "mutation list"
  ps_deliveries :: "mailbox_delivery list"
  ps_sessions :: "resource_session list"
  ps_audit :: "audit_row list"
  ps_updated :: "string option"

section \<open>Normal rows\<close>

record resource_input =
  ri_type :: string
  ri_owner :: string
  ri_boundary :: string
  ri_canonical :: string
  ri_id :: string
  ri_native :: string
  ri_key :: string
  ri_other :: string
  ri_generation :: int
  ri_status :: string
  ri_retired :: string
  ri_backend :: string
  ri_created :: string
  ri_updated :: string

definition resource_status :: "string \<Rightarrow> string \<Rightarrow> string" where
  "resource_status status retired =
     (let s = clean_lower (or_default (if retired \<noteq> [] then ''retired'' else ''active'') status) in
      if s \<in> set [''active'', ''suspended'', ''retired''] then s else ''suspended'')"

definition none_if_blank :: "string \<Rightarrow> string option" where
  "none_if_blank s = (if str_trim s = [] then None else Some (str_trim s))"

definition at_least_one :: "int \<Rightarrow> int" where
  "at_least_one n = max 1 (if n = 0 then 1 else n)"

definition normalize_resource :: "policy_env \<Rightarrow> string \<Rightarrow> resource_input \<Rightarrow> resource option" where
  "normalize_resource env now raw =
     (let ty = normalize_resource_type (ri_type raw);
          owner = owner_of env (ri_owner raw);
          boundary = safe_segment (or_default (resource_boundary_id env) (ri_boundary raw)) ''local'';
          supplied = str_trim (or_default (ri_id raw) (ri_canonical raw));
          prefix = (if ty \<noteq> [] \<and> ty \<noteq> ''desktop'' then boundary @ '':'' @ owner @ '':'' @ ty @ '':'' else []);
          canonical = prefix \<noteq> [] \<and> starts_with prefix supplied;
          native = safe_segment (or_default (if canonical then drop (length prefix) supplied
            else or_default (or_default supplied (ri_other raw)) (ri_key raw)) (ri_native raw)) [];
          key = safe_segment (or_default native (ri_key raw)) [];
          i = (if ty = ''desktop'' then or_default (thread_resource_id env boundary ty key owner) (str_trim (ri_id raw))
            else thread_resource_id env boundary ty native owner)
      in if ty = [] \<or> key = [] \<or> native = [] \<or> i = [] then None
      else Some \<lparr>rs_id = i, rs_native = native, rs_type = ty, rs_key = key, rs_owner = owner, rs_boundary = boundary,
        rs_generation = at_least_one (ri_generation raw), rs_status = resource_status (ri_status raw) (ri_retired raw),
        rs_backend = or_default ty (str_trim (or_default ty (ri_backend raw))), rs_created = or_default now (str_trim (ri_created raw)),
        rs_updated = or_default now (str_trim (or_default (ri_created raw) (ri_updated raw))), rs_retired = none_if_blank (ri_retired raw)\<rparr>)"

definition resource_raw :: "resource \<Rightarrow> resource_input" where
  "resource_raw r = \<lparr>ri_type = rs_type r, ri_owner = rs_owner r, ri_boundary = rs_boundary r, ri_canonical = [], ri_id = rs_id r,
     ri_native = rs_native r, ri_key = rs_key r, ri_other = [], ri_generation = rs_generation r, ri_status = rs_status r,
     ri_retired = given_text (rs_retired r), ri_backend = rs_backend r, ri_created = rs_created r, ri_updated = rs_updated r\<rparr>"

definition normalize_grant :: "policy_env \<Rightarrow> string \<Rightarrow> string \<Rightarrow> grant \<Rightarrow> grant option" where
  "normalize_grant env now uuid raw =
     (let ty = normalize_resource_type (gr_type raw);
          key = safe_segment (or_default (or_default (gr_id raw) (gr_resource raw)) (gr_key raw)) [];
          owner = owner_of env (gr_owner raw);
          boundary = safe_segment (or_default (resource_boundary_id env) (gr_boundary raw)) ''local'';
          resource = or_default (thread_resource_id env boundary ty key owner) (str_trim (gr_resource raw));
          permissions = normalize_permissions_of ty (gr_permissions raw)
      in if str_trim (gr_thread raw) = [] \<or> ty = [] \<or> key = [] \<or> resource = [] then None
      else Some \<lparr>gr_id = or_default uuid (str_trim (gr_id raw)), gr_thread = str_trim (gr_thread raw), gr_type = ty,
        gr_resource = resource, gr_key = key, gr_owner = owner, gr_boundary = boundary,
        gr_permissions = (if permissions = [] then resource_permissions ty else permissions), gr_revision = at_least_one (gr_revision raw),
        gr_source = or_default ''explicit'' (str_trim (gr_source raw)), gr_created = or_default now (str_trim (gr_created raw)),
        gr_updated = or_default now (str_trim (or_default (gr_created raw) (gr_updated raw))),
        gr_expires = none_if_blank (given_text (gr_expires raw)), gr_revoked = none_if_blank (given_text (gr_revoked raw)),
        gr_revoked_by = none_if_blank (given_text (gr_revoked_by raw)), gr_reason = none_if_blank (given_text (gr_reason raw))\<rparr>)"

definition resource_for :: "resource list \<Rightarrow> grant \<Rightarrow> resource option" where
  "resource_for rs g = find (\<lambda>r. rs_type r = gr_type g \<and> rs_owner r = gr_owner g \<and> rs_boundary r = gr_boundary g
     \<and> (rs_id r = gr_resource g \<or> rs_native r = gr_resource g \<or> rs_native r = gr_key g \<or> rs_key r = gr_key g)) rs"

definition rebound_grant :: "resource list \<Rightarrow> grant \<Rightarrow> grant" where
  "rebound_grant rs g = (case resource_for rs g of None \<Rightarrow> g
     | Some r \<Rightarrow> g\<lparr>gr_resource := rs_id r, gr_key := rs_key r, gr_owner := rs_owner r, gr_boundary := rs_boundary r\<rparr>)"

definition normalize_ceiling :: "string \<Rightarrow> ceiling \<Rightarrow> ceiling" where
  "normalize_ceiling now c = \<lparr>cl_thread = str_trim (cl_thread c), cl_type = normalize_resource_type (cl_type c),
     cl_resource = str_trim (cl_resource c), cl_permissions = normalize_permissions_of (cl_type c) (cl_permissions c),
     cl_parent = str_trim (cl_parent c), cl_created = or_default now (str_trim (cl_created c))\<rparr>"

definition rebound_ceiling :: "resource list \<Rightarrow> ceiling \<Rightarrow> ceiling" where
  "rebound_ceiling rs c =
     (case find (\<lambda>r. rs_type r = cl_type c \<and> (rs_id r = cl_resource c \<or> rs_native r = cl_resource c)) rs of
        None \<Rightarrow> c | Some r \<Rightarrow> c\<lparr>cl_resource := rs_id r\<rparr>)"

definition normalize_policy :: "string \<Rightarrow> thread_policy \<Rightarrow> thread_policy" where
  "normalize_policy now p = \<lparr>pl_thread = str_trim (pl_thread p), pl_type = normalize_resource_type (pl_type p),
     pl_revision = max 0 (pl_revision p), pl_empty = pl_empty p,
     pl_mode = (if clean_lower (or_default ''explicit'' (pl_mode p)) = ''snapshot_ceiling'' then ''snapshot_ceiling'' else ''explicit''),
     pl_snapshot = max 0 (pl_snapshot p), pl_created = or_default now (str_trim (pl_created p)),
     pl_updated = or_default now (str_trim (or_default (pl_created p) (pl_updated p)))\<rparr>"

definition normalize_target :: "connector_target \<Rightarrow> connector_target" where
  "normalize_target t = \<lparr>ct_service = clean_lower (ct_service t), ct_account = str_trim (ct_account t),
     ct_conversation = str_trim (ct_conversation t), ct_binding = str_trim (ct_binding t), ct_thread = str_trim (ct_thread t),
     ct_operation = str_trim (ct_operation t), ct_tool = clean_lower (ct_tool t), ct_action = clean_lower (ct_action t)\<rparr>"

definition normalize_bearer :: "bearer \<Rightarrow> bearer" where
  "normalize_bearer b = \<lparr>br_jti = str_trim (br_jti b), br_token = str_trim (br_token b), br_hash = str_trim (br_hash b),
     br_audience = str_trim (br_audience b), br_issued = str_trim (br_issued b), br_expires = str_trim (br_expires b)\<rparr>"

definition normalize_holder :: "bearer_holder \<Rightarrow> bearer_holder" where
  "normalize_holder h = \<lparr>bh_scopes = filter (\<lambda>s. s \<noteq> []) (map clean_lower (bh_scopes h)),
     bh_kind = or_default ''external_instance'' (str_trim (bh_kind h)), bh_principal = str_trim (bh_principal h),
     bh_owner = str_trim (bh_owner h), bh_instance = str_trim (bh_instance h), bh_account = str_trim (bh_account h),
     bh_service = clean_lower (bh_service h)\<rparr>"

definition normalize_session :: "string \<Rightarrow> resource_session \<Rightarrow> resource_session" where
  "normalize_session now s = \<lparr>ss_id = str_trim (ss_id s), ss_bearer = normalize_bearer (ss_bearer s),
     ss_holder = normalize_holder (ss_holder s), ss_type = normalize_resource_type (ss_type s), ss_resource = str_trim (ss_resource s),
     ss_actions = normalize_permissions_of (ss_type s) (ss_actions s), ss_target = normalize_target (ss_target s),
     ss_thread = str_trim (ss_thread s), ss_grant_thread = str_trim (or_default (ss_thread s) (ss_grant_thread s)),
     ss_root = str_trim (ss_root s), ss_boundary = str_trim (ss_boundary s), ss_policy = max 0 (ss_policy s), ss_grant = max 0 (ss_grant s),
     ss_generation = at_least_one (ss_generation s),
     ss_state = (if clean_lower (ss_state s) \<in> set [''active'', ''invalidated'', ''expired''] then clean_lower (ss_state s) else ''invalidated''),
     ss_epoch = at_least_one (ss_epoch s), ss_used = none_if_blank (given_text (ss_used s)), ss_created = or_default now (str_trim (ss_created s)),
     ss_updated = or_default now (str_trim (or_default (ss_created s) (ss_updated s))),
     ss_invalidated = none_if_blank (given_text (ss_invalidated s)), ss_reason = none_if_blank (given_text (ss_reason s))\<rparr>"

definition session_usable :: "resource_session \<Rightarrow> bool" where
  "session_usable s \<longleftrightarrow> ss_id s \<noteq> [] \<and> br_jti (ss_bearer s) \<noteq> [] \<and> br_token (ss_bearer s) \<noteq> [] \<and> ss_type s \<noteq> []
     \<and> ss_resource s \<noteq> [] \<and> ss_actions s \<noteq> [] \<and> ss_thread s \<noteq> [] \<and> ss_root s \<noteq> [] \<and> ss_boundary s \<noteq> []
     \<and> br_issued (ss_bearer s) \<noteq> [] \<and> br_expires (ss_bearer s) \<noteq> []"

definition normalize_audit :: "audit_row \<Rightarrow> audit_row" where
  "normalize_audit a = a\<lparr>ar_type := normalize_resource_type (ar_type a), ar_resource := str_trim (ar_resource a),
     ar_thread := str_trim (ar_thread a), ar_permission := clean_lower (ar_permission a), ar_boundary := str_trim (ar_boundary a),
     ar_owner := str_trim (ar_owner a), ar_change := str_trim (ar_change a),
     ar_state := (if clean_lower (ar_state a) \<in> set [''pending'', ''claimed'', ''delivered''] then clean_lower (ar_state a) else ''pending''),
     ar_claim := none_if_blank (given_text (ar_claim a)), ar_claim_expires := none_if_blank (given_text (ar_claim_expires a)),
     ar_delivered := none_if_blank (given_text (ar_delivered a))\<rparr>"

text \<open>Mutations and mailbox deliveries are taken as they are.\<close>

definition normalize_policy_state :: "policy_env \<Rightarrow> string \<Rightarrow> string \<Rightarrow> policy_state \<Rightarrow> policy_state" where
  "normalize_policy_state env now uuid raw =
     (let rs = List.map_filter (normalize_resource env now \<circ> resource_raw) (ps_resources raw) in
      raw\<lparr>ps_revision := max 0 (ps_revision raw), ps_resources := rs,
        ps_grants := map (rebound_grant rs) (List.map_filter (normalize_grant env now uuid) (ps_grants raw)),
        ps_policies := filter (\<lambda>p. pl_thread p \<noteq> [] \<and> pl_type p \<noteq> []) (map (normalize_policy now) (ps_policies raw)),
        ps_ceilings := map (rebound_ceiling rs) (filter (\<lambda>c. cl_thread c \<noteq> [] \<and> cl_type c \<noteq> [] \<and> cl_resource c \<noteq> [] \<and> cl_parent c \<noteq> [])
          (map (normalize_ceiling now) (ps_ceilings raw))),
        ps_sessions := filter session_usable (map (normalize_session now) (ps_sessions raw)),
        ps_audit := map normalize_audit (ps_audit raw),
        ps_updated := none_if_blank (given_text (ps_updated raw))\<rparr>)"

section \<open>Grants and declared scopes\<close>

text \<open>\<open>NullMember\<close>: reading that member of \<open>null\<close>, a \<open>TypeError\<close>.\<close>

datatype policy_error = PolicyError string int | NullMember string

text \<open>What an entry of a declared scope says about permissions: nothing, a list, or a text to split.\<close>

datatype given_permissions = NoPermissions | PermissionList "string list" | PermissionText string

record scope_entry =
  se_type :: string
  se_desktop :: string
  se_native :: string
  se_permissions :: given_permissions
  se_expires :: "string option"

text \<open>What \<open>threadLifecycleState\<close> reads of a thread.\<close>

record thread_life =
  tl_lifecycle :: string
  tl_retired :: bool
  tl_archived :: bool
  tl_retired_at :: string
  tl_state :: string

definition thread_is_retired :: "thread_life \<Rightarrow> bool" where
  "thread_is_retired l \<longleftrightarrow> clean_lower (tl_lifecycle l) = ''retired'' \<or> tl_retired l \<or> tl_archived l \<or> tl_retired_at l \<noteq> []
     \<or> clean_lower (tl_state l) = ''retiring'' \<or> clean_lower (tl_state l) = ''retired''"

record policy_thread =
  pt_id :: string
  pt_name :: string
  pt_binding :: string
  pt_parent :: string
  pt_owner :: string
  pt_scopes :: "scope_entry list"
  pt_desktop_scopes :: "scope_entry list"
  pt_life :: thread_life

text \<open>\<open>split(/[\s,]+/g)\<close>.\<close>

fun split_words :: "string \<Rightarrow> string \<Rightarrow> string list" where
  "split_words w [] = [rev w]"
| "split_words w [c] = (if is_space c \<or> c = CHR '','' then [rev w, []] else [rev (c # w)])"
| "split_words w (c # d # s) =
     (if is_space c \<or> c = CHR '',''
      then if is_space d \<or> d = CHR '','' then split_words w (d # s) else rev w # split_words [] (d # s)
      else split_words (c # w) (d # s))"

definition permissions_invalid :: policy_error where
  "permissions_invalid = PolicyError ''thread_resource_permissions_invalid'' 400"

definition exact_grant_permissions :: "string \<Rightarrow> given_permissions \<Rightarrow> (policy_error, string list) result" where
  "exact_grant_permissions t given =
     (case given of
        NoPermissions \<Rightarrow> Inr (resource_permissions t)
      | _ \<Rightarrow>
          (let raw = (case given of PermissionList ps \<Rightarrow> ps | PermissionText s \<Rightarrow> split_words [] (str_trim s) | NoPermissions \<Rightarrow> []);
               normal = normalize_permissions_of t raw
           in if raw = [] \<or> list_ex (\<lambda>v. str_trim v = []) raw then Inl permissions_invalid
           else if length normal \<noteq> length (remdups (map clean_lower raw)) then Inl permissions_invalid
           else Inr normal))"

definition normalize_grant_expiry :: "policy_env \<Rightarrow> string \<Rightarrow> string option" where
  "normalize_grant_expiry env s = (if str_trim s = [] then None else map_option iso_string (pe_parse env (str_trim s)))"

definition exact_grant_expiry :: "policy_env \<Rightarrow> int \<Rightarrow> string option \<Rightarrow> string option \<Rightarrow> (policy_error, string option) result" where
  "exact_grant_expiry env now given fallback =
     (let value = given_text (case given of None \<Rightarrow> fallback | Some s \<Rightarrow> Some s) in
      if str_trim value = [] then Inr None
      else (case normalize_grant_expiry env value of
          None \<Rightarrow> Inl (PolicyError ''thread_resource_grant_expiry_invalid'' 400)
        | Some e \<Rightarrow>
            (case pe_parse env e of
               Some t \<Rightarrow> if t \<le> now then Inl (PolicyError ''thread_resource_grant_expiry_invalid'' 400) else Inr (Some e)
             | None \<Rightarrow> Inr (Some e))))"

definition grant_is_current :: "policy_env \<Rightarrow> int \<Rightarrow> grant \<Rightarrow> bool" where
  "grant_is_current env now g \<longleftrightarrow>
     str_trim (given_text (gr_revoked g)) = []
     \<and> (let e = str_trim (given_text (gr_expires g)) in
        e = [] \<or> (case pe_parse env e of None \<Rightarrow> False | Some t \<Rightarrow> now < t))"

definition parsed_times :: "policy_env \<Rightarrow> string option list \<Rightarrow> int list" where
  "parsed_times env xs = List.map_filter (pe_parse env) (filter (\<lambda>s. s \<noteq> []) (map (str_trim \<circ> given_text) xs))"

definition earliest_expiry :: "policy_env \<Rightarrow> string option list \<Rightarrow> string option" where
  "earliest_expiry env xs =
     (case parsed_times env xs of [] \<Rightarrow> None | t # ts \<Rightarrow> Some (iso_string (foldr min ts t)))"

definition direct_grants :: "policy_env \<Rightarrow> int \<Rightarrow> policy_state \<Rightarrow> string \<Rightarrow> resource \<Rightarrow> grant list" where
  "direct_grants env now st thread r =
     filter (\<lambda>g. grant_is_current env now g \<and> gr_thread g = thread \<and> gr_type g = rs_type r \<and> gr_resource g = rs_id r
       \<and> gr_owner g = rs_owner r \<and> gr_boundary g = rs_boundary r) (ps_grants st)"

definition direct_grant :: "policy_env \<Rightarrow> int \<Rightarrow> policy_state \<Rightarrow> string \<Rightarrow> resource \<Rightarrow> string \<Rightarrow> grant option" where
  "direct_grant env now st thread r permission = find (\<lambda>g. permission \<in> set (gr_permissions g)) (direct_grants env now st thread r)"

record declared_scope =
  dc_native :: string
  dc_permissions :: "string list"
  dc_expires :: "string option"

definition scope_type :: "scope_entry \<Rightarrow> string" where
  "scope_type e = normalize_resource_type (or_default (if se_desktop e \<noteq> [] then ''desktop'' else []) (se_type e))"

definition declared_entry :: "policy_env \<Rightarrow> int \<Rightarrow> string \<Rightarrow> scope_entry \<Rightarrow> (policy_error, declared_scope) result" where
  "declared_entry env now t e =
     (if safe_segment (se_native e) [] = [] then Inl (PolicyError ''thread_resource_child_scope_invalid'' 400)
      else and_then (exact_grant_permissions t (se_permissions e)) (\<lambda>ps.
        and_then (exact_grant_expiry env now (se_expires e) None) (\<lambda>x.
          Inr \<lparr>dc_native = safe_segment (se_native e) [], dc_permissions = ps, dc_expires = x\<rparr>)))"

fun declared_entries :: "policy_env \<Rightarrow> int \<Rightarrow> string \<Rightarrow> scope_entry list \<Rightarrow> (policy_error, declared_scope list) result" where
  "declared_entries env now t [] = Inr []"
| "declared_entries env now t (e # es) =
     (if scope_type e \<noteq> t then declared_entries env now t es
      else and_then (declared_entry env now t e) (\<lambda>d. and_then (declared_entries env now t es) (\<lambda>ds. Inr (d # ds))))"

definition declared_child_scope_entries :: "policy_env \<Rightarrow> int \<Rightarrow> policy_thread \<Rightarrow> string \<Rightarrow> (policy_error, declared_scope list) result" where
  "declared_child_scope_entries env now t ty =
     declared_entries env now ty (pt_scopes t @ (if ty = ''desktop'' then pt_desktop_scopes t else []))"

definition scope_matches :: "resource \<Rightarrow> declared_scope \<Rightarrow> bool" where
  "scope_matches r d \<longleftrightarrow> dc_native d = rs_native r \<or> dc_native d = rs_key r \<or> dc_native d = rs_id r"

definition declared_scope_permissions :: "declared_scope list \<Rightarrow> resource \<Rightarrow> string list option" where
  "declared_scope_permissions ds r =
     (if filter (scope_matches r) ds = [] then None else Some (concat (map dc_permissions (filter (scope_matches r) ds))))"

definition declared_scope_expiry :: "policy_env \<Rightarrow> declared_scope list \<Rightarrow> resource \<Rightarrow> string option" where
  "declared_scope_expiry env ds r = earliest_expiry env (map dc_expires (filter (scope_matches r) ds))"

section \<open>The effective grant\<close>

record effective =
  ef_grant :: grant
  ef_expires :: "string option"
  ef_by :: string
  ef_from :: string

definition ceiling_of :: "policy_state \<Rightarrow> string \<Rightarrow> resource \<Rightarrow> ceiling option" where
  "ceiling_of st thread r = find (\<lambda>c. cl_thread c = thread \<and> cl_type c = rs_type r \<and> cl_resource c = rs_id r) (ps_ceilings st)"

definition policy_of :: "policy_state \<Rightarrow> string \<Rightarrow> string \<Rightarrow> thread_policy option" where
  "policy_of st thread t = find (\<lambda>p. pl_thread p = thread \<and> pl_type p = t) (ps_policies st)"

definition ceiling_allows :: "policy_state \<Rightarrow> string \<Rightarrow> resource \<Rightarrow> string \<Rightarrow> bool" where
  "ceiling_allows st thread r permission \<longleftrightarrow>
     (case ceiling_of st thread r of None \<Rightarrow> False | Some c \<Rightarrow> permission \<in> set (cl_permissions c))"

text \<open>Whether a child is narrowed below what it inherits; reading its declared scope may fail.\<close>

definition is_narrowed :: "policy_env \<Rightarrow> int \<Rightarrow> policy_state \<Rightarrow> policy_thread \<Rightarrow> resource \<Rightarrow> (policy_error, bool) result" where
  "is_narrowed env now st t r =
     (if (case policy_of st (pt_id t) (rs_type r) of None \<Rightarrow> False | Some p \<Rightarrow> pl_mode p \<noteq> ''snapshot_ceiling'')
        \<or> list_ex (\<lambda>g. given_text (gr_revoked g) = [] \<and> gr_thread g = pt_id t \<and> gr_type g = rs_type r) (ps_grants st)
      then Inr True
      else and_then (declared_child_scope_entries env now t (rs_type r)) (\<lambda>ds. Inr (ds \<noteq> [])))"

definition explicit_empty :: "policy_state \<Rightarrow> string \<Rightarrow> string \<Rightarrow> bool" where
  "explicit_empty st thread t = (case policy_of st thread t of None \<Rightarrow> False | Some p \<Rightarrow> pl_empty p)"

text \<open>A child's own grant under the effective grant of its parent.\<close>

definition narrowed_to :: "policy_env \<Rightarrow> policy_thread \<Rightarrow> effective \<Rightarrow> grant \<Rightarrow> effective" where
  "narrowed_to env t parent g =
     \<lparr>ef_grant = g\<lparr>gr_revision := max (gr_revision (ef_grant parent)) (gr_revision g)\<rparr>,
       ef_expires = earliest_expiry env [ef_expires parent, gr_expires (ef_grant parent), gr_expires g],
       ef_by = pt_id t, ef_from = gr_thread (ef_grant parent)\<rparr>"

text \<open>\<open>getThread\<close> finds a thread by its id, then by its name, then by its binding.\<close>

definition get_thread :: "policy_thread list \<Rightarrow> string \<Rightarrow> policy_thread option" where
  "get_thread ts i =
     (case find (\<lambda>t. pt_id t = str_trim i) ts of
        Some t \<Rightarrow> Some t
      | None \<Rightarrow> (case find (\<lambda>t. pt_name t = str_trim i) ts of
            Some t \<Rightarrow> Some t
          | None \<Rightarrow> find (\<lambda>t. pt_binding t = str_trim i) ts))"

lemma get_thread_in: "get_thread ts i = Some t \<Longrightarrow> t \<in> set ts"
  by (auto simp: get_thread_def find_Some_iff split: option.splits)

text \<open>\<open>effectiveThreadResourceGrant\<close>: up the chain of parents, stopping at a thread seen before.\<close>

function effective_grant ::
  "policy_env \<Rightarrow> int \<Rightarrow> policy_thread list \<Rightarrow> policy_state \<Rightarrow> resource \<Rightarrow> string \<Rightarrow> string list \<Rightarrow> policy_thread \<Rightarrow>
     (policy_error, effective option) result" where
  "effective_grant env now ts st r permission seen t =
     (if pt_id t = [] \<or> pt_id t \<in> set seen then Inr None
      else
        let direct = direct_grant env now st (pt_id t) r permission in
        if str_trim (pt_parent t) = []
        then Inr (map_option (\<lambda>g. \<lparr>ef_grant = g, ef_expires = None, ef_by = [], ef_from = []\<rparr>) direct)
        else if \<not> ceiling_allows st (pt_id t) r permission then Inr None
        else (case get_thread ts (str_trim (pt_parent t)) of
            None \<Rightarrow> Inr None
          | Some parent \<Rightarrow>
              and_then (effective_grant env now ts st r permission (pt_id t # seen) parent) (\<lambda>inherited.
                case inherited of
                  None \<Rightarrow> Inr None
                | Some e \<Rightarrow>
                    and_then (is_narrowed env now st t r) (\<lambda>narrowed.
                      if explicit_empty st (pt_id t) (rs_type r) then Inr None
                      else if \<not> narrowed
                      then Inr (Some (e\<lparr>ef_expires := earliest_expiry env [ef_expires e, gr_expires (ef_grant e)],
                        ef_by := pt_id t, ef_from := gr_thread (ef_grant e)\<rparr>))
                      else Inr (map_option (narrowed_to env t e) direct)))))"
  by pat_completeness auto
termination
proof (relation "measure (\<lambda>(env, now, ts, st, r, permission, seen, t). card (insert (pt_id t) (pt_id ` set ts) - set seen))")
  fix env :: policy_env and now :: int and ts st r permission seen x and t parent :: policy_thread
  assume new: "\<not> (pt_id t = [] \<or> pt_id t \<in> set seen)" and parent: "get_thread ts (str_trim (pt_parent t)) = Some parent"
  have "insert (pt_id parent) (pt_id ` set ts) = pt_id ` set ts" using get_thread_in [OF parent] by auto
  moreover have "pt_id ` set ts - set (pt_id t # seen) \<subset> insert (pt_id t) (pt_id ` set ts) - set seen" using new by auto
  ultimately show "((env, now, ts, st, r, permission, pt_id t # seen, parent), (env, now, ts, st, r, permission, seen, t))
      \<in> measure (\<lambda>(env, now, ts, st, r, permission, seen, t). card (insert (pt_id t) (pt_id ` set ts) - set seen))"
    by (simp add: psubset_card_mono)
qed simp

declare effective_grant.simps [simp del]

text \<open>\<open>effectiveThreadResourceGrantForLineage\<close>: down a lineage from its root.\<close>

definition lineage_root :: "policy_env \<Rightarrow> int \<Rightarrow> policy_state \<Rightarrow> resource \<Rightarrow> string \<Rightarrow> policy_thread \<Rightarrow> effective option" where
  "lineage_root env now st r permission t =
     map_option (\<lambda>g. \<lparr>ef_grant = g, ef_expires = earliest_expiry env [gr_expires g], ef_by = [], ef_from = []\<rparr>)
       (direct_grant env now st (pt_id t) r permission)"

fun lineage_below ::
  "policy_env \<Rightarrow> int \<Rightarrow> policy_state \<Rightarrow> resource \<Rightarrow> string \<Rightarrow> effective option \<Rightarrow> policy_thread list \<Rightarrow> (policy_error, effective option) result" where
  "lineage_below env now st r permission effective [] = Inr effective"
| "lineage_below env now st r permission effective (t # below) =
     (case effective of
        None \<Rightarrow> Inr None
      | Some e \<Rightarrow>
          if \<not> ceiling_allows st (pt_id t) r permission then Inr None
          else and_then (is_narrowed env now st t r) (\<lambda>narrowed.
            if explicit_empty st (pt_id t) (rs_type r) then Inr None
            else if \<not> narrowed then lineage_below env now st r permission (Some e) below
            else (case direct_grant env now st (pt_id t) r permission of
                None \<Rightarrow> Inr None
              | Some g \<Rightarrow> lineage_below env now st r permission (Some (narrowed_to env t e g)) below)))"

fun effective_for_lineage ::
  "policy_env \<Rightarrow> int \<Rightarrow> policy_state \<Rightarrow> resource \<Rightarrow> string \<Rightarrow> policy_thread list \<Rightarrow> (policy_error, effective option) result" where
  "effective_for_lineage env now st r permission [] = Inr None"
| "effective_for_lineage env now st r permission (t # below) =
     lineage_below env now st r permission (lineage_root env now st r permission t) below"

text \<open>The lineage in the map of threads by id; a cycle or a missing parent gives \<open>None\<close>.\<close>

definition thread_by_id :: "policy_thread list \<Rightarrow> string \<Rightarrow> policy_thread option" where
  "thread_by_id ts i = find (\<lambda>t. pt_id t = i) (rev ts)"

lemma thread_by_id_in: "thread_by_id ts i = Some t \<Longrightarrow> t \<in> set ts \<and> pt_id t = i"
  by (auto simp: thread_by_id_def find_Some_iff) (metis length_rev nth_mem set_rev)

function lineage_of :: "policy_thread list \<Rightarrow> string list \<Rightarrow> policy_thread \<Rightarrow> policy_thread list option" where
  "lineage_of ts seen t =
     (if pt_id t = [] then Some []
      else if pt_id t \<in> set seen then None
      else if str_trim (pt_parent t) = [] then Some [t]
      else (case thread_by_id ts (str_trim (pt_parent t)) of
          None \<Rightarrow> None
        | Some parent \<Rightarrow> map_option (\<lambda>l. l @ [t]) (lineage_of ts (pt_id t # seen) parent)))"
  by pat_completeness auto
termination
proof (relation "measure (\<lambda>(ts, seen, t). card (insert (pt_id t) (pt_id ` set ts) - set seen))")
  fix ts seen and t parent :: policy_thread
  assume new: "pt_id t \<notin> set seen" and parent: "thread_by_id ts (str_trim (pt_parent t)) = Some parent"
  have "insert (pt_id parent) (pt_id ` set ts) = pt_id ` set ts" using thread_by_id_in [OF parent] by (metis image_eqI insert_absorb)
  moreover have "pt_id ` set ts - set (pt_id t # seen) \<subset> insert (pt_id t) (pt_id ` set ts) - set seen" using new by auto
  ultimately show "((ts, pt_id t # seen, parent), (ts, seen, t)) \<in> measure (\<lambda>(ts, seen, t). card (insert (pt_id t) (pt_id ` set ts) - set seen))"
    by (simp add: psubset_card_mono)
qed simp

declare lineage_of.simps [simp del]

text \<open>\<open>effectiveThreadResourceGrantFromSnapshot\<close>: an error on the way is no grant.\<close>

definition effective_from_snapshot ::
  "policy_env \<Rightarrow> int \<Rightarrow> policy_thread list \<Rightarrow> policy_state \<Rightarrow> string \<Rightarrow> string \<Rightarrow> string \<Rightarrow> string \<Rightarrow> effective option" where
  "effective_from_snapshot env now ts st thread t resource_id permission =
     (let ty = normalize_resource_type t; permitted = permission_for ty permission in
      case find (\<lambda>r. rs_type r = ty \<and> rs_id r = str_trim resource_id) (ps_resources st) of
        None \<Rightarrow> None
      | Some r \<Rightarrow>
          if ty = [] \<or> permitted = [] \<or> rs_status r \<noteq> ''active'' \<or> given_text (rs_retired r) \<noteq> [] then None
          else (case thread_by_id ts (str_trim thread) of
              None \<Rightarrow> None
            | Some start \<Rightarrow>
                (case lineage_of ts [] start of
                   None \<Rightarrow> None
                 | Some lineage \<Rightarrow>
                     (case effective_for_lineage env now st r permitted lineage of Inl _ \<Rightarrow> None | Inr e \<Rightarrow> e))))"

section \<open>The access decision\<close>

record access_principal =
  ap_user :: string
  ap_admin :: bool
  ap_auth :: string

record access_request =
  rq_type :: string
  rq_principal :: "access_principal option"
  rq_thread :: string
  rq_owner :: string
  rq_resource :: string
  rq_key :: string
  rq_boundary :: string
  rq_generation :: int
  rq_permission :: string
  rq_glass :: bool
  rq_reason :: string
  rq_change :: string

record auth_binding =
  bi_type :: string
  bi_resource :: string
  bi_policy :: int
  bi_grant :: int
  bi_generation :: int

record access_decision =
  dn_allowed :: bool
  dn_granted :: bool
  dn_mode :: string
  dn_permission :: string
  dn_thread :: string
  dn_type :: string
  dn_resource :: string
  dn_key :: string
  dn_owner :: string
  dn_boundary :: string
  dn_actor :: string
  dn_grant :: "effective option"
  dn_grant_revision :: int
  dn_policy_revision :: int
  dn_generation :: int
  dn_shadow :: bool
  dn_glass :: bool
  dn_glass_reason :: string
  dn_glass_change :: string
  dn_glass_expires :: string
  dn_binding :: "auth_binding option"
  dn_reason :: string

text \<open>In shadow mode a denial is reported but does not bind.\<close>

definition denial :: "access_decision \<Rightarrow> string \<Rightarrow> access_decision" where
  "denial base reason =
     (if dn_mode base = ''shadow'' then base\<lparr>dn_reason := reason, dn_allowed := True, dn_shadow := True\<rparr>
      else base\<lparr>dn_reason := reason\<rparr>)"

definition can_access_owner :: "policy_env \<Rightarrow> access_principal \<Rightarrow> string \<Rightarrow> bool" where
  "can_access_owner env p owner \<longleftrightarrow> ap_admin p \<or> (ap_user p \<noteq> [] \<and> normalize_user_id (ap_user p) = owner_of env owner)"

definition window_ms :: "int \<Rightarrow> int option \<Rightarrow> int" where
  "window_ms fallback given = max 1000 (min 900000 (case given of None \<Rightarrow> fallback | Some n \<Rightarrow> if n = 0 then fallback else n))"

definition recent_auth :: "policy_env \<Rightarrow> int \<Rightarrow> access_principal option \<Rightarrow> bool" where
  "recent_auth env now p =
     (case p of None \<Rightarrow> False
      | Some q \<Rightarrow> (case pe_parse env (str_trim (ap_auth q)) of None \<Rightarrow> False
          | Some t \<Rightarrow> now - window_ms 900000 (pe_auth_window env) \<le> t \<and> t \<le> now + 60000))"

definition request_user :: "access_principal option \<Rightarrow> string" where
  "request_user p = (case p of None \<Rightarrow> [] | Some q \<Rightarrow> ap_user q)"

definition request_admin :: "access_principal option \<Rightarrow> bool" where
  "request_admin p = (case p of None \<Rightarrow> False | Some q \<Rightarrow> ap_admin q)"

definition request_thread :: "policy_thread list \<Rightarrow> access_request \<Rightarrow> policy_thread option" where
  "request_thread ts q = (if str_trim (rq_thread q) = [] then None else get_thread ts (str_trim (rq_thread q)))"

definition thread_owner :: "policy_thread option \<Rightarrow> string" where
  "thread_owner t = (case t of None \<Rightarrow> [] | Some x \<Rightarrow> pt_owner x)"

definition requested_owner :: "policy_env \<Rightarrow> policy_thread list \<Rightarrow> access_request \<Rightarrow> string" where
  "requested_owner env ts q =
     owner_of env (or_default (or_default (request_user (rq_principal q)) (thread_owner (request_thread ts q))) (rq_owner q))"

definition requested_resource :: "policy_env \<Rightarrow> int \<Rightarrow> policy_thread list \<Rightarrow> access_request \<Rightarrow> resource option" where
  "requested_resource env now ts q = normalize_resource env (iso_string now) \<lparr>ri_type = normalize_resource_type (rq_type q),
     ri_owner = requested_owner env ts q, ri_boundary = rq_boundary q, ri_canonical = [], ri_id = rq_resource q, ri_native = [],
     ri_key = rq_key q, ri_other = [], ri_generation = rq_generation q, ri_status = [], ri_retired = [], ri_backend = [],
     ri_created = [], ri_updated = []\<rparr>"

definition decision_base :: "policy_env \<Rightarrow> int \<Rightarrow> policy_thread list \<Rightarrow> access_request \<Rightarrow> access_decision" where
  "decision_base env now ts q =
     (let ty = normalize_resource_type (rq_type q); r = requested_resource env now ts q in
      \<lparr>dn_allowed = False, dn_granted = False,
        dn_mode = access_mode_for env ty (rq_thread q) (case r of None \<Rightarrow> rq_resource q | Some x \<Rightarrow> rs_id x),
        dn_permission = permission_for ty (rq_permission q), dn_thread = str_trim (rq_thread q), dn_type = ty,
        dn_resource = (case r of None \<Rightarrow> [] | Some x \<Rightarrow> rs_id x), dn_key = (case r of None \<Rightarrow> [] | Some x \<Rightarrow> rs_key x),
        dn_owner = requested_owner env ts q, dn_boundary = resource_boundary_id env, dn_actor = str_trim (request_user (rq_principal q)),
        dn_grant = None, dn_grant_revision = 0, dn_policy_revision = 0, dn_generation = (case r of None \<Rightarrow> 1 | Some x \<Rightarrow> rs_generation x),
        dn_shadow = False, dn_glass = False, dn_glass_reason = [], dn_glass_change = [], dn_glass_expires = [], dn_binding = None,
        dn_reason = or_default ''resource'' ty @ ''_access_denied''\<rparr>)"

text \<open>A desktop whose stored id is not canonical is found by its slug, owner and boundary.\<close>

definition stored_resource :: "policy_state \<Rightarrow> resource \<Rightarrow> (resource \<times> resource) option" where
  "stored_resource st r =
     (case find (\<lambda>x. rs_id x = rs_id r \<and> rs_type x = rs_type r) (ps_resources st) of
        Some x \<Rightarrow> Some (x, r)
      | None \<Rightarrow>
          if rs_type r = ''desktop''
          then map_option (\<lambda>x. (x, x)) (find (\<lambda>x. rs_type x = ''desktop'' \<and> rs_key x = rs_key r \<and> rs_owner x = rs_owner r
            \<and> rs_boundary x = rs_boundary r) (ps_resources st))
          else None)"

definition grant_decision :: "policy_env \<Rightarrow> int \<Rightarrow> policy_thread list \<Rightarrow> policy_state \<Rightarrow> access_decision \<Rightarrow> resource \<Rightarrow> policy_thread option \<Rightarrow>
     (policy_error, access_decision) result" where
  "grant_decision env now ts st base r thread =
     and_then (case thread of None \<Rightarrow> Inr None | Some t \<Rightarrow> effective_grant env now ts st r (dn_permission base) [] t) (\<lambda>found.
       Inr (case found of
           Some e \<Rightarrow> base\<lparr>dn_allowed := True, dn_granted := True, dn_grant := Some e, dn_grant_revision := gr_revision (ef_grant e),
             dn_reason := dn_type base @ (if ef_by e \<noteq> [] then ''_grant_inherited'' else ''_grant_allowed''),
             dn_binding := Some \<lparr>bi_type = dn_type base, bi_resource = rs_id r, bi_policy = ps_revision st,
               bi_grant = gr_revision (ef_grant e), bi_generation = dn_generation base\<rparr>\<rparr>
         | None \<Rightarrow> denial base (dn_type base @ (if dn_thread base \<noteq> [] then ''_grant_required'' else ''_thread_scope_required''))))"

definition glass_decision :: "policy_env \<Rightarrow> int \<Rightarrow> policy_state \<Rightarrow> access_decision \<Rightarrow> resource \<Rightarrow> access_request \<Rightarrow> access_decision" where
  "glass_decision env now st base r q =
     base\<lparr>dn_allowed := True, dn_granted := True, dn_glass := True, dn_glass_reason := str_trim (rq_reason q),
       dn_glass_change := str_trim (rq_change q), dn_glass_expires := iso_string (now + window_ms 300000 (pe_glass_ttl env)),
       dn_reason := dn_type base @ ''_admin_break_glass'',
       dn_binding := Some \<lparr>bi_type = dn_type base, bi_resource = rs_id r, bi_policy = ps_revision st, bi_grant = 0,
         bi_generation = dn_generation base\<rparr>\<rparr>"

definition stored_decision :: "policy_env \<Rightarrow> int \<Rightarrow> policy_thread list \<Rightarrow> policy_state \<Rightarrow> access_request \<Rightarrow> access_decision \<Rightarrow> resource \<Rightarrow> resource \<Rightarrow>
     (policy_error, access_decision) result" where
  "stored_decision env now ts st q base stored r =
     (let ty = dn_type base; thread = request_thread ts q;
          owner = normalize_user_id (or_default (requested_owner env ts q) (thread_owner thread));
          base1 = base\<lparr>dn_generation := rs_generation stored\<rparr>; base2 = base1\<lparr>dn_owner := owner\<rparr>
      in if rs_owner stored \<noteq> rs_owner r \<or> rs_boundary stored \<noteq> rs_boundary r \<or> rs_native stored \<noteq> rs_native r
      then Inr (denial base (ty @ ''_resource_identity_denied''))
      else if rs_status stored \<noteq> ''active'' \<or> given_text (rs_retired stored) \<noteq> [] then Inr (denial base (ty @ ''_resource_inactive''))
      else if str_trim (rq_thread q) \<noteq> [] \<and> thread = None then Inr (denial base2 (ty @ ''_thread_not_found''))
      else if thread \<noteq> None \<and> (case rq_principal q of None \<Rightarrow> False | Some p \<Rightarrow> \<not> can_access_owner env p owner)
      then Inr (denial base2 (ty @ ''_thread_owner_denied''))
      else if owner \<noteq> rs_owner r then Inr (denial base2 (ty @ ''_owner_scope_denied''))
      else if rq_glass q \<and> (str_trim (rq_thread q) = [] \<or> \<not> request_admin (rq_principal q) \<or> str_trim (rq_reason q) = []
        \<or> str_trim (rq_change q) = [] \<or> \<not> recent_auth env now (rq_principal q))
      then Inr (base2\<lparr>dn_reason := ty @ ''_break_glass_requirements_missing''\<rparr>)
      else if rq_glass q then Inr (glass_decision env now st base2 r q)
      else grant_decision env now ts st base2 r thread)"

definition evaluate_access :: "policy_env \<Rightarrow> int \<Rightarrow> string \<Rightarrow> policy_thread list \<Rightarrow> policy_state \<Rightarrow> access_request \<Rightarrow> (policy_error, access_decision) result" where
  "evaluate_access env now uuid ts stored q =
     (let base = decision_base env now ts q; ty = normalize_resource_type (rq_type q) in
      if dn_permission base = [] then Inr (base\<lparr>dn_reason := or_default ''resource'' ty @ ''_permission_invalid''\<rparr>)
      else (case requested_resource env now ts q of
          None \<Rightarrow> Inr (denial base (or_default ''resource'' ty @ ''_not_found''))
        | Some r \<Rightarrow>
            if rs_boundary r \<noteq> dn_boundary base then Inr (denial base (ty @ ''_boundary_denied''))
            else if dn_mode base = ''off''
            then Inr (base\<lparr>dn_allowed := True, dn_granted := True, dn_reason := ty @ ''_access_disabled'',
              dn_binding := Some \<lparr>bi_type = ty, bi_resource = rs_id r, bi_policy = 0, bi_grant = 0, bi_generation = rs_generation r\<rparr>\<rparr>)
            else
              (let st = normalize_policy_state env (iso_string now) uuid stored; base1 = base\<lparr>dn_policy_revision := ps_revision st\<rparr> in
               case stored_resource st r of
                 None \<Rightarrow> Inr (denial base1 (ty @ ''_resource_not_registered''))
               | Some (x, r') \<Rightarrow>
                   stored_decision env now ts st q (if r' = r then base1 else base1\<lparr>dn_resource := rs_id x, dn_key := rs_key x\<rparr>) x r')))"

section \<open>Changes and their audit\<close>

record audit_note =
  an_action :: string
  an_type :: string
  an_resource :: string
  an_thread :: string
  an_permission :: string
  an_boundary :: string
  an_owner :: string
  an_change :: string
  an_outcome :: string
  an_actor :: string
  an_reason :: string
  an_expires :: string

datatype 'r change =
    Unchanged 'r
  | Changed 'r policy_state "audit_note option" bool

definition policy_audit_row :: "string \<Rightarrow> string \<Rightarrow> int \<Rightarrow> audit_note \<Rightarrow> audit_row" where
  "policy_audit_row uuid now revision a = \<lparr>ar_id = uuid,
     ar_action = str_trim (or_default ''thread_resource_policy_mutation'' (an_action a)), ar_type = normalize_resource_type (an_type a),
     ar_resource = str_trim (an_resource a), ar_thread = str_trim (an_thread a), ar_permission = clean_lower (an_permission a),
     ar_boundary = str_trim (an_boundary a), ar_owner = str_trim (an_owner a), ar_change = str_trim (an_change a),
     ar_outcome = str_trim (or_default ''allowed'' (an_outcome a)), ar_actor = str_trim (or_default ''system'' (an_actor a)),
     ar_reason = take 160 (str_trim (an_reason a)), ar_expires = none_if_blank (an_expires a), ar_revision = revision,
     ar_state = ''pending'', ar_claim = None, ar_claim_expires = None, ar_delivered = None, ar_created = now\<rparr>"

text \<open>
  \<open>mutateState\<close>: one transaction over the normal state. The last argument of \<open>Changed\<close> skips the policy
  epoch. The result has the revision that is in force afterwards.
\<close>

definition mutate_policy ::
  "policy_env \<Rightarrow> int \<Rightarrow> string \<Rightarrow> (policy_state \<Rightarrow> (policy_error, 'r change) result) \<Rightarrow> policy_state \<Rightarrow>
     (policy_error, 'r \<times> int) result \<times> policy_state" where
  "mutate_policy env now uuid f stored =
     (let st = normalize_policy_state env (iso_string now) uuid stored in
      case f st of
        Inl e \<Rightarrow> (Inl e, stored)
      | Inr (Unchanged r) \<Rightarrow> (Inr (r, ps_revision st), stored)
      | Inr (Changed r st1 note skip) \<Rightarrow>
          (let revision = ps_revision st1 + (if skip then 0 else 1);
               rows = (case note of None \<Rightarrow> [] | Some a \<Rightarrow> [policy_audit_row uuid (iso_string now) revision a])
           in (Inr (r, revision), st1\<lparr>ps_audit := ps_audit st1 @ rows, ps_revision := revision, ps_updated := Some (iso_string now)\<rparr>)))"

definition glass_note :: "access_request \<Rightarrow> access_decision \<Rightarrow> audit_note" where
  "glass_note q d = \<lparr>an_action = ''break_glass'', an_type = dn_type d, an_resource = dn_resource d, an_thread = dn_thread d,
     an_permission = dn_permission d, an_boundary = dn_boundary d, an_owner = dn_owner d, an_change = dn_glass_change d,
     an_outcome = ''allowed'', an_actor = str_trim (or_default ''system'' (request_user (rq_principal q))), an_reason = dn_glass_reason d,
     an_expires = dn_glass_expires d\<rparr>"

text \<open>The decision, and the state with the audit row that breaking the glass needs.\<close>

definition authorize_access ::
  "policy_env \<Rightarrow> int \<Rightarrow> string \<Rightarrow> policy_thread list \<Rightarrow> access_request \<Rightarrow> policy_state \<Rightarrow> (policy_error, access_decision) result \<times> policy_state" where
  "authorize_access env now uuid ts q stored =
     (case evaluate_access env now uuid ts stored q of
        Inl e \<Rightarrow> (Inl e, stored)
      | Inr d \<Rightarrow>
          if dn_glass d
          then (Inr d, snd (mutate_policy env now uuid (\<lambda>st. Inr (Changed () st (Some (glass_note q d)) True)) stored))
          else (Inr d, stored))"

definition access_denied_error :: "access_decision \<Rightarrow> policy_error" where
  "access_denied_error d = PolicyError (dn_reason d) (if ends_with ''_thread_not_found'' (dn_reason d) then 404 else 403)"

definition assert_access ::
  "policy_env \<Rightarrow> int \<Rightarrow> string \<Rightarrow> policy_thread list \<Rightarrow> access_request \<Rightarrow> policy_state \<Rightarrow> (policy_error, access_decision) result \<times> policy_state" where
  "assert_access env now uuid ts q stored =
     (case authorize_access env now uuid ts q stored of
        (Inl e, st) \<Rightarrow> (Inl e, st)
      | (Inr d, st) \<Rightarrow> ((if dn_allowed d then Inr d else Inl (access_denied_error d)), st))"

definition validate_authorization_binding ::
  "policy_env \<Rightarrow> int \<Rightarrow> string \<Rightarrow> policy_thread list \<Rightarrow> auth_binding \<Rightarrow> access_request \<Rightarrow> policy_state \<Rightarrow>
     (policy_error, access_decision) result \<times> policy_state" where
  "validate_authorization_binding env now uuid ts b q stored =
     (case authorize_access env now uuid ts (q\<lparr>rq_type := or_default (rq_type q) (bi_type b), rq_resource := or_default (rq_resource q) (bi_resource b)\<rparr>) stored of
        (Inl e, st) \<Rightarrow> (Inl e, st)
      | (Inr d, st) \<Rightarrow>
          ((if dn_granted d \<and> dn_binding d = Some b then Inr d else Inl (PolicyError ''thread_resource_authorization_stale'' 403)), st))"

section \<open>Audits, filters and lists\<close>

definition record_policy_audit ::
  "policy_env \<Rightarrow> int \<Rightarrow> string \<Rightarrow> audit_note \<Rightarrow> policy_state \<Rightarrow> (policy_error, unit \<times> int) result \<times> policy_state" where
  "record_policy_audit env now uuid a stored = mutate_policy env now uuid (\<lambda>st. Inr (Changed () st (Some a) True)) stored"

record resource_item =
  it_type :: string
  it_resource :: string
  it_id :: string
  it_key :: string
  it_owner :: string

text \<open>\<open>id_stands\<close>: the item's own id stands for a missing resource id.\<close>

definition item_request :: "access_request \<Rightarrow> bool \<Rightarrow> resource_item \<Rightarrow> access_request" where
  "item_request q id_stands i = q\<lparr>rq_type := or_default (it_type i) (rq_type q),
     rq_resource := or_default (or_default (if id_stands then it_id i else []) (it_resource i)) (rq_resource q), rq_key := it_key i,
     rq_owner := or_default (rq_owner q) (it_owner i), rq_permission := or_default ''discover'' (rq_permission q)\<rparr>"

fun filter_thread_resources ::
  "policy_env \<Rightarrow> int \<Rightarrow> string \<Rightarrow> policy_thread list \<Rightarrow> access_request \<Rightarrow> bool \<Rightarrow> resource_item list \<Rightarrow> policy_state \<Rightarrow>
     (policy_error, (resource_item \<times> access_decision) list) result \<times> policy_state" where
  "filter_thread_resources env now uuid ts q id_stands [] stored = (Inr [], stored)"
| "filter_thread_resources env now uuid ts q id_stands (i # items) stored =
     (case authorize_access env now uuid ts (item_request q id_stands i) stored of
        (Inl e, st) \<Rightarrow> (Inl e, st)
      | (Inr d, st) \<Rightarrow>
          (case filter_thread_resources env now uuid ts q id_stands items st of
             (Inl e, st') \<Rightarrow> (Inl e, st')
           | (Inr found, st') \<Rightarrow> (Inr (if dn_allowed d then (i, d) # found else found), st')))"

record grant_list =
  gl_mode :: "string option"
  gl_revision :: int
  gl_policy_revision :: int
  gl_empty :: bool
  gl_thread :: string
  gl_type :: "string option"
  gl_grants :: "grant list"
  gl_resources :: "resource list"

definition list_thread_resource_grants ::
  "policy_env \<Rightarrow> int \<Rightarrow> string \<Rightarrow> policy_thread list \<Rightarrow> string \<Rightarrow> string \<Rightarrow> access_principal option \<Rightarrow> policy_state \<Rightarrow> (policy_error, grant_list) result" where
  "list_thread_resource_grants env now uuid ts thread t p stored =
     (let ty = normalize_resource_type t in
      case get_thread ts thread of
        None \<Rightarrow> Inl (PolicyError ''thread_not_found'' 404)
      | Some x \<Rightarrow>
          if \<not> (case p of None \<Rightarrow> False | Some a \<Rightarrow> can_access_owner env a (owner_of env (pt_owner x)))
          then Inl (PolicyError ''thread_access_forbidden'' 403)
          else
            (let st = normalize_policy_state env (iso_string now) uuid stored;
                 found = filter (\<lambda>g. gr_thread g = pt_id x \<and> grant_is_current env now g \<and> (ty = [] \<or> gr_type g = ty)) (ps_grants st);
                 policy = (if ty = [] then None else policy_of st (pt_id x) ty)
             in Inr \<lparr>gl_mode = (if ty = [] then None else Some (access_mode env ty)), gl_revision = ps_revision st,
               gl_policy_revision = (case policy of None \<Rightarrow> 0 | Some l \<Rightarrow> pl_revision l),
               gl_empty = (case policy of None \<Rightarrow> False | Some l \<Rightarrow> pl_empty l), gl_thread = pt_id x,
               gl_type = (if ty = [] then None else Some ty), gl_grants = found,
               gl_resources = filter (\<lambda>r. list_ex (\<lambda>g. gr_resource g = rs_id r \<and> gr_type g = rs_type r) found) (ps_resources st)\<rparr>))"

end
