(* ===== verification/ResourceChanges.thy ===== *)
theory ResourceChanges
  imports ResourcePolicy
begin

text \<open>
  The changes of the resource policy (\<open>thread-resource-policy-lifecycle.js\<close>,
  \<open>thread-resource-policy-audit-outbox.js\<close>, \<open>thread-resource-rollout.js\<close>): registering resources,
  replacing the grants of a thread, replacing a resource's runtime, capturing the ceiling of a child
  thread, and the delivery of audit rows. Each is an operation inside \<open>mutate_policy\<close>. Metrics and
  events of the log are left out.
\<close>

section \<open>Writing\<close>

definition write_mode :: "policy_env \<Rightarrow> string \<Rightarrow> string" where
  "write_mode env t =
     (let configured = clean_lower (or_default ''unified'' (pe_write_mode env (normalize_resource_type t))) in
      if configured \<in> set [''legacy'', ''dual'', ''unified''] then configured
      else if configured \<noteq> [] then ''invalid'' else ''unified'')"

definition require_unified :: "policy_env \<Rightarrow> string \<Rightarrow> policy_error option" where
  "require_unified env t =
     (if write_mode env t = ''unified'' then None else Some (PolicyError ''thread_resource_legacy_write_mode_unsupported'' 409))"

definition invalidate_sessions :: "(resource_session \<Rightarrow> bool) \<Rightarrow> string \<Rightarrow> string \<Rightarrow> policy_state \<Rightarrow> policy_state" where
  "invalidate_sessions p reason at st = st\<lparr>ps_sessions := map (\<lambda>s.
     if ss_state s = ''active'' \<and> p s
     then s\<lparr>ss_state := ''invalidated'', ss_epoch := (if ss_epoch s = 0 then 1 else ss_epoch s) + 1, ss_invalidated := Some at,
       ss_reason := Some reason, ss_updated := at\<rparr>
     else s) (ps_sessions st)\<rparr>"

definition plain_note :: "string \<Rightarrow> string \<Rightarrow> string \<Rightarrow> string \<Rightarrow> audit_note" where
  "plain_note action t actor reason = \<lparr>an_action = action, an_type = t, an_resource = [], an_thread = [], an_permission = [],
     an_boundary = [], an_owner = [], an_change = [], an_outcome = ''allowed'', an_actor = actor, an_reason = reason, an_expires = []\<rparr>"

definition actor_of :: "access_principal option \<Rightarrow> string" where
  "actor_of p = str_trim (or_default ''system'' (request_user p))"

definition prior_mutation :: "string \<Rightarrow> string \<Rightarrow> policy_state \<Rightarrow> mutation option" where
  "prior_mutation action key st = (if key = [] then None else find (\<lambda>m. mu_action m = action \<and> mu_key m = key) (ps_mutations st))"

definition record_mutation :: "string \<Rightarrow> string \<Rightarrow> mutation_result \<Rightarrow> string \<Rightarrow> policy_state \<Rightarrow> policy_state" where
  "record_mutation action key result at st =
     (if key = [] then st
      else st\<lparr>ps_mutations := ps_mutations st @ [\<lparr>mu_action = action, mu_key = key, mu_result = result, mu_revision = ps_revision st + 1,
        mu_created = at\<rparr>]\<rparr>)"

section \<open>Resources\<close>

definition find_resource :: "string \<Rightarrow> string \<Rightarrow> policy_state \<Rightarrow> resource option" where
  "find_resource t i st = find (\<lambda>r. rs_type r = t \<and> rs_id r = i) (ps_resources st)"

definition registered_row :: "string \<Rightarrow> resource option \<Rightarrow> resource \<Rightarrow> resource" where
  "registered_row at existing r =
     (let retired = (if rs_status r = ''retired'' then (case rs_retired r of Some s \<Rightarrow> Some s | None \<Rightarrow> Some at) else None) in
      case existing of
        None \<Rightarrow> r\<lparr>rs_created := at, rs_updated := at, rs_retired := retired\<rparr>
      | Some x \<Rightarrow> x\<lparr>rs_key := rs_key r, rs_backend := rs_backend r, rs_status := rs_status r,
          rs_generation := max (rs_generation x) (rs_generation r), rs_retired := retired, rs_updated := at\<rparr>)"

definition register_action :: "resource \<Rightarrow> string" where
  "register_action r = ''resources.upsert:'' @ rs_type r @ '':'' @ rs_id r"

definition register_resource :: "string \<Rightarrow> string \<Rightarrow> string \<Rightarrow> resource \<Rightarrow> policy_state \<Rightarrow> (policy_error, (resource \<times> bool) change) result" where
  "register_resource at actor key r st =
     (case map_option mu_result (prior_mutation (register_action r) key st) of
        Some (RegisteredResource x) \<Rightarrow> Inr (Unchanged (x, True))
      | _ \<Rightarrow>
          (let existing = find_resource (rs_type r) (rs_id r) st; row = registered_row at existing r;
               st1 = st\<lparr>ps_resources := filter (\<lambda>x. \<not> (rs_type x = rs_type r \<and> rs_id x = rs_id r)) (ps_resources st) @ [row]\<rparr>;
               st2 = (case existing of
                   Some x \<Rightarrow> if rs_generation x \<noteq> rs_generation row \<or> rs_status x \<noteq> rs_status row \<or> rs_retired x \<noteq> rs_retired row
                     then invalidate_sessions (\<lambda>s. ss_type s = rs_type row \<and> ss_resource s = rs_id row) ''resource_lifecycle_changed'' at st1 else st1
                 | None \<Rightarrow> st1)
           in if (case existing of None \<Rightarrow> False
               | Some x \<Rightarrow> rs_native x \<noteq> rs_native r \<or> rs_owner x \<noteq> rs_owner r \<or> rs_boundary x \<noteq> rs_boundary r)
           then Inl (PolicyError ''thread_resource_identity_conflict'' 409)
           else Inr (Changed (row, False) (record_mutation (register_action r) key (RegisteredResource row) at st2)
             (Some (plain_note ''resource_registered'' (rs_type r) actor (rs_status row))) False)))"

definition register_thread_resource ::
  "policy_env \<Rightarrow> int \<Rightarrow> string \<Rightarrow> access_principal option \<Rightarrow> string \<Rightarrow> resource_input \<Rightarrow> policy_state \<Rightarrow>
     (policy_error, (resource \<times> bool) \<times> int) result \<times> policy_state" where
  "register_thread_resource env now uuid p key raw stored =
     (let t = normalize_resource_type (ri_type raw); status = clean_lower (or_default ''active'' (ri_status raw)) in
      if t = [] then (Inl (PolicyError ''thread_resource_type_invalid'' 400), stored)
      else (case require_unified env t of
          Some e \<Rightarrow> (Inl e, stored)
        | None \<Rightarrow>
            if \<not> request_admin p then (Inl (PolicyError ''thread_resource_registration_admin_required'' 403), stored)
            else if status \<notin> set [''active'', ''suspended'', ''retired''] then (Inl (PolicyError ''thread_resource_status_invalid'' 400), stored)
            else (case normalize_resource env (iso_string now) (raw\<lparr>ri_type := t, ri_status := status\<rparr>) of
                None \<Rightarrow> (Inl (PolicyError ''thread_resource_registration_invalid'' 400), stored)
              | Some r \<Rightarrow> mutate_policy env now uuid (register_resource (iso_string now) (actor_of p) (str_trim key) r) stored)))"

definition resource_of_key :: "policy_env \<Rightarrow> string \<Rightarrow> string \<Rightarrow> string \<Rightarrow> string \<Rightarrow> string \<Rightarrow> string \<Rightarrow> int \<Rightarrow> resource option" where
  "resource_of_key env at t native key owner boundary generation = normalize_resource env at \<lparr>ri_type = t, ri_owner = owner,
     ri_boundary = boundary, ri_canonical = [], ri_id = [], ri_native = native, ri_key = key, ri_other = [], ri_generation = generation,
     ri_status = [], ri_retired = [], ri_backend = [], ri_created = [], ri_updated = []\<rparr>"

definition advance_generation :: "string \<Rightarrow> string \<Rightarrow> string \<Rightarrow> resource \<Rightarrow> policy_state \<Rightarrow> (policy_error, resource change) result" where
  "advance_generation at actor reason candidate st =
     (let t = rs_type candidate; i = rs_id candidate;
          st1 = (if find_resource t i st = None \<and> t = ''desktop'' then st\<lparr>ps_resources := ps_resources st @ [candidate]\<rparr> else st)
      in case find_resource t i st1 of
           None \<Rightarrow> Inl (PolicyError ''thread_resource_not_registered'' 404)
         | Some r \<Rightarrow>
             (let row = r\<lparr>rs_generation := rs_generation r + 1, rs_updated := at\<rparr> in
              Inr (Changed row (invalidate_sessions (\<lambda>s. ss_type s = t \<and> ss_resource s = i) ''resource_generation_advanced'' at
                (st1\<lparr>ps_resources := assign_first (\<lambda>x. rs_type x = t \<and> rs_id x = i) (\<lambda>_. row) (ps_resources st1)\<rparr>))
                (Some (plain_note ''resource_generation_advanced'' t actor (or_default ''resource_runtime_replaced'' reason))) False)))"

definition advance_resource_generation ::
  "policy_env \<Rightarrow> int \<Rightarrow> string \<Rightarrow> access_principal option \<Rightarrow> string \<Rightarrow> string \<Rightarrow> string \<Rightarrow> string \<Rightarrow> string \<Rightarrow> string \<Rightarrow> policy_state \<Rightarrow>
     (policy_error, resource \<times> int) result \<times> policy_state" where
  "advance_resource_generation env now uuid p t key owner native boundary reason stored =
     (let ty = normalize_resource_type t; k = safe_segment key [] in
      if ty = [] \<or> k = [] then (Inl (PolicyError ''thread_resource_not_found'' 404), stored)
      else (case require_unified env ty of
          Some e \<Rightarrow> (Inl e, stored)
        | None \<Rightarrow>
            (case resource_of_key env (iso_string now) ty (or_default k native) k (owner_of env owner) (or_default (resource_boundary_id env) boundary) 0 of
               None \<Rightarrow> (Inl (NullMember ''id''), stored)
             | Some candidate \<Rightarrow> mutate_policy env now uuid (advance_generation (iso_string now) (actor_of p) reason candidate) stored)))"

section \<open>Replacing grants\<close>

record grant_entry =
  ge_native :: string
  ge_key :: string
  ge_permissions :: given_permissions
  ge_expires :: "string option"
  ge_reason :: string
  ge_generation :: int

record normal_entry =
  ne_native :: string
  ne_key :: string
  ne_permissions :: "string list"
  ne_expires :: "string option"
  ne_reason :: string
  ne_generation :: int

record grant_options =
  go_key :: string
  go_expected :: "int option"
  go_source :: string
  go_reason :: string
  go_expires :: "string option"

definition normal_entry_of :: "policy_env \<Rightarrow> int \<Rightarrow> string \<Rightarrow> grant_options \<Rightarrow> grant_entry \<Rightarrow> (policy_error, normal_entry) result" where
  "normal_entry_of env now t opts e =
     and_then (exact_grant_permissions t (ge_permissions e)) (\<lambda>ps. and_then (exact_grant_expiry env now (ge_expires e) (go_expires opts)) (\<lambda>x.
       (let native = safe_segment (or_default (ge_key e) (ge_native e)) [] in
        Inr \<lparr>ne_native = native, ne_key = safe_segment (or_default native (ge_key e)) [], ne_permissions = ps, ne_expires = x,
          ne_reason = str_trim (or_default (go_reason opts) (ge_reason e)), ne_generation = ge_generation e\<rparr>)))"

fun normal_entries :: "policy_env \<Rightarrow> int \<Rightarrow> string \<Rightarrow> grant_options \<Rightarrow> grant_entry list \<Rightarrow> (policy_error, normal_entry list) result" where
  "normal_entries env now t opts [] = Inr []"
| "normal_entries env now t opts (e # es) =
     and_then (normal_entry_of env now t opts e) (\<lambda>n. and_then (normal_entries env now t opts es) (\<lambda>ns. Inr (n # ns)))"

text \<open>\<open>new Map(...)\<close>: a later entry takes the place of an earlier one with the same key.\<close>

fun map_put :: "normal_entry \<Rightarrow> normal_entry list \<Rightarrow> normal_entry list" where
  "map_put n [] = [n]"
| "map_put n (x # xs) = (if ne_native x = ne_native n then n # xs else x # map_put n xs)"

definition entry_map :: "normal_entry list \<Rightarrow> normal_entry list" where
  "entry_map ns = fold map_put (filter (\<lambda>n. ne_key n \<noteq> [] \<and> ne_native n \<noteq> []) ns) []"

function is_descendant :: "policy_thread list \<Rightarrow> string list \<Rightarrow> string \<Rightarrow> policy_thread \<Rightarrow> bool" where
  "is_descendant ts seen ancestor t =
     (if pt_parent t = [] \<or> pt_id t \<in> set seen then False
      else if str_trim (pt_parent t) = str_trim ancestor then True
      else (case thread_by_id ts (str_trim (pt_parent t)) of
          None \<Rightarrow> False
        | Some parent \<Rightarrow> is_descendant ts (pt_id t # seen) ancestor parent))"
  by pat_completeness auto
termination
proof (relation "measure (\<lambda>(ts, seen, ancestor, t). card (insert (pt_id t) (pt_id ` set ts) - set seen))")
  fix ts seen ancestor and t parent :: policy_thread
  assume new: "\<not> (pt_parent t = [] \<or> pt_id t \<in> set seen)" and parent: "thread_by_id ts (str_trim (pt_parent t)) = Some parent"
  have "insert (pt_id parent) (pt_id ` set ts) = pt_id ` set ts" using thread_by_id_in [OF parent] by (metis image_eqI insert_absorb)
  moreover have "pt_id ` set ts - set (pt_id t # seen) \<subset> insert (pt_id t) (pt_id ` set ts) - set seen" using new by auto
  ultimately show "((ts, pt_id t # seen, ancestor, parent), (ts, seen, ancestor, t))
      \<in> measure (\<lambda>(ts, seen, ancestor, t). card (insert (pt_id t) (pt_id ` set ts) - set seen))"
    by (simp add: psubset_card_mono)
qed simp

declare is_descendant.simps [simp del]

definition descends :: "policy_thread list \<Rightarrow> string \<Rightarrow> string \<Rightarrow> bool" where
  "descends ts i ancestor = (case thread_by_id ts (str_trim i) of None \<Rightarrow> False | Some t \<Rightarrow> is_descendant ts [] ancestor t)"

definition revoke_grants :: "string \<Rightarrow> string \<Rightarrow> string \<Rightarrow> string \<Rightarrow> policy_state \<Rightarrow> policy_state" where
  "revoke_grants at actor thread t st = st\<lparr>
     ps_grants := map (\<lambda>g. if gr_thread g = thread \<and> gr_type g = t \<and> given_text (gr_revoked g) = []
       then g\<lparr>gr_revoked := Some at, gr_revoked_by := Some actor, gr_updated := at\<rparr> else g) (ps_grants st),
     ps_deliveries := (if t = ''mailbox'' then map (\<lambda>d. if md_thread d = Some thread \<and> md_state d \<in> set [''pending'', ''claimed'']
         then d\<lparr>md_state := ''revoked'', md_epoch := (if md_epoch d = 0 then 1 else md_epoch d) + 1, md_claim := None, md_claim_expires := None,
           md_reason := Some ''mailbox_grant_replaced'', md_updated := at\<rparr> else d) (ps_deliveries st)
       else ps_deliveries st)\<rparr>"

definition new_grant :: "policy_env \<Rightarrow> string \<Rightarrow> string \<Rightarrow> string \<Rightarrow> string \<Rightarrow> string \<Rightarrow> string \<Rightarrow> policy_state \<Rightarrow> resource \<Rightarrow> normal_entry \<Rightarrow> grant option" where
  "new_grant env at uuid thread owner boundary source st r n = normalize_grant env at uuid \<lparr>gr_id = [], gr_thread = thread,
     gr_type = rs_type r, gr_resource = rs_id r, gr_key = rs_key r, gr_owner = owner, gr_boundary = boundary, gr_permissions = ne_permissions n,
     gr_revision = ps_revision st + 1, gr_source = source, gr_created = [], gr_updated = [], gr_expires = ne_expires n, gr_revoked = None,
     gr_revoked_by = None, gr_reason = Some (ne_reason n)\<rparr>"

text \<open>Outside enforcement a desktop is provisioned by its first grant; anything else must be registered.\<close>

definition grant_one ::
  "policy_env \<Rightarrow> string \<Rightarrow> (nat \<Rightarrow> string) \<Rightarrow> string \<Rightarrow> string \<Rightarrow> string \<Rightarrow> string \<Rightarrow> bool \<Rightarrow> string \<Rightarrow> normal_entry \<Rightarrow> policy_state \<times> grant list \<Rightarrow>
     (policy_error, policy_state \<times> grant list) result" where
  "grant_one env at uuids thread owner boundary t provision source n acc =
     (let (st, made) = acc in
      case resource_of_key env at t (ne_native n) (ne_key n) owner boundary (ne_generation n) of
        None \<Rightarrow> Inl (NullMember ''id'')
      | Some candidate \<Rightarrow>
          (let found = find_resource t (rs_id candidate) st;
               st1 = (if found = None \<and> provision then st\<lparr>ps_resources := ps_resources st @ [candidate]\<rparr> else st)
           in case (if found = None \<and> provision then Some candidate else found) of
                None \<Rightarrow> Inl (PolicyError ''thread_resource_not_registered'' 404)
              | Some r \<Rightarrow>
                  if rs_owner r \<noteq> owner \<or> rs_boundary r \<noteq> boundary \<or> rs_status r \<noteq> ''active''
                  then Inl (PolicyError ''thread_resource_instance_unavailable'' 409)
                  else (case new_grant env at (uuids (length made)) thread owner boundary source st1 r n of
                      None \<Rightarrow> Inl (NullMember ''resourceId'')
                    | Some g \<Rightarrow> Inr (st1\<lparr>ps_grants := ps_grants st1 @ [g]\<rparr>, made @ [g]))))"

fun grant_all ::
  "policy_env \<Rightarrow> string \<Rightarrow> (nat \<Rightarrow> string) \<Rightarrow> string \<Rightarrow> string \<Rightarrow> string \<Rightarrow> string \<Rightarrow> bool \<Rightarrow> string \<Rightarrow> normal_entry list \<Rightarrow> policy_state \<times> grant list \<Rightarrow>
     (policy_error, policy_state \<times> grant list) result" where
  "grant_all env at uuids thread owner boundary t provision source [] acc = Inr acc"
| "grant_all env at uuids thread owner boundary t provision source (n # ns) acc =
     and_then (grant_one env at uuids thread owner boundary t provision source n acc)
       (grant_all env at uuids thread owner boundary t provision source ns)"

definition replaced_policy :: "string \<Rightarrow> string \<Rightarrow> string \<Rightarrow> thread_policy option \<Rightarrow> bool \<Rightarrow> thread_policy" where
  "replaced_policy at thread t prior none_left = \<lparr>pl_thread = thread, pl_type = t,
     pl_revision = (case prior of None \<Rightarrow> 0 | Some p \<Rightarrow> pl_revision p) + 1, pl_empty = none_left,
     pl_mode = (case prior of None \<Rightarrow> ''explicit'' | Some p \<Rightarrow> if pl_mode p = ''snapshot_ceiling'' then ''snapshot_ceiling'' else ''explicit''),
     pl_snapshot = (case prior of None \<Rightarrow> 0 | Some p \<Rightarrow> pl_snapshot p),
     pl_created = (case prior of None \<Rightarrow> at | Some p \<Rightarrow> or_default at (pl_created p)), pl_updated = at\<rparr>"

definition put_policy :: "thread_policy \<Rightarrow> policy_state \<Rightarrow> policy_state" where
  "put_policy p st = st\<lparr>ps_policies := filter (\<lambda>x. \<not> (pl_thread x = pl_thread p \<and> pl_type x = pl_type p)) (ps_policies st) @ [p]\<rparr>"

definition grants_action :: "string \<Rightarrow> string \<Rightarrow> string" where
  "grants_action thread t = ''grants.replace:'' @ thread @ '':'' @ t"

definition affected_resources :: "string \<Rightarrow> string \<Rightarrow> policy_state \<Rightarrow> string list" where
  "affected_resources thread t st =
     map gr_resource (filter (\<lambda>g. gr_thread g = thread \<and> gr_type g = t \<and> given_text (gr_revoked g) = []) (ps_grants st))"

definition grants_session :: "policy_thread list \<Rightarrow> string \<Rightarrow> string \<Rightarrow> string list \<Rightarrow> resource_session \<Rightarrow> bool" where
  "grants_session ts thread t affected s \<longleftrightarrow>
     ss_type s = t \<and> (ss_thread s = thread \<or> (ss_resource s \<in> set affected \<and> (ss_grant_thread s = thread \<or> descends ts (ss_thread s) thread)))"

definition replace_grants ::
  "policy_env \<Rightarrow> string \<Rightarrow> (nat \<Rightarrow> string) \<Rightarrow> policy_thread list \<Rightarrow> string \<Rightarrow> string \<Rightarrow> string \<Rightarrow> bool \<Rightarrow> string \<Rightarrow> grant_options \<Rightarrow> normal_entry list \<Rightarrow>
     policy_state \<Rightarrow> (policy_error, (grant list \<times> thread_policy \<times> bool) change) result" where
  "replace_grants env at uuids ts thread owner t provision actor opts ns st =
     (case map_option mu_result (prior_mutation (grants_action thread t) (str_trim (go_key opts)) st) of
        Some (ReplacedGrants gs p) \<Rightarrow> Inr (Unchanged (gs, p, True))
      | _ \<Rightarrow>
          (let prior = policy_of st thread t in
           if (case go_expected opts of None \<Rightarrow> False | Some n \<Rightarrow> n \<noteq> (case prior of None \<Rightarrow> 0 | Some p \<Rightarrow> pl_revision p))
           then Inl (PolicyError ''thread_resource_policy_revision_conflict'' 409)
           else and_then (grant_all env at uuids thread owner (resource_boundary_id env) t provision (str_trim (or_default ''admin'' (go_source opts))) ns
               (revoke_grants at actor thread t st, [])) (\<lambda>(st1, made).
             (let policy = replaced_policy at thread t prior (made = []);
                  st2 = invalidate_sessions (grants_session ts thread t (affected_resources thread t st @ map gr_resource made)) ''grant_replaced'' at
                    (put_policy policy st1)
              in Inr (Changed (made, policy, False)
                (record_mutation (grants_action thread t) (str_trim (go_key opts)) (ReplacedGrants made policy) at st2)
                (Some (plain_note ''grants_replaced'' t actor (if made = [] then ''explicit_empty_policy'' else ''explicit_grants''))) False)))))"

definition set_thread_resource_grants ::
  "policy_env \<Rightarrow> int \<Rightarrow> string \<Rightarrow> (nat \<Rightarrow> string) \<Rightarrow> policy_thread list \<Rightarrow> access_principal option \<Rightarrow> string \<Rightarrow> string \<Rightarrow> grant_entry list \<Rightarrow>
     grant_options \<Rightarrow> policy_state \<Rightarrow> (policy_error, (grant list \<times> thread_policy \<times> bool) \<times> int) result \<times> policy_state" where
  "set_thread_resource_grants env now uuid uuids ts p thread t entries opts stored =
     (let ty = normalize_resource_type t in
      if ty = [] then (Inl (PolicyError ''thread_resource_type_invalid'' 400), stored)
      else (case require_unified env ty of
          Some e \<Rightarrow> (Inl e, stored)
        | None \<Rightarrow>
            if \<not> request_admin p then (Inl (PolicyError ''thread_resource_grant_admin_required'' 403), stored)
            else (case get_thread ts thread of
                None \<Rightarrow> (Inl (PolicyError ''thread_not_found'' 404), stored)
              | Some x \<Rightarrow>
                  (case normal_entries env now ty opts entries of
                     Inl e \<Rightarrow> (Inl e, stored)
                   | Inr ns \<Rightarrow> mutate_policy env now uuid (replace_grants env (iso_string now) uuids ts (pt_id x) (owner_of env (pt_owner x)) ty
                       (ty = ''desktop'' \<and> access_mode_for env ty (pt_id x) [] \<noteq> ''enforce'') (actor_of p) opts (entry_map ns)) stored))))"

section \<open>The ceiling of a child thread\<close>

text \<open>\<open>threadResourceThreadLineage\<close>: the root first; it ends at a missing parent or a cycle.\<close>

function thread_lineage :: "policy_thread list \<Rightarrow> string list \<Rightarrow> policy_thread \<Rightarrow> policy_thread list" where
  "thread_lineage ts seen t =
     (if pt_id t = [] \<or> pt_id t \<in> set seen then []
      else (case (if str_trim (pt_parent t) = [] then None else get_thread ts (str_trim (pt_parent t))) of
          None \<Rightarrow> [t]
        | Some parent \<Rightarrow> thread_lineage ts (pt_id t # seen) parent @ [t]))"
  by pat_completeness auto
termination
proof (relation "measure (\<lambda>(ts, seen, t). card (insert (pt_id t) (pt_id ` set ts) - set seen))")
  fix ts seen and t parent :: policy_thread
  assume new: "\<not> (pt_id t = [] \<or> pt_id t \<in> set seen)"
    and "(if str_trim (pt_parent t) = [] then None else get_thread ts (str_trim (pt_parent t))) = Some parent"
  then have "parent \<in> set ts" using get_thread_in by (auto split: if_splits)
  then have "insert (pt_id parent) (pt_id ` set ts) = pt_id ` set ts" by auto
  moreover have "pt_id ` set ts - set (pt_id t # seen) \<subset> insert (pt_id t) (pt_id ` set ts) - set seen" using new by auto
  ultimately show "((ts, pt_id t # seen, parent), (ts, seen, t)) \<in> measure (\<lambda>(ts, seen, t). card (insert (pt_id t) (pt_id ` set ts) - set seen))"
    by (simp add: psubset_card_mono)
qed simp

declare thread_lineage.simps [simp del]

definition capture_candidates :: "policy_env \<Rightarrow> int \<Rightarrow> policy_thread list \<Rightarrow> policy_state \<Rightarrow> resource list" where
  "capture_candidates env now lineage st =
     distinct_first (concat (map (\<lambda>t. List.map_filter (\<lambda>g.
       if grant_is_current env now g \<and> gr_thread g = pt_id t
       then (case find_resource (gr_type g) (gr_resource g) st of
           Some r \<Rightarrow> if rs_status r = ''active'' \<and> given_text (rs_retired r) = [] then Some r else None
         | None \<Rightarrow> None)
       else None) (ps_grants st)) lineage))"

text \<open>The permissions of the parent that the declared scope keeps, each with the expiry it is held under.\<close>

fun captured_permissions ::
  "policy_env \<Rightarrow> int \<Rightarrow> policy_state \<Rightarrow> policy_thread list \<Rightarrow> resource \<Rightarrow> declared_scope list \<Rightarrow> string list \<Rightarrow>
     (policy_error, (string \<times> string option) list) result" where
  "captured_permissions env now st lineage r scope [] = Inr []"
| "captured_permissions env now st lineage r scope (p # ps) =
     and_then (effective_for_lineage env now st r p lineage) (\<lambda>found.
       and_then (captured_permissions env now st lineage r scope ps) (\<lambda>rest.
         Inr (case found of
             None \<Rightarrow> rest
           | Some e \<Rightarrow>
               if scope = [] \<or> (case declared_scope_permissions scope r of None \<Rightarrow> False | Some allowed \<Rightarrow> p \<in> set allowed)
               then (p, if given_text (ef_expires e) \<noteq> [] then ef_expires e else gr_expires (ef_grant e)) # rest
               else rest)))"

definition scope_of_type :: "(string \<times> declared_scope list) list \<Rightarrow> string \<Rightarrow> declared_scope list" where
  "scope_of_type scopes t = (case map_of scopes t of None \<Rightarrow> [] | Some ds \<Rightarrow> ds)"

fun capture_all ::
  "policy_env \<Rightarrow> int \<Rightarrow> (nat \<Rightarrow> string) \<Rightarrow> policy_state \<Rightarrow> policy_thread list \<Rightarrow> string \<Rightarrow> string \<Rightarrow> (string \<times> declared_scope list) list \<Rightarrow>
     nat \<Rightarrow> resource list \<Rightarrow> (policy_error, ceiling list \<times> grant list) result" where
  "capture_all env now uuids st lineage child parent scopes k [] = Inr ([], [])"
| "capture_all env now uuids st lineage child parent scopes k (r # rs) =
     (let scope = scope_of_type scopes (rs_type r) in
      and_then (captured_permissions env now st lineage r scope (resource_permissions (rs_type r))) (\<lambda>found.
        and_then (capture_all env now uuids st lineage child parent scopes (Suc k) rs) (\<lambda>(cs, gs).
          if found = [] then Inr (cs, gs)
          else
            (let ceiling = \<lparr>cl_thread = child, cl_type = rs_type r, cl_resource = rs_id r, cl_permissions = map fst found, cl_parent = parent,
                  cl_created = iso_string now\<rparr>;
                 g = (if scope = [] then None
                   else normalize_grant env (iso_string now) (uuids k) \<lparr>gr_id = [], gr_thread = child, gr_type = rs_type r, gr_resource = rs_id r,
                     gr_key = rs_key r, gr_owner = rs_owner r, gr_boundary = rs_boundary r, gr_permissions = map fst found,
                     gr_revision = ps_revision st + 1, gr_source = ''child_scope'', gr_created = [], gr_updated = [],
                     gr_expires = earliest_expiry env (map snd found @ [declared_scope_expiry env scope r]), gr_revoked = None,
                     gr_revoked_by = None, gr_reason = Some ''declared_child_scope''\<rparr>)
             in Inr (ceiling # cs, (case g of None \<Rightarrow> gs | Some x \<Rightarrow> x # gs))))))"

definition snapshot_recorded :: "string \<Rightarrow> policy_state \<Rightarrow> bool" where
  "snapshot_recorded child st \<longleftrightarrow>
     list_all (\<lambda>t. list_ex (\<lambda>p. pl_thread p = child \<and> pl_type p = t \<and> pl_mode p = ''snapshot_ceiling'') (ps_policies st)) resource_types"

definition snapshot_policy :: "string \<Rightarrow> string \<Rightarrow> grant list \<Rightarrow> string \<Rightarrow> policy_state \<Rightarrow> policy_state" where
  "snapshot_policy at child made t st =
     (let prior = policy_of st child t; revision = (case prior of None \<Rightarrow> 0 | Some p \<Rightarrow> pl_revision p) in
      put_policy \<lparr>pl_thread = child, pl_type = t,
        pl_revision = (if t \<in> gr_type ` set made then max 1 (revision + 1) else revision),
        pl_empty = explicit_empty st child t, pl_mode = ''snapshot_ceiling'', pl_snapshot = ps_revision st,
        pl_created = (case prior of None \<Rightarrow> at | Some p \<Rightarrow> or_default at (pl_created p)), pl_updated = at\<rparr> st)"

definition capture_ceiling ::
  "policy_env \<Rightarrow> int \<Rightarrow> (nat \<Rightarrow> string) \<Rightarrow> policy_thread list \<Rightarrow> string \<Rightarrow> string \<Rightarrow> (string \<times> declared_scope list) list \<Rightarrow> policy_state \<Rightarrow>
     (policy_error, nat change) result" where
  "capture_ceiling env now uuids lineage child parent scopes st =
     (if snapshot_recorded child st then Inr (Unchanged 0)
      else and_then (capture_all env now uuids st lineage child parent scopes 0 (capture_candidates env now lineage st)) (\<lambda>(cs, gs).
        Inr (Changed (length cs)
          (fold (snapshot_policy (iso_string now) child gs) resource_types
            (st\<lparr>ps_ceilings := ps_ceilings st @ cs, ps_grants := ps_grants st @ gs\<rparr>))
          (if cs = [] then None else Some (plain_note ''child_snapshot_ceiling_captured'' [] ''system'' ''parent_snapshot_ceiling'')) False)))"

fun declared_scopes :: "policy_env \<Rightarrow> int \<Rightarrow> policy_thread \<Rightarrow> string list \<Rightarrow> (policy_error, (string \<times> declared_scope list) list) result" where
  "declared_scopes env now t [] = Inr []"
| "declared_scopes env now t (ty # tys) =
     and_then (declared_child_scope_entries env now t ty) (\<lambda>ds. and_then (declared_scopes env now t tys) (\<lambda>rest. Inr ((ty, ds) # rest)))"

text \<open>\<open>None\<close> is the answer for a thread without a parent.\<close>

definition capture_child_ceiling ::
  "policy_env \<Rightarrow> int \<Rightarrow> string \<Rightarrow> (nat \<Rightarrow> string) \<Rightarrow> policy_thread list \<Rightarrow> policy_thread \<Rightarrow> policy_state \<Rightarrow>
     (policy_error, (nat \<times> int) option) result \<times> policy_state" where
  "capture_child_ceiling env now uuid uuids ts child stored =
     (if str_trim (pt_id child) = [] \<or> str_trim (pt_parent child) = [] then (Inr None, stored)
      else (case get_thread ts (str_trim (pt_parent child)) of
          None \<Rightarrow> (Inl (PolicyError ''thread_resource_parent_not_found'' 409), stored)
        | Some parent \<Rightarrow>
            (case declared_scopes env now child resource_types of
               Inl e \<Rightarrow> (Inl e, stored)
             | Inr scopes \<Rightarrow>
                 (case mutate_policy env now uuid (capture_ceiling env now uuids (thread_lineage ts [] parent) (str_trim (pt_id child)) (pt_id parent) scopes) stored of
                    (Inl e, st) \<Rightarrow> (Inl e, st)
                  | (Inr x, st) \<Rightarrow> (Inr (Some x), st)))))"

section \<open>Delivery of audit rows\<close>

definition claimable_audit :: "policy_env \<Rightarrow> int \<Rightarrow> audit_row \<Rightarrow> bool" where
  "claimable_audit env now a \<longleftrightarrow> ar_state a = ''pending'' \<or> (ar_state a = ''claimed''
     \<and> (case pe_parse env (given_text (ar_claim_expires a)) of None \<Rightarrow> True | Some t \<Rightarrow> t \<le> now))"

text \<open>The first rows that satisfy a test, up to a limit, changed in place; and what became of them.\<close>

fun change_some :: "nat \<Rightarrow> ('a \<Rightarrow> bool) \<Rightarrow> ('a \<Rightarrow> 'a) \<Rightarrow> 'a list \<Rightarrow> 'a list \<times> 'a list" where
  "change_some n p f [] = ([], [])"
| "change_some n p f (x # xs) =
     (case n of
        0 \<Rightarrow> (x # xs, [])
      | Suc m \<Rightarrow>
          if p x then (let (ys, hit) = change_some m p f xs in (f x # ys, f x # hit))
          else (let (ys, hit) = change_some n p f xs in (x # ys, hit)))"

definition claim_audit :: "policy_env \<Rightarrow> int \<Rightarrow> string \<Rightarrow> nat \<Rightarrow> int \<Rightarrow> policy_state \<Rightarrow> (policy_error, (string \<times> audit_row list) change) result" where
  "claim_audit env now token limit lease st =
     (let (rows, claimed) = change_some limit (claimable_audit env now) (\<lambda>a. a\<lparr>ar_state := ''claimed'', ar_claim := Some token,
          ar_claim_expires := Some (iso_string (now + lease)), ar_delivered := None\<rparr>) (ps_audit st) in
      if claimed = [] then Inr (Unchanged ([], []))
      else Inr (Changed (token, claimed) (st\<lparr>ps_audit := rows\<rparr>) None True))"

definition claim_policy_audit ::
  "policy_env \<Rightarrow> int \<Rightarrow> string \<Rightarrow> string \<Rightarrow> int \<Rightarrow> int \<Rightarrow> policy_state \<Rightarrow> (policy_error, (string \<times> audit_row list) \<times> int) result \<times> policy_state" where
  "claim_policy_audit env now uuid token limit lease stored =
     mutate_policy env now uuid (claim_audit env now token (nat (max 1 (min 500 (if limit = 0 then 100 else limit))))
       (max 1000 (min 300000 (if lease = 0 then 30000 else lease)))) stored"

definition deliver_audit :: "int \<Rightarrow> string \<Rightarrow> string list \<Rightarrow> policy_state \<Rightarrow> (policy_error, nat change) result" where
  "deliver_audit now token ids st =
     (let hit = (\<lambda>a. ar_id a \<in> set ids \<and> ar_state a = ''claimed'' \<and> ar_claim a = Some token);
          rows = map (\<lambda>a. if hit a then a\<lparr>ar_state := ''delivered'', ar_claim := None, ar_claim_expires := None,
            ar_delivered := Some (iso_string now)\<rparr> else a) (ps_audit st);
          n = length (filter hit (ps_audit st))
      in if n = 0 then Inr (Unchanged 0) else Inr (Changed n (st\<lparr>ps_audit := rows\<rparr>) None True))"

definition mark_audit_delivered ::
  "policy_env \<Rightarrow> int \<Rightarrow> string \<Rightarrow> string \<Rightarrow> string list \<Rightarrow> policy_state \<Rightarrow> (policy_error, nat \<times> int) result \<times> policy_state" where
  "mark_audit_delivered env now uuid token ids stored =
     (let requested = filter (\<lambda>i. i \<noteq> []) (map str_trim ids) in
      if str_trim token = [] \<or> requested = [] then (Inr (0, ps_revision stored), stored)
      else mutate_policy env now uuid (deliver_audit now (str_trim token) requested) stored)"

end
