(* ===== verification/ResourceFacts.thy ===== *)
theory ResourceFacts
  imports ResourceChanges OutboxFacts
begin

text \<open>
  What the resource policy guarantees: an enforced access rests on a registered resource and a grant
  that reaches the thread through every ceiling above it; replacing the grants of a thread cuts off
  everything below it; the two ways in which the code computes an effective grant agree.
\<close>

section \<open>Normal names\<close>

lemma clean_lower_again [simp]: "clean_lower (clean_lower s) = clean_lower s"
  using lower_text_idem [of s] by (simp add: clean_lower_def lower_text_def)

lemma trim_clean_lower [simp]: "str_trim (clean_lower s) = clean_lower s"
  by (simp add: clean_lower_def str_trim_lower)

lemma normalize_resource_type_alt: "normalize_resource_type s = (if clean_lower s \<in> set resource_types then clean_lower s else [])"
  by (simp add: normalize_resource_type_def clean_lower_def Let_def)

lemma clean_lower_nil [simp]: "clean_lower [] = []"
  by (simp add: clean_lower_def str_trim_def to_lower_def)

lemma normalize_resource_type_again [simp]: "normalize_resource_type (normalize_resource_type s) = normalize_resource_type s"
  by (simp add: normalize_resource_type_alt resource_types_def)

lemma given_or_none: "(if c then None else Some a) = Some r \<Longrightarrow> a = r"
  by (simp split: if_splits)

lemma normalize_resource_type_of: "normalize_resource env now raw = Some r \<Longrightarrow> rs_type r = normalize_resource_type (ri_type raw)"
  unfolding normalize_resource_def Let_def by (drule given_or_none) (erule subst, simp)

section \<open>Chains of authority\<close>

inductive below :: "policy_thread list \<Rightarrow> policy_thread \<Rightarrow> policy_thread \<Rightarrow> bool" for ts x where
  Self: "below ts x x"
| Child: "str_trim (pt_parent t) \<noteq> [] \<Longrightarrow> get_thread ts (str_trim (pt_parent t)) = Some parent \<Longrightarrow> below ts x parent \<Longrightarrow> below ts x t"

text \<open>
  \<open>holds\<close>: the thread's authority comes from a root with a current grant of its own, through threads
  whose ceilings all contain the permission and none of which is explicitly empty.
\<close>

inductive holds :: "policy_env \<Rightarrow> int \<Rightarrow> policy_thread list \<Rightarrow> policy_state \<Rightarrow> resource \<Rightarrow> string \<Rightarrow> policy_thread \<Rightarrow> bool"
    for env now ts st r permission where
  Root: "str_trim (pt_parent t) = [] \<Longrightarrow> g \<in> set (direct_grants env now st (pt_id t) r) \<Longrightarrow> permission \<in> set (gr_permissions g) \<Longrightarrow>
     holds env now ts st r permission t"
| Inherits: "str_trim (pt_parent t) \<noteq> [] \<Longrightarrow> get_thread ts (str_trim (pt_parent t)) = Some parent \<Longrightarrow>
     holds env now ts st r permission parent \<Longrightarrow> ceiling_allows st (pt_id t) r permission \<Longrightarrow> \<not> explicit_empty st (pt_id t) (rs_type r) \<Longrightarrow>
     holds env now ts st r permission t"

inductive_cases holdsE: "holds env now ts st r permission t"

lemma direct_grant_Some:
  "direct_grant env now st i r permission = Some g \<Longrightarrow> g \<in> set (direct_grants env now st i r) \<and> permission \<in> set (gr_permissions g)"
  by (auto simp: direct_grant_def find_Some_iff)

lemma effective_grant_parent:
  assumes "effective_grant env now ts st r permission seen t = Inr (Some e)" and "str_trim (pt_parent t) \<noteq> []"
  obtains parent e' narrowed where "get_thread ts (str_trim (pt_parent t)) = Some parent"
    "effective_grant env now ts st r permission (pt_id t # seen) parent = Inr (Some e')"
    "ceiling_allows st (pt_id t) r permission" "\<not> explicit_empty st (pt_id t) (rs_type r)"
    "is_narrowed env now st t r = Inr narrowed"
    "e = (if narrowed then narrowed_to env t e' (the (direct_grant env now st (pt_id t) r permission))
      else e'\<lparr>ef_expires := earliest_expiry env [ef_expires e', gr_expires (ef_grant e')], ef_by := pt_id t, ef_from := gr_thread (ef_grant e')\<rparr>)"
    "narrowed \<Longrightarrow> direct_grant env now st (pt_id t) r permission \<noteq> None"
  using assms by (subst (asm) effective_grant.simps)
    (auto simp: Let_def and_then_Inr_iff split: if_splits option.splits)

lemma effective_grant_holds:
  "effective_grant env now ts st r permission seen t = Inr (Some e) \<Longrightarrow> holds env now ts st r permission t"
proof (induction env now ts st r permission seen t arbitrary: e rule: effective_grant.induct)
  case (1 env now ts st r permission seen t)
  show ?case
  proof (cases "str_trim (pt_parent t) = []")
    case True
    with "1.prems" obtain g where "direct_grant env now st (pt_id t) r permission = Some g"
      by (subst (asm) effective_grant.simps) (auto simp: Let_def split: if_splits)
    with True direct_grant_Some show ?thesis by (blast intro: holds.Root)
  next
    case False
    have new: "\<not> (pt_id t = [] \<or> pt_id t \<in> set seen)"
      using "1.prems" by (subst (asm) effective_grant.simps) (auto split: if_splits)
    obtain parent e' where parent: "get_thread ts (str_trim (pt_parent t)) = Some parent"
      "effective_grant env now ts st r permission (pt_id t # seen) parent = Inr (Some e')"
      "ceiling_allows st (pt_id t) r permission" "\<not> explicit_empty st (pt_id t) (rs_type r)"
      by (rule effective_grant_parent [OF "1.prems" False])
    with "1.IH" [OF new refl False _ parent(1)] False show ?thesis by (blast intro: holds.Inherits)
  qed
qed

lemma holds_above:
  "below ts x y \<Longrightarrow> holds env now ts st r permission y \<Longrightarrow> holds env now ts st r permission x"
  by (induction rule: below.induct) (auto elim: holdsE)

section \<open>The two ways of computing the effective grant\<close>

lemma lineage_below_append:
  "lineage_below env now st r permission e (l @ [t])
   = and_then (lineage_below env now st r permission e l) (\<lambda>e'. lineage_below env now st r permission e' [t])"
proof (induction l arbitrary: e)
  case (Cons u l)
  have none: "lineage_below env now st r permission None (m @ [t]) = Inr None" for m by (cases m) simp_all
  show ?case
    using Cons
    by (cases e; cases "is_narrowed env now st u r"; cases "direct_grant env now st (pt_id u) r permission") (simp_all add: none)
qed simp

lemma effective_for_lineage_append:
  "l \<noteq> [] \<Longrightarrow> effective_for_lineage env now st r permission (l @ [t])
   = and_then (effective_for_lineage env now st r permission l) (\<lambda>e. lineage_below env now st r permission e [t])"
  by (cases l) (simp_all only: append_Cons effective_for_lineage.simps lineage_below_append, simp)

definition same_answer :: "(policy_error, effective option) result \<Rightarrow> (policy_error, effective option) result \<Rightarrow> bool" where
  "same_answer a b \<longleftrightarrow> (\<forall>g. (\<exists>e. a = Inr (Some e) \<and> ef_grant e = g) \<longleftrightarrow> (\<exists>e. b = Inr (Some e) \<and> ef_grant e = g))"

lemma same_answer_Ex:
  assumes "same_answer a b"
  shows "(\<exists>e. a = Inr (Some e) \<and> p (ef_grant e)) \<longleftrightarrow> (\<exists>e. b = Inr (Some e) \<and> p (ef_grant e))"
proof
  assume "\<exists>e. a = Inr (Some e) \<and> p (ef_grant e)"
  then obtain e where e: "a = Inr (Some e)" "p (ef_grant e)" by blast
  with assms obtain e' where "b = Inr (Some e')" "ef_grant e' = ef_grant e" unfolding same_answer_def by metis
  with e show "\<exists>e. b = Inr (Some e) \<and> p (ef_grant e)" by auto
next
  assume "\<exists>e. b = Inr (Some e) \<and> p (ef_grant e)"
  then obtain e where e: "b = Inr (Some e)" "p (ef_grant e)" by blast
  with assms obtain e' where "a = Inr (Some e')" "ef_grant e' = ef_grant e" unfolding same_answer_def by metis
  with e show "\<exists>e. a = Inr (Some e) \<and> p (ef_grant e)" by auto
qed

text \<open>Parents are named by ids: a name or a binding of a thread never stands in for an id.\<close>

definition parents_by_id :: "policy_thread list \<Rightarrow> bool" where
  "parents_by_id ts \<longleftrightarrow> (\<forall>t\<in>set ts. str_trim (pt_parent t) \<noteq> [] \<longrightarrow> get_thread ts (str_trim (pt_parent t)) = thread_by_id ts (str_trim (pt_parent t)))"

text \<open>The grant of a child under the grant of its parent, whichever way it is computed.\<close>

definition child_grant :: "policy_env \<Rightarrow> int \<Rightarrow> policy_state \<Rightarrow> resource \<Rightarrow> string \<Rightarrow> policy_thread \<Rightarrow> grant \<Rightarrow> grant option" where
  "child_grant env now st r permission t parent =
     (if \<not> ceiling_allows st (pt_id t) r permission \<or> explicit_empty st (pt_id t) (rs_type r) then None
      else (case is_narrowed env now st t r of
          Inl _ \<Rightarrow> None
        | Inr narrowed \<Rightarrow> if narrowed
            then map_option (\<lambda>g. g\<lparr>gr_revision := max (gr_revision parent) (gr_revision g)\<rparr>) (direct_grant env now st (pt_id t) r permission)
            else Some parent))"

lemma effective_grant_step:
  assumes "\<not> (pt_id t = [] \<or> pt_id t \<in> set seen)" "str_trim (pt_parent t) \<noteq> []" "get_thread ts (str_trim (pt_parent t)) = Some parent"
  shows "(\<exists>e. effective_grant env now ts st r permission seen t = Inr (Some e) \<and> ef_grant e = g)
    \<longleftrightarrow> (\<exists>e. effective_grant env now ts st r permission (pt_id t # seen) parent = Inr (Some e)
        \<and> child_grant env now st r permission t (ef_grant e) = Some g)"
proof -
  note R = effective_grant.simps [of env now ts st r permission seen t]
  show ?thesis
  proof (cases "effective_grant env now ts st r permission (pt_id t # seen) parent")
    case (Inr found)
    show ?thesis
    proof (cases found)
      case (Some e)
      show ?thesis
        using assms Inr Some
        by (cases "is_narrowed env now st t r"; cases "direct_grant env now st (pt_id t) r permission")
          (simp_all add: R Let_def child_grant_def narrowed_to_def)
    qed (use assms Inr in \<open>simp add: R Let_def\<close>)
  qed (use assms in \<open>simp add: R Let_def\<close>)
qed

lemma lineage_step:
  "(\<exists>e. lineage_below env now st r permission (Some e') [t] = Inr (Some e) \<and> ef_grant e = g)
   \<longleftrightarrow> child_grant env now st r permission t (ef_grant e') = Some g"
  by (auto simp: child_grant_def narrowed_to_def split: option.splits sum.splits)

lemma lineage_agrees:
  shows "parents_by_id ts \<Longrightarrow> t \<in> set ts \<Longrightarrow> (case lineage_of ts seen t of
      None \<Rightarrow> \<forall>e. effective_grant env now ts st r permission seen t \<noteq> Inr (Some e)
    | Some l \<Rightarrow> same_answer (effective_grant env now ts st r permission seen t) (effective_for_lineage env now st r permission l)
        \<and> (l = [] \<longleftrightarrow> pt_id t = []))"
proof (induction ts seen t rule: lineage_of.induct)
  case (1 ts seen t)
  note R = effective_grant.simps [of env now ts st r permission seen t] and L = lineage_of.simps [of ts seen t]
  show ?case
  proof (cases "pt_id t = [] \<or> pt_id t \<in> set seen")
    case True
    then show ?thesis by (auto simp: R L same_answer_def)
  next
    case new: False
    show ?thesis
    proof (cases "str_trim (pt_parent t) = []")
      case True
      with new show ?thesis
        by (auto simp: R L same_answer_def lineage_root_def)
    next
      case False
      have by_id: "get_thread ts (str_trim (pt_parent t)) = thread_by_id ts (str_trim (pt_parent t))"
        using "1.prems" False by (simp add: parents_by_id_def)
      show ?thesis
      proof (cases "thread_by_id ts (str_trim (pt_parent t))")
        case None
        with new False by_id show ?thesis by (auto simp: R L Let_def)
      next
        case (Some parent)
        note parent = thread_by_id_in [OF Some]
        have IH: "case lineage_of ts (pt_id t # seen) parent of
            None \<Rightarrow> \<forall>e. effective_grant env now ts st r permission (pt_id t # seen) parent \<noteq> Inr (Some e)
          | Some l \<Rightarrow> same_answer (effective_grant env now ts st r permission (pt_id t # seen) parent) (effective_for_lineage env now st r permission l)
              \<and> (l = [] \<longleftrightarrow> pt_id parent = [])"
          using "1.IH" new False Some parent "1.prems" by blast
        note step = effective_grant_step [OF new False by_id [unfolded Some], of env now st r permission]
        show ?thesis
        proof (cases "lineage_of ts (pt_id t # seen) parent")
          case None
          with IH step new False Some show ?thesis by (auto simp: L)
        next
          case l: (Some l)
          have nonempty: "l \<noteq> []" using IH l parent False by auto
          have same: "same_answer (effective_grant env now ts st r permission (pt_id t # seen) parent) (effective_for_lineage env now st r permission l)"
            using IH l by simp
          have low: "(\<exists>e. effective_for_lineage env now st r permission (l @ [t]) = Inr (Some e) \<and> ef_grant e = g)
              \<longleftrightarrow> (\<exists>e. effective_for_lineage env now st r permission l = Inr (Some e) \<and> child_grant env now st r permission t (ef_grant e) = Some g)" for g
          proof -
            have "(\<exists>e. effective_for_lineage env now st r permission (l @ [t]) = Inr (Some e) \<and> ef_grant e = g)
                \<longleftrightarrow> (\<exists>e'. effective_for_lineage env now st r permission l = Inr (Some e')
                  \<and> (\<exists>e. lineage_below env now st r permission (Some e') [t] = Inr (Some e) \<and> ef_grant e = g))"
            proof (cases "effective_for_lineage env now st r permission l")
              case (Inr found)
              then show ?thesis
                unfolding effective_for_lineage_append [OF nonempty]
                by (cases found) (simp_all del: lineage_below.simps, simp)
            qed (simp add: effective_for_lineage_append [OF nonempty])
            then show ?thesis unfolding lineage_step .
          qed
          have "same_answer (effective_grant env now ts st r permission seen t) (effective_for_lineage env now st r permission (l @ [t]))"
            unfolding same_answer_def
          proof
            fix g
            show "(\<exists>e. effective_grant env now ts st r permission seen t = Inr (Some e) \<and> ef_grant e = g)
                \<longleftrightarrow> (\<exists>e. effective_for_lineage env now st r permission (l @ [t]) = Inr (Some e) \<and> ef_grant e = g)"
              using step [of g] low [of g] same_answer_Ex [OF same, of "\<lambda>h. child_grant env now st r permission t h = Some g"] by argo
          qed
          then show ?thesis using new False Some l by (simp add: L)
        qed
      qed
    qed
  qed
qed

lemma snapshot_finds:
  assumes "parents_by_id ts" and "thread_by_id ts (str_trim i) = Some t"
    and "find (\<lambda>r. rs_type r = normalize_resource_type ty \<and> rs_id r = str_trim rid) (ps_resources st) = Some r"
    and "rs_status r = ''active''" "given_text (rs_retired r) = []"
    and "normalize_resource_type ty \<noteq> []" "permission_for (normalize_resource_type ty) action \<noteq> []"
  shows "(\<exists>e. effective_from_snapshot env now ts st i ty rid action = Some e \<and> ef_grant e = g)
    \<longleftrightarrow> (\<exists>e. effective_grant env now ts st r (permission_for (normalize_resource_type ty) action) [] t = Inr (Some e) \<and> ef_grant e = g)"
proof -
  let ?p = "permission_for (normalize_resource_type ty) action"
  have "t \<in> set ts" using thread_by_id_in [OF assms(2)] by simp
  note agrees = lineage_agrees [OF assms(1) this, where seen = "[]" and env = env and now = now and st = st and r = r and permission = ?p]
  have snapshot: "effective_from_snapshot env now ts st i ty rid action
      = (case lineage_of ts [] t of None \<Rightarrow> None
        | Some l \<Rightarrow> (case effective_for_lineage env now st r ?p l of Inl _ \<Rightarrow> None | Inr e \<Rightarrow> e))"
    using assms by (simp add: effective_from_snapshot_def Let_def)
  show ?thesis
  proof (cases "lineage_of ts [] t")
    case None
    with agrees snapshot show ?thesis by simp
  next
    case (Some l)
    then have same: "same_answer (effective_grant env now ts st r ?p [] t) (effective_for_lineage env now st r ?p l)" using agrees by simp
    have "(\<exists>e. effective_from_snapshot env now ts st i ty rid action = Some e \<and> ef_grant e = g)
        \<longleftrightarrow> (\<exists>e. effective_for_lineage env now st r ?p l = Inr (Some e) \<and> ef_grant e = g)"
      using snapshot Some by (cases "effective_for_lineage env now st r ?p l") simp_all
    then show ?thesis using same_answer_Ex [OF same, of "\<lambda>h. h = g"] by argo
  qed
qed

text \<open>
  C15: the report on a snapshot and the authorization find the same grant, or both none, where parents
  are named by their ids; broken and cyclic lineages give none in both.
\<close>

theorem snapshot_agrees:
  assumes "parents_by_id ts" and "thread_by_id ts (str_trim i) = Some t"
    and "find (\<lambda>r. rs_type r = normalize_resource_type ty \<and> rs_id r = str_trim rid) (ps_resources st) = Some r"
    and "rs_status r = ''active''" "given_text (rs_retired r) = []"
    and "normalize_resource_type ty \<noteq> []" "permission_for (normalize_resource_type ty) action \<noteq> []"
  shows "map_option ef_grant (effective_from_snapshot env now ts st i ty rid action)
    = (case effective_grant env now ts st r (permission_for (normalize_resource_type ty) action) [] t of
         Inr (Some e) \<Rightarrow> Some (ef_grant e) | _ \<Rightarrow> None)"
proof (cases "effective_from_snapshot env now ts st i ty rid action")
  case None
  with snapshot_finds [OF assms, of env now] show ?thesis by (auto split: sum.splits option.splits)
next
  case (Some e)
  with snapshot_finds [OF assms, of env now "ef_grant e"] show ?thesis by auto
qed

section \<open>An enforced access\<close>

lemma holds_cong:
  assumes "rs_type r = rs_type x" "rs_id r = rs_id x" "rs_owner r = rs_owner x" "rs_boundary r = rs_boundary x"
  shows "holds env now ts st r permission t \<Longrightarrow> holds env now ts st x permission t"
proof (induction rule: holds.induct)
  case (Root t g)
  have "direct_grants env now st (pt_id t) x = direct_grants env now st (pt_id t) r" unfolding direct_grants_def assms ..
  with Root show ?case by (metis holds.Root)
next
  case (Inherits t parent)
  have "ceiling_allows st (pt_id t) x permission = ceiling_allows st (pt_id t) r permission"
    unfolding ceiling_allows_def ceiling_of_def assms ..
  with Inherits assms(1) show ?case by (metis holds.Inherits)
qed

lemma denial_enforced: "dn_mode base = ''enforce'' \<Longrightarrow> \<not> dn_allowed base \<Longrightarrow> \<not> dn_allowed (denial base reason)"
  by (simp add: denial_def)

lemma dn_mode_denial [simp]: "dn_mode (denial base reason) = dn_mode base"
  by (simp add: denial_def)

lemma guard_passed:
  "(if c then Inr a else rest) = Inr d \<Longrightarrow> dn_allowed d \<Longrightarrow> \<not> dn_allowed a \<Longrightarrow> \<not> c \<and> rest = Inr d"
  by (simp split: if_splits)

lemma grant_decision_allowed:
  assumes "grant_decision env now ts st base r thread = Inr d" "dn_allowed d" "dn_mode base = ''enforce''" "\<not> dn_allowed base"
  obtains t e where "thread = Some t" "effective_grant env now ts st r (dn_permission base) [] t = Inr (Some e)" "dn_glass d = dn_glass base"
    "dn_resource d = dn_resource base"
proof -
  obtain found where found: "(case thread of None \<Rightarrow> Inr None | Some t \<Rightarrow> effective_grant env now ts st r (dn_permission base) [] t) = Inr found"
    using assms(1) by (auto simp: grant_decision_def and_then_Inr_iff)
  with assms denial_enforced obtain e where e: "found = Some e"
    by (cases found) (auto simp: grant_decision_def)
  then obtain t where "thread = Some t" using found by (cases thread) simp_all
  with that found e assms(1) show thesis by (auto simp: grant_decision_def)
qed

text \<open>What an access that is allowed in the mode \<open>enforce\<close> rests on.\<close>

definition access_backed :: "policy_env \<Rightarrow> int \<Rightarrow> policy_thread list \<Rightarrow> policy_state \<Rightarrow> access_request \<Rightarrow> resource \<Rightarrow> policy_thread \<Rightarrow> bool \<Rightarrow> bool" where
  "access_backed env now ts st q x t glass \<longleftrightarrow>
     x \<in> set (ps_resources st) \<and> rs_type x = normalize_resource_type (rq_type q) \<and> rs_status x = ''active'' \<and> given_text (rs_retired x) = []
     \<and> rs_boundary x = resource_boundary_id env \<and> request_thread ts q = Some t
     \<and> rs_owner x = normalize_user_id (or_default (requested_owner env ts q) (pt_owner t))
     \<and> (case rq_principal q of None \<Rightarrow> True | Some p \<Rightarrow> can_access_owner env p (rs_owner x))
     \<and> (if glass then rq_glass q \<and> request_admin (rq_principal q) \<and> str_trim (rq_reason q) \<noteq> [] \<and> str_trim (rq_change q) \<noteq> []
          \<and> recent_auth env now (rq_principal q)
        else holds env now ts st x (permission_for (normalize_resource_type (rq_type q)) (rq_permission q)) t)"

lemma stored_decision_allowed:
  assumes "stored_decision env now ts st q base x r = Inr d" "dn_allowed d" "dn_mode base = ''enforce''" "\<not> dn_allowed base" "\<not> dn_glass base"
    and "x \<in> set (ps_resources st)" "rs_type x = normalize_resource_type (rq_type q)" "rs_type r = rs_type x" "rs_id r = rs_id x"
      "rs_boundary r = resource_boundary_id env"
    and "dn_permission base = permission_for (normalize_resource_type (rq_type q)) (rq_permission q)"
  shows "rs_owner x = rs_owner r" "rs_boundary x = rs_boundary r" "rs_native x = rs_native r"
    and "\<exists>t. access_backed env now ts st q x t (dn_glass d) \<and> dn_resource d = dn_resource base"
proof -
  let ?owner = "normalize_user_id (or_default (requested_owner env ts q) (thread_owner (request_thread ts q)))"
  let ?base = "base\<lparr>dn_generation := rs_generation x\<rparr>"
  let ?base2 = "?base\<lparr>dn_owner := ?owner\<rparr>"
  note run = assms(1) [unfolded stored_decision_def Let_def]
  have no: "\<not> dn_allowed (denial b reason)" if "b = base \<or> b = ?base2" for b reason
    using that assms(3,4) by (auto simp: denial_def)
  note pass1 = guard_passed [OF run assms(2) no, OF disjI1 [OF refl]]
  note pass2 = guard_passed [OF conjunct2 [OF pass1] assms(2) no, OF disjI1 [OF refl]]
  note pass3 = guard_passed [OF conjunct2 [OF pass2] assms(2) no, OF disjI2 [OF refl]]
  note pass4 = guard_passed [OF conjunct2 [OF pass3] assms(2) no, OF disjI2 [OF refl]]
  note pass5 = guard_passed [OF conjunct2 [OF pass4] assms(2) no, OF disjI2 [OF refl]]
  have off: "\<not> dn_allowed (?base2\<lparr>dn_reason := reason\<rparr>)" for reason using assms(4) by simp
  note pass6 = guard_passed [OF conjunct2 [OF pass5] assms(2) off]
  have same: "rs_owner x = rs_owner r" "rs_boundary x = rs_boundary r" "rs_status x = ''active''" "given_text (rs_retired x) = []"
    using conjunct1 [OF pass1] conjunct1 [OF pass2] by simp_all
  show "rs_owner x = rs_owner r" "rs_boundary x = rs_boundary r" by (rule same)+
  show "rs_native x = rs_native r" using conjunct1 [OF pass1] by simp
  have owner: "?owner = rs_owner r" using conjunct1 [OF pass5] by simp
  have backed: "access_backed env now ts st q x t glass"
    if "request_thread ts q = Some t" and "if glass then rq_glass q \<and> request_admin (rq_principal q) \<and> str_trim (rq_reason q) \<noteq> []
        \<and> str_trim (rq_change q) \<noteq> [] \<and> recent_auth env now (rq_principal q)
      else holds env now ts st x (permission_for (normalize_resource_type (rq_type q)) (rq_permission q)) t" for t glass
  proof -
    have "case rq_principal q of None \<Rightarrow> True | Some p \<Rightarrow> can_access_owner env p (rs_owner x)"
      using conjunct1 [OF pass4] that(1) owner same(1) by (simp split: option.splits)
    moreover have "rs_owner x = normalize_user_id (or_default (requested_owner env ts q) (pt_owner t))"
      using owner same(1) that(1) by (simp add: thread_owner_def)
    moreover have "rs_boundary x = resource_boundary_id env" using same(2) assms(10) by simp
    ultimately show ?thesis unfolding access_backed_def by (intro conjI assms(6,7) same(3,4) that)
  qed
  show "\<exists>t. access_backed env now ts st q x t (dn_glass d) \<and> dn_resource d = dn_resource base"
  proof (cases "rq_glass q")
    case True
    then have "d = glass_decision env now st ?base2 r q" using conjunct2 [OF pass6] by simp
    then have "dn_glass d" "dn_resource d = dn_resource base" by (simp_all add: glass_decision_def)
    moreover obtain t where "request_thread ts q = Some t"
      using conjunct1 [OF pass3] conjunct1 [OF pass6] True by (cases "request_thread ts q") simp_all
    ultimately show ?thesis using backed [of t "dn_glass d"] conjunct1 [OF pass6] True by (intro exI [of _ t]) simp
  next
    case False
    then have run: "grant_decision env now ts st ?base2 r (request_thread ts q) = Inr d" using conjunct2 [OF pass6] by simp
    obtain t e where t: "request_thread ts q = Some t" "effective_grant env now ts st r (dn_permission ?base2) [] t = Inr (Some e)"
        "dn_glass d = dn_glass ?base2" "dn_resource d = dn_resource ?base2"
      by (rule grant_decision_allowed [OF run assms(2)]) (use assms(3,4) in simp_all)
    have "holds env now ts st x (permission_for (normalize_resource_type (rq_type q)) (rq_permission q)) t"
      unfolding assms(11) [symmetric] using holds_cong [OF assms(8,9) same(1,2) [symmetric] effective_grant_holds [OF t(2)]] by simp
    then show ?thesis using backed [OF t(1), of "dn_glass d"] t(3,4) assms(5) by (intro exI [of _ t]) simp
  qed
qed

text \<open>
  The stored resource \<open>x\<close> that stands for a requested one: it has its id and its native id; or both are
  desktops with the same slug. Owner and boundary agree in any case.
\<close>

definition stands_for :: "resource \<Rightarrow> resource \<Rightarrow> bool" where
  "stands_for x r \<longleftrightarrow> rs_type x = rs_type r \<and> rs_owner x = rs_owner r \<and> rs_boundary x = rs_boundary r
     \<and> (rs_id x = rs_id r \<and> rs_native x = rs_native r \<or> rs_type r = ''desktop'' \<and> rs_key x = rs_key r)"

lemma stored_resource_Some:
  assumes "stored_resource st r = Some (x, r')"
  shows "x \<in> set (ps_resources st)" "rs_type x = rs_type r" "rs_type r' = rs_type x" "rs_id r' = rs_id x" "rs_boundary r' = rs_boundary r"
    and "r' = r \<and> rs_id x = rs_id r \<or> rs_type r = ''desktop'' \<and> rs_key x = rs_key r \<and> rs_owner x = rs_owner r \<and> rs_boundary x = rs_boundary r"
  using assms by (auto simp: stored_resource_def find_Some_iff split: option.splits if_splits)

lemma enforced_access_backed:
  assumes "evaluate_access env now uuid ts stored q = Inr d" and "dn_allowed d" "dn_mode (decision_base env now ts q) = ''enforce''"
  shows "\<exists>r x t. requested_resource env now ts q = Some r \<and> stands_for x r \<and> dn_resource d = rs_id x
    \<and> access_backed env now ts (normalize_policy_state env (iso_string now) uuid stored) q x t (dn_glass d)"
proof -
  let ?base = "decision_base env now ts q" and ?st = "normalize_policy_state env (iso_string now) uuid stored"
  let ?base1 = "?base\<lparr>dn_policy_revision := ps_revision ?st\<rparr>"
  note run = assms(1) [unfolded evaluate_access_def Let_def]
  have no: "\<not> dn_allowed ?base" "\<not> dn_glass ?base" by (simp_all add: decision_base_def Let_def)
  have deny: "\<not> dn_allowed (denial b reason)" if "b = ?base \<or> b = ?base1" for b reason
    using that assms(3) no by (auto simp: denial_def)
  have off: "\<not> dn_allowed (?base\<lparr>dn_reason := reason\<rparr>)" for reason using no by simp
  note pass1 = conjunct2 [OF guard_passed [OF run assms(2) off]]
  have "requested_resource env now ts q \<noteq> None"
  proof
    assume n: "requested_resource env now ts q = None"
    have "\<not> dn_allowed d" by (rule subst [OF pass1 [unfolded n option.case sum.inject]]) (rule deny [OF disjI1 [OF refl]])
    then show False using assms(2) by blast
  qed
  then obtain r where r: "requested_resource env now ts q = Some r" by blast
  note pass2 = guard_passed [OF pass1 [unfolded r option.case] assms(2) deny, OF disjI1 [OF refl]]
  have pass3: "(case stored_resource ?st r of None \<Rightarrow> Inr (denial ?base1 (normalize_resource_type (rq_type q) @ ''_resource_not_registered''))
      | Some (x, r') \<Rightarrow> stored_decision env now ts ?st q (if r' = r then ?base1 else ?base1\<lparr>dn_resource := rs_id x, dn_key := rs_key x\<rparr>) x r') = Inr d"
    using conjunct2 [OF pass2] assms(3) by simp
  have "stored_resource ?st r \<noteq> None"
  proof
    assume n: "stored_resource ?st r = None"
    have "\<not> dn_allowed d" by (rule subst [OF pass3 [unfolded n option.case sum.inject]]) (rule deny [OF disjI2 [OF refl]])
    then show False using assms(2) by blast
  qed
  then obtain x r' where x: "stored_resource ?st r = Some (x, r')" by auto
  then have decided: "stored_decision env now ts ?st q (if r' = r then ?base1 else ?base1\<lparr>dn_resource := rs_id x, dn_key := rs_key x\<rparr>) x r' = Inr d"
    using pass3 by simp
  note found = stored_resource_Some [OF x]
  have "rs_type r = normalize_resource_type (rq_type q)"
    using normalize_resource_type_of [OF r [unfolded requested_resource_def]] by simp
  then have types: "rs_type x = normalize_resource_type (rq_type q)" "rs_boundary r' = resource_boundary_id env"
    using found(2,5) conjunct1 [OF pass2] by (simp_all add: decision_base_def Let_def)
  define b where "b = (if r' = r then ?base1 else ?base1\<lparr>dn_resource := rs_id x, dn_key := rs_key x\<rparr>)"
  have b: "dn_mode b = ''enforce''" "\<not> dn_allowed b" "\<not> dn_glass b"
      "dn_permission b = permission_for (normalize_resource_type (rq_type q)) (rq_permission q)"
    unfolding b_def using assms(3) no by (simp_all add: decision_base_def Let_def)
  have named: "dn_resource b = rs_id x"
    unfolding b_def using found(4) by (auto simp: decision_base_def Let_def r)
  note decided = decided [folded b_def] assms(2) b(1-3) found(1) types(1) found(3,4) types(2) b(4)
  have "stands_for x r"
    using found(2,6) stored_decision_allowed(1-3) [OF decided] by (auto simp: stands_for_def)
  then show ?thesis
    using stored_decision_allowed(4) [OF decided] r named by auto
qed

text \<open>
  C9: an access that is allowed where the policy is enforced rests on a registered and active resource
  of this boundary that stands for the requested one (by its id and native id, or as the desktop with
  the same slug, owner and boundary), is the one the decision names, and is owned by the thread's
  owner, on a principal who may act for that owner, and on a grant that reaches the thread from its
  root through every ceiling; or an administrator who authenticated recently broke the glass, with a
  reason and a change reference.
\<close>

theorem enforced_access_sound:
  assumes "evaluate_access env now uuid ts stored q = Inr d" and "dn_allowed d" "dn_mode (decision_base env now ts q) = ''enforce''"
  shows "\<exists>r x t. requested_resource env now ts q = Some r \<and> stands_for x r \<and> dn_resource d = rs_id x
    \<and> access_backed env now ts (normalize_policy_state env (iso_string now) uuid stored) q x t (dn_glass d)"
  by (rule enforced_access_backed [OF assms])

end
