(* ===== verification/ResourceSessions.thy ===== *)
theory ResourceSessions
  imports ResourceChanges
begin

text \<open>
  Bearers of one resource action for connector calls (\<open>thread-resource-sessions.js\<close>): issuing them under
  the current grant, finding them by the hash of the bearer, and the check of each call against the
  claims, the dispatch target, the threads and the policy. The hash, the clock and the random values are
  arguments; the dispatch target that the server resolved is \<open>Some\<close> target. Revisions are whole numbers.
\<close>

section \<open>Claims and targets\<close>

record resource_auth =
  au_holder :: bearer_holder
  au_type :: string
  au_resource :: string
  au_actions :: "string list"
  au_target :: connector_target
  au_root :: string
  au_thread :: string
  au_boundary :: string
  au_policy :: int
  au_grant :: int
  au_generation :: int
  au_bearer :: bearer
  au_operator :: bool

record dispatch_target =
  dt_target :: connector_target
  dt_type :: string
  dt_resource :: string
  dt_action :: string
  dt_thread :: string

definition mcp_audience :: string where
  "mcp_audience = ''orkestr-connectors-mcp''"

definition max_token_lifetime :: int where
  "max_token_lifetime = 5 * 60000"

definition mcp_error :: "string \<Rightarrow> int \<Rightarrow> policy_error" where
  "mcp_error reason status = PolicyError (''connector_mcp_'' @ reason) status"

text \<open>A run of guards, each with its refusal: the first that applies.\<close>

fun first_denial :: "(bool \<times> string \<times> int) list \<Rightarrow> policy_error option" where
  "first_denial [] = None"
| "first_denial ((refused, reason, status) # rest) = (if refused then Some (mcp_error reason status) else first_denial rest)"

definition sorted_actions :: "string list \<Rightarrow> string \<Rightarrow> string list" where
  "sorted_actions vs t = sort (normalize_permissions_of t vs)"

definition target_of :: "dispatch_target \<Rightarrow> dispatch_target" where
  "target_of d = \<lparr>dt_target = normalize_target (dt_target d), dt_type = str_trim (dt_type d), dt_resource = str_trim (dt_resource d),
     dt_action = clean_lower (dt_action d), dt_thread = str_trim (dt_thread d)\<rparr>"

definition claims_of :: "resource_auth \<Rightarrow> resource_auth" where
  "claims_of a = \<lparr>au_holder = normalize_holder (au_holder a), au_type = normalize_resource_type (au_type a),
     au_resource = str_trim (au_resource a), au_actions = sorted_actions (au_actions a) (normalize_resource_type (au_type a)),
     au_target = normalize_target (au_target a), au_root = str_trim (au_root a), au_thread = str_trim (au_thread a),
     au_boundary = str_trim (au_boundary a), au_policy = au_policy a, au_grant = au_grant a, au_generation = au_generation a,
     au_bearer = normalize_bearer (au_bearer a), au_operator = au_operator a\<rparr>"

definition token_declared :: "resource_auth \<Rightarrow> bool" where
  "token_declared a \<longleftrightarrow> str_trim (au_type a) \<noteq> [] \<or> str_trim (au_resource a) \<noteq> [] \<or> au_actions a \<noteq> []
     \<or> str_trim (br_jti (au_bearer a)) \<noteq> [] \<or> str_trim (br_audience (au_bearer a)) = mcp_audience"

definition target_declared :: "dispatch_target \<Rightarrow> bool" where
  "target_declared d \<longleftrightarrow> str_trim (dt_type d) \<noteq> [] \<or> str_trim (dt_resource d) \<noteq> [] \<or> str_trim (dt_action d) \<noteq> []"

definition valid_claim_set :: "resource_auth \<Rightarrow> bool" where
  "valid_claim_set c \<longleftrightarrow> au_type c \<noteq> [] \<and> au_resource c \<noteq> [] \<and> au_actions c \<noteq> [] \<and> au_root c \<noteq> [] \<and> au_thread c \<noteq> []
     \<and> au_boundary c \<noteq> [] \<and> 0 \<le> au_policy c \<and> 0 < au_grant c \<and> 0 < au_generation c \<and> br_jti (au_bearer c) \<noteq> []
     \<and> br_token (au_bearer c) \<noteq> [] \<and> br_hash (au_bearer c) \<noteq> [] \<and> br_audience (au_bearer c) = mcp_audience
     \<and> ct_service (au_target c) \<noteq> [] \<and> ct_tool (au_target c) \<noteq> [] \<and> ct_action (au_target c) \<noteq> []
     \<and> br_issued (au_bearer c) \<noteq> [] \<and> br_expires (au_bearer c) \<noteq> []"

definition lifetime_error :: "policy_env \<Rightarrow> int \<Rightarrow> bearer \<Rightarrow> string" where
  "lifetime_error env now b =
     (case (pe_parse env (br_issued b), pe_parse env (br_expires b)) of
        (Some issued, Some expires) \<Rightarrow>
          if issued > now + 30000 then ''resource_token_time_invalid''
          else if expires \<le> now then ''resource_token_expired''
          else if expires - issued > max_token_lifetime then ''resource_token_ttl_invalid'' else []
      | _ \<Rightarrow> ''resource_token_time_invalid'')"

section \<open>Threads\<close>

function root_of :: "policy_thread list \<Rightarrow> string list \<Rightarrow> string \<Rightarrow> string" where
  "root_of ts seen i =
     (case thread_by_id ts i of
        None \<Rightarrow> []
      | Some t \<Rightarrow>
          if pt_id t = [] \<or> pt_id t \<in> set seen then []
          else if str_trim (pt_parent t) = [] then pt_id t
          else root_of ts (pt_id t # seen) (str_trim (pt_parent t)))"
  by pat_completeness auto
termination
proof (relation "measure (\<lambda>(ts, seen, i). card (pt_id ` set ts - set seen))")
  fix ts seen i and t :: policy_thread
  assume t: "thread_by_id ts i = Some t" and new: "\<not> (pt_id t = [] \<or> pt_id t \<in> set seen)"
  have "pt_id t \<in> pt_id ` set ts" using thread_by_id_in [OF t] by blast
  then have "pt_id ` set ts - set (pt_id t # seen) \<subset> pt_id ` set ts - set seen" using new by auto
  then show "((ts, pt_id t # seen, str_trim (pt_parent t)), (ts, seen, i)) \<in> measure (\<lambda>(ts, seen, i). card (pt_id ` set ts - set seen))"
    by (simp add: psubset_card_mono)
qed simp

declare root_of.simps [simp del]

function retired_above :: "policy_thread list \<Rightarrow> string list \<Rightarrow> string \<Rightarrow> bool" where
  "retired_above ts seen i =
     (case thread_by_id ts (str_trim i) of
        None \<Rightarrow> False
      | Some t \<Rightarrow>
          if pt_id t = [] \<or> pt_id t \<in> set seen then False
          else thread_is_retired (pt_life t) \<or> retired_above ts (pt_id t # seen) (pt_parent t))"
  by pat_completeness auto
termination
proof (relation "measure (\<lambda>(ts, seen, i). card (pt_id ` set ts - set seen))")
  fix ts seen i and t :: policy_thread
  assume t: "thread_by_id ts (str_trim i) = Some t" and new: "\<not> (pt_id t = [] \<or> pt_id t \<in> set seen)"
  have "pt_id t \<in> pt_id ` set ts" using thread_by_id_in [OF t] by blast
  then have "pt_id ` set ts - set (pt_id t # seen) \<subset> pt_id ` set ts - set seen" using new by auto
  then show "((ts, pt_id t # seen, pt_parent t), (ts, seen, i)) \<in> measure (\<lambda>(ts, seen, i). card (pt_id ` set ts - set seen))"
    by (simp add: psubset_card_mono)
qed simp

declare retired_above.simps [simp del]

section \<open>The session of a bearer\<close>

definition session_matches :: "resource_session \<Rightarrow> resource_auth \<Rightarrow> string \<Rightarrow> bool" where
  "session_matches s c grant_thread \<longleftrightarrow>
     br_jti (ss_bearer s) = br_jti (au_bearer c) \<and> br_token (ss_bearer s) = br_token (au_bearer c)
     \<and> br_hash (ss_bearer s) = br_hash (au_bearer c) \<and> br_audience (ss_bearer s) = br_audience (au_bearer c)
     \<and> ss_type s = au_type c \<and> ss_resource s = au_resource c \<and> sorted_actions (ss_actions s) (au_type c) = au_actions c
     \<and> ss_target s = au_target c \<and> ss_thread s = au_thread c \<and> ss_grant_thread s = grant_thread \<and> ss_root s = au_root c
     \<and> ss_boundary s = au_boundary c \<and> ss_policy s = au_policy c \<and> ss_grant s = au_grant c \<and> ss_generation s = au_generation c
     \<and> br_issued (ss_bearer s) = br_issued (au_bearer c) \<and> br_expires (ss_bearer s) = br_expires (au_bearer c)"

definition source_policy_revision :: "policy_state \<Rightarrow> string \<Rightarrow> string \<Rightarrow> int" where
  "source_policy_revision st thread t = (case policy_of st thread t of None \<Rightarrow> 0 | Some p \<Rightarrow> pl_revision p)"

definition new_session :: "string \<Rightarrow> resource_auth \<Rightarrow> string \<Rightarrow> resource_session" where
  "new_session at c grant_thread = \<lparr>ss_id = ''trs-'' @ take 48 (br_jti (au_bearer c)), ss_bearer = au_bearer c, ss_holder = au_holder c,
     ss_type = au_type c, ss_resource = au_resource c, ss_actions = au_actions c, ss_target = au_target c, ss_thread = au_thread c,
     ss_grant_thread = grant_thread, ss_root = au_root c, ss_boundary = au_boundary c, ss_policy = au_policy c, ss_grant = au_grant c,
     ss_generation = au_generation c, ss_state = ''active'', ss_epoch = 1, ss_used = Some at, ss_created = at, ss_updated = at,
     ss_invalidated = None, ss_reason = None\<rparr>"

text \<open>Whether the claims name the grant, the policy and the generation that are in force.\<close>

definition claims_current :: "policy_env \<Rightarrow> int \<Rightarrow> policy_thread list \<Rightarrow> policy_state \<Rightarrow> resource_auth \<Rightarrow> string \<Rightarrow> string \<Rightarrow> bool" where
  "claims_current env now ts st c permission grant_thread \<longleftrightarrow>
     (case (find_resource (au_type c) (au_resource c) st, effective_from_snapshot env now ts st (au_thread c) (au_type c) (au_resource c) permission) of
        (Some r, Some e) \<Rightarrow>
          rs_status r = ''active'' \<and> given_text (rs_retired r) = [] \<and> rs_generation r = au_generation c
          \<and> gr_thread (ef_grant e) = grant_thread \<and> gr_revision (ef_grant e) = au_grant c
          \<and> source_policy_revision st grant_thread (au_type c) = au_policy c
      | _ \<Rightarrow> False)"

text \<open>The session that is current, or the reason why there is none.\<close>

definition persist_session ::
  "policy_env \<Rightarrow> int \<Rightarrow> policy_thread list \<Rightarrow> resource_auth \<Rightarrow> string \<Rightarrow> string \<Rightarrow> policy_state \<Rightarrow>
     (policy_error, (string + resource_session) change) result" where
  "persist_session env now ts c permission grant_thread st =
     (let existing = find (\<lambda>s. br_jti (ss_bearer s) = br_jti (au_bearer c)) (ps_sessions st);
          session = (case existing of Some s \<Rightarrow> s\<lparr>ss_used := Some (iso_string now), ss_updated := iso_string now\<rparr>
            | None \<Rightarrow> new_session (iso_string now) c grant_thread)
      in if (case existing of None \<Rightarrow> False | Some s \<Rightarrow> ss_state s \<noteq> ''active'')
      then Inr (Unchanged (Inl (case existing of None \<Rightarrow> [] | Some s \<Rightarrow> or_default ''invalidated'' (ss_state s))))
      else if \<not> claims_current env now ts st c permission grant_thread then Inr (Unchanged (Inl ''stale''))
      else if (case existing of None \<Rightarrow> False | Some s \<Rightarrow> \<not> session_matches s c grant_thread) then Inr (Unchanged (Inl ''claims''))
      else Inr (Changed (Inr session)
        (st\<lparr>ps_sessions := filter (\<lambda>s. br_jti (ss_bearer s) \<noteq> br_jti (au_bearer c)) (ps_sessions st) @ [session]\<rparr>) None True))"

definition persist_current_session ::
  "policy_env \<Rightarrow> int \<Rightarrow> string \<Rightarrow> policy_thread list \<Rightarrow> resource_auth \<Rightarrow> string \<Rightarrow> string \<Rightarrow> policy_state \<Rightarrow>
     (policy_error, resource_session) result \<times> policy_state" where
  "persist_current_session env now uuid ts c permission grant_thread stored =
     (case mutate_policy env now uuid (persist_session env now ts c permission grant_thread) stored of
        (Inl e, st) \<Rightarrow> (Inl e, st)
      | (Inr (found, revision), st) \<Rightarrow>
          ((case found of
              Inl reason \<Rightarrow> Inl (mcp_error (if reason = ''invalidated'' then ''resource_session_invalidated'' else ''resource_token_stale'') 403)
            | Inr s \<Rightarrow> Inr s), st))"

section \<open>A connector call\<close>

definition differs :: "string \<Rightarrow> string \<Rightarrow> bool" where
  "differs caller requested \<longleftrightarrow> caller \<noteq> [] \<and> caller \<noteq> requested"

definition target_mismatch :: "dispatch_target \<Rightarrow> dispatch_target \<Rightarrow> bool" where
  "target_mismatch c r \<longleftrightarrow>
     differs (dt_type c) (dt_type r) \<or> differs (dt_resource c) (dt_resource r) \<or> differs (dt_action c) (dt_action r)
     \<or> differs (ct_service (dt_target c)) (ct_service (dt_target r)) \<or> differs (ct_account (dt_target c)) (ct_account (dt_target r))
     \<or> differs (ct_conversation (dt_target c)) (ct_conversation (dt_target r)) \<or> differs (ct_binding (dt_target c)) (ct_binding (dt_target r))
     \<or> differs (ct_thread (dt_target c)) (ct_thread (dt_target r)) \<or> differs (ct_operation (dt_target c)) (ct_operation (dt_target r))
     \<or> differs (dt_thread c) (dt_thread r) \<or> differs (ct_tool (dt_target c)) (ct_tool (dt_target r))
     \<or> differs (ct_action (dt_target c)) (ct_action (dt_target r))"

definition same_operation :: "connector_target \<Rightarrow> connector_target \<Rightarrow> bool" where
  "same_operation q c \<longleftrightarrow> ct_service q = ct_service c \<and> ct_account q = ct_account c \<and> ct_conversation q = ct_conversation c
     \<and> ct_binding q = ct_binding c \<and> ct_thread q = ct_thread c \<and> ct_operation q = ct_operation c"

text \<open>The guards on the claims \<open>c\<close>, the caller's target and the resolved target \<open>q\<close>.\<close>

definition claim_guards :: "policy_env \<Rightarrow> int \<Rightarrow> resource_auth \<Rightarrow> dispatch_target \<Rightarrow> bool \<Rightarrow> dispatch_target \<Rightarrow> (bool \<times> string \<times> int) list" where
  "claim_guards env now c caller resolved q =
     (let t = normalize_resource_type (or_default (au_type c) (dt_type q)) in
      [(\<not> resolved, ''resource_dispatch_target_unbound'', 403),
       (target_mismatch caller q, ''resource_dispatch_target_mismatch'', 403),
       (dt_type q = [] \<or> dt_resource q = [] \<or> dt_action q = [] \<or> dt_thread q = [] \<or> ct_service (dt_target q) = [],
         ''resource_target_required'', 400),
       (t = [] \<or> dt_action q \<notin> set (sorted_actions [dt_action q] t), ''resource_target_invalid'', 400),
       (br_audience (au_bearer c) \<noteq> mcp_audience, ''resource_audience_denied'', 401),
       (\<not> valid_claim_set c, ''resource_claims_required'', 401),
       (lifetime_error env now (au_bearer c) \<noteq> [], lifetime_error env now (au_bearer c), 401),
       (dt_type q \<noteq> au_type c \<or> dt_resource q \<noteq> au_resource c \<or> dt_action q \<notin> set (au_actions c), ''resource_target_scope_denied'', 403),
       (dt_thread q \<noteq> au_thread c, ''resource_thread_scope_denied'', 403),
       (\<not> same_operation (dt_target q) (au_target c), ''resource_operation_target_scope_denied'', 403),
       (ct_tool (dt_target q) = [] \<or> ct_action (dt_target q) = [] \<or> ct_tool (dt_target q) \<noteq> ct_tool (au_target c)
         \<or> ct_action (dt_target q) \<noteq> ct_action (au_target c), ''resource_dispatch_scope_denied'', 403),
       (resource_boundary_id env \<noteq> au_boundary c, ''resource_boundary_denied'', 403)])"

definition resource_usable :: "resource_auth \<Rightarrow> resource \<Rightarrow> bool" where
  "resource_usable c r \<longleftrightarrow> rs_status r = ''active'' \<and> given_text (rs_retired r) = [] \<and> rs_boundary r = au_boundary c
     \<and> rs_owner r = str_trim (bh_owner (au_holder c))"

text \<open>The guards on the threads and the policy, and the session that the call uses.\<close>

definition policy_checked ::
  "policy_env \<Rightarrow> int \<Rightarrow> string \<Rightarrow> policy_thread list \<Rightarrow> resource_auth \<Rightarrow> string \<Rightarrow> policy_state \<Rightarrow>
     (policy_error, resource_session) result \<times> policy_state" where
  "policy_checked env now uuid ts c permission stored =
     (let st = normalize_policy_state env (iso_string now) uuid stored in
      if retired_above ts [] (au_thread c) then (Inl (mcp_error ''resource_thread_retired'' 410), stored)
      else if root_of ts [] (au_thread c) \<noteq> au_root c then (Inl (mcp_error ''resource_root_scope_denied'' 403), stored)
      else (case find_resource (au_type c) (au_resource c) st of
          None \<Rightarrow> (Inl (mcp_error ''resource_target_denied'' 403), stored)
        | Some r \<Rightarrow>
            if \<not> resource_usable c r then (Inl (mcp_error ''resource_target_denied'' 403), stored)
            else (case effective_from_snapshot env now ts st (au_thread c) (au_type c) (au_resource c) permission of
                None \<Rightarrow> (Inl (mcp_error ''resource_grant_required'' 403), stored)
              | Some e \<Rightarrow>
                  (let grant_thread = str_trim (gr_thread (ef_grant e)) in
                   if source_policy_revision st grant_thread (au_type c) \<noteq> au_policy c \<or> gr_revision (ef_grant e) \<noteq> au_grant c
                     \<or> rs_generation r \<noteq> au_generation c
                   then (Inl (mcp_error ''resource_token_stale'' 403), stored)
                   else persist_current_session env now uuid ts c permission grant_thread stored))))"

text \<open>
  The target that the call is checked against: the resolved one where the dispatcher resolved one. A call
  that passes gets the authorization it came with, whether or not it was checked.
\<close>

definition requested_target :: "dispatch_target \<Rightarrow> dispatch_target option \<Rightarrow> dispatch_target" where
  "requested_target input actual = (case actual of None \<Rightarrow> target_of input | Some d \<Rightarrow> target_of d)"

definition assert_connector_access ::
  "policy_env \<Rightarrow> int \<Rightarrow> string \<Rightarrow> policy_thread list \<Rightarrow> resource_auth \<Rightarrow> dispatch_target \<Rightarrow> dispatch_target option \<Rightarrow> policy_state \<Rightarrow>
     (policy_error, resource_auth) result \<times> policy_state" where
  "assert_connector_access env now uuid ts a input actual stored =
     (let caller = target_of input; q = requested_target input actual; c = claims_of a;
          named = target_declared caller \<or> target_declared q
      in if \<not> (token_declared a \<or> named) then (Inr a, stored)
      else if token_declared a \<and> au_thread c \<noteq> [] \<and> retired_above ts [] (au_thread c)
      then (Inl (mcp_error ''resource_thread_retired'' 410), stored)
      else if access_mode env (normalize_resource_type (or_default (au_type c) (dt_type q))) \<noteq> ''enforce'' then (Inr a, stored)
      else if au_operator a \<and> named then (Inl (mcp_error ''resource_operator_target_denied'' 403), stored)
      else if au_operator a then (Inr a, stored)
      else (case first_denial (claim_guards env now c caller (actual \<noteq> None) q) of
          Some e \<Rightarrow> (Inl e, stored)
        | None \<Rightarrow>
            (case policy_checked env now uuid ts c (dt_action q) stored of
               (Inl e, st) \<Rightarrow> (Inl e, st)
             | (Inr s, st) \<Rightarrow> (Inr a, st))))"

section \<open>Issuing and finding bearers\<close>

definition issued_auth :: "resource_session \<Rightarrow> resource_auth" where
  "issued_auth s = \<lparr>au_holder = (ss_holder s)\<lparr>bh_kind := or_default ''external_instance'' (bh_kind (ss_holder s))\<rparr>, au_type = ss_type s,
     au_resource = ss_resource s, au_actions = ss_actions s, au_target = ss_target s, au_root = ss_root s, au_thread = ss_thread s,
     au_boundary = ss_boundary s, au_policy = ss_policy s, au_grant = ss_grant s, au_generation = ss_generation s,
     au_bearer = ss_bearer s, au_operator = False\<rparr>"

definition authorize_issued_token ::
  "policy_env \<Rightarrow> int \<Rightarrow> string \<Rightarrow> (string \<Rightarrow> string) \<Rightarrow> string \<Rightarrow> policy_state \<Rightarrow> resource_auth option" where
  "authorize_issued_token env now uuid digest token stored =
     (if str_trim token = [] then None
      else map_option issued_auth (find (\<lambda>s. ss_state s = ''active'' \<and> br_hash (ss_bearer s) = digest token
        \<and> (case pe_parse env (br_expires (ss_bearer s)) of None \<Rightarrow> False | Some t \<Rightarrow> now < t))
        (ps_sessions (normalize_policy_state env (iso_string now) uuid stored))))"

record token_request =
  tq_type :: string
  tq_resource :: string
  tq_permission :: string
  tq_thread :: string
  tq_target :: connector_target
  tq_principal :: "access_principal option"
  tq_ttl :: "int option"
  tq_holder :: bearer_holder

definition connector_scopes :: "string list \<Rightarrow> string list" where
  "connector_scopes raw =
     (let normal = distinct_first (filter (\<lambda>s. s \<noteq> []) (map clean_lower raw)) in if normal = [] then [''connectors:read''] else normal)"

definition issued_holder :: "token_request \<Rightarrow> resource \<Rightarrow> bearer_holder" where
  "issued_holder q r = (let h = tq_holder q in
     \<lparr>bh_scopes = connector_scopes (bh_scopes h), bh_kind = or_default ''external_instance'' (str_trim (bh_kind h)),
      bh_principal = str_trim (or_default (request_user (tq_principal q)) (bh_principal h)), bh_owner = rs_owner r,
      bh_instance = str_trim (bh_instance h), bh_account = str_trim (bh_account h), bh_service = clean_lower (bh_service h)\<rparr>)"

definition issued_expiry :: "policy_env \<Rightarrow> int \<Rightarrow> int \<Rightarrow> effective \<Rightarrow> int" where
  "issued_expiry env now ttl e =
     (case pe_parse env (str_trim (or_default (given_text (gr_expires (ef_grant e))) (given_text (ef_expires e)))) of
        None \<Rightarrow> now + ttl | Some t \<Rightarrow> min (now + ttl) t)"

definition issued_claims ::
  "policy_env \<Rightarrow> int \<Rightarrow> (string \<Rightarrow> string) \<Rightarrow> string \<Rightarrow> string \<Rightarrow> token_request \<Rightarrow> string \<Rightarrow> int \<Rightarrow> int \<Rightarrow> resource \<Rightarrow> effective \<Rightarrow> string \<Rightarrow> resource_auth" where
  "issued_claims env now digest token jti q root revision ttl r e permission = \<lparr>au_holder = issued_holder q r, au_type = rs_type r,
     au_resource = rs_id r, au_actions = [permission], au_target = normalize_target (tq_target q), au_root = root,
     au_thread = str_trim (tq_thread q), au_boundary = rs_boundary r, au_policy = revision, au_grant = gr_revision (ef_grant e),
     au_generation = rs_generation r,
     au_bearer = \<lparr>br_jti = digest jti, br_token = digest (''issued:'' @ jti), br_hash = digest token, br_audience = mcp_audience,
       br_issued = iso_string now, br_expires = iso_string (issued_expiry env now ttl e)\<rparr>, au_operator = False\<rparr>"

text \<open>The guards of a request, in order; \<open>Inr\<close> has the resource and the grant.\<close>

definition issue_guards ::
  "policy_env \<Rightarrow> int \<Rightarrow> policy_thread list \<Rightarrow> token_request \<Rightarrow> policy_state \<Rightarrow> (policy_error, resource \<times> effective) result" where
  "issue_guards env now ts q st =
     (let t = normalize_resource_type (tq_type q); i = str_trim (tq_resource q); p = clean_lower (tq_permission q);
          thread = str_trim (tq_thread q); target = normalize_target (tq_target q);
          ttl = (case tq_ttl q of None \<Rightarrow> max_token_lifetime | Some n \<Rightarrow> n)
      in if t = [] \<or> i = [] \<or> thread = [] \<or> p \<notin> set (sorted_actions [p] t) \<or> ct_tool target = [] \<or> ct_action target = [] \<or> ct_service target = []
      then Inl (mcp_error ''resource_token_issue_target_invalid'' 400)
      else if ttl < 1000 \<or> ttl > max_token_lifetime then Inl (mcp_error ''resource_token_ttl_invalid'' 400)
      else if retired_above ts [] thread then Inl (mcp_error ''resource_token_issue_thread_retired'' 410)
      else (case find_resource t i st of
          None \<Rightarrow> Inl (mcp_error ''resource_token_issue_forbidden'' 403)
        | Some r \<Rightarrow>
            if rs_status r \<noteq> ''active'' \<or> given_text (rs_retired r) \<noteq> []
              \<or> \<not> (case tq_principal q of None \<Rightarrow> False | Some a \<Rightarrow> can_access_owner env a (rs_owner r))
            then Inl (mcp_error ''resource_token_issue_forbidden'' 403)
            else if root_of ts [] thread = [] \<or> rs_boundary r \<noteq> resource_boundary_id env
            then Inl (mcp_error ''resource_token_issue_target_denied'' 403)
            else (case effective_from_snapshot env now ts st thread t i p of
                None \<Rightarrow> Inl (mcp_error ''resource_grant_required'' 403)
              | Some e \<Rightarrow>
                  if str_trim (gr_thread (ef_grant e)) = [] \<or> source_policy_revision st (str_trim (gr_thread (ef_grant e))) t = 0
                  then Inl (mcp_error ''resource_token_issue_stale'' 403)
                  else Inr (r, e))))"

definition issue_connector_token ::
  "policy_env \<Rightarrow> int \<Rightarrow> string \<Rightarrow> (string \<Rightarrow> string) \<Rightarrow> string \<Rightarrow> string \<Rightarrow> policy_thread list \<Rightarrow> token_request \<Rightarrow> policy_state \<Rightarrow>
     (policy_error, string \<times> resource_auth) result \<times> policy_state" where
  "issue_connector_token env now uuid digest token jti ts q stored =
     (let st = normalize_policy_state env (iso_string now) uuid stored in
      case issue_guards env now ts q st of
        Inl e \<Rightarrow> (Inl e, stored)
      | Inr (r, e) \<Rightarrow>
          (let thread = str_trim (gr_thread (ef_grant e)); p = clean_lower (tq_permission q);
               c = issued_claims env now digest token jti q (root_of ts [] (str_trim (tq_thread q)))
                 (source_policy_revision st thread (rs_type r)) (case tq_ttl q of None \<Rightarrow> max_token_lifetime | Some n \<Rightarrow> n) r e p
           in case persist_current_session env now uuid ts c p thread stored of
                (Inl x, st') \<Rightarrow> (Inl x, st')
              | (Inr s, st') \<Rightarrow> (Inr (token, issued_auth s), st')))"

end
