(* ===== verification/LeaseFacts.thy ===== *)
theory LeaseFacts
  imports DesktopLeases
begin

text \<open>
  What holds of the lease store in any sequence of operations: fences only move forward, so that a
  holder whose lease was taken over or released never acts again; a lease that is granted can act.
\<close>

section \<open>Valid states\<close>

lemma leases_valid_iff:
  "leases_valid c ids keys ls \<longleftrightarrow> list_all (lease_well_formed c) ls \<and> distinct (map ls_id ls) \<and> set (map ls_id ls) \<inter> set ids = {}
     \<and> distinct (map lease_key (filter lease_active ls)) \<and> set (map lease_key (filter lease_active ls)) \<inter> set keys = {}"
  by (induction ls arbitrary: ids keys) auto

lemma versions_valid_iff:
  "versions_valid retired adoption seen ls \<longleftrightarrow>
     (let vs = map ls_version (filter (\<lambda>l. ls_id l \<notin> set retired) ls) in distinct vs \<and> set vs \<inter> set seen = {}
      \<and> list_all (\<lambda>v. case adoption of None \<Rightarrow> True | Some a \<Rightarrow> co_floor (ad_cohort a) < v) vs)"
  by (induction ls arbitrary: seen) (auto simp: Let_def)

lemma valid_structure:
  "validate_lease_state env identity adoption st = Inr () \<Longrightarrow> validate_lease_structure st"
  by (auto simp: validate_lease_state_def split: if_splits)

lemma active_unique:
  assumes "distinct (map lease_key (filter lease_active ls))"
    and "l \<in> set ls" "l' \<in> set ls" "lease_active l" "lease_active l'" "lease_key l = lease_key l'"
  shows "l = l'"
proof -
  have "l \<in> set (filter lease_active ls)" "l' \<in> set (filter lease_active ls)" using assms by simp_all
  with assms(1,6) show ?thesis unfolding distinct_map by (meson inj_onD)
qed

section \<open>Fences move forward\<close>

text \<open>The lease of a holder is the same as long as it has the same identity and fence.\<close>

definition same_fence :: "lease \<Rightarrow> lease \<Rightarrow> bool" where
  "same_fence l l' \<longleftrightarrow> ls_id l' = ls_id l \<and> ls_slug l' = ls_slug l \<and> ls_owner l' = ls_owner l \<and> ls_thread l' = ls_thread l
     \<and> ls_token l' = ls_token l \<and> ls_version l' = ls_version l"

definition fences_ahead :: "lease_state \<Rightarrow> lease_state \<Rightarrow> bool" where
  "fences_ahead st st' \<longleftrightarrow> dl_counter st \<le> dl_counter st' \<and> (\<forall>l'\<in>set (dl_leases st'). lease_active l' \<longrightarrow>
     (\<exists>l\<in>set (dl_leases st). lease_active l \<and> same_fence l l') \<or> dl_counter st < ls_version l')"

lemma same_fence_refl [simp]: "same_fence l l"
  by (simp add: same_fence_def)

lemma fences_ahead_refl: "fences_ahead st st"
  unfolding fences_ahead_def by auto

lemma fences_ahead_trans:
  assumes "fences_ahead a b" and "fences_ahead b c"
  shows "fences_ahead a c"
  unfolding fences_ahead_def
proof (intro conjI ballI impI)
  show "dl_counter a \<le> dl_counter c" using assms by (simp add: fences_ahead_def)
  fix l' assume "l' \<in> set (dl_leases c)" "lease_active l'"
  with assms(2) consider l where "l \<in> set (dl_leases b)" "lease_active l" "same_fence l l'" | "dl_counter b < ls_version l'"
    by (auto simp: fences_ahead_def)
  then show "(\<exists>l\<in>set (dl_leases a). lease_active l \<and> same_fence l l') \<or> dl_counter a < ls_version l'"
  proof cases
    case 1
    with assms(1) consider k where "k \<in> set (dl_leases a)" "lease_active k" "same_fence k l" | "dl_counter a < ls_version l"
      by (auto simp: fences_ahead_def)
    then show ?thesis
    proof cases
      case 1
      with \<open>same_fence l l'\<close> have "same_fence k l'" by (simp add: same_fence_def)
      with 1 show ?thesis by blast
    qed (use \<open>same_fence l l'\<close> in \<open>simp add: same_fence_def\<close>)
  next
    case 2
    with assms(1) show ?thesis by (simp add: fences_ahead_def)
  qed
qed

lemma assign_first_in:
  "l' \<in> set (assign_first p f xs) \<Longrightarrow> l' \<in> set xs \<or> (\<exists>a. find p xs = Some a \<and> l' = f a)"
  by (induction xs) (auto split: if_splits)

lemma fences_ahead_assign:
  assumes "\<And>a. find p (dl_leases st) = Some a \<Longrightarrow> lease_active (f a) \<Longrightarrow> lease_active a \<and> same_fence a (f a)"
  shows "fences_ahead st (st\<lparr>dl_leases := assign_first p f (dl_leases st)\<rparr>)"
  unfolding fences_ahead_def
proof (intro conjI ballI impI)
  fix l' assume l': "l' \<in> set (dl_leases (st\<lparr>dl_leases := assign_first p f (dl_leases st)\<rparr>))" "lease_active l'"
  then consider "l' \<in> set (dl_leases st)" | a where "find p (dl_leases st) = Some a" "l' = f a"
    using assign_first_in [of l' p f "dl_leases st"] by auto
  then show "(\<exists>l\<in>set (dl_leases st). lease_active l \<and> same_fence l l') \<or> dl_counter st < ls_version l'"
  proof cases
    case 1
    with l'(2) show ?thesis using same_fence_refl by blast
  next
    case (2 a)
    with assms l'(2) have "lease_active a" "same_fence a l'" by auto
    moreover have "a \<in> set (dl_leases st)" using 2(1) by (auto simp: find_Some_iff)
    ultimately show ?thesis by blast
  qed
qed simp

lemma released_not_active [simp]: "\<not> lease_active (released_lease now reason l)"
  by (simp add: lease_active_def released_lease_def iso_string_def Let_def)

lemma active_for_Some:
  assumes "active_for slug owner st = Some l"
  shows "l \<in> set (dl_leases st)" "ls_slug l = slug" "ls_owner l = owner" "lease_active l"
  using assms by (auto simp: active_for_def is_active_for_def find_Some_iff)

lemma fences_ahead_grant:
  assumes "fences_ahead st st'" and "dl_counter st < ls_version g"
  shows "fences_ahead st (st'\<lparr>dl_counter := dl_counter st + 1, dl_leases := g # dl_leases st'\<rparr>)"
  using assms by (auto simp: fences_ahead_def)

lemma acquire_mutator_fences:
  assumes "acquire_mutator now token uuid n opts st = Inr (r, st')"
  shows "fences_ahead st st'"
proof -
  let ?g = "granted_lease now token uuid st n"
  have version: "dl_counter st < ls_version ?g" by (simp add: granted_lease_def Let_def)
  have freed: "fences_ahead st (assign_active (ls_slug n) (ls_owner n) (released_lease now (aw_reason opts)) st)"
    unfolding assign_active_def by (rule fences_ahead_assign) simp
  note grant = fences_ahead_grant [OF freed version] and grant0 = fences_ahead_grant [OF fences_ahead_refl version]
  show ?thesis
  proof (cases "active_for (ls_slug n) (ls_owner n) st")
    case None
    with assms grant0 show ?thesis by (auto simp: acquire_mutator_def Let_def split: if_splits)
  next
    case (Some a)
    note a = active_for_Some [OF Some]
    have "fences_ahead st (assign_active (ls_slug n) (ls_owner n) (renewed_lease now n) st)" if "ls_thread a = ls_thread n"
      unfolding assign_active_def
    proof (rule fences_ahead_assign)
      fix b assume "find (is_active_for (ls_slug n) (ls_owner n)) (dl_leases st) = Some b"
      with Some have "b = a" by (simp add: active_for_def)
      with a that show "lease_active b \<and> same_fence b (renewed_lease now n b)"
        by (simp add: same_fence_def renewed_lease_def)
    qed
    with assms Some grant show ?thesis by (auto simp: acquire_mutator_def Let_def fences_ahead_refl split: if_splits)
  qed
qed

lemma heartbeat_mutator_fences:
  assumes "heartbeat_mutator now slug thread owner token st = Inr (r, st')"
  shows "fences_ahead st st'"
proof -
  let ?beat = "\<lambda>l. l\<lparr>ls_heartbeat := iso_string now, ls_updated := iso_string now\<rparr>"
  have "fences_ahead st (st\<lparr>dl_leases := assign_first (named_active slug owner) ?beat (dl_leases st)\<rparr>)"
    by (rule fences_ahead_assign) (simp add: lease_active_def same_fence_def)
  with assms show ?thesis
    by (auto simp: heartbeat_mutator_def Let_def fences_ahead_refl split: option.splits if_splits)
qed

lemma release_mutator_fences:
  assumes "release_mutator now slug thread owner token force reason st = Inr (r, st')"
  shows "fences_ahead st st'"
proof -
  have "fences_ahead st (st\<lparr>dl_leases := assign_first (named_active slug owner) (released_lease now reason) (dl_leases st)\<rparr>)"
    by (rule fences_ahead_assign) simp
  with assms show ?thesis
    by (auto simp: release_mutator_def fences_ahead_refl split: option.splits if_splits)
qed

text \<open>Retention drops released leases only.\<close>

lemma retain_filters:
  assumes "retain_lease_history env policy archived st = Inr (st', kept)"
  obtains p where "st' = st\<lparr>dl_leases := filter p (dl_leases st)\<rparr>" "\<And>l. lease_active l \<Longrightarrow> p l"
proof -
  note found = that
  have same: thesis if "st' = st"
    by (rule found [of "\<lambda>l. True"]) (simp_all add: \<open>st' = st\<close>)
  show thesis
  proof (cases policy)
    case None
    with assms same show thesis by (simp add: retain_lease_history_def)
  next
    case (Some y)
    obtain keep threshold where y: "y = (keep, threshold)" by (cases y)
    define retired where "retired = (case dl_cohort st of None \<Rightarrow> [] | Some c \<Rightarrow> co_ids c)"
    define kept' where "kept' = map ls_id (take keep (sort_by (release_order env)
      (filter (\<lambda>l. \<not> lease_active l \<and> ls_id l \<notin> set retired) (dl_leases st))))"
    let ?p = "\<lambda>l. lease_active l \<or> ls_id l \<in> set retired \<or> ls_id l \<in> set kept'"
    have "st' = st \<or> st' = st\<lparr>dl_leases := filter ?p (dl_leases st)\<rparr>"
      using assms unfolding retain_lease_history_def Some y retired_def [symmetric] Let_def
      by (simp add: kept'_def split: if_splits)
    then show thesis
    proof
      assume "st' = st\<lparr>dl_leases := filter ?p (dl_leases st)\<rparr>"
      then show thesis by (rule that) simp
    qed (rule same)
  qed
qed

lemma retain_fences:
  assumes "retain_lease_history env policy archived st = Inr (st', kept)"
  shows "fences_ahead st st'"
proof -
  obtain p where "st' = st\<lparr>dl_leases := filter p (dl_leases st)\<rparr>" by (rule retain_filters [OF assms])
  then show ?thesis using same_fence_refl by (auto simp: fences_ahead_def)
qed

section \<open>The store as a machine\<close>

text \<open>
  The operations of any number of processes, one at a time since each holds the lock. A process that
  dies between the rename of the new file and the mark in the lock file leaves the mark as it was.
\<close>

inductive lease_step :: "lease_env \<Rightarrow> lease_config \<Rightarrow> lease_world \<Rightarrow> lease_world \<Rightarrow> bool" for env cfg where
  Initialize: "init_store env cfg w = (r, w') \<Longrightarrow> lease_step env cfg w w'"
| Acquire: "acquire_desktop env cfg archived now token uuid raw opts w = (r, w') \<Longrightarrow> lease_step env cfg w w'"
| Heartbeat: "heartbeat_desktop env cfg archived now slug thread owner token w = (r', w') \<Longrightarrow> lease_step env cfg w w'"
| Release: "release_desktop env cfg archived now slug thread owner token force reason w = (r', w') \<Longrightarrow> lease_step env cfg w w'"
| Die: "lease_step env cfg w w' \<Longrightarrow> lease_step env cfg w (w'\<lparr>lw_initialized := lw_initialized w\<rparr>)"

definition world_state :: "lease_world \<Rightarrow> lease_state" where
  "world_state w = (case lw_file w of None \<Rightarrow> no_leases | Some f \<Rightarrow> lf_state f)"

lemma world_state_sel [simp]:
  "world_state (w\<lparr>lw_initialized := b\<rparr>) = world_state w" "world_state (w\<lparr>lw_archive := x\<rparr>) = world_state w"
  by (simp_all add: world_state_def)

lemma read_world_state:
  assumes "read_lease_state env cfg w = Inr found"
  shows "(case found of None \<Rightarrow> no_leases | Some st \<Rightarrow> st) = world_state w"
  using assms
  by (auto simp: read_lease_state_def world_state_def Let_def and_then_Inr_iff split: option.splits if_splits)

lemma write_world_state:
  assumes "write_lease_state env cfg st w = Inr w'"
  shows "world_state w' = st\<lparr>dl_lock := Some (lw_identity w)\<rparr>"
  using assms by (auto simp: write_lease_state_def Let_def and_then_Inr_iff world_state_def split: if_splits)

lemma fences_ahead_lock [simp]: "fences_ahead st (st'\<lparr>dl_lock := i\<rparr>) \<longleftrightarrow> fences_ahead st st'"
  by (simp add: fences_ahead_def)

lemma mutate_state_fences:
  assumes "mutate_state env cfg archived f w = (r, w')"
    and "\<And>st x st'. f st = Inr (x, st') \<Longrightarrow> fences_ahead st st'"
  shows "fences_ahead (world_state w) (world_state w')"
proof (cases "read_lease_state env cfg w")
  case (Inr found)
  note read = read_world_state [OF Inr]
  show ?thesis
  proof (cases "retain_lease_history env (lc_retention cfg) archived (world_state w)")
    case Inl': (Inr y)
    obtain st1 kept where y: "y = (st1, kept)" by (cases y)
    note kept = retain_fences [OF Inl' [unfolded y]]
    let ?w = "w\<lparr>lw_archive := lw_archive w @ kept\<rparr>"
    have run: "(case f st1 of Inl e \<Rightarrow> (Inl e, ?w) | Inr (x, st2) \<Rightarrow>
          if dl_counter st2 < dl_counter st1 then (Inl (store_error ''desktop_lease_generation_regressed''), ?w)
          else (case write_lease_state env cfg st2 ?w of Inl e \<Rightarrow> (Inl e, ?w) | Inr w2 \<Rightarrow> (Inr x, w2))) = (r, w')"
      using assms(1) by (simp add: mutate_state_def Inr read Inl' y Let_def)
    show ?thesis
    proof (cases "world_state w' = world_state w")
      case False
      with run obtain x st2 where f: "f st1 = Inr (x, st2)" and wrote: "write_lease_state env cfg st2 ?w = Inr w'"
        by (auto split: sum.splits if_splits)
      from fences_ahead_trans [OF kept assms(2) [OF f]] show ?thesis
        by (simp add: write_world_state [OF wrote])
    qed (simp add: fences_ahead_refl)
  qed (use assms(1) in \<open>simp add: mutate_state_def Inr read fences_ahead_refl\<close>)
qed (use assms(1) in \<open>simp add: mutate_state_def fences_ahead_refl\<close>)

lemma lease_step_fences: "lease_step env cfg w w' \<Longrightarrow> fences_ahead (world_state w) (world_state w')"
proof (induction rule: lease_step.induct)
  case (Initialize w r w')
  show ?case
  proof (cases "read_lease_state env cfg w")
    case (Inr found)
    note read = read_world_state [OF Inr]
    show ?thesis
    proof (cases "write_lease_state env cfg (world_state w) w")
      case w1: (Inr w1)
      from Initialize show ?thesis
        using write_world_state [OF w1] by (auto simp: init_store_def Inr read Let_def w1 fences_ahead_refl split: if_splits)
    qed (use Initialize in \<open>auto simp: init_store_def Inr read Let_def fences_ahead_refl split: if_splits\<close>)
  qed (use Initialize in \<open>simp add: init_store_def fences_ahead_refl\<close>)
next
  case (Acquire archived now token uuid raw opts w r w')
  then show ?case
    using mutate_state_fences [OF _ acquire_mutator_fences]
    by (cases "normalize_lease now token uuid raw") (auto simp: acquire_desktop_def fences_ahead_refl)
next
  case (Heartbeat archived now slug thread owner token w r' w')
  then show ?case unfolding heartbeat_desktop_def by (rule mutate_state_fences) (rule heartbeat_mutator_fences)
next
  case (Release archived now slug thread owner token force reason w r' w')
  then show ?case unfolding release_desktop_def by (rule mutate_state_fences) (rule release_mutator_fences)
qed simp

lemma lease_steps_fences: "(lease_step env cfg)\<^sup>*\<^sup>* w w' \<Longrightarrow> fences_ahead (world_state w) (world_state w')"
  by (induction rule: rtranclp_induct) (auto intro: fences_ahead_refl fences_ahead_trans lease_step_fences)

text \<open>The lease that an action runs under.\<close>

lemma acting_lease:
  assumes "with_current_lease_action env cfg b now w = Inr l"
  shows "validate_lease_structure (world_state w)" "l \<in> set (dl_leases (world_state w))" "lease_active l"
    "b = \<lparr>ab_slug = ls_slug l, ab_owner = ls_owner l, ab_thread = ls_thread l, ab_lease = ls_id l,
       ab_version = ls_version l, ab_token = ls_token l\<rparr>"
proof -
  obtain st where read: "read_lease_state env cfg w = Inr (Some st)" and
    act: "current_action_lease env st b (lc_stale_after cfg) now = Inr l"
    using assms by (auto simp: with_current_lease_action_def split: sum.splits option.splits if_splits)
  have st: "world_state w = st" using read_world_state [OF read] by simp
  have "validate_lease_state env (lw_identity w) (lc_adoption cfg) st = Inr ()"
    using read by (auto simp: read_lease_state_def Let_def and_then_Inr_iff split: option.splits if_splits)
  then show "validate_lease_structure (world_state w)" unfolding st by (rule valid_structure)
  have l: "active_for (ab_slug b) (ab_owner b) st = Some l" and
    same: "ls_id l = ab_lease b" "ls_thread l = ab_thread b" "ls_version l = ab_version b" "ls_token l = ab_token b"
    using act by (auto simp: current_action_lease_def split: if_splits option.splits)
  note found = active_for_Some [OF l]
  show "l \<in> set (dl_leases (world_state w))" "lease_active l" using found st by simp_all
  show "b = \<lparr>ab_slug = ls_slug l, ab_owner = ls_owner l, ab_thread = ls_thread l, ab_lease = ls_id l,
       ab_version = ls_version l, ab_token = ls_token l\<rparr>"
    using found same by (simp add: action_binding.equality)
qed

text \<open>
  C5: among the actions that are ever allowed on one desktop of one owner the fencing versions only
  grow, and at one version there is one lease with one thread and one token: whatever any number of
  processes do in between, and wherever they die, a holder whose lease was taken over, released or
  recovered never acts again.
\<close>

theorem stale_holder_fenced:
  assumes "(lease_step env cfg)\<^sup>*\<^sup>* w w'"
    and "with_current_lease_action env cfg b now w = Inr l" "with_current_lease_action env cfg b' now' w' = Inr l'"
    and "ab_slug b' = ab_slug b" "ab_owner b' = ab_owner b"
  shows "ab_version b < ab_version b' \<or> b' = b"
proof -
  note l = acting_lease [OF assms(2)] and l' = acting_lease [OF assms(3)]
  have valid: "leases_valid (dl_counter (world_state w)) [] [] (dl_leases (world_state w))"
    using l(1) by (simp add: validate_lease_structure_def)
  then have low: "ls_version l \<le> dl_counter (world_state w)"
    using l(2) by (auto simp: leases_valid_iff list_all_iff lease_well_formed_def)
  from lease_steps_fences [OF assms(1)] l'(2,3)
  consider k where "k \<in> set (dl_leases (world_state w))" "lease_active k" "same_fence k l'"
    | "dl_counter (world_state w) < ls_version l'" unfolding fences_ahead_def by blast
  then show ?thesis
  proof cases
    case 1
    then have "lease_key k = lease_key l"
      using assms(4,5) by (simp add: l(4) l'(4) lease_key_def same_fence_def)
    then have "k = l" using active_unique [OF _ 1(1) l(2) 1(2) l(3)] valid by (simp add: leases_valid_iff)
    with 1(3) show ?thesis by (simp add: l(4) l'(4) same_fence_def)
  next
    case 2
    with low show ?thesis by (simp add: l(4) l'(4))
  qed
qed

end
