(* ===== verification/DesktopOperations.thy ===== *)
theory DesktopOperations
  imports DesktopLeases
begin

text \<open>
  The operations on desktops (\<open>desktop-leases.js\<close>) over the lease store: what a lease looks like from
  outside, the check before an operation on a desktop, and acquiring with the recovery of a lease
  whose desktop has stopped. The access decision of the thread's grants and the mode it asks for are
  arguments, and so are the threads and the clock.
\<close>

section \<open>Principals and threads\<close>

record principal =
  pr_user :: string
  pr_admin :: bool

definition owner_user_id :: "string \<Rightarrow> principal option \<Rightarrow> string \<Rightarrow> string" where
  "owner_user_id admin p fallback =
     (case p of
        Some q \<Rightarrow> if pr_user q \<noteq> [] \<and> \<not> pr_admin q then normalize_user_id (pr_user q)
          else normalize_user_id (if fallback \<noteq> [] then fallback else if pr_user q \<noteq> [] then pr_user q else or_default ''admin'' admin)
      | None \<Rightarrow> normalize_user_id (if fallback \<noteq> [] then fallback else or_default ''admin'' admin))"

text \<open>\<open>dt_label\<close> is the title, name or id of the thread, the first that is not empty.\<close>

record desktop_thread =
  dt_killed :: bool
  dt_state :: string
  dt_label :: string
  dt_codex :: "string option"

definition thread_allows_lease_steal :: "desktop_thread option \<Rightarrow> bool" where
  "thread_allows_lease_steal t =
     (case t of None \<Rightarrow> True
      | Some x \<Rightarrow> dt_killed x \<or> str_trim (dt_state x) \<in> set [''failed'', ''failed_auth'', ''broken'', ''sleeping''])"

text \<open>A configured age that is missing, not a number or not positive gives fifteen minutes.\<close>

definition lease_stale_after_ms :: "int option \<Rightarrow> int" where
  "lease_stale_after_ms configured = (case configured of None \<Rightarrow> 900000 | Some n \<Rightarrow> if 0 < n then n else 900000)"

section \<open>The status of a lease\<close>

record lease_status =
  sx_lease :: lease
  sx_active :: bool
  sx_stale :: bool
  sx_expired :: bool
  sx_age :: "int option"
  sx_stealable :: bool
  sx_thread_exists :: bool
  sx_thread_state :: "string option"
  sx_label :: string
  sx_codex :: "string option"

definition heartbeat_age :: "lease_env \<Rightarrow> int \<Rightarrow> lease \<Rightarrow> int option" where
  "heartbeat_age env now l = map_option (\<lambda>beat. max 0 (now - beat)) (le_parse env (ls_heartbeat l))"

definition public_desktop_lease :: "lease_env \<Rightarrow> int \<Rightarrow> (string \<Rightarrow> desktop_thread option) \<Rightarrow> int \<Rightarrow> lease \<Rightarrow> lease_status" where
  "public_desktop_lease env stale_after threads now l =
     (let t = threads (ls_thread l);
          age = heartbeat_age env now l;
          expired = (case parsed env (ls_expires l) of None \<Rightarrow> False | Some e \<Rightarrow> e \<le> now);
          stale = (case age of None \<Rightarrow> False | Some a \<Rightarrow> stale_after < a)
      in \<lparr>sx_lease = l, sx_active = lease_active l, sx_stale = stale, sx_expired = expired, sx_age = age,
          sx_stealable = (thread_allows_lease_steal t \<or> stale \<or> expired), sx_thread_exists = (t \<noteq> None),
          sx_thread_state = (case t of None \<Rightarrow> None | Some x \<Rightarrow> if dt_state x = [] then None else Some (dt_state x)),
          sx_label = (case t of Some x \<Rightarrow> dt_label x | None \<Rightarrow>
            (case ls_thread_name l of Some n \<Rightarrow> or_default (ls_thread l) n | None \<Rightarrow> ls_thread l)),
          sx_codex = (case t of Some x \<Rightarrow> (case dt_codex x of Some c \<Rightarrow> Some c | None \<Rightarrow> ls_codex l) | None \<Rightarrow> ls_codex l)\<rparr>)"

text \<open>\<open>activeLease\<close>: the newest active lease of the desktop, of one owner when it is given.\<close>

definition acquired_order :: "lease_env \<Rightarrow> lease \<Rightarrow> lease \<Rightarrow> int" where
  "acquired_order env a b =
     (case (le_parse env (ls_acquired b), le_parse env (ls_acquired a)) of (Some y, Some x) \<Rightarrow> y - x | _ \<Rightarrow> 0)"

definition newest_active :: "lease_env \<Rightarrow> string \<Rightarrow> string \<Rightarrow> lease_state \<Rightarrow> lease option" where
  "newest_active env slug owner st =
     (case sort_by (acquired_order env) (filter (named_active slug owner) (dl_leases st)) of [] \<Rightarrow> None | l # _ \<Rightarrow> Some l)"

definition store_active_lease :: "lease_env \<Rightarrow> lease_config \<Rightarrow> string \<Rightarrow> string \<Rightarrow> lease_world \<Rightarrow> (lease_error, lease option) result" where
  "store_active_lease env cfg slug owner w =
     and_then (read_lease_state env cfg w) (\<lambda>found.
       Inr (newest_active env (normalize_desktop_slug slug) (owner_given owner) (case found of None \<Rightarrow> no_leases | Some st \<Rightarrow> st)))"

section \<open>The check before an operation\<close>

record operation_request =
  or_enforced :: bool
  or_break_glass :: bool
  or_slug :: string
  or_owner :: string
  or_thread :: string
  or_token :: string
  or_expected_id :: string
  or_expected_version :: int

text \<open>
  The owner is the one \<open>ownerUserIdForPrincipal\<close> gives for the request; an expected id that is empty
  and an expected version of zero are not given.
\<close>

definition operation_lease_check ::
  "lease_env \<Rightarrow> int \<Rightarrow> int \<Rightarrow> operation_request \<Rightarrow> lease option \<Rightarrow> (lease_error, lease) result" where
  "operation_lease_check env stale_after now q found =
     (case found of
        None \<Rightarrow> Inl (LeaseError ''desktop_lease_required'' 403)
      | Some l \<Rightarrow>
          let thread = str_trim (or_thread q); token = str_trim (or_token q) in
          if ls_thread l \<noteq> thread then Inl (LeaseError ''desktop_lease_owned_by_other_thread'' 409)
          else (case lease_fresh env stale_after now l of
              Some e \<Rightarrow> Inl e
            | None \<Rightarrow>
                if ls_mode l \<noteq> ''exclusive'' then Inl (LeaseError ''desktop_lease_must_be_exclusive'' 409)
                else if or_expected_id q \<noteq> [] \<and> ls_id l \<noteq> or_expected_id q then Inl (LeaseError ''desktop_lease_replaced'' 409)
                else if or_expected_version q \<noteq> 0 \<and> ls_version l \<noteq> or_expected_version q
                then Inl (LeaseError ''desktop_lease_replaced'' 409)
                else if token = [] \<or> ls_token l \<noteq> token
                then (if or_expected_id q \<noteq> [] \<and> or_token q = [] then Inr l
                  else Inl (LeaseError (if token \<noteq> [] then ''lease_fencing_token_invalid'' else ''lease_fencing_token_required'') 409))
                else Inr l))"

definition assert_desktop_lease_for_operation ::
  "lease_env \<Rightarrow> lease_config \<Rightarrow> int \<Rightarrow> int \<Rightarrow> operation_request \<Rightarrow> lease_world \<Rightarrow> (lease_error, lease option) result" where
  "assert_desktop_lease_for_operation env cfg stale_after now q w =
     (if \<not> or_enforced q \<or> or_break_glass q then Inr None
      else if str_trim (or_thread q) = [] then Inl (LeaseError ''desktop_thread_scope_required'' 403)
      else and_then (store_active_lease env cfg (normalize_desktop_slug (or_slug q)) (or_owner q) w) (\<lambda>found.
        and_then (operation_lease_check env stale_after now q found) (\<lambda>l. Inr (Some l))))"

section \<open>Acquiring a desktop\<close>

definition stopped_desktop_states :: "string list" where
  "stopped_desktop_states = [''closed'', ''exited'', ''failed'', ''inactive'', ''prepared'', ''stopped'']"

definition stopped_desktop_lease_recovery_state :: "string \<Rightarrow> string" where
  "stopped_desktop_lease_recovery_state s =
     (let x = to_lower (str_trim s) in if x \<in> set stopped_desktop_states then x else [])"

record acquire_request =
  aq_slug :: string
  aq_thread :: string
  aq_owner :: string
  aq_principal :: "principal option"
  aq_force :: bool
  aq_enforced :: bool
  aq_break_glass :: bool
  aq_break_glass_reason :: string
  aq_break_glass_change :: string
  aq_mode :: string
  aq_ttl :: int
  aq_details :: lease_input
  aq_allow_recovery :: bool
  aq_desktop_state :: string
  aq_reuse :: bool

definition admin_given :: "principal option \<Rightarrow> bool" where
  "admin_given p = (case p of None \<Rightarrow> False | Some q \<Rightarrow> pr_admin q)"

definition requested_mode :: "acquire_request \<Rightarrow> string" where
  "requested_mode q = str_trim (or_default ''exclusive'' (aq_mode q))"

text \<open>The checks in their order; \<open>access\<close> is the error of the access decision, if it refuses.\<close>

definition acquire_guards :: "acquire_request \<Rightarrow> lease_error option \<Rightarrow> lease_error option" where
  "acquire_guards q access =
     (if normalize_desktop_slug (aq_slug q) = [] then Some (LeaseError ''invalid_desktop_slug'' 400)
      else if str_trim (aq_thread q) = [] then Some (LeaseError ''threadId_required'' 400)
      else if aq_force q \<and> aq_principal q \<noteq> None \<and> \<not> admin_given (aq_principal q)
      then Some (LeaseError ''desktop_force_acquire_admin_required'' 403)
      else if aq_force q \<and> aq_enforced q \<and> (\<not> admin_given (aq_principal q) \<or> \<not> aq_break_glass q)
      then Some (LeaseError ''desktop_force_acquire_break_glass_required'' 403)
      else if aq_force q \<and> aq_enforced q \<and> (str_trim (aq_break_glass_reason q) = [] \<or> str_trim (aq_break_glass_change q) = [])
      then Some (LeaseError ''desktop_force_acquire_break_glass_evidence_required'' 400)
      else (case access of
          Some e \<Rightarrow> Some e
        | None \<Rightarrow>
            if aq_enforced q \<and> requested_mode q \<noteq> ''exclusive'' then Some (LeaseError ''desktop_lease_must_be_exclusive'' 409)
            else if aq_enforced q \<and> aq_ttl q \<le> 0 then Some (LeaseError ''desktop_lease_expiry_required'' 400) else None))"

definition recovery_candidate_of :: "acquire_request \<Rightarrow> lease_status option \<Rightarrow> recovery_candidate option" where
  "recovery_candidate_of q existing =
     (case existing of
        None \<Rightarrow> None
      | Some x \<Rightarrow>
          if aq_allow_recovery q \<and> stopped_desktop_lease_recovery_state (aq_desktop_state q) \<noteq> []
            \<and> ls_thread (sx_lease x) \<noteq> str_trim (aq_thread q) \<and> (sx_expired x \<or> sx_stale x) \<and> sx_stealable x
          then Some \<lparr>rv_id = ls_id (sx_lease x), rv_thread = ls_thread (sx_lease x), rv_heartbeat = ls_heartbeat (sx_lease x),
            rv_expires = ls_expires (sx_lease x)\<rparr>
          else None)"

definition acquire_input :: "int \<Rightarrow> string \<Rightarrow> acquire_request \<Rightarrow> lease_input" where
  "acquire_input now owner q = (aq_details q)\<lparr>li_slug := normalize_desktop_slug (aq_slug q), li_owner := owner,
     li_thread := str_trim (aq_thread q), li_mode := requested_mode q, li_acquired := iso_string now,
     li_heartbeat := iso_string now, li_expires := (if 0 < aq_ttl q then Some (iso_string (now + aq_ttl q)) else None)\<rparr>"

definition acquire_settings :: "acquire_request \<Rightarrow> recovery_candidate option \<Rightarrow> acquire_options" where
  "acquire_settings q candidate = \<lparr>aw_force = aq_force q,
     aw_reason = (if aq_force q then ''force_acquired'' else if candidate \<noteq> None then ''expired_stopped_auto_recovery'' else ''superseded''),
     aw_candidate = candidate, aw_reuse = aq_reuse q\<rparr>"

text \<open>
  The lease is looked at first, in the world \<open>w1\<close>, and acquired later, in the world \<open>w2\<close>, which other
  processes may have changed in between.
\<close>

definition acquire_desktop_lease ::
  "lease_env \<Rightarrow> lease_config \<Rightarrow> string \<Rightarrow> (string \<Rightarrow> desktop_thread option) \<Rightarrow> int \<Rightarrow> bool \<Rightarrow> string \<Rightarrow> string \<Rightarrow>
     lease_error option \<Rightarrow> acquire_request \<Rightarrow> int \<Rightarrow> lease_world \<Rightarrow> int \<Rightarrow> lease_world \<Rightarrow> (lease_error, acquired) result \<times> lease_world" where
  "acquire_desktop_lease env cfg admin threads stale_after archived token uuid access q now1 w1 now2 w2 =
     (case acquire_guards q access of
        Some e \<Rightarrow> (Inl e, w2)
      | None \<Rightarrow>
          (let owner = owner_user_id admin (aq_principal q) (aq_owner q) in
           case store_active_lease env cfg (normalize_desktop_slug (aq_slug q)) (owner_user_id admin None owner) w1 of
             Inl e \<Rightarrow> (Inl e, w2)
           | Inr existing \<Rightarrow>
               (let candidate = recovery_candidate_of q (map_option (public_desktop_lease env stale_after threads now1) existing) in
                acquire_desktop env cfg archived now2 token uuid (acquire_input now1 owner q) (acquire_settings q candidate) w2)))"

section \<open>Heartbeat and release\<close>

definition heartbeat_desktop_lease ::
  "lease_env \<Rightarrow> lease_config \<Rightarrow> string \<Rightarrow> bool \<Rightarrow> int \<Rightarrow> lease_error option \<Rightarrow> bool \<Rightarrow> principal option \<Rightarrow> string \<Rightarrow> string \<Rightarrow> string \<Rightarrow> string
     \<Rightarrow> lease_world \<Rightarrow> (lease_error, lease_answer) result \<times> lease_world" where
  "heartbeat_desktop_lease env cfg admin archived now access enforced p owner slug thread token w =
     (case access of
        Some e \<Rightarrow> (Inl e, w)
      | None \<Rightarrow>
          if enforced \<and> str_trim token = [] then (Inr (LeaseRefused ''lease_fencing_token_required'' None), w)
          else heartbeat_desktop env cfg archived now slug thread (owner_user_id admin p owner) (str_trim token) w)"

definition release_desktop_lease ::
  "lease_env \<Rightarrow> lease_config \<Rightarrow> string \<Rightarrow> bool \<Rightarrow> int \<Rightarrow> lease_error option \<Rightarrow> bool \<Rightarrow> bool \<Rightarrow> principal option \<Rightarrow> string \<Rightarrow> string \<Rightarrow> string
     \<Rightarrow> string \<Rightarrow> string \<Rightarrow> lease_world \<Rightarrow> (lease_error, lease_answer) result \<times> lease_world" where
  "release_desktop_lease env cfg admin archived now access enforced force p owner slug thread token reason w =
     (case (if force then None else access) of
        Some e \<Rightarrow> (Inl e, w)
      | None \<Rightarrow>
          if enforced \<and> \<not> force \<and> str_trim token = [] then (Inr (LeaseRefused ''lease_fencing_token_required'' None), w)
          else release_desktop env cfg archived now slug thread (owner_user_id admin p owner) token force reason w)"

end
