(* ===== verification/LeaseGrants.thy ===== *)
theory LeaseGrants
  imports LeaseFacts DesktopOperations
begin

text \<open>
  What a caller may rely on: a granted lease passes the validation of the file and can act; without
  force a lease is taken over only as it was seen, expired or stale, on a stopped desktop; a principal
  touches leases of its own user only; the retired history cannot be changed.
\<close>

section \<open>Normal texts\<close>

lemma str_trim_clean: "list_all (\<lambda>c. \<not> is_space c) s \<Longrightarrow> str_trim s = s"
proof -
  assume clean: "list_all (\<lambda>c. \<not> is_space c) s"
  then have "dropWhile is_space s = s" by (cases s) auto
  moreover from clean have "dropWhile is_space (rev s) = rev s" by (cases "rev s") (auto simp: list_all_iff dest: arg_cong [of _ _ set])
  ultimately show ?thesis by (simp add: str_trim_def)
qed

lemma trim_ends:
  assumes "s \<noteq> []" "\<not> is_space (hd s)" "\<not> is_space (last s)"
  shows "str_trim s = s"
proof -
  have "dropWhile is_space s = s" using assms(1,2) by (cases s) auto
  moreover have "dropWhile is_space (rev s) = rev s"
    using assms(1,3) by (cases s rule: rev_cases) auto
  ultimately show ?thesis by (simp add: str_trim_def)
qed

lemma hd_dropWhile_not: "dropWhile p s \<noteq> [] \<Longrightarrow> \<not> p (hd (dropWhile p s))"
  by (induction s) auto

lemma str_trim_again [simp]: "str_trim (str_trim s) = str_trim s"
proof (cases "str_trim s = []")
  case True
  moreover have "str_trim [] = []" by (simp add: str_trim_def)
  ultimately show ?thesis by simp
next
  case False
  let ?a = "dropWhile is_space s"
  let ?b = "dropWhile is_space (rev ?a)"
  have trim: "str_trim s = rev ?b" by (simp add: str_trim_def)
  with False have b: "?b \<noteq> []" by simp
  then have "\<not> is_space (last (rev ?b))" using hd_dropWhile_not [of is_space "rev ?a"] by (simp add: last_rev)
  moreover have "hd (rev ?b) = hd ?a"
  proof -
    have "?a = rev ?b @ rev (takeWhile is_space (rev ?a))"
      by (metis rev_append rev_rev_ident takeWhile_dropWhile_id)
    with b show ?thesis by (metis hd_append2 rev_is_Nil_conv)
  qed
  moreover have "?a \<noteq> []" using b by (metis dropWhile.simps(1) rev.simps(1))
  then have "\<not> is_space (hd ?a)" by (rule hd_dropWhile_not)
  ultimately show ?thesis unfolding trim using b by (intro trim_ends) simp_all
qed

lemma trimmed_str_trim: "str_trim s \<noteq> [] \<Longrightarrow> trimmed_text (str_trim s)"
  by (simp add: trimmed_text_def)

lemma trimmed_last: "trimmed_text s \<Longrightarrow> \<not> is_space (last s)"
proof -
  let ?b = "dropWhile is_space (rev (dropWhile is_space s))"
  assume "trimmed_text s"
  then have s: "s = rev ?b" "s \<noteq> []" by (simp_all add: trimmed_text_def str_trim_def)
  then have "?b \<noteq> []" by (metis rev_is_Nil_conv)
  note s = s(1) this
  from s(2) have "\<not> is_space (hd ?b)" by (rule hd_dropWhile_not)
  with s show ?thesis by (metis last_rev)
qed

lemma canonical_not_space: "canonical_char c \<Longrightarrow> \<not> is_space c"
proof
  assume canonical: "canonical_char c" and "is_space c"
  then have "of_char c \<le> (32 :: nat) \<or> of_char c = (160 :: nat)"
    by (auto simp: is_space_def char_between_def)
  moreover have "32 < (of_char c :: nat) \<and> of_char c < (160 :: nat)"
    using canonical by (auto simp: canonical_char_def is_lower_def is_digit_def char_between_def)
  ultimately show False by simp
qed

lemma canonical_textI: "s \<noteq> [] \<Longrightarrow> list_all canonical_char s \<Longrightarrow> canonical_text s"
proof -
  assume s: "s \<noteq> []" "list_all canonical_char s"
  then have "list_all (\<lambda>c. \<not> is_space c) s" using canonical_not_space by (auto simp: list_all_iff)
  with s str_trim_clean show "canonical_text s" by (simp add: canonical_text_def trimmed_text_def)
qed

lemma dash_others_canonical: "list_all canonical_char (dash_others s)"
  by (induction s rule: dash_others.induct) (auto simp: canonical_char_def)

lemma trim_dashes_subset: "set (trim_dashes s) \<subseteq> set s"
  unfolding trim_dashes_def by (auto dest!: set_dropWhileD)

lemma dashes_canonical: "list_all canonical_char (trim_dashes (dash_others s))"
  using dash_others_canonical [of s] trim_dashes_subset [of "dash_others s"] by (auto simp: list_all_iff)

lemma normalize_desktop_slug_canonical: "normalize_desktop_slug s \<noteq> [] \<Longrightarrow> canonical_text (normalize_desktop_slug s)"
  unfolding normalize_desktop_slug_def by (rule canonical_textI [OF _ dashes_canonical])

lemma normalize_user_id_canonical: "canonical_text (normalize_user_id s)"
proof -
  have "list_all canonical_char (take 96 (trim_dashes (dash_others (to_lower (str_trim s)))))"
    using dashes_canonical by (metis list_all_iff in_set_takeD)
  moreover have "list_all canonical_char ''admin''" by (simp add: canonical_char_def is_lower_def char_between_def)
  ultimately show ?thesis by (auto simp: normalize_user_id_def Let_def intro!: canonical_textI)
qed

lemma normalize_user_id_nonempty: "normalize_user_id s \<noteq> []"
  using normalize_user_id_canonical [of s] by (auto simp: canonical_text_def trimmed_text_def)

lemma iso_string_trimmed: "trimmed_text (iso_string t)"
proof -
  have digits: "\<not> is_space c" if "is_digit c" for c
    using that by (auto simp: is_digit_def is_space_def char_between_def)
  have nat: "\<not> is_space (hd (pad_int w n @ x))" if "pad_int w n \<noteq> []" for w n x
    using that pad_int_digits [of w n] digits by (cases "pad_int w n") auto
  have "\<not> is_space (CHR ''-'')" "\<not> is_space (CHR ''+'')" "\<not> is_space (CHR ''Z'')"
    by (simp_all add: is_space_def char_between_def)
  then have "\<not> is_space (hd (iso_string t))" "\<not> is_space (last (iso_string t))" "iso_string t \<noteq> []"
    using nat by (auto simp: iso_string_def iso_date_def iso_year_def Let_def split_beta)
  then show ?thesis by (simp add: trimmed_text_def trim_ends)
qed

section \<open>A granted lease can act\<close>

lemma lease_well_formed_mono: "lease_well_formed c l \<Longrightarrow> c \<le> c' \<Longrightarrow> lease_well_formed c' l"
  by (auto simp: lease_well_formed_def)

text \<open>The part of the validation that is left without an adopted cohort.\<close>

lemma validate_plain:
  "validate_lease_state env i None st = Inr () \<longleftrightarrow>
     validate_lease_structure st \<and> (dl_lock st = None \<or> dl_lock st = Some i) \<and> dl_cohort st = None
     \<and> distinct (map ls_version (dl_leases st))"
  by (auto simp: validate_lease_state_def validate_legacy_cohort_def versions_valid_iff Let_def list_all_iff)

lemma read_plain:
  assumes "lc_adoption cfg = None" and "read_lease_state env cfg w = Inr found"
  shows "validate_lease_structure (world_state w)" "dl_cohort (world_state w) = None"
    "distinct (map ls_version (dl_leases (world_state w)))"
proof -
  have "world_state w = no_leases \<or> validate_lease_state env (lw_identity w) None (world_state w) = Inr ()"
    using assms by (auto simp: read_lease_state_def world_state_def Let_def and_then_Inr_iff split: option.splits if_splits)
  then show "validate_lease_structure (world_state w)" "dl_cohort (world_state w) = None"
    "distinct (map ls_version (dl_leases (world_state w)))"
    by (auto simp: validate_plain no_leases_def validate_lease_structure_def max_safe_def)
qed

lemma retain_archived: "\<exists>st' kept. retain_lease_history env policy True st = Inr (st', kept)"
  by (auto simp: retain_lease_history_def Let_def split: option.split)

lemma filter_valid:
  assumes "validate_lease_structure st"
  shows "validate_lease_structure (st\<lparr>dl_leases := filter p (dl_leases st)\<rparr>)"
  using assms distinct_map_filter
  by (auto simp: validate_lease_structure_def leases_valid_iff list_all_iff filter_filter conj_commute
      intro: distinct_map_filter) (simp add: distinct_map_filter flip: filter_filter)

lemma granted_valid:
  assumes "validate_lease_structure st" and "distinct (map ls_version (dl_leases st))" and "dl_counter st < max_safe"
    and "lease_well_formed (dl_counter st + 1) g" "ls_version g = dl_counter st + 1" "ls_id g \<notin> set (map ls_id (dl_leases st))"
    and "\<And>l. l \<in> set (dl_leases st) \<Longrightarrow> lease_active l \<Longrightarrow> lease_key l \<noteq> lease_key g"
  shows "validate_lease_structure (st\<lparr>dl_counter := dl_counter st + 1, dl_leases := g # dl_leases st\<rparr>)"
    and "distinct (map ls_version (g # dl_leases st))"
proof -
  have old: "lease_well_formed (dl_counter st) l" if "l \<in> set (dl_leases st)" for l
    using assms(1) that by (auto simp: validate_lease_structure_def leases_valid_iff list_all_iff)
  then have "ls_version g \<notin> set (map ls_version (dl_leases st))"
    using assms(5) by (fastforce simp: lease_well_formed_def)
  with assms(2) show "distinct (map ls_version (g # dl_leases st))" by simp
  have "lease_well_formed (dl_counter st + 1) l" if "l \<in> set (dl_leases st)" for l
    using old [OF that] by (rule lease_well_formed_mono) simp
  moreover have "lease_key g \<notin> set (map lease_key (filter lease_active (dl_leases st)))" using assms(7) by force
  ultimately show "validate_lease_structure (st\<lparr>dl_counter := dl_counter st + 1, dl_leases := g # dl_leases st\<rparr>)"
    using assms(1,3,4,6)
    by (auto simp: validate_lease_structure_def leases_valid_iff list_all_iff)
qed

definition binding_of :: "lease \<Rightarrow> action_binding" where
  "binding_of l = \<lparr>ab_slug = ls_slug l, ab_owner = ls_owner l, ab_thread = ls_thread l, ab_lease = ls_id l,
     ab_version = ls_version l, ab_token = ls_token l\<rparr>"

lemma validate_structure_lock [simp]:
  "validate_lease_structure (st\<lparr>dl_lock := i\<rparr>) \<longleftrightarrow> validate_lease_structure st"
  by (simp add: validate_lease_structure_def)

text \<open>A new lease is written unless the file would become too large.\<close>

lemma write_plain:
  assumes "lc_adoption cfg = None" and "validate_lease_structure st" "dl_cohort st = None" "distinct (map ls_version (dl_leases st))"
  shows "write_lease_state env cfg st w = Inl (store_error ''desktop_lease_state_too_large'')
    \<or> (\<exists>w'. write_lease_state env cfg st w = Inr w' \<and> read_lease_state env cfg w' = Inr (Some (world_state w'))
        \<and> world_state w' = st\<lparr>dl_lock := Some (lw_identity w)\<rparr> \<and> lw_initialized w' \<and> lw_identity w' = lw_identity w)"
proof -
  let ?st = "st\<lparr>dl_lock := Some (lw_identity w)\<rparr>"
  have valid: "validate_lease_state env (lw_identity w) None ?st = Inr ()"
    using assms(2-4) by (simp add: validate_plain)
  then show ?thesis
    using assms(1) by (simp add: write_lease_state_def Let_def read_lease_state_def world_state_def)
qed

lemma normalize_lease_parts:
  assumes "normalize_lease now token uuid raw = Some n" and "trimmed_text (li_acquired raw)" "trimmed_text (li_heartbeat raw)"
    and "pred_option trimmed_text (li_expires raw)"
  shows "trimmed_text (ls_id n)" "canonical_text (ls_slug n)" "canonical_text (ls_owner n)" "trimmed_text (ls_thread n)"
    "ls_mode n \<in> set lease_modes" "ls_acquired n = li_acquired raw" "ls_heartbeat n = li_heartbeat raw"
    "ls_expires n = li_expires raw" "ls_released n = None" "li_mode raw = ''exclusive'' \<Longrightarrow> ls_mode n = ''exclusive''"
proof -
  let ?slug = "normalize_desktop_slug (li_slug raw)" and ?thread = "str_trim (li_thread raw)"
  let ?id = "?slug @ '':'' @ normalize_user_id (or_default ''admin'' (li_owner raw)) @ '':'' @ ?thread @ '':'' @ or_default uuid (li_acquired raw)"
  have texts: "li_acquired raw \<noteq> []" "li_heartbeat raw \<noteq> []" "li_expires raw \<noteq> Some []"
    using assms(2-4) by (auto simp: trimmed_text_def)
  have some: "?slug \<noteq> []" "?thread \<noteq> []" and n: "ls_id n = str_trim ?id" "ls_slug n = ?slug"
    "ls_owner n = normalize_user_id (or_default ''admin'' (li_owner raw))" "ls_thread n = ?thread"
    "ls_mode n = (if li_mode raw \<in> set lease_modes then li_mode raw else ''exclusive'')"
    "ls_acquired n = li_acquired raw" "ls_heartbeat n = li_heartbeat raw" "ls_expires n = li_expires raw" "ls_released n = None"
    using assms(1) texts by (auto simp: normalize_lease_def Let_def or_default_def split: if_splits)
  show "canonical_text (ls_slug n)" "canonical_text (ls_owner n)" "trimmed_text (ls_thread n)"
    using n some normalize_desktop_slug_canonical normalize_user_id_canonical trimmed_str_trim by simp_all
  have "str_trim ?id = ?id"
  proof (rule trim_ends)
    show "?id \<noteq> []" by simp
    have "list_all canonical_char ?slug" using normalize_desktop_slug_canonical [OF some(1)] by (simp add: canonical_text_def)
    with some(1) show "\<not> is_space (hd ?id)" using canonical_not_space by (cases ?slug) auto
    have "or_default uuid (li_acquired raw) = li_acquired raw" using texts by (simp add: or_default_def)
    moreover have "\<not> is_space (last (li_acquired raw))" by (rule trimmed_last) (rule assms(2))
    ultimately show "\<not> is_space (last ?id)" using texts by simp
  qed
  then show "trimmed_text (ls_id n)" using n by (simp add: trimmed_text_def)
  show "ls_mode n \<in> set lease_modes" using n by (simp add: lease_modes_def)
  show "ls_acquired n = li_acquired raw" "ls_heartbeat n = li_heartbeat raw" "ls_expires n = li_expires raw" "ls_released n = None"
    using n by simp_all
  show "ls_mode n = ''exclusive''" if "li_mode raw = ''exclusive''" using n that by (simp add: lease_modes_def)
qed

text \<open>The state that a grant writes is a valid one, whatever part of the history was retained.\<close>

lemma granted_state_valid:
  assumes "lc_adoption cfg = None" and "read_lease_state env cfg w = Inr found"
    and "normalize_lease now token uuid raw = Some n" and "active_for (ls_slug n) (ls_owner n) (world_state w) = None"
    and "li_acquired raw = iso_string now" "li_heartbeat raw = iso_string now"
      "li_expires raw = map_option (\<lambda>t. iso_string (now + t)) ttl"
    and "trimmed_text token" "ls_id n \<notin> ls_id ` set (dl_leases (world_state w))" "dl_counter (world_state w) < max_safe"
    and st1: "st1 = (world_state w)\<lparr>dl_leases := filter p (dl_leases (world_state w))\<rparr>"
  defines "g \<equiv> granted_lease now token uuid st1 n"
  shows "g = n\<lparr>ls_updated := iso_string now, ls_token := token, ls_version := dl_counter st1 + 1\<rparr>"
    and "validate_lease_structure (st1\<lparr>dl_counter := dl_counter st1 + 1, dl_leases := g # dl_leases st1\<rparr>)"
    and "distinct (map ls_version (g # dl_leases st1))" and "0 \<le> dl_counter st1" "dl_counter st1 < max_safe"
proof -
  note old = read_plain [OF assms(1,2)]
  have texts: "trimmed_text (iso_string now)" "pred_option trimmed_text (map_option (\<lambda>t. iso_string (now + t)) ttl)"
    using iso_string_trimmed by (cases ttl; simp)+
  note n = normalize_lease_parts [OF assms(3), unfolded assms(5-7), OF texts(1,1,2)]
  show g: "g = n\<lparr>ls_updated := iso_string now, ls_token := token, ls_version := dl_counter st1 + 1\<rparr>"
    using old(2) texts(1) by (simp add: g_def granted_lease_def st1 n or_default_def trimmed_text_def)
  show counter: "0 \<le> dl_counter st1" "dl_counter st1 < max_safe"
    using old(1) assms(10) by (simp_all add: st1 validate_lease_structure_def)
  have "lease_well_formed (dl_counter st1 + 1) g"
    using n assms(8) counter texts iso_string_trimmed unfolding g lease_well_formed_def by simp
  moreover have "validate_lease_structure st1" "distinct (map ls_version (dl_leases st1))"
    using filter_valid [OF old(1)] old(3) by (simp_all add: st1 distinct_map_filter)
  moreover have "lease_key l \<noteq> lease_key g" if "l \<in> set (dl_leases st1)" "lease_active l" for l
  proof -
    have "l \<in> set (dl_leases (world_state w))" using that(1) by (simp add: st1)
    then show ?thesis
      using that(2) assms(4) unfolding g active_for_def find_None_iff by (auto simp: is_active_for_def lease_key_def)
  qed
  ultimately show "validate_lease_structure (st1\<lparr>dl_counter := dl_counter st1 + 1, dl_leases := g # dl_leases st1\<rparr>)"
      "distinct (map ls_version (g # dl_leases st1))"
    using granted_valid [of st1 g] counter(2) assms(9) unfolding g by (auto simp: st1)
qed

text \<open>
  C7: a desktop without an active lease can be acquired in any mode and used: where no retired cohort is
  adopted, the archive takes the retained history, the id is fresh and the fencing counter is below its
  maximum, the lease is granted and written, unless the file would grow too large; the action of its
  holder is then allowed at once exactly when the lease is exclusive and has a time to live.
\<close>

theorem granted_lease_acts:
  assumes "lc_adoption cfg = None" "0 \<le> lc_stale_after cfg" and "read_lease_state env cfg w = Inr found"
    and "normalize_lease now token uuid raw = Some n" and "active_for (ls_slug n) (ls_owner n) (world_state w) = None"
    and "li_acquired raw = iso_string now" "li_heartbeat raw = iso_string now"
      "li_expires raw = map_option (\<lambda>t. iso_string (now + t)) ttl" "pred_option (\<lambda>t. 0 < t) ttl"
    and "trimmed_text token" "ls_id n \<notin> ls_id ` set (dl_leases (world_state w))" "dl_counter (world_state w) < max_safe"
    and "le_parse env (iso_string now) = Some now" "pred_option (\<lambda>t. le_parse env (iso_string (now + t)) = Some (now + t)) ttl"
  shows "fst (acquire_desktop env cfg True now token uuid raw opts w) = Inl (store_error ''desktop_lease_state_too_large'')
    \<or> (\<exists>g w'. acquire_desktop env cfg True now token uuid raw opts w = (Inr (Granted g False None), w')
        \<and> with_current_lease_action env cfg (binding_of g) now w'
          = (if ls_mode g \<noteq> ''exclusive'' then Inl (LeaseError ''desktop_lease_must_be_exclusive'' 409)
             else if ttl = None then Inl (LeaseError ''desktop_lease_expiry_invalid'' 403) else Inr g))"
proof -
  obtain st1 kept where kept: "retain_lease_history env (lc_retention cfg) True (world_state w) = Inr (st1, kept)"
    using retain_archived by blast
  obtain p where st1: "st1 = (world_state w)\<lparr>dl_leases := filter p (dl_leases (world_state w))\<rparr>" by (rule retain_filters [OF kept])
  note old = read_plain [OF assms(1,3)]
  have texts: "trimmed_text (iso_string now)" "pred_option trimmed_text (map_option (\<lambda>t. iso_string (now + t)) ttl)"
    using iso_string_trimmed by (cases ttl; simp)+
  note n = normalize_lease_parts [OF assms(4), unfolded assms(6-8), OF texts(1,1,2)]
  let ?result = "\<lambda>g. if ls_mode g \<noteq> ''exclusive'' then Inl (LeaseError ''desktop_lease_must_be_exclusive'' 409)
      else if ttl = None then Inl (LeaseError ''desktop_lease_expiry_invalid'' 403) else Inr g"
  let ?g = "granted_lease now token uuid st1 n" and ?st = "\<lambda>g. st1\<lparr>dl_counter := dl_counter st1 + 1, dl_leases := g # dl_leases st1\<rparr>"
  note state = granted_state_valid [OF assms(1,3-8,10-12) st1]
  note g = state(1) and counter = state(4,5)
  have valid: "validate_lease_structure (?st ?g)" "distinct (map ls_version (dl_leases (?st ?g)))" using state(2,3) by simp_all
  let ?w = "w\<lparr>lw_archive := lw_archive w @ kept\<rparr>"
  have none: "active_for (ls_slug n) (ls_owner n) st1 = None"
    using assms(5) by (auto simp: active_for_def st1 find_None_iff)
  have run: "acquire_desktop env cfg True now token uuid raw opts w =
      (case write_lease_state env cfg (?st ?g) ?w of Inl e \<Rightarrow> (Inl e, ?w) | Inr w2 \<Rightarrow> (Inr (Granted ?g False None), w2))"
    using counter(2) none assms(4)
    by (simp add: acquire_desktop_def mutate_state_def assms(3) read_world_state [OF assms(3)] kept acquire_mutator_def Let_def)
  have cohort: "dl_cohort (?st ?g) = None" using old(2) by (simp add: st1)
  from write_plain [OF assms(1) valid(1) cohort valid(2), of env ?w]
  show ?thesis
  proof
    assume "\<exists>w'. write_lease_state env cfg (?st ?g) ?w = Inr w' \<and> read_lease_state env cfg w' = Inr (Some (world_state w'))
        \<and> world_state w' = (?st ?g)\<lparr>dl_lock := Some (lw_identity ?w)\<rparr> \<and> lw_initialized w' \<and> lw_identity w' = lw_identity ?w"
    then obtain w' where wrote: "write_lease_state env cfg (?st ?g) ?w = Inr w'" and read: "read_lease_state env cfg w' = Inr (Some (world_state w'))"
      and st': "world_state w' = (?st ?g)\<lparr>dl_lock := Some (lw_identity ?w)\<rparr>" and init: "lw_initialized w'" "lw_identity w' = lw_identity ?w"
      by blast
    have active: "lease_active ?g" using n by (simp add: g lease_active_def)
    then have "active_for (ls_slug ?g) (ls_owner ?g) (world_state w') = Some ?g"
      by (simp add: st' active_for_def is_active_for_def)
    moreover have "lease_fresh env (lc_stale_after cfg) now ?g
        = (if ttl = None then Some (LeaseError ''desktop_lease_expiry_invalid'' 403) else None)"
      using n assms(2,9,13,14) by (cases ttl) (simp_all add: g lease_fresh_def parsed_def)
    ultimately have act: "current_action_lease env (world_state w') (binding_of ?g) (lc_stale_after cfg) now = ?result ?g"
      using cohort by (simp add: current_action_lease_def binding_of_def st')
    have "validate_action_binding (binding_of ?g)"
      using n assms(10) counter by (simp add: validate_action_binding_def binding_of_def g canonical_text_def)
    then have "with_current_lease_action env cfg (binding_of ?g) now w' = ?result ?g"
      using act read init by (simp add: with_current_lease_action_def st')
    then show ?thesis using run wrote by simp
  qed (simp add: run)
qed

section \<open>Taking over a lease\<close>

lemma mutate_state_Inr:
  assumes "mutate_state env cfg archived f w = (Inr r, w')"
  obtains st1 kept st2 where "retain_lease_history env (lc_retention cfg) archived (world_state w) = Inr (st1, kept)"
    "f st1 = Inr (r, st2)" "world_state w' = st2\<lparr>dl_lock := Some (lw_identity w)\<rparr>"
proof -
  obtain found where found: "read_lease_state env cfg w = Inr found"
    using assms by (cases "read_lease_state env cfg w") (simp_all add: mutate_state_def)
  note run = assms [unfolded mutate_state_def found sum.case read_world_state [OF found]]
  obtain st1 kept where kept: "retain_lease_history env (lc_retention cfg) archived (world_state w) = Inr (st1, kept)"
    using run by (auto split: sum.splits)
  let ?w = "w\<lparr>lw_archive := lw_archive w @ kept\<rparr>"
  obtain st2 where f: "f st1 = Inr (r, st2)" and wrote: "write_lease_state env cfg st2 ?w = Inr w'"
    using run kept by (auto simp: Let_def split: sum.splits if_splits)
  from write_world_state [OF wrote] that [OF kept f] show thesis by simp
qed

lemma insert_by_set: "set (insert_by cmp x xs) = insert x (set xs)"
  by (induction xs) auto

lemma sort_by_set: "set (sort_by cmp xs) = set xs"
  unfolding sort_by_def by (induction xs) (simp_all add: insert_by_set)

lemma store_active_lease_found:
  assumes "store_active_lease env cfg slug owner w = Inr (Some x)"
  shows "x \<in> set (dl_leases (world_state w))" "lease_active x" "trimmed_text (ls_id x)" "trimmed_text (ls_thread x)"
proof -
  obtain found where found: "read_lease_state env cfg w = Inr found" and
    newest: "newest_active env (normalize_desktop_slug slug) (owner_given owner) (world_state w) = Some x"
    using assms read_world_state by (auto simp: store_active_lease_def and_then_Inr_iff)
  have "x \<in> set (sort_by (acquired_order env) (filter (named_active (normalize_desktop_slug slug) (owner_given owner)) (dl_leases (world_state w))))"
    using newest unfolding newest_active_def by (auto split: list.splits)
  then show x: "x \<in> set (dl_leases (world_state w))" "lease_active x" by (simp_all add: sort_by_set named_active_def)
  have "world_state w \<noteq> no_leases" using x by (auto simp: no_leases_def)
  then have "validate_lease_structure (world_state w)"
    using found valid_structure
    by (auto simp: read_lease_state_def world_state_def Let_def and_then_Inr_iff split: option.splits if_splits)
  with x show "trimmed_text (ls_id x)" "trimmed_text (ls_thread x)"
    by (auto simp: validate_lease_structure_def leases_valid_iff list_all_iff lease_well_formed_def)
qed

text \<open>
  C6: without force a thread takes over the lease of another one only as a recovery: when the lease
  was looked at it had expired or its heartbeat was stale, the desktop had stopped and the caller
  allowed the recovery, and when the lease was replaced it still was the same lease with the same
  heartbeat and expiry, so that a holder who shows a sign of life in between keeps it.
\<close>

theorem unforced_takeover:
  assumes "acquire_desktop_lease env cfg admin threads stale_after archived token uuid access q now1 w1 now2 w2
      = (Inr (Granted g matched (Some old)), w')"
    and "\<not> aq_force q"
  shows "\<exists>x a. store_active_lease env cfg (normalize_desktop_slug (aq_slug q)) (owner_user_id admin None (owner_user_id admin (aq_principal q) (aq_owner q))) w1 = Inr (Some x)
    \<and> (sx_expired (public_desktop_lease env stale_after threads now1 x) \<or> sx_stale (public_desktop_lease env stale_after threads now1 x))
    \<and> aq_allow_recovery q \<and> stopped_desktop_lease_recovery_state (aq_desktop_state q) \<noteq> []
    \<and> a \<in> set (dl_leases (world_state w2)) \<and> lease_active a \<and> ls_id a = ls_id x \<and> ls_thread a = ls_thread x
    \<and> ls_heartbeat a = ls_heartbeat x \<and> given_text (ls_expires a) = given_text (ls_expires x)
    \<and> old = released_lease now2 ''expired_stopped_auto_recovery'' a"
proof -
  let ?owner = "owner_user_id admin (aq_principal q) (aq_owner q)"
  obtain existing where seen: "store_active_lease env cfg (normalize_desktop_slug (aq_slug q)) (owner_user_id admin None ?owner) w1 = Inr existing"
    using assms(1) by (auto simp: acquire_desktop_lease_def Let_def split: option.splits sum.splits)
  define candidate where "candidate = recovery_candidate_of q (map_option (public_desktop_lease env stale_after threads now1) existing)"
  let ?opts = "acquire_settings q candidate"
  have "acquire_desktop env cfg archived now2 token uuid (acquire_input now1 ?owner q) ?opts w2 = (Inr (Granted g matched (Some old)), w')"
    using assms(1) seen by (auto simp: acquire_desktop_lease_def Let_def candidate_def split: option.splits)
  then obtain n where "mutate_state env cfg archived (acquire_mutator now2 token uuid n ?opts) w2 = (Inr (Granted g matched (Some old)), w')"
    by (auto simp: acquire_desktop_def split: option.splits)
  then obtain st1 kept st2 where kept: "retain_lease_history env (lc_retention cfg) archived (world_state w2) = Inr (st1, kept)"
    and run: "acquire_mutator now2 token uuid n ?opts st1 = Inr (Granted g matched (Some old), st2)"
    by (rule mutate_state_Inr)
  obtain a where a: "active_for (ls_slug n) (ls_owner n) st1 = Some a"
    using run by (cases "active_for (ls_slug n) (ls_owner n) st1") (auto simp: acquire_mutator_def Let_def split: if_splits)
  have old: "old = released_lease now2 (aw_reason ?opts) a" and matches: "recovery_matches a candidate"
    using run a assms(2) by (auto simp: acquire_mutator_def Let_def acquire_settings_def split: if_splits)
  obtain p where "st1 = (world_state w2)\<lparr>dl_leases := filter p (dl_leases (world_state w2))\<rparr>" by (rule retain_filters [OF kept])
  with active_for_Some [OF a] have in2: "a \<in> set (dl_leases (world_state w2))" "lease_active a" by simp_all
  from matches obtain c where c: "candidate = Some c" by (cases candidate) (auto simp: recovery_matches_def)
  then obtain x where x: "existing = Some x" by (cases existing) (auto simp: candidate_def recovery_candidate_of_def)
  have may: "aq_allow_recovery q" "stopped_desktop_lease_recovery_state (aq_desktop_state q) \<noteq> []"
      "sx_expired (public_desktop_lease env stale_after threads now1 x) \<or> sx_stale (public_desktop_lease env stale_after threads now1 x)"
    and c_is: "c = \<lparr>rv_id = ls_id x, rv_thread = ls_thread x, rv_heartbeat = ls_heartbeat x, rv_expires = ls_expires x\<rparr>"
    using c unfolding candidate_def x recovery_candidate_of_def
    by (auto simp: public_desktop_lease_def Let_def split: if_splits)
  note found = store_active_lease_found [OF seen [unfolded x]]
  have "ls_id a = ls_id x" "ls_thread a = ls_thread x" "ls_heartbeat a = ls_heartbeat x" "given_text (ls_expires a) = given_text (ls_expires x)"
    using matches found(3,4) unfolding c recovery_matches_def c_is trimmed_text_def by simp_all
  moreover have "aw_reason ?opts = ''expired_stopped_auto_recovery''" using assms(2) c by (simp add: acquire_settings_def)
  ultimately show ?thesis using seen x may in2 old by (intro exI [of _ x] exI [of _ a]) simp
qed

section \<open>Leases of other users\<close>

text \<open>The active leases that do not belong to a user stay as they are.\<close>

definition keeps_others :: "string \<Rightarrow> lease_state \<Rightarrow> lease_state \<Rightarrow> bool" where
  "keeps_others owner st st' \<longleftrightarrow>
     filter (\<lambda>l. lease_active l \<and> ls_owner l \<noteq> owner) (dl_leases st') = filter (\<lambda>l. lease_active l \<and> ls_owner l \<noteq> owner) (dl_leases st)"

lemma assign_first_others:
  assumes "\<And>l. p l \<Longrightarrow> \<not> r l" and "\<And>a. find p xs = Some a \<Longrightarrow> \<not> r (f a)"
  shows "filter r (assign_first p f xs) = filter r xs"
  using assms by (induction xs) auto

lemma mutate_state_others:
  assumes "mutate_state env cfg archived f w = (r, w')"
    and "\<And>st x st'. f st = Inr (x, st') \<Longrightarrow> keeps_others owner st st'"
  shows "keeps_others owner (world_state w) (world_state w')"
proof (cases "world_state w' = world_state w")
  case False
  obtain x where r: "r = Inr x"
    using assms(1) False
    by (cases r) (auto simp: mutate_state_def Let_def split: sum.splits if_splits)
  obtain st1 kept st2 where kept: "retain_lease_history env (lc_retention cfg) archived (world_state w) = Inr (st1, kept)"
    and f: "f st1 = Inr (x, st2)" and w': "world_state w' = st2\<lparr>dl_lock := Some (lw_identity w)\<rparr>"
    by (rule mutate_state_Inr [OF assms(1) [unfolded r]])
  obtain p where st1: "st1 = (world_state w)\<lparr>dl_leases := filter p (dl_leases (world_state w))\<rparr>" "\<And>l. lease_active l \<Longrightarrow> p l"
    by (rule retain_filters [OF kept]) blast
  have "filter (\<lambda>l. lease_active l \<and> ls_owner l \<noteq> owner) (filter p xs) = filter (\<lambda>l. lease_active l \<and> ls_owner l \<noteq> owner) xs" for xs
    using st1(2) by (induction xs) auto
  then show ?thesis using assms(2) [OF f] by (simp add: keeps_others_def w' st1(1))
qed (simp add: keeps_others_def)

lemma acquire_mutator_others:
  assumes "acquire_mutator now token uuid n opts st = Inr (r, st')"
  shows "keeps_others (ls_owner n) st st'"
proof -
  have granted: "ls_owner (granted_lease now token uuid st n) = ls_owner n" by (simp add: granted_lease_def Let_def)
  have freed: "keeps_others (ls_owner n) st (assign_active (ls_slug n) (ls_owner n) (released_lease now reason) st)" for reason
    by (simp add: keeps_others_def assign_active_def, rule assign_first_others) (simp_all add: is_active_for_def)
  have renewed: "keeps_others (ls_owner n) st (assign_active (ls_slug n) (ls_owner n) (renewed_lease now n) st)"
    by (simp add: keeps_others_def assign_active_def, rule assign_first_others)
      (simp_all add: is_active_for_def renewed_lease_def)
  show ?thesis
    using assms freed renewed granted
    by (auto simp: acquire_mutator_def keeps_others_def Let_def split: option.splits if_splits)
qed

lemma named_active_others:
  assumes "\<And>l. ls_owner (f l) = ls_owner l" and "owner \<noteq> []"
  shows "keeps_others owner st (st\<lparr>dl_leases := assign_first (named_active slug owner) f (dl_leases st)\<rparr>)"
  by (simp add: keeps_others_def, rule assign_first_others)
    (use assms in \<open>auto simp: named_active_def find_Some_iff\<close>)

lemma heartbeat_mutator_others:
  "heartbeat_mutator now slug thread owner token st = Inr (r, st') \<Longrightarrow> owner \<noteq> [] \<Longrightarrow> keeps_others owner st st'"
  using named_active_others [of "\<lambda>l. l\<lparr>ls_heartbeat := iso_string now, ls_updated := iso_string now\<rparr>" owner st slug]
  by (auto simp: heartbeat_mutator_def Let_def keeps_others_def split: option.splits if_splits)

lemma release_mutator_others:
  "release_mutator now slug thread owner token force reason st = Inr (r, st') \<Longrightarrow> owner \<noteq> [] \<Longrightarrow> keeps_others owner st st'"
  using named_active_others [of "released_lease now reason" owner st slug]
  by (auto simp: release_mutator_def keeps_others_def released_lease_def split: option.splits if_splits)

text \<open>The owner under which a principal that is no administrator acts.\<close>

lemma own_user:
  "pr_user p \<noteq> [] \<Longrightarrow> \<not> pr_admin p \<Longrightarrow> owner_given (owner_user_id admin (Some p) fallback) = normalize_user_id (normalize_user_id (pr_user p))"
  using normalize_user_id_nonempty by (simp add: owner_user_id_def owner_given_def)

text \<open>The requests of one principal, with anything else in them chosen freely.\<close>

inductive user_request :: "lease_env \<Rightarrow> lease_config \<Rightarrow> string \<Rightarrow> principal \<Rightarrow> lease_world \<Rightarrow> lease_world \<Rightarrow> bool" for env cfg admin p where
  RequestAcquire: "aq_principal q = Some p \<Longrightarrow>
     acquire_desktop_lease env cfg admin threads stale_after archived token uuid access q now1 w1 now2 w = (r, w') \<Longrightarrow>
     user_request env cfg admin p w w'"
| RequestHeartbeat: "heartbeat_desktop_lease env cfg admin archived now access enforced (Some p) owner slug thread token w = (r', w') \<Longrightarrow>
     user_request env cfg admin p w w'"
| RequestRelease: "release_desktop_lease env cfg admin archived now access enforced force (Some p) owner slug thread token reason w = (r', w') \<Longrightarrow>
     user_request env cfg admin p w w'"

lemma acquire_desktop_others:
  assumes "acquire_desktop env cfg archived now token uuid raw opts w = (r, w')" and "li_owner raw \<noteq> []"
  shows "keeps_others (owner_given (li_owner raw)) (world_state w) (world_state w')"
proof (cases "normalize_lease now token uuid raw")
  case None
  with assms(1) show ?thesis by (simp add: acquire_desktop_def keeps_others_def)
next
  case (Some n)
  then have owner: "ls_owner n = owner_given (li_owner raw)"
    using assms(2) by (auto simp: normalize_lease_def Let_def or_default_def owner_given_def split: if_splits)
  have "mutate_state env cfg archived (acquire_mutator now token uuid n opts) w = (r, w')"
    using assms(1) Some by (simp add: acquire_desktop_def)
  then show ?thesis unfolding owner [symmetric] by (rule mutate_state_others) (rule acquire_mutator_others)
qed

lemma user_request_others:
  assumes "user_request env cfg admin p w w'" and "pr_user p \<noteq> []" "\<not> pr_admin p"
  shows "keeps_others (normalize_user_id (normalize_user_id (pr_user p))) (world_state w) (world_state w')"
  using assms(1)
proof cases
  case (RequestAcquire q threads stale_after archived token uuid access now1 w1 now2 r)
  have "owner_user_id admin (Some p) (aq_owner q) \<noteq> []"
    using assms(2,3) normalize_user_id_nonempty by (simp add: owner_user_id_def)
  then show ?thesis
    using RequestAcquire acquire_desktop_others own_user [OF assms(2,3), of admin "aq_owner q"]
    by (fastforce simp: acquire_desktop_lease_def acquire_input_def keeps_others_def Let_def split: option.splits sum.splits)
next
  case (RequestHeartbeat archived now access enforced owner slug thread token r)
  then show ?thesis
    using mutate_state_others [OF _ heartbeat_mutator_others] normalize_user_id_nonempty own_user [OF assms(2,3), of admin owner]
    by (fastforce simp: heartbeat_desktop_lease_def heartbeat_desktop_def keeps_others_def split: option.splits if_splits)
next
  case (RequestRelease archived now access enforced force owner slug thread token reason r)
  then show ?thesis
    using mutate_state_others [OF _ release_mutator_others] normalize_user_id_nonempty own_user [OF assms(2,3), of admin owner]
    by (fastforce simp: release_desktop_lease_def release_desktop_def keeps_others_def split: option.splits if_splits)
qed

text \<open>
  C8: whatever owner the requests of a principal that is no administrator name, with force or without,
  acquiring, renewing and releasing leave the active leases of every other user unchanged.
\<close>

theorem other_users_untouched:
  assumes "(user_request env cfg admin p)\<^sup>*\<^sup>* w w'" and "pr_user p \<noteq> []" "\<not> pr_admin p"
  shows "keeps_others (normalize_user_id (normalize_user_id (pr_user p))) (world_state w) (world_state w')"
  using assms(1)
proof (induction rule: rtranclp_induct)
  case (step w1 w2)
  with user_request_others [OF step(2) assms(2,3)] show ?case by (simp add: keeps_others_def)
qed (simp add: keeps_others_def)

end
