(* ===== verification/ResourceRevoked.thy ===== *)
theory ResourceRevoked
  imports ResourceFacts ResourceSessions LeaseGrants
begin

text \<open>
  What stays true of the rows of a normal state when it is read again, and what follows for changes of
  the policy: replacing the grants of a thread by none cuts off every thread below it, ends the bearers
  that rested on them, and the ceiling of a child is captured once.
\<close>

section \<open>Normal rows\<close>

lemma trim_nil: "str_trim [] = []"
  by (simp add: str_trim_def)

lemma none_if_blank_again [simp]: "none_if_blank (given_text (none_if_blank s)) = none_if_blank s"
  by (cases "str_trim s = []") (simp_all add: none_if_blank_def given_text_def trim_nil)

lemma given_none_if_blank: "given_text (none_if_blank s) = str_trim s"
  by (simp add: none_if_blank_def given_text_def)

lemma find_given: "find p xs = Some x \<Longrightarrow> x \<in> set xs \<and> p x"
  by (auto simp: find_Some_iff)

lemma normalize_policy_state_simps [simp]:
  "ps_revision (normalize_policy_state env now uuid st) = max 0 (ps_revision st)"
  "ps_policies (normalize_policy_state env now uuid st)
     = filter (\<lambda>p. pl_thread p \<noteq> [] \<and> pl_type p \<noteq> []) (map (normalize_policy now) (ps_policies st))"
  "ps_sessions (normalize_policy_state env now uuid st) = filter session_usable (map (normalize_session now) (ps_sessions st))"
  by (simp_all add: normalize_policy_state_def Let_def)

lemma normalize_policy_simps [simp]:
  "pl_thread (normalize_policy now p) = str_trim (pl_thread p)" "pl_type (normalize_policy now p) = normalize_resource_type (pl_type p)"
  "pl_empty (normalize_policy now p) = pl_empty p"
  by (simp_all add: normalize_policy_def)

lemma normalize_session_simps [simp]:
  "ss_thread (normalize_session now s) = str_trim (ss_thread s)" "ss_type (normalize_session now s) = normalize_resource_type (ss_type s)"
  "ss_resource (normalize_session now s) = str_trim (ss_resource s)"
  by (simp_all add: normalize_session_def)

lemma normal_grant:
  assumes "g' \<in> set (ps_grants (normalize_policy_state env now uuid st))"
  obtains g where "g \<in> set (ps_grants st)" "gr_thread g' = str_trim (gr_thread g)" "gr_type g' = normalize_resource_type (gr_type g)"
    "gr_revoked g' = none_if_blank (given_text (gr_revoked g))"
proof -
  obtain g h rs where g: "g \<in> set (ps_grants st)" "normalize_grant env now uuid g = Some h" and "g' = rebound_grant rs h"
    using assms by (auto simp: normalize_policy_state_def Let_def map_filter_def split: option.splits)
  then have "gr_thread g' = gr_thread h" "gr_type g' = gr_type h" "gr_revoked g' = gr_revoked h"
    by (simp_all add: rebound_grant_def split: option.splits)
  with g that show thesis by (auto simp: normalize_grant_def Let_def split: if_splits)
qed

section \<open>A thread without grants\<close>

text \<open>The grants of a thread for a type are revoked and its policy is explicitly empty, however the rows are read.\<close>

definition stripped :: "string \<Rightarrow> string \<Rightarrow> policy_state \<Rightarrow> bool" where
  "stripped i t st \<longleftrightarrow>
     (\<forall>g\<in>set (ps_grants st). str_trim (gr_thread g) = i \<and> normalize_resource_type (gr_type g) = t \<longrightarrow> str_trim (given_text (gr_revoked g)) \<noteq> [])
     \<and> (\<exists>p\<in>set (ps_policies st). str_trim (pl_thread p) = i \<and> normalize_resource_type (pl_type p) = t)
     \<and> (\<forall>p\<in>set (ps_policies st). str_trim (pl_thread p) = i \<and> normalize_resource_type (pl_type p) = t \<longrightarrow> pl_empty p)"

lemma stripped_empty:
  assumes "stripped i t st" "i \<noteq> []" "t \<noteq> []"
  shows "explicit_empty (normalize_policy_state env now uuid st) i t"
proof -
  let ?ps = "ps_policies (normalize_policy_state env now uuid st)"
  obtain p where "p \<in> set (ps_policies st)" "str_trim (pl_thread p) = i" "normalize_resource_type (pl_type p) = t"
    using assms(1) by (auto simp: stripped_def)
  then have "normalize_policy now p \<in> set ?ps" "pl_thread (normalize_policy now p) = i \<and> pl_type (normalize_policy now p) = t"
    using assms(2,3) by auto
  then obtain q where q: "find (\<lambda>p. pl_thread p = i \<and> pl_type p = t) ?ps = Some q"
    by (metis (mono_tags, lifting) find_None_iff option.exhaust)
  note found = find_given [OF q]
  then have "pl_empty q" using assms(1) by (auto simp: stripped_def)
  then show ?thesis unfolding explicit_empty_def policy_of_def q by simp
qed

lemma stripped_holds_not:
  assumes "stripped (pt_id x) (rs_type r) st" "pt_id x \<noteq> []" "rs_type r \<noteq> []"
  shows "\<not> holds env now ts (normalize_policy_state env made uuid st) r permission x"
proof
  assume "holds env now ts (normalize_policy_state env made uuid st) r permission x"
  then show False
  proof (rule holdsE)
    fix g assume g: "g \<in> set (direct_grants env now (normalize_policy_state env made uuid st) (pt_id x) r)"
    then have in_st: "g \<in> set (ps_grants (normalize_policy_state env made uuid st))" and own: "gr_thread g = pt_id x" "gr_type g = rs_type r"
      and revoked: "str_trim (given_text (gr_revoked g)) = []"
      by (auto simp: direct_grants_def grant_is_current_def)
    from in_st show False
    proof (rule normal_grant)
      fix h assume "h \<in> set (ps_grants st)" "gr_thread g = str_trim (gr_thread h)" "gr_type g = normalize_resource_type (gr_type h)"
        "gr_revoked g = none_if_blank (given_text (gr_revoked h))"
      with assms(1) own revoked show False by (auto simp: stripped_def given_none_if_blank)
    qed
  qed (use stripped_empty [OF assms] in simp)
qed

section \<open>Replacing the grants of a thread\<close>

lemma mutate_policy_Changed:
  assumes "mutate_policy env now uuid f stored = (Inr (r, revision), st')"
  shows "(f (normalize_policy_state env (iso_string now) uuid stored) = Inr (Unchanged r) \<and> st' = stored)
    \<or> (\<exists>st note skip. f (normalize_policy_state env (iso_string now) uuid stored) = Inr (Changed r st note skip)
        \<and> ps_grants st' = ps_grants st \<and> ps_policies st' = ps_policies st \<and> ps_sessions st' = ps_sessions st \<and> ps_ceilings st' = ps_ceilings st
        \<and> ps_resources st' = ps_resources st)"
  using assms by (auto simp: mutate_policy_def Let_def split: sum.splits change.splits)

lemma record_mutation_frame [simp]:
  "ps_grants (record_mutation a k r now st) = ps_grants st" "ps_policies (record_mutation a k r now st) = ps_policies st"
  "ps_sessions (record_mutation a k r now st) = ps_sessions st"
  by (simp_all add: record_mutation_def)

lemma invalidate_sessions_frame [simp]:
  "ps_grants (invalidate_sessions p reason now st) = ps_grants st" "ps_policies (invalidate_sessions p reason now st) = ps_policies st"
  by (simp_all add: invalidate_sessions_def)

lemma put_policy_frame [simp]:
  "ps_grants (put_policy p st) = ps_grants st" "ps_sessions (put_policy p st) = ps_sessions st"
  "ps_policies (put_policy p st) = filter (\<lambda>x. \<not> (pl_thread x = pl_thread p \<and> pl_type x = pl_type p)) (ps_policies st) @ [p]"
  by (simp_all add: put_policy_def)

lemma revoke_grants_frame [simp]:
  "ps_policies (revoke_grants now actor thread t st) = ps_policies st" "ps_sessions (revoke_grants now actor thread t st) = ps_sessions st"
  by (simp_all add: revoke_grants_def)

lemma replaced_policy_simps [simp]:
  "pl_thread (replaced_policy now thread t prior e) = thread" "pl_type (replaced_policy now thread t prior e) = t"
  "pl_empty (replaced_policy now thread t prior e) = e"
  by (simp_all add: replaced_policy_def)

text \<open>What a replacement that was not a replay did.\<close>

lemma replace_grants_done:
  assumes "set_thread_resource_grants env now uuid uuids ts p i t entries opts stored = (Inr ((gs, pol, False), revision), st')"
    and "get_thread ts i = Some x"
  obtains st made where "normalize_resource_type t \<noteq> []"
    "grant_all env (iso_string now) uuids (pt_id x) (owner_of env (pt_owner x)) (resource_boundary_id env) (normalize_resource_type t)
       (normalize_resource_type t = ''desktop'' \<and> access_mode_for env (normalize_resource_type t) (pt_id x) [] \<noteq> ''enforce'')
       (str_trim (or_default ''admin'' (go_source opts))) (case normal_entries env now (normalize_resource_type t) opts entries of Inl _ \<Rightarrow> [] | Inr ns \<Rightarrow> entry_map ns)
       (revoke_grants (iso_string now) (actor_of p) (pt_id x) (normalize_resource_type t) (normalize_policy_state env (iso_string now) uuid stored), [])
     = Inr (st, gs)"
    "ps_grants st' = ps_grants st"
    "ps_policies st' = filter (\<lambda>q. \<not> (pl_thread q = pt_id x \<and> pl_type q = normalize_resource_type t)) (ps_policies st) @ [pol]"
    "pl_thread pol = pt_id x" "pl_type pol = normalize_resource_type t" "pl_empty pol \<longleftrightarrow> gs = []"
    "ps_sessions st' = ps_sessions (invalidate_sessions (grants_session ts (pt_id x) (normalize_resource_type t)
       (affected_resources (pt_id x) (normalize_resource_type t) (normalize_policy_state env (iso_string now) uuid stored) @ map gr_resource gs))
       ''grant_replaced'' (iso_string now) st)"
proof -
  let ?t = "normalize_resource_type t"
  obtain ns where ns: "normal_entries env now ?t opts entries = Inr ns" "?t \<noteq> []"
      and run: "mutate_policy env now uuid (replace_grants env (iso_string now) uuids ts (pt_id x) (owner_of env (pt_owner x)) ?t
        (?t = ''desktop'' \<and> access_mode_for env ?t (pt_id x) [] \<noteq> ''enforce'') (actor_of p) opts (entry_map ns)) stored = (Inr ((gs, pol, False), revision), st')"
    using assms by (auto simp: set_thread_resource_grants_def Let_def split: if_splits option.splits sum.splits)
  show thesis
    using mutate_policy_Changed [OF run]
    by (rule disjE) (use ns that in \<open>auto simp: replace_grants_def Let_def and_then_Inr_iff invalidate_sessions_def
        split: option.splits mutation_result.splits if_splits\<close>)
qed

lemma grant_one_frame:
  "grant_one env now uuids thread owner boundary t provision source n acc = Inr acc' \<Longrightarrow>
     ps_policies (fst acc') = ps_policies (fst acc) \<and> ps_sessions (fst acc') = ps_sessions (fst acc)"
  by (auto simp: grant_one_def Let_def split: prod.splits option.splits if_splits)

lemma grant_all_frame:
  "grant_all env now uuids thread owner boundary t provision source ns acc = Inr acc' \<Longrightarrow>
     ps_policies (fst acc') = ps_policies (fst acc) \<and> ps_sessions (fst acc') = ps_sessions (fst acc)"
proof (induction ns arbitrary: acc)
  case (Cons n ns)
  then obtain acc1 where "grant_one env now uuids thread owner boundary t provision source n acc = Inr acc1"
      "grant_all env now uuids thread owner boundary t provision source ns acc1 = Inr acc'"
    by (auto simp: and_then_Inr_iff)
  with Cons.IH grant_one_frame show ?case by metis
qed simp

lemma revoked_rows: "ps_grants (revoke_grants now actor thread t st) = map (\<lambda>g. if gr_thread g = thread \<and> gr_type g = t \<and> given_text (gr_revoked g) = []
    then g\<lparr>gr_revoked := Some now, gr_revoked_by := Some actor, gr_updated := now\<rparr> else g) (ps_grants st)"
  by (simp add: revoke_grants_def)

lemma revoked_given: "g \<in> set (ps_grants (revoke_grants now actor thread t st)) \<Longrightarrow> gr_thread g = thread \<Longrightarrow> gr_type g = t \<Longrightarrow>
     gr_revoked g = Some now \<or> (g \<in> set (ps_grants st) \<and> given_text (gr_revoked g) \<noteq> [])"
proof -
  assume "g \<in> set (ps_grants (revoke_grants now actor thread t st))"
  then obtain h where h: "h \<in> set (ps_grants st)"
      "g = (if gr_thread h = thread \<and> gr_type h = t \<and> given_text (gr_revoked h) = []
        then h\<lparr>gr_revoked := Some now, gr_revoked_by := Some actor, gr_updated := now\<rparr> else h)"
    unfolding revoked_rows set_map by (rule imageE)
  assume own: "gr_thread g = thread" "gr_type g = t"
  show ?thesis
  proof (cases "given_text (gr_revoked h) = []")
    case True
    then show ?thesis using h own by (simp split: if_splits)
  qed (use h in simp)
qed

lemma normal_grant_again:
  assumes "g \<in> set (ps_grants (normalize_policy_state env now uuid st))"
  shows "str_trim (gr_thread g) = gr_thread g" "normalize_resource_type (gr_type g) = gr_type g"
    "given_text (gr_revoked g) \<noteq> [] \<Longrightarrow> str_trim (given_text (gr_revoked g)) \<noteq> []"
  by (rule normal_grant [OF assms], simp add: given_none_if_blank)+

text \<open>Replacing the grants of a thread by none leaves it stripped.\<close>

lemma replaced_by_none:
  assumes "set_thread_resource_grants env now uuid uuids ts p i t [] opts stored = (Inr ((gs, pol, False), revision), st')"
    and "get_thread ts i = Some x" "str_trim (pt_id x) = pt_id x"
  shows "stripped (pt_id x) (normalize_resource_type t) st'"
proof (rule replace_grants_done [OF assms(1,2)])
  let ?t = "normalize_resource_type t" and ?st0 = "normalize_policy_state env (iso_string now) uuid stored"
  fix st
  assume made: "grant_all env (iso_string now) uuids (pt_id x) (owner_of env (pt_owner x)) (resource_boundary_id env) ?t
       (?t = ''desktop'' \<and> access_mode_for env ?t (pt_id x) [] \<noteq> ''enforce'') (str_trim (or_default ''admin'' (go_source opts)))
       (case normal_entries env now ?t opts [] of Inl _ \<Rightarrow> [] | Inr ns \<Rightarrow> entry_map ns)
       (revoke_grants (iso_string now) (actor_of p) (pt_id x) ?t ?st0, []) = Inr (st, gs)"
    and rows: "ps_grants st' = ps_grants st" "ps_policies st' = filter (\<lambda>q. \<not> (pl_thread q = pt_id x \<and> pl_type q = ?t)) (ps_policies st) @ [pol]"
    and pol: "pl_thread pol = pt_id x" "pl_type pol = ?t" "pl_empty pol \<longleftrightarrow> gs = []"
  from made have st: "st = revoke_grants (iso_string now) (actor_of p) (pt_id x) ?t ?st0" "gs = []" by (simp_all add: entry_map_def)
  have now: "str_trim (iso_string now) = iso_string now" "iso_string now \<noteq> []" using iso_string_trimmed by (simp_all add: trimmed_text_def)
  have grants: "str_trim (given_text (gr_revoked g)) \<noteq> []"
    if "g \<in> set (ps_grants st')" "str_trim (gr_thread g) = pt_id x" "normalize_resource_type (gr_type g) = ?t" for g
  proof -
    obtain h where h: "h \<in> set (ps_grants ?st0)" "gr_thread g = gr_thread h" "gr_type g = gr_type h"
      using \<open>g \<in> _\<close> by (auto simp: rows(1) st(1) revoke_grants_def split: if_splits)
    have "gr_thread g = pt_id x" "gr_type g = ?t" using that(2,3) h(2,3) normal_grant_again [OF h(1)] by simp_all
    with that(1) have "gr_revoked g = Some (iso_string now) \<or> (g \<in> set (ps_grants ?st0) \<and> given_text (gr_revoked g) \<noteq> [])"
      unfolding rows(1) st(1) by (rule revoked_given)
    then show ?thesis using now normal_grant_again(3) by (auto simp: given_text_def)
  qed
  have other: "\<not> (str_trim (pl_thread q) = pt_id x \<and> normalize_resource_type (pl_type q) = ?t)"
    if "q \<in> set (filter (\<lambda>q. \<not> (pl_thread q = pt_id x \<and> pl_type q = ?t)) (ps_policies st))" for q
    using that by (auto simp: st(1))
  show ?thesis
    unfolding stripped_def using grants other pol st(2) assms(3) unfolding rows(2) by auto
qed

text \<open>
  C11: after an administrator replaced the grants of a thread by none, no thread below it, in any later
  list of threads, gets an access of that type where the policy is enforced, except by breaking the glass.
\<close>

theorem revoked_cuts_off:
  assumes "set_thread_resource_grants env now uuid uuids ts p i ty [] opts stored = (Inr ((gs, pol, False), revision), st')"
    and "get_thread ts i = Some x" "trimmed_text (pt_id x)"
    and "evaluate_access env later uuid' ts' st' q = Inr d" "dn_allowed d" "dn_mode (decision_base env later ts' q) = ''enforce''"
    and "request_thread ts' q = Some t" "below ts' y t" "pt_id y = pt_id x" "normalize_resource_type (rq_type q) = normalize_resource_type ty"
  shows "dn_glass d"
proof (rule ccontr)
  assume "\<not> dn_glass d"
  let ?st = "normalize_policy_state env (iso_string later) uuid' st'"
  obtain r where r: "rs_type r = normalize_resource_type ty"
      and "holds env later ts' ?st r (permission_for (normalize_resource_type ty) (rq_permission q)) t"
    using enforced_access_backed [OF assms(4-6)] assms(7,10) \<open>\<not> dn_glass d\<close> by (auto simp: access_backed_def)
  then have "holds env later ts' ?st r (permission_for (normalize_resource_type ty) (rq_permission q)) y"
    using holds_above [OF assms(8)] by blast
  moreover have "normalize_resource_type ty \<noteq> []" by (rule replace_grants_done [OF assms(1,2)])
  moreover have "stripped (pt_id y) (rs_type r) st'" "pt_id y \<noteq> []"
    using replaced_by_none [OF assms(1,2)] assms(3,9) r by (simp_all add: trimmed_text_def)
  ultimately show False using stripped_holds_not r by metis
qed

section \<open>Bearers\<close>

lemma known_states: "clean_lower ''active'' = ''active''" "clean_lower ''invalidated'' = ''invalidated''" "clean_lower ''expired'' = ''expired''"
  by code_simp+

lemma normalize_session_state:
  "ss_state (normalize_session n s) = (if clean_lower (ss_state s) \<in> set [''active'', ''invalidated'', ''expired''] then clean_lower (ss_state s) else ''invalidated'')"
  by (simp add: normalize_session_def)

lemma active_again: "ss_state (normalize_session m (normalize_session n s)) = ss_state (normalize_session n s)"
  by (simp add: normalize_session_state known_states)

text \<open>A session that is active in the normal state was not among those that were invalidated.\<close>

lemma active_not_invalidated:
  assumes "s \<in> set (ps_sessions (normalize_policy_state env m uuid' (invalidate_sessions f reason now st)))" "ss_state s = ''active''"
    and "ps_sessions st = ps_sessions (normalize_policy_state env n uuid stored)"
  obtains s0 where "\<not> f s0" "ss_thread s0 = ss_thread s" "ss_type s0 = ss_type s" "ss_resource s0 = ss_resource s"
proof -
  obtain s1 where s1: "s = normalize_session m s1" "s1 \<in> set (ps_sessions (invalidate_sessions f reason now st))" using assms(1) by auto
  obtain k where k: "s1 = normalize_session n k \<and> \<not> (ss_state (normalize_session n k) = ''active'' \<and> f (normalize_session n k)) \<or> ss_state s1 = ''invalidated''"
    using s1(2) assms(3) by (auto simp: invalidate_sessions_def split: if_splits)
  from k show thesis
  proof
    assume c: "s1 = normalize_session n k \<and> \<not> (ss_state (normalize_session n k) = ''active'' \<and> f (normalize_session n k))"
    then have "ss_state (normalize_session n k) = ''active''" using assms(2) s1(1) active_again by metis
    with c s1(1) show thesis by (intro that [of "normalize_session n k"]) simp_all
  next
    assume "ss_state s1 = ''invalidated''"
    then show thesis using assms(2) s1(1) by (simp add: normalize_session_state known_states)
  qed
qed

text \<open>
  C12: after the grants of a thread were replaced, no bearer of that type is found for the thread itself,
  nor for a thread below it on a resource that the thread had or got a grant on.
\<close>

theorem replaced_grant_ends_bearers:
  assumes "set_thread_resource_grants env now uuid uuids ts p i ty entries opts stored = (Inr ((gs, pol, False), revision), st')"
    and "get_thread ts i = Some x"
    and "authorize_issued_token env later uuid' digest token st' = Some a" "au_type a = normalize_resource_type ty"
  shows "au_thread a \<noteq> pt_id x
    \<and> (au_resource a \<in> set (affected_resources (pt_id x) (normalize_resource_type ty) (normalize_policy_state env (iso_string now) uuid stored)
        @ map gr_resource gs) \<longrightarrow> \<not> descends ts (au_thread a) (pt_id x))"
proof (rule replace_grants_done [OF assms(1,2)])
  let ?st0 = "normalize_policy_state env (iso_string now) uuid stored"
  let ?hit = "grants_session ts (pt_id x) (normalize_resource_type ty) (affected_resources (pt_id x) (normalize_resource_type ty) ?st0 @ map gr_resource gs)"
  fix st
  assume made: "grant_all env (iso_string now) uuids (pt_id x) (owner_of env (pt_owner x)) (resource_boundary_id env) (normalize_resource_type ty)
       (normalize_resource_type ty = ''desktop'' \<and> access_mode_for env (normalize_resource_type ty) (pt_id x) [] \<noteq> ''enforce'')
       (str_trim (or_default ''admin'' (go_source opts))) (case normal_entries env now (normalize_resource_type ty) opts entries of Inl _ \<Rightarrow> [] | Inr ns \<Rightarrow> entry_map ns)
       (revoke_grants (iso_string now) (actor_of p) (pt_id x) (normalize_resource_type ty) ?st0, []) = Inr (st, gs)"
    and sessions: "ps_sessions st' = ps_sessions (invalidate_sessions ?hit ''grant_replaced'' (iso_string now) st)"
  have kept: "ps_sessions st = ps_sessions ?st0" using grant_all_frame [OF made] by simp
  obtain s where s: "s \<in> set (ps_sessions (normalize_policy_state env (iso_string later) uuid' st'))" "ss_state s = ''active''" "a = issued_auth s"
    using assms(3) by (auto simp: authorize_issued_token_def dest!: find_given split: if_splits)
  have "s \<in> set (ps_sessions (normalize_policy_state env (iso_string later) uuid' (invalidate_sessions ?hit ''grant_replaced'' (iso_string now) st)))"
    using s(1) sessions by simp
  then show ?thesis
  proof (rule active_not_invalidated [OF _ s(2) kept])
    fix s0 assume "\<not> ?hit s0" "ss_thread s0 = ss_thread s" "ss_type s0 = ss_type s" "ss_resource s0 = ss_resource s"
    then show ?thesis using assms(4) s(3) by (auto simp: grants_session_def issued_auth_def)
  qed
qed

end
