(* ===== verification/ResourceCeilings.thy ===== *)
theory ResourceCeilings
  imports ResourceRevoked
begin

text \<open>
  The ceiling of a child thread: it has only permissions that its parent holds when it is captured, and
  it is captured once.
\<close>

section \<open>Capturing\<close>

lemma below_one:
  assumes "lineage_below env now st r p f [t] = Inr (Some e)"
  shows "\<exists>e'. f = Some e' \<and> ceiling_allows st (pt_id t) r p \<and> \<not> explicit_empty st (pt_id t) (rs_type r)"
proof (cases f)
  case (Some e')
  then show ?thesis
    using assms by (cases "ceiling_allows st (pt_id t) r p"; cases "is_narrowed env now st t r"; cases "explicit_empty st (pt_id t) (rs_type r)") simp_all
qed (use assms in simp)

lemma lineage_holds:
  "effective_for_lineage env now st r p (thread_lineage ts seen t) = Inr (Some e) \<Longrightarrow>
     str_trim (pt_parent (hd (thread_lineage ts seen t))) = [] \<Longrightarrow> holds env now ts st r p t"
proof (induction ts seen t arbitrary: e rule: thread_lineage.induct)
  case (1 ts seen t)
  note L = thread_lineage.simps [of ts seen t]
  show ?case
  proof (cases "pt_id t = [] \<or> pt_id t \<in> set seen")
    case True
    then show ?thesis using "1.prems" by (simp add: L)
  next
    case new: False
    let ?above = "if str_trim (pt_parent t) = [] then None else get_thread ts (str_trim (pt_parent t))"
    show ?thesis
    proof (cases ?above)
      case None
      then have "str_trim (pt_parent t) = []" "lineage_root env now st r p t = Some e" using "1.prems" new by (simp_all add: L)
      then show ?thesis by (auto simp: lineage_root_def dest!: direct_grant_Some intro: holds.Root)
    next
      case (Some parent)
      then have parent: "str_trim (pt_parent t) \<noteq> []" "get_thread ts (str_trim (pt_parent t)) = Some parent" by (simp_all split: if_splits)
      let ?l = "thread_lineage ts (pt_id t # seen) parent"
      have lineage: "thread_lineage ts seen t = ?l @ [t]" using new parent by (simp add: L)
      then have "?l \<noteq> []" using "1.prems"(2) parent(1) by auto
      then obtain e' where "effective_for_lineage env now st r p ?l = Inr (Some e')" "str_trim (pt_parent (hd ?l)) = []"
          "ceiling_allows st (pt_id t) r p" "\<not> explicit_empty st (pt_id t) (rs_type r)"
        using "1.prems" unfolding lineage
        by (auto simp: effective_for_lineage_append and_then_Inr_iff simp del: lineage_below.simps dest!: below_one)
      then show ?thesis using "1.IH" [OF new Some] parent by (blast intro: holds.Inherits)
    qed
  qed
qed

lemma captured_effective:
  "captured_permissions env now st lineage r scope ps = Inr found \<Longrightarrow> (p, x) \<in> set found \<Longrightarrow>
     \<exists>e. effective_for_lineage env now st r p lineage = Inr (Some e)"
proof (induction ps arbitrary: found)
  case (Cons q ps)
  obtain f rest where f: "effective_for_lineage env now st r q lineage = Inr f" "captured_permissions env now st lineage r scope ps = Inr rest"
      "found = rest \<or> (\<exists>e y. f = Some e \<and> found = (q, y) # rest)"
    using Cons.prems(1) by (auto simp: and_then_Inr_iff split: option.splits if_splits)
  then show ?case using Cons.IH [OF f(2)] Cons.prems(2) by auto
qed simp

lemma captured_ceiling:
  "capture_all env now uuids st lineage child parent scopes k rs = Inr (cs, gs) \<Longrightarrow> c \<in> set cs \<Longrightarrow>
     \<exists>r\<in>set rs. cl_thread c = child \<and> cl_type c = rs_type r \<and> cl_resource c = rs_id r
       \<and> (\<forall>p\<in>set (cl_permissions c). \<exists>e. effective_for_lineage env now st r p lineage = Inr (Some e))"
proof (induction rs arbitrary: k cs gs)
  case (Cons r rs)
  let ?scope = "scope_of_type scopes (rs_type r)"
  obtain found cs' gs' where f: "captured_permissions env now st lineage r ?scope (resource_permissions (rs_type r)) = Inr found"
      "capture_all env now uuids st lineage child parent scopes (Suc k) rs = Inr (cs', gs')"
      "cs = cs' \<or> cs = \<lparr>cl_thread = child, cl_type = rs_type r, cl_resource = rs_id r, cl_permissions = map fst found, cl_parent = parent,
                  cl_created = iso_string now\<rparr> # cs'"
    using Cons.prems(1) by (auto simp: and_then_Inr_iff Let_def split: if_splits)
  show ?case
  proof (cases "c \<in> set cs'")
    case True
    with Cons.IH [OF f(2)] show ?thesis by auto
  next
    case False
    with f(3) Cons.prems(2) have "c = \<lparr>cl_thread = child, cl_type = rs_type r, cl_resource = rs_id r, cl_permissions = map fst found, cl_parent = parent,
                  cl_created = iso_string now\<rparr>" by auto
    then show ?thesis using captured_effective [OF f(1)] by auto
  qed
qed simp

lemma map_filter_in: "x \<in> set (List.map_filter f xs) \<longleftrightarrow> (\<exists>y\<in>set xs. f y = Some x)"
  by (force simp: map_filter_def)

lemma candidate_of: "(if a then (case f of Some r \<Rightarrow> if b r then Some r else None | None \<Rightarrow> None) else None) = Some x \<Longrightarrow> a \<and> f = Some x \<and> b x"
  by (simp split: if_splits option.splits)

lemma capture_candidates_active:
  "r \<in> set (capture_candidates env now lineage st) \<Longrightarrow> r \<in> set (ps_resources st) \<and> rs_status r = ''active'' \<and> given_text (rs_retired r) = []"
  by (auto simp: capture_candidates_def distinct_first_def map_filter_in find_resource_def dest!: candidate_of find_given)

lemma snapshot_policy_frame [simp]: "ps_ceilings (snapshot_policy at1 child gs t st) = ps_ceilings st"
  by (simp add: snapshot_policy_def put_policy_def Let_def)

lemma fold_snapshot_frame: "ps_ceilings (fold (snapshot_policy at1 child gs) ts st) = ps_ceilings st"
  by (induction ts arbitrary: st) simp_all

text \<open>
  C13: every permission of a ceiling that is captured for a child is held by its parent at that moment,
  on a registered and active resource, provided that the parent's chain of parents ends in a root (the
  capture takes the thread below a missing or repeated parent for a root; the authorization does not).
\<close>

theorem captured_within_parent:
  assumes "capture_child_ceiling env now uuid uuids ts child stored = (Inr (Some (n, revision)), st')"
    and "get_thread ts (str_trim (pt_parent child)) = Some parent" "str_trim (pt_parent (hd (thread_lineage ts [] parent))) = []"
    and "c \<in> set (ps_ceilings st')" "c \<notin> set (ps_ceilings stored)" "c \<notin> set (ps_ceilings (normalize_policy_state env (iso_string now) uuid stored))"
    and "p \<in> set (cl_permissions c)"
  shows "cl_thread c = str_trim (pt_id child) \<and> (\<exists>r\<in>set (ps_resources (normalize_policy_state env (iso_string now) uuid stored)).
    rs_id r = cl_resource c \<and> rs_type r = cl_type c \<and> rs_status r = ''active'' \<and> given_text (rs_retired r) = []
    \<and> holds env now ts (normalize_policy_state env (iso_string now) uuid stored) r p parent)"
proof -
  let ?st = "normalize_policy_state env (iso_string now) uuid stored" and ?lineage = "thread_lineage ts [] parent"
  obtain scopes where run: "mutate_policy env now uuid (capture_ceiling env now uuids ?lineage (str_trim (pt_id child)) (pt_id parent) scopes) stored
      = (Inr (n, revision), st')"
    using assms(1,2) by (auto simp: capture_child_ceiling_def split: if_splits sum.splits prod.splits)
  obtain st nt skip where "capture_ceiling env now uuids ?lineage (str_trim (pt_id child)) (pt_id parent) scopes ?st = Inr (Changed n st nt skip)"
      "ps_ceilings st' = ps_ceilings st"
    using mutate_policy_Changed [OF run] assms(4,5) by auto
  then obtain cs gs where cs: "capture_all env now uuids ?st ?lineage (str_trim (pt_id child)) (pt_id parent) scopes 0
      (capture_candidates env now ?lineage ?st) = Inr (cs, gs)" "ps_ceilings st' = ps_ceilings ?st @ cs"
    by (auto simp: capture_ceiling_def and_then_Inr_iff fold_snapshot_frame split: if_splits)
  with assms(4,6) have "c \<in> set cs" by simp
  from captured_ceiling [OF cs(1) this] show ?thesis
    using capture_candidates_active lineage_holds assms(3,7) by metis
qed

section \<open>Once\<close>

lemma explicit_word: "clean_lower ''explicit'' = ''explicit''"
  by code_simp

lemma normal_words: "normalize_resource_type ''desktop'' = ''desktop''" "normalize_resource_type ''oxrm'' = ''oxrm''"
    "normalize_resource_type ''mailbox'' = ''mailbox''" "clean_lower ''snapshot_ceiling'' = ''snapshot_ceiling''"
  by code_simp+

lemma normal_type: "t \<in> set resource_types \<Longrightarrow> normalize_resource_type t = t \<and> t \<noteq> []"
  by (auto simp: resource_types_def normal_words)

text \<open>The policy row of a thread for a type, however the rows are read: the first one.\<close>

definition row_of :: "string \<Rightarrow> string \<Rightarrow> policy_state \<Rightarrow> thread_policy option" where
  "row_of i t st = find (\<lambda>p. str_trim (pl_thread p) = i \<and> normalize_resource_type (pl_type p) = t) (ps_policies st)"

definition snapshot_row :: "thread_policy \<Rightarrow> bool" where
  "snapshot_row p \<longleftrightarrow> clean_lower (or_default ''explicit'' (pl_mode p)) = ''snapshot_ceiling''"

definition ceiling_fixed :: "string \<Rightarrow> policy_state \<Rightarrow> bool" where
  "ceiling_fixed child st \<longleftrightarrow> (\<forall>t\<in>set resource_types. \<exists>p. row_of child t st = Some p \<and> snapshot_row p)"

lemma snapshot_row_mode: "pl_mode p = ''snapshot_ceiling'' \<Longrightarrow> snapshot_row p"
  by (simp add: snapshot_row_def or_default_def normal_words)

lemma normalize_mode: "pl_mode (normalize_policy now p) = ''snapshot_ceiling'' \<longleftrightarrow> snapshot_row p"
  by (simp add: normalize_policy_def snapshot_row_def)

lemma find_normal_rows:
  assumes "str_trim i = i" "i \<noteq> []" "t \<noteq> []"
  shows "find (\<lambda>p. str_trim (pl_thread p) = i \<and> normalize_resource_type (pl_type p) = t)
      (filter (\<lambda>p. pl_thread p \<noteq> [] \<and> pl_type p \<noteq> []) (map (normalize_policy now) ps))
    = map_option (normalize_policy now) (find (\<lambda>p. str_trim (pl_thread p) = i \<and> normalize_resource_type (pl_type p) = t) ps)"
    and "find (\<lambda>p. pl_thread p = i \<and> pl_type p = t) (filter (\<lambda>p. pl_thread p \<noteq> [] \<and> pl_type p \<noteq> []) (map (normalize_policy now) ps))
    = map_option (normalize_policy now) (find (\<lambda>p. str_trim (pl_thread p) = i \<and> normalize_resource_type (pl_type p) = t) ps)"
  by (induction ps) (use assms in auto)

lemma row_of_normal:
  assumes "str_trim i = i" "i \<noteq> []" "t \<in> set resource_types"
  shows "row_of i t (normalize_policy_state env now uuid st) = map_option (normalize_policy now) (row_of i t st)"
    and "policy_of (normalize_policy_state env now uuid st) i t = map_option (normalize_policy now) (row_of i t st)"
  using find_normal_rows [OF assms(1,2) conjunct2 [OF normal_type [OF assms(3)]]] by (simp_all add: row_of_def policy_of_def)

lemma ceiling_fixed_normal:
  assumes "str_trim child = child" "child \<noteq> []" "ceiling_fixed child st"
  shows "ceiling_fixed child (normalize_policy_state env now uuid st)"
  unfolding ceiling_fixed_def
proof
  fix t assume t: "t \<in> set resource_types"
  then obtain p where "row_of child t st = Some p" "snapshot_row p" using assms(3) by (auto simp: ceiling_fixed_def)
  then show "\<exists>p. row_of child t (normalize_policy_state env now uuid st) = Some p \<and> snapshot_row p"
    using row_of_normal(1) [OF assms(1,2) t] normalize_mode snapshot_row_mode by auto
qed

lemma ceiling_fixed_cong: "(\<And>t. row_of child t st' = row_of child t st) \<Longrightarrow> ceiling_fixed child st \<Longrightarrow> ceiling_fixed child st'"
  by (simp add: ceiling_fixed_def)

lemma rows_kept: "ps_policies st' = ps_policies st \<Longrightarrow> ceiling_fixed child st \<Longrightarrow> ceiling_fixed child st'"
  by (rule ceiling_fixed_cong) (simp_all add: row_of_def)

lemma ceiling_fixed_recorded:
  assumes "str_trim child = child" "child \<noteq> []" "ceiling_fixed child st"
  shows "snapshot_recorded child (normalize_policy_state env now uuid st)"
  unfolding snapshot_recorded_def list_all_iff list_ex_iff
proof
  fix t assume t: "t \<in> set resource_types"
  then obtain p where "row_of child t st = Some p" "snapshot_row p" using assms(3) by (auto simp: ceiling_fixed_def)
  then have "policy_of (normalize_policy_state env now uuid st) child t = Some (normalize_policy now p)" "pl_mode (normalize_policy now p) = ''snapshot_ceiling''"
    using row_of_normal(2) [OF assms(1,2) t] normalize_mode by auto
  then show "\<exists>p\<in>set (ps_policies (normalize_policy_state env now uuid st)). pl_thread p = child \<and> pl_type p = t \<and> pl_mode p = ''snapshot_ceiling''"
    unfolding policy_of_def by (auto dest!: find_given simp del: normalize_policy_state_simps)
qed

text \<open>Putting a row: of another thread or type, or of the child again in the mode of its first row.\<close>

lemma row_of_put:
  assumes "\<not> (pl_thread p = child \<and> pl_type p = t)" "\<And>x. x \<in> set (ps_policies st) \<Longrightarrow> str_trim (pl_thread x) = pl_thread x"
    "\<And>x. x \<in> set (ps_policies st) \<Longrightarrow> normalize_resource_type (pl_type x) = pl_type x" and "row_of child t st = Some r"
  shows "row_of child t (put_policy p st) = Some r"
proof -
  have "find (\<lambda>p. str_trim (pl_thread p) = child \<and> normalize_resource_type (pl_type p) = t) (filter (\<lambda>x. \<not> (pl_thread x = pl_thread p \<and> pl_type x = pl_type p)) xs @ [p])
      = Some r" if "find (\<lambda>p. str_trim (pl_thread p) = child \<and> normalize_resource_type (pl_type p) = t) xs = Some r" "set xs \<subseteq> set (ps_policies st)" for xs
    using that by (induction xs) (use assms(1-3) in \<open>auto split: if_splits\<close>)
  then show ?thesis using assms(4) by (simp add: row_of_def)
qed

lemma row_of_put_same:
  assumes "pl_thread p = child" "pl_type p = t" "str_trim child = child" "normalize_resource_type t = t"
    "\<And>x. x \<in> set (ps_policies st) \<Longrightarrow> str_trim (pl_thread x) = pl_thread x" "\<And>x. x \<in> set (ps_policies st) \<Longrightarrow> normalize_resource_type (pl_type x) = pl_type x"
  shows "row_of child t (put_policy p st) = Some p"
proof -
  have "find (\<lambda>p. str_trim (pl_thread p) = child \<and> normalize_resource_type (pl_type p) = t) (filter (\<lambda>x. \<not> (pl_thread x = child \<and> pl_type x = t)) xs @ [p])
      = Some p" if "set xs \<subseteq> set (ps_policies st)" for xs
    using that by (induction xs) (use assms in auto)
  then show ?thesis using assms(1,2) by (simp add: row_of_def)
qed

text \<open>Rows as a normal state has them.\<close>

definition normal_rows :: "policy_state \<Rightarrow> bool" where
  "normal_rows st \<longleftrightarrow> (\<forall>x\<in>set (ps_policies st). str_trim (pl_thread x) = pl_thread x \<and> normalize_resource_type (pl_type x) = pl_type x
     \<and> (snapshot_row x \<longrightarrow> pl_mode x = ''snapshot_ceiling''))"

lemma normal_rows_normal: "normal_rows (normalize_policy_state env now uuid st)"
  by (auto simp: normal_rows_def normalize_mode) (auto simp: normalize_policy_def snapshot_row_def or_default_def explicit_word split: if_splits)

lemma normal_rows_policy:
  assumes "normal_rows st" "row_of i t st = Some r" "snapshot_row r"
  shows "policy_of st i t = Some r" "pl_mode r = ''snapshot_ceiling''"
proof -
  have "find (\<lambda>p. pl_thread p = i \<and> pl_type p = t) xs = find (\<lambda>p. str_trim (pl_thread p) = i \<and> normalize_resource_type (pl_type p) = t) xs"
    if "set xs \<subseteq> set (ps_policies st)" for xs
    using that by (induction xs) (use assms(1) in \<open>auto simp: normal_rows_def\<close>)
  then show "policy_of st i t = Some r" using assms(2) by (simp add: policy_of_def row_of_def)
  then show "pl_mode r = ''snapshot_ceiling''" using assms(1,3) by (auto simp: policy_of_def normal_rows_def dest!: find_given)
qed

lemma put_keeps_fixed:
  assumes "normal_rows st" "str_trim child = child" "ceiling_fixed child st"
    and "pl_thread p = child \<Longrightarrow> pl_type p \<in> set resource_types \<Longrightarrow> pl_mode p = ''snapshot_ceiling''"
  shows "ceiling_fixed child (put_policy p st)"
  unfolding ceiling_fixed_def
proof
  fix t assume t: "t \<in> set resource_types"
  obtain r where r: "row_of child t st = Some r" "snapshot_row r" using assms(3) t by (auto simp: ceiling_fixed_def)
  show "\<exists>r. row_of child t (put_policy p st) = Some r \<and> snapshot_row r"
  proof (cases "pl_thread p = child \<and> pl_type p = t")
    case True
    then have "row_of child t (put_policy p st) = Some p"
      using assms(1,2) normal_type [OF t] by (intro row_of_put_same) (auto simp: normal_rows_def)
    then show ?thesis using True assms(4) t snapshot_row_mode by blast
  next
    case False
    then have "row_of child t (put_policy p st) = Some r" using assms(1) r by (intro row_of_put) (auto simp: normal_rows_def)
    then show ?thesis using r by blast
  qed
qed

section \<open>Changes of the policy\<close>

lemma mutate_keeps_fixed:
  assumes "str_trim child = child" "child \<noteq> []" "ceiling_fixed child stored"
    and "\<And>r st note skip. f (normalize_policy_state env (iso_string now) uuid stored) = Inr (Changed r st note skip) \<Longrightarrow>
      ceiling_fixed child (normalize_policy_state env (iso_string now) uuid stored) \<Longrightarrow> ceiling_fixed child st"
  shows "ceiling_fixed child (snd (mutate_policy env now uuid f stored))"
proof (cases "f (normalize_policy_state env (iso_string now) uuid stored)")
  case (Inr c)
  show ?thesis
  proof (cases c)
    case (Changed r st nt skip)
    have "ceiling_fixed child st" using assms(4) Inr Changed ceiling_fixed_normal [OF assms(1-3)] by blast
    moreover have "ps_policies (snd (mutate_policy env now uuid f stored)) = ps_policies st"
      using Inr Changed by (simp add: mutate_policy_def Let_def)
    ultimately show ?thesis using rows_kept by blast
  qed (use Inr assms(3) in \<open>simp add: mutate_policy_def\<close>)
qed (use assms(3) in \<open>simp add: mutate_policy_def\<close>)

lemma mutate_frame_fixed:
  assumes "str_trim child = child" "child \<noteq> []" "ceiling_fixed child stored"
    and "\<And>st r st' note skip. f st = Inr (Changed r st' note skip) \<Longrightarrow> ps_policies st' = ps_policies st"
  shows "ceiling_fixed child (snd (mutate_policy env now uuid f stored))"
  by (rule mutate_keeps_fixed [OF assms(1-3)]) (rule rows_kept [OF assms(4)])

lemma register_frame:
  assumes "register_resource made actor key r st = Inr (Changed x st' note skip)"
  shows "ps_policies st' = ps_policies st"
proof -
  have "(case m of Some (RegisteredResource y) \<Rightarrow> Inr (Unchanged (y, True)) | _ \<Rightarrow> other) = Inr (Changed x st' note skip) \<Longrightarrow>
      other = Inr (Changed x st' note skip)" for m and other :: "(policy_error, (resource \<times> bool) change) result"
    by (simp split: option.splits mutation_result.splits)
  note run = this [OF assms [unfolded register_resource_def Let_def]]
  have made_change: "(if c then Inl e else Inr (Changed a st1 n k)) = Inr (Changed x st' note skip) \<Longrightarrow> st' = st1"
    for c e a st1 n k by (simp split: if_splits)
  show ?thesis unfolding made_change [OF run] record_mutation_frame by (simp split: option.split)
qed

lemma advance_frame:
  assumes "advance_generation made actor reason candidate st = Inr (Changed x st' note skip)"
  shows "ps_policies st' = ps_policies st"
proof -
  have made_change: "\<exists>r. st' = f r" if "(case m of None \<Rightarrow> Inl e | Some r \<Rightarrow> Inr (Changed (g r) (f r) (n r) k)) = Inr (Changed x st' note skip)"
    for m :: "resource option" and e g f n k
    using that by (auto split: option.splits)
  from made_change [OF assms [unfolded advance_generation_def Let_def]] show ?thesis
    by (elim exE, hypsubst) simp
qed

lemma replace_frame:
  assumes "replace_grants env made uuids ts thread owner t provision actor opts ns st = Inr (Changed x st' note skip)"
  obtains st1 e where "ps_policies st1 = ps_policies st"
    "ps_policies st' = ps_policies (put_policy (replaced_policy made thread t (policy_of st thread t) e) st1)"
proof -
  let ?f = "\<lambda>st1 gs. invalidate_sessions (grants_session ts thread t (affected_resources thread t st @ map gr_resource gs)) ''grant_replaced'' made
      (put_policy (replaced_policy made thread t (policy_of st thread t) (gs = [])) st1)"
  have first: "(case m of Some (ReplacedGrants gs p) \<Rightarrow> Inr (Unchanged (gs, p, True)) | _ \<Rightarrow> other) = Inr (Changed x st' note skip) \<Longrightarrow>
      other = Inr (Changed x st' note skip)" for m and other :: "(policy_error, (grant list \<times> thread_policy \<times> bool) change) result"
    by (simp split: option.splits mutation_result.splits)
  have second: "\<exists>st1 gs. acc = Inr (st1, gs) \<and> st' = h st1 gs"
    if "(if c then Inl e else and_then acc (\<lambda>(st1, gs). Inr (Changed (k st1 gs) (h st1 gs) (n st1 gs) False))) = Inr (Changed x st' note skip)"
    for c e acc k h n
    using that by (auto simp: and_then_Inr_iff split: if_splits)
  note run = first [OF assms [unfolded replace_grants_def Let_def]]
  obtain st1 gs where acc: "grant_all env made uuids thread owner (resource_boundary_id env) t provision (str_trim (or_default ''admin'' (go_source opts))) ns
      (revoke_grants made actor thread t st, []) = Inr (st1, gs)"
    and st': "st' = record_mutation (grants_action thread t) (str_trim (go_key opts))
      (ReplacedGrants gs (replaced_policy made thread t (policy_of st thread t) (gs = []))) made (?f st1 gs)"
    by (rule exE [OF second [OF run]]) (elim exE conjE, rule that)
  have "ps_policies st1 = ps_policies st" using grant_all_frame [OF acc] by simp
  then show thesis by (rule that) (simp add: st')
qed

lemma persist_frame: "persist_session env now ts c p thread st = Inr (Changed x st' note skip) \<Longrightarrow> ps_policies st' = ps_policies st"
  by (auto simp: persist_session_def Let_def split: if_splits)

lemma claim_frame: "claim_audit env now token limit lease st = Inr (Changed x st' note skip) \<Longrightarrow> ps_policies st' = ps_policies st"
  by (auto simp: claim_audit_def split: prod.splits if_splits)

lemma deliver_frame: "deliver_audit now token ids st = Inr (Changed x st' note skip) \<Longrightarrow> ps_policies st' = ps_policies st"
  by (auto simp: deliver_audit_def Let_def split: if_splits)

lemma replace_keeps_fixed:
  assumes "str_trim child = child" "child \<noteq> []" "normal_rows st" "ceiling_fixed child st"
    and "replace_grants env made uuids ts thread owner t provision actor opts ns st = Inr (Changed x st' note skip)"
  shows "ceiling_fixed child st'"
proof (rule replace_frame [OF assms(5)])
  fix st1 e
  assume rows: "ps_policies st1 = ps_policies st"
    "ps_policies st' = ps_policies (put_policy (replaced_policy made thread t (policy_of st thread t) e) st1)"
  let ?p = "replaced_policy made thread t (policy_of st thread t) e"
  have "ceiling_fixed child (put_policy ?p st1)"
  proof (rule put_keeps_fixed)
    show "normal_rows st1" "ceiling_fixed child st1" using rows(1) assms(3) rows_kept [OF rows(1) assms(4)] by (simp_all add: normal_rows_def)
    assume own: "pl_thread ?p = child" "pl_type ?p \<in> set resource_types"
    then obtain r where "row_of child t st = Some r" "snapshot_row r" using assms(4) by (auto simp: ceiling_fixed_def)
    then show "pl_mode ?p = ''snapshot_ceiling''" using normal_rows_policy [OF assms(3)] own by (simp add: replaced_policy_def)
  qed (rule assms(1))
  with rows(2) show ?thesis using rows_kept by metis
qed

lemma snapshot_policy_put:
  "\<exists>p. snapshot_policy made child gs t st = put_policy p st \<and> pl_thread p = child \<and> pl_type p = t \<and> pl_mode p = ''snapshot_ceiling''"
  unfolding snapshot_policy_def Let_def by (intro exI conjI, rule refl) simp_all

lemma put_normal_rows:
  "normal_rows st \<Longrightarrow> str_trim (pl_thread p) = pl_thread p \<Longrightarrow> normalize_resource_type (pl_type p) = pl_type p \<Longrightarrow>
     pl_mode p = ''snapshot_ceiling'' \<Longrightarrow> normal_rows (put_policy p st)"
  by (auto simp: normal_rows_def)

text \<open>The rows that capturing writes: one in the snapshot mode for each type.\<close>

lemma fold_snapshot_row:
  assumes "str_trim child = child" "set ts \<subseteq> set resource_types" "normal_rows st"
    and "t \<in> set ts \<or> (\<exists>p. row_of child t st = Some p \<and> snapshot_row p)" "t \<in> set resource_types"
  shows "\<exists>p. row_of child t (fold (snapshot_policy made child gs) ts st) = Some p \<and> snapshot_row p"
  using assms(2-4)
proof (induction ts arbitrary: st)
  case (Cons u ts)
  obtain p where p: "snapshot_policy made child gs u st = put_policy p st" "pl_thread p = child" "pl_type p = u" "pl_mode p = ''snapshot_ceiling''"
    using snapshot_policy_put by blast
  have u: "normalize_resource_type u = u" using Cons.prems(1) normal_type by simp
  have rows: "normal_rows (put_policy p st)" using put_normal_rows [OF Cons.prems(2)] p assms(1) u by simp
  note plain = Cons.prems(2) [unfolded normal_rows_def, rule_format]
  have same: "row_of child t (put_policy p st) = Some p" if "t = u"
    using row_of_put_same [OF p(2,3) assms(1) u] plain that by blast
  have other: "row_of child t (put_policy p st) = Some r" if "row_of child t st = Some r" "t \<noteq> u" for r
    using row_of_put [of p child t st r] plain p(2,3) that by blast
  have "t \<in> set ts \<or> (\<exists>r. row_of child t (put_policy p st) = Some r \<and> snapshot_row r)"
    using Cons.prems(3) same other snapshot_row_mode [OF p(4)] by (cases "t = u") auto
  then show ?case unfolding fold_simps comp_def p(1) using Cons.IH rows Cons.prems(1) by simp
qed simp

lemma capture_changed:
  assumes "capture_ceiling env now uuids lineage child parent scopes st = Inr (Changed n st' note skip)"
  obtains gs st0 where "st' = fold (snapshot_policy (iso_string now) child gs) resource_types st0" "ps_policies st0 = ps_policies st"
    "\<not> snapshot_recorded child st"
  using assms by (auto simp: capture_ceiling_def and_then_Inr_iff split: if_splits)

lemma capture_fixes:
  assumes "capture_ceiling env now uuids lineage child parent scopes st = Inr (Changed n st' note skip)" "str_trim child = child" "normal_rows st"
  shows "ceiling_fixed child st'"
proof (rule capture_changed [OF assms(1)])
  fix gs st0
  assume made: "st' = fold (snapshot_policy (iso_string now) child gs) resource_types st0" "ps_policies st0 = ps_policies st"
  have "normal_rows st0" using assms(3) made(2) by (simp add: normal_rows_def)
  then show ?thesis unfolding ceiling_fixed_def made(1) using fold_snapshot_row [OF assms(2)] by blast
qed

lemma fold_keeps_fixed:
  assumes "str_trim child = child" "str_trim other = other" "set ts \<subseteq> set resource_types" "normal_rows st" "ceiling_fixed child st"
  shows "ceiling_fixed child (fold (snapshot_policy made other gs) ts st)"
  using assms(3-5)
proof (induction ts arbitrary: st)
  case (Cons u ts)
  obtain p where p: "snapshot_policy made other gs u st = put_policy p st" "pl_thread p = other" "pl_type p = u" "pl_mode p = ''snapshot_ceiling''"
    using snapshot_policy_put by blast
  have "normal_rows (put_policy p st)" using put_normal_rows [OF Cons.prems(2)] p assms(2) Cons.prems(1) normal_type by simp
  moreover have "ceiling_fixed child (put_policy p st)" using put_keeps_fixed [OF Cons.prems(2) assms(1) Cons.prems(3)] p(4) by blast
  ultimately show ?case unfolding fold_simps comp_def p(1) using Cons.IH Cons.prems(1) by simp
qed simp

lemma capture_keeps_fixed:
  assumes "capture_ceiling env now uuids lineage other parent scopes st = Inr (Changed n st' note skip)"
    and "str_trim child = child" "str_trim other = other" "normal_rows st" "ceiling_fixed child st"
  shows "ceiling_fixed child st'"
proof (rule capture_changed [OF assms(1)])
  fix gs st0
  assume made: "st' = fold (snapshot_policy (iso_string now) other gs) resource_types st0" "ps_policies st0 = ps_policies st"
  have "normal_rows st0" "ceiling_fixed child st0" using assms(4) made(2) rows_kept [OF made(2) assms(5)] by (simp_all add: normal_rows_def)
  then show ?thesis unfolding made(1) using fold_keeps_fixed [OF assms(2,3)] by blast
qed

text \<open>
  A change of the policy, by any operation of the model, in any environment and at any time; \<open>Elsewhere\<close>
  stands for the other transactions of the program (mail routes and deliveries, the desktop broker, the
  retirement of other threads), which leave the policy rows of the child as they are.
\<close>

lemma snd_of_result: "snd (case x of (Inl e, y) \<Rightarrow> (f e, y) | (Inr r, y) \<Rightarrow> (g r, y)) = snd x"
  by (simp split: prod.split sum.split)

inductive policy_step :: "string \<Rightarrow> policy_state \<Rightarrow> policy_state \<Rightarrow> bool" for child where
  Register: "policy_step child st (snd (register_thread_resource env now uuid p key raw st))"
| Advance: "policy_step child st (snd (advance_resource_generation env now uuid p t key owner native boundary reason st))"
| Replace: "policy_step child st (snd (set_thread_resource_grants env now uuid uuids ts p thread t entries opts st))"
| Capture: "policy_step child st (snd (capture_child_ceiling env now uuid uuids ts x st))"
| Authorize: "policy_step child st (snd (authorize_access env now uuid ts q st))"
| Audit: "policy_step child st (snd (record_policy_audit env now uuid a st))"
| Claim: "policy_step child st (snd (claim_policy_audit env now uuid token limit lease st))"
| Deliver: "policy_step child st (snd (mark_audit_delivered env now uuid token ids st))"
| Call: "policy_step child st (snd (assert_connector_access env now uuid ts a input actual st))"
| Issue: "policy_step child st (snd (issue_connector_token env now uuid digest secret jti ts k st))"
| Elsewhere: "(\<And>r st1 nt skip. (f :: policy_state \<Rightarrow> (policy_error, unit change) result) (normalize_policy_state env (iso_string now) uuid st) = Inr (Changed r st1 nt skip) \<Longrightarrow>
      (\<forall>t. row_of child t st1 = row_of child t (normalize_policy_state env (iso_string now) uuid st))) \<Longrightarrow>
    policy_step child st (snd (mutate_policy env now uuid f st))"

lemma persist_keeps_fixed:
  assumes "str_trim child = child" "child \<noteq> []" "ceiling_fixed child st"
  shows "ceiling_fixed child (snd (persist_current_session env now uuid ts c p thread st))"
proof -
  have "snd (persist_current_session env now uuid ts c p thread st) = snd (mutate_policy env now uuid (persist_session env now ts c p thread) st)"
    by (simp add: persist_current_session_def split: prod.split sum.split)
  then show ?thesis using mutate_frame_fixed [OF assms persist_frame] by simp
qed

lemma call_keeps_fixed:
  assumes "str_trim child = child" "child \<noteq> []" "ceiling_fixed child st"
  shows "ceiling_fixed child (snd (assert_connector_access env now uuid ts a input actual st))"
    and "ceiling_fixed child (snd (issue_connector_token env now uuid digest secret jti ts k st))"
proof -
  have checked: "ceiling_fixed child (snd (policy_checked env now uuid ts c p st))" for c p
    using assms(3) persist_keeps_fixed [OF assms] by (simp add: policy_checked_def Let_def split: option.split)
  show "ceiling_fixed child (snd (assert_connector_access env now uuid ts a input actual st))"
    using assms(3) checked [of "claims_of a" "dt_action (requested_target input actual)"]
    by (simp add: assert_connector_access_def Let_def snd_of_result split: option.split sum.split)
  show "ceiling_fixed child (snd (issue_connector_token env now uuid digest secret jti ts k st))"
    using assms(3) persist_keeps_fixed [OF assms]
    by (simp add: issue_connector_token_def Let_def snd_of_result split: option.split sum.split)
qed

lemma policy_step_keeps_fixed:
  assumes "policy_step child st st'" "str_trim child = child" "child \<noteq> []" "ceiling_fixed child st"
  shows "ceiling_fixed child st'"
  using assms(1)
proof cases
  case (Register env now uuid p key raw)
  have "ceiling_fixed child (snd (mutate_policy env now uuid (register_resource made actor k r) st))" for made actor k r
    by (rule mutate_frame_fixed [OF assms(2-4)]) (rule register_frame)
  then show ?thesis using assms(4) Register
    by (simp add: register_thread_resource_def Let_def split: option.split)
next
  case (Advance env now uuid p t key owner native boundary reason)
  have "ceiling_fixed child (snd (mutate_policy env now uuid (advance_generation made actor reason r) st))" for made actor r
    by (rule mutate_frame_fixed [OF assms(2-4)]) (rule advance_frame)
  then show ?thesis using assms(4) Advance
    by (simp add: advance_resource_generation_def Let_def split: option.split)
next
  case (Replace env now uuid uuids ts p thread t entries opts)
  have "ceiling_fixed child (snd (mutate_policy env now uuid (replace_grants env made uuids ts i owner ty provision actor opts ns) st))"
    for made i owner ty provision actor ns
    by (rule mutate_keeps_fixed [OF assms(2-4)]) (rule replace_keeps_fixed [OF assms(2,3) normal_rows_normal])
  then show ?thesis using assms(4) Replace
    by (simp add: set_thread_resource_grants_def Let_def split: option.split sum.split)
next
  case (Capture env now uuid uuids ts x)
  have "ceiling_fixed child (snd (mutate_policy env now uuid (capture_ceiling env now uuids lineage (str_trim i) parent scopes) st))"
    for lineage i parent scopes
    by (rule mutate_keeps_fixed [OF assms(2-4)]) (rule capture_keeps_fixed [OF _ assms(2) str_trim_again normal_rows_normal])
  then show ?thesis using assms(4) Capture
    by (simp add: capture_child_ceiling_def Let_def snd_of_result split: option.split sum.split)
next
  case (Authorize env now uuid ts q)
  have "ceiling_fixed child (snd (mutate_policy env now uuid (\<lambda>st. Inr (Changed () st entry True)) st))" for entry
    by (rule mutate_frame_fixed [OF assms(2-4)]) simp
  then show ?thesis using assms(4) Authorize by (simp add: authorize_access_def split: sum.split)
next
  case (Audit env now uuid a)
  have "ceiling_fixed child (snd (mutate_policy env now uuid (\<lambda>st. Inr (Changed () st entry True)) st))" for entry
    by (rule mutate_frame_fixed [OF assms(2-4)]) simp
  then show ?thesis using Audit by (simp add: record_policy_audit_def)
next
  case (Claim env now uuid token limit lease)
  have "ceiling_fixed child (snd (mutate_policy env now uuid (claim_audit env now token n k) st))" for n k
    by (rule mutate_frame_fixed [OF assms(2-4)]) (rule claim_frame)
  then show ?thesis using Claim by (simp add: claim_policy_audit_def)
next
  case (Deliver env now uuid token ids)
  have "ceiling_fixed child (snd (mutate_policy env now uuid (deliver_audit now i rows) st))" for i rows
    by (rule mutate_frame_fixed [OF assms(2-4)]) (rule deliver_frame)
  then show ?thesis using assms(4) Deliver by (simp add: mark_audit_delivered_def Let_def)
next
  case (Elsewhere f env now uuid)
  have "ceiling_fixed child (snd (mutate_policy env now uuid f st))"
  proof (rule mutate_keeps_fixed [OF assms(2-4)])
    fix r st1 nt skip
    assume "f (normalize_policy_state env (iso_string now) uuid st) = Inr (Changed r st1 nt skip)"
      and fixed: "ceiling_fixed child (normalize_policy_state env (iso_string now) uuid st)"
    from Elsewhere(2) [OF this(1)] show "ceiling_fixed child st1" by (intro ceiling_fixed_cong [OF _ fixed]) blast
  qed
  then show ?thesis using Elsewhere(1) by simp
qed (use call_keeps_fixed [OF assms(2-4)] in simp_all)

lemma policy_steps_keep_fixed:
  "(policy_step child)\<^sup>*\<^sup>* st st' \<Longrightarrow> str_trim child = child \<Longrightarrow> child \<noteq> [] \<Longrightarrow> ceiling_fixed child st \<Longrightarrow> ceiling_fixed child st'"
  by (induction rule: rtranclp_induct) (auto intro: policy_step_keeps_fixed)

text \<open>A recorded snapshot is in the first row of each type, where each thread has one row per type.\<close>

lemma recorded_fixed:
  assumes "snapshot_recorded child (normalize_policy_state env now uuid st)" "child \<noteq> []" "str_trim child = child"
    and "distinct (map (\<lambda>p. (str_trim (pl_thread p), normalize_resource_type (pl_type p))) (ps_policies st))"
  shows "ceiling_fixed child st"
  unfolding ceiling_fixed_def
proof
  fix t assume t: "t \<in> set resource_types"
  obtain p where p: "p \<in> set (ps_policies st)" "str_trim (pl_thread p) = child" "normalize_resource_type (pl_type p) = t" "snapshot_row p"
    using assms(1) t by (auto simp: snapshot_recorded_def list_all_iff list_ex_iff normalize_mode)
  have "find (\<lambda>p. str_trim (pl_thread p) = child \<and> normalize_resource_type (pl_type p) = t) xs = Some p"
    if "p \<in> set xs" "distinct (map (\<lambda>p. (str_trim (pl_thread p), normalize_resource_type (pl_type p))) xs)" for xs
    using that p(2,3) by (induction xs) (auto simp: image_iff)
  then show "\<exists>p. row_of child t st = Some p \<and> snapshot_row p" using assms(4) p unfolding row_of_def by blast
qed

lemma capture_recorded:
  assumes "mutate_policy env now uuid (capture_ceiling env now uuids lineage child parent scopes) stored = (Inr (n, revision), st')"
    and "child \<noteq> []" "str_trim child = child"
    and "distinct (map (\<lambda>p. (str_trim (pl_thread p), normalize_resource_type (pl_type p))) (ps_policies stored))"
  shows "ceiling_fixed child st'"
proof (cases "snapshot_recorded child (normalize_policy_state env (iso_string now) uuid stored)")
  case True
  then have "st' = stored" using assms(1) by (auto simp: mutate_policy_def capture_ceiling_def)
  with recorded_fixed [OF True assms(2-4)] show ?thesis by simp
next
  case False
  obtain st nt skip where c: "capture_ceiling env now uuids lineage child parent scopes (normalize_policy_state env (iso_string now) uuid stored)
      = Inr (Changed n st nt skip)" "ps_policies st' = ps_policies st"
    using mutate_policy_Changed [OF assms(1)] False by (auto simp: capture_ceiling_def and_then_Inr_iff)
  from rows_kept [OF c(2) capture_fixes [OF c(1) assms(3) normal_rows_normal]] show ?thesis .
qed

text \<open>
  C14: a child's ceiling is a snapshot: after it was captured, whatever changes of the policy follow (the
  operations of the model on any thread, the child's own grants included, at any times and in any
  environment, and other transactions that leave the child's policy rows alone), a later capture for the
  child changes nothing and captures nothing. The state before the first capture has one policy row per
  thread and type, and the child's parent still exists then.
\<close>

theorem ceiling_captured_once:
  assumes "capture_child_ceiling env now uuid uuids ts child stored = (Inr (Some (n, revision)), st')"
    and "distinct (map (\<lambda>p. (str_trim (pl_thread p), normalize_resource_type (pl_type p))) (ps_policies stored))"
    and "(policy_step (str_trim (pt_id child)))\<^sup>*\<^sup>* st' st''"
    and "get_thread ts' (str_trim (pt_parent child)) \<noteq> None" "declared_scopes env' later child resource_types = Inr scopes"
  shows "capture_child_ceiling env' later uuid' uuids' ts' child st'' = (Inr (Some (0, max 0 (ps_revision st''))), st'')"
proof -
  have child: "str_trim (pt_id child) \<noteq> []" "str_trim (pt_parent child) \<noteq> []"
    using assms(1) by (auto simp: capture_child_ceiling_def split: if_splits)
  obtain lineage parent scopes0 where "mutate_policy env now uuid (capture_ceiling env now uuids lineage (str_trim (pt_id child)) parent scopes0) stored
      = (Inr (n, revision), st')"
    using assms(1) by (auto simp: capture_child_ceiling_def split: if_splits sum.splits prod.splits option.splits)
  from capture_recorded [OF this child(1) _ assms(2)] policy_steps_keep_fixed [OF assms(3) _ child(1)]
  have "ceiling_fixed (str_trim (pt_id child)) st''" by simp
  then have "snapshot_recorded (str_trim (pt_id child)) (normalize_policy_state env' (iso_string later) uuid' st'')"
    using ceiling_fixed_recorded child(1) by simp
  then show ?thesis
    using assms(4,5) child by (auto simp: capture_child_ceiling_def mutate_policy_def capture_ceiling_def)
qed

end
