(* ===== verification/ResourceCalls.thy ===== *)
theory ResourceCalls
  imports ResourceCeilings
begin

text \<open>
  Connector calls under a resource bearer: what a call rests on that the check lets pass, and the bound
  on the life of a bearer by the grant it was issued under.
\<close>

section \<open>A call that passes\<close>

lemma first_denial_None: "first_denial gs = None \<longleftrightarrow> (\<forall>(refused, reason, status)\<in>set gs. \<not> refused)"
  by (induction gs rule: first_denial.induct) auto

lemma snapshot_found:
  assumes "effective_from_snapshot env now ts st i t rid p = Some e"
  obtains r x where "find (\<lambda>r. rs_type r = normalize_resource_type t \<and> rs_id r = str_trim rid) (ps_resources st) = Some r"
    "rs_status r = ''active''" "given_text (rs_retired r) = []" "normalize_resource_type t \<noteq> []"
    "permission_for (normalize_resource_type t) p \<noteq> []" "thread_by_id ts (str_trim i) = Some x"
  using assms by (auto simp: effective_from_snapshot_def Let_def split: option.splits if_splits)

lemma snapshot_holds:
  assumes "effective_from_snapshot env now ts st i t rid p = Some e" "parents_by_id ts"
  shows "\<exists>r x. find (\<lambda>r. rs_type r = normalize_resource_type t \<and> rs_id r = str_trim rid) (ps_resources st) = Some r
    \<and> thread_by_id ts (str_trim i) = Some x \<and> holds env now ts st r (permission_for (normalize_resource_type t) p) x"
proof (rule snapshot_found [OF assms(1)])
  fix r x
  assume found: "find (\<lambda>r. rs_type r = normalize_resource_type t \<and> rs_id r = str_trim rid) (ps_resources st) = Some r"
    "rs_status r = ''active''" "given_text (rs_retired r) = []" "normalize_resource_type t \<noteq> []"
    "permission_for (normalize_resource_type t) p \<noteq> []" and x: "thread_by_id ts (str_trim i) = Some x"
  have "\<exists>e'. effective_grant env now ts st r (permission_for (normalize_resource_type t) p) [] x = Inr (Some e') \<and> ef_grant e' = ef_grant e"
    using snapshot_finds [OF assms(2) x found, of env now "ef_grant e"] assms(1) by blast
  then show ?thesis using found(1) x effective_grant_holds by blast
qed

text \<open>The claims of a bearer name the resolved target, its thread and the operation.\<close>

definition claims_name :: "resource_auth \<Rightarrow> dispatch_target \<Rightarrow> bool" where
  "claims_name c q \<longleftrightarrow> dt_type q = au_type c \<and> dt_resource q = au_resource c \<and> dt_action q \<in> set (au_actions c) \<and> dt_thread q = au_thread c
     \<and> same_operation (dt_target q) (au_target c) \<and> ct_tool (dt_target q) = ct_tool (au_target c) \<and> ct_action (dt_target q) = ct_action (au_target c)"

lemma guards_pass:
  assumes "first_denial (claim_guards env now c caller resolved q) = None"
  shows "resolved" "\<not> target_mismatch caller q" "claims_name c q" "lifetime_error env now (au_bearer c) = []" "resource_boundary_id env = au_boundary c"
    "dt_type q \<noteq> []" "dt_action q \<in> set (sorted_actions [dt_action q] (normalize_resource_type (dt_type q)))"
proof -
  have "\<forall>(refused, reason, status)\<in>set (claim_guards env now c caller resolved q). \<not> refused" using assms by (simp only: first_denial_None)
  then show "resolved" "\<not> target_mismatch caller q" "claims_name c q" "lifetime_error env now (au_bearer c) = []" "resource_boundary_id env = au_boundary c"
      "dt_type q \<noteq> []" "dt_action q \<in> set (sorted_actions [dt_action q] (normalize_resource_type (dt_type q)))"
    by (auto simp: claim_guards_def Let_def claims_name_def or_default_def)
qed

lemma permission_for_own: "clean_lower p = p \<Longrightarrow> p \<in> set (resource_permissions t) \<Longrightarrow> permission_for t p = p"
  by (simp only: permission_for_def Let_def if_True)

lemma sorted_action_known:
  "p \<in> set (sorted_actions [p] t) \<Longrightarrow> clean_lower p = p \<Longrightarrow> permission_for (normalize_resource_type t) p = p"
  by (rule permission_for_own) (simp_all add: sorted_actions_def normalize_permissions_of_def distinct_first_def split: if_splits)

lemma persisted_session:
  assumes "persist_current_session env now uuid ts c p grant_thread stored = (Inr s, st')"
  shows "s \<in> set (ps_sessions st') \<and> ss_state s = ''active'' \<and> br_jti (ss_bearer s) = br_jti (au_bearer c)
    \<and> claims_current env now ts (normalize_policy_state env (iso_string now) uuid stored) c p grant_thread"
proof -
  let ?st = "normalize_policy_state env (iso_string now) uuid stored"
  obtain revision where run: "mutate_policy env now uuid (persist_session env now ts c p grant_thread) stored = (Inr (Inr s, revision), st')"
    using assms by (auto simp: persist_current_session_def split: prod.splits sum.splits)
  let ?existing = "find (\<lambda>s. br_jti (ss_bearer s) = br_jti (au_bearer c)) (ps_sessions ?st)"
  show ?thesis
  proof (cases ?existing)
    case None
    with run show ?thesis
      by (auto simp: mutate_policy_def persist_session_def Let_def new_session_def split: if_splits)
  next
    case (Some x)
    then have "br_jti (ss_bearer x) = br_jti (au_bearer c)" using find_given [OF Some] by simp
    with run Some show ?thesis
      by (auto simp: mutate_policy_def persist_session_def Let_def split: if_splits)
  qed
qed

lemma policy_checked_passes:
  assumes "policy_checked env now uuid ts c p stored = (Inr s, st')"
  obtains r e where "\<not> retired_above ts [] (au_thread c)" "root_of ts [] (au_thread c) = au_root c"
    "find_resource (au_type c) (au_resource c) (normalize_policy_state env (iso_string now) uuid stored) = Some r" "resource_usable c r"
    "effective_from_snapshot env now ts (normalize_policy_state env (iso_string now) uuid stored) (au_thread c) (au_type c) (au_resource c) p = Some e"
    "s \<in> set (ps_sessions st')" "ss_state s = ''active''" "br_jti (ss_bearer s) = br_jti (au_bearer c)"
  using assms persisted_session by (auto simp: policy_checked_def Let_def split: if_splits option.splits)

text \<open>A declared call that passes in the mode \<open>enforce\<close> went through the guards and the policy.\<close>

lemma checked_call:
  assumes "assert_connector_access env now uuid ts a input actual stored = (Inr passed, st')"
    and "access_mode env (normalize_resource_type (or_default (au_type (claims_of a)) (dt_type (requested_target input actual)))) = ''enforce''"
    and "target_declared (target_of input) \<or> target_declared (requested_target input actual) \<or> token_declared a \<and> \<not> au_operator a"
  obtains s where "passed = a" "\<not> au_operator a"
    "first_denial (claim_guards env now (claims_of a) (target_of input) (actual \<noteq> None) (requested_target input actual)) = None"
    "policy_checked env now uuid ts (claims_of a) (dt_action (requested_target input actual)) stored = (Inr s, st')"
  using assms unfolding assert_connector_access_def Let_def
  by (auto split: if_splits option.splits prod.splits sum.splits)

text \<open>
  C10: where the policy is enforced for the resource type, a connector call that declares a resource
  target, in the bearer or in the request, passes only under a bearer that is no operator's, on a target
  that the server resolved, that the caller did not contradict and that the claims name in every part,
  inside the bearer's lifetime, for a thread that is not retired and holds the action on a usable
  resource by a grant from its root; the session of the bearer is then active. The parents of the
  threads are named by their ids. An operator's call that names no target needs no bearer
  (\<open>au_operator a\<close> is excluded there only).
\<close>

theorem connector_call_sound:
  assumes "assert_connector_access env now uuid ts a input actual stored = (Inr passed, st')" and "parents_by_id ts"
    and "access_mode env (normalize_resource_type (or_default (au_type (claims_of a)) (dt_type (requested_target input actual)))) = ''enforce''"
    and "target_declared (target_of input) \<or> target_declared (requested_target input actual) \<or> token_declared a \<and> \<not> au_operator a"
  shows "\<exists>d r t s. passed = a \<and> \<not> au_operator a \<and> actual = Some d \<and> \<not> target_mismatch (target_of input) (target_of d)
    \<and> claims_name (claims_of a) (target_of d)
    \<and> lifetime_error env now (normalize_bearer (au_bearer a)) = [] \<and> \<not> retired_above ts [] (str_trim (au_thread a))
    \<and> find_resource (normalize_resource_type (au_type a)) (str_trim (au_resource a)) (normalize_policy_state env (iso_string now) uuid stored) = Some r
    \<and> resource_usable (claims_of a) r \<and> thread_by_id ts (str_trim (au_thread a)) = Some t
    \<and> holds env now ts (normalize_policy_state env (iso_string now) uuid stored) r (dt_action (target_of d)) t
    \<and> s \<in> set (ps_sessions st') \<and> ss_state s = ''active'' \<and> br_jti (ss_bearer s) = str_trim (br_jti (au_bearer a))"
proof -
  let ?c = "claims_of a" and ?st = "normalize_policy_state env (iso_string now) uuid stored"
  define q where "q = requested_target input actual"
  have c [simp]: "au_type ?c = normalize_resource_type (au_type a)" "au_resource ?c = str_trim (au_resource a)" "au_thread ?c = str_trim (au_thread a)"
      "au_bearer ?c = normalize_bearer (au_bearer a)"
    by (simp_all add: claims_of_def)
  obtain s where bearer: "passed = a" "\<not> au_operator a" and denied: "first_denial (claim_guards env now ?c (target_of input) (actual \<noteq> None) q) = None"
      and checked: "policy_checked env now uuid ts ?c (dt_action q) stored = (Inr s, st')"
    by (rule checked_call [OF assms(1,3,4)]) (simp add: q_def)
  note guards = guards_pass [OF denied]
  obtain d where d: "actual = Some d" "q = target_of d" using guards(1) by (auto simp: q_def requested_target_def)
  have "dt_type q = normalize_resource_type (au_type a)" using guards(3) by (simp add: claims_name_def)
  then have "permission_for (normalize_resource_type (au_type a)) (dt_action q) = dt_action q"
    using sorted_action_known [OF guards(7)] d(2) by (simp add: target_of_def)
  moreover obtain r e where "\<not> retired_above ts [] (str_trim (au_thread a))" and r: "find_resource (normalize_resource_type (au_type a)) (str_trim (au_resource a)) ?st = Some r"
      "resource_usable ?c r" and e: "effective_from_snapshot env now ts ?st (str_trim (au_thread a)) (normalize_resource_type (au_type a)) (str_trim (au_resource a)) (dt_action q) = Some e"
      and "s \<in> set (ps_sessions st')" "ss_state s = ''active''" "br_jti (ss_bearer s) = str_trim (br_jti (au_bearer a))"
    using policy_checked_passes [OF checked] unfolding c by (metis bearer.select_convs(1) normalize_bearer_def)
  moreover have "\<exists>t. thread_by_id ts (str_trim (au_thread a)) = Some t
      \<and> holds env now ts ?st r (permission_for (normalize_resource_type (au_type a)) (dt_action q)) t"
    using snapshot_holds [OF e assms(2)] r(1) by (auto simp: find_resource_def)
  ultimately show ?thesis using bearer d guards(2-4) by auto
qed

end
