(* ===== verification/LeaseHistory.thy ===== *)
theory LeaseHistory
  imports LeaseGrants
begin

text \<open>
  The canonical bytes identify a value up to the order of keys, so that the retired history of an
  adopted file cannot change without a collision of the digest.
\<close>

section \<open>The canonical bytes of a value\<close>

lemma sort_key_again: "sort_key f (sort_key f xs) = sort_key f xs"
  by (simp add: sort_key_id_if_sorted)

lemma legacy_code_key_sorted: "legacy_code dec (key_sorted v) = legacy_code dec v"
proof (induction v)
  case (JArr xs)
  then have "map (legacy_code dec) (map key_sorted xs) = map (legacy_code dec) xs" by simp
  then show ?case by (simp only: key_sorted.simps legacy_code.simps length_map)
next
  case (JObj kvs)
  let ?s = "sort_key (legacy_utf8 \<circ> fst)" and ?c = "\<lambda>(k, v). text_code k @ legacy_code dec v"
  have "?s (map (map_prod id key_sorted) (?s kvs)) = map (map_prod id key_sorted) (?s kvs)"
    by (simp only: sort_key_map_snd sort_key_again)
  moreover have "map ?c (map (map_prod id key_sorted) (?s kvs)) = map ?c (?s kvs)"
    using JObj by (auto simp: snds.simps)
  ultimately show ?case unfolding key_sorted_obj legacy_code_obj by (simp only: length_map length_sort)
qed simp_all

text \<open>
  C16: two values that the encoding accepts have the same canonical bytes exactly when they are equal
  up to the order of the keys of their objects.
\<close>

theorem canonical_bytes_iff:
  assumes "decimal_codes dec" and "canonical_legacy_bytes dec v = Some a" "canonical_legacy_bytes dec w = Some b"
  shows "a = b \<longleftrightarrow> key_sorted v = key_sorted w"
proof -
  have parts: "numbers_coded dec v" "numbers_coded dec w" "a = legacy_code dec v" "b = legacy_code dec w"
    using assms(2,3) by (auto simp: canonical_legacy_bytes_def split: if_splits)
  have "key_sorted v = key_sorted w" if "a = b"
    using legacy_code_prefix [OF assms(1) parts(1,2), of "[]" "[]"] that parts(3,4) by simp
  moreover have "a = b" if "key_sorted v = key_sorted w"
    using that parts(3,4) legacy_code_key_sorted by metis
  ultimately show ?thesis by blast
qed

section \<open>The retired history\<close>

lemma cohort_document_records:
  assumes "key_sorted (cohort_document c rs) = key_sorted (cohort_document c rs')"
  shows "map (key_sorted \<circ> lease_json) (sort_key (legacy_utf8 \<circ> ls_id) rs) = map (key_sorted \<circ> lease_json) (sort_key (legacy_utf8 \<circ> ls_id) rs')"
proof -
  have entries: "mset (map (map_prod id key_sorted) kvs) = mset (map (map_prod id key_sorted) kvs')"
    if "key_sorted (JObj kvs) = key_sorted (JObj kvs')" for kvs kvs'
    using arg_cong [OF that, of "\<lambda>v. case v of JObj xs \<Rightarrow> mset xs | _ \<Rightarrow> {#}"] by simp
  from entries [OF assms [unfolded cohort_document_def]] show ?thesis by (simp add: comp_def)
qed

text \<open>
  C17: a file that is accepted under an adopted cohort still has the retired history the cohort was
  issued for: any two accepted states have the same retired records, in every field, unless the two
  documents that were digested are a collision of SHA-256.
\<close>

theorem retired_history_fixed:
  assumes "decimal_codes (le_dec env)"
    and "validate_legacy_cohort env st (Some a) = Inr ids" "validate_legacy_cohort env st' (Some a) = Inr ids'"
  shows "map (key_sorted \<circ> lease_json) (sort_key (legacy_utf8 \<circ> ls_id) (retired_records (ad_cohort a) st))
       = map (key_sorted \<circ> lease_json) (sort_key (legacy_utf8 \<circ> ls_id) (retired_records (ad_cohort a) st'))
    \<or> (\<exists>x y. canonical_legacy_bytes (le_dec env) (cohort_document (ad_cohort a) (retired_records (ad_cohort a) st)) = Some x
        \<and> canonical_legacy_bytes (le_dec env) (cohort_document (ad_cohort a) (retired_records (ad_cohort a) st')) = Some y \<and> x \<noteq> y \<and> le_sha env x = le_sha env y)"
proof -
  let ?records = "retired_records (ad_cohort a)"
  have digest: "cohort_digest env (ad_cohort a) (?records s) = Some (co_digest (ad_cohort a))"
    if "validate_legacy_cohort env s (Some a) = Inr i" for s i
    using that by (auto simp: validate_legacy_cohort_def Let_def split: if_splits option.splits)
  obtain x y where x: "canonical_legacy_bytes (le_dec env) (cohort_document (ad_cohort a) (?records st)) = Some x"
    and y: "canonical_legacy_bytes (le_dec env) (cohort_document (ad_cohort a) (?records st')) = Some y"
    and same: "le_sha env x = le_sha env y"
    using digest [OF assms(2)] digest [OF assms(3)] by (auto simp: cohort_digest_def)
  show ?thesis
  proof (cases "x = y")
    case True
    have coded: "numbers_coded (le_dec env) (cohort_document (ad_cohort a) (?records s)) \<and> legacy_code (le_dec env) (cohort_document (ad_cohort a) (?records s)) = z"
      if "canonical_legacy_bytes (le_dec env) (cohort_document (ad_cohort a) (?records s)) = Some z" for s z
      using that by (auto simp: canonical_legacy_bytes_def split: if_splits)
    have "key_sorted (cohort_document (ad_cohort a) (?records st)) = key_sorted (cohort_document (ad_cohort a) (?records st'))"
      using legacy_code_prefix [OF assms(1), of _ _ "[]" "[]"] coded [OF x] coded [OF y] True by auto
    then show ?thesis by (intro disjI1) (rule cohort_document_records)
  next
    case False
    with x y same show ?thesis by blast
  qed
qed

text \<open>Preparing an old file retires every lease in it, so that no holder of one of them can act.\<close>

lemma prepared_all_retired:
  assumes "prepare_legacy_cohort env sha revoked source = Inr (st, a)"
  shows "list_all (\<lambda>l. \<not> lease_active l \<and> ls_id l \<in> set (co_ids (ad_cohort a))) (dl_leases st)"
    and "current_action_lease env st b stale_after now = Inl (LeaseError ''desktop_lease_action_revoked'' 409)"
proof -
  have revoked: "revoked \<noteq> []"
    using assms iso_string_trimmed by (auto simp: prepare_legacy_cohort_def Let_def trimmed_text_def split: if_splits option.splits)
  have leases: "dl_leases st = map (revoke_lease revoked) (dl_leases source)" and cohort: "dl_cohort st = Some (ad_cohort a)"
    and ids: "co_ids (ad_cohort a) = sort_key legacy_utf8 (map ls_id (dl_leases st))"
    using assms by (auto simp: prepare_legacy_cohort_def normalize_legacy_adoption_def Let_def and_then_Inr_iff split: if_splits option.splits)
  have none: "\<not> lease_active (revoke_lease revoked l)" for l using revoked by (simp add: revoke_lease_def lease_active_def)
  then show "list_all (\<lambda>l. \<not> lease_active l \<and> ls_id l \<in> set (co_ids (ad_cohort a))) (dl_leases st)"
    by (simp add: ids leases list_all_iff)
  have "active_for x y st = None" for x y
    using none by (auto simp: active_for_def leases find_None_iff is_active_for_def)
  then show "current_action_lease env st b stale_after now = Inl (LeaseError ''desktop_lease_action_revoked'' 409)"
    by (simp add: current_action_lease_def)
qed

end
