(* ===== verification/LeaseSamples.thy ===== *)
theory LeaseSamples
  imports LeaseHistory
begin

text \<open>
  Concrete instances of the facts about desktop leases: one desktop that is recovered from a holder
  that stopped, a store without a file, and two states under one adopted cohort.
\<close>

section \<open>A desktop that changes hands\<close>

theorem canonical_bytes_iff_witness:
  "canonical_legacy_bytes Map.empty (JObj [(''b'', JBool True), (''a'', JArr [])])
   = canonical_legacy_bytes Map.empty (JObj [(''a'', JArr []), (''b'', JBool True)])"
proof -
  have "decimal_codes Map.empty" by (simp add: decimal_codes_def)
  moreover have "canonical_legacy_bytes Map.empty (JObj [(''b'', JBool True), (''a'', JArr [])]) = Some (legacy_code Map.empty (JObj [(''b'', JBool True), (''a'', JArr [])]))"
    by (simp add: canonical_legacy_bytes_def max_legacy_bytes_def text_code_def legacy_utf8_def utf8_char_def nat_str.simps)
  moreover have "canonical_legacy_bytes Map.empty (JObj [(''a'', JArr []), (''b'', JBool True)]) = Some (legacy_code Map.empty (JObj [(''a'', JArr []), (''b'', JBool True)]))"
    by (simp add: canonical_legacy_bytes_def max_legacy_bytes_def text_code_def legacy_utf8_def utf8_char_def nat_str.simps)
  ultimately show ?thesis using canonical_bytes_iff by (simp add: legacy_utf8_def utf8_char_def)
qed

text \<open>
  A desktop whose holder has let its lease expire and stopped: at time 120 another thread recovers it.
\<close>

definition sample_lease_env :: lease_env where
  "sample_lease_env = \<lparr>le_sha = id, le_dec = Map.empty,
     le_parse = map_of [(iso_string 10, 10), (iso_string 110, 110), (iso_string 120, 120), (iso_string 220, 220)], le_locale = (\<lambda>_ _. 0)\<rparr>"

definition sample_lease_config :: lease_config where
  "sample_lease_config = \<lparr>lc_adoption = None, lc_retention = None, lc_stale_after = 900000\<rparr>"

definition sample_input :: lease_input where
  "sample_input = \<lparr>li_slug = ''d'', li_owner = ''u'', li_thread = ''n'', li_codex = [], li_thread_name = [], li_mode = ''exclusive'',
     li_purpose = [], li_run = [], li_acquired = iso_string 120, li_heartbeat = iso_string 120, li_expires = Some (iso_string 220),
     li_metadata = JObj []\<rparr>"

definition sample_acquire :: acquire_request where
  "sample_acquire = \<lparr>aq_slug = ''d'', aq_thread = ''n'', aq_owner = ''u'', aq_principal = None, aq_force = False, aq_enforced = True,
     aq_break_glass = False, aq_break_glass_reason = [], aq_break_glass_change = [], aq_mode = [], aq_ttl = 100, aq_details = sample_input,
     aq_allow_recovery = True, aq_desktop_state = ''closed'', aq_reuse = False\<rparr>"

definition sample_lease :: "string \<Rightarrow> int \<Rightarrow> int \<Rightarrow> lease" where
  "sample_lease thread now version = \<lparr>ls_id = ''d:u:'' @ thread @ '':'' @ iso_string now, ls_slug = ''d'', ls_owner = ''u'',
     ls_thread = thread, ls_codex = None, ls_thread_name = None, ls_mode = ''exclusive'', ls_purpose = None, ls_run = None,
     ls_acquired = iso_string now, ls_heartbeat = iso_string now, ls_expires = Some (iso_string (now + 100)), ls_released = None,
     ls_reason = None, ls_updated = iso_string now, ls_metadata = JObj [], ls_token = thread, ls_version = version\<rparr>"

definition sample_held_state :: lease_state where
  "sample_held_state = \<lparr>dl_counter = 1, dl_leases = [sample_lease ''t'' 10 1], dl_lock = Some ''i'', dl_cohort = None\<rparr>"

definition sample_held :: lease_world where
  "sample_held = \<lparr>lw_file = Some \<lparr>lf_sha = [], lf_state = sample_held_state\<rparr>, lw_initialized = True, lw_identity = ''i'', lw_archive = []\<rparr>"

definition sample_empty :: lease_world where
  "sample_empty = \<lparr>lw_file = None, lw_initialized = False, lw_identity = ''i'', lw_archive = []\<rparr>"

definition sample_recovered_state :: lease_state where
  "sample_recovered_state = \<lparr>dl_counter = 2,
     dl_leases = [sample_lease ''n'' 120 2, released_lease 120 ''expired_stopped_auto_recovery'' (sample_lease ''t'' 10 1)],
     dl_lock = Some ''i'', dl_cohort = None\<rparr>"

definition sample_recovered :: lease_world where
  "sample_recovered = sample_held\<lparr>lw_file := Some \<lparr>lf_sha = state_bytes sample_recovered_state, lf_state = sample_recovered_state\<rparr>\<rparr>"

lemma iso_string_eq [simp]: "iso_string a = iso_string b \<longleftrightarrow> a = b"
  using iso_string_inject by blast

lemma civil_0: "civil_of_days 0 = (1970, 1, 1)"
  by code_simp

lemma sample_times:
  "iso_string 10 = ''1970-01-01T00:00:00.010Z''" "iso_string 110 = ''1970-01-01T00:00:00.110Z''"
  "iso_string 120 = ''1970-01-01T00:00:00.120Z''" "iso_string 220 = ''1970-01-01T00:00:00.220Z''"
  by (simp_all add: iso_string_def iso_date_def iso_year_def civil_0 pad_int_def pad_left_def nat_str.simps day_ms_def)

lemma sample_chars [simp]:
  "canonical_char (CHR ''d'')" "canonical_char (CHR ''u'')" "\<not> is_space (CHR ''t'')" "\<not> is_space (CHR ''n'')" "\<not> is_space (CHR ''d'')"
  "\<not> is_space (CHR ''u'')" "to_lower_char (CHR ''d'') = CHR ''d''" "to_lower_char (CHR ''u'') = CHR ''u''"
  by (simp_all add: canonical_char_def is_space_def is_lower_def char_between_def to_lower_char_def is_upper_def)

lemma sample_names [simp]:
  "normalize_desktop_slug ''d'' = ''d''" "normalize_user_id ''u'' = ''u''" "str_trim ''t'' = ''t''" "str_trim ''n'' = ''n''"
  "str_trim ''d'' = ''d''" "str_trim ''u'' = ''u''"
  by (simp_all add: normalize_desktop_slug_def normalize_user_id_def str_trim_def trim_dashes_def to_lower_def Let_def)

lemma sample_id: "c \<noteq> [] \<Longrightarrow> str_trim (CHR ''d'' # CHR '':'' # CHR ''u'' # CHR '':'' # c @ CHR '':'' # iso_string t) = ''d:u:'' @ c @ '':'' @ iso_string t"
  using trimmed_last [OF iso_string_trimmed, of t] iso_string_trimmed [of t] by (subst trim_ends) (simp_all add: trimmed_text_def)

lemma sample_texts [simp]: "str_trim (iso_string t) = iso_string t" "iso_string t \<noteq> []"
  using iso_string_trimmed [of t] by (simp_all add: trimmed_text_def)

lemma sample_lease_well_formed:
  "1 \<le> v \<Longrightarrow> v \<le> c \<Longrightarrow> c \<le> 10 \<Longrightarrow> lease_well_formed c (sample_lease ''t'' now v)"
  "1 \<le> v \<Longrightarrow> v \<le> c \<Longrightarrow> c \<le> 10 \<Longrightarrow> lease_well_formed c (sample_lease ''n'' now v)"
  by (auto simp: lease_well_formed_def sample_lease_def trimmed_text_def canonical_text_def lease_modes_def max_safe_def
      sample_id [of "''t''", simplified] sample_id [of "''n''", simplified])

lemma sample_bytes: "length (state_bytes sample_recovered_state) \<le> max_legacy_bytes"
proof -
  let ?t = "json_indented (state_json sample_recovered_state) 0"
  have "length (legacy_utf8 s) \<le> 2 * length s" for s
    by (induction s) (auto simp: legacy_utf8_def utf8_char_def Let_def)
  from this [of "?t @ [CHR 0x0A]"] have "length (state_bytes sample_recovered_state) \<le> 2 * length ?t + 2"
    by (simp add: state_bytes_def)
  moreover have "length ?t \<le> 2000"
    by (simp add: sample_recovered_state_def sample_lease_def sample_times state_json_def released_lease_def lease_json_def spaces_def
        int_str_def nat_str.simps jstr_opt_def json_quote_def json_escape_def)
  ultimately show ?thesis by (simp add: max_legacy_bytes_def)
qed

lemma released_well_formed: "lease_well_formed c l \<Longrightarrow> lease_well_formed c (released_lease t r l)"
  using iso_string_trimmed by (auto simp: lease_well_formed_def released_lease_def)

lemma sample_valid: "validate_lease_state sample_lease_env ''i'' None sample_held_state = Inr ()"
    "validate_lease_state sample_lease_env ''i'' None sample_recovered_state = Inr ()"
proof -
  have "lease_well_formed 2 (released_lease 120 r (sample_lease ''t'' 10 1))" for r
    using sample_lease_well_formed(1) [of 1 2 10] by (simp add: released_well_formed)
  then show "validate_lease_state sample_lease_env ''i'' None sample_recovered_state = Inr ()"
    using sample_lease_well_formed(2) [of 2 2 120]
    by (simp add: validate_plain validate_lease_structure_def sample_recovered_state_def max_safe_def)
      (simp add: released_lease_def sample_lease_def)
  show "validate_lease_state sample_lease_env ''i'' None sample_held_state = Inr ()"
    using sample_lease_well_formed(1) [of 1 1 10]
    by (simp add: validate_plain validate_lease_structure_def sample_held_state_def max_safe_def)
qed

lemma sample_reads:
  "read_lease_state sample_lease_env sample_lease_config sample_held = Inr (Some sample_held_state)"
  "read_lease_state sample_lease_env sample_lease_config sample_recovered = Inr (Some sample_recovered_state)"
  using sample_valid by (simp_all add: read_lease_state_def sample_held_def sample_recovered_def sample_lease_config_def sample_recovered_state_def sample_held_state_def)

lemma sample_actions:
  "with_current_lease_action sample_lease_env sample_lease_config (binding_of (sample_lease ''t'' 10 1)) 10 sample_held = Inr (sample_lease ''t'' 10 1)"
  "with_current_lease_action sample_lease_env sample_lease_config (binding_of (sample_lease ''n'' 120 2)) 120 sample_recovered = Inr (sample_lease ''n'' 120 2)"
proof -
  have binding: "validate_action_binding (binding_of (sample_lease x t v))" if "x = ''t'' \<or> x = ''n''" "1 \<le> v" "v \<le> 10" for x t v
    using that by (auto simp: validate_action_binding_def binding_of_def sample_lease_def trimmed_text_def max_safe_def
      sample_id [of "''t''", simplified] sample_id [of "''n''", simplified])
  show "with_current_lease_action sample_lease_env sample_lease_config (binding_of (sample_lease ''t'' 10 1)) 10 sample_held = Inr (sample_lease ''t'' 10 1)"
    using sample_reads(1) binding [of "''t''" 1 10]
    by (simp add: with_current_lease_action_def sample_held_def sample_held_state_def current_action_lease_def active_for_def is_active_for_def lease_active_def)
      (simp add: sample_lease_def binding_of_def lease_fresh_def parsed_def sample_lease_env_def sample_lease_config_def)
  show "with_current_lease_action sample_lease_env sample_lease_config (binding_of (sample_lease ''n'' 120 2)) 120 sample_recovered = Inr (sample_lease ''n'' 120 2)"
    using sample_reads(2) binding [of "''n''" 2 120]
    by (simp add: with_current_lease_action_def sample_recovered_def sample_held_def sample_recovered_state_def current_action_lease_def
        active_for_def is_active_for_def lease_active_def)
      (simp add: sample_lease_def binding_of_def lease_fresh_def parsed_def sample_lease_env_def sample_lease_config_def)
qed

lemma sample_held_leases [simp]: "dl_leases sample_held_state = [sample_lease ''t'' 10 1]"
  by (simp add: sample_held_state_def)

lemma sample_lease_sel [simp]:
  "ls_slug (sample_lease x t v) = ''d''" "ls_owner (sample_lease x t v) = ''u''" "ls_thread (sample_lease x t v) = x" "lease_active (sample_lease x t v)"
  by (simp_all add: sample_lease_def lease_active_def)

lemma sample_words [simp]:
  "str_trim [] = []" "str_trim ''exclusive'' = ''exclusive''" "stopped_desktop_lease_recovery_state ''closed'' = ''closed''"
  by (simp_all add: str_trim_def is_space_def char_between_def stopped_desktop_lease_recovery_state_def to_lower_def to_lower_char_def
      is_upper_def stopped_desktop_states_def)

lemma sample_normal:
  "normalize_lease 120 ''n'' [] (acquire_input 120 ''u'' sample_acquire) = Some (sample_lease ''n'' 120 1)"
  using sample_id [of "''n''" 120]
  by (simp add: normalize_lease_def acquire_input_def sample_acquire_def sample_input_def sample_lease_def or_default_def
      trimmed_or_null_def requested_mode_def lease_modes_def Let_def)

definition sample_candidate :: recovery_candidate where
  "sample_candidate = \<lparr>rv_id = ls_id (sample_lease ''t'' 10 1), rv_thread = ''t'', rv_heartbeat = iso_string 10, rv_expires = Some (iso_string 110)\<rparr>"

definition sample_released :: lease where
  "sample_released = released_lease 120 ''expired_stopped_auto_recovery'' (sample_lease ''t'' 10 1)"

lemma sample_acquired:
  "acquire_desktop sample_lease_env sample_lease_config True 120 ''n'' [] (acquire_input 120 ''u'' sample_acquire)
     (acquire_settings sample_acquire (Some sample_candidate)) sample_held
   = (Inr (Granted (sample_lease ''n'' 120 2) True (Some sample_released)), sample_recovered)"
proof -
  have matches: "recovery_matches (sample_lease ''t'' 10 1) (Some sample_candidate)"
    using sample_id [of "''t''" 10] by (simp add: recovery_matches_def sample_candidate_def sample_lease_def)
  have active: "active_for ''d'' ''u'' sample_held_state = Some (sample_lease ''t'' 10 1)"
    by (simp add: active_for_def is_active_for_def)
  have run: "acquire_mutator 120 ''n'' [] (sample_lease ''n'' 120 1) (acquire_settings sample_acquire (Some sample_candidate)) sample_held_state
      = Inr (Granted (sample_lease ''n'' 120 2) True (Some sample_released), sample_recovered_state)"
    using active matches
    by (simp add: acquire_mutator_def Let_def acquire_settings_def sample_acquire_def assign_active_def is_active_for_def)
      (simp add: granted_lease_def sample_held_state_def sample_recovered_state_def sample_released_def max_safe_def or_default_def
        sample_lease_def Let_def)
  have "write_lease_state sample_lease_env sample_lease_config sample_recovered_state sample_held = Inr sample_recovered"
    using sample_valid(2) sample_bytes
    by (simp add: write_lease_state_def sample_lease_config_def sample_recovered_def sample_held_def sample_recovered_state_def
        sample_lease_env_def Let_def)
  moreover have "retain_lease_history sample_lease_env (lc_retention sample_lease_config) True sample_held_state = Inr (sample_held_state, [])"
    by (simp add: retain_lease_history_def sample_lease_config_def)
  moreover have "dl_counter sample_held_state = 1" "dl_counter sample_recovered_state = 2"
      "sample_held\<lparr>lw_archive := lw_archive sample_held\<rparr> = sample_held"
    by (simp_all add: sample_held_state_def sample_recovered_state_def)
  ultimately show ?thesis using run by (simp add: acquire_desktop_def sample_normal mutate_state_def sample_reads Let_def)
qed

lemma sample_request:
  "owner_user_id [] (aq_principal sample_acquire) (aq_owner sample_acquire) = ''u''" "owner_user_id [] None ''u'' = ''u''" "aq_slug sample_acquire = ''d''"
  by (simp_all add: owner_user_id_def sample_acquire_def)

lemma sample_seen: "store_active_lease sample_lease_env sample_lease_config ''d'' ''u'' sample_held = Inr (Some (sample_lease ''t'' 10 1))"
  by (simp add: store_active_lease_def sample_reads newest_active_def named_active_def owner_given_def sort_by_def)

lemma sample_recovery:
  "acquire_desktop_lease sample_lease_env sample_lease_config [] (\<lambda>_. None) 900000 True ''n'' [] None sample_acquire 120 sample_held 120 sample_held
   = (Inr (Granted (sample_lease ''n'' 120 2) True (Some sample_released)), sample_recovered)"
proof -
  have guards: "acquire_guards sample_acquire None = None"
    by (simp add: acquire_guards_def sample_acquire_def requested_mode_def or_default_def)
  have candidate: "recovery_candidate_of sample_acquire
      (Some (public_desktop_lease sample_lease_env 900000 (\<lambda>_. None) 120 (sample_lease ''t'' 10 1))) = Some sample_candidate"
    by (simp add: recovery_candidate_of_def public_desktop_lease_def sample_acquire_def sample_candidate_def sample_lease_def parsed_def
        sample_lease_env_def Let_def)
  then show ?thesis
    using guards sample_request sample_seen sample_acquired by (simp add: acquire_desktop_lease_def Let_def)
qed

theorem unforced_takeover_witness:
  "sx_expired (public_desktop_lease sample_lease_env 900000 (\<lambda>_. None) 120 (sample_lease ''t'' 10 1))
     \<or> sx_stale (public_desktop_lease sample_lease_env 900000 (\<lambda>_. None) 120 (sample_lease ''t'' 10 1))"
proof -
  have "\<not> aq_force sample_acquire" by (simp add: sample_acquire_def)
  from unforced_takeover [OF sample_recovery this] show ?thesis unfolding sample_request sample_names sample_seen by blast
qed

theorem stale_holder_fenced_witness:
  "(lease_step sample_lease_env sample_lease_config)\<^sup>*\<^sup>* sample_held sample_recovered
   \<and> ab_version (binding_of (sample_lease ''t'' 10 1)) < ab_version (binding_of (sample_lease ''n'' 120 2))"
proof -
  have steps: "(lease_step sample_lease_env sample_lease_config)\<^sup>*\<^sup>* sample_held sample_recovered"
    using Acquire [OF sample_acquired] by (rule r_into_rtranclp)
  from stale_holder_fenced [OF this sample_actions] steps show ?thesis by (simp add: binding_of_def sample_lease_def)
qed

theorem other_users_untouched_witness:
  "filter (\<lambda>l. lease_active l \<and> ls_owner l \<noteq> ''d'') (dl_leases (world_state (snd (release_desktop_lease sample_lease_env sample_lease_config []
     True 120 None True True (Some \<lparr>pr_user = ''d'', pr_admin = False\<rparr>) ''u'' ''d'' ''t'' [] [] sample_held)))) = [sample_lease ''t'' 10 1]"
proof -
  let ?p = "\<lparr>pr_user = ''d'', pr_admin = False\<rparr>"
  let ?r = "release_desktop_lease sample_lease_env sample_lease_config [] True 120 None True True (Some ?p) ''u'' ''d'' ''t'' [] [] sample_held"
  have "user_request sample_lease_env sample_lease_config [] ?p sample_held (snd ?r)"
    by (rule RequestRelease) (rule surjective_pairing)
  from other_users_untouched [OF r_into_rtranclp [of "user_request sample_lease_env sample_lease_config [] ?p", OF this]]
  have "keeps_others (normalize_user_id (normalize_user_id ''d'')) (world_state sample_held) (world_state (snd ?r))" by simp
  moreover have "normalize_user_id ''d'' = ''d''"
    by (simp add: normalize_user_id_def str_trim_def trim_dashes_def to_lower_def Let_def)
  ultimately show ?thesis by (simp add: keeps_others_def world_state_def sample_held_def)
qed

theorem granted_lease_acts_witness:
  "\<exists>g w'. fst (acquire_desktop sample_lease_env sample_lease_config True 120 ''n'' [] (acquire_input 120 ''u'' sample_acquire)
      (acquire_settings sample_acquire None) sample_empty) = Inl (store_error ''desktop_lease_state_too_large'')
    \<or> acquire_desktop sample_lease_env sample_lease_config True 120 ''n'' [] (acquire_input 120 ''u'' sample_acquire)
      (acquire_settings sample_acquire None) sample_empty = (Inr (Granted g False None), w')
      \<and> with_current_lease_action sample_lease_env sample_lease_config (binding_of g) 120 w'
        = (if ls_mode g \<noteq> ''exclusive'' then Inl (LeaseError ''desktop_lease_must_be_exclusive'' 409) else Inr g)"
proof -
  have read: "read_lease_state sample_lease_env sample_lease_config sample_empty = Inr None"
    by (simp add: read_lease_state_def sample_empty_def sample_lease_config_def)
  have input: "li_acquired (acquire_input 120 ''u'' sample_acquire) = iso_string 120"
    "li_heartbeat (acquire_input 120 ''u'' sample_acquire) = iso_string 120" "li_expires (acquire_input 120 ''u'' sample_acquire) = map_option (\<lambda>t. iso_string (120 + t)) (Some 100)"
    by (simp_all add: acquire_input_def sample_acquire_def requested_mode_def or_default_def)
  have empty: "world_state sample_empty = no_leases" by (simp add: world_state_def sample_empty_def)
  have rest: "lc_adoption sample_lease_config = None" "0 \<le> lc_stale_after sample_lease_config" "active_for x y (world_state sample_empty) = None"
    "trimmed_text ''n''" "i \<notin> ls_id ` set (dl_leases (world_state sample_empty))" "dl_counter (world_state sample_empty) < max_safe"
    "le_parse sample_lease_env (iso_string 120) = Some 120" "pred_option (\<lambda>t. le_parse sample_lease_env (iso_string (120 + t)) = Some (120 + t)) (Some 100)" for x y i
    by (simp_all add: empty no_leases_def active_for_def sample_lease_config_def sample_lease_env_def trimmed_text_def max_safe_def)
  have "pred_option (\<lambda>t. 0 < t) (Some (100::int))" by simp
  from granted_lease_acts [OF rest(1,2) read sample_normal rest(3) input this rest(4,5,6,7,8)] show ?thesis by (simp only: option.distinct if_False) blast
qed

section \<open>An adopted history\<close>

text \<open>Two states under one adopted cohort, the second with a new lease.\<close>

definition sample_retired :: lease where
  "sample_retired = revoke_lease ''r'' (sample_lease ''t'' 10 1)"

definition sample_cohort :: cohort where
  "sample_cohort = \<lparr>co_format = legacy_cohort_format, co_source = ''s'', co_floor = 2, co_ids = [ls_id (sample_lease ''t'' 10 1)], co_digest = ''h''\<rparr>"

definition sample_adoption :: adoption where
  "sample_adoption = \<lparr>ad_format = legacy_adoption_format, ad_source = ''s'', ad_prepared = ''p'', ad_cohort = sample_cohort\<rparr>"

definition sample_digest_env :: lease_env where
  "sample_digest_env = sample_lease_env\<lparr>le_sha := (\<lambda>_. ''h'')\<rparr>"

definition sample_adopted :: "lease list \<Rightarrow> lease_state" where
  "sample_adopted ls = \<lparr>dl_counter = 3, dl_leases = ls @ [sample_retired], dl_lock = Some ''i'', dl_cohort = Some sample_cohort\<rparr>"

lemma legacy_code_obj_length:
  "length (legacy_code dec (JObj kvs)) = 4 + length (nat_str (length kvs)) + sum_list (map (\<lambda>(k, v). length (text_code k) + length (legacy_code dec v)) kvs)"
proof -
  have sorted: "length (concat (map g (sort_key f xs))) = sum_list (map (length \<circ> g) xs)" for g :: "string \<times> json \<Rightarrow> string" and f :: "string \<times> json \<Rightarrow> string" and xs
  proof -
    have "mset (map (length \<circ> g) (sort_key f xs)) = mset (map (length \<circ> g) xs)" by simp
    then show ?thesis by (metis length_concat map_map sum_mset_sum_list)
  qed
  have "length (legacy_code dec (JObj kvs)) = 4 + length (nat_str (length kvs)) + length (concat (map (\<lambda>(k, v). text_code k @ legacy_code dec v) (sort_key (legacy_utf8 \<circ> fst) kvs)))"
    unfolding legacy_code_obj by simp
  then show ?thesis unfolding sorted by (simp add: comp_def case_prod_unfold)
qed

lemma utf8_literal: "length (legacy_utf8 []) = 0" "length (legacy_utf8 (c # s)) = (if (of_char c :: nat) < 128 then 1 else 2) + length (legacy_utf8 s)"
  by (simp_all add: legacy_utf8_def utf8_char_def Let_def)

lemma text_literal: "length (text_code s) = 2 + length (nat_str (length (legacy_utf8 s))) + length (legacy_utf8 s)"
  by (simp add: text_code_def)

lemma sample_lease_coded:
  "length (legacy_code Map.empty (lease_json sample_retired)) \<le> 2000"
  "length (legacy_code Map.empty (lease_json (sample_lease ''n'' 120 3))) \<le> 2000"
  unfolding lease_json_def legacy_code_obj_length
  by (simp_all add: sample_retired_def revoke_lease_def sample_lease_def sample_times jstr_opt_def text_literal utf8_literal nat_str.simps
      number_hex_def double_hex_def given_hex_def max_safe_def lease_active_def legacy_code_obj_length del: legacy_code.simps(7))

lemma lease_json_coded:
  "numbers_coded dec (lease_json l) \<longleftrightarrow> numbers_coded dec (ls_metadata l) \<and> \<bar>ls_version l\<bar> \<le> max_safe"
  "ls_metadata l = JObj [] \<Longrightarrow> legacy_nodes (lease_json l) = 37" "ls_metadata l = JObj [] \<Longrightarrow> legacy_depth (lease_json l) = 1"
proof -
  have opt: "numbers_coded dec (jstr_opt x)" "legacy_nodes (jstr_opt x) = 1" "legacy_depth (jstr_opt x) = 0" for x dec
    by (simp_all add: jstr_opt_def split: option.split)
  show "numbers_coded dec (lease_json l) \<longleftrightarrow> numbers_coded dec (ls_metadata l) \<and> \<bar>ls_version l\<bar> \<le> max_safe"
    by (simp add: lease_json_def opt number_hex_def)
  assume "ls_metadata l = JObj []"
  then show "legacy_nodes (lease_json l) = 37" "legacy_depth (lease_json l) = 1" by (simp_all add: lease_json_def opt)
qed

lemma sample_metadata: "ls_metadata sample_retired = JObj []" "ls_metadata (sample_lease x t v) = JObj []"
    "ls_version sample_retired = 1" "ls_version (sample_lease x t v) = v"
  by (simp_all add: sample_retired_def revoke_lease_def sample_lease_def)

lemma sample_coded:
  "ls = [] \<or> ls = [sample_lease ''n'' 120 3] \<Longrightarrow> canonical_legacy_bytes Map.empty (state_json (sample_adopted ls)) \<noteq> None"
  "canonical_legacy_bytes Map.empty (cohort_json sample_cohort) \<noteq> None"
  "canonical_legacy_bytes Map.empty (cohort_document sample_cohort [sample_retired]) \<noteq> None"
proof -
  have cohort: "length (legacy_code Map.empty (cohort_json sample_cohort)) \<le> 500" "numbers_coded Map.empty (cohort_json sample_cohort)"
    "legacy_nodes (cohort_json sample_cohort) = 12" "legacy_depth (cohort_json sample_cohort) = 2"
    unfolding cohort_json_def legacy_code_obj_length
    by (simp_all add: sample_cohort_def legacy_cohort_format_def text_literal utf8_literal nat_str.simps number_hex_def double_hex_def
        given_hex_def max_safe_def sample_lease_def sample_times del: legacy_code.simps(7))
  then show "canonical_legacy_bytes Map.empty (cohort_json sample_cohort) \<noteq> None"
    by (simp add: canonical_legacy_bytes_def max_legacy_bytes_def)
  show "canonical_legacy_bytes Map.empty (cohort_document sample_cohort [sample_retired]) \<noteq> None"
    using sample_lease_coded(1) unfolding canonical_legacy_bytes_def cohort_document_def legacy_code_obj_length
    by (simp add: sample_cohort_def legacy_cohort_format_def text_literal utf8_literal nat_str.simps number_hex_def double_hex_def given_hex_def max_safe_def
        max_legacy_bytes_def lease_json_coded sample_metadata del: legacy_code.simps(7))
  have state: "state_json (sample_adopted ls) = JObj [(''fencingCounter'', JNum 3), (''desktopLeases'', JArr (map lease_json (ls @ [sample_retired]))),
      (''legacyRetiredCohort'', cohort_json sample_cohort), (''lockIdentity'', JStr ''i'')]"
    by (simp add: state_json_def sample_adopted_def)
  show "canonical_legacy_bytes Map.empty (state_json (sample_adopted ls)) \<noteq> None" if "ls = [] \<or> ls = [sample_lease ''n'' 120 3]"
    using that
  proof (elim disjE)
    assume ls: "ls = []"
    show ?thesis
      using cohort sample_lease_coded unfolding canonical_legacy_bytes_def state legacy_code_obj_length unfolding ls
      by (simp add: text_literal utf8_literal nat_str.simps number_hex_def double_hex_def given_hex_def max_safe_def
        max_legacy_bytes_def lease_json_coded sample_metadata del: legacy_code.simps(7))
  next
    assume ls: "ls = [sample_lease ''n'' 120 3]"
    show ?thesis
      using cohort sample_lease_coded unfolding canonical_legacy_bytes_def state legacy_code_obj_length unfolding ls
      by (simp add: text_literal utf8_literal nat_str.simps number_hex_def double_hex_def given_hex_def max_safe_def
        max_legacy_bytes_def lease_json_coded sample_metadata del: legacy_code.simps(7))
  qed
qed

lemma sample_adopted_valid:
  assumes "ls = [] \<or> ls = [sample_lease ''n'' 120 3]"
  shows "validate_legacy_cohort sample_digest_env (sample_adopted ls) (Some sample_adoption) = Inr [ls_id (sample_lease ''t'' 10 1)]"
proof -
  have records: "retired_records sample_cohort (sample_adopted ls) = [sample_retired]"
    using assms by (auto simp: retired_records_def sample_cohort_def sample_adopted_def sample_retired_def revoke_lease_def sample_lease_def)
  have cohort: "ad_cohort sample_adoption = sample_cohort" "dl_cohort (sample_adopted ls) = Some sample_cohort" "co_floor sample_cohort = 2"
      "co_ids sample_cohort = [ls_id (sample_lease ''t'' 10 1)]" "co_digest sample_cohort = ''h''" "dl_counter (sample_adopted ls) = 3"
      "\<not> lease_active sample_retired"
    by (simp_all add: sample_adoption_def sample_adopted_def sample_cohort_def) (simp add: sample_retired_def revoke_lease_def lease_active_def sample_lease_def)
  have env: "le_dec sample_digest_env = Map.empty" "le_sha sample_digest_env x = ''h''" for x
    by (simp_all add: sample_digest_env_def sample_lease_env_def)
  show ?thesis
    using sample_coded(1) [OF assms] sample_coded(2,3)
    by (simp add: validate_legacy_cohort_def cohort records env cohort_digest_def sample_metadata Let_def split: option.split)
qed

theorem retired_history_fixed_witness:
  "validate_legacy_cohort sample_digest_env (sample_adopted [sample_lease ''n'' 120 3]) (Some sample_adoption) \<noteq> Inl adoption_invalid
   \<and> (map (key_sorted \<circ> lease_json) (sort_key (legacy_utf8 \<circ> ls_id) (retired_records sample_cohort (sample_adopted [])))
     = map (key_sorted \<circ> lease_json) (sort_key (legacy_utf8 \<circ> ls_id) (retired_records sample_cohort (sample_adopted [sample_lease ''n'' 120 3])))
    \<or> (\<exists>x y. x \<noteq> y \<and> le_sha sample_digest_env x = le_sha sample_digest_env y))"
proof -
  have dec: "decimal_codes (le_dec sample_digest_env)" by (simp add: decimal_codes_def sample_digest_env_def sample_lease_env_def)
  have valid: "validate_legacy_cohort sample_digest_env (sample_adopted []) (Some sample_adoption) = Inr [ls_id (sample_lease ''t'' 10 1)]"
    "validate_legacy_cohort sample_digest_env (sample_adopted [sample_lease ''n'' 120 3]) (Some sample_adoption) = Inr [ls_id (sample_lease ''t'' 10 1)]"
    using sample_adopted_valid by blast+
  have "ad_cohort sample_adoption = sample_cohort" by (simp add: sample_adoption_def)
  with retired_history_fixed [OF dec valid] valid(2) show ?thesis by auto
qed

end
