(* ===== verification/ResourceSamples.thy ===== *)
theory ResourceSamples
  imports ResourceCalls LeaseSamples
begin

text \<open>
  Concrete policies for the properties of the thread resources: a root thread with a grant on a desktop,
  a child under a captured ceiling, and a bearer.
\<close>

section \<open>A policy\<close>

definition sample_policy_env :: policy_env where
  "sample_policy_env = \<lparr>pe_parse = (\<lambda>s. if s = ''i'' then Some 0 else if s = ''e'' then Some 1000 else None), pe_json = (\<lambda>_. None),
     pe_boundary = ''b'', pe_admin = ''u'', pe_mode = (\<lambda>_. ''enforce''), pe_write_mode = (\<lambda>_. ''unified''), pe_desktop_enforced = [],
     pe_bindings = [], pe_auth_window = None, pe_glass_ttl = None\<rparr>"

definition sample_life :: thread_life where
  "sample_life = \<lparr>tl_lifecycle = [], tl_retired = False, tl_archived = False, tl_retired_at = [], tl_state = []\<rparr>"

definition sample_root :: policy_thread where
  "sample_root = \<lparr>pt_id = ''r'', pt_name = [], pt_binding = [], pt_parent = [], pt_owner = ''u'', pt_scopes = [], pt_desktop_scopes = [],
     pt_life = sample_life\<rparr>"

definition sample_child :: policy_thread where
  "sample_child = \<lparr>pt_id = ''c'', pt_name = [], pt_binding = [], pt_parent = ''r'', pt_owner = ''u'', pt_scopes = [], pt_desktop_scopes = [],
     pt_life = sample_life\<rparr>"

definition sample_threads :: "policy_thread list" where
  "sample_threads = [sample_root, sample_child]"

definition sample_resource :: resource where
  "sample_resource = \<lparr>rs_id = ''b:u:d'', rs_native = ''d'', rs_type = ''desktop'', rs_key = ''d'', rs_owner = ''u'', rs_boundary = ''b'',
     rs_generation = 1, rs_status = ''active'', rs_backend = ''desktop'', rs_created = ''x'', rs_updated = ''x'', rs_retired = None\<rparr>"

definition sample_root_grant :: grant where
  "sample_root_grant = \<lparr>gr_id = ''g'', gr_thread = ''r'', gr_type = ''desktop'', gr_resource = ''b:u:d'', gr_key = ''d'', gr_owner = ''u'',
     gr_boundary = ''b'', gr_permissions = [''acquire''], gr_revision = 1, gr_source = ''x'', gr_created = ''x'', gr_updated = ''x'',
     gr_expires = None, gr_revoked = None, gr_revoked_by = None, gr_reason = None\<rparr>"

definition sample_thread_policy :: thread_policy where
  "sample_thread_policy = \<lparr>pl_thread = ''r'', pl_type = ''desktop'', pl_revision = 1, pl_empty = False, pl_mode = ''explicit'',
     pl_snapshot = 0, pl_created = ''x'', pl_updated = ''x''\<rparr>"

definition sample_ceiling :: ceiling where
  "sample_ceiling = \<lparr>cl_thread = ''c'', cl_type = ''desktop'', cl_resource = ''b:u:d'', cl_permissions = [''acquire''], cl_parent = ''r'',
     cl_created = ''x''\<rparr>"

definition sample_target :: connector_target where
  "sample_target = \<lparr>ct_service = ''x'', ct_account = [], ct_conversation = [], ct_binding = [], ct_thread = [], ct_operation = [],
     ct_tool = ''x'', ct_action = ''x''\<rparr>"

definition sample_bearer :: bearer where
  "sample_bearer = \<lparr>br_jti = ''j'', br_token = ''k'', br_hash = ''h'', br_audience = mcp_audience, br_issued = ''i'', br_expires = ''e''\<rparr>"

definition sample_holder :: bearer_holder where
  "sample_holder = \<lparr>bh_scopes = [], bh_kind = ''x'', bh_principal = [], bh_owner = ''u'', bh_instance = [], bh_account = [], bh_service = []\<rparr>"

text \<open>A bearer of another thread, for another desktop.\<close>

definition sample_session :: resource_session where
  "sample_session = \<lparr>ss_id = ''s'', ss_bearer = sample_bearer\<lparr>br_jti := ''o'', br_hash := ''o''\<rparr>, ss_holder = sample_holder, ss_type = ''desktop'',
     ss_resource = ''o'', ss_actions = [''acquire''], ss_target = sample_target, ss_thread = ''o'', ss_grant_thread = ''o'', ss_root = ''o'',
     ss_boundary = ''b'', ss_policy = 1, ss_grant = 1, ss_generation = 1, ss_state = ''active'', ss_epoch = 1, ss_used = None,
     ss_created = ''x'', ss_updated = ''x'', ss_invalidated = None, ss_reason = None\<rparr>"

definition sample_policy :: "ceiling list \<Rightarrow> policy_state" where
  "sample_policy cs = \<lparr>ps_revision = 1, ps_resources = [sample_resource], ps_grants = [sample_root_grant], ps_policies = [sample_thread_policy],
     ps_ceilings = cs, ps_mutations = [], ps_deliveries = [], ps_sessions = [sample_session], ps_audit = [], ps_updated = None\<rparr>"

lemmas sample_row_defs = sample_resource_def sample_root_grant_def sample_thread_policy_def sample_ceiling_def sample_target_def
  sample_bearer_def sample_holder_def sample_session_def

section \<open>Its normal form\<close>

lemma trim_words [simp]:
  "str_trim ''r'' = ''r''" "str_trim ''c'' = ''c''" "str_trim ''x'' = ''x''" "str_trim ''g'' = ''g''" "str_trim ''i'' = ''i''"
  "str_trim ''e'' = ''e''" "str_trim ''j'' = ''j''" "str_trim ''k'' = ''k''" "str_trim ''h'' = ''h''" "str_trim ''o'' = ''o''"
  "str_trim ''s'' = ''s''" "str_trim ''b'' = ''b''" "str_trim ''b:u:d'' = ''b:u:d''" "str_trim ''desktop'' = ''desktop''"
  "str_trim mcp_audience = mcp_audience"
  by code_simp+

lemma lower_words [simp]:
  "clean_lower ''acquire'' = ''acquire''" "clean_lower ''active'' = ''active''" "clean_lower ''explicit'' = ''explicit''"
  "clean_lower ''enforce'' = ''enforce''" "clean_lower ''unified'' = ''unified''" "clean_lower ''x'' = ''x''" "clean_lower ''desktop'' = ''desktop''"
  by code_simp+

lemma type_word [simp]: "normalize_resource_type ''desktop'' = ''desktop''"
  by (rule normal_words)

lemma segment_chars [simp]: "segment_char (CHR ''d'')" "segment_char (CHR ''b'')" "to_lower ''d'' = ''d''" "to_lower ''b'' = ''b''"
  by code_simp+

lemma segments [simp]: "safe_segment ''d'' f = ''d''" "safe_segment ''b'' f = ''b''"
  by (simp_all add: safe_segment_def trim_dashes_def or_default_def)

lemma sample_environment [simp]:
  "resource_boundary_id sample_policy_env = ''b''" "boundary_of ''b'' = ''b''" "owner_of sample_policy_env ''u'' = ''u''" "access_mode sample_policy_env ''desktop'' = ''enforce''"
  "access_mode_for sample_policy_env ''desktop'' t i = ''enforce''" "write_mode sample_policy_env t = ''unified''"
  by (simp_all add: resource_boundary_id_def boundary_of_def owner_of_def access_mode_def access_mode_for_def write_mode_def sample_policy_env_def or_default_def Let_def)

lemma sample_identity [simp]: "thread_resource_id sample_policy_env ''b'' ''desktop'' ''d'' ''u'' = ''b:u:d''"
  by (simp add: thread_resource_id_def)

lemma sample_permissions [simp]: "normalize_permissions_of ''desktop'' [''acquire''] = [''acquire'']" "permission_for ''desktop'' ''acquire'' = ''acquire''"
  by (simp_all add: normalize_permissions_of_def distinct_first_def permission_for_def resource_permissions_def Let_def)

lemma sample_rows [simp]:
  "normalize_resource sample_policy_env now (resource_raw sample_resource) = Some sample_resource"
  "normalize_grant sample_policy_env now uuid sample_root_grant = Some sample_root_grant"
  "normalize_policy now sample_thread_policy = sample_thread_policy"
  "normalize_ceiling now sample_ceiling = sample_ceiling"
  "normalize_session now sample_session = sample_session" "session_usable sample_session"
  by (simp_all add: normalize_resource_def resource_raw_def sample_row_defs given_text_def or_default_def none_if_blank_def at_least_one_def
      resource_status_def Let_def normalize_grant_def normalize_policy_def normalize_ceiling_def normalize_session_def normalize_bearer_def
      normalize_holder_def normalize_target_def session_usable_def starts_with_def)

lemma sample_rebound [simp]:
  "rebound_grant [sample_resource] sample_root_grant = sample_root_grant" "rebound_ceiling [sample_resource] sample_ceiling = sample_ceiling"
  by (simp_all add: rebound_grant_def resource_for_def rebound_ceiling_def sample_row_defs)

lemma sample_row_fields [simp]:
  "pl_thread sample_thread_policy = ''r''" "pl_type sample_thread_policy = ''desktop''" "cl_thread sample_ceiling = ''c''"
  "cl_type sample_ceiling = ''desktop''" "cl_resource sample_ceiling = ''b:u:d''" "cl_parent sample_ceiling = ''r''"
  by (simp_all add: sample_row_defs)

lemma sample_policy_normal [simp]:
  "normalize_policy_state sample_policy_env now uuid (sample_policy []) = sample_policy []"
  "normalize_policy_state sample_policy_env now uuid (sample_policy [sample_ceiling]) = sample_policy [sample_ceiling]"
  by (simp_all add: normalize_policy_state_def sample_policy_def Let_def map_filter_def none_if_blank_def given_text_def)

section \<open>Grants\<close>

lemma sample_thread_fields [simp]:
  "pt_id sample_root = ''r''" "pt_id sample_child = ''c''" "pt_parent sample_root = []" "pt_parent sample_child = ''r''"
  "pt_owner sample_root = ''u''" "pt_owner sample_child = ''u''" "pt_life sample_root = sample_life" "pt_life sample_child = sample_life"
  "pt_scopes sample_child = []" "pt_desktop_scopes sample_child = []"
  by (simp_all add: sample_root_def sample_child_def)

lemma sample_lookup [simp]:
  "get_thread sample_threads ''r'' = Some sample_root" "get_thread sample_threads ''c'' = Some sample_child"
  "thread_by_id sample_threads [] = None" "thread_by_id sample_threads ''r'' = Some sample_root" "thread_by_id sample_threads ''c'' = Some sample_child"
  by (simp_all add: get_thread_def thread_by_id_def sample_threads_def)

lemma sample_parents: "parents_by_id sample_threads"
  by (simp add: parents_by_id_def sample_threads_def get_thread_def thread_by_id_def)

lemma sample_resource_fields [simp]:
  "rs_id sample_resource = ''b:u:d''" "rs_native sample_resource = ''d''" "rs_type sample_resource = ''desktop''" "rs_key sample_resource = ''d''"
  "rs_owner sample_resource = ''u''" "rs_boundary sample_resource = ''b''" "rs_generation sample_resource = 1" "rs_status sample_resource = ''active''"
  "rs_retired sample_resource = None"
  by (simp_all add: sample_resource_def)

lemma sample_policy_fields [simp]:
  "ps_revision (sample_policy cs) = 1" "ps_resources (sample_policy cs) = [sample_resource]" "ps_grants (sample_policy cs) = [sample_root_grant]"
  "ps_policies (sample_policy cs) = [sample_thread_policy]" "ps_ceilings (sample_policy cs) = cs" "ps_sessions (sample_policy cs) = [sample_session]"
  "ps_mutations (sample_policy cs) = []"
  by (simp_all add: sample_policy_def)

abbreviation sample_asked :: "string \<Rightarrow> resource" where
  "sample_asked now \<equiv> sample_resource\<lparr>rs_created := now, rs_updated := now\<rparr>"

lemma sample_granted:
  assumes "r = sample_resource \<or> r = sample_asked a"
  shows "direct_grant sample_policy_env now (sample_policy cs) ''r'' r ''acquire'' = Some sample_root_grant"
  by (rule disjE [OF assms]) (simp_all add: direct_grant_def direct_grants_def grant_is_current_def given_text_def sample_root_grant_def)

lemma sample_effective:
  assumes "r = sample_resource \<or> r = sample_asked a"
  shows "\<exists>e. effective_grant sample_policy_env now sample_threads (sample_policy [sample_ceiling]) r ''acquire'' [] sample_child = Inr (Some e)
    \<and> ef_grant e = sample_root_grant"
proof -
  have "is_narrowed sample_policy_env now (sample_policy [sample_ceiling]) sample_child r = Inr False"
    by (rule disjE [OF assms]) (simp_all add: is_narrowed_def policy_of_def declared_child_scope_entries_def sample_root_grant_def)
  moreover have "ceiling_allows (sample_policy [sample_ceiling]) ''c'' r ''acquire''"
    by (rule disjE [OF assms]) (simp_all add: ceiling_allows_def ceiling_of_def sample_ceiling_def)
  moreover have "\<not> explicit_empty (sample_policy [sample_ceiling]) ''c'' t" for t by (simp add: explicit_empty_def policy_of_def)
  moreover have "effective_grant sample_policy_env now sample_threads (sample_policy [sample_ceiling]) r ''acquire'' [''c''] sample_root
      = Inr (Some \<lparr>ef_grant = sample_root_grant, ef_expires = None, ef_by = [], ef_from = []\<rparr>)"
    by (simp add: effective_grant.simps sample_granted [OF assms])
  ultimately show ?thesis by (subst effective_grant.simps) (simp add: sample_granted [OF assms])
qed

definition sample_access :: "string \<Rightarrow> access_request" where
  "sample_access thread = \<lparr>rq_type = ''desktop'', rq_principal = None, rq_thread = thread, rq_owner = ''u'', rq_resource = [], rq_key = ''d'',
     rq_boundary = ''b'', rq_generation = 1, rq_permission = ''acquire'', rq_glass = False, rq_reason = [], rq_change = []\<rparr>"

lemma sample_requested: "requested_resource sample_policy_env now sample_threads (sample_access t) = Some (sample_asked (iso_string now))"
  by (simp add: requested_resource_def sample_access_def requested_owner_def normalize_resource_def resource_status_def at_least_one_def
      none_if_blank_def starts_with_def or_default_def Let_def sample_resource_def)

lemma sample_base:
  "dn_permission (decision_base sample_policy_env now sample_threads (sample_access t)) = ''acquire''"
  "dn_boundary (decision_base sample_policy_env now sample_threads (sample_access t)) = ''b''"
  "dn_mode (decision_base sample_policy_env now sample_threads (sample_access t)) = ''enforce''"
  "dn_type (decision_base sample_policy_env now sample_threads (sample_access t)) = ''desktop''"
  "dn_thread (decision_base sample_policy_env now sample_threads (sample_access t)) = str_trim t"
  by (simp_all add: decision_base_def Let_def sample_requested) (simp_all add: sample_access_def)

lemma sample_allowed:
  "\<exists>d. evaluate_access sample_policy_env 10 [] sample_threads (sample_policy [sample_ceiling]) (sample_access ''c'') = Inr d \<and> dn_allowed d"
proof -
  obtain e where e: "effective_grant sample_policy_env 10 sample_threads (sample_policy [sample_ceiling]) (sample_asked (iso_string 10)) ''acquire'' [] sample_child
      = Inr (Some e)"
    using sample_effective by blast
  have request: "request_thread sample_threads (sample_access ''c'') = Some sample_child" "rq_principal (sample_access ''c'') = None"
      "rq_thread (sample_access ''c'') = ''c''" "rq_type (sample_access ''c'') = ''desktop''" "\<not> rq_glass (sample_access ''c'')"
    by (simp_all add: request_thread_def sample_access_def)
  have owner: "requested_owner sample_policy_env sample_threads (sample_access ''c'') = ''u''"
    by (simp add: requested_owner_def sample_access_def or_default_def)
  have stored: "stored_resource (sample_policy [sample_ceiling]) (sample_asked a) = Some (sample_resource, sample_asked a)" for a
    by (simp add: stored_resource_def)
  show ?thesis
    by (simp add: evaluate_access_def Let_def sample_base sample_requested stored stored_decision_def request owner thread_owner_def
        or_default_def given_text_def grant_decision_def e)
qed

theorem enforced_access_sound_witness:
  "\<exists>d r x t. evaluate_access sample_policy_env 10 [] sample_threads (sample_policy [sample_ceiling]) (sample_access ''c'') = Inr d \<and> dn_allowed d
     \<and> stands_for x r \<and> dn_resource d = rs_id x
     \<and> access_backed sample_policy_env 10 sample_threads (sample_policy [sample_ceiling]) (sample_access ''c'') x t (dn_glass d)"
proof -
  obtain d where d: "evaluate_access sample_policy_env 10 [] sample_threads (sample_policy [sample_ceiling]) (sample_access ''c'') = Inr d" "dn_allowed d"
    using sample_allowed by blast
  from enforced_access_sound [OF this sample_base(3)] d show ?thesis unfolding sample_policy_normal by blast
qed

theorem snapshot_agrees_witness:
  "map_option ef_grant (effective_from_snapshot sample_policy_env 10 sample_threads (sample_policy [sample_ceiling]) ''c'' ''desktop'' ''b:u:d'' ''acquire'')
   = Some sample_root_grant"
proof -
  have "find (\<lambda>r. rs_type r = normalize_resource_type ''desktop'' \<and> rs_id r = str_trim ''b:u:d'') (ps_resources (sample_policy [sample_ceiling])) = Some sample_resource"
    "thread_by_id sample_threads (str_trim ''c'') = Some sample_child" by simp_all
  moreover obtain e where "effective_grant sample_policy_env 10 sample_threads (sample_policy [sample_ceiling]) sample_resource ''acquire'' [] sample_child = Inr (Some e)"
      "ef_grant e = sample_root_grant"
    using sample_effective by blast
  ultimately show ?thesis
    using snapshot_agrees [OF sample_parents, of "''c''" sample_child "''desktop''" "''b:u:d''" "sample_policy [sample_ceiling]" sample_resource "''acquire''"
        sample_policy_env 10] by (simp add: given_text_def)
qed

section \<open>Revoking\<close>

definition sample_admin :: access_principal where
  "sample_admin = \<lparr>ap_user = ''u'', ap_admin = True, ap_auth = ''i''\<rparr>"

definition sample_options :: grant_options where
  "sample_options = \<lparr>go_key = [], go_expected = None, go_source = [], go_reason = [], go_expires = None\<rparr>"

lemma sample_session_fields [simp]:
  "ss_type sample_session = ''desktop''" "ss_thread sample_session = ''o''" "ss_grant_thread sample_session = ''o''"
  "ss_resource sample_session = ''o''" "ss_state sample_session = ''active''" "br_jti (ss_bearer sample_session) = ''o''"
  "br_hash (ss_bearer sample_session) = ''o''" "br_expires (ss_bearer sample_session) = ''e''"
  by (simp_all add: sample_session_def sample_bearer_def)

lemma sample_revoked:
  "\<exists>pol st'. set_thread_resource_grants sample_policy_env 5 [] (\<lambda>_. []) sample_threads (Some sample_admin) ''r'' ''desktop'' [] sample_options
      (sample_policy [sample_ceiling]) = (Inr (([], pol, False), 2), st') \<and> ps_resources st' = [sample_resource] \<and> ps_sessions st' = [sample_session]"
proof -
  have unified: "require_unified sample_policy_env ''desktop'' = None" by (simp add: require_unified_def)
  have admin: "request_admin (Some sample_admin)" by (simp add: request_admin_def sample_admin_def)
  have affected: "affected_resources ''r'' ''desktop'' (sample_policy cs) = [''b:u:d'']" for cs
    by (simp add: affected_resources_def sample_root_grant_def given_text_def)
  have "\<not> grants_session sample_threads ''r'' ''desktop'' [''b:u:d''] sample_session" by (simp add: grants_session_def)
  then show ?thesis
    by (simp add: set_thread_resource_grants_def Let_def unified admin mutate_policy_def replace_grants_def prior_mutation_def sample_options_def
        entry_map_def affected record_mutation_def invalidate_sessions_def put_policy_def revoke_grants_def)
qed

lemma kept_resource: "ps_resources st = [sample_resource] \<Longrightarrow> ps_resources (normalize_policy_state sample_policy_env now uuid st) = [sample_resource]"
  by (simp add: normalize_policy_state_def Let_def map_filter_def)

definition sample_glass :: access_request where
  "sample_glass = (sample_access ''c'')\<lparr>rq_principal := Some sample_admin, rq_glass := True, rq_reason := ''x'', rq_change := ''x''\<rparr>"

lemma sample_glass_fields [simp]:
  "request_thread sample_threads sample_glass = Some sample_child" "rq_type sample_glass = ''desktop''"
  "rq_principal sample_glass = Some sample_admin" "rq_thread sample_glass = ''c''" "rq_glass sample_glass" "rq_reason sample_glass = ''x''"
  "rq_change sample_glass = ''x''" "requested_owner sample_policy_env sample_threads sample_glass = ''u''"
  by (simp_all add: request_thread_def sample_glass_def sample_access_def requested_owner_def or_default_def)

lemma sample_glass_requested: "requested_resource sample_policy_env now sample_threads sample_glass = Some (sample_asked (iso_string now))"
proof -
  have "requested_resource sample_policy_env now sample_threads sample_glass = requested_resource sample_policy_env now sample_threads (sample_access ''c'')"
    by (simp add: requested_resource_def) (simp add: sample_glass_def sample_access_def requested_owner_def or_default_def)
  then show ?thesis by (simp add: sample_requested)
qed

lemma sample_glass_base:
  "dn_permission (decision_base sample_policy_env now sample_threads sample_glass) = ''acquire''"
  "dn_boundary (decision_base sample_policy_env now sample_threads sample_glass) = ''b''"
  "dn_mode (decision_base sample_policy_env now sample_threads sample_glass) = ''enforce''"
  "dn_type (decision_base sample_policy_env now sample_threads sample_glass) = ''desktop''"
  by (simp_all add: decision_base_def Let_def sample_glass_requested) (simp_all add: sample_glass_def sample_access_def)

lemma sample_glass_allowed:
  assumes "ps_resources st = [sample_resource]"
  shows "\<exists>d. evaluate_access sample_policy_env 10 [] sample_threads st sample_glass = Inr d \<and> dn_allowed d"
proof -
  have stored: "stored_resource (normalize_policy_state sample_policy_env now uuid st) (sample_asked a) = Some (sample_resource, sample_asked a)" for a now uuid
    using kept_resource [OF assms] by (simp add: stored_resource_def)
  have admin: "can_access_owner sample_policy_env sample_admin ''u''" "request_admin (Some sample_admin)"
      "recent_auth sample_policy_env 10 (Some sample_admin)"
    by (simp_all add: can_access_owner_def request_admin_def sample_admin_def recent_auth_def window_ms_def sample_policy_env_def)
  show ?thesis
    by (simp add: evaluate_access_def Let_def sample_glass_base sample_glass_requested stored stored_decision_def thread_owner_def or_default_def
        given_text_def admin glass_decision_def)
qed

theorem revoked_cuts_off_witness:
  "\<exists>pol st' d. set_thread_resource_grants sample_policy_env 5 [] (\<lambda>_. []) sample_threads (Some sample_admin) ''r'' ''desktop'' [] sample_options
      (sample_policy [sample_ceiling]) = (Inr (([], pol, False), 2), st')
     \<and> evaluate_access sample_policy_env 10 [] sample_threads st' sample_glass = Inr d \<and> dn_allowed d \<and> dn_glass d"
proof -
  obtain pol st' where revoked: "set_thread_resource_grants sample_policy_env 5 [] (\<lambda>_. []) sample_threads (Some sample_admin) ''r'' ''desktop'' []
      sample_options (sample_policy [sample_ceiling]) = (Inr (([], pol, False), 2), st')" "ps_resources st' = [sample_resource]"
    using sample_revoked by blast
  obtain d where d: "evaluate_access sample_policy_env 10 [] sample_threads st' sample_glass = Inr d" "dn_allowed d"
    using sample_glass_allowed [OF revoked(2)] by blast
  have chain: "below sample_threads sample_root sample_child" by (rule below.Child [OF _ _ below.Self]) simp_all
  have "get_thread sample_threads ''r'' = Some sample_root" "trimmed_text (pt_id sample_root)" by (simp_all add: trimmed_text_def)
  from revoked_cuts_off [OF revoked(1) this d sample_glass_base(3) _ chain] revoked(1) d show ?thesis by simp
qed

theorem replaced_grant_ends_bearers_witness:
  "\<exists>pol st'. set_thread_resource_grants sample_policy_env 5 [] (\<lambda>_. []) sample_threads (Some sample_admin) ''r'' ''desktop'' [] sample_options
      (sample_policy [sample_ceiling]) = (Inr (([], pol, False), 2), st')
     \<and> authorize_issued_token sample_policy_env 20 [] (\<lambda>s. s) ''o'' st' = Some (issued_auth sample_session)
     \<and> au_thread (issued_auth sample_session) \<noteq> ''r''"
proof -
  obtain pol st' where revoked: "set_thread_resource_grants sample_policy_env 5 [] (\<lambda>_. []) sample_threads (Some sample_admin) ''r'' ''desktop'' []
      sample_options (sample_policy [sample_ceiling]) = (Inr (([], pol, False), 2), st')" "ps_sessions st' = [sample_session]"
    using sample_revoked by blast
  have found: "authorize_issued_token sample_policy_env 20 [] (\<lambda>s. s) ''o'' st' = Some (issued_auth sample_session)"
    using revoked(2) by (simp add: authorize_issued_token_def) (simp add: sample_policy_env_def)
  from replaced_grant_ends_bearers [OF revoked(1) _ found, of sample_root] revoked(1) found
  show ?thesis by (auto simp: issued_auth_def)
qed

section \<open>Capturing\<close>

lemma sample_lineage [simp]: "thread_lineage sample_threads [] sample_root = [sample_root]"
  by (simp add: thread_lineage.simps)

lemma sample_scopes [simp]: "declared_scopes env now sample_child resource_types = Inr [(''desktop'', []), (''oxrm'', []), (''mailbox'', [])]"
  by (simp add: resource_types_def declared_child_scope_entries_def)

lemma fold_snapshot_revision: "ps_revision (fold (snapshot_policy now child gs) ts st) = ps_revision st"
  by (induction ts arbitrary: st) (simp_all add: snapshot_policy_def put_policy_def Let_def)

lemma sample_captured:
  "\<exists>st'. capture_child_ceiling sample_policy_env 10 [] (\<lambda>_. []) sample_threads sample_child (sample_policy []) = (Inr (Some (1, 2)), st')
     \<and> ps_ceilings st' = [sample_ceiling\<lparr>cl_created := iso_string 10\<rparr>]"
proof -
  have candidates: "capture_candidates sample_policy_env 10 [sample_root] (sample_policy []) = [sample_resource]"
    by (simp add: capture_candidates_def grant_is_current_def sample_root_grant_def given_text_def find_resource_def map_filter_def distinct_first_def)
  have held: "effective_for_lineage sample_policy_env 10 (sample_policy []) sample_resource p [sample_root]
      = Inr (if p = ''acquire'' then Some \<lparr>ef_grant = sample_root_grant, ef_expires = earliest_expiry sample_policy_env [None], ef_by = [], ef_from = []\<rparr> else None)" for p
    by (simp add: lineage_root_def direct_grant_def direct_grants_def grant_is_current_def sample_root_grant_def given_text_def)
  have none: "earliest_expiry sample_policy_env [None] = None" "gr_expires sample_root_grant = None"
    by (simp_all add: earliest_expiry_def parsed_times_def given_text_def map_filter_def sample_root_grant_def)
  have all: "capture_all sample_policy_env 10 (\<lambda>_. []) (sample_policy []) [sample_root] ''c'' ''r'' [(''desktop'', []), (''oxrm'', []), (''mailbox'', [])] 0 [sample_resource]
      = Inr ([sample_ceiling\<lparr>cl_created := iso_string 10\<rparr>], [])"
    by (simp add: scope_of_type_def resource_permissions_def held none given_text_def sample_ceiling_def del: effective_for_lineage.simps)
  have fresh: "\<not> snapshot_recorded ''c'' (sample_policy [])" by (simp add: snapshot_recorded_def resource_types_def)
  show ?thesis
    by (simp add: capture_child_ceiling_def mutate_policy_def capture_ceiling_def Let_def fresh candidates all fold_snapshot_frame fold_snapshot_revision del: capture_all.simps)
qed

theorem captured_within_parent_witness:
  "\<exists>st'. capture_child_ceiling sample_policy_env 10 [] (\<lambda>_. []) sample_threads sample_child (sample_policy []) = (Inr (Some (1, 2)), st')
     \<and> holds sample_policy_env 10 sample_threads (sample_policy []) sample_resource ''acquire'' sample_root"
proof -
  obtain st' where st': "capture_child_ceiling sample_policy_env 10 [] (\<lambda>_. []) sample_threads sample_child (sample_policy []) = (Inr (Some (1, 2)), st')"
      "ps_ceilings st' = [sample_ceiling\<lparr>cl_created := iso_string 10\<rparr>]"
    using sample_captured by blast
  from captured_within_parent [OF st'(1), of sample_root "sample_ceiling\<lparr>cl_created := iso_string 10\<rparr>" "''acquire''"] st'
  show ?thesis by (simp add: sample_ceiling_def)
qed

text \<open>The grants of the root are revoked before the ceiling is captured again.\<close>

theorem ceiling_captured_once_witness:
  "\<exists>st'. capture_child_ceiling sample_policy_env 10 [] (\<lambda>_. []) sample_threads sample_child (sample_policy []) = (Inr (Some (1, 2)), st')
     \<and> (let revoked = snd (set_thread_resource_grants sample_policy_env 15 [] (\<lambda>_. []) sample_threads (Some sample_admin) ''r'' ''desktop'' [] sample_options st')
       in snd (capture_child_ceiling sample_policy_env 20 [] (\<lambda>_. []) sample_threads sample_child revoked) = revoked)"
proof -
  obtain st' where st': "capture_child_ceiling sample_policy_env 10 [] (\<lambda>_. []) sample_threads sample_child (sample_policy []) = (Inr (Some (1, 2)), st')"
    using sample_captured by blast
  let ?revoked = "snd (set_thread_resource_grants sample_policy_env 15 [] (\<lambda>_. []) sample_threads (Some sample_admin) ''r'' ''desktop'' [] sample_options st')"
  have step: "(policy_step (str_trim (pt_id sample_child)))\<^sup>*\<^sup>* st' ?revoked" by (rule r_into_rtranclp) (rule policy_step.Replace)
  have "distinct (map (\<lambda>p. (str_trim (pl_thread p), normalize_resource_type (pl_type p))) (ps_policies (sample_policy [])))" by simp
  from ceiling_captured_once [OF st' this step, of sample_threads sample_policy_env 20] st'
  show ?thesis by (auto simp: Let_def)
qed

section \<open>A call\<close>

definition sample_auth :: resource_auth where
  "sample_auth = \<lparr>au_holder = sample_holder, au_type = ''desktop'', au_resource = ''b:u:d'', au_actions = [''acquire''], au_target = sample_target,
     au_root = ''r'', au_thread = ''c'', au_boundary = ''b'', au_policy = 1, au_grant = 1, au_generation = 1, au_bearer = sample_bearer,
     au_operator = False\<rparr>"

definition sample_dispatch :: dispatch_target where
  "sample_dispatch = \<lparr>dt_target = sample_target, dt_type = ''desktop'', dt_resource = ''b:u:d'', dt_action = ''acquire'', dt_thread = ''c''\<rparr>"

lemma sample_claims [simp]: "claims_of sample_auth = sample_auth" "target_of sample_dispatch = sample_dispatch"
  by (simp_all add: claims_of_def sample_auth_def sample_holder_def sample_target_def sample_bearer_def normalize_holder_def normalize_target_def
      normalize_bearer_def sorted_actions_def target_of_def sample_dispatch_def or_default_def)

lemma sample_found:
  obtains e where "effective_from_snapshot sample_policy_env 10 sample_threads (sample_policy [sample_ceiling]) ''c'' ''desktop'' ''b:u:d'' ''acquire'' = Some e"
    "ef_grant e = sample_root_grant"
proof -
  obtain e where "effective_grant sample_policy_env 10 sample_threads (sample_policy [sample_ceiling]) sample_resource ''acquire'' [] sample_child = Inr (Some e)"
      "ef_grant e = sample_root_grant"
    using sample_effective by blast
  then show thesis
    using that snapshot_finds [OF sample_parents, of "''c''" sample_child "''desktop''" "''b:u:d''" "sample_policy [sample_ceiling]" sample_resource "''acquire''"
        sample_policy_env 10 sample_root_grant] by (auto simp: given_text_def)
qed

lemma sample_call:
  "\<exists>st'. assert_connector_access sample_policy_env 10 [] sample_threads sample_auth sample_dispatch (Some sample_dispatch) (sample_policy [sample_ceiling])
     = (Inr sample_auth, st')"
proof -
  obtain e where e: "effective_from_snapshot sample_policy_env 10 sample_threads (sample_policy [sample_ceiling]) ''c'' ''desktop'' ''b:u:d'' ''acquire'' = Some e"
      "ef_grant e = sample_root_grant"
    by (rule sample_found)
  have auth: "token_declared sample_auth" "\<not> au_operator sample_auth" "au_thread sample_auth = ''c''" "au_type sample_auth = ''desktop''"
      "au_resource sample_auth = ''b:u:d''" "au_root sample_auth = ''r''" "au_policy sample_auth = 1" "au_grant sample_auth = 1"
      "au_generation sample_auth = 1" "br_jti (au_bearer sample_auth) = ''j''" "dt_type sample_dispatch = ''desktop''" "dt_action sample_dispatch = ''acquire''"
    by (simp_all add: token_declared_def sample_auth_def sample_dispatch_def sample_bearer_def)
  have living: "\<not> retired_above sample_threads [] ''c''" "root_of sample_threads [] ''c'' = ''r''"
    by (simp_all add: retired_above.simps root_of.simps thread_is_retired_def sample_life_def)
  have guards: "first_denial (claim_guards sample_policy_env 10 sample_auth sample_dispatch True sample_dispatch) = None"
    by (simp add: claim_guards_def Let_def target_mismatch_def differs_def sample_dispatch_def sample_auth_def sample_target_def sorted_actions_def
        sample_bearer_def valid_claim_set_def lifetime_error_def same_operation_def or_default_def) (simp add: sample_policy_env_def max_token_lifetime_def mcp_audience_def)
  have usable: "find_resource ''desktop'' ''b:u:d'' (sample_policy [sample_ceiling]) = Some sample_resource" "resource_usable sample_auth sample_resource"
    by (simp_all add: find_resource_def resource_usable_def given_text_def sample_auth_def sample_holder_def)
  have source: "source_policy_revision (sample_policy [sample_ceiling]) ''r'' ''desktop'' = 1" "gr_thread sample_root_grant = ''r''" "gr_revision sample_root_grant = 1"
    by (simp_all add: source_policy_revision_def policy_of_def) (simp_all add: sample_thread_policy_def sample_root_grant_def)
  have current: "claims_current sample_policy_env 10 sample_threads (sample_policy [sample_ceiling]) sample_auth ''acquire'' ''r''"
    by (simp add: claims_current_def auth usable e source given_text_def)
  show ?thesis
    by (simp add: assert_connector_access_def requested_target_def Let_def auth living guards policy_checked_def usable e source persist_current_session_def
        mutate_policy_def persist_session_def current or_default_def)
qed

theorem connector_call_sound_witness:
  "\<exists>st' r t s. assert_connector_access sample_policy_env 10 [] sample_threads sample_auth sample_dispatch (Some sample_dispatch) (sample_policy [sample_ceiling])
     = (Inr sample_auth, st') \<and> holds sample_policy_env 10 sample_threads (sample_policy [sample_ceiling]) r ''acquire'' t \<and> s \<in> set (ps_sessions st')"
proof -
  obtain st' where call: "assert_connector_access sample_policy_env 10 [] sample_threads sample_auth sample_dispatch (Some sample_dispatch) (sample_policy [sample_ceiling])
     = (Inr sample_auth, st')"
    using sample_call by blast
  have action: "dt_action (target_of sample_dispatch) = ''acquire''" by (simp add: sample_dispatch_def target_of_def)
  have "access_mode sample_policy_env (normalize_resource_type (or_default (au_type (claims_of sample_auth)) (dt_type (requested_target sample_dispatch (Some sample_dispatch))))) = ''enforce''"
    by (simp add: requested_target_def or_default_def) (simp add: sample_dispatch_def)
  moreover have "target_declared (target_of sample_dispatch)" by (simp add: target_declared_def) (simp add: sample_dispatch_def)
  ultimately show ?thesis
    using connector_call_sound [OF call sample_parents] call action unfolding sample_policy_normal by auto
qed

end
