(* ===== verification/Spec2Isabelle.thy ===== *)
theory Spec2Isabelle
  imports RunnerFacts JobTriggers Timers JobScheduler JobBroker ClaudeJob LocalModel WhatsAppOnce EffectFiles OutboxOnce OutboxLaws ResourceSamples
begin

text \<open>
  A verification library for the durable Agent Jobs of Orkestr (\<open>src/packages/core/src/agent-job-*.js\<close>)
  and for what they rely on: timers, the file effect ledger, the connector outbox, the delivery of
  notifications, the leases of desktops, and the policy that says which threads may use which resources.

  An agent job is a specification in a file. A trigger (API call, webhook, schedule, manual) admits a
  run; the scheduler hands due runs to the runner, which takes a lease, starts attempts and lets a
  provider's executor work: Orkestr's own tool loop for the local model, or the native loop of Codex
  and Claude Code, whose tool calls pass a permission broker. External effects go through a ledger;
  what needs a human waits for an approval; every run ends sealed, with an audit record and
  notification intents, which a relay moves into the connector outbox and a dispatcher delivers.

  The theories, in the order in which they build on each other:

  \<^item> \<open>Prelude\<close>, \<open>Json\<close>, \<open>JsDate\<close>: strings, results, rows of a table, transactions; JSON values,
    \<open>JSON.stringify\<close> and \<open>stableStringify\<close>; calendar dates and ISO texts.
  \<^item> \<open>JobSpec\<close>, \<open>SpecCheck\<close>, \<open>SpecNormalize\<close>, \<open>SpecSound\<close>: \<open>agent-job-spec.js\<close>. The specification as a
    record, the section normalisers and their errors in order, and \<open>spec_wf\<close>, what a specification
    that is accepted satisfies: formats, lengths, minima, names without duplicates, and what the parts
    owe each other.
  \<^item> \<open>JobStore\<close>, \<open>StoreFacts\<close>: \<open>agent-job-store.js\<close>. The database is a record of tables (\<open>db\<close>), a row a
    record, a transaction a function of the database that commits or rolls back.
  \<^item> \<open>JobLedger\<close>, \<open>LedgerFacts\<close>: \<open>agent-job-ledger.js\<close>. Effect intents and their states, approvals, and
    the redaction of secrets.
  \<^item> \<open>JobAudit\<close>, \<open>JobProviders\<close>, \<open>JobAdmission\<close>: audit records, finalisation and notification intents;
    provider status and failure classes; the admission transaction and cancellation.
  \<^item> \<open>JobEffects\<close>, \<open>EffectsOnce\<close>, \<open>JobTools\<close>: \<open>agent-job-effects.js\<close> and its fault points as a monad over
    the database and an external world in which any step may be the last. \<open>EffectsOnce\<close> holds the
    at-most-once argument in the locale \<open>effect_tools\<close>, for any tools that keep its laws; \<open>JobTools\<close>
    models the registered tools and interprets the locale with them.
  \<^item> \<open>JobNative\<close>, \<open>JobOutput\<close>, \<open>JobRunner\<close>, \<open>RunnerFacts\<close>: native attempts, the output validator and the
    schemas of the local model, attempts, recovery, the drive loop, the lease and the sweep.
  \<^item> \<open>JobTriggers\<close>: webhook signatures, the hook handler, the trigger route and its token.
  \<^item> \<open>WhatsAppTriggers\<close>, \<open>WhatsAppOnce\<close>: \<open>whatsapp-job-triggers.js\<close>, messages that start runs or answer
    approvals, and their redelivery.
  \<^item> \<open>Timers\<close>, \<open>JobScheduler\<close>: \<open>timers.js\<close> and \<open>agent-job-scheduler.js\<close>. Zones, clock times and intervals;
    slots, the tick, and the scheduler's single flight as a step relation (\<open>scheduler_step\<close>).
  \<^item> \<open>JobBroker\<close>, \<open>ClaudeJob\<close>, \<open>LocalModel\<close>: the permission broker and its socket, the Claude Code executor
    as a machine over the events of its process, the local model executor and its event stream.
  \<^item> \<open>EffectFiles\<close>: \<open>effect-ledger.js\<close>, the ledger of thread executors in files, with a Hoare logic over
    processes that die.
  \<^item> \<open>Outbox\<close>, \<open>OutboxDispatch\<close>, \<open>OutboxFacts\<close>, \<open>OutboxOnce\<close>, \<open>OutboxLaws\<close>: \<open>connector-outbox.js\<close> over its SQLite
    store, \<open>whatsapp-replay-safety.js\<close>, the identity of runtime output, the notification relay, the
    dispatcher and webhook delivery. Dispatchers are programs of transactions and transport calls;
    \<open>machine_step\<close> runs any number of them side by side.

  \<^item> \<open>LegacyBytes\<close>, \<open>DesktopLeases\<close>, \<open>DesktopOperations\<close>, \<open>LeaseFacts\<close>, \<open>LeaseGrants\<close>, \<open>LeaseHistory\<close>,
    \<open>LeaseSamples\<close>: the leases of desktops that threads drive (\<open>desktop-lease-*.js\<close>, \<open>desktop-leases.js\<close>). The
    state file is a record that the holder of a lock reads and rewrites; \<open>lease_step\<close> runs any number
    of processes over it; the canonical bytes of retired history are a prefix-free code.
  \<^item> \<open>ResourcePolicy\<close>, \<open>ResourceChanges\<close>, \<open>ResourceSessions\<close>: \<open>thread-resource-policy-*.js\<close> and
    \<open>thread-resource-sessions.js\<close>. Resources, the grants of threads on them and the ceilings of their children
    are rows of one state (\<open>policy_state\<close>), which every change reads in normal form and rewrites in one
    transaction (\<open>mutate_policy\<close>); the access decision, and the bearers of connector calls.
  \<^item> \<open>ResourceFacts\<close>, \<open>ResourceRevoked\<close>, \<open>ResourceCeilings\<close>, \<open>ResourceCalls\<close>, \<open>ResourceSamples\<close>: what they guarantee.
    \<open>holds\<close> is the specification of authority: a chain of parents from a root with a grant of its own, every
    ceiling on the way containing the permission; the code's two computations are related to it.
    \<open>policy_step\<close> is any change of the policy, as a child's ceiling outlives it.

  What the groups of lemmas show. Admission: an event starts one run, redelivery changes nothing, only
  the policy \<open>replace\<close> touches other runs. Effects: a tool's effect happens at most once, however
  attempts crash, are retried and resumed; the same for the file ledger and for WhatsApp messages
  with dispatchers side by side. Approvals: decided once, spent once, by exactly the call they were
  granted for; the broker and both executors fail closed. Ends: a drive ends, a run is finalised once,
  notifications are recorded and enqueued once. Triggers: only authentic requests act, replays start
  nothing, as long as the run of the first delivery and the declaration of the trigger are kept.
  Schedules: each slot fires once, the next run lies ahead in a steady zone, and a schedule in an unknown
  zone stalls every tick (\<open>ticked\<close>). Desktops: fencing versions
  only grow, so that a holder that was replaced never acts again; only a lease that expired or went
  stale changes hands without force; the retired history of an adopted file is fixed. Resources: an
  enforced access or connector call rests on authority from a root; taking the grants of a thread cuts
  off what is below it and ends the bearers; a child's ceiling lies within its parent's and is captured
  once. Some theorems
  state where the code falls short of what it means to do; the manifest lists them as findings.

  Conventions. A HOL string is a list of 8-bit characters. Numbers are integers; a number that is not
  one is kept as its text. Instants are integers of milliseconds. A missing value is \<open>None\<close>. A thrown
  error is the left of a sum, with the code and status of the source. Random ids, the clock, SHA-256,
  HMAC, the zone database, the URL parser, regular expressions of users, HTTP and child processes are
  arguments of the definitions that use them; where a theorem needs a property of one of them it is a
  hypothesis, and a witness instantiates it.

  Bounds. The drive loop has fuel; \<open>drive_leased_ends\<close> shows that one round more than the attempts that the
  pinned specification allows is enough. Everything else recurses on its data. The theorems about
  the outbox assume that the rows in play fit into its retention limit, since pruning a final row
  would forget that it was delivered.

  Not modelled. SQLite and PostgreSQL themselves, migrations, file modes and directories; audit events
  of the log; timers of the platform (heartbeats, deadlines), which are events of the environment;
  concurrent calls of the file ledger, which takes no lock; the file lock of desktop leases, the archive
  of their history and the JSON text of their state; the stores of the resource policy, its events and
  metrics, and the mailbox rows in its state; the Codex app server protocol and the
  thread executors behind the registry; connectors besides the outbox, the web application, the
  server's controllers, tenants, vault, mailboxes, browsers and the command line, which are input and
  output over other services or are not reached yet.

  Where a definition is coarser than its code. \<open>json_member\<close> and \<open>json_pointer\<close> find the members a
  value has itself, not those every object inherits. A native attempt starts without granted effects
  (\<open>run_native_attempt\<close>), where the source keeps them over the attempts of one drive. An operator's
  action on the outbox reads and writes its row in one step (\<open>apply_outbox_action\<close>); the source reads
  the row before it takes the lock. The relay of intents (\<open>relay_intents\<close>) can die between putting a row
  into the outbox and marking its intent, not between two intents, where a death leaves what a relay
  with fewer intents leaves. \<open>drive_ended\<close> is the end of a drive and the removal of its mark, between which the
  source relays notifications. The chunks of a model's stream come decoded: a character that a border
  of chunks divides is not modelled. A retired child's policy is made explicit by the retirement of its
  thread, which \<open>policy_step\<close> leaves out for the child itself.
\<close>

end
